(* ===== verification/Prelude.thy ===== *)
theory Prelude
  imports Main "HOL-Library.Word" "HOL-Library.Char_ord" "HOL-Library.List_Lexorder"
    "HOL-Library.Sublist" "HOL-Library.AList" "HOL-Library.Multiset"
begin

text \<open>
  What every component shares: the result type of fallible code, the widths of Rust's machine
  integers, chrono's clock values, the parts of \<^verbatim>\<open>str\<close> and \<^verbatim>\<open>slice\<close> the sources call
  (ASCII case folding, \<^verbatim>\<open>trim\<close>, \<^verbatim>\<open>split\<close>, stable \<^verbatim>\<open>sort_by\<close>, \<^verbatim>\<open>dedup_by\<close>) and hash maps as
  association lists in iteration order. A Rust string is its UTF-8 byte sequence, a
  \<open>char list\<close>.
\<close>

named_theorems rust_defs \<open>definitions of the modelled standard library, for unfolding\<close>

section \<open>Fallible code\<close>

text \<open>\<^verbatim>\<open>anyhow::Error\<close> values carry their message; a panic is kept apart from an error.\<close>

datatype fault = Err string | Panic string

type_synonym 'a res = "fault + 'a"

definition bind_res :: "'a res \<Rightarrow> ('a \<Rightarrow> 'b res) \<Rightarrow> 'b res" where
  "bind_res r f = (case r of Inl e \<Rightarrow> Inl e | Inr a \<Rightarrow> f a)"

lemma bind_res_Inr [simp]: "bind_res (Inr a) f = f a"
  by (simp add: bind_res_def)

lemma bind_res_Inl [simp]: "bind_res (Inl e) f = Inl e"
  by (simp add: bind_res_def)

lemma bind_res_eq_Inr: "bind_res r f = Inr b \<longleftrightarrow> (\<exists>a. r = Inr a \<and> f a = Inr b)"
  by (auto simp: bind_res_def split: sum.splits)

section \<open>Machine integers\<close>

type_synonym u64 = "64 word"

text \<open>A signed 64-bit value is an \<open>int\<close>; release builds wrap on overflow.\<close>

definition wrap_i64 :: "int \<Rightarrow> int" where
  "wrap_i64 x = (x + 2 ^ 63) mod 2 ^ 64 - 2 ^ 63"

definition i64_range :: "int \<Rightarrow> bool" where
  "i64_range x \<longleftrightarrow> - (2 ^ 63) \<le> x \<and> x < 2 ^ 63"

lemma wrap_i64_id: "i64_range x \<Longrightarrow> wrap_i64 x = x"
  by (simp add: wrap_i64_def i64_range_def)

lemma wrap_i64_range: "i64_range (wrap_i64 x)"
proof -
  have "(x + 2 ^ 63) mod 2 ^ 64 < (2 ^ 64 :: int)" "0 \<le> (x + 2 ^ 63) mod (2 ^ 64 :: int)"
    by simp_all
  then show ?thesis by (simp add: wrap_i64_def i64_range_def)
qed

text \<open>\<^verbatim>\<open>as i32\<close> keeps the low 32 bits in two's complement.\<close>

definition wrap_i32 :: "int \<Rightarrow> int" where
  "wrap_i32 x = (x + 2 ^ 31) mod 2 ^ 32 - 2 ^ 31"

section \<open>Clock values\<close>

text \<open>
  A \<^verbatim>\<open>DateTime<Utc>\<close> is the number of nanoseconds since the epoch, a \<^verbatim>\<open>Duration\<close> a number of
  nanoseconds. \<open>num_milliseconds\<close> truncates towards zero.
\<close>

type_synonym datetime = int

definition num_milliseconds :: "int \<Rightarrow> int" where
  "num_milliseconds d = sgn d * (\<bar>d\<bar> div 1000000)"

definition nanos_per_sec :: int where
  "nanos_per_sec = 1000000000"

definition num_seconds :: "int \<Rightarrow> int" where
  "num_seconds d = sgn d * (\<bar>d\<bar> div nanos_per_sec)"

definition nanos_per_min :: int where
  "nanos_per_min = 60 * nanos_per_sec"

lemma num_milliseconds_nonneg: "0 \<le> d \<Longrightarrow> num_milliseconds d = d div 1000000"
  by (cases "d = 0") (auto simp: num_milliseconds_def sgn_if)

lemma num_milliseconds_ge_0: "0 \<le> d \<Longrightarrow> 0 \<le> num_milliseconds d"
  by (simp add: num_milliseconds_nonneg pos_imp_zdiv_nonneg_iff)

lemma num_milliseconds_neg: "num_milliseconds d < 0 \<longleftrightarrow> d \<le> - 1000000"
proof (cases "d < 0")
  case True
  then have "num_milliseconds d = - ((- d) div 1000000)"
    by (simp add: num_milliseconds_def)
  then show ?thesis by auto
next
  case False
  then show ?thesis using num_milliseconds_ge_0 [of d] by auto
qed

section \<open>Strings\<close>

definition upper_letters :: string where
  "upper_letters = ''ABCDEFGHIJKLMNOPQRSTUVWXYZ''"

definition lower_letters :: string where
  "lower_letters = ''abcdefghijklmnopqrstuvwxyz''"

definition lower_char :: "char \<Rightarrow> char" where
  "lower_char c =
     (case map_of (zip upper_letters lower_letters) c of None \<Rightarrow> c | Some d \<Rightarrow> d)"

definition upper_char :: "char \<Rightarrow> char" where
  "upper_char c =
     (case map_of (zip lower_letters upper_letters) c of None \<Rightarrow> c | Some d \<Rightarrow> d)"

definition to_ascii_lowercase :: "string \<Rightarrow> string" where
  "to_ascii_lowercase s = map lower_char s"

definition to_ascii_uppercase :: "string \<Rightarrow> string" where
  "to_ascii_uppercase s = map upper_char s"

definition eq_ignore_ascii_case :: "string \<Rightarrow> string \<Rightarrow> bool" where
  "eq_ignore_ascii_case s t \<longleftrightarrow> to_ascii_lowercase s = to_ascii_lowercase t"

text \<open>
  \<^verbatim>\<open>str::trim\<close> removes Unicode white space. Over UTF-8 bytes each white-space code point is one
  fixed byte sequence, and in well-formed text such a sequence at an end is that code point.
\<close>

definition ws_seqs :: "string list" where
  "ws_seqs =
     [[CHR 0x09], [CHR 0x0A], [CHR 0x0B], [CHR 0x0C], [CHR 0x0D], [CHR 0x20],
      [CHR 0xC2, CHR 0x85], [CHR 0xC2, CHR 0xA0], [CHR 0xE1, CHR 0x9A, CHR 0x80]]
     @ map (\<lambda>b. [CHR 0xE2, CHR 0x80, b])
         [CHR 0x80, CHR 0x81, CHR 0x82, CHR 0x83, CHR 0x84, CHR 0x85, CHR 0x86, CHR 0x87,
          CHR 0x88, CHR 0x89, CHR 0x8A, CHR 0xA8, CHR 0xA9, CHR 0xAF]
     @ [[CHR 0xE2, CHR 0x81, CHR 0x9F], [CHR 0xE3, CHR 0x80, CHR 0x80]]"

function trim_by :: "string list \<Rightarrow> string \<Rightarrow> string" where
  "trim_by ws s =
     (case List.find (\<lambda>w. w \<noteq> [] \<and> prefix w s) ws of
        None \<Rightarrow> s
      | Some w \<Rightarrow> trim_by ws (drop (length w) s))"
  by pat_completeness auto
termination
  by (relation "measure (\<lambda>(ws, s). length s)")
     (auto simp: find_Some_iff prefix_def neq_Nil_conv)

declare trim_by.simps [simp del]

definition trim_start :: "string \<Rightarrow> string" where
  "trim_start s = trim_by ws_seqs s"

definition trim_end :: "string \<Rightarrow> string" where
  "trim_end s = rev (trim_by (map rev ws_seqs) (rev s))"

definition trim :: "string \<Rightarrow> string" where
  "trim s = trim_end (trim_start s)"

text \<open>\<^verbatim>\<open>split(c)\<close> yields at least one piece; \<^verbatim>\<open>split_once\<close> cuts at the first occurrence.\<close>

fun split_on :: "'a \<Rightarrow> 'a list \<Rightarrow> 'a list list" where
  "split_on c [] = [[]]"
| "split_on c (x # xs) =
     (if x = c then [] # split_on c xs
      else (case split_on c xs of [] \<Rightarrow> [[x]] | p # ps \<Rightarrow> (x # p) # ps))"

fun split_once :: "'a \<Rightarrow> 'a list \<Rightarrow> ('a list \<times> 'a list) option" where
  "split_once c [] = None"
| "split_once c (x # xs) =
     (if x = c then Some ([], xs)
      else map_option (\<lambda>(p, r). (x # p, r)) (split_once c xs))"

definition non_empty :: "string \<Rightarrow> string option" where
  "non_empty s = (if s = [] then None else Some s)"

definition contains_str :: "string \<Rightarrow> string \<Rightarrow> bool" where
  "contains_str s t \<longleftrightarrow> sublist t s"

definition strip_prefix :: "string \<Rightarrow> string \<Rightarrow> string option" where
  "strip_prefix p s = (if prefix p s then Some (drop (length p) s) else None)"

definition strip_suffix :: "string \<Rightarrow> string \<Rightarrow> string option" where
  "strip_suffix p s = (if suffix p s then Some (take (length s - length p) s) else None)"

definition trim_end_matches :: "char \<Rightarrow> string \<Rightarrow> string" where
  "trim_end_matches c s = rev (dropWhile (\<lambda>x. x = c) (rev s))"

fun join :: "'a list \<Rightarrow> 'a list list \<Rightarrow> 'a list" where
  "join sep [] = []"
| "join sep [p] = p"
| "join sep (p # q # ps) = p @ sep @ join sep (q # ps)"

text \<open>
  \<^verbatim>\<open>to_uppercase\<close> is ASCII folding on ASCII text; \<open>unicode\<close> is the Unicode case mapping, used for
  all other text.
\<close>

definition is_ascii :: "string \<Rightarrow> bool" where
  "is_ascii s = list_all (\<lambda>c. of_char c < (128::nat)) s"

definition to_uppercase :: "(string \<Rightarrow> string) \<Rightarrow> string \<Rightarrow> string" where
  "to_uppercase unicode s = (if is_ascii s then to_ascii_uppercase s else unicode s)"

text \<open>Decimal rendering of an unsigned integer, as \<^verbatim>\<open>format!\<close> prints it.\<close>

fun nat_to_string :: "nat \<Rightarrow> string" where
  "nat_to_string n =
     (if n < 10 then [''0123456789'' ! n]
      else nat_to_string (n div 10) @ [''0123456789'' ! (n mod 10)])"

declare nat_to_string.simps [simp del]

definition int_to_string :: "int \<Rightarrow> string" where
  "int_to_string i = (if i < 0 then ''-'' @ nat_to_string (nat (- i)) else nat_to_string (nat i))"

text \<open>\<^verbatim>\<open>str::parse\<close> for unsigned and signed 64-bit integers.\<close>

definition digit_value :: "char \<Rightarrow> nat option" where
  "digit_value c = map_of (zip ''0123456789'' [0..<10]) c"

fun parse_digits :: "nat \<Rightarrow> string \<Rightarrow> nat option" where
  "parse_digits acc [] = Some acc"
| "parse_digits acc (c # cs) =
     (case digit_value c of None \<Rightarrow> None | Some d \<Rightarrow> parse_digits (10 * acc + d) cs)"

definition parse_nat :: "string \<Rightarrow> nat option" where
  "parse_nat s = (if s = [] then None else parse_digits 0 s)"

definition strip_plus :: "string \<Rightarrow> string" where
  "strip_plus s = (case s of CHR ''+'' # r \<Rightarrow> r | _ \<Rightarrow> s)"

definition parse_unsigned :: "nat \<Rightarrow> string \<Rightarrow> nat option" where
  "parse_unsigned bits s =
     (case parse_nat (strip_plus s) of
        None \<Rightarrow> None
      | Some n \<Rightarrow> if n < 2 ^ bits then Some n else None)"

definition parse_u64 :: "string \<Rightarrow> nat option" where
  "parse_u64 s = parse_unsigned 64 s"

definition parse_u128 :: "string \<Rightarrow> nat option" where
  "parse_u128 s = parse_unsigned 128 s"

definition parse_i64 :: "string \<Rightarrow> int option" where
  "parse_i64 s =
     (case s of
        CHR ''-'' # r \<Rightarrow>
          (case parse_nat r of
             None \<Rightarrow> None
           | Some n \<Rightarrow> if n \<le> 2 ^ 63 then Some (- int n) else None)
      | _ \<Rightarrow>
          (case parse_nat (strip_plus s) of
             None \<Rightarrow> None
           | Some n \<Rightarrow> if n < 2 ^ 63 then Some (int n) else None))"

section \<open>Slices\<close>

text \<open>
  \<^verbatim>\<open>sort_by\<close> is stable. For a comparator that is a total preorder every stable sort gives the same
  result; insertion sort from the right is the simplest of them.
\<close>

fun insert_by :: "('a \<Rightarrow> 'a \<Rightarrow> bool) \<Rightarrow> 'a \<Rightarrow> 'a list \<Rightarrow> 'a list" where
  "insert_by le x [] = [x]"
| "insert_by le x (y # ys) = (if le x y then x # y # ys else y # insert_by le x ys)"

definition sort_by :: "('a \<Rightarrow> 'a \<Rightarrow> bool) \<Rightarrow> 'a list \<Rightarrow> 'a list" where
  "sort_by le xs = foldr (insert_by le) xs []"

text \<open>\<^verbatim>\<open>dedup_by(same)\<close> drops an element that is \<open>same\<close> as the last one kept.\<close>

fun dedup_from :: "('a \<Rightarrow> 'a \<Rightarrow> bool) \<Rightarrow> 'a \<Rightarrow> 'a list \<Rightarrow> 'a list" where
  "dedup_from same y [] = [y]"
| "dedup_from same y (x # xs) =
     (if same x y then dedup_from same y xs else y # dedup_from same x xs)"

definition dedup_by :: "('a \<Rightarrow> 'a \<Rightarrow> bool) \<Rightarrow> 'a list \<Rightarrow> 'a list" where
  "dedup_by same xs = (case xs of [] \<Rightarrow> [] | x # r \<Rightarrow> dedup_from same x r)"

text \<open>The last \<open>n\<close> elements: what is left after \<^verbatim>\<open>drain(0..len - n)\<close>.\<close>

definition keep_last :: "nat \<Rightarrow> 'a list \<Rightarrow> 'a list" where
  "keep_last n xs = drop (length xs - n) xs"

definition max_opt :: "'a::linorder list \<Rightarrow> 'a option" where
  "max_opt xs = (case xs of [] \<Rightarrow> None | x # r \<Rightarrow> Some (fold max r x))"

section \<open>Lemmas on the shared functions\<close>

lemma mset_insert_by [simp]: "mset (insert_by le x xs) = add_mset x (mset xs)"
  by (induction xs) auto

lemma mset_sort_by [simp]: "mset (sort_by le xs) = mset xs"
  by (induction xs) (simp_all add: sort_by_def)

lemma set_sort_by [simp]: "set (sort_by le xs) = set xs"
  using mset_sort_by [of le xs] by (metis set_mset_mset)

lemma length_sort_by [simp]: "length (sort_by le xs) = length xs"
  using mset_sort_by [of le xs] by (metis size_mset)

lemma sort_by_eq_Nil [simp]: "sort_by le xs = [] \<longleftrightarrow> xs = []"
  using length_sort_by [of le xs] by (metis length_0_conv)

lemma set_insert_by [simp]: "set (insert_by le x xs) = insert x (set xs)"
  by (induction xs) auto

text \<open>A comparator that orders the elements at hand: total and transitive on them.\<close>

definition orders_on :: "'a set \<Rightarrow> ('a \<Rightarrow> 'a \<Rightarrow> bool) \<Rightarrow> bool" where
  "orders_on A le \<longleftrightarrow>
     (\<forall>x y. x \<in> A \<and> y \<in> A \<longrightarrow> le x y \<or> le y x) \<and>
     (\<forall>x y z. x \<in> A \<and> y \<in> A \<and> z \<in> A \<and> le x y \<and> le y z \<longrightarrow> le x z)"

lemma orders_on_total: "orders_on A le \<Longrightarrow> x \<in> A \<Longrightarrow> y \<in> A \<Longrightarrow> \<not> le x y \<Longrightarrow> le y x"
  unfolding orders_on_def by blast

lemma orders_on_trans:
  "orders_on A le \<Longrightarrow> le x y \<Longrightarrow> le y z \<Longrightarrow> x \<in> A \<Longrightarrow> y \<in> A \<Longrightarrow> z \<in> A \<Longrightarrow> le x z"
  unfolding orders_on_def by blast

lemma insert_by_sorted_wrt:
  assumes "orders_on A le" "x \<in> A" "set xs \<subseteq> A" "sorted_wrt le xs"
  shows "sorted_wrt le (insert_by le x xs)"
  using assms(3,4)
proof (induction xs)
  case (Cons y ys)
  show ?case
  proof (cases "le x y")
    case True
    have "le x z" if "z \<in> set ys" for z
      using that True Cons.prems assms(2) by (intro orders_on_trans [OF assms(1) True]) auto
    with True Cons.prems show ?thesis by simp
  next
    case False
    then have "le y x"
      using Cons.prems assms(2) by (intro orders_on_total [OF assms(1)]) auto
    with False Cons show ?thesis by simp
  qed
qed simp

lemma sort_by_sorted_wrt:
  assumes "orders_on A le" "set xs \<subseteq> A"
  shows "sorted_wrt le (sort_by le xs)"
  using assms(2)
proof (induction xs)
  case (Cons x xs)
  then have "sorted_wrt le (insert_by le x (sort_by le xs))"
    by (intro insert_by_sorted_wrt [OF assms(1)]) simp_all
  then show ?case by (simp add: sort_by_def)
qed (simp add: sort_by_def)

lemma set_dedup_from: "set (dedup_from same y xs) \<subseteq> insert y (set xs)"
  by (induction xs arbitrary: y) auto

lemma set_dedup_by: "set (dedup_by same xs) \<subseteq> set xs"
  using set_dedup_from by (fastforce simp: dedup_by_def split: list.splits)

lemma sorted_wrt_dedup_from:
  "sorted_wrt le (y # xs) \<Longrightarrow> sorted_wrt le (dedup_from same y xs)"
proof (induction xs arbitrary: y)
  case (Cons x xs)
  then show ?case using set_dedup_from [of same x xs] by auto
qed simp

lemma sorted_wrt_dedup_by: "sorted_wrt le xs \<Longrightarrow> sorted_wrt le (dedup_by same xs)"
  by (auto simp: dedup_by_def sorted_wrt_dedup_from split: list.splits)

lemma length_keep_last [simp]: "length (keep_last n xs) = min n (length xs)"
  by (simp add: keep_last_def)

lemma sorted_wrt_drop_suffix: "sorted_wrt P xs \<Longrightarrow> sorted_wrt P (drop n xs)"
  by (metis append_take_drop_id sorted_wrt_append)

lemma sorted_wrt_keep_last: "sorted_wrt P xs \<Longrightarrow> sorted_wrt P (keep_last n xs)"
  by (simp add: keep_last_def sorted_wrt_drop_suffix)

lemma set_keep_last: "set (keep_last n xs) \<subseteq> set xs"
  by (simp add: keep_last_def set_drop_subset)

lemma split_on_neq_Nil [simp]: "split_on c xs \<noteq> []"
  by (induction xs) (auto split: list.splits)

lemma split_on_no_sep: "c \<notin> set xs \<Longrightarrow> split_on c xs = [xs]"
  by (induction xs) auto

lemma split_on_append:
  "c \<notin> set xs \<Longrightarrow> split_on c (xs @ c # ys) = xs # split_on c ys"
  by (induction xs) auto

lemma split_on_join:
  assumes "ps \<noteq> []" "\<forall>p \<in> set ps. c \<notin> set p"
  shows "split_on c (join [c] ps) = ps"
  using assms by (induction "[c]" ps rule: join.induct) (simp_all add: split_on_no_sep split_on_append)

lemma split_on_pieces: "p \<in> set (split_on c xs) \<Longrightarrow> c \<notin> set p \<and> set p \<subseteq> set xs"
proof (induction xs arbitrary: p)
  case (Cons x xs)
  obtain q qs where q: "split_on c xs = q # qs" using split_on_neq_Nil [of c xs] by (meson list.exhaust)
  then have "c \<notin> set q \<and> set q \<subseteq> set xs" "r \<in> set qs \<Longrightarrow> c \<notin> set r \<and> set r \<subseteq> set xs" for r
    using Cons.IH by auto
  with Cons.prems q show ?case by (auto split: if_splits)
qed simp

lemma split_once_append: "c \<notin> set xs \<Longrightarrow> split_once c (xs @ c # ys) = Some (xs, ys)"
  by (induction xs) auto

lemma split_once_None: "c \<notin> set xs \<Longrightarrow> split_once c xs = None"
  by (induction xs) auto

text \<open>What \<^verbatim>\<open>format!\<close> prints for an unsigned integer, \<^verbatim>\<open>parse\<close> reads back.\<close>

lemma digit_value_digit: "n < 10 \<Longrightarrow> digit_value (''0123456789'' ! n) = Some n"
proof -
  assume "n < 10"
  then have "n \<in> set [0..<10]" by simp
  moreover have "\<forall>k \<in> set [0..<10]. digit_value (''0123456789'' ! k) = Some k" by code_simp
  ultimately show ?thesis by blast
qed

lemma parse_digits_append:
  "parse_digits acc (xs @ ys) = Option.bind (parse_digits acc xs) (\<lambda>a. parse_digits a ys)"
  by (induction xs arbitrary: acc) (auto split: option.splits)

lemma parse_digits_nat_to_string: "parse_digits 0 (nat_to_string n) = Some n"
proof (induction n rule: nat_to_string.induct)
  case (1 n)
  show ?case
  proof (cases "n < 10")
    case True
    then show ?thesis using digit_value_digit [OF True] by (simp add: nat_to_string.simps [of n])
  next
    case False
    then show ?thesis using 1 digit_value_digit [of "n mod 10"]
      by (simp add: nat_to_string.simps [of n] parse_digits_append)
  qed
qed

lemma digits_of_nat: "c \<in> set (nat_to_string n) \<Longrightarrow> digit_value c \<noteq> None"
proof (induction n rule: nat_to_string.induct)
  case (1 n)
  show ?case
  proof (cases "n < 10")
    case True
    with 1 show ?thesis using digit_value_digit [OF True] by (simp add: nat_to_string.simps [of n])
  next
    case False
    then have "c \<in> set (nat_to_string (n div 10)) \<or> c = ''0123456789'' ! (n mod 10)"
      using 1(2) by (subst (asm) nat_to_string.simps) auto
    with 1 False show ?thesis using digit_value_digit [of "n mod 10"] by auto
  qed
qed

lemma nat_to_string_neq_Nil [simp]: "nat_to_string n \<noteq> []"
  by (simp add: nat_to_string.simps [of n])

lemma strip_plus_nat_to_string: "strip_plus (nat_to_string n) = nat_to_string n"
proof (cases "nat_to_string n")
  case (Cons c r)
  moreover have "digit_value (CHR ''+'') = None" by code_simp
  ultimately have "c \<noteq> CHR ''+''" using digits_of_nat [of c n] by auto
  with Cons show ?thesis by (simp add: strip_plus_def split: char.splits bool.splits)
qed (simp add: strip_plus_def)

lemma parse_u64_nat_to_string: "n < 2 ^ 64 \<Longrightarrow> parse_u64 (nat_to_string n) = Some n"
  by (simp add: parse_u64_def parse_unsigned_def strip_plus_nat_to_string parse_nat_def
      parse_digits_nat_to_string)

text \<open>Trimming: no white space is left at either end, so trimming again changes nothing.\<close>

lemma trim_by_suffix: "suffix (trim_by ws s) s"
proof (induction ws s rule: trim_by.induct)
  case (1 ws s)
  show ?case
  proof (cases "List.find (\<lambda>w. w \<noteq> [] \<and> prefix w s) ws")
    case (Some w)
    have "suffix (trim_by ws (drop (length w) s)) s"
      by (rule suffix_order.trans [OF 1 [OF Some] suffix_drop])
    with Some show ?thesis by (subst trim_by.simps) simp
  qed (subst trim_by.simps, simp)
qed

lemma trim_by_clean: "w \<in> set ws \<Longrightarrow> w \<noteq> [] \<Longrightarrow> \<not> prefix w (trim_by ws s)"
proof (induction ws s rule: trim_by.induct)
  case (1 ws s)
  show ?case
  proof (cases "List.find (\<lambda>w. w \<noteq> [] \<and> prefix w s) ws")
    case None
    then have "trim_by ws s = s" by (subst trim_by.simps) simp
    with None show ?thesis using 1 by (auto simp: find_None_iff)
  next
    case (Some v)
    then show ?thesis using 1 by (subst trim_by.simps) auto
  qed
qed

lemma trim_by_id: "(\<And>w. w \<in> set ws \<Longrightarrow> w \<noteq> [] \<Longrightarrow> \<not> prefix w s) \<Longrightarrow> trim_by ws s = s"
  by (subst trim_by.simps) (auto simp: find_Some_iff split: option.splits)

lemma trim_ends:
  assumes "w \<in> set ws_seqs"
  shows "\<not> prefix w (trim s)" "\<not> suffix w (trim s)"
proof -
  have ne: "w \<noteq> []" using assms by (auto simp: ws_seqs_def)
  have "\<not> prefix (rev w) (trim_by (map rev ws_seqs) (rev (trim_start s)))"
    by (rule trim_by_clean) (use assms ne in auto)
  then show "\<not> suffix w (trim s)" by (simp add: trim_def trim_end_def suffix_to_prefix)
  have "prefix (trim s) (trim_start s)"
    using trim_by_suffix [of "map rev ws_seqs" "rev (trim_start s)"]
    by (simp add: trim_def trim_end_def suffix_to_prefix)
  moreover have "\<not> prefix w (trim_start s)"
    unfolding trim_start_def by (rule trim_by_clean [OF assms ne])
  ultimately show "\<not> prefix w (trim s)" using prefix_order.trans by blast
qed

lemma trim_idI:
  assumes "\<And>w. w \<in> set ws_seqs \<Longrightarrow> \<not> prefix w s \<and> \<not> suffix w s"
  shows "trim s = s"
proof -
  have "trim_start s = s" unfolding trim_start_def using assms by (intro trim_by_id) blast
  moreover have "trim_by (map rev ws_seqs) (rev s) = rev s"
    using assms by (intro trim_by_id) (auto simp: suffix_to_prefix)
  ultimately show ?thesis by (simp add: trim_def trim_end_def)
qed

lemma trim_trim [simp]: "trim (trim s) = trim s"
  by (rule trim_idI) (simp add: trim_ends)

lemma set_trim_by: "set (trim_by ws s) \<subseteq> set s"
  using trim_by_suffix [of ws s] by (auto dest: set_mono_suffix)

lemma set_trim: "set (trim s) \<subseteq> set s"
  using set_trim_by [of "map rev ws_seqs" "rev (trim_start s)"] set_trim_by [of ws_seqs s]
  by (auto simp: trim_def trim_end_def trim_start_def)

text \<open>ASCII upper case: every letter becomes an upper-case one, everything else is kept.\<close>

lemma upper_char_cases: "upper_char c = c \<and> c \<notin> set lower_letters \<or> upper_char c \<in> set upper_letters"
proof (cases "map_of (zip lower_letters upper_letters) c")
  case None
  have "fst ` set (zip lower_letters upper_letters) = set lower_letters"
    by (rule set_map [symmetric, THEN trans]) (simp add: lower_letters_def upper_letters_def)
  with None have "c \<notin> set lower_letters" by (metis map_of_eq_None_iff)
  with None show ?thesis by (simp add: upper_char_def)
next
  case (Some d)
  then have "d \<in> set upper_letters" by (meson map_of_SomeD set_zip_rightD)
  with Some show ?thesis by (simp add: upper_char_def)
qed

lemma upper_letters_fixed: "\<forall>c \<in> set upper_letters. upper_char c = c"
  by code_simp

lemma upper_char_idem [simp]: "upper_char (upper_char c) = upper_char c"
  using upper_char_cases [of c] upper_letters_fixed by metis

lemma upper_char_preimage: "b \<notin> set upper_letters \<Longrightarrow> upper_char c = b \<Longrightarrow> c = b"
  using upper_char_cases [of c] by auto

lemma upper_char_ascii: "of_char c < (128::nat) \<Longrightarrow> of_char (upper_char c) < (128::nat)"
proof -
  have "\<forall>d \<in> set upper_letters. of_char d < (128::nat)" by code_simp
  then show "of_char c < (128::nat) \<Longrightarrow> ?thesis" using upper_char_cases [of c] by metis
qed

lemma map_upper_preimage:
  "\<forall>b \<in> set w. b \<notin> set upper_letters \<Longrightarrow> map upper_char y = w \<Longrightarrow> y = w"
  by (induction y arbitrary: w) (auto dest: upper_char_preimage)

lemma ws_not_letters: "\<forall>w \<in> set ws_seqs. \<forall>b \<in> set w. b \<notin> set upper_letters"
  by code_simp

lemma trim_map_upper:
  assumes "trim s = s"
  shows "trim (map upper_char s) = map upper_char s"
proof (rule trim_idI)
  fix w assume w: "w \<in> set ws_seqs"
  then have pre: "map upper_char y = w \<Longrightarrow> y = w" for y
    using ws_not_letters map_upper_preimage by blast
  have "\<not> prefix w s" "\<not> suffix w s" using trim_ends [OF w, of s] assms by simp_all
  moreover have "prefix w (map upper_char s) \<Longrightarrow> prefix w s"
    using pre by (auto simp: prefix_def map_eq_append_conv)
  moreover have "suffix w (map upper_char s) \<Longrightarrow> suffix w s"
    using pre by (auto simp: suffix_def map_eq_append_conv)
  ultimately show "\<not> prefix w (map upper_char s) \<and> \<not> suffix w (map upper_char s)" by blast
qed

lemma max_opt_ge: "max_opt xs = Some m \<Longrightarrow> x \<in> set xs \<Longrightarrow> x \<le> m"
proof (cases xs)
  case (Cons y ys)
  assume "max_opt xs = Some m" "x \<in> set xs"
  moreover have "\<And>z. z \<le> fold max ys z \<and> (\<forall>v \<in> set ys. v \<le> fold max ys z)"
  proof (induction ys)
    case (Cons v vs)
    have "max v z \<le> fold max vs (max v z)" "\<forall>u \<in> set vs. u \<le> fold max vs (max v z)" for z
      using Cons by blast+
    then show ?case by simp
  qed simp
  ultimately show "x \<le> m" using Cons by (auto simp: max_opt_def)
qed simp

lemma max_opt_in: "max_opt xs = Some m \<Longrightarrow> m \<in> set xs"
proof (cases xs)
  case (Cons y ys)
  assume "max_opt xs = Some m"
  moreover have "\<And>z. fold max ys z \<in> insert z (set ys)"
  proof (induction ys)
    case (Cons v vs)
    then show ?case by (auto simp: max_def)
  qed simp
  ultimately show "m \<in> set xs" using Cons by (auto simp: max_opt_def)
qed (simp add: max_opt_def)

lemma eq_ignore_ascii_case_refl [simp]: "eq_ignore_ascii_case s s"
  by (simp add: eq_ignore_ascii_case_def)

section \<open>Components as state machines\<close>

text \<open>
  A component whose operations arrive as a sequence of events (calls from several tasks in any
  interleaving, entries of a stream). The contract it promises is an invariant that every
  operation keeps; what holds after one operation then holds after every sequence of them.
\<close>

locale invariant_machine =
  fixes step :: "'s \<Rightarrow> 'e \<Rightarrow> 's"
    and inv :: "'s \<Rightarrow> bool"
  assumes inv_step: "inv s \<Longrightarrow> inv (step s e)"
begin

lemma inv_run: "inv s \<Longrightarrow> inv (foldl step s es)"
  by (induction es arbitrary: s) (simp_all add: inv_step)

end

text \<open>
  The same where the invariant is kept only by the events of a kind, such as those during which no
  statement of the database fails.
\<close>

locale guarded_machine =
  fixes step :: "'s \<Rightarrow> 'e \<Rightarrow> 's"
    and ok :: "'e \<Rightarrow> bool"
    and inv :: "'s \<Rightarrow> bool"
  assumes ok_step: "ok e \<Longrightarrow> inv s \<Longrightarrow> inv (step s e)"
begin

lemma ok_run: "list_all ok es \<Longrightarrow> inv s \<Longrightarrow> inv (foldl step s es)"
  by (induction es arbitrary: s) (simp_all add: ok_step)

end

sublocale invariant_machine \<subseteq> guarded_machine step "\<lambda>_. True" inv
  by unfold_locales (rule inv_step)

text \<open>
  A component with an abstract specification: the abstraction of a step is the abstract step of
  the abstraction, as long as the invariant holds.
\<close>

locale refinement_machine = invariant_machine +
  fixes abs_step :: "'a \<Rightarrow> 'e \<Rightarrow> 'a"
    and absf :: "'s \<Rightarrow> 'a"
  assumes sim_step: "inv s \<Longrightarrow> absf (step s e) = abs_step (absf s) e"
begin

lemma sim_run: "inv s \<Longrightarrow> absf (foldl step s es) = foldl abs_step (absf s) es"
  by (induction es arbitrary: s) (simp_all add: inv_step sim_step)

end

end
