(* ===== verification/CircuitBreaker.thy ===== *)
theory CircuitBreaker
  imports Prelude
begin

text \<open>
  \<^verbatim>\<open>crates/common/src/circuit_breaker.rs\<close>: the breaker in front of external calls. The fields of one record
  are its atomics and locked cells; a method is a function on the record, with the clock readings it takes
  (\<^verbatim>\<open>Instant::now\<close>, in nanoseconds) as arguments. The methods are also given as the sequences of single
  accesses they make, which tasks that share the breaker can interleave. A call that no other overlaps
  makes the accesses of its method in a row, and histories of such calls refine an abstract machine whose
  three states carry the streak of failures, the time it opened, or the number of probes that
  succeeded. Calls that overlap need not: one can be let through right after the breaker has opened.
\<close>

section \<open>The breaker\<close>

definition STATE_CLOSED :: nat where "STATE_CLOSED = 0"
definition STATE_OPEN :: nat where "STATE_OPEN = 1"
definition STATE_HALF_OPEN :: nat where "STATE_HALF_OPEN = 2"

lemmas state_defs = STATE_CLOSED_def STATE_OPEN_def STATE_HALF_OPEN_def

record CircuitBreakerConfig =
  failure_threshold :: u64
  failure_window :: int
  cb_timeout :: int
  success_threshold :: u64

definition CircuitBreakerConfig_default :: CircuitBreakerConfig where
  "CircuitBreakerConfig_default =
     \<lparr>failure_threshold = 5, failure_window = 60 * nanos_per_sec,
      cb_timeout = 30 * nanos_per_sec, success_threshold = 2\<rparr>"

record CircuitBreaker =
  cb_name :: string
  cb_state :: nat
  failure_count :: u64
  success_count :: u64
  last_failure_time :: "int option"
  last_transition :: int
  cb_config :: CircuitBreakerConfig

definition cb_new :: "string \<Rightarrow> CircuitBreakerConfig \<Rightarrow> int \<Rightarrow> CircuitBreaker" where
  "cb_new name config now =
     \<lparr>cb_name = name, cb_state = STATE_CLOSED, failure_count = 0, success_count = 0,
      last_failure_time = None, last_transition = now, cb_config = config\<rparr>"

definition with_defaults :: "string \<Rightarrow> int \<Rightarrow> CircuitBreaker" where
  "with_defaults name now = cb_new name CircuitBreakerConfig_default now"

definition transition_to_closed :: "CircuitBreaker \<Rightarrow> int \<Rightarrow> CircuitBreaker" where
  "transition_to_closed c now =
     c\<lparr>cb_state := STATE_CLOSED, failure_count := 0, success_count := 0, last_transition := now\<rparr>"

definition transition_to_open :: "CircuitBreaker \<Rightarrow> int \<Rightarrow> CircuitBreaker" where
  "transition_to_open c now =
     c\<lparr>cb_state := STATE_OPEN, success_count := 0, last_transition := now\<rparr>"

definition transition_to_half_open :: "CircuitBreaker \<Rightarrow> int \<Rightarrow> CircuitBreaker" where
  "transition_to_half_open c now =
     c\<lparr>cb_state := STATE_HALF_OPEN, failure_count := 0, success_count := 0, last_transition := now\<rparr>"

text \<open>\<^verbatim>\<open>Instant::elapsed\<close> saturates at zero.\<close>

definition elapsed :: "int \<Rightarrow> int \<Rightarrow> int" where
  "elapsed since now = max 0 (now - since)"

definition can_attempt :: "CircuitBreaker \<Rightarrow> int \<Rightarrow> int \<Rightarrow> bool \<times> CircuitBreaker" where
  "can_attempt c now now' =
     (if cb_state c = STATE_CLOSED then (True, c)
      else if cb_state c = STATE_OPEN then
        (if cb_timeout (cb_config c) \<le> elapsed (last_transition c) now
         then (True, transition_to_half_open c now')
         else (False, c))
      else if cb_state c = STATE_HALF_OPEN then (True, c)
      else (False, c))"

definition on_success :: "CircuitBreaker \<Rightarrow> int \<Rightarrow> CircuitBreaker" where
  "on_success c now =
     (if cb_state c = STATE_HALF_OPEN then
        (let count = success_count c + 1; c' = c\<lparr>success_count := count\<rparr>
         in if success_threshold (cb_config c) \<le> count then transition_to_closed c' now else c')
      else if cb_state c = STATE_CLOSED then
        c\<lparr>failure_count := 0, last_failure_time := None\<rparr>
      else c)"

definition on_failure :: "CircuitBreaker \<Rightarrow> int \<Rightarrow> int \<Rightarrow> CircuitBreaker" where
  "on_failure c0 now now' =
     (let c = c0\<lparr>last_failure_time := Some now\<rparr>
      in if cb_state c = STATE_CLOSED then
           (let count = failure_count c + 1; c' = c\<lparr>failure_count := count\<rparr>
            in if failure_threshold (cb_config c) \<le> count then transition_to_open c' now' else c')
         else if cb_state c = STATE_HALF_OPEN then transition_to_open c now'
         else c)"

datatype 'e CircuitBreakerError = CB_Open string | CallFailed 'e

text \<open>
  One uncontended call: \<open>f\<close> is the outcome the operation would have, asked for only when the
  attempt is admitted; the clock is read twice before and twice after it.
\<close>

definition cb_call ::
  "CircuitBreaker \<Rightarrow> int \<times> int \<Rightarrow> (unit \<Rightarrow> 'e + 'a) \<Rightarrow> int \<times> int \<Rightarrow> ('e CircuitBreakerError + 'a) \<times> CircuitBreaker"
  where
  "cb_call c t\<^sub>0 f t\<^sub>1 =
     (case can_attempt c (fst t\<^sub>0) (snd t\<^sub>0) of
        (False, c') \<Rightarrow> (Inl (CB_Open (cb_name c')), c')
      | (True, c') \<Rightarrow>
          (case f () of
             Inr result \<Rightarrow> (Inr result, on_success c' (snd t\<^sub>1))
           | Inl e \<Rightarrow> (Inl (CallFailed e), on_failure c' (fst t\<^sub>1) (snd t\<^sub>1))))"

datatype CircuitBreakerState = Closed | Open | HalfOpen

definition get_state :: "CircuitBreaker \<Rightarrow> CircuitBreakerState" where
  "get_state c =
     (if cb_state c = STATE_CLOSED then Closed
      else if cb_state c = STATE_OPEN then Open
      else if cb_state c = STATE_HALF_OPEN then HalfOpen
      else Closed)"

record CircuitBreakerMetrics =
  cm_name :: string
  cm_state :: CircuitBreakerState
  cm_failure_count :: u64
  cm_success_count :: u64

definition get_metrics :: "CircuitBreaker \<Rightarrow> CircuitBreakerMetrics" where
  "get_metrics c =
     \<lparr>cm_name = cb_name c, cm_state = get_state c,
      cm_failure_count = failure_count c, cm_success_count = success_count c\<rparr>"

text \<open>The methods as steps.\<close>

datatype cb_event = Attempt int int | Succeeded int | Failed int int

fun cb_step :: "CircuitBreaker \<Rightarrow> cb_event \<Rightarrow> CircuitBreaker" where
  "cb_step c (Attempt t t') = snd (can_attempt c t t')"
| "cb_step c (Succeeded t) = on_success c t"
| "cb_step c (Failed t t') = on_failure c t t'"

section \<open>The abstract breaker\<close>

datatype breaker = AClosed nat | AOpen int | AHalfOpen nat

text \<open>A threshold of zero acts as one: the first failure (or success) already reaches it.\<close>

definition threshold :: "u64 \<Rightarrow> nat" where
  "threshold w = max 1 (unat w)"

fun breaker_step :: "CircuitBreakerConfig \<Rightarrow> breaker \<Rightarrow> cb_event \<Rightarrow> breaker" where
  "breaker_step k (AClosed n) (Attempt t t') = AClosed n"
| "breaker_step k (AClosed n) (Succeeded t) = AClosed 0"
| "breaker_step k (AClosed n) (Failed t t') =
     (if threshold (failure_threshold k) \<le> Suc n then AOpen t' else AClosed (Suc n))"
| "breaker_step k (AOpen s) (Attempt t t') =
     (if cb_timeout k \<le> elapsed s t then AHalfOpen 0 else AOpen s)"
| "breaker_step k (AOpen s) _ = AOpen s"
| "breaker_step k (AHalfOpen n) (Attempt t t') = AHalfOpen n"
| "breaker_step k (AHalfOpen n) (Succeeded t) =
     (if threshold (success_threshold k) \<le> Suc n then AClosed 0 else AHalfOpen (Suc n))"
| "breaker_step k (AHalfOpen n) (Failed t t') = AOpen t'"

definition cb_abs :: "CircuitBreaker \<Rightarrow> breaker" where
  "cb_abs c =
     (case get_state c of
        Closed \<Rightarrow> AClosed (unat (failure_count c))
      | Open \<Rightarrow> AOpen (last_transition c)
      | HalfOpen \<Rightarrow> AHalfOpen (unat (success_count c)))"

text \<open>
  The counters stay below their thresholds while they count, so the 64-bit counters never wrap.
\<close>

definition cb_inv :: "CircuitBreakerConfig \<Rightarrow> CircuitBreaker \<Rightarrow> bool" where
  "cb_inv k c \<longleftrightarrow>
     cb_config c = k \<and> cb_state c \<in> {STATE_CLOSED, STATE_OPEN, STATE_HALF_OPEN} \<and>
     (cb_state c = STATE_CLOSED \<longrightarrow> unat (failure_count c) < threshold (failure_threshold k)) \<and>
     (cb_state c = STATE_HALF_OPEN \<longrightarrow> unat (success_count c) < threshold (success_threshold k))"

section \<open>The breaker refines its specification\<close>

lemmas cb_ops =
  can_attempt_def on_success_def on_failure_def transition_to_closed_def transition_to_open_def
  transition_to_half_open_def Let_def

lemma threshold_pos: "0 < threshold w"
  by (simp add: threshold_def)

lemma unat_inc:
  assumes "unat (n :: u64) < threshold w"
  shows "unat (n + 1) = Suc (unat n)"
proof -
  have "unat w < 2 ^ LENGTH(64)" by (rule unsigned_less)
  then have "unat n < 2 ^ 64 - 1"
    using assms by (auto simp: threshold_def max_def split: if_splits)
  then show ?thesis by (simp add: unat_word_ariths unat_1)
qed

lemma threshold_reached:
  assumes "unat (n :: u64) < threshold w"
  shows "w \<le> n + 1 \<longleftrightarrow> threshold w \<le> Suc (unat n)"
  using unat_inc [OF assms] by (auto simp: word_le_nat_alt threshold_def)

lemma cb_inv_new: "cb_inv k (cb_new name k now)"
  by (simp add: cb_inv_def cb_new_def state_defs threshold_pos)

lemma cb_inv_step: "cb_inv k c \<Longrightarrow> cb_inv k (cb_step c e)"
  using unat_inc [of "failure_count c" "failure_threshold k"]
    unat_inc [of "success_count c" "success_threshold k"]
  by (cases e)
     (auto simp: cb_inv_def cb_ops state_defs threshold_pos threshold_reached split: if_splits)

lemma cb_sim_step: "cb_inv k c \<Longrightarrow> cb_abs (cb_step c e) = breaker_step k (cb_abs c) e"
  using unat_inc [of "failure_count c" "failure_threshold k"]
    unat_inc [of "success_count c" "success_threshold k"]
  by (cases e)
     (auto simp: cb_inv_def cb_abs_def get_state_def cb_ops state_defs threshold_reached)

interpretation cb: refinement_machine cb_step "cb_inv k" "breaker_step k" cb_abs for k
  by unfold_locales (simp_all add: cb_inv_step cb_sim_step)

section \<open>What callers rely on\<close>

lemma cb_abs_new: "cb_abs (cb_new name k now) = AClosed 0"
  by (simp add: cb_abs_def get_state_def cb_new_def state_defs)

lemma cb_run_new:
  "cb_inv k (foldl cb_step (cb_new name k t\<^sub>0) es)"
  "cb_abs (foldl cb_step (cb_new name k t\<^sub>0) es) = foldl (breaker_step k) (AClosed 0) es"
  using cb.inv_run [OF cb_inv_new] cb.sim_run [OF cb_inv_new] by (simp_all add: cb_abs_new)

text \<open>The abstract runs: a streak of failures opens the breaker, probes close it again.\<close>

lemma breaker_failures:
  assumes "n + length ts < threshold (failure_threshold k)"
  shows "foldl (breaker_step k) (AClosed n) (map (\<lambda>(t, t'). Failed t t') ts) = AClosed (n + length ts)"
  using assms by (induction ts arbitrary: n) auto

lemma breaker_probes:
  assumes "n + length ts < threshold (success_threshold k)"
  shows "foldl (breaker_step k) (AHalfOpen n) (map Succeeded ts) = AHalfOpen (n + length ts)"
  using assms by (induction ts arbitrary: n) auto

lemma breaker_open_until:
  assumes "\<forall>t t'. Attempt t t' \<in> set es \<longrightarrow> elapsed s t < cb_timeout k"
  shows "foldl (breaker_step k) (AOpen s) es = AOpen s"
  using assms
proof (induction es)
  case (Cons e es)
  have "breaker_step k (AOpen s) e = AOpen s"
  proof (cases e)
    case (Attempt t t')
    then have "elapsed s t < cb_timeout k" using Cons.prems by auto
    then show ?thesis by (simp add: Attempt)
  qed simp_all
  moreover have "foldl (breaker_step k) (AOpen s) es = AOpen s" by (rule Cons.IH) (use Cons.prems in auto)
  ultimately show ?case by simp
qed simp

lemma fst_can_attempt:
  "cb_inv k c \<Longrightarrow>
     fst (can_attempt c t t') = (case cb_abs c of AOpen s \<Rightarrow> cb_timeout k \<le> elapsed s t | _ \<Rightarrow> True)"
  by (auto simp: cb_inv_def cb_abs_def get_state_def can_attempt_def state_defs)

lemma breaker_opens_and_fails_fast:
  assumes "length ts = threshold (failure_threshold k)"
    and "\<forall>t t'. Attempt t t' \<in> set es \<longrightarrow> elapsed (snd (last ts)) t < cb_timeout k"
    and "elapsed (snd (last ts)) t < cb_timeout k"
  shows "\<not> fst (can_attempt (foldl cb_step (cb_new name k t\<^sub>0) (map (\<lambda>(t, t'). Failed t t') ts @ es)) t t')"
proof -
  let ?f = "\<lambda>(t, t'). Failed t t'"
  let ?c = "foldl cb_step (cb_new name k t\<^sub>0) (map ?f ts @ es)"
  have ts: "ts = butlast ts @ [(fst (last ts), snd (last ts))]"
    using assms(1) threshold_pos [of "failure_threshold k"] by (metis append_butlast_last_id length_greater_0_conv prod.collapse)
  have "foldl (breaker_step k) (AClosed 0) (map ?f (butlast ts)) = AClosed (length (butlast ts))"
    using assms(1) threshold_pos [of "failure_threshold k"] by (subst breaker_failures) simp_all
  then have "foldl (breaker_step k) (AClosed 0) (map ?f ts) = AOpen (snd (last ts))"
    using assms(1) threshold_pos [of "failure_threshold k"] by (subst ts) (simp split: prod.split)
  then have "cb_abs ?c = AOpen (snd (last ts))"
    unfolding cb_run_new(2) using breaker_open_until [OF assms(2)] by simp
  then have "fst (can_attempt ?c t t') = (cb_timeout k \<le> elapsed (snd (last ts)) t)"
    by (simp only: fst_can_attempt [OF cb_run_new(1)] breaker.case)
  then show ?thesis using assms(3) by simp
qed

text \<open>
  An open breaker recovers: once the timeout has elapsed the next attempt is admitted, and as many
  successful probes as the success threshold, with no failure in between, close it with a clean
  failure count.
\<close>

lemma breaker_recovers:
  assumes "cb_inv k c" and "cb_abs c = AOpen s" and "cb_timeout k \<le> elapsed s t"
    and "length ts = threshold (success_threshold k)"
  shows "fst (can_attempt c t t')
    \<and> cb_abs (foldl cb_step c (Attempt t t' # map Succeeded ts)) = AClosed 0"
proof -
  have "fst (can_attempt c t t')" using fst_can_attempt [OF assms(1)] assms(2,3) by simp
  moreover have ts: "ts = butlast ts @ [last ts]"
    using assms(4) threshold_pos [of "success_threshold k"] by (metis append_butlast_last_id length_greater_0_conv)
  moreover have "foldl (breaker_step k) (AHalfOpen 0) (map Succeeded (butlast ts)) = AHalfOpen (length (butlast ts))"
    using assms(4) threshold_pos [of "success_threshold k"] by (subst breaker_probes) simp_all
  then have "foldl (breaker_step k) (AHalfOpen 0) (map Succeeded ts) = AClosed 0"
    using assms(4) by (subst ts) simp
  ultimately show ?thesis
    using cb.sim_run [OF assms(1), of "Attempt t t' # map Succeeded ts"] assms(2,3) by simp
qed

text \<open>
  The configured failure window plays no part: breakers that differ only in it admit the same
  calls and report the same metrics after every history.
\<close>

lemma failure_window_is_ignored:
  "get_metrics (foldl cb_step (cb_new name (k\<lparr>failure_window := w\<rparr>) t\<^sub>0) es)
     = get_metrics (foldl cb_step (cb_new name k t\<^sub>0) es)
   \<and> fst (can_attempt (foldl cb_step (cb_new name (k\<lparr>failure_window := w\<rparr>) t\<^sub>0) es) t t')
     = fst (can_attempt (foldl cb_step (cb_new name k t\<^sub>0) es) t t')"
proof -
  let ?set = "\<lambda>c. c\<lparr>cb_config := (cb_config c)\<lparr>failure_window := w\<rparr>\<rparr>"
  have step: "cb_step (?set c) e = ?set (cb_step c e)" for c e
    by (cases e) (auto simp: cb_ops)
  have run: "foldl cb_step (?set c) es = ?set (foldl cb_step c es)" for c
    by (induction es arbitrary: c) (simp_all add: step)
  have "cb_new name (k\<lparr>failure_window := w\<rparr>) t\<^sub>0 = ?set (cb_new name k t\<^sub>0)"
    by (simp add: cb_new_def)
  then show ?thesis
    by (simp add: run get_metrics_def get_state_def can_attempt_def)
qed

section \<open>Single accesses\<close>

text \<open>
  Where a task is in a method: before its next access to an atomic or a locked cell, done, or done with an
  answer. Names begin with the method or the transition the access belongs to.
\<close>

datatype cb_pc =
    Done | Answer bool
  | Attempt_load | Attempt_read
  | HalfOpen_store | HalfOpen_failures | HalfOpen_successes | HalfOpen_time
  | Success_load | Success_add | Success_reset | Success_forget
  | Closed_store | Closed_failures | Closed_successes | Closed_time
  | Failure_time | Failure_load | Failure_add
  | Open_store | Open_successes | Open_time

fun cb_access :: "int \<Rightarrow> CircuitBreaker \<times> cb_pc \<Rightarrow> CircuitBreaker \<times> cb_pc" where
  "cb_access now (c, Attempt_load) =
     (c, if cb_state c = STATE_CLOSED then Answer True else if cb_state c = STATE_OPEN then Attempt_read
         else if cb_state c = STATE_HALF_OPEN then Answer True else Answer False)"
| "cb_access now (c, Attempt_read) =
     (c, if cb_timeout (cb_config c) \<le> elapsed (last_transition c) now then HalfOpen_store else Answer False)"
| "cb_access now (c, HalfOpen_store) = (c\<lparr>cb_state := STATE_HALF_OPEN\<rparr>, HalfOpen_failures)"
| "cb_access now (c, HalfOpen_failures) = (c\<lparr>failure_count := 0\<rparr>, HalfOpen_successes)"
| "cb_access now (c, HalfOpen_successes) = (c\<lparr>success_count := 0\<rparr>, HalfOpen_time)"
| "cb_access now (c, HalfOpen_time) = (c\<lparr>last_transition := now\<rparr>, Answer True)"
| "cb_access now (c, Success_load) =
     (c, if cb_state c = STATE_HALF_OPEN then Success_add else if cb_state c = STATE_CLOSED then Success_reset else Done)"
| "cb_access now (c, Success_add) =
     (let count = success_count c + 1
      in (c\<lparr>success_count := count\<rparr>, if success_threshold (cb_config c) \<le> count then Closed_store else Done))"
| "cb_access now (c, Success_reset) = (c\<lparr>failure_count := 0\<rparr>, Success_forget)"
| "cb_access now (c, Success_forget) = (c\<lparr>last_failure_time := None\<rparr>, Done)"
| "cb_access now (c, Closed_store) = (c\<lparr>cb_state := STATE_CLOSED\<rparr>, Closed_failures)"
| "cb_access now (c, Closed_failures) = (c\<lparr>failure_count := 0\<rparr>, Closed_successes)"
| "cb_access now (c, Closed_successes) = (c\<lparr>success_count := 0\<rparr>, Closed_time)"
| "cb_access now (c, Closed_time) = (c\<lparr>last_transition := now\<rparr>, Done)"
| "cb_access now (c, Failure_time) = (c\<lparr>last_failure_time := Some now\<rparr>, Failure_load)"
| "cb_access now (c, Failure_load) =
     (c, if cb_state c = STATE_CLOSED then Failure_add else if cb_state c = STATE_HALF_OPEN then Open_store else Done)"
| "cb_access now (c, Failure_add) =
     (let count = failure_count c + 1
      in (c\<lparr>failure_count := count\<rparr>, if failure_threshold (cb_config c) \<le> count then Open_store else Done))"
| "cb_access now (c, Open_store) = (c\<lparr>cb_state := STATE_OPEN\<rparr>, Open_successes)"
| "cb_access now (c, Open_successes) = (c\<lparr>success_count := 0\<rparr>, Open_time)"
| "cb_access now (c, Open_time) = (c\<lparr>last_transition := now\<rparr>, Done)"
| "cb_access now (c, Done) = (c, Done)"
| "cb_access now (c, Answer b) = (c, Answer b)"

text \<open>
  Tasks that share a breaker: the next access of a task, at a time, or the start of its next method.
\<close>

record cb_tasks =
  bt_breaker :: CircuitBreaker
  bt_pc :: "nat \<Rightarrow> cb_pc"

datatype cb_move = Start nat cb_pc | Access nat int

fun cb_tasks_step :: "cb_tasks \<Rightarrow> cb_move \<Rightarrow> cb_tasks" where
  "cb_tasks_step s (Start i m) = s\<lparr>bt_pc := (bt_pc s)(i := m)\<rparr>"
| "cb_tasks_step s (Access i now) =
     (let (c, pc) = cb_access now (bt_breaker s, bt_pc s i) in s\<lparr>bt_breaker := c, bt_pc := (bt_pc s)(i := pc)\<rparr>)"

text \<open>
  A call that is not overlapped: all accesses of a task in a row. No method makes more than six; \<open>clock\<close>
  gives the time of each.
\<close>

fun cb_accesses :: "int list \<Rightarrow> CircuitBreaker \<times> cb_pc \<Rightarrow> CircuitBreaker \<times> cb_pc" where
  "cb_accesses [] s = s"
| "cb_accesses (now # clock) s = cb_accesses clock (cb_access now s)"

lemma task_accesses:
  "bt_breaker (foldl cb_tasks_step s (map (Access i) clock)) = fst (cb_accesses clock (bt_breaker s, bt_pc s i))
   \<and> bt_pc (foldl cb_tasks_step s (map (Access i) clock)) i = snd (cb_accesses clock (bt_breaker s, bt_pc s i))"
proof (induction clock arbitrary: s)
  case (Cons now clock)
  show ?case
    by (cases "cb_access now (bt_breaker s, bt_pc s i)") (simp add: Cons.IH)
qed simp

lemma attempt_accesses:
  "cb_accesses [a, b, t, d, e, f] (c, Attempt_load) = (let (ok, c') = can_attempt c b f in (c', Answer ok))"
  by (simp add: can_attempt_def transition_to_half_open_def state_defs)

lemma success_accesses: "cb_accesses [a, b, t, d, e, f] (c, Success_load) = (on_success c f, Done)"
  by (simp add: on_success_def transition_to_closed_def state_defs Let_def)

lemma failure_accesses:
  "cb_accesses [a, b, t, d, e, f] (c, Failure_time)
     = (on_failure c a (if cb_state c = STATE_HALF_OPEN then e else f), Done)"
  by (simp add: on_failure_def transition_to_open_def state_defs Let_def)

text \<open>A call by a task: which method, and the times of its accesses.\<close>

datatype cb_method = Can_attempt | On_success | On_failure

fun method_start :: "cb_method \<Rightarrow> cb_pc" where
  "method_start Can_attempt = Attempt_load"
| "method_start On_success = Success_load"
| "method_start On_failure = Failure_time"

fun call_moves :: "nat \<times> cb_method \<times> int list \<Rightarrow> cb_move list" where
  "call_moves (i, m, clock) = Start i (method_start m) # map (Access i) clock"

text \<open>The event a call amounts to: the times are two of those at which it accessed the breaker.\<close>

fun amounts_to :: "nat \<times> cb_method \<times> int list \<Rightarrow> cb_event \<Rightarrow> bool" where
  "amounts_to (i, m, clock) (Attempt t t') \<longleftrightarrow> m = Can_attempt \<and> t = clock ! 1 \<and> t' = clock ! 5"
| "amounts_to (i, m, clock) (Succeeded t) \<longleftrightarrow> m = On_success \<and> t = clock ! 5"
| "amounts_to (i, m, clock) (Failed t t') \<longleftrightarrow> m = On_failure \<and> t = clock ! 0 \<and> t' \<in> {clock ! 4, clock ! 5}"

lemma call_amounts_to:
  assumes "length clock = 6"
  shows "\<exists>e. amounts_to (i, m, clock) e
    \<and> bt_breaker (foldl cb_tasks_step s (call_moves (i, m, clock))) = cb_step (bt_breaker s) e"
proof -
  have "\<exists>a b t d e f. clock = [a, b, t, d, e, f]"
    using assms by (auto simp: length_Suc_conv eval_nat_numeral)
  then obtain a b t d e f where clock: "clock = [a, b, t, d, e, f]" by blast
  note run = task_accesses [of "cb_tasks_step s (Start i (method_start m))" i clock]
  show ?thesis
  proof (cases m)
    case Can_attempt
    then show ?thesis using run
      by (intro exI [of _ "Attempt b f"]) (simp add: clock attempt_accesses split_beta del: cb_accesses.simps)
  next
    case On_success
    then show ?thesis using run
      by (intro exI [of _ "Succeeded f"]) (simp add: clock success_accesses del: cb_accesses.simps)
  next
    case On_failure
    then show ?thesis using run
      by (intro exI [of _ "Failed a (if cb_state (bt_breaker s) = STATE_HALF_OPEN then e else f)"])
         (simp add: clock failure_accesses del: cb_accesses.simps)
  qed
qed

lemma calls_amount_to:
  assumes "\<forall>(i, m, clock) \<in> set calls. length clock = 6"
  shows "\<exists>es. list_all2 amounts_to calls es
    \<and> bt_breaker (foldl cb_tasks_step s (concat (map call_moves calls))) = foldl cb_step (bt_breaker s) es"
  using assms
proof (induction calls arbitrary: s)
  case (Cons x calls)
  obtain i m clock where x: "x = (i, m, clock)" by (rule prod_cases3)
  obtain e where e: "amounts_to x e" "bt_breaker (foldl cb_tasks_step s (call_moves x)) = cb_step (bt_breaker s) e"
    using call_amounts_to [of clock i m s] Cons.prems x by auto
  from Cons.IH [of "foldl cb_tasks_step s (call_moves x)"] Cons.prems obtain es where
    "list_all2 amounts_to calls es"
    "bt_breaker (foldl cb_tasks_step (foldl cb_tasks_step s (call_moves x)) (concat (map call_moves calls)))
       = foldl cb_step (cb_step (bt_breaker s) e) es" by (auto simp: e(2))
  then show ?case using e(1) by (intro exI [of _ "e # es"]) simp
qed simp

text \<open>
  (C20) Where calls do not overlap, the breaker refines its specification: over every history of attempts,
  successes and failures by any tasks, in any order, in which each method makes all its accesses to the
  shared atomics before the next begins, the atomics implement the abstract three-state machine: the streak of
  failures while closed, the opening time while open, the successful probes while half-open. In particular
  the 64-bit counters never wrap. The times of the abstract events are those of accesses of the calls.
\<close>

theorem breaker_refines_spec:
  assumes "\<forall>(i, m, clock) \<in> set calls. length clock = 6" and "bt_breaker s = cb_new name k t\<^sub>0"
  shows "\<exists>es. list_all2 amounts_to calls es
    \<and> cb_abs (bt_breaker (foldl cb_tasks_step s (concat (map call_moves calls)))) = foldl (breaker_step k) (AClosed 0) es"
  using calls_amount_to [OF assms(1), of s] cb_run_new(2) [of name k t\<^sub>0] assms(2) by auto

definition two_tasks :: cb_tasks where
  "two_tasks = \<lparr>bt_breaker = cb_new ''rpc'' \<lparr>failure_threshold = 1, failure_window = 0, cb_timeout = 30, success_threshold = 1\<rparr> 0,
     bt_pc = (\<lambda>_. Done)\<rparr>"

text \<open>A failure of one task opens the breaker; an attempt of the other at the timeout makes it half-open.\<close>

theorem breaker_refines_spec_witness:
  "\<exists>es. list_all2 amounts_to [(0, On_failure, [100, 101, 102, 103, 104, 105]), (1, Can_attempt, [134, 135, 136, 137, 138, 139])] es
     \<and> foldl (breaker_step (cb_config (bt_breaker two_tasks))) (AClosed 0) es = AHalfOpen 0"
proof -
  let ?calls = "[(0, On_failure, [100, 101, 102, 103, 104, 105]), (1, Can_attempt, [134, 135, 136, 137, 138, 139])] :: (nat \<times> cb_method \<times> int list) list"
  have "cb_abs (bt_breaker (foldl cb_tasks_step two_tasks (concat (map call_moves ?calls)))) = AHalfOpen 0"
    by code_simp
  moreover have "\<exists>es. list_all2 amounts_to ?calls es
      \<and> cb_abs (bt_breaker (foldl cb_tasks_step two_tasks (concat (map call_moves ?calls))))
        = foldl (breaker_step (cb_config (bt_breaker two_tasks))) (AClosed 0) es"
    by (rule breaker_refines_spec [of _ _ "''rpc''" _ 0]) (simp_all add: two_tasks_def cb_new_def)
  ultimately show ?thesis by metis
qed

text \<open>
  Calls that overlap do not refine it. A failing task has stored the open state but not yet the time of the
  transition when another asks: it compares with the time of the transition before, here that of the
  breaker's creation, and is let through at once, into a breaker that has just opened.
\<close>

lemma overlapping_call_is_let_through:
  "bt_pc (foldl cb_tasks_step two_tasks
     ([Start 0 Failure_time, Access 0 100, Access 0 100, Access 0 100, Access 0 100,
       Start 1 Attempt_load] @ map (Access 1) [101, 101, 101, 101, 101, 101])) 1 = Answer True"
  by code_simp

end
