(* ===== verification/F64.thy ===== *)
theory F64
  imports Complex_Main Prelude
begin

text \<open>
  Rust's \<^verbatim>\<open>f64\<close>: IEEE 754 binary64 with round-to-nearest-even. A finite value is a sign and an
  exact rational magnitude, so that every arithmetic operation is the exact rational operation
  followed by one rounding to a 53-bit significand, with gradual underflow below \<open>2 ^ -1022\<close> and
  overflow to infinity. NaN payloads are not distinguished (no code reads them). The operations
  compute, and the lemmas give what the components rely on: rounding is monotone and idempotent,
  and comparison of finite values is comparison of their rational values.
\<close>

section \<open>Values\<close>

datatype f64 = NaN | Inf bool | Fin bool rat

text \<open>\<open>Inf s\<close> and \<open>Fin s m\<close>: \<open>s\<close> is the sign bit (true for negative), \<open>m\<close> the magnitude.\<close>

fun rv :: "f64 \<Rightarrow> rat" where
  "rv (Fin s m) = (if s then - m else m)"
| "rv _ = 0"

fun is_finite :: "f64 \<Rightarrow> bool" where
  "is_finite (Fin s m) = True"
| "is_finite _ = False"

section \<open>Rounding\<close>

text \<open>\<open>ilog2 n\<close> is the position of the highest set bit of a positive \<open>n\<close>.\<close>

fun ilog2 :: "nat \<Rightarrow> nat" where
  "ilog2 n = (if n < 2 then 0 else Suc (ilog2 (n div 2)))"

declare ilog2.simps [simp del]

text \<open>The exponent of a positive rational: \<open>2 powi k \<le> q < 2 powi (k + 1)\<close>.\<close>

definition rexp :: "rat \<Rightarrow> int" where
  "rexp q =
     (if 1 \<le> q then int (ilog2 (nat \<lfloor>q\<rfloor>))
      else (let n = nat \<lceil>1 / q\<rceil> in if n \<le> 1 then 0 else - int (ilog2 (n - 1)) - 1))"

text \<open>The exponent of the unit in the last place: 52 bits below, never below the subnormal one.\<close>

definition ulp_exp :: "rat \<Rightarrow> int" where
  "ulp_exp q = max (- 1074) (rexp q - 52)"

definition round_half_even :: "rat \<Rightarrow> int" where
  "round_half_even x =
     (let f = \<lfloor>x\<rfloor>; d = x - of_int f
      in if d < 1 / 2 then f else if d > 1 / 2 then f + 1 else if even f then f else f + 1)"

definition round_mag :: "rat \<Rightarrow> rat" where
  "round_mag q =
     (if q = 0 then 0
      else let u = 2 powi (ulp_exp q) in of_int (round_half_even (q / u)) * u)"

text \<open>The largest finite value lies below \<open>2 ^ 1024\<close>: a larger rounded magnitude is an infinity.\<close>

definition pack :: "bool \<Rightarrow> rat \<Rightarrow> f64" where
  "pack s q =
     (let m = round_mag q in if m \<noteq> 0 \<and> 1024 \<le> rexp m then Inf s else Fin s m)"

text \<open>A literal such as \<^verbatim>\<open>0.25\<close> is the float nearest to the decimal.\<close>

definition lit :: "rat \<Rightarrow> f64" where
  "lit q = pack (q < 0) \<bar>q\<bar>"

text \<open>\<^verbatim>\<open>as f64\<close> of an integer.\<close>

definition of_int_f64 :: "int \<Rightarrow> f64" where
  "of_int_f64 i = lit (of_int i)"

section \<open>Operations\<close>

fun f64_neg :: "f64 \<Rightarrow> f64" where
  "f64_neg NaN = NaN"
| "f64_neg (Inf s) = Inf (\<not> s)"
| "f64_neg (Fin s m) = Fin (\<not> s) m"

fun f64_add :: "f64 \<Rightarrow> f64 \<Rightarrow> f64" where
  "f64_add (Fin s a) (Fin t b) =
     (let x = rv (Fin s a) + rv (Fin t b)
      in if x = 0 then Fin (s \<and> t) 0 else pack (x < 0) \<bar>x\<bar>)"
| "f64_add (Inf s) (Inf t) = (if s = t then Inf s else NaN)"
| "f64_add (Inf s) (Fin t b) = Inf s"
| "f64_add (Fin s a) (Inf t) = Inf t"
| "f64_add _ _ = NaN"

fun f64_mul :: "f64 \<Rightarrow> f64 \<Rightarrow> f64" where
  "f64_mul (Fin s a) (Fin t b) = pack (s \<noteq> t) (a * b)"
| "f64_mul (Inf s) (Inf t) = Inf (s \<noteq> t)"
| "f64_mul (Inf s) (Fin t b) = (if b = 0 then NaN else Inf (s \<noteq> t))"
| "f64_mul (Fin s a) (Inf t) = (if a = 0 then NaN else Inf (s \<noteq> t))"
| "f64_mul _ _ = NaN"

fun f64_div :: "f64 \<Rightarrow> f64 \<Rightarrow> f64" where
  "f64_div (Fin s a) (Fin t b) =
     (if b = 0 then (if a = 0 then NaN else Inf (s \<noteq> t)) else pack (s \<noteq> t) (a / b))"
| "f64_div (Inf s) (Fin t b) = Inf (s \<noteq> t)"
| "f64_div (Fin s a) (Inf t) = Fin (s \<noteq> t) 0"
| "f64_div _ _ = NaN"

text \<open>The ordered comparisons are false when an operand is NaN; the two zeros are equal.\<close>

fun f64_lt :: "f64 \<Rightarrow> f64 \<Rightarrow> bool" where
  "f64_lt (Fin s a) (Fin t b) = (rv (Fin s a) < rv (Fin t b))"
| "f64_lt (Inf s) (Inf t) = (s \<and> \<not> t)"
| "f64_lt (Inf s) (Fin t b) = s"
| "f64_lt (Fin s a) (Inf t) = (\<not> t)"
| "f64_lt _ _ = False"

fun feq :: "f64 \<Rightarrow> f64 \<Rightarrow> bool" where
  "feq (Fin s a) (Fin t b) = (rv (Fin s a) = rv (Fin t b))"
| "feq (Inf s) (Inf t) = (s = t)"
| "feq _ _ = False"

instantiation f64 :: "{plus, minus, uminus, times, inverse, ord, abs, zero}"
begin

definition plus_f64 :: "f64 \<Rightarrow> f64 \<Rightarrow> f64" where "plus_f64 a b = f64_add a b"
definition uminus_f64 :: "f64 \<Rightarrow> f64" where "uminus_f64 a = f64_neg a"
definition minus_f64 :: "f64 \<Rightarrow> f64 \<Rightarrow> f64" where "minus_f64 a b = f64_add a (f64_neg b)"
definition times_f64 :: "f64 \<Rightarrow> f64 \<Rightarrow> f64" where "times_f64 a b = f64_mul a b"
definition divide_f64 :: "f64 \<Rightarrow> f64 \<Rightarrow> f64" where "divide_f64 a b = f64_div a b"
definition inverse_f64 :: "f64 \<Rightarrow> f64" where "inverse_f64 a = f64_div (Fin False 1) a"
definition less_f64 :: "f64 \<Rightarrow> f64 \<Rightarrow> bool" where "less_f64 a b = f64_lt a b"
definition less_eq_f64 :: "f64 \<Rightarrow> f64 \<Rightarrow> bool" where "less_eq_f64 a b = (f64_lt a b \<or> feq a b)"
definition zero_f64 :: f64 where "zero_f64 = Fin False 0"
definition abs_f64 :: "f64 \<Rightarrow> f64" where
  "abs_f64 a = (case a of NaN \<Rightarrow> NaN | Inf s \<Rightarrow> Inf False | Fin s m \<Rightarrow> Fin False m)"

instance ..

end

text \<open>
  \<^verbatim>\<open>f64::max\<close> and \<^verbatim>\<open>f64::min\<close> return the other operand when one is NaN. Which of two equal zeros they
  return is unspecified; no code reads the sign of such a result.
\<close>

definition f64_max :: "f64 \<Rightarrow> f64 \<Rightarrow> f64" where
  "f64_max a b = (if a = NaN then b else if b = NaN then a else if a < b then b else a)"

definition f64_min :: "f64 \<Rightarrow> f64 \<Rightarrow> f64" where
  "f64_min a b = (if a = NaN then b else if b = NaN then a else if b < a then b else a)"

text \<open>\<^verbatim>\<open>clamp(lo, hi)\<close> for ordered bounds: NaN stays NaN.\<close>

definition f64_clamp :: "f64 \<Rightarrow> f64 \<Rightarrow> f64 \<Rightarrow> f64" where
  "f64_clamp a lo hi = (if a < lo then lo else if hi < a then hi else a)"

text \<open>\<^verbatim>\<open>signum\<close> is 1 or -1 by the sign bit, also for the zeros; \<^verbatim>\<open>round\<close> rounds half away from zero.\<close>

fun signum :: "f64 \<Rightarrow> f64" where
  "signum NaN = NaN"
| "signum (Inf s) = Fin s 1"
| "signum (Fin s m) = Fin s 1"

fun f64_round :: "f64 \<Rightarrow> f64" where
  "f64_round (Fin s m) = Fin s (of_int \<lfloor>m + 1 / 2\<rfloor>)"
| "f64_round x = x"

text \<open>\<^verbatim>\<open>iter().sum()\<close> adds from the left.\<close>

definition f64_sum :: "f64 list \<Rightarrow> f64" where
  "f64_sum xs = foldl (+) 0 xs"

definition f64_epsilon :: f64 where
  "f64_epsilon = Fin False (1 / 2 ^ 52)"

text \<open>
  \<^verbatim>\<open>str::parse::<f64>\<close>: an optional sign, then \<^verbatim>\<open>inf\<close>, \<^verbatim>\<open>infinity\<close> or \<^verbatim>\<open>nan\<close> in any case, or a decimal
  number with an optional fraction and exponent, rounded correctly.
\<close>

definition is_digit :: "char \<Rightarrow> bool" where
  "is_digit c = (digit_value c \<noteq> None)"

definition parse_exponent :: "string \<Rightarrow> int option" where
  "parse_exponent r =
     (case r of
        [] \<Rightarrow> Some 0
      | e # t \<Rightarrow>
          if e = CHR ''e'' \<or> e = CHR ''E'' then
            (case t of
               CHR ''-'' # d \<Rightarrow> map_option (\<lambda>n. - int n) (parse_nat d)
             | _ \<Rightarrow> map_option int (parse_nat (strip_plus t)))
          else None)"

definition parse_decimal :: "string \<Rightarrow> rat option" where
  "parse_decimal s =
     (let int_part = takeWhile is_digit s; r1 = dropWhile is_digit s;
          (frac, r2) = (case r1 of
             CHR ''.'' # t \<Rightarrow> (takeWhile is_digit t, dropWhile is_digit t)
           | _ \<Rightarrow> ([], r1))
      in if int_part = [] \<and> frac = [] then None
         else
           (case (parse_digits 0 (int_part @ frac), parse_exponent r2) of
              (Some m, Some e) \<Rightarrow> Some (of_nat m * 10 powi (e - int (length frac)))
            | _ \<Rightarrow> None))"

definition parse_f64 :: "string \<Rightarrow> f64 option" where
  "parse_f64 s =
     (let neg = (s \<noteq> [] \<and> hd s = CHR ''-'');
          r = (if neg then tl s else strip_plus s);
          word = to_ascii_lowercase r
      in if word = ''inf'' \<or> word = ''infinity'' then Some (Inf neg)
         else if word = ''nan'' then Some NaN
         else map_option (pack neg) (parse_decimal r))"

text \<open>A value that a binary64 can hold: a fixed point of rounding.\<close>

fun representable :: "f64 \<Rightarrow> bool" where
  "representable (Fin s m) = (0 \<le> m \<and> round_mag m = m \<and> (m = 0 \<or> rexp m < 1024))"
| "representable _ = True"

lemmas f64_ops [rust_defs] =
  plus_f64_def uminus_f64_def minus_f64_def times_f64_def divide_f64_def inverse_f64_def
  less_f64_def less_eq_f64_def zero_f64_def abs_f64_def

section \<open>Exponents\<close>

lemma ilog2_bounds: "0 < n \<Longrightarrow> 2 ^ ilog2 n \<le> n \<and> n < 2 ^ Suc (ilog2 n)"
proof (induction n rule: ilog2.induct)
  case (1 n)
  show ?case
  proof (cases "n < 2")
    case True
    with "1.prems" show ?thesis by (simp add: ilog2.simps [of n])
  next
    case False
    then have "2 ^ ilog2 (n div 2) \<le> n div 2" "n div 2 < 2 ^ Suc (ilog2 (n div 2))"
      using "1.IH" by auto
    then show ?thesis using False by (auto simp: ilog2.simps [of n])
  qed
qed

lemma rexp_bounds:
  assumes "0 < q"
  shows "2 powi (rexp q) \<le> q \<and> q < 2 powi (rexp q + 1)"
proof (cases "1 \<le> q")
  case True
  define n where "n = nat \<lfloor>q\<rfloor>"
  have n: "0 < n" "of_nat n \<le> q" "q < of_nat n + 1"
    using True by (simp_all add: n_def) linarith+
  have "2 ^ ilog2 n \<le> n" "Suc n \<le> 2 ^ Suc (ilog2 n)"
    using ilog2_bounds [OF n(1)] by auto
  then have "(2 ^ ilog2 n :: rat) \<le> of_nat n" "of_nat (Suc n) \<le> (2 ^ Suc (ilog2 n) :: rat)"
    by (metis of_nat_le_iff of_nat_numeral of_nat_power)+
  then have "2 ^ ilog2 n \<le> q" "q < 2 ^ Suc (ilog2 n)"
    using n(2,3) by (linarith, simp)
  moreover have "rexp q = int (ilog2 n)"
    using True by (simp add: rexp_def n_def)
  moreover have "2 powi (int (ilog2 n) + 1) = (2 ^ Suc (ilog2 n) :: rat)"
    by (metis of_nat_Suc add.commute power_int_of_nat)
  ultimately show ?thesis by simp
next
  case False
  define n where "n = nat \<lceil>1 / q\<rceil>"
  have q1: "1 < 1 / q" using assms False by simp
  have n: "1 / q \<le> of_nat n" "of_nat n < 1 / q + 1"
    using q1 by (simp_all add: n_def) linarith+
  then have n2: "2 \<le> n" using q1 by linarith
  define k where "k = ilog2 (n - 1)"
  have k: "2 ^ k \<le> n - 1" "n - 1 < 2 ^ Suc k"
    using ilog2_bounds [of "n - 1"] n2 by (auto simp: k_def)
  have "(2 ^ k :: rat) < 1 / q"
  proof -
    have "(2 ^ k :: rat) \<le> of_nat (n - 1)"
      using k(1) by (metis of_nat_le_iff of_nat_numeral of_nat_power)
    also have "\<dots> < 1 / q" using n(2) n2 by (simp add: of_nat_diff)
    finally show ?thesis .
  qed
  moreover have "1 / q \<le> (2 ^ Suc k :: rat)"
  proof -
    have "n \<le> 2 ^ Suc k" using k(2) by linarith
    then have "of_nat n \<le> (2 ^ Suc k :: rat)"
      by (metis of_nat_le_iff of_nat_numeral of_nat_power)
    with n(1) show ?thesis by linarith
  qed
  ultimately have "q < 1 / 2 ^ k" "1 / 2 ^ Suc k \<le> q"
    using assms by (simp_all add: field_simps)
  moreover have "rexp q = - int (Suc k)"
    using False n2 by (simp add: rexp_def n_def k_def Let_def)
  moreover have "2 powi (- int (Suc k)) = (1 / 2 ^ Suc k :: rat)" "2 powi (- int k) = (1 / 2 ^ k :: rat)"
    by (simp_all only: power_int_minus power_int_of_nat inverse_eq_divide)
  ultimately show ?thesis by simp
qed

lemma rexp_mono:
  assumes "0 < p" "p \<le> q"
  shows "rexp p \<le> rexp q"
proof (rule ccontr)
  assume "\<not> rexp p \<le> rexp q"
  then have "rexp q + 1 \<le> rexp p" by simp
  then have "2 powi (rexp q + 1) \<le> (2 powi rexp p :: rat)"
    by (intro power_int_increasing) auto
  then show False using rexp_bounds [of p] rexp_bounds [of q] assms by linarith
qed

lemma rexp_eqI:
  assumes "2 powi k \<le> q" "q < 2 powi (k + 1)"
  shows "rexp q = k"
proof -
  have q: "0 < q" using assms(1) by (smt (verit) zero_less_power_int order_less_le_trans zero_less_numeral)
  have "\<not> rexp q < k"
  proof
    assume "rexp q < k"
    then have "2 powi (rexp q + 1) \<le> (2 powi k :: rat)" by (intro power_int_increasing) auto
    then show False using rexp_bounds [OF q] assms by linarith
  qed
  moreover have "\<not> k < rexp q"
  proof
    assume "k < rexp q"
    then have "2 powi (k + 1) \<le> (2 powi rexp q :: rat)" by (intro power_int_increasing) auto
    then show False using rexp_bounds [OF q] assms by linarith
  qed
  ultimately show ?thesis by simp
qed

section \<open>Rounding is monotone and idempotent\<close>

lemma round_half_even_of_int [simp]: "round_half_even (of_int n) = n"
  by (simp add: round_half_even_def)

lemma round_half_even_mono:
  assumes "x \<le> y"
  shows "round_half_even x \<le> round_half_even y"
proof (cases "\<lfloor>x\<rfloor> = \<lfloor>y\<rfloor>")
  case True
  then show ?thesis using assms by (auto simp: round_half_even_def Let_def)
next
  case False
  then have "\<lfloor>x\<rfloor> + 1 \<le> \<lfloor>y\<rfloor>" using floor_mono [OF assms] by simp
  then show ?thesis by (auto simp: round_half_even_def Let_def)
qed

lemma round_half_even_le: "x \<le> of_int n \<Longrightarrow> round_half_even x \<le> n"
  using round_half_even_mono [of x "of_int n"] by simp

lemma round_half_even_ge: "of_int n \<le> x \<Longrightarrow> n \<le> round_half_even x"
  using round_half_even_mono [of "of_int n" x] by simp

lemma round_mag_0 [simp]: "round_mag 0 = 0"
  by (simp add: round_mag_def)

lemma round_mag_nonneg: "0 \<le> q \<Longrightarrow> 0 \<le> round_mag q"
  using round_half_even_ge [of 0] by (auto simp: round_mag_def Let_def)

lemma powi2_pos [simp]: "0 < (2 powi k :: rat)"
  by simp

text \<open>A power of two above the unit in the last place is a whole number of units.\<close>

lemma powi2_units: "j \<le> k \<Longrightarrow> (2 powi k :: rat) = of_int (2 ^ nat (k - j)) * 2 powi j"
proof -
  assume "j \<le> k"
  then have "(2 powi k :: rat) = 2 powi (int (nat (k - j)) + j)" by simp
  also have "\<dots> = 2 powi int (nat (k - j)) * 2 powi j"
    by (rule power_int_add) simp
  finally show ?thesis by (simp only: power_int_of_nat of_int_power of_int_numeral)
qed

lemma round_mag_le_powi:
  assumes "0 < q" "q \<le> 2 powi k" "ulp_exp q \<le> k"
  shows "round_mag q \<le> 2 powi k"
proof -
  let ?u = "2 powi ulp_exp q :: rat"
  have "q / ?u \<le> of_int (2 ^ nat (k - ulp_exp q))"
    using assms(2) powi2_units [OF assms(3)] by (simp add: pos_divide_le_eq)
  then have "round_half_even (q / ?u) \<le> 2 ^ nat (k - ulp_exp q)"
    by (rule round_half_even_le)
  then have "of_int (round_half_even (q / ?u)) * ?u \<le> of_int (2 ^ nat (k - ulp_exp q)) * ?u"
    by (intro mult_right_mono) (simp_all only: of_int_le_iff, simp)
  then show ?thesis using assms(1) powi2_units [OF assms(3)] by (simp add: round_mag_def Let_def)
qed

lemma round_mag_ge_powi:
  assumes "0 < q" "2 powi k \<le> q" "ulp_exp q \<le> k"
  shows "2 powi k \<le> round_mag q"
proof -
  let ?u = "2 powi ulp_exp q :: rat"
  have "of_int (2 ^ nat (k - ulp_exp q)) \<le> q / ?u"
    using assms(2) powi2_units [OF assms(3)] by (simp add: pos_le_divide_eq)
  then have "2 ^ nat (k - ulp_exp q) \<le> round_half_even (q / ?u)"
    by (rule round_half_even_ge)
  then have "of_int (2 ^ nat (k - ulp_exp q)) * ?u \<le> of_int (round_half_even (q / ?u)) * ?u"
    by (intro mult_right_mono) (simp_all only: of_int_le_iff, simp)
  then show ?thesis using assms(1) powi2_units [OF assms(3)] by (simp add: round_mag_def Let_def)
qed

lemma round_mag_mono:
  assumes "0 \<le> p" "p \<le> q"
  shows "round_mag p \<le> round_mag q"
proof (cases "p = 0")
  case True
  then show ?thesis using assms round_mag_nonneg by simp
next
  case False
  then have p: "0 < p" and q: "0 < q" using assms by auto
  have le: "ulp_exp p \<le> ulp_exp q"
    using rexp_mono [OF p assms(2)] by (simp add: ulp_exp_def)
  show ?thesis
  proof (cases "ulp_exp p = ulp_exp q")
    case True
    have "p / 2 powi ulp_exp q \<le> q / 2 powi ulp_exp q"
      using assms(2) by (simp add: divide_right_mono)
    then show ?thesis using p q True
      by (simp add: round_mag_def Let_def mult_right_mono round_half_even_mono)
  next
    case False
    then have lt: "ulp_exp p < ulp_exp q" "rexp p < rexp q" "ulp_exp q = rexp q - 52"
      using le by (auto simp: ulp_exp_def)
    have "p \<le> 2 powi rexp q"
    proof -
      have "p < 2 powi (rexp p + 1)" using rexp_bounds [OF p] by simp
      also have "\<dots> \<le> 2 powi rexp q" using lt(2) by (intro power_int_increasing) auto
      finally show ?thesis by simp
    qed
    then have "round_mag p \<le> 2 powi rexp q"
      using p lt by (intro round_mag_le_powi) auto
    also have "\<dots> \<le> round_mag q"
      using q lt(3) rexp_bounds [OF q] by (intro round_mag_ge_powi) auto
    finally show ?thesis .
  qed
qed

lemma round_mag_units:
  assumes "r = of_int m * 2 powi j" "ulp_exp r \<le> j"
  shows "round_mag r = r"
proof (cases "r = 0")
  case False
  have "r / 2 powi ulp_exp r = of_int (m * 2 ^ nat (j - ulp_exp r))"
    using assms(1) powi2_units [OF assms(2)] by (simp add: field_simps)
  then have "of_int (round_half_even (r / 2 powi ulp_exp r)) = r / 2 powi ulp_exp r"
    by (simp only: round_half_even_of_int)
  then show ?thesis using False by (simp add: round_mag_def Let_def)
qed simp

lemma round_mag_idem:
  assumes "0 \<le> q"
  shows "round_mag (round_mag q) = round_mag q"
proof (cases "round_mag q = 0")
  case False
  then have q: "0 < q" using assms by (cases "q = 0") auto
  define r u where "r = round_mag q" and "u = ulp_exp q"
  have r: "0 < r" using False round_mag_nonneg [OF assms] by (simp add: r_def)
  have units: "r = of_int (round_half_even (q / 2 powi u)) * 2 powi u"
    using q by (simp add: r_def u_def round_mag_def Let_def)
  have "q \<le> 2 powi (u + 53)"
  proof -
    have "q < 2 powi (rexp q + 1)" using rexp_bounds [OF q] by simp
    also have "\<dots> \<le> 2 powi (u + 53)" by (intro power_int_increasing) (auto simp: u_def ulp_exp_def)
    finally show ?thesis by simp
  qed
  then have le: "r \<le> 2 powi (u + 53)"
    using q by (auto simp: r_def u_def intro: round_mag_le_powi)
  show ?thesis
  proof (cases "r = 2 powi (u + 53)")
    case True
    have "rexp r = u + 53"
      using True by (intro rexp_eqI) (simp_all add: power_int_strict_increasing)
    then have "ulp_exp r \<le> u + 1" by (auto simp: ulp_exp_def u_def)
    moreover have "r = of_int (2 ^ 52) * 2 powi (u + 1)"
      using powi2_units [of "u + 1" "u + 53"] True by simp
    ultimately show ?thesis unfolding r_def [symmetric] by (rule round_mag_units [rotated])
  next
    case False
    then have "r < 2 powi (u + 53)" using le by simp
    then have "2 powi rexp r < (2 powi (u + 53) :: rat)" using rexp_bounds [OF r] by linarith
    then have "rexp r < u + 53"
      by (metis linorder_not_less one_le_numeral power_int_increasing)
    then have "ulp_exp r \<le> u" by (auto simp: ulp_exp_def u_def)
    with units show ?thesis unfolding r_def [symmetric] by (rule round_mag_units)
  qed
qed simp

section \<open>Operations on finite values\<close>

lemma representable_pack: "0 \<le> q \<Longrightarrow> representable (pack s q)"
  by (auto simp: pack_def Let_def round_mag_idem round_mag_nonneg)

lemma representable_lit [simp]: "representable (lit q)"
  by (simp add: lit_def representable_pack)

lemma representable_add: "representable (a + b)"
  by (cases a; cases b) (auto simp: plus_f64_def Let_def intro: representable_pack)

lemma representable_div: "representable a \<Longrightarrow> representable b \<Longrightarrow> representable (a / b)"
  by (cases a; cases b) (auto simp: divide_f64_def intro: representable_pack)

lemma representable_mul: "representable a \<Longrightarrow> representable b \<Longrightarrow> representable (a * b)"
  by (cases a; cases b) (auto simp: times_f64_def intro: representable_pack)

lemma less_eq_Fin [simp]: "Fin s a \<le> Fin t b \<longleftrightarrow> rv (Fin s a) \<le> rv (Fin t b)"
  by (auto simp: less_eq_f64_def)

lemma less_Fin [simp]: "Fin s a < Fin t b \<longleftrightarrow> rv (Fin s a) < rv (Fin t b)"
  by (auto simp: less_f64_def)

lemma NaN_compare [simp]:
  "\<not> NaN \<le> x" "\<not> x \<le> NaN" "\<not> NaN < x" "\<not> x < NaN"
  by (cases x; simp add: less_eq_f64_def less_f64_def)+

lemma is_finite_iff: "is_finite x \<longleftrightarrow> (\<exists>s m. x = Fin s m)"
  by (cases x) auto

lemma f64_le_trans: "a \<le> b \<Longrightarrow> b \<le> c \<Longrightarrow> a \<le> (c :: f64)"
  by (cases a; cases b; cases c) (auto simp: less_eq_f64_def split: if_splits)

lemma f64_le_lt_trans: "a \<le> b \<Longrightarrow> b < c \<Longrightarrow> a < (c :: f64)"
  by (cases a; cases b; cases c) (auto simp: less_eq_f64_def less_f64_def split: if_splits)

lemma f64_lt_le_trans: "a < b \<Longrightarrow> b \<le> c \<Longrightarrow> a < (c :: f64)"
  by (cases a; cases b; cases c) (auto simp: less_eq_f64_def less_f64_def split: if_splits)

lemma f64_le_total: "a \<noteq> NaN \<Longrightarrow> b \<noteq> NaN \<Longrightarrow> a \<le> b \<or> b \<le> (a :: f64)"
  by (cases a; cases b) (auto simp: less_eq_f64_def)

lemma f64_not_le: "a \<noteq> NaN \<Longrightarrow> b \<noteq> NaN \<Longrightarrow> \<not> a \<le> b \<longleftrightarrow> b < (a :: f64)"
  by (cases a; cases b) (auto simp: less_eq_f64_def less_f64_def)

lemma f64_lt_imp_le: "a < b \<Longrightarrow> a \<le> (b :: f64)"
  by (simp add: less_eq_f64_def less_f64_def)

lemma f64_lt_asym: "a < b \<Longrightarrow> \<not> b \<le> (a :: f64)"
  by (cases a; cases b) (auto simp: less_eq_f64_def less_f64_def)

lemma f64_le_refl: "a \<noteq> NaN \<Longrightarrow> a \<le> (a :: f64)"
  by (cases a) (auto simp: less_eq_f64_def)

text \<open>The sign bit decides \<^verbatim>\<open>signum\<close>: it is never zero.\<close>

lemma signum_neq_zero: "\<not> feq (signum x) 0"
  by (cases x) (auto simp: zero_f64_def)

lemma f64_clamp_bounds:
  assumes "a \<noteq> NaN" "lo \<le> hi"
  shows "lo \<le> f64_clamp a lo hi \<and> f64_clamp a lo hi \<le> hi"
proof -
  have "lo \<noteq> NaN" "hi \<noteq> NaN" using assms(2) by auto
  then show ?thesis using assms
    by (auto simp: f64_clamp_def f64_le_refl) (metis f64_not_le f64_lt_asym)+
qed

text \<open>Halving a non-negative finite value does not exceed it.\<close>

lemma lit_2: "lit 2 = Fin False 2"
proof -
  have e: "rexp 2 = 1" by (intro rexp_eqI) simp_all
  then have "round_mag 2 = (2::rat)"
    by (intro round_mag_units [of 2 1 1]) (simp_all add: ulp_exp_def)
  with e show ?thesis by (simp add: lit_def pack_def)
qed

lemma half_le:
  assumes "representable x" "is_finite x" "0 \<le> x"
  shows "x / lit 2 \<le> x"
proof -
  from assms obtain s m where x: "x = Fin s m"
    and m: "0 \<le> m" "round_mag m = m" "m = 0 \<or> rexp m < 1024"
    by (auto simp: is_finite_iff)
  have h: "0 \<le> round_mag (m / 2)" "round_mag (m / 2) \<le> m"
    using round_mag_mono [of "m / 2" m] round_mag_nonneg [of "m / 2"] m by simp_all
  have "\<not> (round_mag (m / 2) \<noteq> 0 \<and> 1024 \<le> rexp (round_mag (m / 2)))"
    using rexp_mono [of "round_mag (m / 2)" m] h m(3) by auto
  then show ?thesis using x m h assms(3)
    by (auto simp: divide_f64_def lit_2 pack_def Let_def zero_f64_def)
qed

section \<open>Monotonicity of the operations\<close>

lemma lit_neq_NaN [simp]: "lit q \<noteq> NaN"
  by (simp add: lit_def pack_def Let_def)

lemma le_packI: "rv (Fin s m) \<le> round_mag q \<Longrightarrow> Fin s m \<le> pack False q"
  by (cases "round_mag q \<noteq> 0 \<and> 1024 \<le> rexp (round_mag q)")
     (auto simp: pack_def Let_def less_eq_f64_def split: if_splits)

lemma pack_mono:
  assumes "0 \<le> p" "p \<le> q"
  shows "pack False p \<le> pack False q"
proof (cases "round_mag p \<noteq> 0 \<and> 1024 \<le> rexp (round_mag p)")
  case True
  have "0 < round_mag p" "round_mag p \<le> round_mag q"
    using True assms by (auto simp: round_mag_mono round_mag_nonneg order_less_le)
  then have "rexp (round_mag p) \<le> rexp (round_mag q)" "round_mag q \<noteq> 0"
    by (auto intro: rexp_mono)
  then show ?thesis using True by (auto simp: pack_def Let_def less_eq_f64_def)
next
  case False
  then have "pack False p = Fin False (round_mag p)" by (auto simp: pack_def Let_def)
  then show ?thesis using round_mag_mono [OF assms] by (auto intro: le_packI)
qed

lemma lit_mono_nonneg: "0 \<le> p \<Longrightarrow> p \<le> q \<Longrightarrow> lit p \<le> lit q"
  by (simp add: lit_def pack_mono)

lemma zero_le_pack: "0 \<le> q \<Longrightarrow> 0 \<le> pack False q"
  unfolding zero_f64_def by (rule le_packI) (simp add: round_mag_nonneg)

lemma lit_0: "lit 0 = 0"
  by (simp add: lit_def pack_def zero_f64_def)

lemma zero_le_lit: "0 \<le> q \<Longrightarrow> 0 \<le> lit q"
  by (simp add: lit_def zero_le_pack)

text \<open>Adding non-negative values gives a non-negative value, possibly infinite, never NaN.\<close>

lemma zero_le_add:
  assumes "0 \<le> a" "0 \<le> (b :: f64)"
  shows "0 \<le> a + b"
proof (cases "\<exists>s m t n. a = Fin s m \<and> b = Fin t n")
  case True
  then obtain s m t n where ab: "a = Fin s m" "b = Fin t n" by blast
  then have "0 \<le> rv a + rv b" using assms by (simp add: zero_f64_def)
  then show ?thesis using ab zero_le_pack [of "rv a + rv b"]
    by (auto simp: plus_f64_def Let_def zero_f64_def)
next
  case False
  with assms show ?thesis
    by (cases a; cases b) (auto simp: plus_f64_def zero_f64_def less_eq_f64_def)
qed

lemma representable_rv: "representable x \<Longrightarrow> 0 \<le> rv x \<Longrightarrow> round_mag (rv x) = rv x"
  by (cases x) (auto split: if_splits)

text \<open>Adding a non-negative value to a representable one does not decrease it.\<close>

lemma le_add_nonneg:
  assumes "representable a" "0 \<le> a" "0 \<le> (b :: f64)"
  shows "a \<le> a + b"
proof (cases "\<exists>s m t n. a = Fin s m \<and> b = Fin t n")
  case True
  then obtain s m t n where ab: "a = Fin s m" "b = Fin t n" by blast
  let ?x = "rv a + rv b"
  have v: "0 \<le> rv a" "0 \<le> rv b" using assms ab by (simp_all add: zero_f64_def)
  show ?thesis
  proof (cases "?x = 0")
    case True
    then have "rv a = 0" "a + b = Fin (s \<and> t) 0" using v ab by (auto simp: plus_f64_def Let_def)
    then show ?thesis using ab by (auto simp: less_eq_f64_def)
  next
    case False
    then have eq: "a + b = pack False ?x" using v ab by (auto simp: plus_f64_def Let_def)
    have "rv a \<le> round_mag ?x"
      using round_mag_mono [of "rv a" ?x] v representable_rv [OF assms(1)] by simp
    then show ?thesis unfolding eq using ab le_packI [of s m ?x] by simp
  qed
next
  case False
  with assms show ?thesis
    by (cases a; cases b) (auto simp: plus_f64_def zero_f64_def less_eq_f64_def)
qed

lemma zero_le_div:
  assumes "representable a" "0 \<le> a" "representable b" "0 < (b :: f64)" "is_finite b"
  shows "0 \<le> a / b"
proof (cases a)
  case (Fin s m)
  from assms obtain n where b: "b = Fin False n" and n: "0 < n"
    by (cases b) (auto simp: zero_f64_def split: if_splits)
  have m: "0 \<le> m" "s \<longrightarrow> m = 0" using assms Fin by (auto simp: zero_f64_def split: if_splits)
  then have "0 \<le> m / n" using n by simp
  then show ?thesis using m n b Fin zero_le_pack [of "m / n"]
    by (cases s) (auto simp: divide_f64_def zero_f64_def pack_def)
qed (use assms in \<open>auto simp: divide_f64_def zero_f64_def less_eq_f64_def is_finite_iff\<close>)

lemma f64_min_le_right: "b \<noteq> NaN \<Longrightarrow> f64_min a b \<le> b"
  by (auto simp: f64_min_def f64_le_refl) (metis f64_not_le)

lemma f64_min_ge: "c \<le> a \<Longrightarrow> c \<le> b \<Longrightarrow> c \<le> f64_min a b"
  by (auto simp: f64_min_def)

section \<open>Integers\<close>

text \<open>Integers up to \<open>2 ^ 53\<close> are floats, so that sums of small integers are exact.\<close>

lemma round_mag_int:
  assumes "0 \<le> n" "n \<le> 2 ^ 53"
  shows "round_mag (of_int n) = of_int n \<and> (n \<noteq> 0 \<longrightarrow> rexp (of_int n) \<le> 53)"
proof (cases "n = 0")
  case False
  let ?q = "of_int n :: rat"
  have "rexp ?q \<le> rexp (2 powi 53)"
    using assms False by (intro rexp_mono) (simp_all add: numeral_power_le_of_int_cancel_iff)
  also have "rexp (2 powi 53) = 53" by (intro rexp_eqI) simp_all
  finally have e: "rexp ?q \<le> 53" .
  have "round_mag ?q = ?q"
  proof (cases "rexp ?q = 53")
    case True
    then have "(2 powi 53 :: rat) \<le> ?q" using rexp_bounds [of ?q] assms False by simp
    then have "?q = of_int 1 * 2 powi 53" using assms(2) by simp
    with True show ?thesis by (intro round_mag_units [of _ 1 53]) (simp_all add: ulp_exp_def)
  next
    case False
    with e show ?thesis by (intro round_mag_units [of _ n 0]) (simp_all add: ulp_exp_def)
  qed
  with e show ?thesis by simp
qed simp

lemma lit_of_int: "0 \<le> n \<Longrightarrow> n \<le> 2 ^ 53 \<Longrightarrow> lit (of_int n) = Fin False (of_int n)"
proof -
  assume n: "0 \<le> n" "n \<le> 2 ^ 53"
  note r = round_mag_int [OF n]
  have "\<not> (of_int n \<noteq> (0 :: rat) \<and> 1024 \<le> rexp (of_int n))" using r by linarith
  moreover have "lit (of_int n) = pack False (of_int n)" using n(1) by (simp add: lit_def)
  ultimately show ?thesis unfolding pack_def Let_def using r by presburger
qed

lemma lit_add_of_int:
  assumes "0 \<le> a" "0 \<le> b" "a + b \<le> 2 ^ 53"
  shows "lit (of_int a) + lit (of_int b) = lit (of_int (a + b))"
proof -
  have "lit (of_int a) = Fin False (of_int a)" "lit (of_int b) = Fin False (of_int b)"
    using assms by (auto intro: lit_of_int)
  moreover have "Fin False (of_int a) + Fin False (of_int b) = lit (of_int (a + b))"
    using assms lit_0 by (auto simp: plus_f64_def Let_def lit_def zero_f64_def)
  ultimately show ?thesis by simp
qed

text \<open>Evaluation on integers: these rules reduce the operations to rational arithmetic.\<close>

lemma pack_of_int: "0 \<le> n \<Longrightarrow> n \<le> 2 ^ 53 \<Longrightarrow> pack s (of_int n) = Fin s (of_int n)"
  using round_mag_int [of n] unfolding pack_def Let_def by auto

lemma pack_numeral: "numeral k \<le> (2 ^ 53 :: int) \<Longrightarrow> pack s (numeral k) = Fin s (numeral k)"
  using pack_of_int [of "numeral k" s] by simp

lemma pack_0: "pack s 0 = Fin s 0"
  using pack_of_int [of 0 s] by simp

lemma pack_1: "pack s 1 = Fin s 1"
  using pack_of_int [of 1 s] by simp

lemma lit_numeral: "numeral k \<le> (2 ^ 53 :: int) \<Longrightarrow> lit (numeral k) = Fin False (numeral k)"
  by (simp add: lit_def pack_numeral)

lemma lit_1: "lit 1 = Fin False 1"
  by (simp add: lit_def pack_1)

lemma f64_round_int: "f64_round (Fin s (numeral k)) = Fin s (numeral k)" "f64_round (Fin s 0) = Fin s 0"
  "f64_round (Fin s 1) = Fin s 1"
proof -
  have "\<lfloor>of_int n + 1 / 2 :: rat\<rfloor> = n" for n by (simp add: floor_eq_iff)
  from this [of "numeral k"] this [of 0] this [of 1]
  show "f64_round (Fin s (numeral k)) = Fin s (numeral k)" "f64_round (Fin s 0) = Fin s 0"
    "f64_round (Fin s 1) = Fin s 1" by simp_all
qed

lemmas f64_eval =
  f64_ops pack_numeral pack_0 pack_1 lit_numeral lit_1 lit_0 f64_round_int of_int_f64_def
  f64_max_def f64_min_def f64_sum_def f64_epsilon_def

end
