(* ===== verification/EventSchema.thy ===== *)
theory EventSchema
  imports F64
begin

text \<open>
  The event contracts of \<^verbatim>\<open>crates/event-schema/src/lib.rs\<close>, and the JSON documents they carry. A
  struct is a record with its fields in the source's order, under a prefix of its own (fields
  such as \<^verbatim>\<open>tenant_id\<close> occur in several structs); an enum is a datatype, with a prefix where two
  enums share a variant name. A \<^verbatim>\<open>HashMap\<close> is an association list in iteration order: the
  order is arbitrary in the program, and the theorems hold for every list.
\<close>

section \<open>JSON documents\<close>

text \<open>
  \<^verbatim>\<open>serde_json::Value\<close>, the enum the sources take apart by pattern matching and by its
  projections. A number is an unsigned, a negative or a floating one, as its
  \<^verbatim>\<open>as_u64\<close>/\<^verbatim>\<open>as_i64\<close>/\<^verbatim>\<open>as_f64\<close> distinguish them. Reading and printing JSON text and the derived
  (de)serialisers are not modelled: where code uses them they are parameters.
\<close>

datatype json_number = PosInt nat | NegInt int | Float f64

datatype json =
    JNull
  | JBool bool
  | JNumber json_number
  | JString string
  | JArray "json list"
  | JObject "(string \<times> json) list"

fun j_get :: "json \<Rightarrow> string \<Rightarrow> json option" where
  "j_get (JObject m) k = map_of m k"
| "j_get _ k = None"

fun j_index :: "json \<Rightarrow> nat \<Rightarrow> json option" where
  "j_index (JArray xs) i = (if i < length xs then Some (xs ! i) else None)"
| "j_index _ i = None"

fun as_str :: "json \<Rightarrow> string option" where
  "as_str (JString s) = Some s"
| "as_str _ = None"

fun as_bool :: "json \<Rightarrow> bool option" where
  "as_bool (JBool b) = Some b"
| "as_bool _ = None"

fun as_array :: "json \<Rightarrow> json list option" where
  "as_array (JArray xs) = Some xs"
| "as_array _ = None"

fun as_object :: "json \<Rightarrow> (string \<times> json) list option" where
  "as_object (JObject m) = Some m"
| "as_object _ = None"

fun as_u64 :: "json \<Rightarrow> nat option" where
  "as_u64 (JNumber (PosInt n)) = Some n"
| "as_u64 _ = None"

fun as_i64 :: "json \<Rightarrow> int option" where
  "as_i64 (JNumber (PosInt n)) = (if n < 2 ^ 63 then Some (int n) else None)"
| "as_i64 (JNumber (NegInt i)) = Some i"
| "as_i64 _ = None"

fun as_f64 :: "json \<Rightarrow> f64 option" where
  "as_f64 (JNumber (PosInt n)) = Some (of_int_f64 (int n))"
| "as_f64 (JNumber (NegInt i)) = Some (of_int_f64 i)"
| "as_f64 (JNumber (Float x)) = Some x"
| "as_f64 _ = None"

definition get_str :: "json \<Rightarrow> string \<Rightarrow> string option" where
  "get_str v k = Option.bind (j_get v k) as_str"

definition get_bool :: "json \<Rightarrow> string \<Rightarrow> bool option" where
  "get_bool v k = Option.bind (j_get v k) as_bool"

definition unwrap_or :: "'a option \<Rightarrow> 'a \<Rightarrow> 'a" where
  "unwrap_or x d = (case x of None \<Rightarrow> d | Some a \<Rightarrow> a)"

lemma unwrap_or_simps [simp]: "unwrap_or None d = d" "unwrap_or (Some a) d = a"
  by (simp_all add: unwrap_or_def)

definition or_else :: "'a option \<Rightarrow> 'a option \<Rightarrow> 'a option" where
  "or_else x y = (case x of None \<Rightarrow> y | Some v \<Rightarrow> Some v)"

lemma or_else_simps [simp]: "or_else None y = y" "or_else (Some v) y = Some v"
  by (simp_all add: or_else_def)

text \<open>\<^verbatim>\<open>json!\<close> renders a non-finite float as null.\<close>

definition j_f64 :: "f64 \<Rightarrow> json" where
  "j_f64 x = (if is_finite x then JNumber (Float x) else JNull)"

definition j_nat :: "nat \<Rightarrow> json" where
  "j_nat n = JNumber (PosInt n)"

definition j_int :: "int \<Rightarrow> json" where
  "j_int i = JNumber (if 0 \<le> i then PosInt (nat i) else NegInt i)"

definition j_opt :: "('a \<Rightarrow> json) \<Rightarrow> 'a option \<Rightarrow> json" where
  "j_opt f x = (case x of None \<Rightarrow> JNull | Some a \<Rightarrow> f a)"

section \<open>Enumerations\<close>

datatype SourceType = EvmChain | CexWebsocket | DexApi | OracleApi | CustomApi

datatype Chain =
  Ethereum | Arbitrum | Optimism | Base | Polygon | Avalanche | BSC | Offchain | Chain_Unknown

datatype EventStatus = Status_Observed | Status_Confirmed | Status_Retracted

datatype LifecycleState = Provisional | Confirmed | Retracted | Suppressed | Resolved

datatype AttackFamily =
    AF_OracleManipulation | AF_PegDeviation | AF_FlashLoan | AF_FlashLoanManipulation
  | AF_CrossChainMismatch | AF_StalePriceExploitation | AF_OracleUpgradeRisk
  | AF_DecimalPrecisionRisk | AF_LiquidationCascade | AF_HighUtilization | AF_Unknown

datatype ProtocolCategory = Lending | PerpDex | PC_Unknown

datatype Severity = Info | Low | Medium | High | Critical

datatype IncidentTransition = Trigger | Escalate | Deescalate | Resolve | Retract | Update

datatype ContextClassification = Isolated | Systemic | Ctx_None

datatype FinalityStatus = Tentative | Safe | Finalized

definition default_finality_status :: FinalityStatus where
  "default_finality_status = Tentative"

datatype SignalType =
    ST_OracleDivergence | ST_PegDeviation | ST_FlashLoanDetected | ST_OracleReadDetected
  | ST_LargeSwapDetected | ST_CrossChainMismatch | ST_OracleUpgradeDetected
  | ST_StalePriceDetected | ST_DecimalPrecisionMismatch | ST_NearMissPattern
  | ST_LoanVolumeSpike | ST_PriceDeviation | ST_ProfitExtracted | ST_TvlDropDetected
  | ST_TvlVelocityDrop | ST_ProtocolPauseState | ST_UtilizationHighDetected

datatype EventType = OracleUpdate | FlashLoanCandidate | ProtocolState | ProtocolPause

section \<open>Structures\<close>

record UnifiedEvent =
  ue_event_id :: string
  ue_tenant_id :: string
  ue_source_id :: string
  ue_source_type :: SourceType
  ue_event_type :: string
  ue_timestamp :: datetime
  ue_payload :: json
  ue_chain_id :: "int option"
  ue_block_number :: "int option"
  ue_tx_hash :: "string option"
  ue_market_key :: "string option"
  ue_price :: "f64 option"

record NormalizedEvent =
  ne_event_id :: string
  ne_event_key :: string
  ne_event_type :: EventType
  ne_tenant_id :: "string option"
  ne_chain :: Chain
  ne_chain_slug :: string
  ne_protocol :: string
  ne_protocol_category :: ProtocolCategory
  ne_chain_id :: "nat option"
  ne_tx_hash :: string
  ne_block_number :: nat
  ne_block_hash :: "string option"
  ne_parent_hash :: "string option"
  ne_tx_index :: "nat option"
  ne_log_index :: "nat option"
  ne_status :: EventStatus
  ne_lifecycle_state :: LifecycleState
  ne_requires_confirmation :: bool
  ne_confirmation_depth :: nat
  ne_ingest_latency_ms :: "nat option"
  ne_observed_at :: datetime
  ne_oracle_price :: "f64 option"
  ne_reference_price :: "f64 option"
  ne_metadata :: "(string \<times> json) list"

record DetectionSignal =
  sg_signal_type :: SignalType
  sg_value :: f64
  sg_label :: "string option"
  sg_source_id :: "string option"

record Attribution =
  at_feature :: string
  at_contribution :: f64
  at_detail :: string

record RiskScore =
  rs_score :: f64
  rs_confidence :: f64
  rs_rationale :: "string list"
  rs_attribution :: "Attribution list"

definition RiskScore_default :: RiskScore where
  "RiskScore_default = \<lparr>rs_score = 0, rs_confidence = 0, rs_rationale = [], rs_attribution = []\<rparr>"

record DetectionResult =
  dr_detection_id :: string
  dr_pattern_id :: string
  dr_event_key :: "string option"
  dr_subject_type :: "string option"
  dr_subject_key :: "string option"
  dr_tenant_id :: "string option"
  dr_chain :: Chain
  dr_chain_slug :: string
  dr_protocol :: string
  dr_lifecycle_state :: LifecycleState
  dr_requires_confirmation :: bool
  dr_attack_family :: AttackFamily
  dr_severity :: Severity
  dr_description :: "string option"
  dr_triggered_rule_ids :: "string list"
  dr_tx_hash :: string
  dr_block_number :: int
  dr_signals :: "DetectionSignal list"
  dr_risk_score :: RiskScore
  dr_incident_transition :: "IncidentTransition option"
  dr_context_classification :: "ContextClassification option"
  dr_confidence_breakdown :: "(string \<times> f64) list"
  dr_oracle_context :: "(string \<times> json) list"
  dr_actions_recommended :: "string list"
  dr_is_simulated :: bool
  dr_simulation_run_id :: "string option"
  dr_detected_at :: datetime
  dr_created_at :: datetime

record AlertEvent =
  al_alert_id :: string
  al_incident_id :: "string option"
  al_event_key :: "string option"
  al_subject_type :: "string option"
  al_subject_key :: "string option"
  al_tenant_id :: "string option"
  al_pattern_id :: string
  al_chain :: Chain
  al_chain_slug :: string
  al_protocol :: string
  al_lifecycle_state :: LifecycleState
  al_finality_status :: FinalityStatus
  al_severity :: Severity
  al_risk_score :: f64
  al_confidence :: f64
  al_confidence_breakdown :: "(string \<times> f64) list"
  al_rule_ids :: "string list"
  al_channel_routes :: "string list"
  al_dedup_key :: "string option"
  al_attribution :: "Attribution list"
  al_blast_radius :: "string list"
  al_exposure_summary :: "(string \<times> json) list"
  al_tx_hash :: string
  al_block_number :: nat
  al_oracle_context :: "(string \<times> json) list"
  al_actions_recommended :: "string list"
  al_is_simulated :: bool
  al_simulation_run_id :: "string option"
  al_detected_at :: datetime
  al_created_at :: datetime

record FinalityUpdate =
  fu_chain :: Chain
  fu_event_key :: string
  fu_block_number :: nat
  fu_block_hash :: "string option"
  fu_lifecycle_state :: LifecycleState
  fu_updated_at :: datetime

record ReorgNotice =
  rn_chain :: Chain
  rn_orphaned_from_block :: nat
  rn_common_ancestor_block :: nat
  rn_affected_event_keys :: "string list"
  rn_noticed_at :: datetime

text \<open>The \<^verbatim>\<open>Debug\<close> name of an enum value, as \<^verbatim>\<open>format!("{:?}")\<close> prints it.\<close>

fun source_type_debug :: "SourceType \<Rightarrow> string" where
  "source_type_debug EvmChain = ''EvmChain''"
| "source_type_debug CexWebsocket = ''CexWebsocket''"
| "source_type_debug DexApi = ''DexApi''"
| "source_type_debug OracleApi = ''OracleApi''"
| "source_type_debug CustomApi = ''CustomApi''"

fun severity_debug :: "Severity \<Rightarrow> string" where
  "severity_debug Info = ''Info''"
| "severity_debug Low = ''Low''"
| "severity_debug Medium = ''Medium''"
| "severity_debug High = ''High''"
| "severity_debug Critical = ''Critical''"

fun chain_debug :: "Chain \<Rightarrow> string" where
  "chain_debug Ethereum = ''Ethereum''"
| "chain_debug Arbitrum = ''Arbitrum''"
| "chain_debug Optimism = ''Optimism''"
| "chain_debug Base = ''Base''"
| "chain_debug Polygon = ''Polygon''"
| "chain_debug Avalanche = ''Avalanche''"
| "chain_debug BSC = ''BSC''"
| "chain_debug Offchain = ''Offchain''"
| "chain_debug Chain_Unknown = ''Unknown''"

fun lifecycle_debug :: "LifecycleState \<Rightarrow> string" where
  "lifecycle_debug Provisional = ''Provisional''"
| "lifecycle_debug Confirmed = ''Confirmed''"
| "lifecycle_debug Retracted = ''Retracted''"
| "lifecycle_debug Suppressed = ''Suppressed''"
| "lifecycle_debug Resolved = ''Resolved''"

text \<open>\<^verbatim>\<open>format!("{:?}", severity).to_lowercase()\<close>, the name a severity is stored under.\<close>

definition severity_name :: "Severity \<Rightarrow> string" where
  "severity_name s = to_ascii_lowercase (severity_debug s)"

section \<open>Severities are ordered\<close>

text \<open>The declared order of the severities, as the library's order class.\<close>

fun severity_index :: "Severity \<Rightarrow> nat" where
  "severity_index Info = 0"
| "severity_index Low = 1"
| "severity_index Medium = 2"
| "severity_index High = 3"
| "severity_index Critical = 4"

lemma severity_index_inject: "severity_index a = severity_index b \<longleftrightarrow> a = b"
  by (cases a; cases b) auto

instantiation Severity :: linorder
begin

definition less_eq_Severity :: "Severity \<Rightarrow> Severity \<Rightarrow> bool" where
  "less_eq_Severity a b \<longleftrightarrow> severity_index a \<le> severity_index b"

definition less_Severity :: "Severity \<Rightarrow> Severity \<Rightarrow> bool" where
  "less_Severity a b \<longleftrightarrow> severity_index a < severity_index b"

instance
  by intro_classes (auto simp: less_eq_Severity_def less_Severity_def severity_index_inject)

end

end
