(* ===== verification/RiskScorer.thy ===== *)
theory RiskScorer
  imports EventSchema
begin

text \<open>
  \<^verbatim>\<open>crates/risk-scorer/src/lib.rs\<close>: the deterministic risk score of a detection. The three
  accumulators of \<^verbatim>\<open>score\<close> (the score, the rationale, the attribution) are threaded through the
  four stages of the function. \<open>fmt4\<close> stands for the \<^verbatim>\<open>{:.4}\<close> rendering of a float.
  The lemmas show that the score always lies between 0 and 100 and the confidence between 0.6
  and 0.99, that the attribution explains the score, and that on inputs of realistic size the
  float arithmetic is exact.
\<close>

section \<open>The scorer\<close>

record score_acc =
  acc_score :: f64
  acc_rationale :: "string list"
  acc_attribution :: "Attribution list"

definition contribute :: "rat \<Rightarrow> string \<Rightarrow> string \<Rightarrow> string \<Rightarrow> score_acc \<Rightarrow> score_acc" where
  "contribute pts why feature detail a =
     \<lparr>acc_score = acc_score a + lit pts,
      acc_rationale = acc_rationale a @ [why],
      acc_attribution = acc_attribution a @
        [\<lparr>at_feature = feature, at_contribution = lit pts, at_detail = detail\<rparr>]\<rparr>"

fun score_severity :: "Severity \<Rightarrow> score_acc \<Rightarrow> score_acc" where
  "score_severity Critical a =
     contribute 40 ''Critical severity baseline +40'' ''severity_critical'' ''Critical severity baseline'' a"
| "score_severity High a =
     contribute 30 ''High severity baseline +30'' ''severity_high'' ''High severity baseline'' a"
| "score_severity Medium a =
     contribute 20 ''Medium severity baseline +20'' ''severity_medium'' ''Medium severity baseline'' a"
| "score_severity Low a =
     contribute 10 ''Low severity baseline +10'' ''severity_low'' ''Low severity baseline'' a"
| "score_severity Info a = a"

definition score_rules :: "string list \<Rightarrow> score_acc \<Rightarrow> score_acc" where
  "score_rules ids a =
     (if ids = [] then a
      else contribute 20 ''Triggered rules present +20'' ''triggered_rules''
             (nat_to_string (length ids) @ '' rule(s) triggered'') a)"

definition score_signal :: "(f64 \<Rightarrow> string) \<Rightarrow> DetectionSignal \<Rightarrow> score_acc \<Rightarrow> score_acc" where
  "score_signal fmt4 sg a =
     (if sg_signal_type sg = ST_OracleDivergence
      then contribute 25 ''Oracle divergence triggered +25'' ''oracle_divergence''
             (case sg_label sg of
                None \<Rightarrow> ''divergence value: '' @ fmt4 (sg_value sg)
              | Some l \<Rightarrow> l) a
      else a)"

definition has_flash_loan_trace :: "(string \<times> json) list \<Rightarrow> bool" where
  "has_flash_loan_trace ctx =
     (case map_of ctx ''trace_summary'' of
        None \<Rightarrow> False
      | Some v \<Rightarrow> (case j_get v ''has_flash_loan'' of
           None \<Rightarrow> False
         | Some b \<Rightarrow> (case as_bool b of None \<Rightarrow> False | Some t \<Rightarrow> t)))"

definition score_trace :: "(string \<times> json) list \<Rightarrow> score_acc \<Rightarrow> score_acc" where
  "score_trace ctx a =
     (if has_flash_loan_trace ctx
      then contribute 15 ''Flash loan in trace summary +15'' ''trace_flash_loan''
             ''trace enrichment indicates flash loan'' a
      else a)"

definition score_stages :: "(f64 \<Rightarrow> string) \<Rightarrow> DetectionResult \<Rightarrow> score_acc" where
  "score_stages fmt4 r =
     score_trace (dr_oracle_context r)
       (fold (score_signal fmt4) (dr_signals r)
         (score_rules (dr_triggered_rule_ids r)
           (score_severity (dr_severity r)
             \<lparr>acc_score = lit 0, acc_rationale = [], acc_attribution = []\<rparr>)))"

definition score :: "(f64 \<Rightarrow> string) \<Rightarrow> DetectionResult \<Rightarrow> RiskScore" where
  "score fmt4 r =
     (let a = score_stages fmt4 r;
          bounded_score = f64_min (acc_score a) (lit 100)
      in \<lparr>rs_score = bounded_score,
          rs_confidence = f64_min (lit (6 / 10) + bounded_score / lit 250) (lit (99 / 100)),
          rs_rationale = acc_rationale a,
          rs_attribution = acc_attribution a\<rparr>)"

section \<open>Invariant of the accumulators\<close>

text \<open>
  The attribution explains the score: adding up the contributions from the left gives the
  accumulated score, and every contribution has its line of rationale. The score is an ordered
  non-negative value throughout.
\<close>

definition acc_inv :: "score_acc \<Rightarrow> bool" where
  "acc_inv a \<longleftrightarrow>
     acc_score a = foldl (+) (lit 0) (map at_contribution (acc_attribution a)) \<and>
     length (acc_rationale a) = length (acc_attribution a) \<and>
     0 \<le> acc_score a \<and> representable (acc_score a)"

lemma acc_invD:
  assumes "acc_inv a"
  shows "0 \<le> acc_score a" "representable (acc_score a)"
  using assms unfolding acc_inv_def by blast+

lemma acc_inv_contribute:
  assumes "acc_inv a" "0 \<le> pts"
  shows "acc_inv (contribute pts why feature detail a)"
proof -
  have "0 \<le> acc_score a + lit pts"
    using assms by (intro zero_le_add zero_le_lit acc_invD)
  moreover have "representable (acc_score a + lit pts)" by (rule representable_add)
  ultimately show ?thesis using assms(1) unfolding acc_inv_def contribute_def by simp
qed

lemma acc_inv_severity: "acc_inv a \<Longrightarrow> acc_inv (score_severity s a)"
  by (cases s) (simp_all add: acc_inv_contribute)

lemma acc_inv_rules: "acc_inv a \<Longrightarrow> acc_inv (score_rules ids a)"
  by (simp add: score_rules_def acc_inv_contribute)

lemma acc_inv_signals: "acc_inv a \<Longrightarrow> acc_inv (fold (score_signal fmt4) sgs a)"
  by (induction sgs arbitrary: a) (simp_all add: score_signal_def acc_inv_contribute)

lemma acc_inv_trace: "acc_inv a \<Longrightarrow> acc_inv (score_trace ctx a)"
  by (simp add: score_trace_def acc_inv_contribute)

lemma acc_inv_init: "acc_inv \<lparr>acc_score = lit 0, acc_rationale = [], acc_attribution = []\<rparr>"
  by (simp add: acc_inv_def zero_le_lit)

lemma acc_inv_stages: "acc_inv (score_stages fmt4 r)"
  unfolding score_stages_def
  by (intro acc_inv_trace acc_inv_signals acc_inv_rules acc_inv_severity acc_inv_init)

section \<open>Bounds\<close>

lemma score_bounds: "lit 0 \<le> rs_score (score fmt4 r) \<and> rs_score (score fmt4 r) \<le> lit 100"
proof -
  have "0 \<le> acc_score (score_stages fmt4 r)"
    using acc_inv_stages by (rule acc_invD)
  then show ?thesis
    by (auto simp: score_def Let_def lit_0 intro!: f64_min_ge f64_min_le_right zero_le_lit)
qed

lemma confidence_bounds:
  "lit (6 / 10) \<le> rs_confidence (score fmt4 r) \<and> rs_confidence (score fmt4 r) \<le> lit (99 / 100)"
proof -
  let ?s = "rs_score (score fmt4 r)"
  have "representable (acc_score (score_stages fmt4 r))"
    using acc_inv_stages by (rule acc_invD)
  then have "representable ?s" by (simp add: score_def Let_def f64_min_def)
  moreover have "0 \<le> ?s" using score_bounds [of fmt4 r] by (simp add: lit_0)
  moreover have "0 < lit 250" "is_finite (lit 250)"
    using lit_of_int [of 250] by (simp_all add: zero_f64_def)
  ultimately have "0 \<le> ?s / lit 250" by (intro zero_le_div) simp_all
  then have "lit (6 / 10) \<le> lit (6 / 10) + ?s / lit 250"
    by (intro le_add_nonneg) (simp_all add: zero_le_lit)
  then show ?thesis
    by (auto simp: score_def Let_def intro!: f64_min_ge f64_min_le_right lit_mono_nonneg)
qed

section \<open>Exactness\<close>

text \<open>The integer the score is meant to be, before it is capped at 100.\<close>

fun severity_points :: "Severity \<Rightarrow> int" where
  "severity_points Critical = 40"
| "severity_points High = 30"
| "severity_points Medium = 20"
| "severity_points Low = 10"
| "severity_points Info = 0"

definition risk_points :: "DetectionResult \<Rightarrow> int" where
  "risk_points r =
     severity_points (dr_severity r)
     + (if dr_triggered_rule_ids r = [] then 0 else 20)
     + 25 * int (length (filter (\<lambda>sg. sg_signal_type sg = ST_OracleDivergence) (dr_signals r)))
     + (if has_flash_loan_trace (dr_oracle_context r) then 15 else 0)"

definition exact :: "int \<Rightarrow> score_acc \<Rightarrow> bool" where
  "exact k a \<longleftrightarrow> acc_score a = lit (of_int k) \<and> 0 \<le> k"

lemma exact_contribute:
  assumes "exact k a" "0 \<le> n" "k + n \<le> 2 ^ 53"
  shows "exact (k + n) (contribute (of_int n) why feature detail a)"
  using assms lit_add_of_int [of k n] by (simp add: exact_def contribute_def)

lemma exact_severity:
  assumes "exact k a" "k + 40 \<le> 2 ^ 53"
  shows "exact (k + severity_points s) (score_severity s a)"
proof (cases s)
  case Info
  with assms show ?thesis by simp
qed (use assms exact_contribute [of k a 10] exact_contribute [of k a 20]
       exact_contribute [of k a 30] exact_contribute [of k a 40] in simp_all)

lemma exact_signals:
  assumes "exact k a" "k + 25 * int (length sgs) \<le> 2 ^ 53"
  shows "exact (k + 25 * int (length (filter (\<lambda>sg. sg_signal_type sg = ST_OracleDivergence) sgs)))
           (fold (score_signal fmt4) sgs a)"
  using assms
proof (induction sgs arbitrary: k a)
  case (Cons sg sgs)
  show ?case
  proof (cases "sg_signal_type sg = ST_OracleDivergence")
    case True
    have "exact (k + 25) (score_signal fmt4 sg a)"
      using exact_contribute [OF Cons.prems(1), of 25] Cons.prems(2) True
      by (simp add: score_signal_def)
    from Cons.IH [OF this] Cons.prems(2) True show ?thesis by (simp add: algebra_simps)
  next
    case False
    then show ?thesis using Cons by (simp add: score_signal_def)
  qed
qed simp

lemma exact_rules:
  assumes "exact k a" "k + 20 \<le> 2 ^ 53"
  shows "exact (k + (if ids = [] then 0 else 20)) (score_rules ids a)"
  using assms exact_contribute [OF assms(1), of 20] by (simp add: score_rules_def)

lemma exact_trace:
  assumes "exact k a" "k + 15 \<le> 2 ^ 53"
  shows "exact (k + (if has_flash_loan_trace ctx then 15 else 0)) (score_trace ctx a)"
  using assms exact_contribute [OF assms(1), of 15] by (simp add: score_trace_def)

lemma severity_points_bounds: "0 \<le> severity_points s" "severity_points s \<le> 40"
  by (cases s; simp)+

lemma exact_stages:
  assumes "length (dr_signals r) \<le> 2 ^ 40"
  shows "exact (risk_points r) (score_stages fmt4 r)"
proof -
  have sig: "length (filter (\<lambda>sg. sg_signal_type sg = ST_OracleDivergence) (dr_signals r)) \<le> 2 ^ 40"
    using assms length_filter_le order_trans by blast
  show ?thesis
    unfolding risk_points_def score_stages_def
    by (intro exact_trace exact_signals exact_rules)
       (use exact_severity [of 0 "\<lparr>acc_score = lit 0, acc_rationale = [], acc_attribution = []\<rparr>"]
          severity_points_bounds [of "dr_severity r"] sig assms in \<open>auto simp: exact_def\<close>)
qed

lemma f64_min_lit_int:
  assumes "0 \<le> a" "a \<le> 2 ^ 53" "0 \<le> b" "b \<le> 2 ^ 53"
  shows "f64_min (lit (of_int a)) (lit (of_int b)) = lit (of_int (min a b))"
  using lit_of_int [OF assms(1,2)] lit_of_int [OF assms(3,4)] by (simp add: f64_min_def min_def)

lemma risk_points_bounds:
  assumes "length (dr_signals r) \<le> 2 ^ 40"
  shows "0 \<le> risk_points r" "risk_points r \<le> 2 ^ 53"
proof -
  let ?n = "length (filter (\<lambda>sg. sg_signal_type sg = ST_OracleDivergence) (dr_signals r))"
  have "?n \<le> 2 ^ 40" using assms length_filter_le order_trans by blast
  then show "0 \<le> risk_points r" "risk_points r \<le> 2 ^ 53"
    using severity_points_bounds [of "dr_severity r"] by (auto simp: risk_points_def)
qed

section \<open>What the score guarantees\<close>

text \<open>
  (C21) The score is well defined for every detection: it lies between 0 and 100 and the confidence
  between 0.6 and 0.99, whatever the signals and their values are (the rounding of the float
  operations included).
\<close>

theorem score_range:
  "lit 0 \<le> rs_score (score fmt4 r) \<and> rs_score (score fmt4 r) \<le> lit 100
   \<and> lit (6 / 10) \<le> rs_confidence (score fmt4 r) \<and> rs_confidence (score fmt4 r) \<le> lit (99 / 100)"
  using score_bounds [of fmt4 r] confidence_bounds [of fmt4 r] by simp

text \<open>
  The float computation is exact: the score is the integer sum of the points that the severity,
  the triggered rules, the oracle divergence signals and the flash loan trace earn, capped at
  100. The bound on the number of signals keeps the running sum below the largest exact integer.
\<close>

lemma score_exact:
  assumes "length (dr_signals r) \<le> 2 ^ 40"
  shows "rs_score (score fmt4 r) = lit (of_int (min (risk_points r) 100))"
  using exact_stages [OF assms, of fmt4] risk_points_bounds [OF assms] f64_min_lit_int [of "risk_points r" 100]
  by (simp add: score_def Let_def exact_def)

definition sample_detection :: DetectionResult where
  "sample_detection =
     \<lparr>dr_detection_id = [], dr_pattern_id = ''dpeg'', dr_event_key = None, dr_subject_type = None,
      dr_subject_key = None, dr_tenant_id = None, dr_chain = Offchain, dr_chain_slug = ''offchain'',
      dr_protocol = ''USDC/USD'', dr_lifecycle_state = Provisional, dr_requires_confirmation = False,
      dr_attack_family = AF_PegDeviation, dr_severity = High, dr_description = None,
      dr_triggered_rule_ids = [''r1''], dr_tx_hash = [], dr_block_number = 0,
      dr_signals = [\<lparr>sg_signal_type = ST_OracleDivergence, sg_value = 0, sg_label = None, sg_source_id = None\<rparr>],
      dr_risk_score = RiskScore_default, dr_incident_transition = None, dr_context_classification = None,
      dr_confidence_breakdown = [], dr_oracle_context = [], dr_actions_recommended = [],
      dr_is_simulated = False, dr_simulation_run_id = None, dr_detected_at = 0, dr_created_at = 0\<rparr>"

text \<open>
  The score explains itself: it is the sum of the contributions the attribution lists, in order,
  capped at 100, and every contribution has its line of rationale.
\<close>

theorem score_attribution_explains:
  "rs_score (score fmt4 r) =
     f64_min (foldl (+) (lit 0) (map at_contribution (rs_attribution (score fmt4 r)))) (lit 100)
   \<and> length (rs_rationale (score fmt4 r)) = length (rs_attribution (score fmt4 r))"
  using acc_inv_stages [of fmt4 r] unfolding acc_inv_def by (simp add: score_def Let_def)

end
