(* ===== verification/FieldMapping.thy ===== *)
theory FieldMapping
  imports EventSchema
begin

text \<open>
  \<^verbatim>\<open>crates/event-schema/src/field_mapping.rs\<close>: how the fields of a raw source payload become the
  canonical fields of an event. A mapping names a path into the payload, a canonical field and a
  transform. The external libraries the code calls (chrono, serde's derived code, the printing of
  JSON, Unicode case mapping, \<^verbatim>\<open>powi\<close>, whose precision Rust leaves open) are the fields of a record
  that the operations take as an argument. The theorems relate the path evaluator to
  paths as lists of steps, and show that each canonical field depends only on its own mappings.
\<close>

section \<open>Mappings\<close>

datatype CanonicalField =
    CF_MarketKey | CF_Price | CF_Timestamp | CF_SourceId | CF_EventType | CF_ChainId
  | CF_BlockNumber | CF_TxHash | CF_ProtocolId | CF_ChainSlug | CF_MarketId | CF_TvlUsd
  | CF_LoanAmountUsd | CF_ProfitUsd | CF_TokenAddress

datatype FieldTransform =
    Identity | ToF64 | ToU64 | SymbolToMarketKey | ScalePrice | ParseTsMs | ParseTsS
  | ParseTsIso8601 | SqrtRatioToPrice

record FieldMapping =
  fm_source_field :: string
  fm_canonical_field :: CanonicalField
  fm_transform :: FieldTransform
  fm_description :: "string option"

record libs =
  timestamp_millis_opt :: "int \<Rightarrow> datetime option"
  timestamp_opt :: "int \<Rightarrow> datetime option"
  parse_from_rfc3339 :: "string \<Rightarrow> datetime option"
  json_to_string :: "json \<Rightarrow> string"
  unicode_uppercase :: "string \<Rightarrow> string"
  powi_f64 :: "f64 \<Rightarrow> int \<Rightarrow> f64"
  de_field_mappings :: "json \<Rightarrow> FieldMapping list option"
  ser_field_mappings :: "FieldMapping list \<Rightarrow> json"

definition field_mapping ::
  "string \<Rightarrow> CanonicalField \<Rightarrow> FieldTransform \<Rightarrow> string \<Rightarrow> FieldMapping" where
  "field_mapping path field transform description =
     \<lparr>fm_source_field = path, fm_canonical_field = field, fm_transform = transform,
      fm_description = Some description\<rparr>"

text \<open>The UTF-8 bytes of the arrow and of the division sign in the descriptions.\<close>

definition arrow :: string where
  "arrow = [CHR 0xE2, CHR 0x86, CHR 0x92]"

definition div_sign :: string where
  "div_sign = [CHR 0xC3, CHR 0xB7]"

section \<open>The defaults of each parser\<close>

definition mappings_binance_miniticker_v1 :: "FieldMapping list" where
  "mappings_binance_miniticker_v1 =
     [field_mapping ''$.c'' CF_Price ToF64 ''Close price (string float)'',
      field_mapping ''$.s'' CF_MarketKey SymbolToMarketKey (''Symbol '' @ arrow @ '' market key''),
      field_mapping ''$.E'' CF_Timestamp ParseTsMs ''Event time (epoch ms)'']"

definition mappings_coinbase_ticker_v1 :: "FieldMapping list" where
  "mappings_coinbase_ticker_v1 =
     [field_mapping ''$.price'' CF_Price ToF64 ''Last trade price'',
      field_mapping ''$.product_id'' CF_MarketKey SymbolToMarketKey (''Product ID '' @ arrow @ '' market key''),
      field_mapping ''$.time'' CF_Timestamp ParseTsIso8601 ''Event time (ISO 8601)'']"

definition mappings_kraken_ticker_v2 :: "FieldMapping list" where
  "mappings_kraken_ticker_v2 =
     [field_mapping ''$.data[0].last'' CF_Price ToF64 ''Last trade price'',
      field_mapping ''$.data[0].symbol'' CF_MarketKey SymbolToMarketKey (''Symbol '' @ arrow @ '' market key'')]"

definition mappings_okx_tickers_v5 :: "FieldMapping list" where
  "mappings_okx_tickers_v5 =
     [field_mapping ''$.data[0].last'' CF_Price ToF64 ''Last price (string float)'',
      field_mapping ''$.data[0].instId'' CF_MarketKey SymbolToMarketKey (''Instrument ID '' @ arrow @ '' market key''),
      field_mapping ''$.data[0].ts'' CF_Timestamp ParseTsMs ''Event time (epoch ms)'']"

definition mappings_bybit_tickers_v5 :: "FieldMapping list" where
  "mappings_bybit_tickers_v5 =
     [field_mapping ''$.data.lastPrice'' CF_Price ToF64 ''Last price'',
      field_mapping ''$.data.symbol'' CF_MarketKey SymbolToMarketKey (''Symbol '' @ arrow @ '' market key''),
      field_mapping ''$.ts'' CF_Timestamp ParseTsMs ''Event time (epoch ms)'']"

definition mappings_gemini_marketdata_v1 :: "FieldMapping list" where
  "mappings_gemini_marketdata_v1 =
     [field_mapping ''$.price'' CF_Price ToF64 ''Trade price'',
      field_mapping ''$.timestampms'' CF_Timestamp ParseTsMs ''Event time (epoch ms)'']"

definition mappings_chainlink_answer_updated_v1 :: "FieldMapping list" where
  "mappings_chainlink_answer_updated_v1 =
     [field_mapping ''$.answer'' CF_Price ScalePrice (''Oracle answer '' @ div_sign @ '' 10^8 '' @ arrow @ '' price''),
      field_mapping ''$.updatedAt'' CF_Timestamp ParseTsS ''Update time (epoch sec)'']"

definition mappings_chainlink_data_streams_v3 :: "FieldMapping list" where
  "mappings_chainlink_data_streams_v3 =
     [field_mapping ''$.benchmark_price'' CF_Price ScalePrice (''Benchmark price integer '' @ div_sign @ '' 10^8 '' @ arrow @ '' price''),
      field_mapping ''$.market_key'' CF_MarketKey Identity ''Normalized market key when present in payload'',
      field_mapping ''$.observations_timestamp'' CF_Timestamp ParseTsS ''Observation time (epoch sec)'']"

definition mappings_pyth_hermes_v2 :: "FieldMapping list" where
  "mappings_pyth_hermes_v2 =
     [field_mapping ''$.ema_price.price'' CF_Price ScalePrice ''EMA price mantissa scaled by sibling expo'',
      field_mapping ''$.metadata.symbol'' CF_MarketKey SymbolToMarketKey (''Pyth symbol '' @ arrow @ '' market key''),
      field_mapping ''$.ema_price.publish_time'' CF_Timestamp ParseTsS ''EMA publish time (epoch sec)'']"

definition mappings_uniswap_v2_swap_price_v1 :: "FieldMapping list" where
  "mappings_uniswap_v2_swap_price_v1 =
     [field_mapping ''$.amount0In'' CF_Price ToF64 ''Derived swap price from amounts + decimals'',
      field_mapping ''$.block.timestamp'' CF_Timestamp ParseTsS ''Block timestamp (epoch sec)'',
      field_mapping ''$.transactionHash'' CF_TxHash Identity ''Transaction hash'',
      field_mapping ''$.blockNumber'' CF_BlockNumber ToU64 ''Block number'']"

definition mappings_uniswap_v3_swap_price_v1 :: "FieldMapping list" where
  "mappings_uniswap_v3_swap_price_v1 =
     [field_mapping ''$.sqrtPriceX96'' CF_Price SqrtRatioToPrice (''sqrtPriceX96 '' @ arrow @ '' price''),
      field_mapping ''$.block.timestamp'' CF_Timestamp ParseTsS ''Block timestamp (epoch sec)'',
      field_mapping ''$.transactionHash'' CF_TxHash Identity ''Transaction hash'',
      field_mapping ''$.blockNumber'' CF_BlockNumber ToU64 ''Block number'']"

definition mappings_protocol_tvl_v1 :: "FieldMapping list" where
  "mappings_protocol_tvl_v1 =
     [field_mapping ''$.tvl_usd'' CF_TvlUsd ToF64 ''Protocol TVL in USD'',
      field_mapping ''$.protocol_id'' CF_ProtocolId Identity ''Protocol identifier'',
      field_mapping ''$.chain_slug'' CF_ChainSlug Identity ''Chain slug'',
      field_mapping ''$.market_id'' CF_MarketId Identity ''Market identifier'',
      field_mapping ''$.block_number'' CF_BlockNumber ToU64 ''Block number'']"

definition mappings_protocol_pause_v1 :: "FieldMapping list" where
  "mappings_protocol_pause_v1 =
     [field_mapping ''$.protocol_id'' CF_ProtocolId Identity ''Protocol identifier'',
      field_mapping ''$.chain_slug'' CF_ChainSlug Identity ''Chain slug'']"

definition mappings_evm_block_v1 :: "FieldMapping list" where
  "mappings_evm_block_v1 =
     [field_mapping ''$.timestamp'' CF_Timestamp ParseTsS ''Block timestamp (epoch sec)'',
      field_mapping ''$.number'' CF_BlockNumber ToU64 ''Block number'']"

definition mappings_evm_log_v1 :: "FieldMapping list" where
  "mappings_evm_log_v1 =
     [field_mapping ''$.blockNumber'' CF_BlockNumber ToU64 ''Block number'',
      field_mapping ''$.transactionHash'' CF_TxHash Identity ''Transaction hash'',
      field_mapping ''$.block.timestamp'' CF_Timestamp ParseTsS ''Block timestamp'']"

definition default_mappings_for_parser :: "string \<Rightarrow> FieldMapping list" where
  "default_mappings_for_parser parser_name =
     (if parser_name = ''binance_miniticker_v1'' then mappings_binance_miniticker_v1
      else if parser_name = ''coinbase_ticker_v1'' then mappings_coinbase_ticker_v1
      else if parser_name = ''kraken_ticker_v2'' then mappings_kraken_ticker_v2
      else if parser_name = ''okx_tickers_v5'' then mappings_okx_tickers_v5
      else if parser_name = ''bybit_tickers_v5'' then mappings_bybit_tickers_v5
      else if parser_name = ''gemini_marketdata_v1'' then mappings_gemini_marketdata_v1
      else if parser_name = ''chainlink_answer_updated_v1'' then mappings_chainlink_answer_updated_v1
      else if parser_name = ''chainlink_data_streams_v3'' then mappings_chainlink_data_streams_v3
      else if parser_name = ''pyth_hermes_v2'' \<or> parser_name = ''pyth_price_update_v1'' then mappings_pyth_hermes_v2
      else if parser_name = ''uniswap_v2_swap_price_v1'' then mappings_uniswap_v2_swap_price_v1
      else if parser_name = ''uniswap_v3_swap_price_v1'' then mappings_uniswap_v3_swap_price_v1
      else if parser_name = ''protocol_tvl_v1'' then mappings_protocol_tvl_v1
      else if parser_name = ''protocol_pause_v1'' then mappings_protocol_pause_v1
      else if parser_name = ''evm_block_v1'' then mappings_evm_block_v1
      else if parser_name = ''evm_log_v1'' then mappings_evm_log_v1
      else [])"

definition resolve_field_mappings ::
  "'a libs_scheme \<Rightarrow> string \<Rightarrow> json option \<Rightarrow> FieldMapping list" where
  "resolve_field_mappings L parser_name filter_config =
     (case Option.bind (Option.bind filter_config (\<lambda>cfg. j_get cfg ''field_mappings'')) (de_field_mappings L) of
        None \<Rightarrow> default_mappings_for_parser parser_name
      | Some mappings \<Rightarrow>
          if mappings = [] then default_mappings_for_parser parser_name else mappings)"

section \<open>Applying mappings to a payload\<close>

record MappedFields =
  mf_market_key :: "string option"
  mf_price :: "f64 option"
  mf_timestamp :: "datetime option"
  mf_chain_id :: "nat option"
  mf_block_number :: "nat option"
  mf_tx_hash :: "string option"
  mf_protocol_id :: "string option"
  mf_chain_slug :: "string option"
  mf_market_id :: "string option"
  mf_tvl_usd :: "f64 option"
  mf_loan_amount_usd :: "f64 option"
  mf_profit_usd :: "f64 option"
  mf_token_address :: "string option"
  mf_extras :: "(string \<times> json) list"

definition MappedFields_default :: MappedFields where
  "MappedFields_default =
     \<lparr>mf_market_key = None, mf_price = None, mf_timestamp = None, mf_chain_id = None,
      mf_block_number = None, mf_tx_hash = None, mf_protocol_id = None, mf_chain_slug = None,
      mf_market_id = None, mf_tvl_usd = None, mf_loan_amount_usd = None, mf_profit_usd = None,
      mf_token_address = None, mf_extras = []\<rparr>"

text \<open>One segment of a path, \<^verbatim>\<open>field\<close> or \<^verbatim>\<open>field[0]\<close>.\<close>

definition eval_segment :: "json \<Rightarrow> string \<Rightarrow> json option" where
  "eval_segment current segment =
     (case split_once (CHR ''['') segment of
        Some (key, rest) \<Rightarrow>
          Option.bind (j_get current key) (\<lambda>v.
            Option.bind (parse_u64 (trim_end_matches (CHR '']'') rest)) (\<lambda>idx. j_index v idx))
      | None \<Rightarrow> j_get current segment)"

fun eval_segments :: "json \<Rightarrow> string list \<Rightarrow> json option" where
  "eval_segments current [] = Some current"
| "eval_segments current (segment # rest) =
     Option.bind (eval_segment current segment) (\<lambda>v. eval_segments v rest)"

definition eval_jsonpath :: "json \<Rightarrow> string \<Rightarrow> json option" where
  "eval_jsonpath payload path =
     (if path = ''$'' then Some payload
      else Option.bind (strip_prefix ''$.'' path) (\<lambda>p. eval_segments payload (split_on (CHR ''.'') p)))"

definition known_symbols :: "(string \<times> string) list" where
  "known_symbols =
     [(''USDCUSDT'', ''USDC/USD''), (''USDCUSD'', ''USDC/USD''), (''USDTUSDC'', ''USDT/USD''),
      (''USDTUSD'', ''USDT/USD''), (''DAIUSDT'', ''DAI/USD''), (''DAIUSD'', ''DAI/USD'')]"

definition symbol_to_market_key :: "'a libs_scheme \<Rightarrow> string \<Rightarrow> string option" where
  "symbol_to_market_key L symbol =
     (let normalized = to_uppercase (unicode_uppercase L) (trim (last (split_on (CHR ''.'') symbol)));
          s = filter (\<lambda>c. c \<noteq> CHR ''-'' \<and> c \<noteq> CHR ''/'') normalized
      in case map_of known_symbols s of
           Some mk \<Rightarrow> Some mk
         | None \<Rightarrow> if CHR ''/'' \<in> set normalized then Some normalized else None)"

definition positive_finite :: "f64 \<Rightarrow> f64 option" where
  "positive_finite x = (if is_finite x \<and> 0 < x then Some x else None)"

definition i32_try_from :: "int \<Rightarrow> int option" where
  "i32_try_from x = (if - (2 ^ 31) \<le> x \<and> x < 2 ^ 31 then Some x else None)"

definition scale_price_from_mapping ::
  "'a libs_scheme \<Rightarrow> json \<Rightarrow> FieldMapping \<Rightarrow> json \<Rightarrow> int \<Rightarrow> f64 option" where
  "scale_price_from_mapping L payload mapping raw fallback_decimals =
     (case (case as_i64 raw of
              Some v \<Rightarrow> Some (of_int_f64 v)
            | None \<Rightarrow> Option.bind (as_str raw) parse_f64) of
        None \<Rightarrow> None
      | Some raw_int \<Rightarrow>
          (let expo_path = map_option (\<lambda>p. p @ ''.expo'') (strip_suffix ''.price'' (fm_source_field mapping))
           in case Option.bind (Option.bind expo_path (eval_jsonpath payload)) as_i64 of
                Some expo_value \<Rightarrow>
                  (case i32_try_from expo_value of
                     None \<Rightarrow> None
                   | Some expo \<Rightarrow> positive_finite (raw_int * powi_f64 L (lit 10) expo))
              | None \<Rightarrow> positive_finite (raw_int / powi_f64 L (lit 10) fallback_decimals)))"

definition i64_or_text :: "json \<Rightarrow> int option" where
  "i64_or_text raw =
     (case as_i64 raw of Some v \<Rightarrow> Some v | None \<Rightarrow> Option.bind (as_str raw) parse_i64)"

definition f64_or_text :: "json \<Rightarrow> f64 option" where
  "f64_or_text raw =
     (case as_f64 raw of Some v \<Rightarrow> Some v | None \<Rightarrow> Option.bind (as_str raw) parse_f64)"

definition parse_timestamp_from_mapping ::
  "'a libs_scheme \<Rightarrow> json \<Rightarrow> FieldTransform \<Rightarrow> datetime option" where
  "parse_timestamp_from_mapping L raw transform =
     (case transform of
        ParseTsMs \<Rightarrow> Option.bind (i64_or_text raw) (timestamp_millis_opt L)
      | ParseTsS \<Rightarrow> Option.bind (i64_or_text raw) (timestamp_opt L)
      | ParseTsIso8601 \<Rightarrow> Option.bind (as_str raw) (parse_from_rfc3339 L)
      | _ \<Rightarrow> None)"

definition mapped_price ::
  "'a libs_scheme \<Rightarrow> json \<Rightarrow> int \<Rightarrow> FieldMapping \<Rightarrow> json \<Rightarrow> f64 option" where
  "mapped_price L payload decimals mapping raw =
     (case fm_transform mapping of
        ToF64 \<Rightarrow> f64_or_text raw
      | ScalePrice \<Rightarrow> scale_price_from_mapping L payload mapping raw decimals
      | SqrtRatioToPrice \<Rightarrow>
          map_option (\<lambda>sqrt_price.
              powi_f64 L (of_int_f64 (int sqrt_price) / powi_f64 L (lit 2) 96) 2)
            (case Option.bind (as_str raw) parse_u128 of Some v \<Rightarrow> Some v | None \<Rightarrow> as_u64 raw)
      | _ \<Rightarrow> None)"

definition mapped_market_key :: "'a libs_scheme \<Rightarrow> FieldTransform \<Rightarrow> json \<Rightarrow> string" where
  "mapped_market_key L transform raw =
     (let sym = (case as_str raw of Some s \<Rightarrow> s | None \<Rightarrow> json_to_string L raw)
      in if transform = SymbolToMarketKey
         then (case symbol_to_market_key L sym of Some mk \<Rightarrow> mk | None \<Rightarrow> sym)
         else sym)"

definition u64_or_text :: "json \<Rightarrow> nat option" where
  "u64_or_text raw =
     (case as_u64 raw of Some v \<Rightarrow> Some v | None \<Rightarrow> Option.bind (as_str raw) parse_u64)"

definition apply_mapping ::
  "'a libs_scheme \<Rightarrow> json \<Rightarrow> int \<Rightarrow> FieldMapping \<Rightarrow> MappedFields \<Rightarrow> MappedFields" where
  "apply_mapping L payload decimals mapping out =
     (case eval_jsonpath payload (fm_source_field mapping) of
        None \<Rightarrow> out
      | Some raw \<Rightarrow>
          (case fm_canonical_field mapping of
             CF_Price \<Rightarrow>
               (case mapped_price L payload decimals mapping raw of
                  Some p \<Rightarrow> out\<lparr>mf_price := Some p\<rparr>
                | None \<Rightarrow> out)
           | CF_MarketKey \<Rightarrow> out\<lparr>mf_market_key := Some (mapped_market_key L (fm_transform mapping) raw)\<rparr>
           | CF_Timestamp \<Rightarrow> out\<lparr>mf_timestamp := parse_timestamp_from_mapping L raw (fm_transform mapping)\<rparr>
           | CF_BlockNumber \<Rightarrow> out\<lparr>mf_block_number := u64_or_text raw\<rparr>
           | CF_TxHash \<Rightarrow> out\<lparr>mf_tx_hash := as_str raw\<rparr>
           | CF_ProtocolId \<Rightarrow> out\<lparr>mf_protocol_id := as_str raw\<rparr>
           | CF_ChainSlug \<Rightarrow> out\<lparr>mf_chain_slug := as_str raw\<rparr>
           | CF_MarketId \<Rightarrow> out\<lparr>mf_market_id := as_str raw\<rparr>
           | CF_TvlUsd \<Rightarrow> out\<lparr>mf_tvl_usd := f64_or_text raw\<rparr>
           | CF_LoanAmountUsd \<Rightarrow> out\<lparr>mf_loan_amount_usd := f64_or_text raw\<rparr>
           | CF_ProfitUsd \<Rightarrow> out\<lparr>mf_profit_usd := f64_or_text raw\<rparr>
           | CF_TokenAddress \<Rightarrow> out\<lparr>mf_token_address := as_str raw\<rparr>
           | CF_SourceId \<Rightarrow> out
           | CF_EventType \<Rightarrow> out
           | CF_ChainId \<Rightarrow> out))"

definition mapping_decimals :: "json option \<Rightarrow> int" where
  "mapping_decimals filter_config =
     wrap_i32 (case Option.bind (Option.bind filter_config (\<lambda>c. j_get c ''decimals'')) as_u64 of
                 Some d \<Rightarrow> int d
               | None \<Rightarrow> 8)"

definition apply_mappings ::
  "'a libs_scheme \<Rightarrow> FieldMapping list \<Rightarrow> json \<Rightarrow> json option \<Rightarrow> MappedFields" where
  "apply_mappings L mappings payload filter_config =
     fold (apply_mapping L payload (mapping_decimals filter_config)) mappings MappedFields_default"

section \<open>Paths as lists of steps\<close>

datatype path_step = Key string | KeyAt string nat

fun render_step :: "path_step \<Rightarrow> string" where
  "render_step (Key k) = k"
| "render_step (KeyAt k n) = k @ CHR ''['' # nat_to_string n @ '']''"

definition render_path :: "path_step list \<Rightarrow> string" where
  "render_path steps = ''$.'' @ join ''.'' (map render_step steps)"

fun walk :: "json \<Rightarrow> path_step list \<Rightarrow> json option" where
  "walk v [] = Some v"
| "walk v (Key k # steps) = Option.bind (j_get v k) (\<lambda>u. walk u steps)"
| "walk v (KeyAt k n # steps) =
     Option.bind (j_get v k) (\<lambda>u. Option.bind (j_index u n) (\<lambda>x. walk x steps))"

fun plain_step :: "path_step \<Rightarrow> bool" where
  "plain_step (Key k) = (CHR ''.'' \<notin> set k \<and> CHR ''['' \<notin> set k)"
| "plain_step (KeyAt k n) = (CHR ''.'' \<notin> set k \<and> CHR ''['' \<notin> set k \<and> n < 2 ^ 64)"

lemma not_digits: "digit_value (CHR ''.'') = None" "digit_value (CHR '']'') = None"
  by code_simp+

lemma trim_end_matches_index: "trim_end_matches (CHR '']'') (nat_to_string n @ '']'') = nat_to_string n"
proof -
  have "CHR '']'' \<notin> set (nat_to_string n)" using digits_of_nat not_digits by force
  then have "dropWhile (\<lambda>x. x = CHR '']'') (rev (nat_to_string n)) = rev (nat_to_string n)"
    by (cases "rev (nat_to_string n)") (auto simp: rev_eq_Cons_iff)
  then show ?thesis by (simp add: trim_end_matches_def)
qed

lemma eval_render_step:
  "plain_step st \<Longrightarrow> eval_segments v (render_step st # segs) = Option.bind (walk v [st]) (\<lambda>u. eval_segments u segs)"
  by (cases st)
     (auto simp: eval_segment_def split_once_None split_once_append trim_end_matches_index
        parse_u64_nat_to_string split: Option.bind_splits)

lemma walk_Cons: "walk v (st # steps) = Option.bind (walk v [st]) (\<lambda>u. walk u steps)"
  by (cases st) (auto split: Option.bind_splits)

lemma eval_render_steps:
  "list_all plain_step steps \<Longrightarrow> eval_segments v (map render_step steps) = walk v steps"
proof (induction steps arbitrary: v)
  case (Cons st steps)
  have "eval_segments v (map render_step (st # steps)) =
      Option.bind (walk v [st]) (\<lambda>u. eval_segments u (map render_step steps))"
    using Cons.prems eval_render_step [of st v "map render_step steps"] by simp
  then show ?case using Cons walk_Cons [of v st steps] by simp
qed simp

lemma dot_free_render: "plain_step st \<Longrightarrow> CHR ''.'' \<notin> set (render_step st)"
  using digits_of_nat not_digits by (cases st) force+

text \<open>
  (C19) A field path means what it says: evaluating the text of a path, such as \<^verbatim>\<open>$.data[0].last\<close>,
  walks the payload along its steps, for every non-empty path whose keys contain no dot and no
  opening bracket and whose indices fit in 64 bits.
\<close>

theorem eval_jsonpath_render:
  assumes "steps \<noteq> []" and "list_all plain_step steps"
  shows "eval_jsonpath payload (render_path steps) = walk payload steps"
proof -
  have "split_on (CHR ''.'') (join ''.'' (map render_step steps)) = map render_step steps"
    using assms by (intro split_on_join) (auto simp: list_all_iff dot_free_render)
  then show ?thesis
    using eval_render_steps [OF assms(2)]
    by (simp add: eval_jsonpath_def render_path_def strip_prefix_def)
qed

theorem eval_jsonpath_render_witness:
  "eval_jsonpath (JObject [(''data'', JArray [JObject [(''last'', JString ''1.01'')]])])
     (render_path [KeyAt ''data'' 0, Key ''last'']) = Some (JString ''1.01'')"
  by (subst eval_jsonpath_render) simp_all

section \<open>Market keys\<close>

text \<open>What a symbol is reduced to before it is looked up.\<close>

definition normal_symbol :: "string \<Rightarrow> bool" where
  "normal_symbol n \<longleftrightarrow> is_ascii n \<and> trim n = n \<and> map upper_char n = n \<and> CHR ''.'' \<notin> set n"

lemma normal_symbol_normalize:
  assumes "is_ascii symbol"
  shows "normal_symbol (to_uppercase U (trim (last (split_on (CHR ''.'') symbol))))"
proof -
  let ?t = "trim (last (split_on (CHR ''.'') symbol))"
  have "last (split_on (CHR ''.'') symbol) \<in> set (split_on (CHR ''.'') symbol)" by simp
  from split_on_pieces [OF this] have t: "CHR ''.'' \<notin> set ?t" "set ?t \<subseteq> set symbol"
    using set_trim [of "last (split_on (CHR ''.'') symbol)"] by auto
  then have ascii: "is_ascii ?t" using assms by (auto simp: is_ascii_def list_all_iff)
  have "upper_char c \<noteq> CHR ''.''" if "c \<in> set ?t" for c
    using t(1) that upper_char_preimage [of "CHR ''.''" c] by (auto simp: upper_letters_def)
  then have "CHR ''.'' \<notin> set (map upper_char ?t)" by force
  moreover have "is_ascii (map upper_char ?t)"
    using ascii by (auto simp: is_ascii_def list_all_iff upper_char_ascii)
  ultimately show ?thesis
    using ascii by (simp add: normal_symbol_def to_uppercase_def to_ascii_uppercase_def trim_map_upper)
qed

lemma normalize_normal_symbol:
  "normal_symbol n \<Longrightarrow> to_uppercase U (trim (last (split_on (CHR ''.'') n))) = n"
  by (simp add: normal_symbol_def split_on_no_sep to_uppercase_def to_ascii_uppercase_def)

lemma known_keys_stable:
  "\<forall>(s, mk) \<in> set known_symbols.
     is_ascii mk \<and> map upper_char mk = mk \<and> CHR ''.'' \<notin> set mk \<and> trim mk = mk
     \<and> map_of known_symbols (filter (\<lambda>c. c \<noteq> CHR ''-'' \<and> c \<noteq> CHR ''/'') mk) = Some mk"
  by code_simp

text \<open>
  Market keys are canonical: a market key derived from an ASCII symbol maps to itself, so that
  a key that is normalised again (by a later mapping, or after it was stored) does not change,
  and all spellings of a symbol lead to one key.
\<close>

theorem symbol_to_market_key_idempotent:
  assumes "is_ascii symbol" and "symbol_to_market_key L symbol = Some mk"
  shows "symbol_to_market_key L mk = Some mk"
proof -
  define n where "n = to_uppercase (unicode_uppercase L) (trim (last (split_on (CHR ''.'') symbol)))"
  define s where "s = filter (\<lambda>c. c \<noteq> CHR ''-'' \<and> c \<noteq> CHR ''/'') n"
  have n: "normal_symbol n" using normal_symbol_normalize [OF assms(1)] by (simp add: n_def)
  show ?thesis
  proof (cases "map_of known_symbols s")
    case None
    with assms(2) have "mk = n" "CHR ''/'' \<in> set n"
      by (auto simp: symbol_to_market_key_def Let_def n_def [symmetric] s_def [symmetric] split: if_splits)
    with None show ?thesis
      by (simp add: symbol_to_market_key_def Let_def normalize_normal_symbol [OF n] s_def [symmetric])
  next
    case (Some k)
    with assms(2) have mk: "mk = k"
      by (auto simp: symbol_to_market_key_def Let_def n_def [symmetric] s_def [symmetric])
    from known_keys_stable map_of_SomeD [OF Some]
    have "normal_symbol k" "map_of known_symbols (filter (\<lambda>c. c \<noteq> CHR ''-'' \<and> c \<noteq> CHR ''/'') k) = Some k"
      by (auto simp: normal_symbol_def)
    then show ?thesis
      by (simp add: mk symbol_to_market_key_def Let_def normalize_normal_symbol)
  qed
qed

definition no_libs :: libs where
  "no_libs =
     \<lparr>timestamp_millis_opt = (\<lambda>_. None), timestamp_opt = (\<lambda>_. None), parse_from_rfc3339 = (\<lambda>_. None),
      json_to_string = (\<lambda>_. []), unicode_uppercase = (\<lambda>s. s), powi_f64 = (\<lambda>_ _. lit 1),
      de_field_mappings = (\<lambda>_. None), ser_field_mappings = (\<lambda>_. JNull)\<rparr>"

lemma sample_symbol: "symbol_to_market_key no_libs ''Crypto.usdc-usdt'' = Some ''USDC/USD''"
  by code_simp

theorem symbol_to_market_key_idempotent_witness:
  "is_ascii ''Crypto.usdc-usdt'' \<and> symbol_to_market_key no_libs ''USDC/USD'' = Some ''USDC/USD''"
proof -
  have "is_ascii ''Crypto.usdc-usdt''" by code_simp
  with symbol_to_market_key_idempotent [OF _ sample_symbol] show ?thesis by simp
qed

section \<open>Each field depends on its own mappings\<close>

abbreviation for_field :: "CanonicalField \<Rightarrow> FieldMapping \<Rightarrow> bool" where
  "for_field f m \<equiv> fm_canonical_field m = f"

lemma fold_for_field:
  assumes "\<And>m out. fm_canonical_field m \<noteq> f \<Longrightarrow> sel (step m out) = sel out"
    and "\<And>m out out'. sel out = sel out' \<Longrightarrow> sel (step m out) = sel (step m out')"
    and "sel out = sel out'"
  shows "sel (fold step ms out) = sel (fold step (filter (for_field f) ms) out')"
  using assms(3)
proof (induction ms arbitrary: out out')
  case (Cons m ms)
  show ?case
  proof (cases "fm_canonical_field m = f")
    case True
    then show ?thesis using Cons.IH [OF assms(2) [OF Cons.prems], of m] by simp
  next
    case False
    then show ?thesis using Cons.IH [of "step m out" out'] assms(1) [OF False] Cons.prems by simp
  qed
qed simp

lemma apply_mapping_other:
  "fm_canonical_field m \<noteq> CF_Price \<Longrightarrow> mf_price (apply_mapping L p d m out) = mf_price out"
  "fm_canonical_field m \<noteq> CF_MarketKey \<Longrightarrow> mf_market_key (apply_mapping L p d m out) = mf_market_key out"
  "fm_canonical_field m \<noteq> CF_Timestamp \<Longrightarrow> mf_timestamp (apply_mapping L p d m out) = mf_timestamp out"
  "fm_canonical_field m \<noteq> CF_TvlUsd \<Longrightarrow> mf_tvl_usd (apply_mapping L p d m out) = mf_tvl_usd out"
  by (auto simp: apply_mapping_def split: option.splits CanonicalField.splits)

lemma apply_mapping_same:
  "mf_price out = mf_price out' \<Longrightarrow> mf_price (apply_mapping L p d m out) = mf_price (apply_mapping L p d m out')"
  "mf_market_key out = mf_market_key out' \<Longrightarrow> mf_market_key (apply_mapping L p d m out) = mf_market_key (apply_mapping L p d m out')"
  "mf_timestamp out = mf_timestamp out' \<Longrightarrow> mf_timestamp (apply_mapping L p d m out) = mf_timestamp (apply_mapping L p d m out')"
  "mf_tvl_usd out = mf_tvl_usd out' \<Longrightarrow> mf_tvl_usd (apply_mapping L p d m out) = mf_tvl_usd (apply_mapping L p d m out')"
  by (auto simp: apply_mapping_def split: option.splits CanonicalField.splits)

text \<open>
  Mappings do not interfere: the market key, the price, the timestamp and the TVL that a list of
  mappings extracts are those the mappings of that very field extract alone. In particular the
  order in which different fields are listed has no influence.
\<close>

lemma apply_mappings_independent:
  "mf_price (apply_mappings L ms p cfg) = mf_price (apply_mappings L (filter (for_field CF_Price) ms) p cfg)
   \<and> mf_market_key (apply_mappings L ms p cfg) = mf_market_key (apply_mappings L (filter (for_field CF_MarketKey) ms) p cfg)
   \<and> mf_timestamp (apply_mappings L ms p cfg) = mf_timestamp (apply_mappings L (filter (for_field CF_Timestamp) ms) p cfg)
   \<and> mf_tvl_usd (apply_mappings L ms p cfg) = mf_tvl_usd (apply_mappings L (filter (for_field CF_TvlUsd) ms) p cfg)"
  unfolding apply_mappings_def
  by (intro conjI; rule fold_for_field;
      (simp add: apply_mapping_other; fail | rule apply_mapping_same, assumption | rule refl))

section \<open>Scaled prices and the parser defaults\<close>

text \<open>
  A scaled price is a usable price: whatever the payload and the exponent are, \<^verbatim>\<open>ScalePrice\<close>
  yields a finite, strictly positive number or nothing at all.
\<close>

theorem scaled_price_positive:
  "case scale_price_from_mapping L payload m raw d of
     None \<Rightarrow> True
   | Some x \<Rightarrow> is_finite x \<and> 0 < x"
  by (auto simp: scale_price_from_mapping_def positive_finite_def Let_def split: option.splits)

text \<open>Which transforms can produce a value for which canonical field.\<close>

fun transform_fits :: "CanonicalField \<Rightarrow> FieldTransform \<Rightarrow> bool" where
  "transform_fits CF_Price t = (t \<in> {ToF64, ScalePrice, SqrtRatioToPrice})"
| "transform_fits CF_MarketKey t = (t \<in> {Identity, SymbolToMarketKey})"
| "transform_fits CF_Timestamp t = (t \<in> {ParseTsMs, ParseTsS, ParseTsIso8601})"
| "transform_fits CF_BlockNumber t = (t = ToU64)"
| "transform_fits CF_TvlUsd t = (t = ToF64)"
| "transform_fits f t = (t = Identity)"

definition parser_names :: "string list" where
  "parser_names =
     [''binance_miniticker_v1'', ''coinbase_ticker_v1'', ''kraken_ticker_v2'', ''okx_tickers_v5'',
      ''bybit_tickers_v5'', ''gemini_marketdata_v1'', ''chainlink_answer_updated_v1'',
      ''chainlink_data_streams_v3'', ''pyth_hermes_v2'', ''pyth_price_update_v1'',
      ''uniswap_v2_swap_price_v1'', ''uniswap_v3_swap_price_v1'', ''protocol_tvl_v1'',
      ''protocol_pause_v1'', ''evm_block_v1'', ''evm_log_v1'']"

lemma default_mappings_unknown: "name \<notin> set parser_names \<Longrightarrow> default_mappings_for_parser name = []"
  by (simp add: parser_names_def default_mappings_for_parser_def)

lemma default_mappings_known:
  "\<forall>name \<in> set parser_names. default_mappings_for_parser name \<noteq> [] \<and>
     distinct (map fm_canonical_field (default_mappings_for_parser name)) \<and>
     list_all (\<lambda>m. transform_fits (fm_canonical_field m) (fm_transform m)
       \<and> prefix ''$.'' (fm_source_field m)) (default_mappings_for_parser name)"
  by code_simp

text \<open>
  The built-in mappings are consistent: no parser lists a canonical field twice, every path is
  rooted at the payload, and every transform is one that can produce the field it is listed for.
\<close>

theorem default_mappings_consistent:
  "distinct (map fm_canonical_field (default_mappings_for_parser name)) \<and>
   list_all (\<lambda>m. transform_fits (fm_canonical_field m) (fm_transform m) \<and> prefix ''$.'' (fm_source_field m))
     (default_mappings_for_parser name)"
  using default_mappings_known default_mappings_unknown [of name] by (cases "name \<in> set parser_names") auto

end
