(* ===== verification/Finality.thy ===== *)
theory Finality
  imports EventSchema
begin

text \<open>
  Finality tracking: \<^verbatim>\<open>crates/state-manager/src/finality.rs\<close> (the in-memory engine and the per-chain
  tracker) and the entry handlers of \<^verbatim>\<open>apps/finality/src/main.rs\<close>. The \<^verbatim>\<open>BTreeMap\<close> of blocks is an
  association list kept in ascending key order, the map of lifecycle states a partial function
  (its iteration order is never used). Each operation takes the clock reading its updates are
  stamped with. Publishing to a Redis stream appends to a log of the worker state; a failing
  publish or a poisoned lock aborts the process and is not modelled.
\<close>

section \<open>The in-memory engine\<close>

type_synonym states = "string \<rightharpoonup> LifecycleState"

definition engine_get_state :: "states \<Rightarrow> string \<Rightarrow> LifecycleState option" where
  "engine_get_state eng k = eng k"

definition apply_update :: "FinalityUpdate \<Rightarrow> states \<Rightarrow> states" where
  "apply_update u eng = eng(fu_event_key u \<mapsto> fu_lifecycle_state u)"

definition handle_reorg_notice :: "ReorgNotice \<Rightarrow> states \<Rightarrow> states" where
  "handle_reorg_notice n eng = fold (\<lambda>k e. e(k \<mapsto> Retracted)) (rn_affected_event_keys n) eng"

section \<open>The chain tracker\<close>

record FinalityBatch =
  fb_updates :: "FinalityUpdate list"
  fb_reorg_notice :: "ReorgNotice option"

definition FinalityBatch_default :: FinalityBatch where
  "FinalityBatch_default = \<lparr>fb_updates = [], fb_reorg_notice = None\<rparr>"

record BlockEntry =
  be_block_hash :: "string option"
  be_event_keys :: "string list"

type_synonym blocks = "(nat \<times> BlockEntry) list"

record ChainFinalityTracker =
  ct_chain :: Chain
  ct_default_confirmation_depth :: nat
  ct_head_block :: nat
  ct_blocks :: blocks
  ct_states :: states

definition tracker_new :: "Chain \<Rightarrow> nat \<Rightarrow> ChainFinalityTracker" where
  "tracker_new chain default_confirmation_depth =
     \<lparr>ct_chain = chain, ct_default_confirmation_depth = max default_confirmation_depth 1,
      ct_head_block = 0, ct_blocks = [], ct_states = Map.empty\<rparr>"

text \<open>\<^verbatim>\<open>entry(n).or_insert_with(\<dots>)\<close> followed by an update of the entry, in key order.\<close>

fun block_entry :: "nat \<Rightarrow> BlockEntry \<Rightarrow> (BlockEntry \<Rightarrow> BlockEntry) \<Rightarrow> blocks \<Rightarrow> blocks" where
  "block_entry n d f [] = [(n, f d)]"
| "block_entry n d f ((m, e) # bs) =
     (if n < m then (n, f d) # (m, e) # bs
      else if n = m then (m, f e) # bs
      else (m, e) # block_entry n d f bs)"

definition detect_conflicting_hash ::
  "ChainFinalityTracker \<Rightarrow> nat \<Rightarrow> string option \<Rightarrow> string option" where
  "detect_conflicting_hash t n incoming =
     (case map_of (ct_blocks t) n of
        None \<Rightarrow> None
      | Some existing \<Rightarrow>
          (case be_block_hash existing of
             None \<Rightarrow> None
           | Some existing_hash \<Rightarrow>
               (case incoming of
                  None \<Rightarrow> None
                | Some incoming_hash \<Rightarrow>
                    if existing_hash \<noteq> incoming_hash then Some incoming_hash else None)))"

definition collect_affected_event_keys :: "ChainFinalityTracker \<Rightarrow> nat \<Rightarrow> string list" where
  "collect_affected_event_keys t n =
     concat (map (\<lambda>(_, e). be_event_keys e) (filter (\<lambda>(m, _). n \<le> m) (ct_blocks t)))"

definition rollback_from_block :: "nat \<Rightarrow> ChainFinalityTracker \<Rightarrow> ChainFinalityTracker" where
  "rollback_from_block n t =
     (let kept = filter (\<lambda>(m, _). m < n) (ct_blocks t)
      in t\<lparr>ct_blocks := kept,
            ct_head_block := (if kept = [] then 0 else fst (last kept))\<rparr>)"

definition mk_update ::
  "Chain \<Rightarrow> datetime \<Rightarrow> nat \<Rightarrow> string option \<Rightarrow> LifecycleState \<Rightarrow> string \<Rightarrow> FinalityUpdate" where
  "mk_update chain now n hash st k =
     \<lparr>fu_chain = chain, fu_event_key = k, fu_block_number = n, fu_block_hash = hash,
      fu_lifecycle_state = st, fu_updated_at = now\<rparr>"

text \<open>
  The loops over event keys: each sets the state of a key and pushes an update when that
  changes it. The accumulator is the map of states and the updates pushed so far.
\<close>

type_synonym acc = "states \<times> FinalityUpdate list"

definition retract_key :: "(string \<Rightarrow> FinalityUpdate) \<Rightarrow> string \<Rightarrow> acc \<Rightarrow> acc" where
  "retract_key mk k = (\<lambda>(st, us).
     (st(k \<mapsto> Retracted), if st k \<noteq> Some Retracted then us @ [mk k] else us))"

definition confirm_key :: "(string \<Rightarrow> FinalityUpdate) \<Rightarrow> string \<Rightarrow> acc \<Rightarrow> acc" where
  "confirm_key mk k = (\<lambda>(st, us).
     if st k = Some Provisional then (st(k \<mapsto> Confirmed), us @ [mk k]) else (st, us))"

definition confirm_block :: "Chain \<Rightarrow> datetime \<Rightarrow> nat \<times> BlockEntry \<Rightarrow> acc \<Rightarrow> acc" where
  "confirm_block chain now = (\<lambda>(n, e).
     fold (confirm_key (mk_update chain now n (be_block_hash e) Confirmed)) (be_event_keys e))"

text \<open>The four stages of \<^verbatim>\<open>observe_event\<close>: reorg check, block entry, first sighting, confirmation.\<close>

definition check_reorg ::
  "datetime \<Rightarrow> NormalizedEvent \<Rightarrow> ChainFinalityTracker \<Rightarrow> ChainFinalityTracker \<times> FinalityBatch" where
  "check_reorg now ev t =
     (let n = ne_block_number ev in
      case detect_conflicting_hash t n (ne_block_hash ev) of
        None \<Rightarrow> (t, FinalityBatch_default)
      | Some conflict_hash \<Rightarrow>
          (let affected = collect_affected_event_keys t n;
               t' = rollback_from_block n t
           in if affected = [] then (t', FinalityBatch_default)
              else
                (let (st, us) = fold (retract_key (mk_update (ct_chain t) now n (Some conflict_hash) Retracted))
                       affected (ct_states t', [])
                 in (t'\<lparr>ct_states := st\<rparr>,
                     \<lparr>fb_updates = us,
                      fb_reorg_notice = Some
                        \<lparr>rn_chain = ct_chain t, rn_orphaned_from_block = n,
                         rn_common_ancestor_block = n - 1, rn_affected_event_keys = affected,
                         rn_noticed_at = now\<rparr>\<rparr>))))"

definition note_event :: "NormalizedEvent \<Rightarrow> BlockEntry \<Rightarrow> BlockEntry" where
  "note_event ev e =
     (let e1 = (if be_block_hash e = None then e\<lparr>be_block_hash := ne_block_hash ev\<rparr> else e)
      in if ne_event_key ev \<in> set (be_event_keys e1) then e1
         else e1\<lparr>be_event_keys := be_event_keys e1 @ [ne_event_key ev]\<rparr>)"

definition enter_block :: "NormalizedEvent \<Rightarrow> ChainFinalityTracker \<Rightarrow> ChainFinalityTracker" where
  "enter_block ev t =
     t\<lparr>ct_blocks := block_entry (ne_block_number ev)
          \<lparr>be_block_hash = ne_block_hash ev, be_event_keys = []\<rparr> (note_event ev) (ct_blocks t),
        ct_head_block := max (ct_head_block t) (ne_block_number ev)\<rparr>"

definition first_sighting ::
  "datetime \<Rightarrow> NormalizedEvent \<Rightarrow> ChainFinalityTracker \<Rightarrow> ChainFinalityTracker \<times> FinalityUpdate list" where
  "first_sighting now ev t =
     (if ct_states t (ne_event_key ev) \<noteq> None then (t, [])
      else (t\<lparr>ct_states := (ct_states t)(ne_event_key ev \<mapsto> Provisional)\<rparr>,
            [mk_update (ct_chain t) now (ne_block_number ev) (ne_block_hash ev) Provisional (ne_event_key ev)]))"

definition confirmation_depth_for :: "ChainFinalityTracker \<Rightarrow> NormalizedEvent \<Rightarrow> nat" where
  "confirmation_depth_for t ev =
     (if ne_requires_confirmation ev then max (ne_confirmation_depth ev) 1
      else ct_default_confirmation_depth t)"

text \<open>Iteration is in ascending block order and stops at the first block above the height.\<close>

definition confirm_finalized ::
  "datetime \<Rightarrow> NormalizedEvent \<Rightarrow> ChainFinalityTracker \<Rightarrow> ChainFinalityTracker \<times> FinalityUpdate list" where
  "confirm_finalized now ev t =
     (let finalized_height = ct_head_block t - confirmation_depth_for t ev;
          (st, us) = fold (confirm_block (ct_chain t) now)
            (takeWhile (\<lambda>(n, _). n \<le> finalized_height) (ct_blocks t)) (ct_states t, [])
      in (t\<lparr>ct_states := st\<rparr>, us))"

definition observe_event ::
  "datetime \<Rightarrow> NormalizedEvent \<Rightarrow> ChainFinalityTracker \<Rightarrow> ChainFinalityTracker \<times> FinalityBatch" where
  "observe_event now ev t =
     (if ne_chain ev \<noteq> ct_chain t then (t, FinalityBatch_default)
      else
        (let (t1, batch) = check_reorg now ev t;
             t2 = enter_block ev t1;
             (t3, us3) = first_sighting now ev t2;
             (t4, us4) = confirm_finalized now ev t3
         in (t4, batch\<lparr>fb_updates := fb_updates batch @ us3 @ us4\<rparr>)))"

definition apply_reorg_notice ::
  "datetime \<Rightarrow> ReorgNotice \<Rightarrow> ChainFinalityTracker \<Rightarrow> ChainFinalityTracker \<times> FinalityUpdate list" where
  "apply_reorg_notice now n t =
     (if rn_chain n \<noteq> ct_chain t then (t, [])
      else
        (let t' = rollback_from_block (rn_orphaned_from_block n) t;
             (st, us) = fold (retract_key
                 (mk_update (ct_chain t) now (rn_orphaned_from_block n) None Retracted))
               (rn_affected_event_keys n) (ct_states t', [])
         in (t'\<lparr>ct_states := st\<rparr>, us)))"

section \<open>The finality worker\<close>

fun confirmation_depth_env :: "Chain \<Rightarrow> string" where
  "confirmation_depth_env Ethereum = ''ETH_CONFIRMATION_DEPTH''"
| "confirmation_depth_env Arbitrum = ''ARB_CONFIRMATION_DEPTH''"
| "confirmation_depth_env Optimism = ''OP_CONFIRMATION_DEPTH''"
| "confirmation_depth_env Base = ''BASE_CONFIRMATION_DEPTH''"
| "confirmation_depth_env Polygon = ''POLYGON_CONFIRMATION_DEPTH''"
| "confirmation_depth_env Avalanche = ''AVAX_CONFIRMATION_DEPTH''"
| "confirmation_depth_env BSC = ''BSC_CONFIRMATION_DEPTH''"
| "confirmation_depth_env Offchain = ''OFFCHAIN_CONFIRMATION_DEPTH''"
| "confirmation_depth_env Chain_Unknown = ''CONFIRMATION_DEPTH''"

definition default_confirmation_depth_for_chain :: "(string \<Rightarrow> string option) \<Rightarrow> Chain \<Rightarrow> nat" where
  "default_confirmation_depth_for_chain env chain =
     max (case Option.bind (env (confirmation_depth_env chain)) parse_u64 of
            Some d \<Rightarrow> d
          | None \<Rightarrow> (case chain of Base \<Rightarrow> 64 | Offchain \<Rightarrow> 1 | _ \<Rightarrow> 3)) 1"

record finality_worker =
  fw_trackers :: "Chain \<rightharpoonup> ChainFinalityTracker"
  fw_engine :: states
  fw_reorg_log :: "ReorgNotice list"
  fw_update_log :: "FinalityUpdate list"

text \<open>
  \<open>load\<close> is \<^verbatim>\<open>load_tracker_from_db\<close>: the persisted tracker of a chain, \<open>None\<close> when there is no
  repository, no row, or the row cannot be read.
\<close>

definition worker_tracker ::
  "(string \<Rightarrow> string option) \<Rightarrow> (Chain \<Rightarrow> ChainFinalityTracker option) \<Rightarrow> Chain \<Rightarrow> finality_worker
     \<Rightarrow> ChainFinalityTracker" where
  "worker_tracker env load chain w =
     (case fw_trackers w chain of
        Some t \<Rightarrow> t
      | None \<Rightarrow> (case load chain of
           Some t \<Rightarrow> t
         | None \<Rightarrow> tracker_new chain (default_confirmation_depth_for_chain env chain)))"

definition on_normalized_event ::
  "(string \<Rightarrow> string option) \<Rightarrow> (Chain \<Rightarrow> ChainFinalityTracker option) \<Rightarrow> datetime \<Rightarrow> NormalizedEvent
     \<Rightarrow> finality_worker \<Rightarrow> finality_worker" where
  "on_normalized_event env load now ev w =
     (let (t', batch) = observe_event now ev (worker_tracker env load (ne_chain ev) w);
          w1 = w\<lparr>fw_trackers := (fw_trackers w)(ne_chain ev \<mapsto> t')\<rparr>;
          w2 = (case fb_reorg_notice batch of
                  None \<Rightarrow> w1
                | Some notice \<Rightarrow>
                    w1\<lparr>fw_reorg_log := fw_reorg_log w1 @ [notice],
                       fw_engine := handle_reorg_notice notice (fw_engine w1)\<rparr>)
      in w2\<lparr>fw_update_log := fw_update_log w2 @ fb_updates batch,
            fw_engine := fold apply_update (fb_updates batch) (fw_engine w2)\<rparr>)"

definition on_reorg_notice ::
  "(string \<Rightarrow> string option) \<Rightarrow> datetime \<Rightarrow> ReorgNotice \<Rightarrow> finality_worker \<Rightarrow> finality_worker" where
  "on_reorg_notice env now n w =
     (let (t', us) = apply_reorg_notice now n (worker_tracker env (\<lambda>_. None) (rn_chain n) w)
      in w\<lparr>fw_trackers := (fw_trackers w)(rn_chain n \<mapsto> t'),
           fw_engine := fold apply_update us (handle_reorg_notice n (fw_engine w)),
           fw_update_log := fw_update_log w @ us\<rparr>)"

section \<open>The loops over event keys\<close>

lemma retract_key_simp [simp]:
  "retract_key mk k (st, us) = (st(k \<mapsto> Retracted), if st k \<noteq> Some Retracted then us @ [mk k] else us)"
  by (simp add: retract_key_def)

lemma confirm_key_simp [simp]:
  "confirm_key mk k (st, us) =
     (if st k = Some Provisional then (st(k \<mapsto> Confirmed), us @ [mk k]) else (st, us))"
  by (simp add: confirm_key_def)

lemma confirm_block_simp [simp]:
  "confirm_block chain now (n, e) a =
     fold (confirm_key (mk_update chain now n (be_block_hash e) Confirmed)) (be_event_keys e) a"
  by (simp add: confirm_block_def)

text \<open>The updates pushed so far, applied to the state before the loop, give the state now.\<close>

definition synced :: "states \<Rightarrow> acc \<Rightarrow> bool" where
  "synced eng a \<longleftrightarrow> fold apply_update (snd a) eng = fst a"

definition retracts :: "(string \<Rightarrow> FinalityUpdate) \<Rightarrow> bool" where
  "retracts mk \<longleftrightarrow> (\<forall>k. fu_event_key (mk k) = k \<and> fu_lifecycle_state (mk k) = Retracted)"

lemma retracts_mk_update [simp]: "retracts (mk_update chain now n hash Retracted)"
  by (simp add: retracts_def mk_update_def)

lemma synced_retract_keys:
  "retracts mk \<Longrightarrow> synced eng a \<Longrightarrow> synced eng (fold (retract_key mk) ks a)"
proof (induction ks arbitrary: a)
  case (Cons k ks)
  obtain st us where a: "a = (st, us)" by (cases a)
  have "synced eng (retract_key mk k a)"
    using Cons.prems a by (auto simp: synced_def apply_update_def retracts_def)
  then show ?case using Cons by simp
qed simp

lemma synced_confirm_keys:
  "synced eng a \<Longrightarrow> synced eng (fold (confirm_key (mk_update chain now n hash Confirmed)) ks a)"
proof (induction ks arbitrary: a)
  case (Cons k ks)
  obtain st us where a: "a = (st, us)" by (cases a)
  have "synced eng (confirm_key (mk_update chain now n hash Confirmed) k a)"
    using Cons.prems a by (auto simp: synced_def apply_update_def mk_update_def)
  then show ?case using Cons by simp
qed simp

lemma synced_confirm_blocks: "synced eng a \<Longrightarrow> synced eng (fold (confirm_block chain now) bs a)"
proof (induction bs arbitrary: a)
  case (Cons b bs)
  then show ?case by (cases b) (simp add: synced_confirm_keys)
qed simp

text \<open>A retraction loop sets every key, exactly as the engine does on the notice.\<close>

lemma fst_retract_keys:
  "fst (fold (retract_key mk) ks a) = fold (\<lambda>k e. e(k \<mapsto> Retracted)) ks (fst a)"
proof (induction ks arbitrary: a)
  case (Cons k ks)
  then show ?case by (cases a) simp
qed simp

lemma retract_all_apply:
  "fold (\<lambda>k e. e(k \<mapsto> Retracted)) ks st k = (if k \<in> set ks then Some Retracted else st k)"
  by (induction ks arbitrary: st) auto

lemma updates_retract_keys:
  assumes "retracts mk" "u \<in> set (snd (fold (retract_key mk) ks a))" "u \<notin> set (snd a)"
  shows "fu_event_key u \<in> set ks \<and> fu_lifecycle_state u = Retracted"
  using assms
proof (induction ks arbitrary: a)
  case (Cons k ks)
  obtain st us where a: "a = (st, us)" by (cases a)
  show ?case
  proof (cases "u \<in> set (snd (retract_key mk k a))")
    case True
    then have "u = mk k" using Cons.prems(3) a by (auto split: if_splits)
    then show ?thesis using assms(1) by (simp add: retracts_def)
  next
    case False
    then show ?thesis using Cons.IH [OF assms(1), of "retract_key mk k a"] Cons.prems by auto
  qed
qed simp

lemma apply_updates_id:
  assumes "\<forall>u \<in> set us. eng (fu_event_key u) = Some (fu_lifecycle_state u)"
  shows "fold apply_update us eng = eng"
  using assms by (induction us) (auto simp: apply_update_def fun_upd_idem)

text \<open>So replaying the retractions on an engine that has seen the notice changes nothing more.\<close>

lemma synced_after_notice:
  assumes "retracts mk"
  shows "synced (fold (\<lambda>k e. e(k \<mapsto> Retracted)) ks st) (fold (retract_key mk) ks (st, []))"
proof -
  let ?eng = "fold (\<lambda>k e. e(k \<mapsto> Retracted)) ks st"
  have "fold apply_update (snd (fold (retract_key mk) ks (st, []))) ?eng = ?eng"
    using updates_retract_keys [OF assms, of _ ks "(st, [])"]
    by (intro apply_updates_id) (simp add: retract_all_apply)
  then show ?thesis by (simp add: synced_def fst_retract_keys)
qed

section \<open>The engine follows the tracker\<close>

definition notice_engine :: "ReorgNotice option \<Rightarrow> states \<Rightarrow> states" where
  "notice_engine n eng = (case n of None \<Rightarrow> eng | Some x \<Rightarrow> handle_reorg_notice x eng)"

lemma rollback_states [simp]: "ct_states (rollback_from_block n t) = ct_states t"
  by (simp add: rollback_from_block_def Let_def)

lemma rollback_chain [simp]: "ct_chain (rollback_from_block n t) = ct_chain t"
  by (simp add: rollback_from_block_def Let_def)

lemma enter_block_states [simp]: "ct_states (enter_block ev t) = ct_states t"
  by (simp add: enter_block_def)

lemma enter_block_chain [simp]: "ct_chain (enter_block ev t) = ct_chain t"
  by (simp add: enter_block_def)

lemma check_reorg_synced:
  assumes "check_reorg now ev t = (t1, b)"
  shows "synced (notice_engine (fb_reorg_notice b) (ct_states t)) (ct_states t1, fb_updates b)"
proof (cases "detect_conflicting_hash t (ne_block_number ev) (ne_block_hash ev)")
  case None
  with assms show ?thesis
    by (auto simp: check_reorg_def FinalityBatch_default_def notice_engine_def synced_def Let_def)
next
  case (Some h)
  let ?ks = "collect_affected_event_keys t (ne_block_number ev)"
  let ?mk = "mk_update (ct_chain t) now (ne_block_number ev) (Some h) Retracted"
  obtain st us where r: "fold (retract_key ?mk) ?ks (ct_states t, []) = (st, us)" by fastforce
  have "synced (fold (\<lambda>k e. e(k \<mapsto> Retracted)) ?ks (ct_states t)) (st, us)"
    using synced_after_notice [OF retracts_mk_update, of ?ks "ct_states t"] r by metis
  then show ?thesis using assms Some r
    by (auto simp: check_reorg_def Let_def FinalityBatch_default_def notice_engine_def
        handle_reorg_notice_def synced_def split: if_splits)
qed

lemma first_sighting_synced:
  assumes "synced eng (ct_states t, us)" "first_sighting now ev t = (t', vs)"
  shows "synced eng (ct_states t', us @ vs)"
  using assms by (auto simp: first_sighting_def synced_def apply_update_def mk_update_def split: if_splits)

lemma confirm_keys_snd:
  "fold (confirm_key mk) ks (st, us) =
     (fst (fold (confirm_key mk) ks (st, [])), us @ snd (fold (confirm_key mk) ks (st, [])))"
proof (induction ks arbitrary: st us)
  case (Cons k ks)
  show ?case
  proof (cases "st k = Some Provisional")
    case True
    define st' where "st' = st(k \<mapsto> Confirmed)"
    have "confirm_key mk k (st, vs) = (st', vs @ [mk k])" for vs using True by (simp add: st'_def)
    then show ?thesis using Cons [of st' "us @ [mk k]"] Cons [of st' "[mk k]"] by simp
  next
    case False
    then show ?thesis using Cons [of st us] by simp
  qed
qed simp

lemma confirm_blocks_snd:
  "fold (confirm_block chain now) bs (st, us) =
     (fst (fold (confirm_block chain now) bs (st, [])),
      us @ snd (fold (confirm_block chain now) bs (st, [])))"
proof (induction bs arbitrary: st us)
  case (Cons b bs)
  obtain n e where b: "b = (n, e)" by (cases b)
  define mk where "mk = mk_update chain now n (be_block_hash e) Confirmed"
  define r where "r = fold (confirm_key mk) (be_event_keys e) (st, [])"
  have one: "confirm_block chain now b (st, vs) = (fst r, vs @ snd r)" for vs
    using confirm_keys_snd [of mk "be_event_keys e" st vs] by (simp add: b r_def mk_def)
  show ?case
    using Cons [of "fst r" "us @ snd r"] Cons [of "fst r" "snd r"] one [of us] one [of "[]"] by simp
qed simp

lemma confirm_finalized_synced:
  assumes "synced eng (ct_states t, us)" "confirm_finalized now ev t = (t', vs)"
  shows "synced eng (ct_states t', us @ vs)"
proof -
  define bs where "bs = takeWhile (\<lambda>(n, _). n \<le> ct_head_block t - confirmation_depth_for t ev) (ct_blocks t)"
  have "synced eng (fold (confirm_block (ct_chain t) now) bs (ct_states t, us))"
    by (rule synced_confirm_blocks [OF assms(1)])
  moreover have "(ct_states t', vs) = fold (confirm_block (ct_chain t) now) bs (ct_states t, [])"
    using assms(2) by (auto simp: confirm_finalized_def Let_def bs_def split: prod.splits)
  ultimately show ?thesis
    using confirm_blocks_snd [of "ct_chain t" now bs "ct_states t" us] by (metis fst_conv snd_conv)
qed

lemma observe_event_synced:
  assumes "observe_event now ev t = (t', b)"
  shows "fold apply_update (fb_updates b) (notice_engine (fb_reorg_notice b) (ct_states t)) = ct_states t'"
proof (cases "ne_chain ev = ct_chain t")
  case True
  obtain t1 b1 where 1: "check_reorg now ev t = (t1, b1)" by fastforce
  obtain t3 us3 where 3: "first_sighting now ev (enter_block ev t1) = (t3, us3)" by fastforce
  obtain t4 us4 where 4: "confirm_finalized now ev t3 = (t4, us4)" by fastforce
  have b: "t' = t4" "b = b1\<lparr>fb_updates := fb_updates b1 @ us3 @ us4\<rparr>"
    using assms True 1 3 4 by (auto simp: observe_event_def)
  have "synced (notice_engine (fb_reorg_notice b1) (ct_states t)) (ct_states t4, (fb_updates b1 @ us3) @ us4)"
    using check_reorg_synced [OF 1]
    by (intro confirm_finalized_synced [OF _ 4] first_sighting_synced [OF _ 3]) simp
  then show ?thesis by (simp add: b synced_def)
next
  case False
  then show ?thesis using assms by (auto simp: observe_event_def FinalityBatch_default_def notice_engine_def)
qed

lemma apply_reorg_notice_synced:
  assumes "apply_reorg_notice now n t = (t', us)" "rn_chain n = ct_chain t"
  shows "fold apply_update us (handle_reorg_notice n (ct_states t)) = ct_states t'"
  using assms synced_after_notice [of "mk_update (ct_chain t) now (rn_orphaned_from_block n) None Retracted",
      OF retracts_mk_update, of "rn_affected_event_keys n" "ct_states t"]
  by (auto simp: apply_reorg_notice_def Let_def handle_reorg_notice_def synced_def split: prod.splits)

section \<open>Lifecycle order\<close>

text \<open>
  The moves an event's lifecycle state can make. Retraction is possible from anywhere, and
  nothing leads out of it.
\<close>

inductive lifecycle_move :: "LifecycleState option \<Rightarrow> LifecycleState option \<Rightarrow> bool" where
  seen: "lifecycle_move None (Some Provisional)"
| confirmed: "lifecycle_move (Some Provisional) (Some Confirmed)"
| retracted: "a \<noteq> Some Retracted \<Longrightarrow> lifecycle_move a (Some Retracted)"

inductive_cases lifecycle_move_from_retracted: "lifecycle_move (Some Retracted) b"
inductive_simps lifecycle_move_simps: "lifecycle_move a b"

abbreviation lifecycle_le :: "LifecycleState option \<Rightarrow> LifecycleState option \<Rightarrow> bool" where
  "lifecycle_le \<equiv> lifecycle_move\<^sup>*\<^sup>*"

lemma lifecycle_le_retracted: "lifecycle_le a (Some Retracted)"
  by (cases "a = Some Retracted") (auto intro: lifecycle_move.retracted)

lemma lifecycle_le_seen: "lifecycle_le None (Some Provisional)"
  by (rule r_into_rtranclp) (rule lifecycle_move.seen)

lemma lifecycle_from_retracted: "lifecycle_le (Some Retracted) b \<Longrightarrow> b = Some Retracted"
  by (induction rule: rtranclp_induct) (auto elim: lifecycle_move_from_retracted)

lemma lifecycle_stays_known: "lifecycle_le a b \<Longrightarrow> a \<noteq> None \<Longrightarrow> b \<noteq> None"
  by (induction rule: rtranclp_induct) (auto simp: lifecycle_move_simps)

lemma lifecycle_retract_all:
  "lifecycle_le (st k) (fold (\<lambda>k e. e(k \<mapsto> Retracted)) ks st k)"
  by (simp add: retract_all_apply lifecycle_le_retracted)

lemma lifecycle_confirm_keys:
  "lifecycle_le (fst a k) (fst (fold (confirm_key mk) ks a) k)"
proof (induction ks arbitrary: a)
  case (Cons j ks)
  obtain st us where a: "a = (st, us)" by (cases a)
  have "lifecycle_le (st k) (fst (confirm_key mk j a) k)"
    using a by (auto intro: lifecycle_move.confirmed)
  also have "lifecycle_le (fst (confirm_key mk j a) k) (fst (fold (confirm_key mk) ks (confirm_key mk j a)) k)"
    by (rule Cons.IH)
  finally show ?case using a by simp
qed simp

lemma lifecycle_confirm_blocks:
  "lifecycle_le (fst a k) (fst (fold (confirm_block chain now) bs a) k)"
proof (induction bs arbitrary: a)
  case (Cons b bs)
  have "lifecycle_le (fst a k) (fst (confirm_block chain now b a) k)"
    by (cases b) (simp add: lifecycle_confirm_keys)
  also have "lifecycle_le (fst (confirm_block chain now b a) k)
      (fst (fold (confirm_block chain now) bs (confirm_block chain now b a)) k)"
    by (rule Cons.IH)
  finally show ?case by simp
qed simp

lemma check_reorg_states:
  "ct_states (fst (check_reorg now ev t)) =
     (if detect_conflicting_hash t (ne_block_number ev) (ne_block_hash ev) = None then ct_states t
      else fold (\<lambda>k e. e(k \<mapsto> Retracted)) (collect_affected_event_keys t (ne_block_number ev)) (ct_states t))"
proof -
  let ?ks = "collect_affected_event_keys t (ne_block_number ev)"
  have "fst (fold (retract_key mk) ?ks (ct_states t, [])) = fold (\<lambda>k e. e(k \<mapsto> Retracted)) ?ks (ct_states t)" for mk
    by (simp add: fst_retract_keys)
  then show ?thesis
    by (auto simp: check_reorg_def Let_def split: option.splits prod.splits) (metis fst_conv)
qed

lemma lifecycle_observe_event:
  "lifecycle_le (ct_states t k) (ct_states (fst (observe_event now ev t)) k)"
proof (cases "ne_chain ev = ct_chain t")
  case True
  obtain t1 b1 where 1: "check_reorg now ev t = (t1, b1)" by fastforce
  obtain t3 us3 where 3: "first_sighting now ev (enter_block ev t1) = (t3, us3)" by fastforce
  obtain t4 us4 where 4: "confirm_finalized now ev t3 = (t4, us4)" by fastforce
  have "lifecycle_le (ct_states t k) (ct_states t1 k)"
    using check_reorg_states [of now ev t] 1 by (simp add: retract_all_apply lifecycle_le_retracted)
  also have "lifecycle_le (ct_states t1 k) (ct_states t3 k)"
    using 3 by (auto simp: first_sighting_def split: if_splits
        intro: lifecycle_le_seen)
  also have "lifecycle_le (ct_states t3 k) (ct_states t4 k)"
    using 4 lifecycle_confirm_blocks [of "(ct_states t3, [])" k]
    by (auto simp: confirm_finalized_def Let_def split: prod.splits) (metis fst_conv)
  finally show ?thesis using True 1 3 4 by (simp add: observe_event_def)
qed (simp add: observe_event_def)

lemma lifecycle_apply_reorg_notice:
  "lifecycle_le (ct_states t k) (ct_states (fst (apply_reorg_notice now n t)) k)"
proof (cases "rn_chain n = ct_chain t")
  case True
  have "ct_states (fst (apply_reorg_notice now n t)) =
      fold (\<lambda>k e. e(k \<mapsto> Retracted)) (rn_affected_event_keys n) (ct_states t)"
    using True fst_retract_keys [of _ "rn_affected_event_keys n" "(ct_states t, [])"]
    by (auto simp: apply_reorg_notice_def Let_def split: prod.splits) (metis fst_conv)
  then show ?thesis by (simp add: lifecycle_retract_all)
qed (simp add: apply_reorg_notice_def)

section \<open>Well-formed trackers\<close>

text \<open>
  Blocks are in strictly ascending order, the head is the highest tracked block (zero when there
  is none), and every tracked event key has a lifecycle state.
\<close>

definition tracker_inv :: "ChainFinalityTracker \<Rightarrow> bool" where
  "tracker_inv t \<longleftrightarrow>
     sorted_wrt (<) (map fst (ct_blocks t)) \<and>
     ct_head_block t = (if ct_blocks t = [] then 0 else fst (last (ct_blocks t))) \<and>
     (\<forall>n e. (n, e) \<in> set (ct_blocks t) \<longrightarrow>
        distinct (be_event_keys e) \<and> (\<forall>k \<in> set (be_event_keys e). ct_states t k \<noteq> None))"

lemma tracker_inv_new: "tracker_inv (tracker_new chain d)"
  by (simp add: tracker_inv_def tracker_new_def)

lemma fst_block_entry: "fst ` set (block_entry n d f bs) = insert n (fst ` set bs)"
  by (induction n d f bs rule: block_entry.induct) auto

lemma sorted_block_entry:
  "sorted_wrt (<) (map fst bs) \<Longrightarrow> sorted_wrt (<) (map fst (block_entry n d f bs))"
proof (induction n d f bs rule: block_entry.induct)
  case (2 n d f m e bs)
  have "\<forall>x \<in> fst ` set (block_entry n d f bs). m < x" if "m < n"
    using "2.prems" that by (auto simp: fst_block_entry)
  then show ?case using 2 by auto
qed simp

lemma block_entry_neq_Nil [simp]: "block_entry n d f bs \<noteq> []"
  by (cases "(n, d, f, bs)" rule: block_entry.cases) auto

lemma last_block_entry:
  "sorted_wrt (<) (map fst bs) \<Longrightarrow>
     fst (last (block_entry n d f bs)) = (if bs = [] then n else max n (fst (last bs)))"
proof (induction n d f bs rule: block_entry.induct)
  case (2 n d f m e bs)
  show ?case
  proof (cases "bs = [] \<or> m < n")
    case True
    then show ?thesis using 2 by auto
  next
    case False
    have "m < fst (last bs)" using "2.prems" False last_in_set [of bs] by simp
    then show ?thesis using False by simp
  qed
qed simp

lemma block_entry_in:
  "(m, e) \<in> set (block_entry n d f bs) \<Longrightarrow>
     (m, e) \<in> set bs \<or> m = n \<and> (e = f d \<or> (\<exists>e0. (n, e0) \<in> set bs \<and> e = f e0))"
  by (induction n d f bs rule: block_entry.induct) (auto split: if_splits)

lemma block_le_last:
  fixes bs :: blocks
  assumes "sorted_wrt (<) (map fst bs)"
  shows "x \<in> set bs \<Longrightarrow> fst x \<le> fst (last bs)"
  using assms by (induction bs) (auto simp: less_imp_le split: if_splits)

lemma tracker_inv_rollback:
  assumes "tracker_inv t"
  shows "tracker_inv (rollback_from_block n t)"
  using assms
  by (auto simp: tracker_inv_def rollback_from_block_def Let_def
      intro!: sorted_wrt_filter [of "\<lambda>x y. fst x < fst y", unfolded sorted_wrt_map [symmetric]])

lemma tracker_inv_states:
  assumes "tracker_inv t" "\<And>k. ct_states t k \<noteq> None \<Longrightarrow> st k \<noteq> None"
  shows "tracker_inv (t\<lparr>ct_states := st\<rparr>)"
  using assms by (auto simp: tracker_inv_def)

lemma retract_all_dom:
  "st k \<noteq> None \<Longrightarrow> fold (\<lambda>k e. e(k \<mapsto> Retracted)) ks st k \<noteq> None"
  by (simp add: retract_all_apply)

lemma fst_fold_retract_dom:
  "fold (retract_key mk) ks (st, us) = (st', us') \<Longrightarrow> st k = Some y \<Longrightarrow> \<exists>z. st' k = Some z"
  using fst_retract_keys [of mk ks "(st, us)"] retract_all_dom [of st k ks] by simp

lemma tracker_inv_check_reorg:
  assumes "tracker_inv t"
  shows "tracker_inv (fst (check_reorg now ev t))"
  using assms tracker_inv_rollback [OF assms]
  by (auto simp: check_reorg_def Let_def split: option.splits prod.splits
      intro!: tracker_inv_states dest: fst_fold_retract_dom)

lemma note_event_keys:
  "set (be_event_keys (note_event ev e)) = insert (ne_event_key ev) (set (be_event_keys e))"
  "distinct (be_event_keys (note_event ev e)) = distinct (be_event_keys e)"
  by (auto simp: note_event_def Let_def)

lemma tracker_inv_first_sighting_enter:
  assumes "tracker_inv t"
  shows "tracker_inv (fst (first_sighting now ev (enter_block ev t)))"
proof -
  let ?k = "ne_event_key ev" and ?n = "ne_block_number ev"
  let ?t = "fst (first_sighting now ev (enter_block ev t))"
  have blocks: "ct_blocks ?t = ct_blocks (enter_block ev t)" "ct_head_block ?t = ct_head_block (enter_block ev t)"
    by (simp_all add: first_sighting_def)
  have st: "ct_states ?t k \<noteq> None" if "k = ?k \<or> ct_states t k \<noteq> None" for k
    using that by (auto simp: first_sighting_def)
  have "sorted_wrt (<) (map fst (ct_blocks ?t))"
    using assms unfolding blocks by (simp add: tracker_inv_def enter_block_def sorted_block_entry)
  moreover have "ct_head_block ?t = (if ct_blocks ?t = [] then 0 else fst (last (ct_blocks ?t)))"
    using assms unfolding blocks by (auto simp: tracker_inv_def enter_block_def last_block_entry)
  moreover have "distinct (be_event_keys e) \<and> (\<forall>k \<in> set (be_event_keys e). ct_states ?t k \<noteq> None)"
    if "(n, e) \<in> set (ct_blocks ?t)" for n e
  proof -
    have old: "distinct (be_event_keys e0) \<and> (\<forall>k \<in> set (be_event_keys e0). ct_states t k \<noteq> None)"
      if "(m, e0) \<in> set (ct_blocks t)" for m e0
      using assms that by (auto simp: tracker_inv_def)
    from that have "(n, e) \<in> set (block_entry ?n \<lparr>be_block_hash = ne_block_hash ev, be_event_keys = []\<rparr>
        (note_event ev) (ct_blocks t))"
      unfolding blocks by (simp add: enter_block_def)
    from block_entry_in [OF this] show ?thesis
      using old st by (auto simp: note_event_keys)
  qed
  ultimately show ?thesis unfolding tracker_inv_def by blast
qed

lemma confirm_blocks_dom:
  "fold (confirm_block chain now) bs (st, us) = (st', us') \<Longrightarrow> st k \<noteq> None \<Longrightarrow> st' k \<noteq> None"
  using lifecycle_confirm_blocks [of "(st, us)" k chain now bs] lifecycle_stays_known by fastforce

lemma confirm_finalized_fields:
  "ct_blocks (fst (confirm_finalized now ev t)) = ct_blocks t"
  "ct_head_block (fst (confirm_finalized now ev t)) = ct_head_block t"
  "ct_chain (fst (confirm_finalized now ev t)) = ct_chain t"
  "ct_default_confirmation_depth (fst (confirm_finalized now ev t)) = ct_default_confirmation_depth t"
  by (simp_all add: confirm_finalized_def Let_def split: prod.splits)

lemma tracker_inv_confirm:
  "tracker_inv t \<Longrightarrow> tracker_inv (fst (confirm_finalized now ev t))"
  by (auto simp: confirm_finalized_def Let_def split: prod.splits
      intro!: tracker_inv_states dest: confirm_blocks_dom)

lemma observe_event_fst:
  "ne_chain ev = ct_chain t \<Longrightarrow>
     fst (observe_event now ev t) =
       fst (confirm_finalized now ev
         (fst (first_sighting now ev (enter_block ev (fst (check_reorg now ev t))))))"
  by (simp add: observe_event_def Let_def case_prod_beta)

lemma tracker_inv_observe: "tracker_inv t \<Longrightarrow> tracker_inv (fst (observe_event now ev t))"
  using tracker_inv_check_reorg [of t now ev]
    tracker_inv_first_sighting_enter [of "fst (check_reorg now ev t)" now ev]
    tracker_inv_confirm [of "fst (first_sighting now ev (enter_block ev (fst (check_reorg now ev t))))" now ev]
  by (cases "ne_chain ev = ct_chain t") (simp_all add: observe_event_fst, simp add: observe_event_def)

lemma tracker_inv_notice: "tracker_inv t \<Longrightarrow> tracker_inv (fst (apply_reorg_notice now n t))"
  using tracker_inv_rollback [of t "rn_orphaned_from_block n"]
  by (auto simp: apply_reorg_notice_def Let_def split: prod.splits
      intro!: tracker_inv_states dest: fst_fold_retract_dom)

text \<open>A chain's history: observed events and reorg notices, each with its clock reading.\<close>

datatype finality_event = Observe datetime NormalizedEvent | Notice datetime ReorgNotice

fun tracker_step :: "ChainFinalityTracker \<Rightarrow> finality_event \<Rightarrow> ChainFinalityTracker" where
  "tracker_step t (Observe now ev) = fst (observe_event now ev t)"
| "tracker_step t (Notice now n) = fst (apply_reorg_notice now n t)"

interpretation tracker: invariant_machine tracker_step tracker_inv
proof
  show "tracker_inv t \<Longrightarrow> tracker_inv (tracker_step t e)" for t e
    by (cases e) (simp_all add: tracker_inv_observe tracker_inv_notice)
qed

section \<open>What the confirmation stage does\<close>

lemma confirm_keys_apply:
  "fst (fold (confirm_key mk) ks a) k =
     (if k \<in> set ks \<and> fst a k = Some Provisional then Some Confirmed else fst a k)"
proof (induction ks arbitrary: a)
  case (Cons j ks)
  then show ?case by (cases a) (auto split: if_splits)
qed simp

definition tracked :: "blocks \<Rightarrow> string \<Rightarrow> bool" where
  "tracked bs k \<longleftrightarrow> (\<exists>n e. (n, e) \<in> set bs \<and> k \<in> set (be_event_keys e))"

lemma confirm_blocks_apply:
  "fst (fold (confirm_block chain now) bs a) k =
     (if tracked bs k \<and> fst a k = Some Provisional then Some Confirmed else fst a k)"
proof (induction bs arbitrary: a)
  case (Cons b bs)
  obtain n e where b: "b = (n, e)" by (cases b)
  have "tracked (b # bs) k \<longleftrightarrow> k \<in> set (be_event_keys e) \<or> tracked bs k"
    by (auto simp: tracked_def b)
  then show ?case
    using Cons [of "confirm_block chain now b a"] by (auto simp: b confirm_keys_apply)
qed (simp add: tracked_def)

lemma confirm_finalized_states:
  "ct_states (fst (confirm_finalized now ev t)) k =
     (if tracked (takeWhile (\<lambda>(n, _). n \<le> ct_head_block t - confirmation_depth_for t ev) (ct_blocks t)) k
         \<and> ct_states t k = Some Provisional
      then Some Confirmed else ct_states t k)"
  using confirm_blocks_apply [of "ct_chain t" now
      "takeWhile (\<lambda>(n, _). n \<le> ct_head_block t - confirmation_depth_for t ev) (ct_blocks t)" "(ct_states t, [])" k]
  by (auto simp: confirm_finalized_def Let_def split: prod.splits)

lemma confirm_keys_updates:
  assumes "u \<in> set (snd (fold (confirm_key (mk_update chain now n h Confirmed)) ks a))" "u \<notin> set (snd a)"
  shows "fu_block_number u = n \<and> fu_event_key u \<in> set ks \<and> fst a (fu_event_key u) = Some Provisional"
  using assms
proof (induction ks arbitrary: a)
  case (Cons j ks)
  obtain st us where a: "a = (st, us)" by (cases a)
  let ?a' = "confirm_key (mk_update chain now n h Confirmed) j a"
  show ?case
  proof (cases "u \<in> set (snd ?a')")
    case True
    with Cons.prems(2) a show ?thesis by (auto simp: mk_update_def split: if_splits)
  next
    case False
    with Cons.IH [of ?a'] Cons.prems a show ?thesis by (auto split: if_splits)
  qed
qed simp

lemma confirm_blocks_updates:
  assumes "u \<in> set (snd (fold (confirm_block chain now) bs a))" "u \<notin> set (snd a)"
  shows "(\<exists>e. (fu_block_number u, e) \<in> set bs \<and> fu_event_key u \<in> set (be_event_keys e))
       \<and> fst a (fu_event_key u) = Some Provisional"
  using assms
proof (induction bs arbitrary: a)
  case (Cons b bs)
  obtain n e where b: "b = (n, e)" by (cases b)
  show ?case
  proof (cases "u \<in> set (snd (confirm_block chain now b a))")
    case True
    with Cons.prems(2) b show ?thesis using confirm_keys_updates by fastforce
  next
    case False
    with Cons.IH [of "confirm_block chain now b a"] Cons.prems b show ?thesis
      by (auto simp: confirm_keys_apply split: if_splits)
  qed
qed simp

lemma takeWhile_sorted_blocks:
  fixes bs :: blocks
  assumes "sorted_wrt (<) (map fst bs)" "(n, e) \<in> set bs" "n \<le> h"
  shows "(n, e) \<in> set (takeWhile (\<lambda>(n, _). n \<le> h) bs)"
  using assms by (induction bs) (auto simp: less_imp_le split: prod.splits)

lemma block_entry_keeps:
  "(n, e) \<in> set bs \<Longrightarrow>
     \<exists>e'. (n, e') \<in> set (block_entry m d (note_event ev) bs) \<and> set (be_event_keys e) \<subseteq> set (be_event_keys e')"
proof (induction bs)
  case (Cons b bs)
  obtain n' e' where b: "b = (n', e')" by (cases b)
  show ?case
  proof (cases "(n, e) = b")
    case True
    then show ?thesis using b by (cases "m = n'") (auto simp: note_event_keys)
  next
    case False
    then show ?thesis using Cons b by auto
  qed
qed simp

lemma tracked_enter_block:
  "tracked (ct_blocks (enter_block ev t)) k \<Longrightarrow> tracked (ct_blocks t) k \<or> k = ne_event_key ev"
  unfolding tracked_def enter_block_def
  by (fastforce dest!: block_entry_in simp: note_event_keys)

lemma tracked_rollback: "tracked (ct_blocks (rollback_from_block n t)) k \<Longrightarrow> tracked (ct_blocks t) k"
  by (auto simp: tracked_def rollback_from_block_def Let_def)

lemma check_reorg_blocks:
  "ct_blocks (fst (check_reorg now ev t)) = ct_blocks t \<or>
   ct_blocks (fst (check_reorg now ev t)) = ct_blocks (rollback_from_block (ne_block_number ev) t)"
  by (auto simp: check_reorg_def Let_def split: option.splits prod.splits)

lemma check_reorg_chain [simp]: "ct_chain (fst (check_reorg now ev t)) = ct_chain t"
  by (auto simp: check_reorg_def Let_def split: option.splits prod.splits)

lemma first_sighting_fields [simp]:
  "ct_blocks (fst (first_sighting now ev t)) = ct_blocks t"
  "ct_head_block (fst (first_sighting now ev t)) = ct_head_block t"
  "ct_chain (fst (first_sighting now ev t)) = ct_chain t"
  "ct_default_confirmation_depth (fst (first_sighting now ev t)) = ct_default_confirmation_depth t"
  by (simp_all add: first_sighting_def)

lemma observe_event_untracked:
  assumes "\<not> tracked (ct_blocks t) k" "ct_states t k \<noteq> Some Confirmed" "k \<noteq> ne_event_key ev"
  shows "\<not> tracked (ct_blocks (fst (observe_event now ev t))) k
       \<and> ct_states (fst (observe_event now ev t)) k \<noteq> Some Confirmed"
proof (cases "ne_chain ev = ct_chain t")
  case True
  let ?t1 = "fst (check_reorg now ev t)"
  let ?t3 = "fst (first_sighting now ev (enter_block ev ?t1))"
  have "\<not> tracked (ct_blocks ?t1) k"
    using assms(1) check_reorg_blocks [of now ev t] tracked_rollback by metis
  then have un: "\<not> tracked (ct_blocks ?t3) k"
    using assms(3) tracked_enter_block [of ev ?t1 k] by auto
  have st: "ct_states ?t3 k \<noteq> Some Confirmed"
    using assms(2,3) by (auto simp: first_sighting_def check_reorg_states retract_all_apply)
  have "\<not> tracked (takeWhile P (ct_blocks ?t3)) k" for P
    using un by (auto simp: tracked_def dest!: set_takeWhileD)
  then show ?thesis
    using un st True by (simp add: observe_event_fst confirm_finalized_states confirm_finalized_fields)
qed (use assms in \<open>simp add: observe_event_def\<close>)

lemma apply_reorg_notice_states:
  "rn_chain n = ct_chain t \<Longrightarrow>
     ct_states (fst (apply_reorg_notice now n t)) k =
       (if k \<in> set (rn_affected_event_keys n) then Some Retracted else ct_states t k)"
  using fst_retract_keys [of "mk_update (ct_chain t) now (rn_orphaned_from_block n) None Retracted"
      "rn_affected_event_keys n" "(ct_states t, [])"]
  by (auto simp: apply_reorg_notice_def Let_def retract_all_apply split: prod.splits)

lemma apply_reorg_notice_blocks:
  "rn_chain n = ct_chain t \<Longrightarrow>
     ct_blocks (fst (apply_reorg_notice now n t)) = filter (\<lambda>(m, _). m < rn_orphaned_from_block n) (ct_blocks t)"
  by (simp add: apply_reorg_notice_def rollback_from_block_def Let_def split: prod.splits)

lemma apply_reorg_notice_untracked:
  assumes "\<not> tracked (ct_blocks t) k" "ct_states t k \<noteq> Some Confirmed"
  shows "\<not> tracked (ct_blocks (fst (apply_reorg_notice now n t))) k
       \<and> ct_states (fst (apply_reorg_notice now n t)) k \<noteq> Some Confirmed"
proof (cases "rn_chain n = ct_chain t")
  case True
  then show ?thesis
    using assms by (auto simp: apply_reorg_notice_states apply_reorg_notice_blocks tracked_def)
qed (use assms in \<open>simp add: apply_reorg_notice_def\<close>)

text \<open>An event that no block tracks is confirmed only after it is observed again.\<close>

lemma untracked_never_confirmed:
  assumes "\<not> tracked (ct_blocks t) k" "ct_states t k \<noteq> Some Confirmed"
    and "\<forall>now ev. Observe now ev \<in> set es \<longrightarrow> ne_event_key ev \<noteq> k"
  shows "ct_states (foldl tracker_step t es) k \<noteq> Some Confirmed"
  using assms
proof (induction es arbitrary: t)
  case (Cons e es)
  have "\<not> tracked (ct_blocks (tracker_step t e)) k \<and> ct_states (tracker_step t e) k \<noteq> Some Confirmed"
  proof (cases e)
    case (Observe now ev)
    then have "ne_event_key ev \<noteq> k" using Cons.prems(3) by auto
    then show ?thesis using Cons.prems Observe observe_event_untracked [of t k ev now] by auto
  next
    case (Notice now n)
    then show ?thesis using Cons.prems apply_reorg_notice_untracked [of t k now n] by auto
  qed
  then show ?case using Cons by simp
qed simp

lemma retraction_updates:
  assumes "fold (retract_key mk) ks (st, []) = (st', us)" "retracts mk" "u \<in> set us"
  shows "fu_lifecycle_state u = Retracted"
  using updates_retract_keys [OF assms(2), of u ks "(st, [])"] assms(1,3) by simp

lemma check_reorg_updates:
  "u \<in> set (fb_updates (snd (check_reorg now ev t))) \<Longrightarrow> fu_lifecycle_state u = Retracted"
  by (auto simp: check_reorg_def Let_def FinalityBatch_default_def
      split: option.splits prod.splits if_splits dest: retraction_updates [OF _ retracts_mk_update])

lemma check_reorg_depth [simp]:
  "ct_default_confirmation_depth (fst (check_reorg now ev t)) = ct_default_confirmation_depth t"
  by (auto simp: check_reorg_def rollback_from_block_def Let_def split: option.splits prod.splits)

lemma depth_for_stages [simp]:
  "confirmation_depth_for (fst (first_sighting now ev (enter_block ev (fst (check_reorg now ev t))))) ev
     = confirmation_depth_for t ev"
  by (simp add: confirmation_depth_for_def) (simp add: enter_block_def)

lemma confirm_finalized_updates:
  assumes "u \<in> set (snd (confirm_finalized now ev t))"
  shows "fu_block_number u \<le> ct_head_block t - confirmation_depth_for t ev
       \<and> ct_states (fst (confirm_finalized now ev t)) (fu_event_key u) = Some Confirmed"
proof -
  let ?bs = "takeWhile (\<lambda>(n, _). n \<le> ct_head_block t - confirmation_depth_for t ev) (ct_blocks t)"
  have "u \<in> set (snd (fold (confirm_block (ct_chain t) now) ?bs (ct_states t, [])))"
    using assms by (simp add: confirm_finalized_def Let_def split: prod.splits)
  from confirm_blocks_updates [OF this] obtain e
    where e: "(fu_block_number u, e) \<in> set ?bs" "fu_event_key u \<in> set (be_event_keys e)"
      and p: "ct_states t (fu_event_key u) = Some Provisional" by auto
  then have "tracked ?bs (fu_event_key u)" by (auto simp: tracked_def)
  with p have "ct_states (fst (confirm_finalized now ev t)) (fu_event_key u) = Some Confirmed"
    by (simp add: confirm_finalized_states)
  then show ?thesis using set_takeWhileD [OF e(1)] by simp
qed

section \<open>What the finality worker guarantees\<close>

text \<open>
  The worker on the entries of one chain; those of other chains are for other trackers. When the first of
  them is an event, the chain's persisted tracker is loaded; a notice that comes first starts a new one.
\<close>

fun worker_step ::
  "(string \<Rightarrow> string option) \<Rightarrow> (Chain \<Rightarrow> ChainFinalityTracker option) \<Rightarrow> Chain \<Rightarrow> finality_worker
     \<Rightarrow> finality_event \<Rightarrow> finality_worker" where
  "worker_step env load c w (Observe now ev) =
     (if ne_chain ev = c then on_normalized_event env load now ev w else w)"
| "worker_step env load c w (Notice now n) =
     (if rn_chain n = c then on_reorg_notice env now n w else w)"

definition worker_init :: finality_worker where
  "worker_init =
     \<lparr>fw_trackers = Map.empty, fw_engine = Map.empty, fw_reorg_log = [], fw_update_log = []\<rparr>"

text \<open>The states the tracker of a chain starts with: persisted ones, if an event of the chain comes before any notice.\<close>

fun first_states :: "(Chain \<Rightarrow> ChainFinalityTracker option) \<Rightarrow> Chain \<Rightarrow> finality_event list \<Rightarrow> states" where
  "first_states load c [] = Map.empty"
| "first_states load c (Observe now ev # es) =
     (if ne_chain ev = c then (case load c of None \<Rightarrow> Map.empty | Some p \<Rightarrow> ct_states p) else first_states load c es)"
| "first_states load c (Notice now n # es) = (if rn_chain n = c then Map.empty else first_states load c es)"

definition engine_follows :: "Chain \<Rightarrow> states \<Rightarrow> finality_worker \<Rightarrow> bool" where
  "engine_follows c base w \<longleftrightarrow>
     (case fw_trackers w c of
        None \<Rightarrow> fw_engine w = Map.empty
      | Some t \<Rightarrow> ct_chain t = c \<and> ct_states t = base ++ fw_engine w)"

lemma apply_updates_over: "fold apply_update us (base ++ eng) = base ++ fold apply_update us eng"
  by (induction us arbitrary: eng) (simp_all add: apply_update_def flip: map_add_upd)

lemma handle_notice_over: "handle_reorg_notice n (base ++ eng) = base ++ handle_reorg_notice n eng"
proof -
  have "fold (\<lambda>k e. e(k \<mapsto> Retracted)) ks (base ++ eng) = base ++ fold (\<lambda>k e. e(k \<mapsto> Retracted)) ks eng" for ks
    by (induction ks arbitrary: eng) (simp_all flip: map_add_upd)
  then show ?thesis by (simp add: handle_reorg_notice_def)
qed

lemma notice_engine_over: "notice_engine n (base ++ eng) = base ++ notice_engine n eng"
  by (simp add: notice_engine_def handle_notice_over split: option.split)

lemma observe_event_chain [simp]: "ct_chain (fst (observe_event now ev t)) = ct_chain t"
  by (cases "ne_chain ev = ct_chain t")
     (simp_all add: observe_event_fst confirm_finalized_fields, simp add: observe_event_def)

lemma apply_reorg_notice_chain [simp]: "ct_chain (fst (apply_reorg_notice now n t)) = ct_chain t"
  by (simp add: apply_reorg_notice_def Let_def split: prod.splits)

lemma engine_follows_observe:
  assumes t: "ct_chain (worker_tracker env load c w) = c" "ct_states (worker_tracker env load c w) = base ++ fw_engine w"
    and "ne_chain ev = c"
  shows "engine_follows c base (on_normalized_event env load now ev w)"
    and "fw_trackers (on_normalized_event env load now ev w) c \<noteq> None"
proof -
  let ?t = "worker_tracker env load c w"
  obtain t' b where o: "observe_event now ev ?t = (t', b)" by fastforce
  have "ct_states t' = base ++ fold apply_update (fb_updates b) (notice_engine (fb_reorg_notice b) (fw_engine w))"
    using observe_event_synced [OF o] by (simp add: t notice_engine_over apply_updates_over)
  moreover have "ct_chain t' = c" using observe_event_chain [of now ev ?t] o t(1) by simp
  ultimately show "engine_follows c base (on_normalized_event env load now ev w)"
    "fw_trackers (on_normalized_event env load now ev w) c \<noteq> None"
    using o assms(3)
    by (auto simp: on_normalized_event_def engine_follows_def notice_engine_def split: option.splits)
qed

lemma engine_follows_notice:
  assumes t: "ct_chain (worker_tracker env (\<lambda>_. None) c w) = c"
      "ct_states (worker_tracker env (\<lambda>_. None) c w) = base ++ fw_engine w"
    and "rn_chain n = c"
  shows "engine_follows c base (on_reorg_notice env now n w)" and "fw_trackers (on_reorg_notice env now n w) c \<noteq> None"
proof -
  let ?t = "worker_tracker env (\<lambda>_. None) c w"
  obtain t' us where o: "apply_reorg_notice now n ?t = (t', us)" by fastforce
  have "ct_states t' = base ++ fold apply_update us (handle_reorg_notice n (fw_engine w))" "ct_chain t' = c"
    using apply_reorg_notice_synced [OF o] apply_reorg_notice_chain [of now n ?t] o assms(3)
    by (simp_all add: t handle_notice_over apply_updates_over)
  then show "engine_follows c base (on_reorg_notice env now n w)" "fw_trackers (on_reorg_notice env now n w) c \<noteq> None"
    using o assms(3) by (simp_all add: on_reorg_notice_def engine_follows_def)
qed

text \<open>Once the chain has a tracker, nothing is loaded any more.\<close>

lemma tracker_there:
  assumes "engine_follows c base w" "fw_trackers w c \<noteq> None"
  shows "ct_chain (worker_tracker env load c w) = c" "ct_states (worker_tracker env load c w) = base ++ fw_engine w"
  using assms by (auto simp: engine_follows_def worker_tracker_def)

lemma engine_follows_step:
  assumes "engine_follows c base w" "fw_trackers w c \<noteq> None"
  shows "engine_follows c base (worker_step env load c w e) \<and> fw_trackers (worker_step env load c w e) c \<noteq> None"
proof (cases e)
  case (Observe now ev)
  then show ?thesis
    using assms engine_follows_observe [OF tracker_there [OF assms], of ev env load now] by (cases "ne_chain ev = c") simp_all
next
  case (Notice now n)
  then show ?thesis
    using assms engine_follows_notice [OF tracker_there [OF assms], of n env now] by (cases "rn_chain n = c") simp_all
qed

interpretation worker: invariant_machine "worker_step env load c" "\<lambda>w. engine_follows c base w \<and> fw_trackers w c \<noteq> None"
  for env load c base
  by unfold_locales (rule engine_follows_step; blast)

lemma worker_run_follows:
  assumes "\<And>p. load c = Some p \<Longrightarrow> ct_chain p = c"
  shows "engine_follows c (first_states load c es) (foldl (worker_step env load c) worker_init es)"
proof (induction es)
  case (Cons e es)
  show ?case
  proof (cases "worker_step env load c worker_init e = worker_init \<and> first_states load c (e # es) = first_states load c es")
    case True
    then show ?thesis using Cons.IH by simp
  next
    case False
    let ?w = "worker_step env load c worker_init e" and ?base = "first_states load c (e # es)"
    have "engine_follows c ?base ?w \<and> fw_trackers ?w c \<noteq> None"
    proof (cases e)
      case (Observe now ev)
      with False have c: "ne_chain ev = c" by (auto split: if_splits)
      have "ct_chain (worker_tracker env load c worker_init) = c"
        "ct_states (worker_tracker env load c worker_init) = ?base ++ fw_engine worker_init"
        using assms c by (simp_all add: worker_tracker_def worker_init_def tracker_new_def Observe split: option.split)
      from engine_follows_observe [OF this c] show ?thesis by (simp add: Observe c)
    next
      case (Notice now n)
      with False have c: "rn_chain n = c" by (auto split: if_splits)
      have "ct_chain (worker_tracker env (\<lambda>_. None) c worker_init) = c"
        "ct_states (worker_tracker env (\<lambda>_. None) c worker_init) = ?base ++ fw_engine worker_init"
        using c by (simp_all add: worker_tracker_def worker_init_def tracker_new_def Notice)
      from engine_follows_notice [OF this c] show ?thesis by (simp add: Notice c)
    qed
    from worker.inv_run [OF this] show ?thesis by simp
  qed
qed (simp add: engine_follows_def worker_init_def)

text \<open>
  (C15) The lifecycle states the engine serves are those of the tracker: after every history of events
  and reorg notices of a chain, whether or not a persisted tracker was loaded, the tracker's map of states
  is the one it started with, overridden by what the engine has learnt since from the published
  updates and notices. Where nothing was loaded the two are equal; after a restart the engine knows
  nothing of the states that were loaded, until they change.
\<close>

theorem engine_agrees_with_tracker:
  assumes "\<And>p. load c = Some p \<Longrightarrow> ct_chain p = c"
  shows "case fw_trackers (foldl (worker_step env load c) worker_init es) c of
     None \<Rightarrow> fw_engine (foldl (worker_step env load c) worker_init es) = Map.empty
   | Some t \<Rightarrow> ct_states t k
       = (case engine_get_state (fw_engine (foldl (worker_step env load c) worker_init es)) k of
            None \<Rightarrow> first_states load c es k
          | Some l \<Rightarrow> Some l)"
proof -
  have "engine_follows c (first_states load c es) (foldl (worker_step env load c) worker_init es)"
    by (rule worker_run_follows) (rule assms)
  then show ?thesis by (auto simp: engine_follows_def engine_get_state_def map_add_def split: option.splits)
qed

text \<open>
  Confirmations are deep enough: a batch of updates confirms an event only when the block that
  holds it lies at least the confirmation depth below the head, and the tracker then has the
  event as confirmed.
\<close>

lemma confirmed_only_below_finalized_height:
  assumes "observe_event now ev t = (t', b)" and "u \<in> set (fb_updates b)"
    and "fu_lifecycle_state u = Confirmed"
  shows "fu_block_number u \<le> ct_head_block t' - confirmation_depth_for t ev
       \<and> ct_states t' (fu_event_key u) = Some Confirmed"
proof -
  have chain: "ne_chain ev = ct_chain t"
    using assms by (auto simp: observe_event_def FinalityBatch_default_def split: if_splits)
  let ?t3 = "fst (first_sighting now ev (enter_block ev (fst (check_reorg now ev t))))"
  have t': "t' = fst (confirm_finalized now ev ?t3)"
    using observe_event_fst [OF chain, of now] assms(1) by simp
  have "u \<in> set (snd (confirm_finalized now ev ?t3))"
    using assms chain check_reorg_updates [of u now ev t]
    by (auto simp: observe_event_def Let_def case_prod_beta first_sighting_def mk_update_def split: if_splits)
  from confirm_finalized_updates [OF this] show ?thesis
    by (simp add: t' confirm_finalized_fields)
qed

text \<open>
  A small history for the witnesses: two events on block 100 with different block hashes, on
  Ethereum with a confirmation depth of two.
\<close>

definition sample_event :: "string \<Rightarrow> nat \<Rightarrow> string \<Rightarrow> NormalizedEvent" where
  "sample_event k n h =
     \<lparr>ne_event_id = [], ne_event_key = k, ne_event_type = OracleUpdate, ne_tenant_id = None,
      ne_chain = Ethereum, ne_chain_slug = ''ethereum'', ne_protocol = ''aave'',
      ne_protocol_category = Lending, ne_chain_id = Some 1, ne_tx_hash = [], ne_block_number = n,
      ne_block_hash = Some h, ne_parent_hash = None, ne_tx_index = None, ne_log_index = None,
      ne_status = Status_Observed, ne_lifecycle_state = Provisional, ne_requires_confirmation = True,
      ne_confirmation_depth = 2, ne_ingest_latency_ms = None, ne_observed_at = 0,
      ne_oracle_price = None, ne_reference_price = None, ne_metadata = []\<rparr>"

lemmas sample_eval =
  sample_event_def observe_event_def check_reorg_def detect_conflicting_hash_def
  collect_affected_event_keys_def rollback_from_block_def enter_block_def note_event_def
  first_sighting_def confirm_finalized_def confirmation_depth_for_def FinalityBatch_default_def
  apply_reorg_notice_def mk_update_def tracker_new_def Let_def

text \<open>A worker that starts over with a tracker in which an older event is confirmed.\<close>

definition restored :: "Chain \<Rightarrow> ChainFinalityTracker option" where
  "restored c = (if c = Ethereum then Some ((tracker_new Ethereum 3)\<lparr>ct_states := [''old'' \<mapsto> Confirmed]\<rparr>) else None)"

theorem engine_agrees_with_tracker_witness:
  "let w = foldl (worker_step Map.empty restored Ethereum) worker_init [Observe 0 (sample_event ''a'' 100 ''x'')]
   in case fw_trackers w Ethereum of
        None \<Rightarrow> False
      | Some t \<Rightarrow> ct_states t ''old'' = Some Confirmed \<and> engine_get_state (fw_engine w) ''old'' = None
          \<and> ct_states t ''a'' = engine_get_state (fw_engine w) ''a'' \<and> ct_states t ''a'' = Some Provisional"
proof -
  let ?es = "[Observe 0 (sample_event ''a'' 100 ''x'')]"
  let ?w = "foldl (worker_step Map.empty restored Ethereum) worker_init ?es"
  have p: "restored Ethereum = Some p \<Longrightarrow> ct_chain p = Ethereum" for p by (auto simp: restored_def tracker_new_def)
  define w where "w = ?w"
  have facts: "fw_trackers w Ethereum \<noteq> None" "fw_engine w ''old'' = None" "fw_engine w ''a'' = Some Provisional"
    "first_states restored Ethereum ?es ''old'' = Some Confirmed"
    by (simp_all add: w_def on_normalized_event_def worker_tracker_def worker_init_def restored_def apply_update_def sample_eval)
  have "case fw_trackers w Ethereum of None \<Rightarrow> fw_engine w = Map.empty
      | Some t \<Rightarrow> ct_states t k = (case engine_get_state (fw_engine w) k of
          None \<Rightarrow> first_states restored Ethereum ?es k | Some l \<Rightarrow> Some l)" for k
    unfolding w_def by (rule engine_agrees_with_tracker) (rule p)
  from this [of "''old''"] this [of "''a''"] facts show ?thesis
    unfolding w_def [symmetric] by (auto simp: engine_get_state_def split: option.splits)
qed

text \<open>
  Confirmation is live: when the head reaches the confirmation depth above a tracked, provisional
  event without contradicting the block it arrives on, that event is confirmed.
\<close>

lemma deep_events_get_confirmed:
  assumes "tracker_inv t" and "ne_chain ev = ct_chain t"
    and "(n, e) \<in> set (ct_blocks t)" and "k \<in> set (be_event_keys e)" and "ct_states t k = Some Provisional"
    and "detect_conflicting_hash t (ne_block_number ev) (ne_block_hash ev) = None"
    and "n + confirmation_depth_for t ev \<le> ne_block_number ev"
  shows "ct_states (fst (observe_event now ev t)) k = Some Confirmed"
proof -
  have t1: "fst (check_reorg now ev t) = t" using assms(6) by (simp add: check_reorg_def Let_def)
  let ?t3 = "fst (first_sighting now ev (enter_block ev t))"
  obtain e' where e': "(n, e') \<in> set (ct_blocks ?t3)" "k \<in> set (be_event_keys e')"
    using block_entry_keeps [OF assms(3)] assms(4) by (fastforce simp: enter_block_def)
  have "sorted_wrt (<) (map fst (ct_blocks ?t3))"
    using tracker_inv_first_sighting_enter [OF assms(1), of now ev] by (simp add: tracker_inv_def)
  moreover have "n \<le> ct_head_block ?t3 - confirmation_depth_for ?t3 ev"
    using assms(7) depth_for_stages [of now ev t] by (simp add: t1 enter_block_def)
  ultimately have "tracked (takeWhile (\<lambda>(n, _). n \<le> ct_head_block ?t3 - confirmation_depth_for ?t3 ev) (ct_blocks ?t3)) k"
    using takeWhile_sorted_blocks e' unfolding tracked_def by blast
  moreover have "ct_states ?t3 k = Some Provisional"
    using assms(5) by (auto simp: first_sighting_def)
  ultimately show ?thesis
    by (simp add: observe_event_fst [OF assms(2)] t1 confirm_finalized_states)
qed

text \<open>
  (C16) Lifecycle states only move forward: over every history of a tracker an event goes from unknown
  to provisional to confirmed, retraction is possible at any point, and it is final.
\<close>

theorem lifecycle_moves_forward:
  "lifecycle_le (ct_states t k) (ct_states (foldl tracker_step t es) k)
   \<and> (ct_states t k = Some Retracted \<longrightarrow> ct_states (foldl tracker_step t es) k = Some Retracted)"
proof -
  have step: "lifecycle_le (ct_states t k) (ct_states (tracker_step t e) k)" for t e
    by (cases e) (simp_all add: lifecycle_observe_event lifecycle_apply_reorg_notice)
  have "lifecycle_le (ct_states t k) (ct_states (foldl tracker_step t es) k)"
  proof (induction es arbitrary: t)
    case (Cons e es)
    show ?case using rtranclp_trans [OF step Cons.IH] by simp
  qed simp
  then show ?thesis using lifecycle_from_retracted by auto
qed

theorem lifecycle_moves_forward_witness:
  "let t = foldl tracker_step (tracker_new Ethereum 3)
             [Observe 0 (sample_event ''a'' 100 ''x''), Observe 1 (sample_event ''b'' 100 ''y'')]
   in ct_states t ''a'' = Some Retracted
      \<and> ct_states (foldl tracker_step t [Observe 2 (sample_event ''a'' 100 ''y'')]) ''a'' = Some Retracted"
proof -
  let ?t = "foldl tracker_step (tracker_new Ethereum 3)
             [Observe 0 (sample_event ''a'' 100 ''x''), Observe 1 (sample_event ''b'' 100 ''y'')]"
  have "ct_states ?t ''a'' = Some Retracted" by (simp add: sample_eval)
  with lifecycle_moves_forward [of ?t "''a''" "[Observe 2 (sample_event ''a'' 100 ''y'')]"]
  show ?thesis unfolding Let_def by blast
qed

lemma check_reorg_notice:
  assumes "fb_reorg_notice (snd (check_reorg now ev t)) = Some n"
  shows "rn_chain n = ct_chain t" "rn_orphaned_from_block n = ne_block_number ev"
    "rn_affected_event_keys n = collect_affected_event_keys t (ne_block_number ev)"
    "ct_blocks (fst (check_reorg now ev t)) = filter (\<lambda>(m, _). m < ne_block_number ev) (ct_blocks t)"
    "0 < ne_block_number ev \<Longrightarrow> ct_head_block (fst (check_reorg now ev t)) < ne_block_number ev"
proof -
  let ?kept = "filter (\<lambda>(m, _). m < ne_block_number ev) (ct_blocks t)"
  have "?kept \<noteq> [] \<Longrightarrow> fst (last ?kept) < ne_block_number ev"
    using last_in_set [of ?kept] by auto
  then show "0 < ne_block_number ev \<Longrightarrow> ct_head_block (fst (check_reorg now ev t)) < ne_block_number ev"
    using assms by (auto simp: check_reorg_def rollback_from_block_def Let_def FinalityBatch_default_def
        split: option.splits prod.splits if_splits)
qed (use assms in \<open>auto simp: check_reorg_def rollback_from_block_def Let_def FinalityBatch_default_def
        split: option.splits prod.splits if_splits\<close>)

lemma observe_event_notice:
  assumes "observe_event now ev t = (t1, b)" "fb_reorg_notice b = Some n"
  shows "ne_chain ev = ct_chain t" "fb_reorg_notice (snd (check_reorg now ev t)) = Some n"
  using assms
  by (auto simp: observe_event_def Let_def case_prod_beta FinalityBatch_default_def split: if_splits)

lemma unknown_untracked:
  assumes "tracker_inv t" "ct_states t k = None"
  shows "\<not> tracked (ct_blocks t) k" "k \<notin> set (collect_affected_event_keys t n)"
  using assms by (fastforce simp: tracker_inv_def tracked_def collect_affected_event_keys_def)+

lemma tracked_block_entry_below:
  "\<not> tracked bs k \<Longrightarrow> tracked (filter (\<lambda>(m, _). m < n) (block_entry n d f bs)) k \<Longrightarrow> False"
  by (auto simp: tracked_def dest!: block_entry_in)

lemma tracked_takeWhile_below:
  assumes "h < n" "tracked (takeWhile (\<lambda>(m, _). m \<le> h) bs) k"
  shows "tracked (filter (\<lambda>(m, _). m < n) bs) k"
  using assms by (fastforce simp: tracked_def dest!: set_takeWhileD)

text \<open>
  The worker consumes the reorg notices it publishes itself. Applying a notice to the tracker
  that raised it rolls back the block that has just been entered for the new fork, so the event
  that revealed the reorg stays provisional and is never confirmed unless it is observed again.
\<close>

lemma own_reorg_notice_orphans_new_fork:
  assumes "tracker_inv t" and "observe_event now ev t = (t1, b)" and "fb_reorg_notice b = Some n"
    and "ct_states t (ne_event_key ev) = None"
    and "0 < ne_block_number ev" and "0 < confirmation_depth_for t ev"
    and "\<forall>now' ev'. Observe now' ev' \<in> set es \<longrightarrow> ne_event_key ev' \<noteq> ne_event_key ev"
  shows "ct_states (fst (apply_reorg_notice now1 n t1)) (ne_event_key ev) = Some Provisional
       \<and> ct_states (foldl tracker_step t1 (Notice now1 n # es)) (ne_event_key ev) \<noteq> Some Confirmed"
proof -
  let ?k = "ne_event_key ev" and ?n = "ne_block_number ev"
  note chain = observe_event_notice(1) [OF assms(2,3)]
  note notice = check_reorg_notice [OF observe_event_notice(2) [OF assms(2,3)]]
  note unknown = unknown_untracked [OF assms(1,4)]
  define t0 where "t0 = fst (check_reorg now ev t)"
  define t3 where "t3 = fst (first_sighting now ev (enter_block ev t0))"
  have t1: "t1 = fst (confirm_finalized now ev t3)"
    using observe_event_fst [OF chain, of now] assms(2) by (simp add: t0_def t3_def)
  have "\<not> tracked (ct_blocks t0) ?k"
    using unknown(1) by (auto simp: t0_def notice(4) tracked_def)
  then have below: "\<not> tracked (filter (\<lambda>(m, _). m < ?n) (ct_blocks t3)) ?k"
    using tracked_block_entry_below by (auto simp: t3_def enter_block_def)
  have "ct_head_block t3 = ?n"
    using notice(5) [OF assms(5)] by (simp add: t3_def t0_def enter_block_def)
  then have "ct_head_block t3 - confirmation_depth_for t3 ev < ?n"
    using assms(5,6) depth_for_stages [of now ev t] by (simp add: t3_def t0_def)
  then have "\<not> tracked (takeWhile (\<lambda>(m, _). m \<le> ct_head_block t3 - confirmation_depth_for t3 ev) (ct_blocks t3)) ?k"
    using below tracked_takeWhile_below by blast
  moreover have "ct_states t0 ?k = None"
    using assms(4) unknown(2) by (simp add: t0_def check_reorg_states retract_all_apply)
  ultimately have prov: "ct_states t1 ?k = Some Provisional"
    by (simp add: t1 confirm_finalized_states t3_def first_sighting_def)
  have c1: "rn_chain n = ct_chain t1"
    by (simp add: t1 confirm_finalized_fields t3_def t0_def notice(1))
  let ?t2 = "fst (apply_reorg_notice now1 n t1)"
  have st2: "ct_states ?t2 ?k = Some Provisional"
    using prov unknown(2) by (simp add: apply_reorg_notice_states [OF c1] notice(3))
  moreover have "\<not> tracked (ct_blocks ?t2) ?k"
    using below unfolding apply_reorg_notice_blocks [OF c1] notice(2)
    by (simp add: t1 confirm_finalized_fields)
  ultimately show ?thesis
    using untracked_never_confirmed [OF _ _ assms(7), of ?t2] by simp
qed

end
