(* ===== verification/AlertStore.thy ===== *)
theory AlertStore
  imports EventSchema
begin

text \<open>
  The tables of \<^verbatim>\<open>crates/state-manager/src/persistence.rs\<close> that the orchestrator reads and writes, and
  the two alert streams of \<^verbatim>\<open>crates/state-manager/src/lib.rs\<close>. A table is a list of rows in the order of
  their insertion, an SQL statement a function on it, with its \<^verbatim>\<open>WHERE\<close>, \<^verbatim>\<open>ORDER BY\<close> and
  \<^verbatim>\<open>ON CONFLICT\<close> clauses written out. A \<^verbatim>\<open>jsonb\<close> payload column of an alert holds the alert
  itself. Every statement may fail: which ones do while one message is processed is part of the
  message's surroundings, together with its clock readings and random identifiers.
\<close>

section \<open>Rows\<close>

record IncidentRecord =
  ir_incident_id :: string
  ir_tenant_id :: string
  ir_pattern_id :: string
  ir_subject_type :: "string option"
  ir_subject_key :: "string option"
  ir_chain_slug :: string
  ir_status :: string
  ir_current_severity :: string

record IncidentKey =
  ik_tenant_id :: string
  ik_pattern_id :: string
  ik_subject_type :: "string option"
  ik_subject_key :: "string option"
  ik_chain_slug :: string

text \<open>A row of \<^verbatim>\<open>incidents\<close>: the record and its three times.\<close>

record incident_row =
  in_record :: IncidentRecord
  in_opened_at :: datetime
  in_updated_at :: datetime
  in_closed_at :: "datetime option"

record incident_event =
  ie_incident_id :: string
  ie_transition_type :: string
  ie_from_state :: "string option"
  ie_to_state :: "string option"
  ie_reason :: "string option"
  ie_payload :: json
  ie_created_at :: datetime

record context_snapshot =
  ix_incident_id :: string
  ix_classification :: "string option"
  ix_score :: "f64 option"
  ix_confidence :: "f64 option"
  ix_payload :: json
  ix_observed_at :: datetime

record MonitoredEntityRow =
  me_entity_id :: string
  me_entity_type :: string
  me_display_name :: "string option"
  me_chain_slug :: "string option"
  me_asset_symbol :: "string option"
  me_quantity :: f64
  me_valuation_usd :: f64
  me_metadata_json :: "json option"

record EntityExposureRecord =
  ex_entity_id :: string
  ex_capital_at_risk_usd :: f64
  ex_liquidity_status :: string
  ex_estimated_slippage_pct :: f64
  ex_loss_scenario_5pct_usd :: f64
  ex_loss_scenario_10pct_usd :: f64
  ex_estimated_savings_usd :: f64
  ex_payload :: json

text \<open>
  A row of \<^verbatim>\<open>alerts\<close>: the transaction, the chain and the protocol are the ones of the insertion, the
  other columns those of the last update.
\<close>

record alert_row =
  ar_id :: string
  ar_tx_hash :: string
  ar_chain :: string
  ar_chain_slug :: string
  ar_protocol :: string
  ar_tenant_id :: string
  ar_payload :: AlertEvent

record usage_event =
  us_tenant_id :: string
  us_event_type :: string
  us_alert_type :: string
  us_chain_id :: "int option"
  us_quantity :: int
  us_recorded_at :: datetime

record delivery_attempt =
  da_alert_id :: string
  da_tenant_id :: string
  da_channel :: string
  da_delivered :: bool
  da_reason :: "string option"
  da_status_code :: "int option"

record AlertEvidenceOperationalRow =
  op_ingest_event_id :: string
  op_source_id :: string
  op_source_type :: string
  op_event_type :: string
  op_market_key :: "string option"
  op_price :: "f64 option"
  op_observed_at :: datetime
  op_event_ts :: "datetime option"
  op_tx_hash :: "string option"
  op_block_number :: "int option"
  op_payload :: json
  op_normalized_fields :: json

record AlertEvidenceSimulationRow =
  sr_run_event_id :: string
  sr_source_id :: string
  sr_source_table :: string
  sr_event_type :: string
  sr_observed_at :: datetime
  sr_original_payload :: json
  sr_published_payload :: json

record AlertEvidenceSnapshotRecord =
  ev_alert_id :: string
  ev_incident_id :: "string option"
  ev_tenant_id :: string
  ev_pattern_id :: "string option"
  ev_source_id :: string
  ev_source_type :: string
  ev_event_type :: string
  ev_market_key :: "string option"
  ev_price :: "f64 option"
  ev_observed_at :: datetime
  ev_event_ts :: "datetime option"
  ev_tx_hash :: "string option"
  ev_block_number :: "int option"
  ev_payload :: json
  ev_normalized_fields :: json
  ev_raw_ref_type :: "string option"
  ev_raw_ref_id :: "string option"

text \<open>A request to the notifier gateway, whose body carries these fields as JSON.\<close>

record gateway_request =
  gr_tenant_id :: string
  gr_dedup_key :: "string option"
  gr_severity :: string
  gr_requested_channels :: "string list"
  gr_payload :: AlertEvent

text \<open>
  The store. Tables other processes write (tenants, delivery controls, monitored entities, ingested
  and simulated events) are keyed by the columns the statements select on. The requests sent to the notifier gateway are logged
  beside the streams.
\<close>

record store =
  sd_alerts :: "alert_row list"
  sd_lifecycle :: "AlertEvent list"
  sd_incidents :: "incident_row list"
  sd_incident_events :: "incident_event list"
  sd_context_snapshots :: "context_snapshot list"
  sd_exposures :: "((string \<times> string) \<times> string \<times> EntityExposureRecord) list"
  sd_usage :: "usage_event list"
  sd_deliveries :: "delivery_attempt list"
  sd_evidence :: "AlertEvidenceSnapshotRecord list"
  sd_tenants :: "(string \<times> int option) list"
  sd_delivery_controls :: "(string \<times> int) list"
  sd_monitored :: "(string \<times> bool \<times> MonitoredEntityRow) list"
  sd_operational :: "(string \<times> bool \<times> string option \<times> AlertEvidenceOperationalRow) list"
  sd_simulation :: "(string \<times> AlertEvidenceSimulationRow) list"
  sd_alert_stream :: "AlertEvent list"
  sd_lifecycle_stream :: "AlertEvent list"
  sd_gateway_requests :: "gateway_request list"

datatype store_op =
    FindActiveIncident | CreateIncident | FindEntities | ExposureTable | SaveExposure string
  | UpdateIncident | AppendIncidentEvent | AppendContext
  | FindFinalityAlert | FindDuplicate | TenantTable | LoadQuota | CountMonth | LoadHourlyLimit | CountHour
  | SaveAlert | SaveLifecycle | LoadOperational | LoadSimulation | ClearEvidence | InsertEvidence nat
  | SaveDelivery string | RecordUsage | PublishAlert | PublishLifecycle

text \<open>
  What surrounds one message: the failing operations, the identifiers drawn, the clock readings in
  the order the code takes them, the database's clock, and the answer of the notifier gateway to
  a request: its HTTP status and its body, \<open>None\<close> where there is none or it is not JSON, or an
  error where the request does not get through.
\<close>

record surroundings =
  sur_fails :: "store_op \<Rightarrow> bool"
  sur_alert_uuid :: string
  sur_incident_uuid :: string
  sur_now_alert :: datetime
  sur_now_incident :: datetime
  sur_now_duplicate :: datetime
  sur_now_suppressed :: datetime
  sur_now_prune :: datetime
  sur_db_now :: datetime
  sur_gateway :: "gateway_request \<Rightarrow> (nat \<times> json option) res"

section \<open>Alerts\<close>

definition require_tenant_id :: "string option \<Rightarrow> string \<Rightarrow> string res" where
  "require_tenant_id raw context =
     (case Option.bind (map_option trim raw) non_empty of
        None \<Rightarrow> Inl (Err (''missing tenant_id for '' @ context))
      | Some t \<Rightarrow> Inr t)"

definition upsert_alert_row :: "AlertEvent \<Rightarrow> string \<Rightarrow> alert_row list \<Rightarrow> alert_row list" where
  "upsert_alert_row a tenant rows =
     (if \<exists>r \<in> set rows. ar_id r = al_alert_id a
      then map (\<lambda>r. if ar_id r = al_alert_id a then r\<lparr>ar_tenant_id := tenant, ar_payload := a\<rparr> else r) rows
      else rows @ [\<lparr>ar_id = al_alert_id a, ar_tx_hash = al_tx_hash a,
             ar_chain = to_ascii_lowercase (chain_debug (al_chain a)), ar_chain_slug = al_chain_slug a,
             ar_protocol = al_protocol a, ar_tenant_id = tenant, ar_payload = a\<rparr>])"

definition save_alert :: "surroundings \<Rightarrow> AlertEvent \<Rightarrow> store \<Rightarrow> store \<times> unit res" where
  "save_alert en a s =
     (case require_tenant_id (al_tenant_id a) (''alert '' @ al_alert_id a) of
        Inl e \<Rightarrow> (s, Inl e)
      | Inr tenant \<Rightarrow>
          if sur_fails en SaveAlert then (s, Inl (Err ''save_alert''))
          else (s\<lparr>sd_alerts := upsert_alert_row a tenant (sd_alerts s)\<rparr>, Inr ()))"

definition save_alert_lifecycle :: "surroundings \<Rightarrow> AlertEvent \<Rightarrow> store \<Rightarrow> store" where
  "save_alert_lifecycle en a s =
     (if sur_fails en SaveLifecycle then s else s\<lparr>sd_lifecycle := sd_lifecycle s @ [a]\<rparr>)"

text \<open>
  A life-cycle row holds the alert as \<^verbatim>\<open>jsonb\<close>. The model assumes that the derived serde code reads back
  what it has written, so that the row is the alert itself.
\<close>

definition latest_alert :: "string \<Rightarrow> AlertEvent list \<Rightarrow> AlertEvent option" where
  "latest_alert event_key as = List.find (\<lambda>a. al_event_key a = Some event_key) (rev as)"

definition find_latest_alert_by_event_key ::
  "surroundings \<Rightarrow> store_op \<Rightarrow> string \<Rightarrow> store \<Rightarrow> AlertEvent option res" where
  "find_latest_alert_by_event_key en call event_key s =
     (if sur_fails en call then Inl (Err ''find_latest_alert_by_event_key'')
      else Inr (latest_alert event_key (sd_lifecycle s)))"

definition save_alert_delivery_attempt ::
  "surroundings \<Rightarrow> string \<Rightarrow> string \<Rightarrow> string \<Rightarrow> bool \<Rightarrow> string option \<Rightarrow> nat option \<Rightarrow> store \<Rightarrow> store" where
  "save_alert_delivery_attempt en alert_id tenant_id channel delivered reason status_code s =
     (if sur_fails en (SaveDelivery channel) then s
      else s\<lparr>sd_deliveries := sd_deliveries s @
             [\<lparr>da_alert_id = alert_id, da_tenant_id = tenant_id, da_channel = channel, da_delivered = delivered,
               da_reason = reason, da_status_code = map_option int status_code\<rparr>]\<rparr>)"

definition publish_alert :: "surroundings \<Rightarrow> AlertEvent \<Rightarrow> store \<Rightarrow> store" where
  "publish_alert en a s =
     (if sur_fails en PublishAlert then s else s\<lparr>sd_alert_stream := sd_alert_stream s @ [a]\<rparr>)"

definition publish_alert_lifecycle :: "surroundings \<Rightarrow> AlertEvent \<Rightarrow> store \<Rightarrow> store" where
  "publish_alert_lifecycle en a s =
     (if sur_fails en PublishLifecycle then s else s\<lparr>sd_lifecycle_stream := sd_lifecycle_stream s @ [a]\<rparr>)"

section \<open>Incidents\<close>

definition coalesce :: "string option \<Rightarrow> string" where
  "coalesce x = (case x of None \<Rightarrow> '''' | Some v \<Rightarrow> v)"

definition closed_statuses :: "string list" where
  "closed_statuses = [''resolved'', ''retracted'', ''closed'', ''cancelled'']"

definition active_incident :: "IncidentKey \<Rightarrow> incident_row \<Rightarrow> bool" where
  "active_incident k r =
     (ir_tenant_id (in_record r) = ik_tenant_id k \<and> ir_pattern_id (in_record r) = ik_pattern_id k
      \<and> coalesce (ir_subject_type (in_record r)) = coalesce (ik_subject_type k)
      \<and> coalesce (ir_subject_key (in_record r)) = coalesce (ik_subject_key k)
      \<and> ir_chain_slug (in_record r) = ik_chain_slug k
      \<and> ir_status (in_record r) \<notin> set closed_statuses)"

text \<open>
  \<^verbatim>\<open>ORDER BY updated_at DESC LIMIT 1\<close>. SQL leaves the choice among rows updated at the same instant
  open; here it is the earliest inserted.
\<close>

definition latest_updated :: "incident_row list \<Rightarrow> IncidentRecord option" where
  "latest_updated rows =
     (case sort_by (\<lambda>a b. in_updated_at b \<le> in_updated_at a) rows of
        [] \<Rightarrow> None
      | r # _ \<Rightarrow> Some (in_record r))"

definition find_active_incident :: "surroundings \<Rightarrow> IncidentKey \<Rightarrow> store \<Rightarrow> IncidentRecord option res" where
  "find_active_incident en k s =
     (if sur_fails en FindActiveIncident then Inl (Err ''find_active_incident'')
      else Inr (latest_updated (filter (active_incident k) (sd_incidents s))))"

definition find_active_incident_for_simulation ::
  "surroundings \<Rightarrow> IncidentKey \<Rightarrow> string \<Rightarrow> store \<Rightarrow> IncidentRecord option res" where
  "find_active_incident_for_simulation en k run_id s =
     (if sur_fails en FindActiveIncident then Inl (Err ''find_active_incident_for_simulation'')
      else Inr (latest_updated (filter (\<lambda>r. active_incident k r
             \<and> (\<exists>a \<in> set (sd_alerts s).
                   al_incident_id (ar_payload a) = Some (ir_incident_id (in_record r))
                   \<and> al_is_simulated (ar_payload a) \<and> al_simulation_run_id (ar_payload a) = Some run_id))
           (sd_incidents s))))"

definition create_incident :: "surroundings \<Rightarrow> IncidentRecord \<Rightarrow> datetime \<Rightarrow> store \<Rightarrow> store" where
  "create_incident en r opened_at s =
     (if sur_fails en CreateIncident
         \<or> (\<exists>i \<in> set (sd_incidents s). ir_incident_id (in_record i) = ir_incident_id r) then s
      else s\<lparr>sd_incidents := sd_incidents s @
             [\<lparr>in_record = r, in_opened_at = opened_at, in_updated_at = opened_at, in_closed_at = None\<rparr>]\<rparr>)"

definition update_incident_state ::
  "surroundings \<Rightarrow> string \<Rightarrow> string \<Rightarrow> string \<Rightarrow> datetime \<Rightarrow> bool \<Rightarrow> store \<Rightarrow> store" where
  "update_incident_state en incident_id status severity updated_at closing s =
     (if sur_fails en UpdateIncident then s
      else s\<lparr>sd_incidents := map (\<lambda>r.
             if ir_incident_id (in_record r) = incident_id
             then r\<lparr>in_record := (in_record r)\<lparr>ir_status := status, ir_current_severity := severity\<rparr>,
                    in_updated_at := updated_at,
                    in_closed_at := (if closing then Some updated_at else in_closed_at r)\<rparr>
             else r) (sd_incidents s)\<rparr>)"

definition append_incident_event :: "surroundings \<Rightarrow> incident_event \<Rightarrow> store \<Rightarrow> store" where
  "append_incident_event en e s =
     (if sur_fails en AppendIncidentEvent then s
      else s\<lparr>sd_incident_events := sd_incident_events s @ [e]\<rparr>)"

definition append_incident_context_snapshot :: "surroundings \<Rightarrow> context_snapshot \<Rightarrow> store \<Rightarrow> store" where
  "append_incident_context_snapshot en x s =
     (if sur_fails en AppendContext then s
      else s\<lparr>sd_context_snapshots := sd_context_snapshots s @ [x]\<rparr>)"

section \<open>Exposures\<close>

definition find_monitored_entities_for_alert ::
  "surroundings \<Rightarrow> string \<Rightarrow> string \<Rightarrow> store \<Rightarrow> MonitoredEntityRow list res" where
  "find_monitored_entities_for_alert en tenant symbol s =
     (if sur_fails en FindEntities then Inl (Err ''find_monitored_entities_for_alert'')
      else Inr (map (\<lambda>(_, _, r). r)
        (filter (\<lambda>(t, enabled, r). t = tenant \<and> me_asset_symbol r = Some symbol \<and> enabled) (sd_monitored s))))"

text \<open>
  One upsert per exposure. Where the table does not exist the first statement ends the call; any
  other failure is logged and the next exposure is saved.
\<close>

fun save_incident_entity_exposures ::
  "surroundings \<Rightarrow> string \<Rightarrow> string \<Rightarrow> EntityExposureRecord list \<Rightarrow> store \<Rightarrow> store" where
  "save_incident_entity_exposures en incident_id tenant [] s = s"
| "save_incident_entity_exposures en incident_id tenant (x # xs) s =
     (if sur_fails en ExposureTable then s
      else save_incident_entity_exposures en incident_id tenant xs
        (if sur_fails en (SaveExposure (ex_entity_id x)) then s
         else s\<lparr>sd_exposures := AList.update (incident_id, ex_entity_id x)
                (case map_of (sd_exposures s) (incident_id, ex_entity_id x) of
                   None \<Rightarrow> (tenant, x) | Some (t, _) \<Rightarrow> (t, x)) (sd_exposures s)\<rparr>))"

section \<open>Usage and limits\<close>

definition record_usage ::
  "surroundings \<Rightarrow> string \<Rightarrow> string \<Rightarrow> string \<Rightarrow> int option \<Rightarrow> int \<Rightarrow> store \<Rightarrow> store" where
  "record_usage en tenant event_type alert_type chain_id quantity s =
     (if sur_fails en RecordUsage then s
      else s\<lparr>sd_usage := sd_usage s @
             [\<lparr>us_tenant_id = tenant, us_event_type = event_type, us_alert_type = alert_type,
               us_chain_id = chain_id, us_quantity = max quantity 1, us_recorded_at = sur_db_now en\<rparr>]\<rparr>)"

definition usage_since :: "string \<Rightarrow> string \<Rightarrow> datetime \<Rightarrow> usage_event list \<Rightarrow> int" where
  "usage_since tenant event_type start us =
     sum_list (map us_quantity
       (filter (\<lambda>u. us_tenant_id u = tenant \<and> us_event_type u = event_type \<and> start \<le> us_recorded_at u) us))"

text \<open>\<open>month_start\<close> is \<^verbatim>\<open>date_trunc('month', _)\<close>, in the time zone of the database session.\<close>

definition count_usage_event_quantity_for_current_month ::
  "(datetime \<Rightarrow> datetime) \<Rightarrow> surroundings \<Rightarrow> string \<Rightarrow> string \<Rightarrow> store \<Rightarrow> int res" where
  "count_usage_event_quantity_for_current_month month_start en tenant event_type s =
     (if sur_fails en CountMonth then Inl (Err ''count_usage_event_quantity_for_current_month'')
      else Inr (usage_since tenant event_type (month_start (sur_db_now en)) (sd_usage s)))"

definition count_usage_event_quantity_for_past_hour ::
  "surroundings \<Rightarrow> string \<Rightarrow> string \<Rightarrow> store \<Rightarrow> int res" where
  "count_usage_event_quantity_for_past_hour en tenant event_type s =
     (if sur_fails en CountHour then Inl (Err ''count_usage_event_quantity_for_past_hour'')
      else Inr (usage_since tenant event_type (sur_db_now en - 60 * nanos_per_min) (sd_usage s)))"

text \<open>The hourly limit is absent where its query fails, whatever the reason.\<close>

definition load_tenant_hourly_alert_limit :: "surroundings \<Rightarrow> string \<Rightarrow> store \<Rightarrow> int option" where
  "load_tenant_hourly_alert_limit en tenant s =
     (if sur_fails en LoadHourlyLimit then None else map_of (sd_delivery_controls s) tenant)"

text \<open>The quota is absent where the table of tenants is; other failures are errors.\<close>

definition load_tenant_monthly_alert_quota :: "surroundings \<Rightarrow> string \<Rightarrow> store \<Rightarrow> int option res" where
  "load_tenant_monthly_alert_quota en tenant s =
     (if sur_fails en TenantTable then Inr None
      else if sur_fails en LoadQuota then Inl (Err ''load_tenant_monthly_alert_quota'')
      else Inr (Option.bind (map_of (sd_tenants s) tenant) id))"

section \<open>Evidence\<close>

record evidence_query =
  eq_tenant_id :: string
  eq_market_key :: "string option"
  eq_source_ids :: "string list"
  eq_window_start :: datetime
  eq_window_end :: datetime
  eq_is_simulated :: bool
  eq_simulation_run_id :: "string option"

definition operational_le :: "AlertEvidenceOperationalRow \<Rightarrow> AlertEvidenceOperationalRow \<Rightarrow> bool" where
  "operational_le a b \<longleftrightarrow>
     op_observed_at a < op_observed_at b
     \<or> op_observed_at a = op_observed_at b \<and> op_ingest_event_id a \<le> op_ingest_event_id b"

definition load_operational_events_for_alert_evidence ::
  "surroundings \<Rightarrow> evidence_query \<Rightarrow> store \<Rightarrow> AlertEvidenceOperationalRow list res" where
  "load_operational_events_for_alert_evidence en q s =
     (if eq_source_ids q = [] then Inr []
      else if sur_fails en LoadOperational then Inl (Err ''load_operational_events_for_alert_evidence'')
      else Inr (sort_by operational_le (map (\<lambda>(_, _, _, r). r)
        (filter (\<lambda>(tenant, simulated, run_id, r).
             tenant = eq_tenant_id q \<and> eq_window_start q \<le> op_observed_at r \<and> op_observed_at r \<le> eq_window_end q
             \<and> op_source_id r \<in> set (eq_source_ids q)
             \<and> (eq_market_key q = None \<or> op_market_key r = eq_market_key q)
             \<and> simulated = eq_is_simulated q \<and> run_id = eq_simulation_run_id q)
           (sd_operational s)))))"

definition simulation_le :: "AlertEvidenceSimulationRow \<Rightarrow> AlertEvidenceSimulationRow \<Rightarrow> bool" where
  "simulation_le a b \<longleftrightarrow> sr_observed_at a \<le> sr_observed_at b"

definition load_simulation_events_for_alert_evidence ::
  "surroundings \<Rightarrow> string \<Rightarrow> string list \<Rightarrow> datetime \<Rightarrow> datetime \<Rightarrow> store \<Rightarrow> AlertEvidenceSimulationRow list res" where
  "load_simulation_events_for_alert_evidence en run_id source_ids window_start window_end s =
     (if source_ids = [] then Inr []
      else if sur_fails en LoadSimulation then Inl (Err ''load_simulation_events_for_alert_evidence'')
      else Inr (sort_by simulation_le (map snd (filter (\<lambda>(run, r). run = run_id
             \<and> window_start \<le> sr_observed_at r \<and> sr_observed_at r \<le> window_end
             \<and> sr_source_id r \<in> set source_ids) (sd_simulation s)))))"

text \<open>The records are inserted one by one; the first failure ends the call and keeps those before it.\<close>

fun insert_evidence ::
  "surroundings \<Rightarrow> nat \<Rightarrow> AlertEvidenceSnapshotRecord list \<Rightarrow> store \<Rightarrow> store \<times> unit res" where
  "insert_evidence en n [] s = (s, Inr ())"
| "insert_evidence en n (r # rs) s =
     (if sur_fails en (InsertEvidence n) then (s, Inl (Err ''save_alert_evidence_snapshot_batch''))
      else insert_evidence en (Suc n) rs (s\<lparr>sd_evidence := sd_evidence s @ [r]\<rparr>))"

definition save_alert_evidence_snapshot_batch ::
  "surroundings \<Rightarrow> AlertEvidenceSnapshotRecord list \<Rightarrow> store \<Rightarrow> store \<times> unit res" where
  "save_alert_evidence_snapshot_batch en records s =
     (case records of
        [] \<Rightarrow> (s, Inr ())
      | r # _ \<Rightarrow>
          if sur_fails en ClearEvidence then (s, Inl (Err ''save_alert_evidence_snapshot_batch''))
          else insert_evidence en 0 records
            (s\<lparr>sd_evidence := filter (\<lambda>e. \<not> (ev_tenant_id e = ev_tenant_id r \<and> ev_alert_id e = ev_alert_id r))
                 (sd_evidence s)\<rparr>))"

section \<open>What the statements keep\<close>

text \<open>
  The alert row of an identifier is unique, and a saved alert is the one found under it; the latest
  alert of an event key is the last one saved with it.
\<close>

lemma latest_alert_snoc:
  "latest_alert k (as @ [a]) = (if al_event_key a = Some k then Some a else latest_alert k as)"
  by (simp add: latest_alert_def)

lemma latest_alert_Some:
  assumes "latest_alert k as = Some a"
  shows "a \<in> set as" "al_event_key a = Some k"
  using assms by (auto simp: latest_alert_def find_Some_iff) (metis nth_mem set_rev length_rev)

lemma distinct_upsert_alert_row:
  assumes "distinct (map ar_id rows)"
  shows "distinct (map ar_id (upsert_alert_row a tenant rows))"
proof -
  have "map (ar_id \<circ> (\<lambda>r. if ar_id r = al_alert_id a then r\<lparr>ar_tenant_id := tenant, ar_payload := a\<rparr> else r)) rows
      = map ar_id rows"
    by (rule map_cong) simp_all
  then show ?thesis using assms by (simp only: upsert_alert_row_def map_map split: if_splits) auto
qed

lemma usage_since_append:
  "usage_since t k b (us @ [u]) = usage_since t k b us
     + (if us_tenant_id u = t \<and> us_event_type u = k \<and> b \<le> us_recorded_at u then us_quantity u else 0)"
  by (simp add: usage_since_def)

end
