(* ===== verification/Notifier.thy ===== *)
theory Notifier
  imports AlertStore
begin

text \<open>
  The client of the notifier gateway, \<^verbatim>\<open>crates/notifier/src/lib.rs\<close>: the request made of an alert and
  the reading of the answer. The gateway itself is another service; its answers are part of a
  message's surroundings. A body that is missing or not JSON is read as the empty object. The
  sinks that post to Slack, Telegram, Discord and plain webhooks only render text for those
  services and are left out.
\<close>

record GatewayChannelResult =
  gc_channel :: string
  gc_delivered :: bool
  gc_reason :: "string option"
  gc_status_code :: "nat option"

record GatewayDispatchResult =
  gd_tenant_id :: string
  gd_delivered :: bool
  gd_reason :: "string option"
  gd_resolved_channels :: "string list"
  gd_results :: "GatewayChannelResult list"

definition known_channels :: "string list" where
  "known_channels = [''webhook'', ''slack'', ''telegram'', ''discord'', ''email'']"

definition parse_channel_result :: "json \<Rightarrow> GatewayChannelResult" where
  "parse_channel_result entry =
     \<lparr>gc_channel = unwrap_or (get_str entry ''channel'') ''unknown'',
      gc_delivered = unwrap_or (get_bool entry ''delivered'') False,
      gc_reason = get_str entry ''reason'',
      gc_status_code = map_option (\<lambda>v. v mod 2 ^ 16) (Option.bind (j_get entry ''status_code'') as_u64)\<rparr>"

definition parse_gateway_dispatch_result :: "json \<Rightarrow> string \<Rightarrow> GatewayDispatchResult" where
  "parse_gateway_dispatch_result v tenant_id_fallback =
     \<lparr>gd_tenant_id = unwrap_or (get_str v ''tenant_id'') tenant_id_fallback,
      gd_delivered = unwrap_or (get_bool v ''delivered'') False,
      gd_reason = get_str v ''reason'',
      gd_resolved_channels = List.map_filter as_str
        (unwrap_or (Option.bind (j_get v ''resolved_channels'') as_array) []),
      gd_results = map parse_channel_result (unwrap_or (Option.bind (j_get v ''results'') as_array) [])\<rparr>"

definition gateway_request_of :: "string \<Rightarrow> AlertEvent \<Rightarrow> gateway_request" where
  "gateway_request_of tenant a =
     \<lparr>gr_tenant_id = tenant, gr_dedup_key = al_dedup_key a, gr_severity = severity_name (al_severity a),
      gr_requested_channels = filter (\<lambda>c. c \<in> set known_channels) (al_channel_routes a), gr_payload = a\<rparr>"

text \<open>
  \<^verbatim>\<open>NotifierGatewayClient::dispatch_alert\<close>. The status of the answer is only logged: an answer
  with an error status is read like any other.
\<close>

definition gateway_dispatch_alert ::
  "surroundings \<Rightarrow> AlertEvent \<Rightarrow> store \<Rightarrow> store \<times> GatewayDispatchResult res" where
  "gateway_dispatch_alert en a s =
     (case al_tenant_id a of
        None \<Rightarrow> (s, Inl (Err (''missing tenant_id for alert '' @ al_alert_id a)))
      | Some tenant \<Rightarrow>
          (let request = gateway_request_of tenant a;
               s1 = s\<lparr>sd_gateway_requests := sd_gateway_requests s @ [request]\<rparr>
           in case sur_gateway en request of
                Inl e \<Rightarrow> (s1, Inl e)
              | Inr (status, body) \<Rightarrow>
                  (s1, Inr (parse_gateway_dispatch_result (unwrap_or body (JObject [])) tenant))))"

definition gateway_sink_send :: "surroundings \<Rightarrow> AlertEvent \<Rightarrow> store \<Rightarrow> store \<times> unit res" where
  "gateway_sink_send en a s =
     (case gateway_dispatch_alert en a s of
        (s1, Inl e) \<Rightarrow> (s1, Inl e)
      | (s1, Inr r) \<Rightarrow>
          (s1, if gd_delivered r then Inr ()
               else Inl (Err (''notifier-gateway dispatch failed for tenant '' @ gd_tenant_id r @ '': ''
                       @ unwrap_or (gd_reason r) ''all_channels_failed''))))"

text \<open>An answer without a verdict counts as not delivered.\<close>

lemma parse_empty_answer:
  "parse_gateway_dispatch_result (JObject []) t =
     \<lparr>gd_tenant_id = t, gd_delivered = False, gd_reason = None, gd_resolved_channels = [], gd_results = []\<rparr>"
  by (simp add: parse_gateway_dispatch_result_def get_str_def get_bool_def map_filter_simps)

end
