(* ===== verification/Orchestrator.thy ===== *)
theory Orchestrator
  imports Notifier
begin

text \<open>
  \<^verbatim>\<open>apps/orchestrator/src/main.rs\<close>: how a detection becomes an alert with an incident, how alerts are
  suppressed, dispatched and stored, and how finality updates change the alerts they confirm or
  retract. The body of the main loop is one function per message kind; reading and acknowledging
  the Redis streams, start-up and logging are left out. Every message is acknowledged whatever
  its outcome.
\<close>

section \<open>Configuration and libraries\<close>

definition ALERT_EVIDENCE_BUFFER_BEFORE_MS :: int where
  "ALERT_EVIDENCE_BUFFER_BEFORE_MS = 30000"

definition ALERT_EVIDENCE_BUFFER_AFTER_MS :: int where
  "ALERT_EVIDENCE_BUFFER_AFTER_MS = 10000"

definition DEFAULT_DUPLICATE_SUPPRESSION_SECONDS :: int where
  "DEFAULT_DUPLICATE_SUPPRESSION_SECONDS = 300"

definition millis :: "int \<Rightarrow> int" where
  "millis ms = ms * 1000000"

record EvidenceContributorTrace =
  et_source_id :: string
  et_source_kind :: string
  et_price :: f64
  et_observed_at :: datetime
  et_age_ms :: int
  et_weight :: f64
  et_divergence_pct :: f64
  et_supports_alert_direction :: bool
  et_contributes_to_quorum :: bool
  et_confirms_oracle :: bool
  et_contributes_to_breach :: bool

text \<open>
  What the code takes from serde's derived code and from chrono: reading and writing the evidence
  traces, writing confidence maps, signals and classifications, RFC 3339 rendering, and the month
  of the database clock.
\<close>

record orch_libs =
  ol_de_traces :: "json \<Rightarrow> EvidenceContributorTrace list option"
  ol_ser_trace :: "EvidenceContributorTrace \<Rightarrow> json"
  ol_ser_confidence :: "(string \<times> f64) list \<Rightarrow> json"
  ol_ser_signals :: "DetectionSignal list \<Rightarrow> json"
  ol_ser_classification :: "ContextClassification option \<Rightarrow> json"
  ol_to_rfc3339 :: "datetime \<Rightarrow> string"
  ol_month_start :: "datetime \<Rightarrow> datetime"

text \<open>
  The settings read at start-up, whether there is a database, and the environment variable that
  is read again for every alert.
\<close>

record orch_config =
  oc_repository :: bool
  oc_window_env :: "string option"
  oc_context_ttl :: int
  oc_context_max :: nat

section \<open>Alerts from detections\<close>

definition require_alert_tenant_id :: "string option \<Rightarrow> string \<Rightarrow> string res" where
  "require_alert_tenant_id tenant context =
     (case Option.bind (map_option trim tenant) non_empty of
        None \<Rightarrow> Inl (Err (''missing tenant_id for '' @ context))
      | Some t \<Rightarrow> Inr t)"

definition alert_from_detection :: "surroundings \<Rightarrow> DetectionResult \<Rightarrow> AlertEvent res" where
  "alert_from_detection en d =
     bind_res (require_alert_tenant_id (dr_tenant_id d) (''detection '' @ dr_detection_id d)) (\<lambda>tenant.
       Inr \<lparr>al_alert_id = sur_alert_uuid en, al_incident_id = None, al_event_key = dr_event_key d,
            al_subject_type = dr_subject_type d, al_subject_key = dr_subject_key d, al_tenant_id = Some tenant,
            al_pattern_id = dr_pattern_id d, al_chain = dr_chain d, al_chain_slug = dr_chain_slug d,
            al_protocol = dr_protocol d, al_lifecycle_state = dr_lifecycle_state d,
            al_finality_status = Tentative, al_severity = dr_severity d,
            al_risk_score = rs_score (dr_risk_score d), al_confidence = rs_confidence (dr_risk_score d),
            al_confidence_breakdown = dr_confidence_breakdown d, al_rule_ids = dr_triggered_rule_ids d,
            al_channel_routes = [], al_dedup_key = dr_event_key d,
            al_attribution = rs_attribution (dr_risk_score d), al_blast_radius = [], al_exposure_summary = [],
            al_tx_hash = dr_tx_hash d, al_block_number = nat (dr_block_number d mod 2 ^ 64),
            al_oracle_context = dr_oracle_context d, al_actions_recommended = dr_actions_recommended d,
            al_is_simulated = dr_is_simulated d, al_simulation_run_id = dr_simulation_run_id d,
            al_detected_at = dr_detected_at d, al_created_at = sur_now_alert en\<rparr>)"

section \<open>Incidents\<close>

fun incident_transition_str :: "IncidentTransition \<Rightarrow> string" where
  "incident_transition_str Trigger = ''trigger''"
| "incident_transition_str Escalate = ''escalate''"
| "incident_transition_str Deescalate = ''deescalate''"
| "incident_transition_str Resolve = ''resolve''"
| "incident_transition_str Retract = ''retract''"
| "incident_transition_str Update = ''update''"

fun incident_status_for_transition :: "IncidentTransition \<Rightarrow> string" where
  "incident_status_for_transition Trigger = ''triggered''"
| "incident_status_for_transition Escalate = ''active''"
| "incident_status_for_transition Deescalate = ''active''"
| "incident_status_for_transition Update = ''active''"
| "incident_status_for_transition Resolve = ''resolved''"
| "incident_status_for_transition Retract = ''retracted''"

definition closes_incident :: "IncidentTransition \<Rightarrow> bool" where
  "closes_incident t = (t \<in> {Resolve, Retract})"

text \<open>The last piece of a subject key such as \<^verbatim>\<open>tenant-a:USDC/USD\<close>, and its base asset.\<close>

definition extract_asset_symbol :: "string option \<Rightarrow> string option" where
  "extract_asset_symbol subject_key =
     Option.bind subject_key (\<lambda>key.
       non_empty (hd (split_on (CHR ''/'') (last (split_on (CHR '':'') key)))))"

definition extract_market_key :: "string option \<Rightarrow> string \<Rightarrow> string option" where
  "extract_market_key subject_key protocol =
     (let from_subject = Option.bind subject_key (\<lambda>key.
            let market_part = trim (last (split_on (CHR '':'') key))
            in if CHR ''/'' \<in> set market_part then Some market_part else None)
      in case from_subject of
           Some mk \<Rightarrow> Some mk
         | None \<Rightarrow> Option.bind (map_option trim (strip_prefix ''market:'' protocol))
                     (\<lambda>v. if CHR ''/'' \<in> set v then Some v else None))"

definition exposure_of :: "f64 \<Rightarrow> f64 \<Rightarrow> bool \<Rightarrow> MonitoredEntityRow \<Rightarrow> EntityExposureRecord" where
  "exposure_of current_price divergence_pct is_critical e =
     (let capital = (if 0 < current_price then me_quantity e * current_price else me_valuation_usd e)
      in \<lparr>ex_entity_id = me_entity_id e, ex_capital_at_risk_usd = capital,
          ex_liquidity_status = (if is_critical then ''at_risk'' else ''degraded''),
          ex_estimated_slippage_pct = f64_min divergence_pct (lit 100),
          ex_loss_scenario_5pct_usd = capital * lit (5 / 100),
          ex_loss_scenario_10pct_usd = capital * lit (10 / 100),
          ex_estimated_savings_usd = capital * f64_max (divergence_pct / lit 100) 0,
          ex_payload = JObject [(''entity_type'', JString (me_entity_type e)),
            (''display_name'', j_opt JString (me_display_name e)), (''chain_slug'', j_opt JString (me_chain_slug e)),
            (''asset_symbol'', j_opt JString (me_asset_symbol e)), (''quantity'', j_f64 (me_quantity e)),
            (''current_price'', j_f64 current_price), (''divergence_pct'', j_f64 divergence_pct)]\<rparr>)"

definition with_exposures :: "string \<Rightarrow> EntityExposureRecord list \<Rightarrow> AlertEvent \<Rightarrow> AlertEvent" where
  "with_exposures symbol xs a =
     a\<lparr>al_blast_radius := map ex_entity_id xs,
       al_exposure_summary :=
         AList.update ''asset_symbol'' (JString symbol)
          (AList.update ''total_loss_scenario_10pct_usd'' (j_f64 (f64_sum (map ex_loss_scenario_10pct_usd xs)))
            (AList.update ''total_loss_scenario_5pct_usd'' (j_f64 (f64_sum (map ex_loss_scenario_5pct_usd xs)))
              (AList.update ''entity_count'' (j_nat (length xs))
                (AList.update ''total_capital_at_risk_usd'' (j_f64 (f64_sum (map ex_capital_at_risk_usd xs)))
                  (al_exposure_summary a)))))\<rparr>"

text \<open>The blast radius: what the tenant holds of the asset, saved under the incident.\<close>

definition attach_blast_radius ::
  "surroundings \<Rightarrow> string \<Rightarrow> string \<Rightarrow> DetectionResult \<Rightarrow> AlertEvent \<Rightarrow> store \<Rightarrow> store \<times> AlertEvent" where
  "attach_blast_radius en tenant incident_id d a s =
     (case extract_asset_symbol (dr_subject_key d) of
        None \<Rightarrow> (s, a)
      | Some symbol \<Rightarrow>
          (case find_monitored_entities_for_alert en tenant symbol s of
             Inl _ \<Rightarrow> (s, a)
           | Inr entities \<Rightarrow>
               if entities = [] then (s, a)
               else
                 (let current_price =
                        unwrap_or (Option.bind (map_of (dr_oracle_context d) ''weighted_median_price'') as_f64) 0;
                      xs = map (exposure_of current_price (rs_score (dr_risk_score d)) (dr_severity d = Critical)) entities
                  in (save_incident_entity_exposures en incident_id tenant xs s, with_exposures symbol xs a))))"

text \<open>The active incident of the subject, or a new one. Failing to store a new one is only logged.\<close>

definition find_or_create_incident ::
  "surroundings \<Rightarrow> string \<Rightarrow> IncidentTransition \<Rightarrow> DetectionResult \<Rightarrow> store \<Rightarrow> store \<times> IncidentRecord res" where
  "find_or_create_incident en tenant transition d s =
     (let key = \<lparr>ik_tenant_id = tenant, ik_pattern_id = dr_pattern_id d, ik_subject_type = dr_subject_type d,
                 ik_subject_key = dr_subject_key d, ik_chain_slug = dr_chain_slug d\<rparr>
      in case (case dr_simulation_run_id d of
                 Some run_id \<Rightarrow> find_active_incident_for_simulation en key run_id s
               | None \<Rightarrow> find_active_incident en key s) of
           Inl e \<Rightarrow> (s, Inl e)
         | Inr (Some existing) \<Rightarrow> (s, Inr existing)
         | Inr None \<Rightarrow>
             (let created = \<lparr>ir_incident_id = sur_incident_uuid en, ir_tenant_id = tenant,
                    ir_pattern_id = dr_pattern_id d, ir_subject_type = dr_subject_type d,
                    ir_subject_key = dr_subject_key d, ir_chain_slug = dr_chain_slug d,
                    ir_status = incident_status_for_transition transition,
                    ir_current_severity = severity_name (dr_severity d)\<rparr>
              in (create_incident en created (sur_now_incident en) s, Inr created)))"

fun classification_str :: "ContextClassification \<Rightarrow> string" where
  "classification_str Isolated = ''isolated''"
| "classification_str Systemic = ''systemic''"
| "classification_str Ctx_None = ''none''"

definition record_incident ::
  "'a orch_libs_scheme \<Rightarrow> surroundings \<Rightarrow> IncidentTransition \<Rightarrow> IncidentRecord \<Rightarrow> DetectionResult \<Rightarrow> store \<Rightarrow> store" where
  "record_incident L en transition incident d s =
     (let now = sur_now_incident en;
          status = incident_status_for_transition transition;
          severity_text = severity_name (dr_severity d);
          s1 = update_incident_state en (ir_incident_id incident) status severity_text now (closes_incident transition) s;
          s2 = append_incident_event en
                 \<lparr>ie_incident_id = ir_incident_id incident, ie_transition_type = incident_transition_str transition,
                  ie_from_state = Some (ir_status incident), ie_to_state = Some status,
                  ie_reason = dr_description d,
                  ie_payload = JObject [(''pattern_id'', JString (dr_pattern_id d)), (''severity'', JString severity_text),
                    (''event_key'', j_opt JString (dr_event_key d)),
                    (''context_classification'', ol_ser_classification L (dr_context_classification d)),
                    (''confidence_breakdown'', ol_ser_confidence L (dr_confidence_breakdown d))],
                  ie_created_at = now\<rparr> s1
      in append_incident_context_snapshot en
           \<lparr>ix_incident_id = ir_incident_id incident,
            ix_classification = map_option classification_str (dr_context_classification d),
            ix_score = Some (rs_score (dr_risk_score d)), ix_confidence = Some (rs_confidence (dr_risk_score d)),
            ix_payload = JObject [(''confidence_breakdown'', ol_ser_confidence L (dr_confidence_breakdown d)),
              (''signals'', ol_ser_signals L (dr_signals d))],
            ix_observed_at = now\<rparr> s2)"

text \<open>What happens once the incident of a detection is known.\<close>

definition join_incident ::
  "'a orch_libs_scheme \<Rightarrow> surroundings \<Rightarrow> string \<Rightarrow> IncidentTransition \<Rightarrow> IncidentRecord \<Rightarrow> AlertEvent
     \<Rightarrow> DetectionResult \<Rightarrow> store \<Rightarrow> store \<times> AlertEvent" where
  "join_incident L en tenant transition incident a d s =
     (let (s2, a2) = attach_blast_radius en tenant (ir_incident_id incident) d
                       (a\<lparr>al_incident_id := Some (ir_incident_id incident)\<rparr>) s
      in (record_incident L en transition incident d s2, a2))"

definition attach_incident_context ::
  "'a orch_libs_scheme \<Rightarrow> orch_config \<Rightarrow> surroundings \<Rightarrow> AlertEvent \<Rightarrow> DetectionResult \<Rightarrow> store
     \<Rightarrow> store \<times> AlertEvent res" where
  "attach_incident_context L cfg en a d s =
     (if \<not> oc_repository cfg then (s, Inr a)
      else
        (case require_alert_tenant_id (al_tenant_id a) (''alert '' @ al_alert_id a) of
           Inl e \<Rightarrow> (s, Inl e)
         | Inr tenant \<Rightarrow>
             (let transition = unwrap_or (dr_incident_transition d) Trigger in
              case find_or_create_incident en tenant transition d s of
                (s1, Inl _) \<Rightarrow> (s1, Inr a)
              | (s1, Inr incident) \<Rightarrow>
                  (let (s2, a2) = join_incident L en tenant transition incident a d s1 in (s2, Inr a2)))))"

section \<open>Evidence\<close>

definition contributing_sources_from_alert ::
  "'a orch_libs_scheme \<Rightarrow> AlertEvent \<Rightarrow> EvidenceContributorTrace list" where
  "contributing_sources_from_alert L a =
     unwrap_or (Option.bind (map_of (al_oracle_context a) ''contributing_sources'') (ol_de_traces L)) []"

definition source_type_for_kind :: "string \<Rightarrow> string" where
  "source_type_for_kind kind =
     (if kind = ''oracle'' then ''oracle_api'' else if kind = ''cex'' then ''cex_websocket''
      else if kind = ''dex'' then ''dex_api'' else ''custom_api'')"

definition event_type_for_kind :: "string \<Rightarrow> string" where
  "event_type_for_kind kind = (if kind = ''oracle'' then ''oracle_update'' else ''quote'')"

definition same_operational_event :: "AlertEvidenceOperationalRow \<Rightarrow> EvidenceContributorTrace \<Rightarrow> bool" where
  "same_operational_event row c =
     (op_source_id row = et_source_id c \<and> op_observed_at row = et_observed_at c
      \<and> (case op_price row of None \<Rightarrow> False | Some price \<Rightarrow> \<bar>price - et_price c\<bar> < f64_epsilon))"

definition annotate_evidence_fields :: "json \<Rightarrow> EvidenceContributorTrace option \<Rightarrow> bool \<Rightarrow> json" where
  "annotate_evidence_fields normalized_fields contributor decision_input =
     (let fields = unwrap_or (as_object normalized_fields) [];
          evidence = (''decision_input'', JBool decision_input) #
            (case contributor of
               None \<Rightarrow> []
             | Some c \<Rightarrow>
                 [(''source_kind'', JString (et_source_kind c)),
                  (''age_ms'', JNumber (if 0 \<le> et_age_ms c then PosInt (nat (et_age_ms c)) else NegInt (et_age_ms c))),
                  (''weight'', j_f64 (et_weight c)), (''divergence_pct'', j_f64 (et_divergence_pct c)),
                  (''supports_alert_direction'', JBool (et_supports_alert_direction c)),
                  (''contributes_to_quorum'', JBool (et_contributes_to_quorum c)),
                  (''confirms_oracle'', JBool (et_confirms_oracle c)),
                  (''contributes_to_breach'', JBool (et_contributes_to_breach c))])
      in JObject (AList.update ''__raksha_evidence'' (JObject evidence) fields))"

definition contributor_key :: "'a orch_libs_scheme \<Rightarrow> EvidenceContributorTrace \<Rightarrow> string" where
  "contributor_key L c = et_source_id c @ '':'' @ ol_to_rfc3339 L (et_observed_at c)"

definition synthetic_evidence_record ::
  "'a orch_libs_scheme \<Rightarrow> AlertEvent \<Rightarrow> string \<Rightarrow> string option \<Rightarrow> EvidenceContributorTrace
     \<Rightarrow> AlertEvidenceSnapshotRecord" where
  "synthetic_evidence_record L a tenant market_key c =
     \<lparr>ev_alert_id = al_alert_id a, ev_incident_id = al_incident_id a, ev_tenant_id = tenant,
      ev_pattern_id = Some (al_pattern_id a), ev_source_id = et_source_id c,
      ev_source_type = source_type_for_kind (et_source_kind c),
      ev_event_type = event_type_for_kind (et_source_kind c), ev_market_key = market_key,
      ev_price = Some (et_price c), ev_observed_at = et_observed_at c, ev_event_ts = Some (et_observed_at c),
      ev_tx_hash = None, ev_block_number = None,
      ev_payload = JObject [(''trace'', ol_ser_trace L c), (''captured_from'', JString ''detector.quote_cache'')],
      ev_normalized_fields = annotate_evidence_fields (JObject []) (Some c) True,
      ev_raw_ref_type = Some ''detector.quote_cache'', ev_raw_ref_id = Some (contributor_key L c)\<rparr>"

definition evidence_lookup_window ::
  "AlertEvent \<Rightarrow> EvidenceContributorTrace list \<Rightarrow> datetime \<times> datetime" where
  "evidence_lookup_window a cs =
     (let required_start = al_created_at a - millis ALERT_EVIDENCE_BUFFER_BEFORE_MS;
          required_end = al_created_at a + millis ALERT_EVIDENCE_BUFFER_AFTER_MS
      in if cs = [] then (required_start, required_end)
         else (min required_start (Min (set (map et_observed_at cs)) - millis ALERT_EVIDENCE_BUFFER_BEFORE_MS),
               max required_end (Max (set (map et_observed_at cs)) + millis ALERT_EVIDENCE_BUFFER_AFTER_MS)))"

definition rpc_failed :: "AlertEvidenceOperationalRow \<Rightarrow> bool" where
  "rpc_failed row =
     (op_price row = None
      \<and> (case get_str (op_payload row) ''rpc_state_error'' of None \<Rightarrow> False | Some e \<Rightarrow> e \<noteq> []))"

definition operational_record ::
  "AlertEvent \<Rightarrow> string \<Rightarrow> string option \<Rightarrow> EvidenceContributorTrace list \<Rightarrow> AlertEvidenceOperationalRow
     \<Rightarrow> AlertEvidenceSnapshotRecord" where
  "operational_record a tenant market_key cs row =
     (let matched = List.find (same_operational_event row) cs
      in \<lparr>ev_alert_id = al_alert_id a, ev_incident_id = al_incident_id a, ev_tenant_id = tenant,
          ev_pattern_id = Some (al_pattern_id a), ev_source_id = op_source_id row,
          ev_source_type = op_source_type row, ev_event_type = op_event_type row,
          ev_market_key = (case op_market_key row of None \<Rightarrow> market_key | Some m \<Rightarrow> Some m),
          ev_price = op_price row, ev_observed_at = op_observed_at row, ev_event_ts = op_event_ts row,
          ev_tx_hash = op_tx_hash row, ev_block_number = op_block_number row, ev_payload = op_payload row,
          ev_normalized_fields = annotate_evidence_fields (op_normalized_fields row) matched (matched \<noteq> None),
          ev_raw_ref_type = Some ''catalog.ingest_operational_events'',
          ev_raw_ref_id = Some (op_ingest_event_id row)\<rparr>)"

definition simulation_payload :: "AlertEvidenceSimulationRow \<Rightarrow> json" where
  "simulation_payload row =
     (case as_object (sr_published_payload row) of
        None \<Rightarrow> sr_original_payload row
      | Some m \<Rightarrow> if m \<noteq> [] then sr_published_payload row else sr_original_payload row)"

definition first_some :: "'a option \<Rightarrow> 'a option \<Rightarrow> 'a option" where
  "first_some x y = (case x of None \<Rightarrow> y | Some v \<Rightarrow> Some v)"

definition simulation_record ::
  "AlertEvent \<Rightarrow> string \<Rightarrow> string option \<Rightarrow> AlertEvidenceSimulationRow \<Rightarrow> AlertEvidenceSnapshotRecord" where
  "simulation_record a tenant market_key row =
     (let payload = simulation_payload row;
          number_at = (\<lambda>k. Option.bind (j_get payload k) as_f64)
      in \<lparr>ev_alert_id = al_alert_id a, ev_incident_id = al_incident_id a, ev_tenant_id = tenant,
          ev_pattern_id = Some (al_pattern_id a), ev_source_id = sr_source_id row, ev_source_type = ''evm_chain'',
          ev_event_type = sr_event_type row, ev_market_key = market_key,
          ev_price = first_some (first_some (number_at ''tvl_usd'') (number_at ''utilization'')) (number_at ''price''),
          ev_observed_at = sr_observed_at row, ev_event_ts = Some (sr_observed_at row), ev_tx_hash = None,
          ev_block_number = Option.bind (j_get payload ''block_number'') as_i64, ev_payload = payload,
          ev_normalized_fields = JObject [], ev_raw_ref_type = Some ''workbench.simulation_run_events'',
          ev_raw_ref_id = Some (sr_run_event_id row)\<rparr>)"

text \<open>The records of one alert, given the rows that were found for it.\<close>

definition evidence_records ::
  "'a orch_libs_scheme \<Rightarrow> AlertEvent \<Rightarrow> string \<Rightarrow> EvidenceContributorTrace list
     \<Rightarrow> AlertEvidenceOperationalRow list \<Rightarrow> AlertEvidenceSimulationRow list \<Rightarrow> AlertEvidenceSnapshotRecord list" where
  "evidence_records L a tenant cs rows sim_rows =
     (let market_key = extract_market_key (al_subject_key a) (al_protocol a);
          useful = filter (\<lambda>row. \<not> rpc_failed row) rows;
          matched_sources = map (contributor_key L) (List.map_filter (\<lambda>row. List.find (same_operational_event row) cs) useful)
      in map (operational_record a tenant market_key cs) useful
         @ map (simulation_record a tenant market_key) sim_rows
         @ map (synthetic_evidence_record L a tenant market_key)
             (filter (\<lambda>c. contributor_key L c \<notin> set matched_sources) cs))"

definition simulation_rows ::
  "surroundings \<Rightarrow> AlertEvent \<Rightarrow> string list \<Rightarrow> datetime \<Rightarrow> datetime \<Rightarrow> store \<Rightarrow> AlertEvidenceSimulationRow list" where
  "simulation_rows en a source_ids window_start window_end s =
     (case (al_is_simulated a, al_simulation_run_id a) of
        (True, Some run_id) \<Rightarrow>
          (case load_simulation_events_for_alert_evidence en run_id source_ids
                  (window_start - 60 * nanos_per_min) (window_end + 60 * nanos_per_min) s of
             Inl _ \<Rightarrow> []
           | Inr rows \<Rightarrow> rows)
      | _ \<Rightarrow> [])"

definition persist_alert_evidence_snapshot ::
  "'a orch_libs_scheme \<Rightarrow> surroundings \<Rightarrow> AlertEvent \<Rightarrow> store \<Rightarrow> store \<times> unit res" where
  "persist_alert_evidence_snapshot L en a s =
     (let cs = contributing_sources_from_alert L a in
      if cs = [] then (s, Inr ())
      else
        (case require_alert_tenant_id (al_tenant_id a) (''alert '' @ al_alert_id a) of
           Inl e \<Rightarrow> (s, Inl e)
         | Inr tenant \<Rightarrow>
             (let (window_start, window_end) = evidence_lookup_window a cs;
                  source_ids = map et_source_id cs
              in case load_operational_events_for_alert_evidence en
                        \<lparr>eq_tenant_id = tenant,
                         eq_market_key = extract_market_key (al_subject_key a) (al_protocol a),
                         eq_source_ids = source_ids, eq_window_start = window_start, eq_window_end = window_end,
                         eq_is_simulated = al_is_simulated a, eq_simulation_run_id = al_simulation_run_id a\<rparr> s of
                   Inl e \<Rightarrow> (s, Inl e)
                 | Inr rows \<Rightarrow>
                     save_alert_evidence_snapshot_batch en
                       (evidence_records L a tenant cs rows
                          (simulation_rows en a source_ids window_start window_end s)) s)))"

section \<open>Dispatch\<close>

definition chrono_seconds :: "int \<Rightarrow> int res" where
  "chrono_seconds secs =
     (if - ((2 ^ 63 - 1) div 1000) \<le> secs \<and> secs \<le> (2 ^ 63 - 1) div 1000 then Inr (secs * nanos_per_sec)
      else Inl (Panic ''Duration::seconds out of bounds''))"

definition duplicate_suppression_window :: "string option \<Rightarrow> int option res" where
  "duplicate_suppression_window env =
     (let seconds = unwrap_or (Option.bind env parse_i64) DEFAULT_DUPLICATE_SUPPRESSION_SECONDS
      in if 0 < seconds then map_sum id Some (chrono_seconds seconds) else Inr None)"

definition should_suppress_duplicate_alert :: "datetime \<Rightarrow> AlertEvent \<Rightarrow> AlertEvent \<Rightarrow> int \<Rightarrow> bool" where
  "should_suppress_duplicate_alert now candidate existing window =
     (if al_alert_id candidate = al_alert_id existing then False
      else if al_event_key candidate = None
           \<or> al_event_key candidate \<noteq> al_event_key existing
           \<or> al_tenant_id candidate \<noteq> al_tenant_id existing
           \<or> al_pattern_id candidate \<noteq> al_pattern_id existing
           \<or> al_severity candidate \<noteq> al_severity existing
           \<or> al_lifecycle_state candidate \<noteq> al_lifecycle_state existing
           \<or> al_simulation_run_id candidate \<noteq> al_simulation_run_id existing then False
      else (let age = now - al_created_at existing in if age < 0 then True else age \<le> window))"

definition find_dispatch_duplicate ::
  "orch_config \<Rightarrow> surroundings \<Rightarrow> AlertEvent \<Rightarrow> store \<Rightarrow> AlertEvent option res" where
  "find_dispatch_duplicate cfg en a s =
     (case al_event_key a of
        None \<Rightarrow> Inr None
      | Some event_key \<Rightarrow>
          bind_res (duplicate_suppression_window (oc_window_env cfg)) (\<lambda>window.
            case window of
              None \<Rightarrow> Inr None
            | Some w \<Rightarrow>
                bind_res (find_latest_alert_by_event_key en FindDuplicate event_key s) (\<lambda>previous.
                  Inr (case previous of
                         None \<Rightarrow> None
                       | Some e \<Rightarrow> if should_suppress_duplicate_alert (sur_now_duplicate en) a e w then Some e else None))))"

definition insert_strings :: "string \<Rightarrow> string list \<Rightarrow> (string \<times> json) list \<Rightarrow> (string \<times> json) list" where
  "insert_strings k vs m = AList.update k (JArray (map JString vs)) m"

definition apply_dispatch_result_metadata :: "AlertEvent \<Rightarrow> GatewayDispatchResult \<Rightarrow> AlertEvent" where
  "apply_dispatch_result_metadata a r =
     (let limited = map gc_channel (filter (\<lambda>c. gc_reason c = Some ''destination_rate_limit'') (gd_results r));
          cooling = map gc_channel (filter (\<lambda>c. gc_reason c = Some ''cooldown'') (gd_results r));
          c1 = insert_strings ''dispatch_resolved_channels'' (gd_resolved_channels r) (al_oracle_context a);
          c2 = AList.update ''dispatch_delivered'' (JBool (gd_delivered r)) c1;
          c3 = (case gd_reason r of None \<Rightarrow> c2 | Some reason \<Rightarrow> AList.update ''dispatch_reason'' (JString reason) c2);
          c4 = (if limited = [] then c3
                else insert_strings ''delivery_rate_limited_channels'' limited
                       (AList.update ''delivery_rate_limited'' (JBool True) c3));
          c5 = (if cooling = [] then c4
                else insert_strings ''delivery_cooldown_channels'' cooling
                       (AList.update ''delivery_cooldown_blocked'' (JBool True) c4))
      in a\<lparr>al_channel_routes := gd_resolved_channels r, al_oracle_context := c5\<rparr>)"

definition alert_type :: "AlertEvent \<Rightarrow> string" where
  "alert_type a =
     (if prefix ''depeg:'' (unwrap_or (al_event_key a) '''') \<or> prefix ''market:'' (al_protocol a)
      then ''depeg'' else ''generic'')"

fun chain_id_of :: "Chain \<Rightarrow> int option" where
  "chain_id_of Ethereum = Some 1"
| "chain_id_of Arbitrum = Some 42161"
| "chain_id_of Optimism = Some 10"
| "chain_id_of Base = Some 8453"
| "chain_id_of Polygon = Some 137"
| "chain_id_of Avalanche = Some 43114"
| "chain_id_of BSC = Some 56"
| "chain_id_of Offchain = None"
| "chain_id_of Chain_Unknown = None"

definition alert_chain_id :: "AlertEvent \<Rightarrow> int option" where
  "alert_chain_id a = chain_id_of (al_chain a)"

definition record_usage_event :: "surroundings \<Rightarrow> string \<Rightarrow> string \<Rightarrow> AlertEvent \<Rightarrow> store \<Rightarrow> store" where
  "record_usage_event en tenant event_type a s =
     record_usage en tenant event_type (alert_type a) (alert_chain_id a) 1 s"

definition should_enforce_monthly_quota :: "AlertEvent \<Rightarrow> bool" where
  "should_enforce_monthly_quota a =
     (al_severity a \<noteq> Critical \<and> al_lifecycle_state a \<in> {Provisional, Confirmed})"

definition check_quota_exceeded ::
  "'a orch_libs_scheme \<Rightarrow> surroundings \<Rightarrow> string \<Rightarrow> store \<Rightarrow> (int \<times> int) option res" where
  "check_quota_exceeded L en tenant s =
     bind_res (load_tenant_monthly_alert_quota en tenant s) (\<lambda>quota.
       case quota of
         None \<Rightarrow> Inr None
       | Some limit \<Rightarrow>
           if limit < 0 then Inr None
           else bind_res (count_usage_event_quantity_for_current_month (ol_month_start L) en tenant ''alert_fired'' s)
                  (\<lambda>consumed. Inr (if limit \<le> consumed then Some (limit, consumed) else None)))"

definition all_notification_channels :: "string list" where
  "all_notification_channels = [''webhook'', ''slack'', ''telegram'', ''discord'', ''email'']"

definition should_escalate_to_all_channels_for_rate_limit ::
  "surroundings \<Rightarrow> string \<Rightarrow> AlertEvent \<Rightarrow> store \<Rightarrow> bool res" where
  "should_escalate_to_all_channels_for_rate_limit en tenant a s =
     (if al_severity a = Critical then Inr False
      else if al_lifecycle_state a \<notin> {Provisional, Confirmed} then Inr False
      else (case load_tenant_hourly_alert_limit en tenant s of
              None \<Rightarrow> Inr False
            | Some limit \<Rightarrow>
                if limit < 0 then Inr False
                else bind_res (count_usage_event_quantity_for_past_hour en tenant ''alert_fired'' s)
                       (\<lambda>n. Inr (limit \<le> n))))"

text \<open>Every error of storing and publishing is logged; evidence is stored once the alert is.\<close>

definition persist_and_publish_alert ::
  "'a orch_libs_scheme \<Rightarrow> orch_config \<Rightarrow> surroundings \<Rightarrow> AlertEvent \<Rightarrow> store \<Rightarrow> store" where
  "persist_and_publish_alert L cfg en a s =
     (let s' = (if oc_repository cfg then
                  (case save_alert en a s of
                     (s1, Inl _) \<Rightarrow> save_alert_lifecycle en a s1
                   | (s1, Inr _) \<Rightarrow> fst (persist_alert_evidence_snapshot L en a (save_alert_lifecycle en a s1)))
                else s)
      in publish_alert_lifecycle en a (publish_alert en a s'))"

definition suppressed_alert :: "surroundings \<Rightarrow> int \<Rightarrow> int \<Rightarrow> AlertEvent \<Rightarrow> AlertEvent" where
  "suppressed_alert en limit consumed a =
     a\<lparr>al_lifecycle_state := Suppressed, al_created_at := sur_now_suppressed en,
       al_oracle_context :=
         AList.update ''suppression_quota_used'' (j_int consumed)
          (AList.update ''suppression_quota_limit'' (j_int limit)
            (AList.update ''suppression_reason'' (JString ''monthly_alert_quota_exceeded'') (al_oracle_context a)))\<rparr>"

definition with_escalated_routes :: "surroundings \<Rightarrow> string \<Rightarrow> AlertEvent \<Rightarrow> store \<Rightarrow> AlertEvent" where
  "with_escalated_routes en tenant a s =
     (case should_escalate_to_all_channels_for_rate_limit en tenant a s of
        Inr True \<Rightarrow> a\<lparr>al_channel_routes := all_notification_channels\<rparr>
      | _ \<Rightarrow> a)"

definition save_delivery_attempts ::
  "surroundings \<Rightarrow> AlertEvent \<Rightarrow> GatewayDispatchResult \<Rightarrow> store \<Rightarrow> store" where
  "save_delivery_attempts en a r s =
     fold (\<lambda>c. save_alert_delivery_attempt en (al_alert_id a) (gd_tenant_id r) (gc_channel c) (gc_delivered c)
                 (gc_reason c) (gc_status_code c)) (gd_results r) s"

text \<open>The last part of \<^verbatim>\<open>dispatch_alert\<close>: an alert that is not suppressed goes to the gateway and is stored.\<close>

definition deliver_alert ::
  "'a orch_libs_scheme \<Rightarrow> orch_config \<Rightarrow> surroundings \<Rightarrow> string \<Rightarrow> AlertEvent \<Rightarrow> store \<Rightarrow> store \<times> AlertEvent" where
  "deliver_alert L cfg en tenant a s =
     (let (s2, a2) =
            (case gateway_dispatch_alert en a s of
               (s1, Inl _) \<Rightarrow> (s1, a)
             | (s1, Inr r) \<Rightarrow>
                 (let a1 = apply_dispatch_result_metadata a r
                  in (if oc_repository cfg then save_delivery_attempts en a1 r s1 else s1, a1)));
          s3 = persist_and_publish_alert L cfg en a2 s2
      in (if oc_repository cfg then record_usage_event en tenant ''alert_fired'' a2 s3 else s3, a2))"

definition dispatch_alert ::
  "'a orch_libs_scheme \<Rightarrow> orch_config \<Rightarrow> surroundings \<Rightarrow> AlertEvent \<Rightarrow> store \<Rightarrow> store \<times> AlertEvent res" where
  "dispatch_alert L cfg en alert s =
     (case require_alert_tenant_id (al_tenant_id alert) (''alert '' @ al_alert_id alert) of
        Inl e \<Rightarrow> (s, Inl e)
      | Inr tenant \<Rightarrow>
          (let a = alert\<lparr>al_tenant_id := Some tenant\<rparr> in
           if \<not> oc_repository cfg then (let (s', a') = deliver_alert L cfg en tenant a s in (s', Inr a'))
           else
             (case find_dispatch_duplicate cfg en a s of
                Inl e \<Rightarrow> (s, Inl e)
              | Inr (Some previous) \<Rightarrow>
                  (record_usage_event en tenant ''alert_suppressed_duplicate'' a s, Inr previous)
              | Inr None \<Rightarrow>
                  (let a1 = with_escalated_routes en tenant a s in
                   case (if should_enforce_monthly_quota a1 then check_quota_exceeded L en tenant s else Inr None) of
                     Inr (Some (limit, consumed)) \<Rightarrow>
                       (let a2 = suppressed_alert en limit consumed a1
                        in (record_usage_event en tenant ''alert_suppressed_quota'' a2
                              (persist_and_publish_alert L cfg en a2 s), Inr a2))
                   | _ \<Rightarrow> (let (s', a') = deliver_alert L cfg en tenant a1 s in (s', Inr a'))))))"

section \<open>The main loop\<close>

type_synonym alert_cache = "(string \<times> AlertEvent) list"

text \<open>
  \<^verbatim>\<open>prune_alert_contexts\<close>: alerts older than the time to live go first, then the oldest ones
  beyond the maximal number of entries.
\<close>

definition created_le :: "string \<times> datetime \<Rightarrow> string \<times> datetime \<Rightarrow> bool" where
  "created_le x y \<longleftrightarrow> snd x \<le> snd y"

definition prune_alert_contexts :: "datetime \<Rightarrow> int \<Rightarrow> nat \<Rightarrow> alert_cache \<Rightarrow> alert_cache" where
  "prune_alert_contexts now ttl max_entries cache =
     (let cutoff = now - ttl;
          kept = filter (\<lambda>(_, a). cutoff \<le> al_created_at a) cache
      in if length kept \<le> max_entries then kept
         else
           (let oldest = sort_by created_le (map (\<lambda>(k, a). (k, al_created_at a)) kept);
                removed = map fst (take (length kept - max_entries) oldest)
            in filter (\<lambda>(k, _). k \<notin> set removed) kept))"

record orch_state =
  os_store :: store
  os_alerts :: alert_cache

definition remember_alert :: "orch_config \<Rightarrow> surroundings \<Rightarrow> string \<Rightarrow> AlertEvent \<Rightarrow> orch_state \<Rightarrow> orch_state" where
  "remember_alert cfg en event_key a st =
     st\<lparr>os_alerts := prune_alert_contexts (sur_now_prune en) (oc_context_ttl cfg) (oc_context_max cfg)
          (AList.update event_key a (os_alerts st))\<rparr>"

definition on_detection ::
  "'a orch_libs_scheme \<Rightarrow> orch_config \<Rightarrow> surroundings \<Rightarrow> DetectionResult \<Rightarrow> orch_state \<Rightarrow> orch_state" where
  "on_detection L cfg en d st =
     (case dr_event_key d of
        None \<Rightarrow> st
      | Some event_key \<Rightarrow>
          if dr_triggered_rule_ids d = [] then st
          else
            (case alert_from_detection en d of
               Inl _ \<Rightarrow> st
             | Inr a \<Rightarrow>
                 (case attach_incident_context L cfg en a d (os_store st) of
                    (s1, Inl _) \<Rightarrow> st\<lparr>os_store := s1\<rparr>
                  | (s1, Inr a1) \<Rightarrow>
                      (case dispatch_alert L cfg en a1 s1 of
                         (s2, Inl _) \<Rightarrow> st\<lparr>os_store := s2\<rparr>
                       | (s2, Inr dispatched) \<Rightarrow> remember_alert cfg en event_key dispatched (st\<lparr>os_store := s2\<rparr>)))))"

definition known_alert :: "orch_config \<Rightarrow> surroundings \<Rightarrow> string \<Rightarrow> orch_state \<Rightarrow> AlertEvent option" where
  "known_alert cfg en event_key st =
     (case map_of (os_alerts st) event_key of
        Some a \<Rightarrow> Some a
      | None \<Rightarrow>
          if oc_repository cfg then
            (case find_latest_alert_by_event_key en FindFinalityAlert event_key (os_store st) of
               Inl _ \<Rightarrow> None
             | Inr found \<Rightarrow> found)
          else None)"

definition apply_finality :: "surroundings \<Rightarrow> LifecycleState \<Rightarrow> AlertEvent \<Rightarrow> AlertEvent" where
  "apply_finality en state a =
     a\<lparr>al_lifecycle_state := state,
       al_finality_status := (case state of Confirmed \<Rightarrow> Finalized | Retracted \<Rightarrow> Tentative | _ \<Rightarrow> al_finality_status a),
       al_created_at := sur_now_alert en\<rparr>"

definition finality_incident_step :: "LifecycleState \<Rightarrow> string \<times> string \<times> bool \<times> string" where
  "finality_incident_step state =
     (case state of
        Retracted \<Rightarrow> (''retract'', ''retracted'', True, ''finality_reorg_retraction'')
      | Confirmed \<Rightarrow> (''update'', ''active'', False, ''finality_confirmation'')
      | _ \<Rightarrow> (''update'', ''active'', False, ''finality_update''))"

definition update_incident_for_finality :: "surroundings \<Rightarrow> FinalityUpdate \<Rightarrow> AlertEvent \<Rightarrow> store \<Rightarrow> store" where
  "update_incident_for_finality en u a s =
     (case al_incident_id a of
        None \<Rightarrow> s
      | Some incident_id \<Rightarrow>
          (let (transition, status, closing, reason) = finality_incident_step (fu_lifecycle_state u);
               s1 = update_incident_state en incident_id status (severity_name (al_severity a)) (al_created_at a) closing s
           in append_incident_event en
                \<lparr>ie_incident_id = incident_id, ie_transition_type = transition, ie_from_state = None,
                 ie_to_state = Some status, ie_reason = Some reason,
                 ie_payload = JObject [(''event_key'', JString (fu_event_key u)),
                   (''lifecycle_state'', JString (to_ascii_lowercase (lifecycle_debug (fu_lifecycle_state u)))),
                   (''block_number'', j_nat (fu_block_number u))],
                 ie_created_at = al_created_at a\<rparr> s1))"

definition on_finality_update ::
  "'a orch_libs_scheme \<Rightarrow> orch_config \<Rightarrow> surroundings \<Rightarrow> FinalityUpdate \<Rightarrow> orch_state \<Rightarrow> orch_state" where
  "on_finality_update L cfg en u st =
     (if fu_lifecycle_state u \<notin> {Confirmed, Retracted} then st
      else
        (case known_alert cfg en (fu_event_key u) st of
           None \<Rightarrow> st
         | Some existing \<Rightarrow>
             if al_lifecycle_state existing = fu_lifecycle_state u then st
             else
               (let a = apply_finality en (fu_lifecycle_state u) existing;
                    s1 = (if oc_repository cfg then update_incident_for_finality en u a (os_store st) else os_store st)
                in case dispatch_alert L cfg en a s1 of
                     (s2, Inl _) \<Rightarrow> st\<lparr>os_store := s2\<rparr>
                   | (s2, Inr dispatched) \<Rightarrow>
                       remember_alert cfg en (fu_event_key u) dispatched (st\<lparr>os_store := s2\<rparr>))))"

end
