(* ===== verification/OrchestratorSafety.thy ===== *)
theory OrchestratorSafety
  imports Orchestrator
begin

text \<open>
  What the orchestrator guarantees over histories of detections and finality updates. The frame
  lemmas give, for each operation, what it leaves of the books: the alerts stored per life cycle,
  the usage events, the tenants, the requests to the gateway and the alert stream.
\<close>

section \<open>The books\<close>

type_synonym books =
  "AlertEvent list \<times> usage_event list \<times> (string \<times> int option) list \<times> gateway_request list \<times> AlertEvent list"

definition books :: "store \<Rightarrow> books" where
  "books s = (sd_lifecycle s, sd_usage s, sd_tenants s, sd_gateway_requests s, sd_alert_stream s)"

lemma books_incident_ops [simp]:
  "books (create_incident en r t s) = books s"
  "books (update_incident_state en i x y t c s) = books s"
  "books (append_incident_event en e s) = books s"
  "books (append_incident_context_snapshot en x' s) = books s"
  "books (save_alert_delivery_attempt en a1 a2 a3 a4 a5 a6 s) = books s"
  by (simp_all add: books_def create_incident_def update_incident_state_def append_incident_event_def
      append_incident_context_snapshot_def save_alert_delivery_attempt_def)

lemma books_save_exposures [simp]: "books (save_incident_entity_exposures en i t xs s) = books s"
  by (induction en i t xs s rule: save_incident_entity_exposures.induct) (simp_all add: books_def)

lemma books_save_alert [simp]: "books (fst (save_alert en a s)) = books s"
  by (simp add: save_alert_def books_def split: sum.split)

lemma books_insert_evidence [simp]: "books (fst (insert_evidence en n rs s)) = books s"
  by (induction en n rs s rule: insert_evidence.induct) (simp_all add: books_def)

lemma books_evidence_batch [simp]: "books (fst (save_alert_evidence_snapshot_batch en rs s)) = books s"
  by (cases rs) (simp_all add: save_alert_evidence_snapshot_batch_def, simp add: books_def)

lemma books_evidence [simp]: "books (fst (persist_alert_evidence_snapshot L en a s)) = books s"
  by (simp add: persist_alert_evidence_snapshot_def Let_def split: sum.split prod.split)

lemma books_find_or_create [simp]: "books (fst (find_or_create_incident en t tr d s)) = books s"
  by (simp add: find_or_create_incident_def Let_def split: sum.split option.split)

lemma books_blast_radius [simp]: "books (fst (attach_blast_radius en t i d a s)) = books s"
  by (simp add: attach_blast_radius_def Let_def split: sum.split option.split)

lemma books_record_incident [simp]: "books (record_incident L en tr i d s) = books s"
  by (simp add: record_incident_def Let_def)

lemma books_join_incident [simp]: "books (fst (join_incident L en t tr i a d s)) = books s"
  using books_blast_radius [of en t "ir_incident_id i" d "a\<lparr>al_incident_id := Some (ir_incident_id i)\<rparr>" s]
  by (simp add: join_incident_def case_prod_beta)

lemma books_attach [simp]: "books (fst (attach_incident_context L cfg en a d s)) = books s"
  using books_find_or_create [of en _ "unwrap_or (dr_incident_transition d) Trigger" d s]
  by (auto simp: attach_incident_context_def Let_def case_prod_beta split: sum.split)

lemma books_finality_incident [simp]: "books (update_incident_for_finality en u a s) = books s"
  by (simp add: update_incident_for_finality_def Let_def split: option.split prod.split)

lemma books_fold_deliveries: "books (save_delivery_attempts en a r s) = books s"
proof -
  have "books (fold (\<lambda>c. save_alert_delivery_attempt en i t (gc_channel c) (gc_delivered c)
      (gc_reason c) (gc_status_code c)) cs s) = books s" for i t cs
    by (induction cs arbitrary: s) simp_all
  then show ?thesis by (simp add: save_delivery_attempts_def)
qed

text \<open>What each field of the books becomes.\<close>

lemma books_eqD:
  assumes "books s' = books s"
  shows "sd_lifecycle s' = sd_lifecycle s" "sd_usage s' = sd_usage s" "sd_tenants s' = sd_tenants s"
    "sd_gateway_requests s' = sd_gateway_requests s" "sd_alert_stream s' = sd_alert_stream s"
  using assms by (simp_all add: books_def)

lemma persist_fields:
  "sd_lifecycle (persist_and_publish_alert L cfg en a s) =
     sd_lifecycle s @ (if oc_repository cfg \<and> \<not> sur_fails en SaveLifecycle then [a] else [])"
  "sd_usage (persist_and_publish_alert L cfg en a s) = sd_usage s"
  "sd_tenants (persist_and_publish_alert L cfg en a s) = sd_tenants s"
  "sd_gateway_requests (persist_and_publish_alert L cfg en a s) = sd_gateway_requests s"
  "sd_alert_stream (persist_and_publish_alert L cfg en a s) =
     sd_alert_stream s @ (if sur_fails en PublishAlert then [] else [a])"
proof -
  obtain s1 r where sv: "save_alert en a s = (s1, r)" by fastforce
  define s2 where "s2 = (if oc_repository cfg then
      (case r of Inl _ \<Rightarrow> save_alert_lifecycle en a s1
       | Inr _ \<Rightarrow> fst (persist_alert_evidence_snapshot L en a (save_alert_lifecycle en a s1))) else s)"
  have p: "persist_and_publish_alert L cfg en a s = publish_alert_lifecycle en a (publish_alert en a s2)"
    by (simp add: persist_and_publish_alert_def sv s2_def)
  have "books s1 = books s" using books_save_alert [of en a s] sv by simp
  then have "books s2 =
      (sd_lifecycle s @ (if oc_repository cfg \<and> \<not> sur_fails en SaveLifecycle then [a] else []),
       sd_usage s, sd_tenants s, sd_gateway_requests s, sd_alert_stream s)"
    by (cases r) (simp_all add: s2_def save_alert_lifecycle_def, simp_all add: books_def)
  then show "sd_lifecycle (persist_and_publish_alert L cfg en a s) =
     sd_lifecycle s @ (if oc_repository cfg \<and> \<not> sur_fails en SaveLifecycle then [a] else [])"
   "sd_usage (persist_and_publish_alert L cfg en a s) = sd_usage s"
   "sd_tenants (persist_and_publish_alert L cfg en a s) = sd_tenants s"
   "sd_gateway_requests (persist_and_publish_alert L cfg en a s) = sd_gateway_requests s"
   "sd_alert_stream (persist_and_publish_alert L cfg en a s) =
      sd_alert_stream s @ (if sur_fails en PublishAlert then [] else [a])"
    by (simp_all add: p books_def publish_alert_def publish_alert_lifecycle_def)
qed

lemma record_usage_event_fields [simp]:
  "sd_lifecycle (record_usage_event en t k a s) = sd_lifecycle s"
  "sd_tenants (record_usage_event en t k a s) = sd_tenants s"
  "sd_gateway_requests (record_usage_event en t k a s) = sd_gateway_requests s"
  "sd_alert_stream (record_usage_event en t k a s) = sd_alert_stream s"
  "sd_usage (record_usage_event en t k a s) = sd_usage s @
     (if sur_fails en RecordUsage then [] else
       [\<lparr>us_tenant_id = t, us_event_type = k, us_alert_type = alert_type a, us_chain_id = alert_chain_id a,
         us_quantity = 1, us_recorded_at = sur_db_now en\<rparr>])"
  by (simp_all add: record_usage_event_def record_usage_def)

lemma gateway_fields:
  assumes "al_tenant_id a = Some t" "gateway_dispatch_alert en a s = (s1, r)"
  shows "s1 = s\<lparr>sd_gateway_requests := sd_gateway_requests s @ [gateway_request_of t a]\<rparr>"
  using assms by (auto simp: gateway_dispatch_alert_def Let_def split: sum.splits prod.splits)

text \<open>What the gateway's answer leaves of an alert.\<close>

lemma metadata_fields [simp]:
  "al_alert_id (apply_dispatch_result_metadata a r) = al_alert_id a"
  "al_event_key (apply_dispatch_result_metadata a r) = al_event_key a"
  "al_tenant_id (apply_dispatch_result_metadata a r) = al_tenant_id a"
  "al_severity (apply_dispatch_result_metadata a r) = al_severity a"
  "al_lifecycle_state (apply_dispatch_result_metadata a r) = al_lifecycle_state a"
  "al_incident_id (apply_dispatch_result_metadata a r) = al_incident_id a"
  "al_pattern_id (apply_dispatch_result_metadata a r) = al_pattern_id a"
  "al_simulation_run_id (apply_dispatch_result_metadata a r) = al_simulation_run_id a"
  by (simp_all add: apply_dispatch_result_metadata_def Let_def)

lemma routes_fields [simp]:
  "al_alert_id (with_escalated_routes en t a s) = al_alert_id a"
  "al_event_key (with_escalated_routes en t a s) = al_event_key a"
  "al_tenant_id (with_escalated_routes en t a s) = al_tenant_id a"
  "al_severity (with_escalated_routes en t a s) = al_severity a"
  "al_lifecycle_state (with_escalated_routes en t a s) = al_lifecycle_state a"
  "al_incident_id (with_escalated_routes en t a s) = al_incident_id a"
  by (simp_all add: with_escalated_routes_def split: sum.split bool.split)

text \<open>The identity of an alert, as far as deliveries and life-cycle changes keep it.\<close>

definition same_alert :: "AlertEvent \<Rightarrow> AlertEvent \<Rightarrow> bool" where
  "same_alert a b \<longleftrightarrow>
     al_alert_id a = al_alert_id b \<and> al_event_key a = al_event_key b \<and> al_severity a = al_severity b
     \<and> al_incident_id a = al_incident_id b"

lemma deliver_fields:
  assumes "deliver_alert L cfg en t a s = (s', a')" "al_tenant_id a = Some t" "oc_repository cfg"
  shows "sd_lifecycle s' = sd_lifecycle s @ (if sur_fails en SaveLifecycle then [] else [a'])"
    "sd_gateway_requests s' = sd_gateway_requests s @ [gateway_request_of t a]"
    "sd_tenants s' = sd_tenants s"
    "sd_usage s' = sd_usage s @ (if sur_fails en RecordUsage then [] else
       [\<lparr>us_tenant_id = t, us_event_type = ''alert_fired'', us_alert_type = alert_type a',
         us_chain_id = alert_chain_id a', us_quantity = 1, us_recorded_at = sur_db_now en\<rparr>])"
    "sd_alert_stream s' = sd_alert_stream s @ (if sur_fails en PublishAlert then [] else [a'])"
    "same_alert a' a" "al_lifecycle_state a' = al_lifecycle_state a" "al_tenant_id a' = Some t"
proof -
  obtain s1 r where g: "gateway_dispatch_alert en a s = (s1, r)" by fastforce
  note s1 = gateway_fields [OF assms(2) g]
  define s2 where "s2 = (case r of Inl _ \<Rightarrow> s1
      | Inr r' \<Rightarrow> save_delivery_attempts en (apply_dispatch_result_metadata a r') r' s1)"
  have a': "a' = (case r of Inl _ \<Rightarrow> a | Inr r' \<Rightarrow> apply_dispatch_result_metadata a r')"
    and s': "s' = record_usage_event en t ''alert_fired'' a' (persist_and_publish_alert L cfg en a' s2)"
    using assms(1,3) g by (auto simp: deliver_alert_def s2_def Let_def split: sum.splits prod.splits)
  have b: "books s2 = books s1" by (simp add: s2_def books_fold_deliveries split: sum.split)
  note f = books_eqD [OF b] s1 persist_fields
  show "sd_lifecycle s' = sd_lifecycle s @ (if sur_fails en SaveLifecycle then [] else [a'])"
    "sd_gateway_requests s' = sd_gateway_requests s @ [gateway_request_of t a]"
    "sd_tenants s' = sd_tenants s"
    "sd_usage s' = sd_usage s @ (if sur_fails en RecordUsage then [] else
       [\<lparr>us_tenant_id = t, us_event_type = ''alert_fired'', us_alert_type = alert_type a',
         us_chain_id = alert_chain_id a', us_quantity = 1, us_recorded_at = sur_db_now en\<rparr>])"
    "sd_alert_stream s' = sd_alert_stream s @ (if sur_fails en PublishAlert then [] else [a'])"
    by (simp_all add: s' f assms(3))
  show "same_alert a' a" "al_lifecycle_state a' = al_lifecycle_state a" "al_tenant_id a' = Some t"
    using assms(2) by (simp_all add: a' same_alert_def split: sum.split)
qed

section \<open>The outcomes of a dispatch\<close>

lemma require_tenant_trimmed:
  "require_alert_tenant_id x c = Inr t \<Longrightarrow> require_alert_tenant_id (Some t) c' = Inr t"
  by (auto simp: require_alert_tenant_id_def non_empty_def bind_eq_Some_conv split: option.splits if_splits)

lemma dispatch_outcomes:
  assumes "dispatch_alert L cfg en alert s = (s', r)" "oc_repository cfg"
  obtains
    (failed) e where "r = Inl e" "s' = s"
      "require_alert_tenant_id (al_tenant_id alert) (''alert '' @ al_alert_id alert) = Inl e
       \<or> (\<exists>t. find_dispatch_duplicate cfg en (alert\<lparr>al_tenant_id := Some t\<rparr>) s = Inl e)"
  | (duplicate) t p where "r = Inr p" "require_alert_tenant_id (al_tenant_id alert) (''alert '' @ al_alert_id alert) = Inr t"
      "find_dispatch_duplicate cfg en (alert\<lparr>al_tenant_id := Some t\<rparr>) s = Inr (Some p)"
      "s' = record_usage_event en t ''alert_suppressed_duplicate'' (alert\<lparr>al_tenant_id := Some t\<rparr>) s"
  | (over_quota) t a limit used where
      "require_alert_tenant_id (al_tenant_id alert) (''alert '' @ al_alert_id alert) = Inr t"
      "find_dispatch_duplicate cfg en (alert\<lparr>al_tenant_id := Some t\<rparr>) s = Inr None"
      "a = with_escalated_routes en t (alert\<lparr>al_tenant_id := Some t\<rparr>) s" "should_enforce_monthly_quota a"
      "check_quota_exceeded L en t s = Inr (Some (limit, used))"
      "r = Inr (suppressed_alert en limit used a)"
      "s' = record_usage_event en t ''alert_suppressed_quota'' (suppressed_alert en limit used a)
              (persist_and_publish_alert L cfg en (suppressed_alert en limit used a) s)"
  | (delivered) t a a' where
      "require_alert_tenant_id (al_tenant_id alert) (''alert '' @ al_alert_id alert) = Inr t"
      "find_dispatch_duplicate cfg en (alert\<lparr>al_tenant_id := Some t\<rparr>) s = Inr None"
      "a = with_escalated_routes en t (alert\<lparr>al_tenant_id := Some t\<rparr>) s"
      "should_enforce_monthly_quota a \<Longrightarrow> \<forall>x. check_quota_exceeded L en t s \<noteq> Inr (Some x)"
      "deliver_alert L cfg en t a s = (s', a')" "r = Inr a'"
proof (cases "require_alert_tenant_id (al_tenant_id alert) (''alert '' @ al_alert_id alert)")
  case (Inl e)
  then show thesis using assms by (intro failed [of e]) (simp_all add: dispatch_alert_def)
next
  case (Inr t)
  let ?a = "alert\<lparr>al_tenant_id := Some t\<rparr>"
  let ?a1 = "with_escalated_routes en t ?a s"
  let ?q = "if should_enforce_monthly_quota ?a1 then check_quota_exceeded L en t s else Inr None"
  show thesis
  proof (cases "find_dispatch_duplicate cfg en ?a s")
    case (Inl e)
    then show thesis using assms Inr by (intro failed [of e]) (auto simp: dispatch_alert_def Let_def)
  next
    case dup: (Inr p)
    show thesis
    proof (cases p)
      case (Some p')
      then show thesis using assms Inr dup by (intro duplicate [of p' t]) (simp_all add: dispatch_alert_def Let_def)
    next
      case None
      show thesis
      proof (cases "\<exists>limit used. ?q = Inr (Some (limit, used))")
        case True
        then obtain limit used where q: "?q = Inr (Some (limit, used))" by blast
        then have e: "should_enforce_monthly_quota ?a1" "check_quota_exceeded L en t s = Inr (Some (limit, used))"
          by (simp_all split: if_splits)
        show thesis using assms Inr dup None e
          by (intro over_quota [of t ?a1 limit used]) (simp_all add: dispatch_alert_def Let_def)
      next
        case False
        obtain s2 a' where d: "deliver_alert L cfg en t ?a1 s = (s2, a')" by fastforce
        have "(s', r) = (s2, Inr a')"
          using assms Inr dup None False d
          by (auto simp: dispatch_alert_def Let_def split: sum.splits option.splits prod.splits if_splits)
        then show thesis using Inr dup None False d
          by (intro delivered [of t ?a1 a']) (auto split: if_splits)
      qed
    qed
  qed
qed

section \<open>Messages\<close>

datatype orch_message = Detected DetectionResult | FinalityChanged FinalityUpdate

fun orch_step ::
  "'a orch_libs_scheme \<Rightarrow> orch_config \<Rightarrow> orch_state \<Rightarrow> surroundings \<times> orch_message \<Rightarrow> orch_state" where
  "orch_step L cfg st (en, Detected d) = on_detection L cfg en d st"
| "orch_step L cfg st (en, FinalityChanged u) = on_finality_update L cfg en u st"

lemma remember_alert_store [simp]: "os_store (remember_alert cfg en k a st) = os_store st"
  by (simp add: remember_alert_def)

text \<open>
  What a message does to the store: nothing but incident bookkeeping, or one dispatch after it.
\<close>

lemma message_store:
  obtains s1 where "books s1 = books (os_store st)" "os_store (orch_step L cfg st (en, m)) = s1"
  | s1 a where "books s1 = books (os_store st)"
      "os_store (orch_step L cfg st (en, m)) = fst (dispatch_alert L cfg en a s1)"
proof (cases m)
  case (Detected d)
  show thesis
  proof (cases "dr_event_key d = None \<or> dr_triggered_rule_ids d = [] \<or> (\<exists>e. alert_from_detection en d = Inl e)")
    case True
    then show thesis using Detected
      by (intro that(1) [of "os_store st"]) (auto simp: on_detection_def split: option.split)
  next
    case False
    then obtain k a where k: "dr_event_key d = Some k" "dr_triggered_rule_ids d \<noteq> []" "alert_from_detection en d = Inr a"
      by (cases "alert_from_detection en d") auto
    obtain s1 r where at: "attach_incident_context L cfg en a d (os_store st) = (s1, r)" by fastforce
    then have b: "books s1 = books (os_store st)"
      using books_attach [of L cfg en a d "os_store st"] by simp
    show thesis
    proof (cases r)
      case (Inl e)
      then show thesis using b k at Detected by (intro that(1) [of s1]) (simp_all add: on_detection_def)
    next
      case (Inr a1)
      then show thesis using b k at Detected
        by (intro that(2) [of s1 a1]) (simp_all add: on_detection_def split: prod.split sum.split)
    qed
  qed
next
  case (FinalityChanged u)
  show thesis
  proof (cases "fu_lifecycle_state u \<in> {Confirmed, Retracted} \<and>
      (\<exists>x. known_alert cfg en (fu_event_key u) st = Some x \<and> al_lifecycle_state x \<noteq> fu_lifecycle_state u)")
    case True
    then obtain x where x: "fu_lifecycle_state u \<in> {Confirmed, Retracted}"
      "known_alert cfg en (fu_event_key u) st = Some x" "al_lifecycle_state x \<noteq> fu_lifecycle_state u" by blast
    let ?a = "apply_finality en (fu_lifecycle_state u) x"
    let ?s1 = "if oc_repository cfg then update_incident_for_finality en u ?a (os_store st) else os_store st"
    show thesis
      by (rule that(2) [of ?s1 ?a])
         (use x FinalityChanged in \<open>auto simp: on_finality_update_def Let_def split: prod.split sum.split\<close>)
  next
    case False
    then show thesis using FinalityChanged
      by (intro that(1) [of "os_store st"])
         (auto simp: on_finality_update_def split: option.split)
  qed
qed

section \<open>The monthly quota\<close>

definition limited_requests :: "string \<Rightarrow> store \<Rightarrow> gateway_request list" where
  "limited_requests t s =
     filter (\<lambda>r. gr_tenant_id r = t \<and> should_enforce_monthly_quota (gr_payload r)) (sd_gateway_requests s)"

definition quota_inv :: "datetime \<Rightarrow> string \<Rightarrow> int \<Rightarrow> store \<Rightarrow> bool" where
  "quota_inv month t q s \<longleftrightarrow>
     map_of (sd_tenants s) t = Some (Some q)
     \<and> int (length (limited_requests t s)) \<le> q
     \<and> int (length (limited_requests t s)) \<le> usage_since t ''alert_fired'' month (sd_usage s)"

text \<open>The surroundings in which the quota can be checked and kept, within one month.\<close>

definition quota_ok :: "'a orch_libs_scheme \<Rightarrow> orch_config \<Rightarrow> datetime \<Rightarrow> surroundings \<Rightarrow> bool" where
  "quota_ok L cfg month en \<longleftrightarrow>
     oc_repository cfg \<and> \<not> sur_fails en TenantTable \<and> \<not> sur_fails en LoadQuota \<and> \<not> sur_fails en CountMonth
     \<and> \<not> sur_fails en RecordUsage \<and> ol_month_start L (sur_db_now en) = month \<and> month \<le> sur_db_now en"

lemma quota_inv_books: "books s' = books s \<Longrightarrow> quota_inv m t q s' = quota_inv m t q s"
  by (simp add: quota_inv_def limited_requests_def books_def)

lemma check_quota_value:
  assumes "quota_ok L cfg m en" "map_of (sd_tenants s) t = Some (Some q)" "0 \<le> q"
  shows "check_quota_exceeded L en t s =
     Inr (if q \<le> usage_since t ''alert_fired'' m (sd_usage s) then Some (q, usage_since t ''alert_fired'' m (sd_usage s)) else None)"
  using assms by (simp add: quota_ok_def check_quota_exceeded_def load_tenant_monthly_alert_quota_def
      count_usage_event_quantity_for_current_month_def)

lemma quota_inv_dispatch:
  assumes "quota_ok L cfg m en" "quota_inv m t q s" "0 \<le> q" "dispatch_alert L cfg en alert s = (s', r)"
  shows "quota_inv m t q s'"
proof -
  have repo: "oc_repository cfg" using assms(1) by (simp add: quota_ok_def)
  from assms(4) repo show ?thesis
  proof (cases rule: dispatch_outcomes)
    case (delivered t' a a')
    have t': "al_tenant_id a = Some t'" using delivered(3) by simp
    note f = deliver_fields [OF delivered(5) t' repo]
    let ?u = "usage_since t ''alert_fired'' m (sd_usage s)"
    have below: "t' = t \<Longrightarrow> should_enforce_monthly_quota a \<Longrightarrow> ?u < q"
      using delivered(4) check_quota_value [OF assms(1) _ assms(3), of s t] assms(2)
      by (auto simp: quota_inv_def split: if_splits)
    have u: "usage_since t ''alert_fired'' m (sd_usage s') = ?u + (if t' = t then 1 else 0)"
      using assms(1) by (simp add: f quota_ok_def usage_since_append)
    have l: "length (limited_requests t s') =
        length (limited_requests t s) + (if t' = t \<and> should_enforce_monthly_quota a then 1 else 0)"
      by (simp add: limited_requests_def f gateway_request_of_def)
    show ?thesis using assms(2) below u l by (auto simp: quota_inv_def f)
  next
    case (duplicate t' p)
    then show ?thesis using assms(1,2)
      by (simp add: quota_inv_def limited_requests_def quota_ok_def usage_since_append)
  next
    case (over_quota t' a limit used)
    then show ?thesis using assms(1,2)
      by (simp add: quota_inv_def limited_requests_def quota_ok_def usage_since_append persist_fields)
  next
    case (failed e)
    then show ?thesis using assms(2) by simp
  qed
qed

lemma quota_step:
  assumes "quota_ok L cfg m en" "0 \<le> q" "quota_inv m t q (os_store st)"
  shows "quota_inv m t q (os_store (orch_step L cfg st (en, msg)))"
proof (cases rule: message_store [of st L cfg en msg])
  case (1 s1)
  then show ?thesis using assms(3) quota_inv_books [of s1 "os_store st" m t q] by metis
next
  case (2 s1 a)
  obtain s' r where d: "dispatch_alert L cfg en a s1 = (s', r)" by fastforce
  have "quota_inv m t q s1" using 2(1) assms(3) quota_inv_books by blast
  from quota_inv_dispatch [OF assms(1) this assms(2) d] show ?thesis using 2(2) d by simp
qed

interpretation quota: guarded_machine "orch_step L cfg" "\<lambda>(en, _). quota_ok L cfg m en"
    "\<lambda>st. 0 \<le> q \<and> quota_inv m t q (os_store st)" for L cfg m t q
  by unfold_locales (auto simp: quota_step)

lemma usage_since_nonneg: "list_all (\<lambda>u. 0 \<le> us_quantity u) us \<Longrightarrow> 0 \<le> usage_since t k m us"
  unfolding usage_since_def by (rule sum_list_nonneg) (auto simp: list_all_iff)

text \<open>
  (C2) The monthly quota holds for provisional and confirmed alerts: from a store without requests to the
  gateway, over every history of detections and finality updates within one month, in which the
  statements about quota and usage do not fail, at most as many requests to the gateway carry a
  provisional or confirmed alert of a tenant that is not critical as the tenant's quota allows.
  Critical alerts and retractions are exempt, and are sent whatever the quota.
\<close>

theorem quota_is_never_exceeded:
  assumes "map_of (sd_tenants (os_store st)) t = Some (Some q)" and "0 \<le> q"
    and "sd_gateway_requests (os_store st) = []" and "list_all (\<lambda>u. 0 \<le> us_quantity u) (sd_usage (os_store st))"
    and "list_all (\<lambda>(en, _). quota_ok L cfg month en) ms"
  shows "int (length (limited_requests t (os_store (foldl (orch_step L cfg) st ms)))) \<le> q"
proof -
  have "0 \<le> q \<and> quota_inv month t q (os_store st)"
    using assms(1-4) usage_since_nonneg by (simp add: quota_inv_def limited_requests_def)
  from quota.ok_run [OF assms(5) this] show ?thesis by (simp add: quota_inv_def)
qed

section \<open>The cache of alerts\<close>

text \<open>
  Where every stored life-cycle row is written and read, the cached alert of an event key is the
  latest stored one.
\<close>

definition coherent :: "orch_state \<Rightarrow> bool" where
  "coherent st \<longleftrightarrow> distinct (map fst (os_alerts st))
     \<and> (\<forall>k a. map_of (os_alerts st) k = Some a \<longrightarrow> latest_alert k (sd_lifecycle (os_store st)) = Some a)"

definition store_ok :: "orch_config \<Rightarrow> surroundings \<Rightarrow> bool" where
  "store_ok cfg en \<longleftrightarrow> oc_repository cfg \<and> \<not> sur_fails en SaveLifecycle \<and> \<not> sur_fails en FindFinalityAlert"

lemma prune_sub:
  assumes "map_of (prune_alert_contexts now ttl n cache) k = Some a" "distinct (map fst cache)"
  shows "map_of cache k = Some a"
proof -
  have "(k, a) \<in> set (prune_alert_contexts now ttl n cache)" using assms(1) by (rule map_of_SomeD)
  then have "(k, a) \<in> set cache" by (auto simp: prune_alert_contexts_def Let_def split: if_splits)
  then show ?thesis using assms(2) by simp
qed

lemma distinct_prune:
  "distinct (map fst cache) \<Longrightarrow> distinct (map fst (prune_alert_contexts now ttl n cache))"
  by (simp add: prune_alert_contexts_def Let_def distinct_map_filter)

lemma coherent_remember:
  assumes "coherent st" "latest_alert k (sd_lifecycle s) = Some a"
    and "\<And>k'. k' \<noteq> k \<Longrightarrow> latest_alert k' (sd_lifecycle s) = latest_alert k' (sd_lifecycle (os_store st))"
  shows "coherent (remember_alert cfg en k a (st\<lparr>os_store := s\<rparr>))"
proof -
  have d: "distinct (map fst (AList.update k a (os_alerts st)))"
    using assms(1) by (simp add: coherent_def distinct_update)
  have "latest_alert k' (sd_lifecycle s) = Some b"
    if "map_of (prune_alert_contexts now ttl n (AList.update k a (os_alerts st))) k' = Some b" for now ttl n k' b
    using prune_sub [OF that d] assms by (auto simp: coherent_def update_conv' split: if_splits)
  then show ?thesis using d by (simp add: coherent_def remember_alert_def distinct_prune)
qed

lemma coherent_books: "coherent st \<Longrightarrow> books s = books (os_store st) \<Longrightarrow> coherent (st\<lparr>os_store := s\<rparr>)"
  by (simp add: coherent_def books_def)

lemma suppressed_fields [simp]:
  "al_event_key (suppressed_alert en l u a) = al_event_key a"
  "al_alert_id (suppressed_alert en l u a) = al_alert_id a"
  "al_tenant_id (suppressed_alert en l u a) = al_tenant_id a"
  "al_severity (suppressed_alert en l u a) = al_severity a"
  "al_lifecycle_state (suppressed_alert en l u a) = Suppressed"
  by (simp_all add: suppressed_alert_def)

text \<open>A dispatch that succeeds leaves its alert as the latest one of its event key.\<close>

lemma dispatch_latest:
  assumes "dispatch_alert L cfg en a s = (s', Inr x)" "store_ok cfg en" "al_event_key a = Some k"
  shows "latest_alert k (sd_lifecycle s') = Some x"
    and "k' \<noteq> k \<Longrightarrow> latest_alert k' (sd_lifecycle s') = latest_alert k' (sd_lifecycle s)"
proof -
  have repo: "oc_repository cfg" "\<not> sur_fails en SaveLifecycle" using assms(2) by (simp_all add: store_ok_def)
  from assms(1) repo(1) have "latest_alert k (sd_lifecycle s') = Some x \<and>
      (k' \<noteq> k \<longrightarrow> latest_alert k' (sd_lifecycle s') = latest_alert k' (sd_lifecycle s))"
  proof (cases rule: dispatch_outcomes)
    case (duplicate t p)
    have "latest_alert k (sd_lifecycle s) = Some p"
      using duplicate(3) assms(3)
      by (auto simp: find_dispatch_duplicate_def bind_res_eq_Inr find_latest_alert_by_event_key_def
          split: option.splits if_splits)
    then show ?thesis using duplicate by simp
  next
    case (over_quota t b limit used)
    then show ?thesis using assms(3) repo by (simp add: persist_fields latest_alert_snoc)
  next
    case (delivered t b a')
    have b: "al_tenant_id b = Some t" "al_event_key b = Some k" using delivered(3) assms(3) by simp_all
    note f = deliver_fields [OF delivered(5) b(1) repo(1)]
    show ?thesis using delivered(6) f(1,6) b(2) repo by (simp add: latest_alert_snoc same_alert_def)
  qed simp
  then show "latest_alert k (sd_lifecycle s') = Some x"
    and "k' \<noteq> k \<Longrightarrow> latest_alert k' (sd_lifecycle s') = latest_alert k' (sd_lifecycle s)" by simp_all
qed

lemma dispatch_failed:
  assumes "dispatch_alert L cfg en a s = (s', Inl e)" "oc_repository cfg"
  shows "s' = s"
  using assms by (cases rule: dispatch_outcomes) simp_all

lemma coherent_dispatched:
  assumes "coherent st" "store_ok cfg en" "al_event_key a = Some k" "books s1 = books (os_store st)"
    and "dispatch_alert L cfg en a s1 = (s2, r)"
  shows "coherent (case r of Inl _ \<Rightarrow> st\<lparr>os_store := s2\<rparr>
     | Inr x \<Rightarrow> remember_alert cfg en k x (st\<lparr>os_store := s2\<rparr>))"
proof (cases r)
  case (Inl e)
  then have "s2 = s1" using dispatch_failed [of L cfg en a s1 s2 e] assms(2,5) by (simp add: store_ok_def)
  then show ?thesis using Inl assms(1,4) coherent_books by simp
next
  case (Inr x)
  note l = dispatch_latest [OF assms(5) [unfolded Inr] assms(2,3)]
  have "sd_lifecycle s1 = sd_lifecycle (os_store st)" using assms(4) by (simp add: books_def)
  then show ?thesis using coherent_remember [OF assms(1) l(1)] l(2) Inr by simp
qed

text \<open>What the incident context leaves of an alert.\<close>

lemma attach_alert_fields:
  assumes "attach_incident_context L cfg en a d s = (s1, Inr b)"
  shows "al_event_key b = al_event_key a" "al_alert_id b = al_alert_id a" "al_tenant_id b = al_tenant_id a"
    "al_severity b = al_severity a" "al_lifecycle_state b = al_lifecycle_state a"
  using assms
  by (auto simp: attach_incident_context_def join_incident_def attach_blast_radius_def with_exposures_def Let_def
      split: sum.splits prod.splits if_splits option.splits)

lemma alert_from_detection_fields:
  assumes "alert_from_detection en d = Inr a"
  shows "al_event_key a = dr_event_key d" "al_alert_id a = sur_alert_uuid en"
    "al_severity a = dr_severity d" "al_lifecycle_state a = dr_lifecycle_state d"
    "\<exists>t. al_tenant_id a = Some t \<and> require_alert_tenant_id (dr_tenant_id d) (''detection '' @ dr_detection_id d) = Inr t"
  using assms by (auto simp: alert_from_detection_def bind_res_eq_Inr)

lemma known_alert_coherent:
  assumes "coherent st" "store_ok cfg en"
  shows "known_alert cfg en k st = latest_alert k (sd_lifecycle (os_store st))"
  using assms by (auto simp: coherent_def known_alert_def store_ok_def find_latest_alert_by_event_key_def split: option.split)

lemma coherent_on_detection:
  assumes "coherent st" "store_ok cfg en"
  shows "coherent (on_detection L cfg en d st)"
proof (cases "dr_event_key d = None \<or> dr_triggered_rule_ids d = [] \<or> (\<exists>e. alert_from_detection en d = Inl e)")
  case True
  then show ?thesis using assms(1) by (auto simp: on_detection_def split: option.split)
next
  case False
  then obtain k a where k: "dr_event_key d = Some k" "dr_triggered_rule_ids d \<noteq> []" "alert_from_detection en d = Inr a"
    by (cases "alert_from_detection en d") auto
  obtain s1 r where at: "attach_incident_context L cfg en a d (os_store st) = (s1, r)" by fastforce
  then have b: "books s1 = books (os_store st)" using books_attach [of L cfg en a d "os_store st"] by simp
  show ?thesis
  proof (cases r)
    case (Inl e)
    then show ?thesis using k at coherent_books [OF assms(1) b] by (simp add: on_detection_def)
  next
    case (Inr a1)
    obtain s2 r2 where dp: "dispatch_alert L cfg en a1 s1 = (s2, r2)" by fastforce
    have "al_event_key a1 = Some k"
      using attach_alert_fields [OF at [unfolded Inr]] alert_from_detection_fields [OF k(3)] k(1) by simp
    from coherent_dispatched [OF assms this b dp] show ?thesis
      using k at Inr dp by (simp add: on_detection_def)
  qed
qed

lemma coherent_on_finality_update:
  assumes "coherent st" "store_ok cfg en"
  shows "coherent (on_finality_update L cfg en u st)"
proof (cases "fu_lifecycle_state u \<in> {Confirmed, Retracted} \<and>
    (\<exists>x. known_alert cfg en (fu_event_key u) st = Some x \<and> al_lifecycle_state x \<noteq> fu_lifecycle_state u)")
  case True
  then obtain x where x: "fu_lifecycle_state u \<in> {Confirmed, Retracted}"
    "known_alert cfg en (fu_event_key u) st = Some x" "al_lifecycle_state x \<noteq> fu_lifecycle_state u" by blast
  let ?a = "apply_finality en (fu_lifecycle_state u) x"
  let ?s1 = "update_incident_for_finality en u ?a (os_store st)"
  obtain s2 r2 where dp: "dispatch_alert L cfg en ?a ?s1 = (s2, r2)" by fastforce
  have "al_event_key ?a = Some (fu_event_key u)"
    using x(2) latest_alert_Some(2) known_alert_coherent [OF assms] by (simp add: apply_finality_def)
  from coherent_dispatched [OF assms this _ dp] show ?thesis
    using x dp assms(2) by (auto simp: on_finality_update_def store_ok_def Let_def)
next
  case False
  then show ?thesis using assms(1) by (auto simp: on_finality_update_def split: option.split)
qed

interpretation cache: guarded_machine "orch_step L cfg" "\<lambda>(en, _). store_ok cfg en" coherent for L cfg
proof
  fix e :: "surroundings \<times> orch_message" and s :: orch_state
  assume "case e of (en, _) \<Rightarrow> store_ok cfg en" "coherent s"
  then show "coherent (orch_step L cfg s e)"
    by (cases e; cases "snd e") (auto simp: coherent_on_detection coherent_on_finality_update)
qed

text \<open>The store after a finality update, given the alert that is known for it.\<close>

definition finality_store ::
  "'a orch_libs_scheme \<Rightarrow> orch_config \<Rightarrow> surroundings \<Rightarrow> FinalityUpdate \<Rightarrow> store \<Rightarrow> AlertEvent option \<Rightarrow> store" where
  "finality_store L cfg en u s known =
     (case known of
        Some x \<Rightarrow>
          if fu_lifecycle_state u \<in> {Confirmed, Retracted} \<and> al_lifecycle_state x \<noteq> fu_lifecycle_state u then
            (let a = apply_finality en (fu_lifecycle_state u) x
             in fst (dispatch_alert L cfg en a (if oc_repository cfg then update_incident_for_finality en u a s else s)))
          else s
      | None \<Rightarrow> s)"

lemma on_finality_update_store:
  "os_store (on_finality_update L cfg en u st) =
     finality_store L cfg en u (os_store st) (known_alert cfg en (fu_event_key u) st)"
proof (cases "known_alert cfg en (fu_event_key u) st")
  case (Some x)
  let ?a = "apply_finality en (fu_lifecycle_state u) x"
  obtain s2 r where "dispatch_alert L cfg en ?a
      (if oc_repository cfg then update_incident_for_finality en u ?a (os_store st) else os_store st) = (s2, r)" by fastforce
  then show ?thesis using Some
    by (cases r) (auto simp: on_finality_update_def finality_store_def Let_def)
qed (simp add: on_finality_update_def finality_store_def)


section \<open>Retractions\<close>

text \<open>Dispatching leaves the incidents alone.\<close>

lemma incidents_save_alert: "sd_incidents (fst (save_alert en a s)) = sd_incidents s"
  by (simp add: save_alert_def split: sum.split)

lemma incidents_insert_evidence: "sd_incidents (fst (insert_evidence en n rs s)) = sd_incidents s"
  by (induction en n rs s rule: insert_evidence.induct) simp_all

lemma incidents_evidence: "sd_incidents (fst (persist_alert_evidence_snapshot L en a s)) = sd_incidents s"
  by (auto simp: persist_alert_evidence_snapshot_def save_alert_evidence_snapshot_batch_def Let_def
      incidents_insert_evidence split: sum.split prod.split list.split)

lemma incidents_persist: "sd_incidents (persist_and_publish_alert L cfg en a s) = sd_incidents s"
proof -
  obtain s1 r where sv: "save_alert en a s = (s1, r)" by fastforce
  then have "sd_incidents s1 = sd_incidents s" using incidents_save_alert [of en a s] by simp
  then show ?thesis
    by (cases r) (simp_all add: persist_and_publish_alert_def sv publish_alert_def publish_alert_lifecycle_def
        save_alert_lifecycle_def incidents_evidence Let_def)
qed

lemma incidents_usage: "sd_incidents (record_usage_event en t k a s) = sd_incidents s"
  by (simp add: record_usage_event_def record_usage_def)

lemma incidents_deliveries: "sd_incidents (save_delivery_attempts en a r s) = sd_incidents s"
proof -
  have "sd_incidents (fold (\<lambda>c. save_alert_delivery_attempt en i t (gc_channel c) (gc_delivered c)
      (gc_reason c) (gc_status_code c)) cs s) = sd_incidents s" for i t cs
    by (induction cs arbitrary: s) (simp_all add: save_alert_delivery_attempt_def)
  then show ?thesis by (simp add: save_delivery_attempts_def)
qed

lemma incidents_gateway: "sd_incidents (fst (gateway_dispatch_alert en a s)) = sd_incidents s"
  by (simp add: gateway_dispatch_alert_def Let_def split: option.split sum.split prod.split)

lemma incidents_deliver: "sd_incidents (fst (deliver_alert L cfg en t a s)) = sd_incidents s"
proof -
  obtain s1 r where g: "gateway_dispatch_alert en a s = (s1, r)" by fastforce
  then have "sd_incidents s1 = sd_incidents s" using incidents_gateway [of en a s] by simp
  then show ?thesis
    by (cases r) (simp_all add: deliver_alert_def g Let_def incidents_usage incidents_persist incidents_deliveries)
qed

lemma incidents_dispatch:
  assumes "dispatch_alert L cfg en a s = (s', r)" "oc_repository cfg"
  shows "sd_incidents s' = sd_incidents s"
  using assms
proof (cases rule: dispatch_outcomes)
  case (delivered t b b')
  then show ?thesis using incidents_deliver [of L cfg en t b s] by simp
qed (simp_all add: incidents_usage incidents_persist)

text \<open>
  The update of an alert is never a duplicate of that alert: where its stored predecessor is the
  latest one of the event key, the duplicate check finds the same identifier.
\<close>

lemma no_duplicate_of_itself:
  assumes "latest_alert k (sd_lifecycle s) = Some x" "al_event_key a = Some k" "al_alert_id a = al_alert_id x"
    and "\<not> sur_fails en FindDuplicate" "duplicate_suppression_window (oc_window_env cfg) = Inr w"
  shows "find_dispatch_duplicate cfg en a s = Inr None"
  using assms by (cases w) (simp_all add: find_dispatch_duplicate_def find_latest_alert_by_event_key_def
      should_suppress_duplicate_alert_def)

lemma apply_finality_fields [simp]:
  "al_alert_id (apply_finality en l a) = al_alert_id a"
  "al_event_key (apply_finality en l a) = al_event_key a"
  "al_tenant_id (apply_finality en l a) = al_tenant_id a"
  "al_severity (apply_finality en l a) = al_severity a"
  "al_lifecycle_state (apply_finality en l a) = l"
  "al_incident_id (apply_finality en l a) = al_incident_id a"
  "al_created_at (apply_finality en l a) = sur_now_alert en"
  by (simp_all add: apply_finality_def)




section \<open>Errors\<close>

lemma attach_succeeds:
  assumes "require_alert_tenant_id (al_tenant_id a) (''alert '' @ al_alert_id a) = Inr t"
  shows "\<exists>s1 b. attach_incident_context L cfg en a d s = (s1, Inr b)"
  using assms by (simp add: attach_incident_context_def Let_def case_prod_beta split: sum.split)

lemma window_pos: "duplicate_suppression_window env = Inr (Some w) \<Longrightarrow> 0 < w"
  by (auto simp: duplicate_suppression_window_def chrono_seconds_def nanos_per_sec_def Let_def split: if_splits)

lemma detection_dispatched:
  assumes "dr_event_key d = Some k" "dr_triggered_rule_ids d \<noteq> []"
    and "require_alert_tenant_id (dr_tenant_id d) (''detection '' @ dr_detection_id d) = Inr t"
  obtains a s1 s2 r where "dispatch_alert L cfg en a s1 = (s2, r)" "books s1 = books (os_store st)"
    "al_event_key a = Some k" "al_alert_id a = sur_alert_uuid en" "al_tenant_id a = Some t"
    "al_severity a = dr_severity d" "al_lifecycle_state a = dr_lifecycle_state d"
    "on_detection L cfg en d st = (case r of Inl _ \<Rightarrow> st\<lparr>os_store := s2\<rparr>
      | Inr x \<Rightarrow> remember_alert cfg en k x (st\<lparr>os_store := s2\<rparr>))"
proof -
  obtain a0 where a0: "alert_from_detection en d = Inr a0" using assms(3) by (simp add: alert_from_detection_def)
  note f0 = alert_from_detection_fields [OF a0]
  have t0: "al_tenant_id a0 = Some t" using f0(5) assms(3) by auto
  obtain s1 a1 where at: "attach_incident_context L cfg en a0 d (os_store st) = (s1, Inr a1)"
    using attach_succeeds [of a0 t] t0 require_tenant_trimmed [OF assms(3)] by metis
  note f1 = attach_alert_fields [OF at]
  have b: "books s1 = books (os_store st)" using books_attach [of L cfg en a0 d "os_store st"] at by simp
  obtain s2 r where dp: "dispatch_alert L cfg en a1 s1 = (s2, r)" by fastforce
  show thesis
  proof (rule that [OF dp b])
    show "on_detection L cfg en d st = (case r of Inl _ \<Rightarrow> st\<lparr>os_store := s2\<rparr>
      | Inr x \<Rightarrow> remember_alert cfg en k x (st\<lparr>os_store := s2\<rparr>))"
      using assms(1,2) a0 at dp by (simp add: on_detection_def split: sum.split)
  qed (use f0 f1 t0 assms(1) in simp_all)
qed

text \<open>While the duplicate lookup works, a dispatch repeats an alert, suppresses it or sends it.\<close>

lemma dispatch_not_lost:
  assumes "dispatch_alert L cfg en a s = (s', r)" "oc_repository cfg"
    and "duplicate_suppression_window (oc_window_env cfg) = Inr (Some w)" "\<not> sur_fails en FindDuplicate"
    and "al_event_key a = Some k" "al_tenant_id a = Some t" "\<And>c. require_alert_tenant_id (Some t) c = Inr t"
  shows "(\<exists>p. latest_alert k (sd_lifecycle s) = Some p \<and> al_severity p = al_severity a
              \<and> sur_now_duplicate en - al_created_at p \<le> w
              \<and> sd_alert_stream s' = sd_alert_stream s \<and> sd_gateway_requests s' = sd_gateway_requests s)
       \<or> (\<exists>b. al_alert_id b = al_alert_id a \<and> al_event_key b = Some k \<and> al_tenant_id b = Some t
              \<and> sd_alert_stream s' = sd_alert_stream s @ (if sur_fails en PublishAlert then [] else [b])
              \<and> (if al_lifecycle_state b = Suppressed \<and> al_lifecycle_state a \<noteq> Suppressed
                 then sd_gateway_requests s' = sd_gateway_requests s
                 else \<exists>c. same_alert c b \<and> sd_gateway_requests s' = sd_gateway_requests s @ [gateway_request_of t c]))"
proof -
  have lookt: "\<exists>p. find_dispatch_duplicate cfg en (a\<lparr>al_tenant_id := Some t'\<rparr>) s = Inr p" for t'
    using assms(3-5) by (simp add: find_dispatch_duplicate_def find_latest_alert_by_event_key_def)
  from assms(1,2) show ?thesis
  proof (cases rule: dispatch_outcomes)
    case (failed e)
    obtain t' where "find_dispatch_duplicate cfg en (a\<lparr>al_tenant_id := Some t'\<rparr>) s = Inl e"
      using failed(3) assms(6,7) by auto
    with lookt [of t'] show ?thesis by auto
  next
    case (duplicate t' p)
    have l: "latest_alert k (sd_lifecycle s) = Some p"
      "should_suppress_duplicate_alert (sur_now_duplicate en) (a\<lparr>al_tenant_id := Some t'\<rparr>) p w"
      using duplicate(3) assms(3-5)
      by (auto simp: find_dispatch_duplicate_def find_latest_alert_by_event_key_def split: option.splits if_splits)
    then have "al_severity p = al_severity a" "sur_now_duplicate en - al_created_at p \<le> w"
      using window_pos [OF assms(3)] by (auto simp: should_suppress_duplicate_alert_def Let_def split: if_splits)
    then show ?thesis using l(1) duplicate(4) by simp
  next
    case (over_quota t' b limit used)
    let ?a = "suppressed_alert en limit used b"
    have "t' = t" using over_quota(1) assms(6,7) by simp
    then have f: "al_alert_id ?a = al_alert_id a" "al_event_key ?a = Some k" "al_tenant_id ?a = Some t"
      "al_lifecycle_state ?a = Suppressed" "al_lifecycle_state a \<noteq> Suppressed"
      using over_quota(3,4) assms(5) by (auto simp: should_enforce_monthly_quota_def)
    show ?thesis
      by (rule disjI2, rule exI [of _ ?a]) (use f over_quota(7) in \<open>simp add: persist_fields\<close>)
  next
    case (delivered t' b b')
    have t': "t' = t" using delivered(1) assms(6,7) by simp
    have bt: "al_tenant_id b = Some t'" using delivered(3) by simp
    note f = deliver_fields [OF delivered(5) bt assms(2)]
    have g: "al_alert_id b' = al_alert_id a" "al_event_key b' = Some k" "same_alert b b'"
      "al_lifecycle_state b' = al_lifecycle_state a"
      using f(6,7) delivered(3) assms(5) by (simp_all add: same_alert_def)
    show ?thesis
      by (rule disjI2, rule exI [of _ b']) (use f g t' in auto)
  qed
qed

text \<open>
  (C14) Only a failing duplicate lookup loses an alert: whichever other statements, requests or
  publications fail, a detection that makes an alert is either a repetition of the latest stored alert
  within the suppression window, or its alert is published on the alert stream (unless just that fails),
  as suppressed by the quota or after a request to the gateway. Where the lookup fails the detection
  leaves no trace but its incident.
\<close>

theorem only_failed_lookup_loses_alert:
  assumes "dr_event_key d = Some k" and "dr_triggered_rule_ids d \<noteq> []"
    and "require_alert_tenant_id (dr_tenant_id d) (''detection '' @ dr_detection_id d) = Inr t"
    and "oc_repository cfg" and "duplicate_suppression_window (oc_window_env cfg) = Inr (Some w)"
  shows "let s = os_store st; st' = on_detection L cfg en d st; s' = os_store st'
    in if sur_fails en FindDuplicate
       then books s' = books s \<and> os_alerts st' = os_alerts st
       else (\<exists>p. latest_alert k (sd_lifecycle s) = Some p \<and> al_severity p = dr_severity d
                 \<and> sur_now_duplicate en - al_created_at p \<le> w
                 \<and> sd_alert_stream s' = sd_alert_stream s \<and> sd_gateway_requests s' = sd_gateway_requests s)
          \<or> (\<exists>a. al_alert_id a = sur_alert_uuid en \<and> al_event_key a = Some k \<and> al_tenant_id a = Some t
                 \<and> sd_alert_stream s' = sd_alert_stream s @ (if sur_fails en PublishAlert then [] else [a])
                 \<and> (if al_lifecycle_state a = Suppressed \<and> dr_lifecycle_state d \<noteq> Suppressed
                    then sd_gateway_requests s' = sd_gateway_requests s
                    else \<exists>b. same_alert b a \<and> sd_gateway_requests s' = sd_gateway_requests s @ [gateway_request_of t b]))"
proof (rule detection_dispatched [OF assms(1-3), of L cfg en st])
  fix a s1 s2 r
  assume dp: "dispatch_alert L cfg en a s1 = (s2, r)" and b: "books s1 = books (os_store st)"
    and key: "al_event_key a = Some k" "al_alert_id a = sur_alert_uuid en" "al_tenant_id a = Some t"
      "al_severity a = dr_severity d" "al_lifecycle_state a = dr_lifecycle_state d"
    and st': "on_detection L cfg en d st = (case r of Inl _ \<Rightarrow> st\<lparr>os_store := s2\<rparr>
      | Inr x \<Rightarrow> remember_alert cfg en k x (st\<lparr>os_store := s2\<rparr>))"
  note bf = books_eqD [OF b]
  show ?thesis
  proof (cases "sur_fails en FindDuplicate")
    case True
    then have "find_dispatch_duplicate cfg en (a\<lparr>al_tenant_id := Some t'\<rparr>) s1
        = Inl (Err ''find_latest_alert_by_event_key'')" for t'
      using key(1) assms(5) by (simp add: find_dispatch_duplicate_def find_latest_alert_by_event_key_def)
    with dp assms(4) obtain e where "r = Inl e" "s2 = s1"
      by (cases rule: dispatch_outcomes) simp_all
    then show ?thesis using True st' bf by (simp add: books_def)
  next
    case False
    have s': "os_store (on_detection L cfg en d st) = s2" using st' by (simp split: sum.split)
    show ?thesis
      using dispatch_not_lost [OF dp assms(4,5) False key(1,3) require_tenant_trimmed [OF assms(3)]]
      unfolding Let_def s' if_not_P [OF False] key bf .
  qed
qed

text \<open>
  Confirmations use up quota again, and can be suppressed: when the event of a non-critical alert is
  confirmed while the tenant's quota is used up (each alert that was sent counts, and so did this
  one), nothing is sent and the alert, delivered before, is stored as suppressed.
\<close>

lemma confirmation_over_quota_is_suppressed:
  assumes "coherent st" and "store_ok cfg en" and "quota_ok L cfg month en" and "\<not> sur_fails en FindDuplicate"
    and "duplicate_suppression_window (oc_window_env cfg) = Inr w"
    and "latest_alert (fu_event_key u) (sd_lifecycle (os_store st)) = Some x"
    and "fu_lifecycle_state u = Confirmed" and "al_lifecycle_state x \<noteq> Confirmed" and "al_severity x \<noteq> Critical"
    and "require_alert_tenant_id (al_tenant_id x) (''alert '' @ al_alert_id x) = Inr t"
    and "map_of (sd_tenants (os_store st)) t = Some (Some q)" and "0 \<le> q"
    and "q \<le> usage_since t ''alert_fired'' month (sd_usage (os_store st))"
  shows "let s' = os_store (on_finality_update L cfg en u st)
    in sd_gateway_requests s' = sd_gateway_requests (os_store st)
     \<and> (\<exists>a. latest_alert (fu_event_key u) (sd_lifecycle s') = Some a \<and> al_alert_id a = al_alert_id x
            \<and> al_lifecycle_state a = Suppressed)"
proof -
  let ?a0 = "apply_finality en Confirmed x"
  let ?s1 = "update_incident_for_finality en u ?a0 (os_store st)"
  have repo: "oc_repository cfg" "\<not> sur_fails en SaveLifecycle" using assms(2) by (simp_all add: store_ok_def)
  have known: "known_alert cfg en (fu_event_key u) st = Some x"
    using known_alert_coherent [OF assms(1,2)] assms(6) by simp
  obtain s2 r where d: "dispatch_alert L cfg en ?a0 ?s1 = (s2, r)" by fastforce
  have s': "os_store (on_finality_update L cfg en u st) = s2"
    unfolding on_finality_update_store known finality_store_def using assms(7,8) repo d by (simp add: Let_def)
  have b: "books ?s1 = books (os_store st)" by simp
  note bf = books_eqD [OF b]
  have key: "al_event_key x = Some (fu_event_key u)" using latest_alert_Some(2) [OF assms(6)] .
  have nodup: "find_dispatch_duplicate cfg en (?a0\<lparr>al_tenant_id := Some t'\<rparr>) ?s1 = Inr None" for t'
    by (rule no_duplicate_of_itself [OF _ _ _ assms(4,5)]) (use assms(6) key bf in simp_all)
  have q: "check_quota_exceeded L en t ?s1 = Inr (Some (q, usage_since t ''alert_fired'' month (sd_usage ?s1)))"
    using check_quota_value [OF assms(3) _ assms(12), of ?s1 t] assms(11,13) bf by simp
  from d repo(1) show ?thesis
  proof (cases rule: dispatch_outcomes)
    case (over_quota t' b limit used)
    then show ?thesis using s' bf repo key by (simp add: Let_def persist_fields latest_alert_snoc suppressed_alert_def)
  next
    case (delivered t' b b')
    have "should_enforce_monthly_quota b" using delivered(3) assms(9) by (simp add: should_enforce_monthly_quota_def)
    then show ?thesis using delivered(1,4) assms(10) q by simp
  next
    case (duplicate t' p)
    then show ?thesis using nodup by simp
  next
    case (failed e)
    then show ?thesis using nodup assms(10) by auto
  qed
qed

section \<open>Evidence\<close>

lemma contributor_key_inject:
  assumes "contributor_key L c = contributor_key L c'" "inj (ol_to_rfc3339 L)"
    and "CHR '':'' \<notin> set (et_source_id c)" "CHR '':'' \<notin> set (et_source_id c')"
  shows "et_source_id c = et_source_id c'" "et_observed_at c = et_observed_at c'"
proof -
  have "split_once (CHR '':'') (contributor_key L c) = Some (et_source_id c, ol_to_rfc3339 L (et_observed_at c))"
    "split_once (CHR '':'') (contributor_key L c') = Some (et_source_id c', ol_to_rfc3339 L (et_observed_at c'))"
    using assms(3,4) by (simp_all add: contributor_key_def split_once_append)
  then show "et_source_id c = et_source_id c'" "et_observed_at c = et_observed_at c'"
    using assms(1,2) by (auto dest: injD)
qed

text \<open>
  The evidence of an alert is complete: whatever rows the database holds, every contributor of the
  alert is among the evidence records, by its source and the time of its observation, and every record
  belongs to the alert and its tenant.
\<close>

lemma evidence_is_complete:
  assumes "inj (ol_to_rfc3339 L)" and "\<forall>c \<in> set cs. CHR '':'' \<notin> set (et_source_id c)"
  shows "(\<forall>c \<in> set cs. \<exists>r \<in> set (evidence_records L a t cs rows sim_rows).
           ev_source_id r = et_source_id c \<and> ev_observed_at r = et_observed_at c)
     \<and> (\<forall>r \<in> set (evidence_records L a t cs rows sim_rows). ev_alert_id r = al_alert_id a \<and> ev_tenant_id r = t)"
proof (intro conjI ballI)
  fix c assume c: "c \<in> set cs"
  let ?useful = "filter (\<lambda>row. \<not> rpc_failed row) rows"
  let ?matched = "List.map_filter (\<lambda>row. List.find (same_operational_event row) cs) ?useful"
  show "\<exists>r \<in> set (evidence_records L a t cs rows sim_rows).
      ev_source_id r = et_source_id c \<and> ev_observed_at r = et_observed_at c"
  proof (cases "contributor_key L c \<in> set (map (contributor_key L) ?matched)")
    case True
    then obtain row c' where row: "row \<in> set ?useful" "List.find (same_operational_event row) cs = Some c'"
      "contributor_key L c' = contributor_key L c"
      by (auto simp: map_filter_def)
    have "c' \<in> set cs" "same_operational_event row c'"
      using row(2) by (auto simp: find_Some_iff)
    then have "op_source_id row = et_source_id c" "op_observed_at row = et_observed_at c"
      using contributor_key_inject [OF row(3) assms(1)] assms(2) c by (auto simp: same_operational_event_def)
    moreover have "operational_record a t (extract_market_key (al_subject_key a) (al_protocol a)) cs row
        \<in> set (evidence_records L a t cs rows sim_rows)"
      using row(1) by (simp add: evidence_records_def Let_def)
    ultimately show ?thesis
      by (intro bexI [of _ "operational_record a t (extract_market_key (al_subject_key a) (al_protocol a)) cs row"])
         (simp_all add: operational_record_def Let_def)
  next
    case False
    then show ?thesis using c
      by (intro bexI [of _ "synthetic_evidence_record L a t (extract_market_key (al_subject_key a) (al_protocol a)) c"])
         (simp_all add: synthetic_evidence_record_def evidence_records_def Let_def)
  qed
qed (auto simp: evidence_records_def operational_record_def simulation_record_def synthetic_evidence_record_def Let_def)

section \<open>A tenant with one alert left\<close>

text \<open>
  The instances at which the theorems are applied: a tenant with a monthly quota of one, whose lending
  market has a provisional alert of medium severity, and surroundings in which nothing fails.
\<close>

definition unary :: "int \<Rightarrow> string" where
  "unary t = (if 0 \<le> t then replicate (nat t) CHR ''a'' else replicate (nat (- t)) CHR ''b'')"

lemma inj_unary: "inj unary"
proof (rule injI)
  fix x y assume e: "unary x = unary y"
  then have "length (unary x) = length (unary y)" by simp
  then have l: "nat \<bar>x\<bar> = nat \<bar>y\<bar>" by (auto simp: unary_def split: if_splits)
  have "set (unary x) = set (unary y)" using e by simp
  then have "0 \<le> x \<longleftrightarrow> 0 \<le> y" using l by (auto simp: unary_def split: if_splits)
  then show "x = y" using l by linarith
qed

definition sample_orch_libs :: orch_libs where
  "sample_orch_libs =
     \<lparr>ol_de_traces = (\<lambda>_. None), ol_ser_trace = (\<lambda>_. JNull), ol_ser_confidence = (\<lambda>_. JNull),
      ol_ser_signals = (\<lambda>_. JNull), ol_ser_classification = (\<lambda>_. JNull), ol_to_rfc3339 = unary,
      ol_month_start = (\<lambda>_. 0)\<rparr>"

definition sample_orch_config :: orch_config where
  "sample_orch_config =
     \<lparr>oc_repository = True, oc_window_env = None, oc_context_ttl = 24 * 60 * nanos_per_min, oc_context_max = 10\<rparr>"

definition calm_surroundings :: "datetime \<Rightarrow> surroundings" where
  "calm_surroundings now =
     \<lparr>sur_fails = (\<lambda>_. False), sur_alert_uuid = ''a2'', sur_incident_uuid = ''i2'', sur_now_alert = now,
      sur_now_incident = now, sur_now_duplicate = now, sur_now_suppressed = now, sur_now_prune = now,
      sur_db_now = now, sur_gateway = (\<lambda>_. Inr (200, None))\<rparr>"

definition sample_alert :: "LifecycleState \<Rightarrow> AlertEvent" where
  "sample_alert l =
     \<lparr>al_alert_id = ''a1'', al_incident_id = Some ''i1'', al_event_key = Some ''k'', al_subject_type = None,
      al_subject_key = None, al_tenant_id = Some ''t'', al_pattern_id = ''flash_loan'', al_chain = Ethereum,
      al_chain_slug = ''ethereum'', al_protocol = ''aave'', al_lifecycle_state = l, al_finality_status = Tentative,
      al_severity = Medium, al_risk_score = 0, al_confidence = 0, al_confidence_breakdown = [],
      al_rule_ids = [''r''], al_channel_routes = [], al_dedup_key = Some ''k'', al_attribution = [],
      al_blast_radius = [], al_exposure_summary = [], al_tx_hash = ''x'', al_block_number = 7,
      al_oracle_context = [], al_actions_recommended = [], al_is_simulated = False,
      al_simulation_run_id = None, al_detected_at = 0, al_created_at = 0\<rparr>"

definition sample_incident_row :: incident_row where
  "sample_incident_row =
     \<lparr>in_record = \<lparr>ir_incident_id = ''i1'', ir_tenant_id = ''t'', ir_pattern_id = ''flash_loan'',
        ir_subject_type = None, ir_subject_key = None, ir_chain_slug = ''ethereum'', ir_status = ''active'',
        ir_current_severity = ''medium''\<rparr>, in_opened_at = 0, in_updated_at = 0, in_closed_at = None\<rparr>"

definition sample_store :: "AlertEvent list \<Rightarrow> usage_event list \<Rightarrow> store" where
  "sample_store as us =
     \<lparr>sd_alerts = [], sd_lifecycle = as, sd_incidents = [sample_incident_row], sd_incident_events = [],
      sd_context_snapshots = [], sd_exposures = [], sd_usage = us, sd_deliveries = [], sd_evidence = [],
      sd_tenants = [(''t'', Some 1)], sd_delivery_controls = [], sd_monitored = [], sd_operational = [],
      sd_simulation = [], sd_alert_stream = [], sd_lifecycle_stream = [], sd_gateway_requests = []\<rparr>"

definition sample_usage :: usage_event where
  "sample_usage =
     \<lparr>us_tenant_id = ''t'', us_event_type = ''alert_fired'', us_alert_type = ''generic'', us_chain_id = Some 1,
      us_quantity = 1, us_recorded_at = 5\<rparr>"

definition sample_orch_state :: "AlertEvent list \<Rightarrow> usage_event list \<Rightarrow> orch_state" where
  "sample_orch_state as us = \<lparr>os_store = sample_store as us, os_alerts = []\<rparr>"

definition sample_detection :: DetectionResult where
  "sample_detection =
     \<lparr>dr_detection_id = ''d'', dr_pattern_id = ''flash_loan'', dr_event_key = Some ''k'', dr_subject_type = None,
      dr_subject_key = None, dr_tenant_id = Some ''t'', dr_chain = Ethereum, dr_chain_slug = ''ethereum'',
      dr_protocol = ''aave'', dr_lifecycle_state = Provisional, dr_requires_confirmation = True,
      dr_attack_family = AF_FlashLoan, dr_severity = Medium, dr_description = None,
      dr_triggered_rule_ids = [''r''], dr_tx_hash = ''x'', dr_block_number = 7, dr_signals = [],
      dr_risk_score = RiskScore_default, dr_incident_transition = None, dr_context_classification = None,
      dr_confidence_breakdown = [], dr_oracle_context = [], dr_actions_recommended = [], dr_is_simulated = False,
      dr_simulation_run_id = None, dr_detected_at = 0, dr_created_at = 0\<rparr>"

definition sample_finality :: "LifecycleState \<Rightarrow> FinalityUpdate" where
  "sample_finality l =
     \<lparr>fu_chain = Ethereum, fu_event_key = ''k'', fu_block_number = 7, fu_block_hash = None,
      fu_lifecycle_state = l, fu_updated_at = 0\<rparr>"

lemmas sample_orch =
  sample_orch_libs_def sample_orch_config_def calm_surroundings_def sample_alert_def sample_store_def
  sample_orch_state_def sample_detection_def sample_finality_def sample_usage_def

lemma sample_orch_ok:
  "store_ok sample_orch_config (calm_surroundings n)"
  "0 \<le> n \<Longrightarrow> quota_ok sample_orch_libs sample_orch_config 0 (calm_surroundings n)"
  "duplicate_suppression_window (oc_window_env sample_orch_config) = Inr (Some (300 * nanos_per_sec))"
  "trim ''t'' = ''t''"
proof -
  show "trim ''t'' = ''t''" by code_simp
qed (simp_all add: store_ok_def quota_ok_def sample_orch duplicate_suppression_window_def chrono_seconds_def
    DEFAULT_DUPLICATE_SUPPRESSION_SECONDS_def)

lemma sample_tenant: "require_alert_tenant_id (Some ''t'') c = Inr ''t''"
  by (simp add: require_alert_tenant_id_def sample_orch_ok non_empty_def)

theorem quota_is_never_exceeded_witness:
  "let ms = [(calm_surroundings 1, Detected sample_detection), (calm_surroundings 2, FinalityChanged (sample_finality Confirmed))]
   in int (length (limited_requests ''t'' (os_store (foldl (orch_step sample_orch_libs sample_orch_config)
        (sample_orch_state [] []) ms)))) \<le> 1"
  unfolding Let_def
  by (rule quota_is_never_exceeded [where month = 0])
     (simp_all add: sample_orch_ok, simp_all add: sample_orch)


lemma sample_orch_sel:
  "sur_fails (calm_surroundings n) = (\<lambda>_. False)"
  "sur_now_alert (calm_surroundings n) = n" "sur_now_duplicate (calm_surroundings n) = n"
  "sur_alert_uuid (calm_surroundings n) = ''a2''"
  "fu_event_key (sample_finality l) = ''k''" "fu_lifecycle_state (sample_finality l) = l"
  "al_alert_id (sample_alert l) = ''a1''" "al_lifecycle_state (sample_alert l) = l"
  "al_severity (sample_alert l) = Medium" "al_tenant_id (sample_alert l) = Some ''t''"
  "al_event_key (sample_alert l) = Some ''k''"
  "os_alerts (sample_orch_state as us) = []"
  "sd_lifecycle (os_store (sample_orch_state as us)) = as"
  "sd_usage (os_store (sample_orch_state as us)) = us"
  "sd_tenants (os_store (sample_orch_state as us)) = [(''t'', Some 1)]"
  "sd_gateway_requests (os_store (sample_orch_state as us)) = []"
  "sd_alert_stream (os_store (sample_orch_state as us)) = []"
  by (simp_all add: calm_surroundings_def sample_finality_def sample_alert_def sample_orch_state_def sample_store_def)

lemma sample_latest: "latest_alert ''k'' [sample_alert l] = Some (sample_alert l)" "latest_alert k [] = None"
  by (simp_all add: latest_alert_def sample_orch_sel)


theorem only_failed_lookup_loses_alert_witness:
  "\<exists>a. al_alert_id a = ''a2'' \<and>
     (let en = calm_surroundings 2\<lparr>sur_fails := (\<lambda>f. f \<noteq> FindDuplicate \<and> f \<noteq> PublishAlert)\<rparr> in
     sd_alert_stream (os_store (on_detection sample_orch_libs sample_orch_config en sample_detection
       (sample_orch_state [] []))) = [a])"
proof -
  let ?en = "calm_surroundings 2\<lparr>sur_fails := (\<lambda>f. f \<noteq> FindDuplicate \<and> f \<noteq> PublishAlert)\<rparr>"
  have f: "sur_fails ?en FindDuplicate = False" "sur_fails ?en PublishAlert = False" "sur_alert_uuid ?en = ''a2''"
    by (simp_all add: sample_orch_sel)
  have d: "dr_event_key sample_detection = Some ''k''" "dr_triggered_rule_ids sample_detection \<noteq> []"
    "dr_tenant_id sample_detection = Some ''t''" "oc_repository sample_orch_config"
    by (simp_all add: sample_detection_def sample_orch_config_def)
  note r = only_failed_lookup_loses_alert [of sample_detection "''k''" "''t''" sample_orch_config
      "300 * nanos_per_sec" "sample_orch_state [] []" sample_orch_libs ?en, OF d(1,2) _ d(4) sample_orch_ok(3)]
  show ?thesis
    using r unfolding d(3) f Let_def by (simp add: sample_tenant sample_orch_sel sample_latest) blast
qed

end
