(* ===== verification/DepegPolicy.thy ===== *)
theory DepegPolicy
  imports FieldMapping
begin

text \<open>
  The policy types and the consensus arithmetic of \<^verbatim>\<open>apps/detector/src/patterns/depeg.rs\<close>: what a
  tenant configures for a market, which quotes count, their weighted median, the confidence
  breakdown and the evidence. A \<^verbatim>\<open>HashMap\<close> is an association list in iteration order. The lemmas
  characterise the weighted median and show that it cannot be moved outside a range on which a
  majority of equally weighted sources agrees.
\<close>

section \<open>Policies\<close>

record DepegSeverityBands =
  sb_medium :: f64
  sb_high :: f64
  sb_critical :: f64

definition DepegSeverityBands_default :: DepegSeverityBands where
  "DepegSeverityBands_default = \<lparr>sb_medium = lit 1, sb_high = lit 3, sb_critical = lit 5\<rparr>"

record DepegSourceFilter =
  sf_cex_whitelist :: "string list"
  sf_include_oracles :: bool
  sf_include_aggregators :: bool
  sf_min_healthy_sources :: nat

definition DepegSourceFilter_default :: DepegSourceFilter where
  "DepegSourceFilter_default =
     \<lparr>sf_cex_whitelist = [], sf_include_oracles = True, sf_include_aggregators = False,
      sf_min_healthy_sources = 3\<rparr>"

definition source_kind_allowed :: "DepegSourceFilter \<Rightarrow> string \<Rightarrow> string \<Rightarrow> bool" where
  "source_kind_allowed f source_id source_kind =
     (let kind = to_ascii_lowercase source_kind in
      if kind = ''oracle'' then sf_include_oracles f
      else if kind = ''aggregator'' then sf_include_aggregators f
      else if kind = ''dex'' then False
      else if kind = ''cex'' then
        sf_cex_whitelist f = [] \<or> list_ex (\<lambda>a. eq_ignore_ascii_case a source_id) (sf_cex_whitelist f)
      else False)"

record DepegToggles =
  tg_oracle_confirmation :: bool
  tg_volume_confirmation :: bool
  tg_contagion_detection :: bool
  tg_liquidity_depth_check :: bool

definition DepegToggles_default :: DepegToggles where
  "DepegToggles_default =
     \<lparr>tg_oracle_confirmation = True, tg_volume_confirmation = False,
      tg_contagion_detection = True, tg_liquidity_depth_check = False\<rparr>"

record DepegConfidenceWeights =
  cw_source_agreement :: f64
  cw_oracle_confirmation :: f64
  cw_volume_confirmation :: f64

definition DepegConfidenceWeights_default :: DepegConfidenceWeights where
  "DepegConfidenceWeights_default =
     \<lparr>cw_source_agreement = lit 60, cw_oracle_confirmation = lit 25, cw_volume_confirmation = lit 15\<rparr>"

record DepegSourceOverride =
  so_source_id :: string
  so_weight :: f64
  so_enabled :: bool
  so_stale_timeout_ms :: "int option"

record DepegPolicy =
  dp_tenant_id :: string
  dp_market_key :: string
  dp_peg_target :: f64
  dp_min_sources :: nat
  dp_quorum_pct :: f64
  dp_cooldown_sec :: int
  dp_stale_timeout_ms :: int
  dp_severity_bands :: DepegSeverityBands
  dp_severity_bands_isolated :: "DepegSeverityBands option"
  dp_severity_bands_systemic :: "DepegSeverityBands option"
  dp_isolated_floor_pct :: f64
  dp_systemic_floor_pct :: f64
  dp_deescalation_blocks :: int
  dp_resolution_blocks :: int
  dp_source_filter :: DepegSourceFilter
  dp_toggles :: DepegToggles
  dp_confidence_weights :: DepegConfidenceWeights
  dp_min_confidence_to_fire :: f64
  dp_source_overrides :: "(string \<times> DepegSourceOverride) list"

text \<open>
  \<open>de_map\<close> and \<open>de_list\<close> are the derived deserialisers of \<^verbatim>\<open>HashMap<String, DepegSourceOverride>\<close>
  and \<^verbatim>\<open>Vec<DepegSourceOverride>\<close>.
\<close>

fun deserialize_source_overrides ::
  "(json \<Rightarrow> (string \<times> DepegSourceOverride) list res) \<Rightarrow> (json \<Rightarrow> DepegSourceOverride list res) \<Rightarrow> json
     \<Rightarrow> (string \<times> DepegSourceOverride) list res" where
  "deserialize_source_overrides de_map de_list JNull = Inr []"
| "deserialize_source_overrides de_map de_list (JObject m) = de_map (JObject m)"
| "deserialize_source_overrides de_map de_list (JArray items) =
     bind_res (de_list (JArray items)) (\<lambda>parsed.
       Inr (fold (\<lambda>entry mapped. AList.update (so_source_id entry) entry mapped) parsed []))"
| "deserialize_source_overrides de_map de_list _ =
     Inl (Err ''source_overrides must be a JSON object or array'')"

definition ensure :: "bool \<Rightarrow> string \<Rightarrow> unit res \<Rightarrow> unit res" where
  "ensure ok msg rest = (if ok then rest else Inl (Err msg))"

definition validate :: "DepegPolicy \<Rightarrow> unit res" where
  "validate p =
     ensure (\<not> dp_peg_target p \<le> 0) ''peg_target must be > 0''
     (ensure (dp_min_sources p \<noteq> 0) ''min_sources must be > 0''
     (ensure (0 \<le> dp_quorum_pct p \<and> dp_quorum_pct p \<le> lit 1) ''quorum_pct must be between 0 and 1''
     (ensure (\<not> dp_cooldown_sec p < 0) ''cooldown_sec must be >= 0''
     (ensure (\<not> dp_stale_timeout_ms p \<le> 0) ''stale_timeout_ms must be > 0''
     (ensure (\<not> dp_isolated_floor_pct p \<le> 0) ''isolated_floor_pct must be > 0''
     (ensure (\<not> dp_systemic_floor_pct p \<le> 0) ''systemic_floor_pct must be > 0''
     (ensure (\<not> dp_deescalation_blocks p \<le> 0) ''deescalation_blocks must be > 0''
     (ensure (\<not> dp_resolution_blocks p \<le> 0) ''resolution_blocks must be > 0''
     (ensure (0 \<le> dp_min_confidence_to_fire p \<and> dp_min_confidence_to_fire p \<le> lit 100)
        ''min_confidence_to_fire must be between 0 and 100''
     (ensure (\<not> (cw_source_agreement (dp_confidence_weights p) < 0
                \<or> cw_oracle_confirmation (dp_confidence_weights p) < 0
                \<or> cw_volume_confirmation (dp_confidence_weights p) < 0))
        ''confidence_weights must be non-negative''
     (ensure (\<not> (cw_source_agreement (dp_confidence_weights p)
                + cw_oracle_confirmation (dp_confidence_weights p)
                + cw_volume_confirmation (dp_confidence_weights p) \<le> 0))
        ''confidence_weights total must be > 0''
     (Inr ()))))))))))))"

definition source_enabled :: "DepegPolicy \<Rightarrow> string \<Rightarrow> string \<Rightarrow> bool" where
  "source_enabled p source_id source_kind =
     (if \<not> source_kind_allowed (dp_source_filter p) source_id source_kind then False
      else (case map_of (dp_source_overrides p) source_id of None \<Rightarrow> True | Some v \<Rightarrow> so_enabled v))"

definition source_weight :: "DepegPolicy \<Rightarrow> string \<Rightarrow> f64" where
  "source_weight p source_id =
     f64_max (case map_of (dp_source_overrides p) source_id of None \<Rightarrow> lit 1 | Some v \<Rightarrow> so_weight v) 0"

definition source_stale_timeout_ms :: "DepegPolicy \<Rightarrow> string \<Rightarrow> int" where
  "source_stale_timeout_ms p source_id =
     max (case Option.bind (map_of (dp_source_overrides p) source_id) so_stale_timeout_ms of
            None \<Rightarrow> dp_stale_timeout_ms p
          | Some v \<Rightarrow> v) 1"

definition enabled_source_count :: "DepegPolicy \<Rightarrow> nat" where
  "enabled_source_count p =
     (let configured_enabled = length (filter (\<lambda>(_, v). so_enabled v) (dp_source_overrides p))
      in if configured_enabled = 0 then dp_min_sources p else configured_enabled)"

definition isolated_bands :: "DepegPolicy \<Rightarrow> DepegSeverityBands" where
  "isolated_bands p =
     (case dp_severity_bands_isolated p of
        Some b \<Rightarrow> b
      | None \<Rightarrow>
          if 0 < sb_medium (dp_severity_bands p) then dp_severity_bands p
          else \<lparr>sb_medium = lit (5 / 10), sb_high = lit 1, sb_critical = lit 5\<rparr>)"

definition systemic_bands :: "DepegPolicy \<Rightarrow> DepegSeverityBands" where
  "systemic_bands p =
     (case dp_severity_bands_systemic p of
        Some b \<Rightarrow> b
      | None \<Rightarrow> \<lparr>sb_medium = lit (1 / 100), sb_high = lit (25 / 100), sb_critical = lit (25 / 100)\<rparr>)"

section \<open>Quotes and evidence\<close>

record QuoteInput =
  qi_source_id :: string
  qi_source_kind :: string
  qi_price :: f64
  qi_observed_at :: datetime

record EvidenceContributor =
  ec_source_id :: string
  ec_source_kind :: string
  ec_price :: f64
  ec_observed_at :: datetime
  ec_age_ms :: int
  ec_weight :: f64
  ec_divergence_pct :: f64
  ec_supports_alert_direction :: bool
  ec_contributes_to_quorum :: bool
  ec_confirms_oracle :: bool
  ec_contributes_to_breach :: bool

record SystemicMarketContext =
  sm_market_key :: string
  sm_divergence_pct :: f64
  sm_trigger_floor_pct :: f64

record ContextAssessment =
  ca_classification :: ContextClassification
  ca_systemic_markets :: "SystemicMarketContext list"

definition round_to_6dp :: "f64 \<Rightarrow> f64" where
  "round_to_6dp value = f64_round (value * lit 1000000) / lit 1000000"

text \<open>The percentage by which a price is off the peg, before it is rounded.\<close>

definition off_peg_pct :: "f64 \<Rightarrow> f64 \<Rightarrow> f64" where
  "off_peg_pct price peg_target = (\<bar>price - peg_target\<bar> / peg_target) * lit 100"

definition quote_age_ms :: "datetime \<Rightarrow> QuoteInput \<Rightarrow> int" where
  "quote_age_ms now q = num_milliseconds (now - qi_observed_at q)"

text \<open>
  \<^verbatim>\<open>weighted_median\<close>: the prices are sorted with \<^verbatim>\<open>partial_cmp\<close>, and the first price at which the
  running weight reaches half of the total is returned.
\<close>

fun median_walk :: "f64 \<Rightarrow> f64 \<Rightarrow> (f64 \<times> f64) list \<Rightarrow> f64 option" where
  "median_walk total_weight running [] = None"
| "median_walk total_weight running ((price, weight) # rest) =
     (if total_weight / lit 2 \<le> running + weight then Some price
      else median_walk total_weight (running + weight) rest)"

definition price_le :: "f64 \<times> f64 \<Rightarrow> f64 \<times> f64 \<Rightarrow> bool" where
  "price_le a b \<longleftrightarrow> \<not> fst b < fst a"

definition weighted_median :: "(f64 \<times> f64) list \<Rightarrow> f64 option" where
  "weighted_median points =
     (if points = [] then None
      else
        (let sorted_points = sort_by price_le points;
             total_weight = f64_sum (map snd sorted_points)
         in if total_weight \<le> 0 \<or> \<not> is_finite total_weight then None
            else median_walk total_weight 0 sorted_points))"

definition unusable_weight :: "f64 \<Rightarrow> bool" where
  "unusable_weight w \<longleftrightarrow> w \<le> 0 \<or> \<not> is_finite w"

fun market_points :: "DepegPolicy \<Rightarrow> datetime \<Rightarrow> QuoteInput list \<Rightarrow> (f64 \<times> f64) list" where
  "market_points p now [] = []"
| "market_points p now (q # qs) =
     (if \<not> source_enabled p (qi_source_id q) (qi_source_kind q)
         \<or> source_stale_timeout_ms p (qi_source_id q) < quote_age_ms now q
         \<or> unusable_weight (source_weight p (qi_source_id q))
      then market_points p now qs
      else (qi_price q, source_weight p (qi_source_id q)) # market_points p now qs)"

definition market_divergence_pct :: "DepegPolicy \<Rightarrow> QuoteInput list \<Rightarrow> datetime \<Rightarrow> f64 option" where
  "market_divergence_pct p quotes now =
     map_option (\<lambda>median. round_to_6dp (off_peg_pct median (dp_peg_target p)))
       (weighted_median (market_points p now quotes))"

definition oracle_confirmation_met ::
  "DepegPolicy \<Rightarrow> QuoteInput list \<Rightarrow> f64 \<Rightarrow> datetime \<Rightarrow> f64 \<Rightarrow> bool" where
  "oracle_confirmation_met p eligible_quotes trigger_floor_pct now peg_target =
     list_ex (\<lambda>q.
       if qi_source_kind q \<noteq> ''oracle'' then False
       else if source_stale_timeout_ms p (qi_source_id q) < quote_age_ms now q then False
       else trigger_floor_pct \<le> round_to_6dp (off_peg_pct (qi_price q) peg_target)) eligible_quotes"

definition available_oracles_within_resolution_floor :: "QuoteInput list \<Rightarrow> f64 \<Rightarrow> f64 \<Rightarrow> bool" where
  "available_oracles_within_resolution_floor eligible_quotes resolution_floor_pct peg_target =
     list_all (\<lambda>q. off_peg_pct (qi_price q) peg_target < resolution_floor_pct)
       (filter (\<lambda>q. qi_source_kind q = ''oracle'') eligible_quotes)"

definition compute_confidence_breakdown ::
  "DepegPolicy \<Rightarrow> QuoteInput list \<Rightarrow> f64 \<Rightarrow> bool \<Rightarrow> f64 \<Rightarrow> (string \<times> f64) list" where
  "compute_confidence_breakdown p eligible_quotes weighted_median_price oracle_confirmed peg_target =
     (if eligible_quotes = [] then
        [(''source_agreement'', 0), (''oracle_confirmation'', 0), (''volume_confirmation'', lit 50), (''total'', 0)]
      else
        (let direction = signum (weighted_median_price - peg_target);
             agreement_count = length (filter (\<lambda>q. feq (signum (qi_price q - peg_target)) direction) eligible_quotes);
             source_agreement = (of_int_f64 (int agreement_count) / of_int_f64 (int (length eligible_quotes))) * lit 100;
             oracle_score = (if tg_oracle_confirmation (dp_toggles p)
               then (if oracle_confirmed then lit 100 else 0) else lit 50);
             volume_score = lit 50;
             source_w = f64_max (cw_source_agreement (dp_confidence_weights p)) 0;
             oracle_w = (if tg_oracle_confirmation (dp_toggles p)
               then f64_max (cw_oracle_confirmation (dp_confidence_weights p)) 0 else 0);
             volume_w = (if tg_volume_confirmation (dp_toggles p)
               then f64_max (cw_volume_confirmation (dp_confidence_weights p)) 0 else 0);
             total_weight = f64_max (source_w + oracle_w + volume_w) f64_epsilon;
             total_score = (source_agreement * source_w + oracle_score * oracle_w + volume_score * volume_w) / total_weight
         in [(''source_agreement'', source_agreement), (''oracle_confirmation'', oracle_score),
             (''volume_confirmation'', volume_score), (''total'', total_score)]))"

definition evidence_of ::
  "DepegPolicy \<Rightarrow> datetime \<Rightarrow> f64 \<Rightarrow> f64 \<Rightarrow> f64 \<Rightarrow> bool \<Rightarrow> QuoteInput \<Rightarrow> EvidenceContributor" where
  "evidence_of p now peg_target trigger_floor_pct alert_direction threshold_breach q =
     (let divergence_pct = round_to_6dp (off_peg_pct (qi_price q) peg_target);
          supports_alert_direction =
            (\<not> feq alert_direction 0 \<and> feq (signum (qi_price q - peg_target)) alert_direction);
          confirms_oracle = (qi_source_kind q = ''oracle'' \<and> trigger_floor_pct \<le> divergence_pct)
      in \<lparr>ec_source_id = qi_source_id q, ec_source_kind = qi_source_kind q, ec_price = qi_price q,
          ec_observed_at = qi_observed_at q, ec_age_ms = max (quote_age_ms now q) 0,
          ec_weight = source_weight p (qi_source_id q), ec_divergence_pct = divergence_pct,
          ec_supports_alert_direction = supports_alert_direction, ec_contributes_to_quorum = True,
          ec_confirms_oracle = confirms_oracle,
          ec_contributes_to_breach = (threshold_breach \<and> (supports_alert_direction \<or> confirms_oracle))\<rparr>)"

definition contributor_le :: "EvidenceContributor \<Rightarrow> EvidenceContributor \<Rightarrow> bool" where
  "contributor_le a b \<longleftrightarrow>
     ec_observed_at a < ec_observed_at b
     \<or> ec_observed_at a = ec_observed_at b \<and> ec_source_id a \<le> ec_source_id b"

definition build_evidence_contributors ::
  "DepegPolicy \<Rightarrow> QuoteInput list \<Rightarrow> datetime \<Rightarrow> f64 \<Rightarrow> f64 \<Rightarrow> f64 \<Rightarrow> bool \<Rightarrow> EvidenceContributor list" where
  "build_evidence_contributors p eligible_quotes now peg_target trigger_floor_pct alert_direction threshold_breach =
     sort_by contributor_le
       (map (evidence_of p now peg_target trigger_floor_pct alert_direction threshold_breach) eligible_quotes)"

section \<open>Severities\<close>

definition severity_for_divergence :: "f64 \<Rightarrow> DepegSeverityBands \<Rightarrow> Severity option" where
  "severity_for_divergence pct bands =
     (if sb_critical bands \<le> pct then Some Critical
      else if sb_high bands \<le> pct then Some High
      else if sb_medium bands \<le> pct then Some Medium
      else None)"

fun severity_rank :: "Severity option \<Rightarrow> nat" where
  "severity_rank (Some Critical) = 5"
| "severity_rank (Some High) = 4"
| "severity_rank (Some Medium) = 3"
| "severity_rank (Some Low) = 2"
| "severity_rank (Some Info) = 1"
| "severity_rank None = 0"

definition severity_from_str :: "string option \<Rightarrow> Severity option" where
  "severity_from_str s =
     (case s of
        None \<Rightarrow> None
      | Some value \<Rightarrow>
          if eq_ignore_ascii_case value ''critical'' then Some Critical
          else if eq_ignore_ascii_case value ''high'' then Some High
          else if eq_ignore_ascii_case value ''medium'' then Some Medium
          else if eq_ignore_ascii_case value ''low'' then Some Low
          else if eq_ignore_ascii_case value ''info'' then Some Info
          else None)"

fun context_classification_str :: "ContextClassification \<Rightarrow> string" where
  "context_classification_str Isolated = ''isolated''"
| "context_classification_str Systemic = ''systemic''"
| "context_classification_str Ctx_None = ''none''"

definition infer_source_kind :: "string \<Rightarrow> string" where
  "infer_source_kind source_type =
     (let t = to_ascii_lowercase source_type in
      if t = ''cexwebsocket'' \<or> t = ''cexapi'' then ''cex''
      else if t = ''dexapi'' then ''dex''
      else if t = ''oracleapi'' then ''oracle''
      else if t = ''customapi'' then ''custom''
      else if t = ''evmchain'' then ''chain''
      else ''unknown'')"

section \<open>The weighted median\<close>

lemma price_le_orders:
  assumes "\<forall>x \<in> A. fst x \<noteq> NaN"
  shows "orders_on A price_le"
  unfolding orders_on_def price_le_def
proof (intro conjI allI impI)
  fix x y assume "x \<in> A \<and> y \<in> A"
  then show "\<not> fst y < fst x \<or> \<not> fst x < fst y"
    using f64_lt_asym f64_lt_imp_le by blast
next
  fix x y z assume "x \<in> A \<and> y \<in> A \<and> z \<in> A \<and> \<not> fst y < fst x \<and> \<not> fst z < fst y"
  then show "\<not> fst z < fst x"
    using assms f64_not_le f64_le_trans by metis
qed

lemma price_le_iff: "fst a \<noteq> NaN \<Longrightarrow> fst b \<noteq> NaN \<Longrightarrow> price_le a b \<longleftrightarrow> fst a \<le> fst b"
  using f64_not_le by (auto simp: price_le_def)

text \<open>The walk stops at the first point at which the running weight reaches half of the total.\<close>

lemma median_walk_Some:
  assumes "median_walk t r pts = Some x"
  shows "\<exists>pre w post. pts = pre @ (x, w) # post
           \<and> t / lit 2 \<le> foldl (+) r (map snd pre @ [w])
           \<and> (pre \<noteq> [] \<longrightarrow> \<not> t / lit 2 \<le> foldl (+) r (map snd pre))"
  using assms
proof (induction pts arbitrary: r)
  case (Cons p pts)
  obtain price w where p: "p = (price, w)" by (cases p)
  show ?case
  proof (cases "t / lit 2 \<le> r + w")
    case True
    with Cons.prems p show ?thesis by (intro exI [of _ "[]"]) auto
  next
    case False
    with Cons.prems p have "median_walk t (r + w) pts = Some x" by simp
    from Cons.IH [OF this] obtain pre w' post where
      *: "pts = pre @ (x, w') # post" "t / lit 2 \<le> foldl (+) (r + w) (map snd pre @ [w'])"
        "pre \<noteq> [] \<longrightarrow> \<not> t / lit 2 \<le> foldl (+) (r + w) (map snd pre)" by blast
    show ?thesis using * False p by (intro exI [of _ "p # pre"] exI [of _ w'] exI [of _ post]) auto
  qed
qed simp

lemma median_walk_total:
  assumes "pts \<noteq> []" "t / lit 2 \<le> foldl (+) r (map snd pts)"
  shows "\<exists>x. median_walk t r pts = Some x"
  using assms
proof (induction pts arbitrary: r)
  case (Cons p pts)
  then show ?case by (cases p; cases "pts = []") auto
qed simp

lemma representable_zero [simp]: "representable 0"
  by (simp add: zero_f64_def)

lemma representable_sum: "representable r \<Longrightarrow> representable (foldl (+) r ws)"
  by (induction ws arbitrary: r) (simp_all add: representable_add)

lemma weighted_median_None_iff:
  assumes "points \<noteq> []" and "is_finite (f64_sum (map snd (sort_by price_le points)))"
    and "0 < f64_sum (map snd (sort_by price_le points))"
  shows "\<exists>x. weighted_median points = Some x"
proof -
  let ?s = "sort_by price_le points" and ?t = "f64_sum (map snd (sort_by price_le points))"
  have "representable ?t" by (simp add: f64_sum_def representable_sum)
  then have "?t / lit 2 \<le> ?t" using assms by (intro half_le) (auto intro: f64_lt_imp_le)
  then have "\<exists>x. median_walk ?t 0 ?s = Some x"
    using assms(1) by (intro median_walk_total) (simp_all add: f64_sum_def)
  then show ?thesis using assms f64_lt_asym [OF assms(3)] by (simp add: weighted_median_def Let_def)
qed

lemma weighted_median_in: "weighted_median points = Some x \<Longrightarrow> x \<in> fst ` set points"
proof -
  assume "weighted_median points = Some x"
  then obtain t where "median_walk t 0 (sort_by price_le points) = Some x"
    by (auto simp: weighted_median_def Let_def split: if_splits)
  from median_walk_Some [OF this] obtain pre w post
    where "sort_by price_le points = pre @ (x, w) # post" by blast
  then have "(x, w) \<in> set (sort_by price_le points)" by simp
  then show ?thesis by force
qed

text \<open>Sums of unit weights are exact, and so is half of them.\<close>

lemma half_of_int:
  assumes "0 \<le> n" "n \<le> 2 ^ 52"
  shows "lit (of_int n) / lit 2 = Fin False (of_int n / 2)"
proof (cases "n = 0")
  case True
  then show ?thesis by (simp add: lit_0 lit_2 divide_f64_def zero_f64_def pack_def)
next
  case False
  let ?q = "of_int n / 2 :: rat"
  have "?q \<le> 2 powi 51"
    using assms(2) by (simp add: of_int_le_iff [symmetric] del: of_int_le_iff)
  then have "rexp ?q \<le> rexp (2 powi 51)" using assms False by (intro rexp_mono) simp_all
  also have "rexp (2 powi 51) = 51" by (intro rexp_eqI) simp_all
  finally have e: "rexp ?q \<le> 51" .
  then have r: "round_mag ?q = ?q"
    by (intro round_mag_units [of _ n "- 1"]) (simp_all add: ulp_exp_def power_int_minus)
  have "pack False ?q = Fin False ?q" unfolding pack_def Let_def r using e by simp
  then show ?thesis using lit_of_int [of n] assms by (simp add: lit_2 divide_f64_def)
qed

lemma sum_of_units:
  assumes "\<forall>w \<in> set ws. w = lit 1" "k + int (length ws) \<le> 2 ^ 53" "0 \<le> k"
  shows "foldl (+) (lit (of_int k)) ws = lit (of_int (k + int (length ws)))"
  using assms
proof (induction ws arbitrary: k)
  case (Cons w ws)
  have "lit (of_int k) + lit 1 = lit (of_int (k + 1))"
    using lit_add_of_int [of k 1] Cons.prems by simp
  then show ?case using Cons.IH [of "k + 1"] Cons.prems by (simp add: algebra_simps)
qed simp

lemma sum_unit_weights:
  assumes "\<forall>(_, w) \<in> set pts. w = lit 1" "int (length pts) \<le> 2 ^ 52"
  shows "foldl (+) 0 (map snd pts) = lit (of_int (int (length pts)))"
proof -
  have "\<forall>w \<in> set (map snd pts). w = lit 1" using assms(1) by auto
  from sum_of_units [OF this, of 0] assms(2) show ?thesis by (simp add: lit_0)
qed

lemma filter_length_sort_by: "length (filter P (sort_by le xs)) = length (filter P xs)"
  by (metis mset_filter mset_sort_by size_mset)

lemma unit_median_position:
  assumes unit: "\<forall>(_, w) \<in> set pts. w = lit 1" and len: "int (length pts) \<le> 2 ^ 52" and "pts \<noteq> []"
    and x: "weighted_median pts = Some x"
  obtains pre w post where "sort_by price_le pts = pre @ (x, w) # post"
    "2 * length pre < length pts" "length pts \<le> 2 * length pre + 2"
proof -
  let ?s = "sort_by price_le pts" and ?n = "int (length pts)"
  have us: "\<forall>(_, w) \<in> set ?s. w = lit 1" using unit by simp
  have sum: "foldl (+) 0 (map snd ys) = lit (of_int (int (length ys)))"
    if "set ys \<subseteq> set ?s" "length ys \<le> length pts" for ys
    using that us len by (intro sum_unit_weights) auto
  then have t: "f64_sum (map snd ?s) = lit (of_int ?n)" by (simp add: f64_sum_def)
  from x have "median_walk (lit (of_int ?n)) 0 ?s = Some x"
    by (auto simp: weighted_median_def Let_def t split: if_splits)
  from median_walk_Some [OF this] obtain pre w post where
    s: "?s = pre @ (x, w) # post"
    and up: "lit (of_int ?n) / lit 2 \<le> foldl (+) 0 (map snd pre @ [w])"
    and lo: "pre \<noteq> [] \<longrightarrow> \<not> lit (of_int ?n) / lit 2 \<le> foldl (+) 0 (map snd pre)" by blast
  have n: "length pts = length pre + 1 + length post"
    using arg_cong [OF s, of length] by simp
  have half: "lit (of_int ?n) / lit 2 \<le> lit (of_int (int k)) \<longleftrightarrow> length pts \<le> 2 * k" if "k \<le> length pts" for k
    using half_of_int [of ?n] lit_of_int [of "int k"] len that by (simp add: field_simps)
      (metis of_nat_le_iff of_nat_mult of_nat_numeral mult.commute)
  have sp: "foldl (+) 0 (map snd pre) = lit (of_int (int (length pre)))"
    by (intro sum) (auto simp: s n)
  have sq: "foldl (+) 0 (map snd (pre @ [(x, w)])) = lit (of_int (int (length (pre @ [(x, w)]))))"
    by (rule sum) (auto simp: s n)
  have "length pts \<le> 2 * length (pre @ [(x, w)])"
    using up half [of "length (pre @ [(x, w)])"] n unfolding sq [symmetric] by simp
  moreover have "2 * length pre < length pts"
    using lo half [of "length pre"] n unfolding sp by (cases "pre = []") auto
  ultimately show thesis using that [OF s] by simp
qed

text \<open>
  (C9) The weighted median exists and is a median of the prices: for every non-empty list of points whose
  total weight is finite and positive the result is the price of a point at which the points, arranged
  by price where no price is NaN, split in half: the weights of the points before it do not reach
  half of the total, and together with its own weight they do (in the rounded arithmetic of the
  code, which adds the weights in that order).
\<close>

theorem weighted_median_correct:
  assumes "points \<noteq> []" and "is_finite (f64_sum (map snd (sort_by price_le points)))"
    and "0 < f64_sum (map snd (sort_by price_le points))"
  shows "\<exists>x pre w post. weighted_median points = Some x
     \<and> mset (pre @ (x, w) # post) = mset points
     \<and> ((\<forall>p \<in> set points. fst p \<noteq> NaN) \<longrightarrow>
          (\<forall>p \<in> set pre. fst p \<le> x) \<and> (\<forall>p \<in> set post. x \<le> fst p)
          \<and> sorted_wrt (\<lambda>p q. fst p \<le> fst q) (pre @ (x, w) # post))
     \<and> f64_sum (map snd (pre @ (x, w) # post)) / lit 2 \<le> f64_sum (map snd pre @ [w])
     \<and> (pre \<noteq> [] \<longrightarrow> \<not> f64_sum (map snd (pre @ (x, w) # post)) / lit 2 \<le> f64_sum (map snd pre))"
proof -
  let ?s = "sort_by price_le points"
  from weighted_median_None_iff [OF assms] obtain x where x: "weighted_median points = Some x" by blast
  then have "median_walk (f64_sum (map snd ?s)) 0 ?s = Some x"
    using assms(1) by (auto simp: weighted_median_def Let_def split: if_splits)
  from median_walk_Some [OF this] obtain pre w post where s: "?s = pre @ (x, w) # post"
    and half: "f64_sum (map snd ?s) / lit 2 \<le> f64_sum (map snd pre @ [w])"
      "pre \<noteq> [] \<longrightarrow> \<not> f64_sum (map snd ?s) / lit 2 \<le> f64_sum (map snd pre)"
    unfolding f64_sum_def by blast
  have "mset (pre @ (x, w) # post) = mset points" by (simp only: s [symmetric] mset_sort_by)
  moreover have "sorted_wrt (\<lambda>p q. fst p \<le> fst q) (pre @ (x, w) # post)" if nan: "\<forall>p \<in> set points. fst p \<noteq> NaN"
  proof -
    have "sorted_wrt price_le ?s" by (rule sort_by_sorted_wrt [OF price_le_orders]) (use nan in auto)
    then show ?thesis unfolding s [symmetric]
      by (rule sorted_wrt_mono_rel [rotated]) (use nan price_le_iff in auto)
  qed
  ultimately show ?thesis using x half unfolding s by (intro exI [of _ x] exI [of _ pre] exI [of _ w] exI [of _ post]) (auto simp: sorted_wrt_append)
qed

lemma sample_points_facts:
  "is_finite (f64_sum (map snd (sort_by price_le [(lit 1, lit 1), (lit (99 / 100), lit 2)])))"
  "0 < f64_sum (map snd (sort_by price_le [(lit 1, lit 1), (lit (99 / 100), lit 2)]))"
  by code_simp+

theorem weighted_median_correct_witness:
  "\<exists>x pre w post. weighted_median [(lit 1, lit 1), (lit (99 / 100), lit 2)] = Some x
     \<and> mset (pre @ (x, w) # post) = mset [(lit 1, lit 1), (lit (99 / 100), lit 2)]
     \<and> (\<forall>p \<in> set pre. fst p \<le> x) \<and> (\<forall>p \<in> set post. x \<le> fst p)"
proof -
  have "\<forall>p \<in> set [(lit 1, lit 1), (lit (99 / 100), lit 2)]. fst p \<noteq> NaN" by code_simp
  with weighted_median_correct [OF _ sample_points_facts] show ?thesis by blast
qed

text \<open>
  A minority cannot move the consensus: when all sources have the default weight of one and more
  than half of them quote a price between \<open>lo\<close> and \<open>hi\<close>, the weighted median exists and lies
  between \<open>lo\<close> and \<open>hi\<close>, whatever the other sources quote.
\<close>

lemma median_bounded_by_majority:
  assumes "\<forall>(p, w) \<in> set points. p \<noteq> NaN \<and> w = lit 1" and "int (length points) \<le> 2 ^ 52"
    and "length points < 2 * length (filter (\<lambda>(p, _). lo \<le> p \<and> p \<le> hi) points)"
  shows "\<exists>x. weighted_median points = Some x \<and> lo \<le> x \<and> x \<le> hi"
proof -
  let ?s = "sort_by price_le points" and ?in = "\<lambda>(p, _). lo \<le> p \<and> p \<le> hi"
  have ne: "points \<noteq> []" using assms(3) by auto
  have units: "\<forall>(_, w) \<in> set points. w = lit 1" using assms(1) by auto
  have total: "f64_sum (map snd ?s) = Fin False (of_int (int (length points)))"
    using sum_unit_weights [of ?s] lit_of_int [of "int (length points)"] units assms(2)
    by (simp add: f64_sum_def)
  then have "\<exists>x. weighted_median points = Some x"
    using ne by (intro weighted_median_None_iff) (simp_all add: zero_f64_def)
  then obtain x where x: "weighted_median points = Some x" by blast
  from unit_median_position [OF units assms(2) ne x] obtain pre w post where
    s: "?s = pre @ (x, w) # post" and k: "2 * length pre < length points" "length points \<le> 2 * length pre + 2"
    by blast
  have nan: "\<forall>p \<in> set ?s. fst p \<noteq> NaN" using assms(1) by auto
  have "sorted_wrt price_le ?s" by (rule sort_by_sorted_wrt [OF price_le_orders [OF nan]]) simp
  then have pl: "y \<in> set pre \<Longrightarrow> price_le y (x, w)" "y \<in> set post \<Longrightarrow> price_le (x, w) y" for y
    unfolding s by (simp_all add: sorted_wrt_append)
  have ord: "y \<in> set pre \<Longrightarrow> fst y \<le> x" "y \<in> set post \<Longrightarrow> x \<le> fst y" for y
    using nan pl [of y] price_le_iff [of y "(x, w)"] price_le_iff [of "(x, w)" y] unfolding s by auto
  have len: "length points = length pre + 1 + length post" using arg_cong [OF s, of length] by simp
  have count: "length (filter ?in points) = length (filter ?in pre) + (if lo \<le> x \<and> x \<le> hi then 1 else 0)
      + length (filter ?in post)"
    using filter_length_sort_by [of ?in price_le points] unfolding s by auto
  have "lo \<le> x"
  proof (rule ccontr)
    assume "\<not> lo \<le> x"
    then have "\<not> ?in y" if "y \<in> set pre" for y
      using ord(1) [OF that] f64_le_trans [of lo "fst y" x] by (cases y) auto
    then have "filter ?in pre = []" by (simp add: filter_empty_conv)
    then show False using \<open>\<not> lo \<le> x\<close> count length_filter_le [of ?in post] assms(3) k len by simp
  qed
  moreover have "x \<le> hi"
  proof (rule ccontr)
    assume "\<not> x \<le> hi"
    then have "\<not> ?in y" if "y \<in> set post" for y
      using ord(2) [OF that] f64_le_trans [of x "fst y" hi] by (cases y) auto
    then have "filter ?in post = []" by (simp add: filter_empty_conv)
    then show False using \<open>\<not> x \<le> hi\<close> count length_filter_le [of ?in pre] assms(3) k len by simp
  qed
  ultimately show ?thesis using x by blast
qed

lemma sample_majority:
  "length [(lit 1, lit 1), (lit 5, lit 1), (lit (99 / 100), lit 1)]
     < 2 * length (filter (\<lambda>(p, _). lit (9 / 10) \<le> p \<and> p \<le> lit 1)
         [(lit 1, lit 1), (lit 5, lit 1), (lit (99 / 100), lit 1)])"
  by code_simp

end
