(* ===== verification/DepegEngine.thy ===== *)
theory DepegEngine
  imports DepegPolicy
begin

text \<open>
  \<^verbatim>\<open>evaluate_policy\<close> of \<^verbatim>\<open>apps/detector/src/patterns/depeg.rs\<close>: the quotes of a market are reduced to a
  consensus snapshot, and the snapshot moves the market's incident (trigger, escalate,
  deescalate, resolve) under a cooldown. The chrono and serde operations the detector needs on
  top of those of the field mappings extend the record of libraries: \<open>checked_add_secs t s\<close> is
  \<^verbatim>\<open>t + Duration::seconds(s)\<close>, \<open>None\<close> where it panics.
\<close>

section \<open>State and outcome\<close>

record DepegAlertState =
  das_cooldown_until :: "datetime option"
  das_last_alerted_at :: "datetime option"
  das_last_divergence_pct :: "f64 option"
  das_last_severity :: "string option"
  das_last_classification :: "string option"
  das_trigger_floor_pct :: "f64 option"
  das_below_severity_blocks :: int
  das_below_trigger_blocks :: int
  das_high_water_mark :: "datetime option"

definition DepegAlertState_default :: DepegAlertState where
  "DepegAlertState_default =
     \<lparr>das_cooldown_until = None, das_last_alerted_at = None, das_last_divergence_pct = None,
      das_last_severity = None, das_last_classification = None, das_trigger_floor_pct = None,
      das_below_severity_blocks = 0, das_below_trigger_blocks = 0, das_high_water_mark = None\<rparr>"

record ConsensusSnapshot =
  cs_weighted_median_price :: f64
  cs_divergence_pct :: f64
  cs_source_count :: nat
  cs_eligible_source_count :: nat
  cs_quorum_met :: bool
  cs_breach_active :: bool
  cs_oracle_confirmed :: bool
  cs_classification :: ContextClassification
  cs_trigger_floor_pct :: f64
  cs_confidence_breakdown :: "(string \<times> f64) list"
  cs_severity :: "Severity option"
  cs_contributors :: "EvidenceContributor list"
  cs_systemic_markets :: "SystemicMarketContext list"

record EvaluationOutcome =
  eo_snapshot :: ConsensusSnapshot
  eo_should_emit_alert :: bool
  eo_next_state :: DepegAlertState
  eo_transition :: "IncidentTransition option"
  eo_emitted_severity :: "Severity option"

record depeg_libs = libs +
  checked_add_secs :: "datetime \<Rightarrow> int \<Rightarrow> datetime option"
  fmt6 :: "f64 \<Rightarrow> string"
  to_rfc3339 :: "datetime \<Rightarrow> string"
  min_utc :: datetime
  de_policies :: "json \<Rightarrow> DepegPolicy list option"
  de_alert_state :: "json \<Rightarrow> DepegAlertState option"
  ser_alert_state :: "DepegAlertState \<Rightarrow> json res"
  ser_contributors :: "EvidenceContributor list \<Rightarrow> json"
  ser_systemic_markets :: "SystemicMarketContext list \<Rightarrow> json"
  ser_confidence :: "(string \<times> f64) list \<Rightarrow> json"
  ser_classification :: "ContextClassification \<Rightarrow> json"
  ser_transition :: "IncidentTransition option \<Rightarrow> json"

section \<open>The quotes that count\<close>

text \<open>
  The loop over the quotes: the number of enabled sources with a usable price, and of these the
  fresh ones with a usable weight, as points and as quotes.
\<close>

fun collect_quotes ::
  "DepegPolicy \<Rightarrow> datetime \<Rightarrow> QuoteInput list \<Rightarrow> nat \<times> (f64 \<times> f64) list \<times> QuoteInput list" where
  "collect_quotes p now [] = (0, [], [])"
| "collect_quotes p now (q # qs) =
     (let (n, points, eligible) = collect_quotes p now qs;
          age_ms = quote_age_ms now q;
          weight = source_weight p (qi_source_id q)
      in if \<not> source_enabled p (qi_source_id q) (qi_source_kind q) then (n, points, eligible)
         else if \<not> (is_finite (qi_price q) \<and> 0 < qi_price q) then (n, points, eligible)
         else if age_ms < 0 then (Suc n, points, eligible)
         else if source_stale_timeout_ms p (qi_source_id q) < age_ms then (Suc n, points, eligible)
         else if unusable_weight weight then (Suc n, points, eligible)
         else (Suc n, (qi_price q, weight) # points, q # eligible))"

section \<open>The incident\<close>

record incident_out =
  io_emit :: bool
  io_transition :: "IncidentTransition option"
  io_severity :: "Severity option"
  io_state :: DepegAlertState

definition quiet :: "DepegAlertState \<Rightarrow> incident_out" where
  "quiet st = \<lparr>io_emit = False, io_transition = None, io_severity = None, io_state = st\<rparr>"

definition cooldown_active :: "DepegAlertState \<Rightarrow> datetime \<Rightarrow> bool" where
  "cooldown_active st now = (case das_cooldown_until st of None \<Rightarrow> False | Some until \<Rightarrow> now < until)"

definition with_cooldown ::
  "'a depeg_libs_scheme \<Rightarrow> DepegPolicy \<Rightarrow> datetime \<Rightarrow> incident_out \<Rightarrow> incident_out res" where
  "with_cooldown L p now out =
     (case checked_add_secs L now (dp_cooldown_sec p) of
        None \<Rightarrow> Inl (Panic ''DateTime + Duration overflowed'')
      | Some until \<Rightarrow> Inr (out\<lparr>io_state := (io_state out)\<lparr>das_cooldown_until := Some until\<rparr>\<rparr>))"

definition trigger_incident ::
  "'a depeg_libs_scheme \<Rightarrow> DepegPolicy \<Rightarrow> datetime \<Rightarrow> Severity \<Rightarrow> f64 \<Rightarrow> ContextClassification \<Rightarrow> f64
     \<Rightarrow> DepegAlertState \<Rightarrow> incident_out res" where
  "trigger_incident L p now sev divergence_pct classification trigger_floor st =
     with_cooldown L p now
       \<lparr>io_emit = True, io_transition = Some Trigger, io_severity = Some sev,
        io_state = st\<lparr>das_last_alerted_at := Some now, das_last_divergence_pct := Some divergence_pct,
          das_last_severity := Some (severity_name sev),
          das_last_classification := Some (context_classification_str classification),
          das_trigger_floor_pct := Some trigger_floor, das_below_trigger_blocks := 0,
          das_below_severity_blocks := 0\<rparr>\<rparr>"

definition escalate_incident ::
  "'a depeg_libs_scheme \<Rightarrow> DepegPolicy \<Rightarrow> datetime \<Rightarrow> Severity \<Rightarrow> f64 \<Rightarrow> DepegAlertState \<Rightarrow> incident_out res" where
  "escalate_incident L p now sev trigger_floor st =
     with_cooldown L p now
       \<lparr>io_emit = True, io_transition = Some Escalate, io_severity = Some sev,
        io_state = st\<lparr>das_last_alerted_at := Some now, das_last_severity := Some (severity_name sev),
          das_trigger_floor_pct := (case das_trigger_floor_pct st of None \<Rightarrow> Some trigger_floor | Some f \<Rightarrow> Some f)\<rparr>\<rparr>"

definition deescalate_incident ::
  "'a depeg_libs_scheme \<Rightarrow> DepegPolicy \<Rightarrow> datetime \<Rightarrow> Severity \<Rightarrow> DepegAlertState \<Rightarrow> incident_out res" where
  "deescalate_incident L p now sev st =
     with_cooldown L p now
       \<lparr>io_emit = False, io_transition = Some Deescalate, io_severity = Some sev,
        io_state = st\<lparr>das_last_alerted_at := Some now, das_last_severity := Some (severity_name sev),
          das_below_severity_blocks := 0\<rparr>\<rparr>"

definition note_breach :: "f64 \<Rightarrow> ContextClassification \<Rightarrow> int \<Rightarrow> DepegAlertState \<Rightarrow> DepegAlertState" where
  "note_breach divergence_pct classification below st =
     st\<lparr>das_below_severity_blocks := below, das_last_divergence_pct := Some divergence_pct,
        das_last_classification := Some (context_classification_str classification)\<rparr>"

definition on_breach ::
  "'a depeg_libs_scheme \<Rightarrow> DepegPolicy \<Rightarrow> datetime \<Rightarrow> Severity option \<Rightarrow> f64 \<Rightarrow> ContextClassification \<Rightarrow> f64
     \<Rightarrow> DepegAlertState \<Rightarrow> incident_out res" where
  "on_breach L p now severity divergence_pct classification trigger_floor st =
     (let previous_active = severity_from_str (das_last_severity st);
          cool = cooldown_active st now;
          current_rank = severity_rank severity;
          previous_rank = severity_rank previous_active;
          out =
            (if previous_active = None then
               (case severity of
                  Some sev \<Rightarrow>
                    if \<not> cool then trigger_incident L p now sev divergence_pct classification trigger_floor st
                    else Inr (quiet st)
                | None \<Rightarrow> Inr (quiet st))
             else if previous_rank < current_rank then
               (let st1 = note_breach divergence_pct classification 0 st in
                case severity of
                  Some sev \<Rightarrow> if \<not> cool then escalate_incident L p now sev trigger_floor st1 else Inr (quiet st1)
                | None \<Rightarrow> Inr (quiet st1))
             else if current_rank < previous_rank then
               (let st1 = note_breach divergence_pct classification
                      (wrap_i64 (das_below_severity_blocks st + 1)) st in
                case severity of
                  Some sev \<Rightarrow>
                    if dp_deescalation_blocks p \<le> das_below_severity_blocks st1 \<and> \<not> cool
                    then deescalate_incident L p now sev st1
                    else Inr (quiet st1)
                | None \<Rightarrow> Inr (quiet st1))
             else Inr (quiet (note_breach divergence_pct classification 0 st)))
      in bind_res out (\<lambda>o'. Inr (o'\<lparr>io_state := (io_state o')\<lparr>das_below_trigger_blocks := 0\<rparr>\<rparr>)))"

definition on_calm ::
  "'a depeg_libs_scheme \<Rightarrow> DepegPolicy \<Rightarrow> datetime \<Rightarrow> f64 \<Rightarrow> f64 \<Rightarrow> QuoteInput list
     \<Rightarrow> DepegAlertState \<Rightarrow> incident_out res" where
  "on_calm L p now divergence_pct trigger_floor eligible st =
     (let previous_active = severity_from_str (das_last_severity st);
          st1 = st\<lparr>das_last_divergence_pct := Some divergence_pct, das_below_severity_blocks := 0\<rparr>
      in if previous_active = None then Inr (quiet st1)
         else
           (let resolution_floor = (case das_trigger_floor_pct st1 of None \<Rightarrow> trigger_floor | Some f \<Rightarrow> f);
                resolution_ready = (divergence_pct < resolution_floor
                  \<and> available_oracles_within_resolution_floor eligible resolution_floor (dp_peg_target p));
                st2 = st1\<lparr>das_below_trigger_blocks :=
                  (if resolution_ready then wrap_i64 (das_below_trigger_blocks st1 + 1) else 0)\<rparr>
            in if dp_resolution_blocks p \<le> das_below_trigger_blocks st2 then
                 with_cooldown L p now
                   \<lparr>io_emit = False, io_transition = Some Resolve, io_severity = previous_active,
                    io_state = st2\<lparr>das_last_alerted_at := Some now, das_last_severity := None,
                      das_last_classification := None, das_trigger_floor_pct := None,
                      das_below_trigger_blocks := 0\<rparr>\<rparr>
               else Inr (quiet st2)))"

section \<open>Evaluation\<close>

definition trigger_floor_for :: "DepegPolicy \<Rightarrow> ContextClassification \<Rightarrow> f64" where
  "trigger_floor_for p classification =
     (if classification = Systemic then dp_systemic_floor_pct p else dp_isolated_floor_pct p)"

definition selected_bands :: "DepegPolicy \<Rightarrow> ContextClassification \<Rightarrow> DepegSeverityBands" where
  "selected_bands p classification =
     (if classification = Systemic then systemic_bands p else isolated_bands p)"

definition no_consensus ::
  "DepegPolicy \<Rightarrow> ContextClassification \<Rightarrow> nat \<Rightarrow> EvaluationOutcome" where
  "no_consensus p classification total_source_count =
     \<lparr>eo_snapshot =
        \<lparr>cs_weighted_median_price = dp_peg_target p, cs_divergence_pct = 0, cs_source_count = 0,
         cs_eligible_source_count = total_source_count, cs_quorum_met = False, cs_breach_active = False,
         cs_oracle_confirmed = False, cs_classification = classification,
         cs_trigger_floor_pct = trigger_floor_for p classification, cs_confidence_breakdown = [],
         cs_severity = None, cs_contributors = [], cs_systemic_markets = []\<rparr>,
      eo_should_emit_alert = False, eo_next_state = DepegAlertState_default,
      eo_transition = None, eo_emitted_severity = None\<rparr>"

definition confidence_total :: "(string \<times> f64) list \<Rightarrow> f64" where
  "confidence_total breakdown = (case map_of breakdown ''total'' of None \<Rightarrow> 0 | Some t \<Rightarrow> t)"

definition quorum_reached :: "DepegPolicy \<Rightarrow> nat \<Rightarrow> bool" where
  "quorum_reached p source_count =
     (let enabled_count = max (enabled_source_count p) 1;
          min_healthy = max (max (sf_min_healthy_sources (dp_source_filter p)) (dp_min_sources p)) 1;
          source_ratio = of_int_f64 (int source_count) / of_int_f64 (int enabled_count)
      in min_healthy \<le> source_count \<and> dp_quorum_pct p \<le> source_ratio)"

text \<open>The snapshot of a market with at least one eligible quote, given their weighted median.\<close>

definition consensus_snapshot ::
  "DepegPolicy \<Rightarrow> datetime \<Rightarrow> ContextClassification \<Rightarrow> nat \<Rightarrow> QuoteInput list \<Rightarrow> f64 \<Rightarrow> ConsensusSnapshot" where
  "consensus_snapshot p now classification total_source_count eligible median =
     (let trigger_floor = trigger_floor_for p classification;
          peg = dp_peg_target p;
          divergence_pct = round_to_6dp (off_peg_pct median peg);
          severity = severity_for_divergence divergence_pct (selected_bands p classification);
          alert_direction = signum (median - peg);
          source_count = length eligible;
          quorum_met = quorum_reached p source_count;
          oracle_confirmed = oracle_confirmation_met p eligible trigger_floor now peg;
          breakdown = compute_confidence_breakdown p eligible median oracle_confirmed peg;
          threshold_breach = (trigger_floor \<le> divergence_pct \<and> severity \<noteq> None)
      in \<lparr>cs_weighted_median_price = median, cs_divergence_pct = divergence_pct,
          cs_source_count = source_count, cs_eligible_source_count = total_source_count,
          cs_quorum_met = quorum_met,
          cs_breach_active = (quorum_met \<and> threshold_breach
            \<and> (\<not> tg_oracle_confirmation (dp_toggles p) \<or> oracle_confirmed)
            \<and> dp_min_confidence_to_fire p \<le> confidence_total breakdown),
          cs_oracle_confirmed = oracle_confirmed, cs_classification = classification,
          cs_trigger_floor_pct = trigger_floor, cs_confidence_breakdown = breakdown, cs_severity = severity,
          cs_contributors = build_evidence_contributors p eligible now peg trigger_floor alert_direction threshold_breach,
          cs_systemic_markets = []\<rparr>)"

definition incident_step ::
  "'a depeg_libs_scheme \<Rightarrow> DepegPolicy \<Rightarrow> datetime \<Rightarrow> ConsensusSnapshot \<Rightarrow> QuoteInput list
     \<Rightarrow> DepegAlertState \<Rightarrow> incident_out res" where
  "incident_step L p now snap eligible st =
     (if cs_breach_active snap
      then on_breach L p now (cs_severity snap) (cs_divergence_pct snap) (cs_classification snap)
             (cs_trigger_floor_pct snap) st
      else on_calm L p now (cs_divergence_pct snap) (cs_trigger_floor_pct snap) eligible st)"

definition evaluate_policy ::
  "'a depeg_libs_scheme \<Rightarrow> DepegPolicy \<Rightarrow> QuoteInput list \<Rightarrow> DepegAlertState \<Rightarrow> datetime
     \<Rightarrow> ContextClassification \<Rightarrow> EvaluationOutcome res" where
  "evaluate_policy L p quotes current_state now classification =
     (case collect_quotes p now quotes of (total_source_count, points, eligible) \<Rightarrow>
        if points = [] then Inr (no_consensus p classification total_source_count)
        else
          (case weighted_median points of
             None \<Rightarrow> Inl (Err ''weighted median failed'')
           | Some median \<Rightarrow>
               (let snap = consensus_snapshot p now classification total_source_count eligible median
                in bind_res (incident_step L p now snap eligible current_state) (\<lambda>out.
                     Inr \<lparr>eo_snapshot = snap, eo_should_emit_alert = io_emit out,
                          eo_next_state = io_state out, eo_transition = io_transition out,
                          eo_emitted_severity = io_severity out\<rparr>))))"

section \<open>What the loop over the quotes collects\<close>

definition counted :: "DepegPolicy \<Rightarrow> QuoteInput \<Rightarrow> bool" where
  "counted p q \<longleftrightarrow> source_enabled p (qi_source_id q) (qi_source_kind q) \<and> is_finite (qi_price q) \<and> 0 < qi_price q"

definition eligible_quote :: "DepegPolicy \<Rightarrow> datetime \<Rightarrow> QuoteInput \<Rightarrow> bool" where
  "eligible_quote p now q \<longleftrightarrow> counted p q \<and> 0 \<le> quote_age_ms now q
     \<and> quote_age_ms now q \<le> source_stale_timeout_ms p (qi_source_id q)
     \<and> \<not> unusable_weight (source_weight p (qi_source_id q))"

abbreviation point_of :: "DepegPolicy \<Rightarrow> QuoteInput \<Rightarrow> f64 \<times> f64" where
  "point_of p q \<equiv> (qi_price q, source_weight p (qi_source_id q))"

lemma collect_quotes_filter:
  "collect_quotes p now qs =
     (length (filter (counted p) qs), map (point_of p) (filter (eligible_quote p now) qs),
      filter (eligible_quote p now) qs)"
  by (induction qs) (auto simp: counted_def eligible_quote_def Let_def)

lemma evaluate_policy_cases:
  assumes "evaluate_policy L p qs st now c = Inr o'"
  obtains (none) "filter (eligible_quote p now) qs = []" "o' = no_consensus p c (length (filter (counted p) qs))"
  | (some) median snap out where
      "filter (eligible_quote p now) qs \<noteq> []"
      "snap = consensus_snapshot p now c (length (filter (counted p) qs)) (filter (eligible_quote p now) qs) median"
      "incident_step L p now snap (filter (eligible_quote p now) qs) st = Inr out"
      "o' = \<lparr>eo_snapshot = snap, eo_should_emit_alert = io_emit out, eo_next_state = io_state out,
            eo_transition = io_transition out, eo_emitted_severity = io_severity out\<rparr>"
  using assms unfolding evaluate_policy_def collect_quotes_filter
  by (auto simp: Let_def bind_res_eq_Inr split: if_splits option.splits)

lemma consensus_source_count:
  "cs_source_count (consensus_snapshot p now c n qs m) = length qs"
  by (simp add: consensus_snapshot_def Let_def)

lemma dex_not_enabled: "to_ascii_lowercase kind = ''dex'' \<Longrightarrow> \<not> source_enabled p sid kind"
  by (simp add: source_enabled_def source_kind_allowed_def)

text \<open>
  DEX prices stay out of the consensus: quotes whose kind is \<^verbatim>\<open>dex\<close>, in any spelling, have no
  influence on any part of the outcome of an evaluation, whatever the policy configures.
\<close>

lemma dex_quotes_do_not_matter:
  "evaluate_policy L p qs st now c =
     evaluate_policy L p (filter (\<lambda>q. to_ascii_lowercase (qi_source_kind q) \<noteq> ''dex'') qs) st now c"
proof -
  let ?qs = "filter (\<lambda>q. to_ascii_lowercase (qi_source_kind q) \<noteq> ''dex'') qs"
  have "filter (counted p) ?qs = filter (counted p) qs"
    "filter (eligible_quote p now) ?qs = filter (eligible_quote p now) qs"
    by (auto simp: counted_def eligible_quote_def dex_not_enabled intro!: filter_cong)
  then show ?thesis by (simp add: evaluate_policy_def collect_quotes_filter)
qed

section \<open>How incidents move\<close>

lemma severity_round_trip [simp]: "severity_from_str (Some (severity_name s)) = Some s"
  by (cases s) (simp_all; code_simp)+

lemma severity_from_str_None [simp]: "severity_from_str None = None"
  by (simp add: severity_from_str_def)

abbreviation incident :: "DepegAlertState \<Rightarrow> Severity option" where
  "incident st \<equiv> severity_from_str (das_last_severity st)"

text \<open>
  The moves of an incident: it starts at some severity, rises, falls, ends, or stays as it is.
\<close>

inductive incident_move ::
  "Severity option \<Rightarrow> IncidentTransition option \<Rightarrow> Severity option \<Rightarrow> bool" where
  start: "incident_move None (Some Trigger) (Some s)"
| rise: "severity_rank (Some s) < severity_rank (Some s') \<Longrightarrow> incident_move (Some s) (Some Escalate) (Some s')"
| fall: "severity_rank (Some s') < severity_rank (Some s) \<Longrightarrow> incident_move (Some s) (Some Deescalate) (Some s')"
| finish: "incident_move (Some s) (Some Resolve) None"
| stay: "incident_move i None i"

inductive_simps incident_move_simps: "incident_move i t j"

lemma with_cooldown_Inr:
  "with_cooldown L p now out = Inr o' \<longleftrightarrow>
     (\<exists>u. checked_add_secs L now (dp_cooldown_sec p) = Some u
        \<and> o' = out\<lparr>io_state := (io_state out)\<lparr>das_cooldown_until := Some u\<rparr>\<rparr>)"
  by (auto simp: with_cooldown_def split: option.splits)

lemma note_breach_simps [simp]:
  "das_last_severity (note_breach d c b st) = das_last_severity st"
  "das_cooldown_until (note_breach d c b st) = das_cooldown_until st"
  "das_below_severity_blocks (note_breach d c b st) = b"
  by (simp_all add: note_breach_def)

lemmas incident_defs =
  trigger_incident_def escalate_incident_def deescalate_incident_def with_cooldown_Inr quiet_def

text \<open>The alert states that an outcome of a breach or of calm leads to, case by case.\<close>

lemma on_breach_cases:
  assumes "on_breach L p now sev d c f st = Inr out"
  shows "incident_move (incident st) (io_transition out) (incident (io_state out))
       \<and> io_emit out = (io_transition out = Some Trigger \<or> io_transition out = Some Escalate)
       \<and> (io_transition out \<noteq> None \<longrightarrow> \<not> cooldown_active st now
            \<and> das_cooldown_until (io_state out) = checked_add_secs L now (dp_cooldown_sec p)
            \<and> io_severity out = sev \<and> incident (io_state out) = sev)
       \<and> (io_transition out = None \<longrightarrow> das_cooldown_until (io_state out) = das_cooldown_until st)"
proof -
  consider (new) "incident st = None"
    | (up) "incident st \<noteq> None" "severity_rank (incident st) < severity_rank sev"
    | (down) "incident st \<noteq> None" "severity_rank sev < severity_rank (incident st)"
    | (same) "incident st \<noteq> None" "severity_rank sev = severity_rank (incident st)"
    by fastforce
  then show ?thesis
  proof cases
    case new
    then show ?thesis using assms
      by (cases sev) (auto simp: on_breach_def Let_def bind_res_eq_Inr incident_defs incident_move_simps split: if_splits)
  next
    case up
    then show ?thesis using assms
      by (cases sev) (auto simp: on_breach_def Let_def bind_res_eq_Inr incident_defs incident_move_simps split: if_splits)
  next
    case down
    then show ?thesis using assms
      by (cases sev) (auto simp: on_breach_def Let_def bind_res_eq_Inr incident_defs incident_move_simps split: if_splits)
  next
    case same
    then show ?thesis using assms
      by (auto simp: on_breach_def Let_def bind_res_eq_Inr incident_defs incident_move_simps)
  qed
qed

lemma on_calm_cases:
  assumes "on_calm L p now d f qs st = Inr out"
  shows "incident_move (incident st) (io_transition out) (incident (io_state out))
       \<and> \<not> io_emit out
       \<and> (io_transition out \<noteq> None \<longrightarrow>
            das_cooldown_until (io_state out) = checked_add_secs L now (dp_cooldown_sec p))
       \<and> (io_transition out = None \<longrightarrow> das_cooldown_until (io_state out) = das_cooldown_until st)"
  using assms
  by (auto simp: on_calm_def Let_def with_cooldown_Inr quiet_def incident_move_simps split: if_splits)

lemma incident_step_cases:
  assumes "incident_step L p now snap qs st = Inr out"
  shows "incident_move (incident st) (io_transition out) (incident (io_state out))"
    and "io_emit out = (io_transition out = Some Trigger \<or> io_transition out = Some Escalate)"
    and "io_transition out \<noteq> None \<Longrightarrow>
           das_cooldown_until (io_state out) = checked_add_secs L now (dp_cooldown_sec p)"
    and "io_transition out = None \<Longrightarrow> das_cooldown_until (io_state out) = das_cooldown_until st"
    and "io_emit out \<Longrightarrow> cs_breach_active snap \<and> \<not> cooldown_active st now
           \<and> io_severity out = cs_severity snap \<and> incident (io_state out) = cs_severity snap"
proof -
  have "incident_move (incident st) (io_transition out) (incident (io_state out))
     \<and> io_emit out = (io_transition out = Some Trigger \<or> io_transition out = Some Escalate)
     \<and> (io_transition out \<noteq> None \<longrightarrow>
          das_cooldown_until (io_state out) = checked_add_secs L now (dp_cooldown_sec p))
     \<and> (io_transition out = None \<longrightarrow> das_cooldown_until (io_state out) = das_cooldown_until st)
     \<and> (io_emit out \<longrightarrow> cs_breach_active snap \<and> \<not> cooldown_active st now
           \<and> io_severity out = cs_severity snap \<and> incident (io_state out) = cs_severity snap)"
  proof (cases "cs_breach_active snap")
    case True
    with assms have "on_breach L p now (cs_severity snap) (cs_divergence_pct snap) (cs_classification snap)
        (cs_trigger_floor_pct snap) st = Inr out" by (simp add: incident_step_def)
    from on_breach_cases [OF this] True show ?thesis by auto
  next
    case False
    with assms have calm: "on_calm L p now (cs_divergence_pct snap) (cs_trigger_floor_pct snap) qs st = Inr out"
      by (simp add: incident_step_def)
    then have "io_transition out \<noteq> Some Trigger" "io_transition out \<noteq> Some Escalate"
      by (auto simp: on_calm_def Let_def with_cooldown_Inr quiet_def split: if_splits)
    with on_calm_cases [OF calm] show ?thesis by auto
  qed
  then show "incident_move (incident st) (io_transition out) (incident (io_state out))"
    and "io_emit out = (io_transition out = Some Trigger \<or> io_transition out = Some Escalate)"
    and "io_transition out \<noteq> None \<Longrightarrow>
           das_cooldown_until (io_state out) = checked_add_secs L now (dp_cooldown_sec p)"
    and "io_transition out = None \<Longrightarrow> das_cooldown_until (io_state out) = das_cooldown_until st"
    and "io_emit out \<Longrightarrow> cs_breach_active snap \<and> \<not> cooldown_active st now
           \<and> io_severity out = cs_severity snap \<and> incident (io_state out) = cs_severity snap"
    by blast+
qed

section \<open>When alerts are raised\<close>

lemma on_breach_emits:
  assumes "on_breach L p now sev d c f st = Inr out" "\<not> cooldown_active st now"
    "severity_rank (incident st) < severity_rank sev"
  shows "io_emit out"
  using assms
  by (cases sev) (auto simp: on_breach_def Let_def bind_res_eq_Inr incident_defs split: if_splits)

lemma severity_rank_pos [simp]: "0 < severity_rank (Some s)"
  by (cases s) simp_all

text \<open>
  (C1) Exactly the new or worsening breaches raise an alert: an evaluation emits an alert if and only
  if the breach is active, no cooldown is running and the severity of the divergence ranks above
  the severity of the incident so far (no incident ranks lowest).
\<close>

theorem alert_iff_worsening_breach:
  assumes "evaluate_policy L p qs st now c = Inr o'"
  shows "eo_should_emit_alert o' \<longleftrightarrow>
     cs_breach_active (eo_snapshot o') \<and> \<not> cooldown_active st now
     \<and> severity_rank (incident st) < severity_rank (cs_severity (eo_snapshot o'))"
  using assms
proof (cases rule: evaluate_policy_cases)
  case none
  then show ?thesis by (simp add: no_consensus_def)
next
  case (some median snap out)
  have "severity_rank (incident st) < severity_rank (cs_severity snap)" if "io_emit out"
    using incident_step_cases(1,2,5) [OF some(3)] that by (auto simp: incident_move_simps)
  moreover have "io_emit out" if "cs_breach_active snap" "\<not> cooldown_active st now"
      "severity_rank (incident st) < severity_rank (cs_severity snap)"
    using some(3) that on_breach_emits by (auto simp: incident_step_def)
  ultimately show ?thesis using incident_step_cases(5) [OF some(3)] some(4) by auto
qed

text \<open>
  (C5) Every alert is justified by fresh quotes: the eligible quotes are at least as many as the
  policy requires, their weighted median is off the peg by at least the trigger floor and reaches
  a severity band, and where oracle confirmation is on, an eligible oracle quote is itself off the
  peg by at least the floor.
\<close>

theorem alerts_are_justified:
  assumes "evaluate_policy L p qs st now c = Inr o'" and "eo_should_emit_alert o'"
  shows "\<exists>median.
     weighted_median (map (point_of p) (filter (eligible_quote p now) qs)) = Some median
     \<and> max (dp_min_sources p) (sf_min_healthy_sources (dp_source_filter p)) \<le> length (filter (eligible_quote p now) qs)
     \<and> trigger_floor_for p c \<le> round_to_6dp (off_peg_pct median (dp_peg_target p))
     \<and> severity_for_divergence (round_to_6dp (off_peg_pct median (dp_peg_target p))) (selected_bands p c)
         = eo_emitted_severity o' \<and> eo_emitted_severity o' \<noteq> None
     \<and> (tg_oracle_confirmation (dp_toggles p) \<longrightarrow>
          (\<exists>q \<in> set qs. eligible_quote p now q \<and> qi_source_kind q = ''oracle''
             \<and> trigger_floor_for p c \<le> round_to_6dp (off_peg_pct (qi_price q) (dp_peg_target p))))"
  using assms(1)
proof (cases rule: evaluate_policy_cases)
  case none
  with assms(2) show ?thesis by (simp add: no_consensus_def)
next
  case (some median snap out)
  let ?el = "filter (eligible_quote p now) qs"
  have m: "weighted_median (map (point_of p) ?el) = Some (cs_weighted_median_price snap)"
    using assms(1) some(1,4) unfolding evaluate_policy_def collect_quotes_filter
    by (auto simp: Let_def bind_res_eq_Inr consensus_snapshot_def split: option.splits)
  have med: "cs_weighted_median_price snap = median"
    by (simp add: some(2) consensus_snapshot_def Let_def)
  have emit: "io_emit out" using assms(2) some(4) by simp
  note em = incident_step_cases(5) [OF some(3) emit]
  have b: "quorum_reached p (length ?el)" "trigger_floor_for p c \<le> round_to_6dp (off_peg_pct median (dp_peg_target p))"
    "cs_severity snap \<noteq> None" "tg_oracle_confirmation (dp_toggles p) \<Longrightarrow>
      oracle_confirmation_met p ?el (trigger_floor_for p c) now (dp_peg_target p)"
    using em by (auto simp: some(2) consensus_snapshot_def Let_def)
  have sev: "eo_emitted_severity o' = cs_severity snap"
    "cs_severity snap = severity_for_divergence (round_to_6dp (off_peg_pct median (dp_peg_target p))) (selected_bands p c)"
    using em some(4) by (simp, simp add: some(2) consensus_snapshot_def Let_def)
  have "\<exists>q \<in> set qs. eligible_quote p now q \<and> qi_source_kind q = ''oracle''
      \<and> trigger_floor_for p c \<le> round_to_6dp (off_peg_pct (qi_price q) (dp_peg_target p))"
    if "tg_oracle_confirmation (dp_toggles p)"
    using b(4) [OF that] by (auto simp: oracle_confirmation_met_def list_ex_iff split: if_splits)
  moreover have "max (dp_min_sources p) (sf_min_healthy_sources (dp_source_filter p)) \<le> length ?el"
    using b(1) by (simp add: quorum_reached_def Let_def)
  ultimately show ?thesis using m med b(2,3) sev by auto
qed

text \<open>
  (C4) Incidents follow their life cycle: an evaluation with a consensus moves the incident by the
  transition it reports (a trigger starts one where there was none, an escalation raises the
  severity, a deescalation lowers it, a resolution ends it, no transition leaves it alone), and it
  raises an alert exactly on a trigger or an escalation.
\<close>

theorem incidents_follow_life_cycle:
  assumes "evaluate_policy L p qs st now c = Inr o'" and "cs_source_count (eo_snapshot o') \<noteq> 0"
  shows "incident_move (incident st) (eo_transition o') (incident (eo_next_state o'))
     \<and> (eo_should_emit_alert o' \<longleftrightarrow> eo_transition o' = Some Trigger \<or> eo_transition o' = Some Escalate)"
  using assms(1)
proof (cases rule: evaluate_policy_cases)
  case none
  with assms(2) show ?thesis by (simp add: no_consensus_def)
next
  case (some median snap out)
  then show ?thesis using incident_step_cases(1,2) [OF some(3)] by simp
qed

section \<open>Histories of a market\<close>

record evaluation =
  ev_quotes :: "QuoteInput list"
  ev_now :: datetime
  ev_context :: ContextClassification

text \<open>A sequence of evaluations: each starts from the state the previous one has left.\<close>

fun depeg_run ::
  "'a depeg_libs_scheme \<Rightarrow> DepegPolicy \<Rightarrow> DepegAlertState \<Rightarrow> evaluation list
     \<Rightarrow> (datetime \<times> EvaluationOutcome) list res" where
  "depeg_run L p st [] = Inr []"
| "depeg_run L p st (e # es) =
     bind_res (evaluate_policy L p (ev_quotes e) st (ev_now e) (ev_context e)) (\<lambda>o'.
       bind_res (depeg_run L p (eo_next_state o') es) (\<lambda>os. Inr ((ev_now e, o') # os)))"

text \<open>What \<^verbatim>\<open>DateTime + Duration::seconds\<close> is documented to compute when it does not panic.\<close>

definition adds_seconds :: "'a depeg_libs_scheme \<Rightarrow> bool" where
  "adds_seconds L \<longleftrightarrow> (\<forall>t s u. checked_add_secs L t s = Some u \<longrightarrow> u = t + s * nanos_per_sec)"

abbreviation has_consensus :: "EvaluationOutcome \<Rightarrow> bool" where
  "has_consensus o' \<equiv> cs_source_count (eo_snapshot o') \<noteq> 0"

lemma evaluate_consensus:
  assumes "evaluate_policy L p qs st now c = Inr o'" "has_consensus o'"
  obtains snap out where
    "incident_step L p now snap (filter (eligible_quote p now) qs) st = Inr out"
    "eo_should_emit_alert o' = io_emit out" "eo_next_state o' = io_state out"
    "eo_transition o' = io_transition out"
  using assms(1)
proof (cases rule: evaluate_policy_cases)
  case none
  then show ?thesis using assms(2) by (simp add: no_consensus_def)
next
  case (some median snap out)
  then show ?thesis using that by simp
qed

lemma step_keeps_cooldown:
  assumes "adds_seconds L" "evaluate_policy L p qs st now c = Inr o'" "has_consensus o'"
    and "das_cooldown_until st = Some u" "u0 \<le> u" "u0 \<le> now + dp_cooldown_sec p * nanos_per_sec"
  shows "\<exists>u'. das_cooldown_until (eo_next_state o') = Some u' \<and> u0 \<le> u'"
    and "eo_should_emit_alert o' \<Longrightarrow> u0 \<le> now"
proof -
  from evaluate_consensus [OF assms(2,3)] obtain snap out where
    s: "incident_step L p now snap (filter (eligible_quote p now) qs) st = Inr out"
    and o': "eo_should_emit_alert o' = io_emit out" "eo_next_state o' = io_state out" by metis
  show "\<exists>u'. das_cooldown_until (eo_next_state o') = Some u' \<and> u0 \<le> u'"
  proof (cases "io_transition out = None")
    case True
    with incident_step_cases(4) [OF s] assms(4,5) o'(2) show ?thesis by auto
  next
    case False
    from incident_step_cases(1) [OF s] False
    have "checked_add_secs L now (dp_cooldown_sec p) \<noteq> None"
      using s by (auto simp: incident_step_def on_breach_def on_calm_def Let_def bind_res_eq_Inr
          incident_defs split: if_splits option.splits)
    then obtain u' where "checked_add_secs L now (dp_cooldown_sec p) = Some u'" by auto
    with incident_step_cases(3) [OF s False] assms(1,6) o'(2) show ?thesis by (auto simp: adds_seconds_def)
  qed
  show "eo_should_emit_alert o' \<Longrightarrow> u0 \<le> now"
    using incident_step_cases(5) [OF s] o'(1) assms(4,5) by (auto simp: cooldown_active_def)
qed

lemma alert_sets_cooldown:
  assumes "adds_seconds L" "evaluate_policy L p qs st now c = Inr o'" "has_consensus o'" "eo_should_emit_alert o'"
  shows "das_cooldown_until (eo_next_state o') = Some (now + dp_cooldown_sec p * nanos_per_sec)"
proof -
  from evaluate_consensus [OF assms(2,3)] obtain snap out where
    s: "incident_step L p now snap (filter (eligible_quote p now) qs) st = Inr out"
    and o': "eo_should_emit_alert o' = io_emit out" "eo_next_state o' = io_state out" by metis
  have t: "io_transition out \<noteq> None" using incident_step_cases(2) [OF s] assms(4) o'(1) by auto
  have "checked_add_secs L now (dp_cooldown_sec p) \<noteq> None"
    using s t by (auto simp: incident_step_def on_breach_def on_calm_def Let_def bind_res_eq_Inr
        incident_defs split: if_splits option.splits)
  with incident_step_cases(3) [OF s t] assms(1) o'(2) show ?thesis by (auto simp: adds_seconds_def)
qed

lemma run_respects_cooldown:
  assumes "adds_seconds L" "depeg_run L p st es = Inr os" "\<forall>(_, o') \<in> set os. has_consensus o'"
    and "das_cooldown_until st = Some u" "u0 \<le> u"
    and "\<forall>e \<in> set es. u0 \<le> ev_now e + dp_cooldown_sec p * nanos_per_sec"
  shows "\<forall>(now, o') \<in> set os. eo_should_emit_alert o' \<longrightarrow> u0 \<le> now"
  using assms(2-)
proof (induction es arbitrary: st os u)
  case (Cons e es)
  then obtain o1 os1 where o1: "evaluate_policy L p (ev_quotes e) st (ev_now e) (ev_context e) = Inr o1"
    and os1: "depeg_run L p (eo_next_state o1) es = Inr os1" and os: "os = (ev_now e, o1) # os1"
    by (auto simp: bind_res_eq_Inr)
  have c: "has_consensus o1" "u0 \<le> ev_now e + dp_cooldown_sec p * nanos_per_sec"
    using Cons.prems os by auto
  from step_keeps_cooldown [OF assms(1) o1 c(1) Cons.prems(3,4) c(2)]
  obtain u' where u': "das_cooldown_until (eo_next_state o1) = Some u'" "u0 \<le> u'"
    and e: "eo_should_emit_alert o1 \<Longrightarrow> u0 \<le> ev_now e" by blast
  have "\<forall>(now, o') \<in> set os1. eo_should_emit_alert o' \<longrightarrow> u0 \<le> now"
    by (rule Cons.IH [OF os1 _ u']) (use Cons.prems os in auto)
  then show ?case using e os by auto
qed simp

lemma depeg_run_times: "depeg_run L p st es = Inr os \<Longrightarrow> map fst os = map ev_now es"
  by (induction es arbitrary: st os) (auto simp: bind_res_eq_Inr)

text \<open>
  (C7) Alerts respect the cooldown: over every history of a market in event-time order in which the
  consensus is never lost, any two alerts are at least the configured cooldown apart.
\<close>

theorem alerts_respect_cooldown:
  assumes "adds_seconds L" and "depeg_run L p st es = Inr os"
    and "sorted (map ev_now es)" and "list_all (\<lambda>(_, o'). has_consensus o') os"
  shows "sorted_wrt (\<lambda>(t, a) (t', b). eo_should_emit_alert a \<and> eo_should_emit_alert b \<longrightarrow>
           t + dp_cooldown_sec p * nanos_per_sec \<le> t') os"
  using assms(2-)
proof (induction es arbitrary: st os)
  case (Cons e es)
  then obtain o1 os1 where o1: "evaluate_policy L p (ev_quotes e) st (ev_now e) (ev_context e) = Inr o1"
    and os1: "depeg_run L p (eo_next_state o1) es = Inr os1" and os: "os = (ev_now e, o1) # os1"
    by (auto simp: bind_res_eq_Inr)
  have tail: "sorted_wrt (\<lambda>(t, a) (t', b). eo_should_emit_alert a \<and> eo_should_emit_alert b \<longrightarrow>
      t + dp_cooldown_sec p * nanos_per_sec \<le> t') os1"
    by (rule Cons.IH [OF os1]) (use Cons.prems os in auto)
  have "\<forall>(t', b) \<in> set os1. eo_should_emit_alert b \<longrightarrow> ev_now e + dp_cooldown_sec p * nanos_per_sec \<le> t'"
    if "eo_should_emit_alert o1"
  proof (rule run_respects_cooldown [OF assms(1) os1])
    show "das_cooldown_until (eo_next_state o1) = Some (ev_now e + dp_cooldown_sec p * nanos_per_sec)"
      using alert_sets_cooldown [OF assms(1) o1 _ that] Cons.prems os by simp
    show "\<forall>e' \<in> set es. ev_now e + dp_cooldown_sec p * nanos_per_sec \<le> ev_now e' + dp_cooldown_sec p * nanos_per_sec"
      using Cons.prems(2) by auto
  qed (use Cons.prems os in \<open>auto simp: list_all_iff\<close>)
  then show ?case using tail os by auto
qed simp

text \<open>
  An evaluation that is calm below the floor of an incident: there is a consensus, no breach is
  active, and the divergence and every eligible oracle are below the floor.
\<close>

definition calm_below :: "DepegPolicy \<Rightarrow> f64 \<Rightarrow> evaluation \<Rightarrow> bool" where
  "calm_below p f e =
     (let el = filter (eligible_quote p (ev_now e)) (ev_quotes e);
          n = length (filter (counted p) (ev_quotes e))
      in case weighted_median (map (point_of p) el) of
           None \<Rightarrow> False
         | Some median \<Rightarrow>
             (let snap = consensus_snapshot p (ev_now e) (ev_context e) n el median
              in \<not> cs_breach_active snap \<and> cs_divergence_pct snap < f
                 \<and> available_oracles_within_resolution_floor el f (dp_peg_target p)))"

lemma calm_step:
  assumes "calm_below p f e" "incident st \<noteq> None" "das_trigger_floor_pct st = Some f"
    and "das_below_trigger_blocks st = b" "0 \<le> b" "b < dp_resolution_blocks p" "dp_resolution_blocks p < 2 ^ 63"
    and "checked_add_secs L (ev_now e) (dp_cooldown_sec p) \<noteq> None"
  shows "\<exists>o'. evaluate_policy L p (ev_quotes e) st (ev_now e) (ev_context e) = Inr o' \<and> \<not> eo_should_emit_alert o'
    \<and> (if b + 1 < dp_resolution_blocks p
       then eo_transition o' = None \<and> incident (eo_next_state o') = incident st
          \<and> das_trigger_floor_pct (eo_next_state o') = Some f \<and> das_below_trigger_blocks (eo_next_state o') = b + 1
       else eo_transition o' = Some Resolve \<and> incident (eo_next_state o') = None)"
proof -
  let ?el = "filter (eligible_quote p (ev_now e)) (ev_quotes e)" and ?n = "length (filter (counted p) (ev_quotes e))"
  from assms(1) obtain median where m: "weighted_median (map (point_of p) ?el) = Some median"
    and snap: "\<not> cs_breach_active (consensus_snapshot p (ev_now e) (ev_context e) ?n ?el median)"
      "cs_divergence_pct (consensus_snapshot p (ev_now e) (ev_context e) ?n ?el median) < f"
      "available_oracles_within_resolution_floor ?el f (dp_peg_target p)"
    by (auto simp: calm_below_def Let_def split: option.splits)
  have ne: "?el \<noteq> []" using m by (auto simp: weighted_median_def)
  have w: "wrap_i64 (b + 1) = b + 1" using assms(5-7) by (intro wrap_i64_id) (simp add: i64_range_def)
  obtain u where u: "checked_add_secs L (ev_now e) (dp_cooldown_sec p) = Some u" using assms(8) by auto
  show ?thesis
    using assms(2-6) ne m snap w u
    by (auto simp: evaluate_policy_def collect_quotes_filter Let_def incident_step_def on_calm_def quiet_def
        with_cooldown_def)
qed

text \<open>
  (C8) Incidents are resolved: when an incident is followed by as many calm evaluations in a row as
  the policy's resolution window asks for, the last of them, and none before it, resolves the
  incident, and no alert is raised on the way.
\<close>

theorem incident_resolves_after_window:
  assumes "incident st \<noteq> None" and "das_trigger_floor_pct st = Some f" and "das_below_trigger_blocks st = b"
    and "0 \<le> b" and "dp_resolution_blocks p < 2 ^ 63" and "b + int (length es) = dp_resolution_blocks p"
    and "es \<noteq> []" and "list_all (calm_below p f) es"
    and "list_all (\<lambda>e. checked_add_secs L (ev_now e) (dp_cooldown_sec p) \<noteq> None) es"
  shows "\<exists>os. depeg_run L p st es = Inr os \<and> list_all (\<lambda>(_, o'). \<not> eo_should_emit_alert o') os
     \<and> map (\<lambda>(_, o'). eo_transition o') os = replicate (length es - 1) None @ [Some Resolve]
     \<and> incident (eo_next_state (snd (last os))) = None"
  using assms
proof (induction es arbitrary: st b)
  case (Cons e es)
  have lt: "b < dp_resolution_blocks p" using Cons.prems by simp
  from Cons.prems have e: "calm_below p f e" "checked_add_secs L (ev_now e) (dp_cooldown_sec p) \<noteq> None" by simp_all
  from calm_step [OF e(1) Cons.prems(1-4) lt Cons.prems(5) e(2)] obtain o1 where
    o1: "evaluate_policy L p (ev_quotes e) st (ev_now e) (ev_context e) = Inr o1" "\<not> eo_should_emit_alert o1"
    and nxt: "if b + 1 < dp_resolution_blocks p
       then eo_transition o1 = None \<and> incident (eo_next_state o1) = incident st
          \<and> das_trigger_floor_pct (eo_next_state o1) = Some f \<and> das_below_trigger_blocks (eo_next_state o1) = b + 1
       else eo_transition o1 = Some Resolve \<and> incident (eo_next_state o1) = None" by blast
  show ?case
  proof (cases "es = []")
    case True
    with Cons.prems nxt o1 show ?thesis by simp
  next
    case False
    then have "b + 1 < dp_resolution_blocks p" using Cons.prems(6) by (cases es) auto
    with nxt have s: "eo_transition o1 = None" "incident (eo_next_state o1) \<noteq> None"
      "das_trigger_floor_pct (eo_next_state o1) = Some f" "das_below_trigger_blocks (eo_next_state o1) = b + 1"
      using Cons.prems(1) by auto
    from Cons.IH [OF s(2-4)] Cons.prems False obtain os where
      os: "depeg_run L p (eo_next_state o1) es = Inr os" "list_all (\<lambda>(_, o'). \<not> eo_should_emit_alert o') os"
        "map (\<lambda>(_, o'). eo_transition o') os = replicate (length es - 1) None @ [Some Resolve]"
        "incident (eo_next_state (snd (last os))) = None" by auto
    have "os \<noteq> []" using os(3) by auto
    moreover have "None # replicate (length es - 1) None = replicate (length es) (None :: IncidentTransition option)"
      using False by (cases es) simp_all
    ultimately show ?thesis using o1 s(1) os by simp
  qed
qed simp

section \<open>A sample market\<close>

definition sample_libs :: depeg_libs where
  "sample_libs =
     \<lparr>timestamp_millis_opt = (\<lambda>ms. Some (ms * 1000000)), timestamp_opt = (\<lambda>s. Some (s * nanos_per_sec)),
      parse_from_rfc3339 = (\<lambda>_. None), json_to_string = (\<lambda>_. []), unicode_uppercase = (\<lambda>s. s),
      powi_f64 = (\<lambda>_ _. lit 1), de_field_mappings = (\<lambda>_. None), ser_field_mappings = (\<lambda>_. JNull),
      checked_add_secs = (\<lambda>t s. Some (t + s * nanos_per_sec)), fmt6 = (\<lambda>_. []), to_rfc3339 = (\<lambda>_. []),
      min_utc = 0, de_policies = (\<lambda>_. None), de_alert_state = (\<lambda>_. None), ser_alert_state = (\<lambda>_. Inr JNull),
      ser_contributors = (\<lambda>_. JNull), ser_systemic_markets = (\<lambda>_. JNull), ser_confidence = (\<lambda>_. JNull),
      ser_classification = (\<lambda>_. JNull), ser_transition = (\<lambda>_. JNull)\<rparr>"

definition sample_policy :: DepegPolicy where
  "sample_policy =
     \<lparr>dp_tenant_id = ''t'', dp_market_key = ''USDC/USD'', dp_peg_target = lit 1, dp_min_sources = 2,
      dp_quorum_pct = 0, dp_cooldown_sec = 60, dp_stale_timeout_ms = 30000,
      dp_severity_bands = DepegSeverityBands_default, dp_severity_bands_isolated = None,
      dp_severity_bands_systemic = None, dp_isolated_floor_pct = lit 1, dp_systemic_floor_pct = lit 1,
      dp_deescalation_blocks = 5, dp_resolution_blocks = 2,
      dp_source_filter = DepegSourceFilter_default\<lparr>sf_min_healthy_sources := 2\<rparr>,
      dp_toggles = DepegToggles_default\<lparr>tg_oracle_confirmation := False, tg_contagion_detection := False\<rparr>,
      dp_confidence_weights = DepegConfidenceWeights_default, dp_min_confidence_to_fire = 0,
      dp_source_overrides = []\<rparr>"

definition sample_quotes :: "f64 \<Rightarrow> datetime \<Rightarrow> QuoteInput list" where
  "sample_quotes x t =
     map (\<lambda>s. \<lparr>qi_source_id = s, qi_source_kind = ''cex'', qi_price = x, qi_observed_at = t\<rparr>) [''a'', ''b'']"

lemma sample_source: "source_enabled sample_policy s ''cex''" "source_weight sample_policy s = lit 1"
  "source_stale_timeout_ms sample_policy s = 30000"
  by (simp_all add: source_enabled_def source_kind_allowed_def sample_policy_def DepegSourceFilter_default_def
      to_ascii_lowercase_def lower_char_def upper_letters_def lower_letters_def source_weight_def
      source_stale_timeout_ms_def f64_eval)

lemma sample_eligible:
  assumes "t \<le> now" "now \<le> t + 30000000000" "0 < m"
  shows "filter (counted sample_policy) (sample_quotes (Fin False m) t) = sample_quotes (Fin False m) t
   \<and> filter (eligible_quote sample_policy now) (sample_quotes (Fin False m) t) = sample_quotes (Fin False m) t"
proof -
  have "0 \<le> (now - t) div 1000000" using assms(1) by (simp add: pos_imp_zdiv_nonneg_iff)
  moreover have "(now - t) div 1000000 \<le> 30000"
    using zdiv_mono1 [of "now - t" 30000000000 1000000] assms(2) by simp
  ultimately show ?thesis using assms
    by (simp add: sample_quotes_def counted_def eligible_quote_def sample_source unusable_weight_def f64_eval
        quote_age_ms_def num_milliseconds_nonneg)
qed

lemma sample_median: "weighted_median [(Fin False m, lit 1), (Fin False m, lit 1)] = Some (Fin False m)"
  by (simp add: weighted_median_def sort_by_def price_le_def Let_def f64_eval)

lemma sample_points:
  "map (point_of sample_policy) (sample_quotes x t) = [(x, lit 1), (x, lit 1)]"
  by (simp add: sample_quotes_def sample_source)

lemma sample_evaluate:
  assumes "t \<le> now" "now \<le> t + 30000000000" "0 < m"
  shows "evaluate_policy L sample_policy (sample_quotes (Fin False m) t) st now Isolated =
     (let snap = consensus_snapshot sample_policy now Isolated 2 (sample_quotes (Fin False m) t) (Fin False m)
      in bind_res (incident_step L sample_policy now snap (sample_quotes (Fin False m) t) st) (\<lambda>out.
           Inr \<lparr>eo_snapshot = snap, eo_should_emit_alert = io_emit out, eo_next_state = io_state out,
                eo_transition = io_transition out, eo_emitted_severity = io_severity out\<rparr>))"
proof -
  have "length (sample_quotes (Fin False m) t) = 2" by (simp add: sample_quotes_def)
  then show ?thesis using sample_eligible [OF assms]
    by (simp add: evaluate_policy_def collect_quotes_filter sample_points sample_median Let_def)
qed

lemma sample_snapshot_breach:
  "cs_breach_active (consensus_snapshot sample_policy now Isolated 2 (sample_quotes (Fin False 2) t) (Fin False 2))"
  "cs_severity (consensus_snapshot sample_policy now Isolated 2 (sample_quotes (Fin False 2) t) (Fin False 2)) = Some Critical"
  by (simp_all add: consensus_snapshot_def Let_def sample_quotes_def sample_policy_def trigger_floor_for_def
      off_peg_pct_def round_to_6dp_def severity_for_divergence_def selected_bands_def isolated_bands_def
      DepegSeverityBands_default_def quorum_reached_def DepegSourceFilter_default_def enabled_source_count_def
      DepegToggles_default_def DepegConfidenceWeights_default_def confidence_total_def
      compute_confidence_breakdown_def f64_eval del: f64_round.simps)

lemma sample_snapshot_calm:
  "\<not> cs_breach_active (consensus_snapshot sample_policy now Isolated 2 (sample_quotes (Fin False 1) t) (Fin False 1))"
  "cs_divergence_pct (consensus_snapshot sample_policy now Isolated 2 (sample_quotes (Fin False 1) t) (Fin False 1)) = Fin False 0"
  "cs_trigger_floor_pct (consensus_snapshot sample_policy now Isolated 2 (sample_quotes (Fin False 1) t) (Fin False 1)) = Fin False 1"
  by (simp_all add: consensus_snapshot_def Let_def sample_quotes_def sample_policy_def trigger_floor_for_def
      off_peg_pct_def round_to_6dp_def severity_for_divergence_def selected_bands_def isolated_bands_def
      DepegSeverityBands_default_def f64_eval del: f64_round.simps)

lemma sample_secs [simp]: "checked_add_secs sample_libs t s = Some (t + s * nanos_per_sec)"
  by (simp add: sample_libs_def)

lemma alert_state_default [simp]:
  "das_cooldown_until DepegAlertState_default = None" "das_last_severity DepegAlertState_default = None"
  "das_below_trigger_blocks DepegAlertState_default = 0"
  by (simp_all add: DepegAlertState_default_def)

lemma sample_alert_for:
  assumes secs: "\<And>t s. checked_add_secs L t s = Some (t + s * nanos_per_sec)"
    and "das_cooldown_until st = None" "das_last_severity st = None"
  shows "\<exists>o'. evaluate_policy L sample_policy (sample_quotes (Fin False 2) t) st t Isolated = Inr o'
     \<and> eo_should_emit_alert o' \<and> cs_source_count (eo_snapshot o') = 2
     \<and> das_trigger_floor_pct (eo_next_state o') \<noteq> None \<and> eo_emitted_severity o' = Some Critical"
proof -
  have "cs_source_count (consensus_snapshot sample_policy t Isolated 2 (sample_quotes (Fin False 2) t) (Fin False 2)) = 2"
    by (simp add: consensus_source_count sample_quotes_def)
  then show ?thesis using assms
    by (simp add: sample_evaluate incident_step_def sample_snapshot_breach on_breach_def Let_def
        cooldown_active_def trigger_incident_def with_cooldown_def)
qed

lemma sample_alert:
  "\<exists>o'. evaluate_policy sample_libs sample_policy (sample_quotes (Fin False 2) t) DepegAlertState_default t Isolated = Inr o'
     \<and> eo_should_emit_alert o' \<and> cs_source_count (eo_snapshot o') = 2
     \<and> das_trigger_floor_pct (eo_next_state o') \<noteq> None"
  using sample_alert_for [of sample_libs DepegAlertState_default t] by auto

theorem alert_iff_worsening_breach_witness:
  "\<exists>o'. evaluate_policy sample_libs sample_policy (sample_quotes (Fin False 2) 0) DepegAlertState_default 0 Isolated = Inr o'
     \<and> cs_breach_active (eo_snapshot o') \<and> \<not> cooldown_active DepegAlertState_default 0"
  using sample_alert [of 0] alert_iff_worsening_breach by fastforce

theorem alerts_are_justified_witness:
  "\<exists>median. weighted_median (map (point_of sample_policy)
     (filter (eligible_quote sample_policy 0) (sample_quotes (Fin False 2) 0))) = Some median
     \<and> 2 \<le> length (filter (eligible_quote sample_policy 0) (sample_quotes (Fin False 2) 0))"
proof -
  from sample_alert [of 0] obtain o' where
    "evaluate_policy sample_libs sample_policy (sample_quotes (Fin False 2) 0) DepegAlertState_default 0 Isolated = Inr o'"
    "eo_should_emit_alert o'" by blast
  from alerts_are_justified [OF this] show ?thesis by (auto simp: sample_policy_def)
qed

theorem incidents_follow_life_cycle_witness:
  "\<exists>o'. evaluate_policy sample_libs sample_policy (sample_quotes (Fin False 2) 0) DepegAlertState_default 0 Isolated = Inr o'
     \<and> incident_move None (eo_transition o') (incident (eo_next_state o'))"
proof -
  from sample_alert [of 0] obtain o' where
    o': "evaluate_policy sample_libs sample_policy (sample_quotes (Fin False 2) 0) DepegAlertState_default 0 Isolated = Inr o'"
    "cs_source_count (eo_snapshot o') \<noteq> 0" by fastforce
  from incidents_follow_life_cycle [OF o'] o'(1) show ?thesis
    by (auto simp: DepegAlertState_default_def)
qed

lemma sample_adds: "adds_seconds sample_libs"
  by (simp add: adds_seconds_def sample_libs_def)

theorem alerts_respect_cooldown_witness:
  "\<exists>os. depeg_run sample_libs sample_policy DepegAlertState_default
           [\<lparr>ev_quotes = sample_quotes (Fin False 2) 0, ev_now = 0, ev_context = Isolated\<rparr>] = Inr os
     \<and> sorted_wrt (\<lambda>(t, a) (t', b). eo_should_emit_alert a \<and> eo_should_emit_alert b \<longrightarrow>
           t + 60 * nanos_per_sec \<le> t') os"
proof -
  let ?e = "\<lparr>ev_quotes = sample_quotes (Fin False 2) 0, ev_now = 0, ev_context = Isolated\<rparr>"
  from sample_alert [of 0] obtain o' where
    o': "evaluate_policy sample_libs sample_policy (sample_quotes (Fin False 2) 0) DepegAlertState_default 0 Isolated = Inr o'"
    "cs_source_count (eo_snapshot o') = 2" by blast
  then have r: "depeg_run sample_libs sample_policy DepegAlertState_default [?e] = Inr [(0, o')]" by simp
  have "dp_cooldown_sec sample_policy = 60" by (simp add: sample_policy_def)
  with alerts_respect_cooldown [OF sample_adds r] o'(2) r show ?thesis by simp
qed

definition sample_incident :: DepegAlertState where
  "sample_incident = DepegAlertState_default\<lparr>das_last_severity := Some ''critical'', das_trigger_floor_pct := Some (Fin False 1)\<rparr>"

lemma sample_calm: "calm_below sample_policy (Fin False 1) \<lparr>ev_quotes = sample_quotes (Fin False 1) t, ev_now = t, ev_context = Isolated\<rparr>"
proof -
  have "length (sample_quotes (Fin False 1) t) = 2" by (simp add: sample_quotes_def)
  moreover have "available_oracles_within_resolution_floor (sample_quotes (Fin False 1) t) (Fin False 1) (dp_peg_target sample_policy)"
    by (simp add: available_oracles_within_resolution_floor_def sample_quotes_def)
  ultimately show ?thesis using sample_eligible [of t t 1]
    by (simp add: calm_below_def sample_points sample_median sample_snapshot_calm Let_def)
qed

theorem incident_resolves_after_window_witness:
  "\<exists>os. depeg_run sample_libs sample_policy sample_incident
       (map (\<lambda>t. \<lparr>ev_quotes = sample_quotes (Fin False 1) t, ev_now = t, ev_context = Isolated\<rparr>) [1, 2]) = Inr os
     \<and> map (\<lambda>(_, o'). eo_transition o') os = [None, Some Resolve]"
proof -
  let ?es = "map (\<lambda>t. \<lparr>ev_quotes = sample_quotes (Fin False 1) t, ev_now = t, ev_context = Isolated\<rparr>) [1, 2]"
  have inc: "incident sample_incident \<noteq> None" by code_simp
  have st: "das_trigger_floor_pct sample_incident = Some (Fin False 1)" "das_below_trigger_blocks sample_incident = 0"
    by (simp_all add: sample_incident_def)
  have window: "dp_resolution_blocks sample_policy = 2" by (simp add: sample_policy_def)
  have "\<exists>os. depeg_run sample_libs sample_policy sample_incident ?es = Inr os
      \<and> list_all (\<lambda>(_, o'). \<not> eo_should_emit_alert o') os
      \<and> map (\<lambda>(_, o'). eo_transition o') os = replicate (length ?es - 1) None @ [Some Resolve]
      \<and> incident (eo_next_state (snd (last os))) = None"
    by (rule incident_resolves_after_window [OF inc st]) (simp_all add: window sample_calm)
  then show ?thesis by auto
qed

end
