(* ===== verification/PatternCommon.thy ===== *)
theory PatternCommon
  imports EventSchema
begin

text \<open>
  What the detection patterns share, \<^verbatim>\<open>apps/detector/src/patterns/mod.rs\<close>: the extraction of a
  tenant's configuration, the simulation metadata of an event, and the registry that hands every
  event to every pattern and stores what they detect. The database and the stream are a record
  of what has been stored; an operation of theirs that fails is a field of the environment an
  event is processed in. The contract of a pattern is a locale: the registry's lemmas are proved
  from it once.
\<close>

section \<open>Configuration and metadata\<close>

definition extract_detection_config :: "json \<Rightarrow> json" where
  "extract_detection_config config =
     (case j_get config ''detection_config'' of None \<Rightarrow> config | Some c \<Rightarrow> c)"

definition extract_bound_source_ids :: "json \<Rightarrow> string set option" where
  "extract_bound_source_ids config =
     map_option (\<lambda>arr.
         set (List.map_filter (\<lambda>b. get_str b ''source_id'')
           (filter (\<lambda>b. unwrap_or (get_bool b ''enabled'') True) arr)))
       (Option.bind (j_get config ''source_bindings'') as_array)"

definition trimmed :: "string option \<Rightarrow> string option" where
  "trimmed s = Option.bind s (\<lambda>v. non_empty (trim v))"

text \<open>\<open>rfc3339\<close> prints a timestamp.\<close>

definition append_snapshot_meta :: "(datetime \<Rightarrow> string) \<Rightarrow> UnifiedEvent \<Rightarrow> json \<Rightarrow> json" where
  "append_snapshot_meta rfc3339 event data =
     (let snapshot = (case data of JObject m \<Rightarrow> m | v \<Rightarrow> [(''value'', v)]);
          meta = (case map_of snapshot ''_meta'' of Some (JObject m) \<Rightarrow> m | _ \<Rightarrow> []);
          meta1 = AList.update ''event_timestamp'' (JString (rfc3339 (ue_timestamp event))) meta;
          meta2 = (case j_get (ue_payload event) ''simulation'' of
                     None \<Rightarrow> meta1
                   | Some simulation \<Rightarrow> AList.update ''simulation'' simulation meta1)
      in JObject (AList.update ''_meta'' (JObject meta2) (AList.delete ''_meta'' snapshot)))"

definition simulation_run_id :: "UnifiedEvent \<Rightarrow> string option" where
  "simulation_run_id event =
     (case Option.bind (j_get (ue_payload event) ''simulation'') as_object of
        None \<Rightarrow> None
      | Some meta \<Rightarrow>
          trimmed (Option.bind
            (case map_of meta ''run_id'' of Some v \<Rightarrow> Some v | None \<Rightarrow> map_of meta ''simulation_run_id'')
            as_str))"

definition simulation_metadata_from_event :: "UnifiedEvent \<Rightarrow> bool \<times> string option" where
  "simulation_metadata_from_event event =
     (let simulation = Option.bind (j_get (ue_payload event) ''simulation'') as_object;
          run_id = simulation_run_id event;
          marked = unwrap_or (Option.bind (Option.bind simulation (\<lambda>meta. map_of meta ''is_simulated'')) as_bool) False
      in (marked \<or> unwrap_or (get_bool (ue_payload event) ''is_simulated'') False \<or> run_id \<noteq> None, run_id))"

section \<open>What is stored\<close>

record PatternSnapshotInsert =
  ps_tenant_id :: string
  ps_pattern_id :: string
  ps_snapshot_key :: string
  ps_data :: json
  ps_score :: "f64 option"
  ps_severity :: "string option"
  ps_observed_at :: datetime

text \<open>Pattern states are kept per tenant, pattern and state key.\<close>

record world =
  w_states :: "string \<times> string \<times> string \<Rightarrow> json option"
  w_snapshots :: "PatternSnapshotInsert list"
  w_raw_events :: "UnifiedEvent list"
  w_detections :: "DetectionResult list"
  w_published :: "DetectionResult list"

datatype db_op = LoadPatternState | InsertSnapshot | UpsertState | InsertRawEvent | SaveDetection | PublishDetection

text \<open>
  The surroundings of one event: which operations fail while it is processed, and the two random
  identifiers a detection is given.
\<close>

record environment =
  en_fails :: "db_op \<Rightarrow> bool"
  en_detection_uuid :: string
  en_tx_uuid :: string

definition load_pattern_state ::
  "environment \<Rightarrow> string \<Rightarrow> string \<Rightarrow> string \<Rightarrow> world \<Rightarrow> json option res" where
  "load_pattern_state en tenant pattern key w =
     (if en_fails en LoadPatternState then Inl (Err ''load_pattern_state'')
      else Inr (w_states w (tenant, pattern, key)))"

definition upsert_pattern_state ::
  "environment \<Rightarrow> string \<Rightarrow> string \<Rightarrow> string \<Rightarrow> json \<Rightarrow> world \<Rightarrow> world" where
  "upsert_pattern_state en tenant pattern key v w =
     (if en_fails en UpsertState then w
      else w\<lparr>w_states := (w_states w)((tenant, pattern, key) \<mapsto> v)\<rparr>)"

definition insert_pattern_snapshot :: "environment \<Rightarrow> PatternSnapshotInsert \<Rightarrow> world \<Rightarrow> world" where
  "insert_pattern_snapshot en s w =
     (if en_fails en InsertSnapshot then w else w\<lparr>w_snapshots := w_snapshots w @ [s]\<rparr>)"

definition insert_raw_event :: "environment \<Rightarrow> UnifiedEvent \<Rightarrow> world \<Rightarrow> world" where
  "insert_raw_event en e w =
     (if en_fails en InsertRawEvent then w else w\<lparr>w_raw_events := w_raw_events w @ [e]\<rparr>)"

definition save_detection :: "environment \<Rightarrow> DetectionResult \<Rightarrow> world \<Rightarrow> world" where
  "save_detection en d w =
     (if en_fails en SaveDetection then w else w\<lparr>w_detections := w_detections w @ [d]\<rparr>)"

definition publish_detection :: "environment \<Rightarrow> DetectionResult \<Rightarrow> world \<Rightarrow> world" where
  "publish_detection en d w =
     (if en_fails en PublishDetection then w else w\<lparr>w_published := w_published w @ [d]\<rparr>)"

section \<open>The registry\<close>

text \<open>
  \<open>process\<close> is the patterns' \<^verbatim>\<open>process_event\<close>. An error of a pattern is logged and the next pattern is
  run; a panic ends the process.
\<close>

type_synonym 'p process =
  "environment \<Rightarrow> UnifiedEvent \<Rightarrow> datetime \<Rightarrow> 'p \<Rightarrow> world \<Rightarrow> 'p \<times> world \<times> DetectionResult option res"

definition store_detection :: "environment \<Rightarrow> DetectionResult option res \<Rightarrow> world \<Rightarrow> world" where
  "store_detection en r w =
     (case r of
        Inr (Some d) \<Rightarrow> publish_detection en d (save_detection en d w)
      | _ \<Rightarrow> w)"

fun dispatch ::
  "'p process \<Rightarrow> environment \<Rightarrow> UnifiedEvent \<Rightarrow> datetime \<Rightarrow> 'p list \<Rightarrow> world \<Rightarrow> 'p list \<times> world" where
  "dispatch process en event now [] w = ([], w)"
| "dispatch process en event now (p # ps) w =
     (let (p', w1, r) = process en event now p w;
          (ps', w2) = dispatch process en event now ps (store_detection en r w1)
      in (p' # ps', w2))"

definition ingest_persisted :: "UnifiedEvent \<Rightarrow> bool" where
  "ingest_persisted event =
     unwrap_or (case get_bool (ue_payload event) ''ingest_persisted'' of
                  Some b \<Rightarrow> Some b
                | None \<Rightarrow> get_bool (ue_payload event) ''raw_persisted'') False"

definition analysis_time :: "datetime \<Rightarrow> UnifiedEvent \<Rightarrow> datetime" where
  "analysis_time wall event = (if ue_timestamp event \<le> wall then ue_timestamp event else wall)"

definition registry_process_event ::
  "'p process \<Rightarrow> environment \<Rightarrow> datetime \<Rightarrow> UnifiedEvent \<Rightarrow> 'p list \<Rightarrow> world \<Rightarrow> 'p list \<times> world" where
  "registry_process_event process en wall event ps w =
     dispatch process en event (analysis_time wall event) ps
       (if ingest_persisted event then w else insert_raw_event en event w)"

section \<open>The contract of a pattern\<close>

text \<open>
  A pattern owns the identifiers it signs its detections with, writes only the states stored under them,
  and leaves detections, publications and raw events to the registry. What it owns does not
  change while events are processed.
\<close>

locale detection_pattern =
  fixes owns :: "'p \<Rightarrow> string \<Rightarrow> bool"
    and process :: "'p process"
  assumes keeps_owner: "process en ev now p w = (p', w', r) \<Longrightarrow> owns p' = owns p"
    and signs: "process en ev now p w = (p', w', Inr (Some d)) \<Longrightarrow> owns p (dr_pattern_id d)"
    and keeps_logs: "process en ev now p w = (p', w', r) \<Longrightarrow>
          w_detections w' = w_detections w \<and> w_published w' = w_published w \<and> w_raw_events w' = w_raw_events w"
    and own_states: "process en ev now p w = (p', w', r) \<Longrightarrow> \<not> owns p k \<Longrightarrow>
          w_states w' (t, k, s) = w_states w (t, k, s)"
begin

lemma keeps_owner_fst: "owns (fst (process en ev now p w)) = owns p"
  using keeps_owner by (metis prod.collapse)

lemma dispatch_owners: "map owns (fst (dispatch process en ev now ps w)) = map owns ps"
  by (induction ps arbitrary: w) (simp_all add: split_beta keeps_owner_fst)

lemma store_detection_states: "w_states (store_detection en r w) = w_states w"
  by (auto simp: store_detection_def save_detection_def publish_detection_def split: sum.splits option.splits)

lemma dispatch_states:
  assumes "\<And>p. p \<in> set ps \<Longrightarrow> \<not> owns p k"
  shows "w_states (snd (dispatch process en ev now ps w)) (t, k, s) = w_states w (t, k, s)"
  using assms
proof (induction ps arbitrary: w)
  case (Cons p ps)
  obtain p' w1 r where r: "process en ev now p w = (p', w1, r)" by (metis prod.exhaust)
  show ?case using Cons own_states [OF r, of k t s] r by (simp add: split_beta store_detection_states)
qed simp

lemma dispatch_logs:
  assumes "\<And>f. \<not> en_fails en f"
  shows "\<exists>ds. w_detections (snd (dispatch process en ev now ps w)) = w_detections w @ ds
           \<and> w_published (snd (dispatch process en ev now ps w)) = w_published w @ ds
           \<and> (\<exists>qs. subseq qs ps \<and> list_all2 (\<lambda>d p. owns p (dr_pattern_id d)) ds qs)"
proof (induction ps arbitrary: w)
  case (Cons p ps)
  obtain p' w1 r where r: "process en ev now p w = (p', w1, r)" by (metis prod.exhaust)
  from Cons [of "store_detection en r w1"] obtain ds qs where
    ds: "w_detections (snd (dispatch process en ev now ps (store_detection en r w1)))
           = w_detections (store_detection en r w1) @ ds"
      "w_published (snd (dispatch process en ev now ps (store_detection en r w1)))
           = w_published (store_detection en r w1) @ ds"
      "subseq qs ps" "list_all2 (\<lambda>d p. owns p (dr_pattern_id d)) ds qs" by blast
  note logs = keeps_logs [OF r]
  show ?case
  proof (cases "\<exists>d. r = Inr (Some d)")
    case True
    then obtain d where d: "r = Inr (Some d)" by blast
    have "owns p (dr_pattern_id d)" using signs r d by blast
    then show ?thesis using ds logs r d assms
      by (intro exI [of _ "d # ds"] conjI exI [of _ "p # qs"])
         (simp_all add: split_beta store_detection_def save_detection_def publish_detection_def)
  next
    case False
    then have "store_detection en r w1 = w1"
      by (auto simp: store_detection_def split: sum.splits option.splits)
    then show ?thesis using ds logs r by (intro exI [of _ ds] conjI exI [of _ qs]) (simp_all add: split_beta list_emb_Cons)
  qed
qed simp

end

section \<open>Patterns that read only what they own\<close>

text \<open>Two worlds agree on the states under the identifiers that satisfy a property.\<close>

definition same_states :: "(string \<Rightarrow> bool) \<Rightarrow> world \<Rightarrow> world \<Rightarrow> bool" where
  "same_states P w v \<longleftrightarrow> (\<forall>t k s. P k \<longrightarrow> w_states w (t, k, s) = w_states v (t, k, s))"

lemma same_states_refl [simp]: "same_states P w w"
  by (simp add: same_states_def)

lemma same_states_sym: "same_states P w v \<Longrightarrow> same_states P v w"
  by (simp add: same_states_def)

lemma same_states_trans: "same_states P u v \<Longrightarrow> same_states P v w \<Longrightarrow> same_states P u w"
  by (simp add: same_states_def)

lemma same_states_load: "same_states P w v \<Longrightarrow> P k \<Longrightarrow> load_pattern_state en t k s w = load_pattern_state en t k s v"
  by (simp add: same_states_def load_pattern_state_def)

lemma same_states_upsert:
  "same_states P w v \<Longrightarrow> same_states P (upsert_pattern_state en t k s x w) (upsert_pattern_state en t k s x v)"
  by (simp add: same_states_def upsert_pattern_state_def)

lemma same_states_snapshot:
  "same_states P w v \<Longrightarrow> same_states P (insert_pattern_snapshot en x w) (insert_pattern_snapshot en y v)"
  by (simp add: same_states_def insert_pattern_snapshot_def)

lemmas same_states_intros = same_states_upsert same_states_snapshot

definition detected :: "DetectionResult option res \<Rightarrow> DetectionResult option" where
  "detected r = (case r of Inl _ \<Rightarrow> None | Inr d \<Rightarrow> d)"

locale local_pattern = detection_pattern owns process for owns :: "'p \<Rightarrow> string \<Rightarrow> bool" and process :: "'p process" +
  assumes reads_own: "same_states (owns p) w v \<Longrightarrow> process en ev now p w = (p', w', r) \<Longrightarrow>
      \<exists>v'. process en ev now p v = (p', v', r) \<and> same_states (owns p) w' v'"
begin

text \<open>Patterns that own nothing in common run in the registry as each would alone.\<close>

definition separate :: "'p list \<Rightarrow> bool" where
  "separate ps \<longleftrightarrow> (\<forall>k. sorted_wrt (\<lambda>p q. \<not> (owns p k \<and> owns q k)) ps)"

lemma separate_Cons: "separate (p # ps) \<longleftrightarrow> (\<forall>q \<in> set ps. \<forall>k. \<not> (owns p k \<and> owns q k)) \<and> separate ps"
  by (auto simp: separate_def)

lemma dispatch_separate:
  assumes "separate ps" "i < length ps" "process en ev now (ps ! i) w = (q, v, r)"
  shows "fst (dispatch process en ev now ps w) ! i = q
    \<and> same_states (owns (ps ! i)) (snd (dispatch process en ev now ps w)) v"
  using assms
proof (induction ps arbitrary: w i v)
  case (Cons p ps)
  obtain p' w1 x where one: "process en ev now p w = (p', w1, x)" by (metis prod.exhaust)
  define w2 where "w2 = store_detection en x w1"
  have d: "fst (dispatch process en ev now (p # ps) w) = p' # fst (dispatch process en ev now ps w2)"
    "snd (dispatch process en ev now (p # ps) w) = snd (dispatch process en ev now ps w2)"
    by (simp_all add: one w2_def split_beta)
  have apart: "\<And>q k. q \<in> set ps \<Longrightarrow> owns p k \<Longrightarrow> \<not> owns q k" "separate ps" using Cons.prems(1) by (auto simp: separate_Cons)
  show ?case
  proof (cases i)
    case 0
    then have "p' = q" "w1 = v" using Cons.prems(3) one by simp_all
    moreover have "same_states (owns p) (snd (dispatch process en ev now ps w2)) w2"
      using dispatch_states [of ps] apart(1) by (auto simp: same_states_def)
    ultimately show ?thesis using 0 d by (simp add: w2_def same_states_def store_detection_states)
  next
    case (Suc j)
    then have j: "j < length ps" "ps ! j \<in> set ps" "process en ev now (ps ! j) w = (q, v, r)" using Cons.prems by simp_all
    have "same_states (owns (ps ! j)) w w2"
      using own_states [OF one] apart(1) [OF j(2)] by (fastforce simp: same_states_def w2_def store_detection_states)
    from reads_own [OF this j(3)] obtain v' where v': "process en ev now (ps ! j) w2 = (q, v', r)"
      "same_states (owns (ps ! j)) v v'" by blast
    note tail = Cons.IH [OF apart(2) j(1) v'(1)]
    have "same_states (owns (ps ! j)) (snd (dispatch process en ev now ps w2)) v"
      by (rule same_states_trans [OF conjunct2 [OF tail] same_states_sym [OF v'(2)]])
    with conjunct1 [OF tail] show ?thesis by (simp only: Suc d nth_Cons_Suc simp_thms)
  qed
qed simp

lemma dispatch_separate_detections:
  assumes "separate ps" "\<And>f. \<not> en_fails en f"
  shows "w_detections (snd (dispatch process en ev now ps w))
      = w_detections w @ List.map_filter (\<lambda>p. detected (snd (snd (process en ev now p w)))) ps
    \<and> w_published (snd (dispatch process en ev now ps w))
      = w_published w @ List.map_filter (\<lambda>p. detected (snd (snd (process en ev now p w)))) ps"
  using assms(1)
proof (induction ps arbitrary: w)
  case (Cons p ps)
  obtain p' w1 x where one: "process en ev now p w = (p', w1, x)" by (metis prod.exhaust)
  define w2 where "w2 = store_detection en x w1"
  have apart: "\<And>q k. q \<in> set ps \<Longrightarrow> owns q k \<Longrightarrow> \<not> owns p k" "separate ps" using Cons.prems by (auto simp: separate_Cons)
  have "snd (snd (process en ev now q w2)) = snd (snd (process en ev now q w))" if q: "q \<in> set ps" for q
  proof -
    have "same_states (owns q) w w2"
      using own_states [OF one] apart(1) [OF q] by (auto simp: same_states_def w2_def store_detection_states)
    moreover obtain q' w' r where "process en ev now q w = (q', w', r)" by (metis prod.exhaust)
    ultimately show ?thesis using reads_own by fastforce
  qed
  then have same: "List.map_filter (\<lambda>p. detected (snd (snd (process en ev now p w2)))) ps
      = List.map_filter (\<lambda>p. detected (snd (snd (process en ev now p w)))) ps"
    by (auto simp: map_filter_def intro!: map_cong filter_cong)
  have "w_detections w2 = w_detections w @ (case detected x of None \<Rightarrow> [] | Some d \<Rightarrow> [d])"
    "w_published w2 = w_published w @ (case detected x of None \<Rightarrow> [] | Some d \<Rightarrow> [d])"
    using keeps_logs [OF one] assms(2)
    by (auto simp: w2_def store_detection_def save_detection_def publish_detection_def detected_def
        split: sum.splits option.splits)
  with Cons.IH [OF apart(2), of w2] same show ?case
    by (simp add: one w2_def [symmetric] split_beta List.map_filter_simps split: option.split)
qed simp

end

end
