(* ===== verification/StateCache.thy ===== *)
theory StateCache
  imports PatternCommon
begin

text \<open>
  The caches of the detection patterns. Each pattern keeps entries under a key and, after an insertion,
  prunes them: entries whose last activity is older than a time to live go, and above a maximal
  number the entries with the oldest activity, never the entry just inserted. The patterns of
  \<^verbatim>\<open>apps/detector/src/patterns\<close> each have their own copy of this loop; here it is one function of the
  activity of an entry, the time to live and the limit, and its contract is a locale.
\<close>

section \<open>Pruning\<close>

definition retain_recent ::
  "('v \<Rightarrow> datetime option) \<Rightarrow> datetime \<Rightarrow> 'k \<Rightarrow> ('k \<times> 'v) list \<Rightarrow> ('k \<times> 'v) list" where
  "retain_recent activity cutoff current_key cache =
     filter (\<lambda>(key, v). key = current_key
       \<or> (case activity v of None \<Rightarrow> False | Some t \<Rightarrow> cutoff \<le> t)) cache"

text \<open>\<open>lo\<close> is the smallest time, which stands for no activity.\<close>

definition oldest_keys ::
  "('v \<Rightarrow> datetime option) \<Rightarrow> datetime \<Rightarrow> 'k \<Rightarrow> ('k \<times> 'v) list \<Rightarrow> ('k \<times> datetime) list" where
  "oldest_keys activity lo current_key cache =
     sort_by (\<lambda>a b. snd a \<le> snd b)
       (map (\<lambda>(key, v). (key, unwrap_or (activity v) lo))
         (filter (\<lambda>(key, _). key \<noteq> current_key) cache))"

text \<open>\<open>cutoff\<close> is the result of subtracting the time to live, which may leave chrono's range.\<close>

definition prune_cache ::
  "('v \<Rightarrow> datetime option) \<Rightarrow> datetime \<Rightarrow> nat \<Rightarrow> datetime option \<Rightarrow> 'k \<Rightarrow> ('k \<times> 'v) list
     \<Rightarrow> ('k \<times> 'v) list res" where
  "prune_cache activity lo max_entries cutoff current_key cache =
     (case cutoff of
        None \<Rightarrow> Inl (Panic ''DateTime - Duration overflowed'')
      | Some c \<Rightarrow>
          (let kept = retain_recent activity c current_key cache
           in if length kept \<le> max_entries then Inr kept
              else Inr (fold (\<lambda>(key, _) m. AList.delete key m)
                     (take (length kept - max_entries) (oldest_keys activity lo current_key kept)) kept)))"

section \<open>The rules of a tenant\<close>

text \<open>
  The loop over the rules that match an event. Each rule may change the pattern and the world, and
  may put its detection in place of the one emitted so far; an error ends the loop.
\<close>

fun run_rules ::
  "('r \<Rightarrow> 'p \<Rightarrow> world \<Rightarrow> DetectionResult option \<Rightarrow> 'p \<times> world \<times> DetectionResult option res)
     \<Rightarrow> 'r list \<Rightarrow> 'p \<Rightarrow> world \<Rightarrow> DetectionResult option \<Rightarrow> 'p \<times> world \<times> DetectionResult option res" where
  "run_rules body [] p w emitted = (p, w, Inr emitted)"
| "run_rules body (r # rs) p w emitted =
     (case body r p w emitted of
        (p', w', Inl e) \<Rightarrow> (p', w', Inl e)
      | (p', w', Inr emitted') \<Rightarrow> run_rules body rs p' w' emitted')"

text \<open>What every step of the loop keeps, the loop keeps.\<close>

lemma run_rules_inv:
  assumes "run_rules body rs p w em = (p', w', res)" and "I p w em"
    and "\<And>r p w em p' w' x. r \<in> set rs \<Longrightarrow> I p w em \<Longrightarrow> body r p w em = (p', w', x) \<Longrightarrow>
        (case x of Inl _ \<Rightarrow> J p' w' | Inr em' \<Rightarrow> I p' w' em')"
  shows "case res of Inl _ \<Rightarrow> J p' w' | Inr em' \<Rightarrow> I p' w' em'"
  using assms
proof (induction rs arbitrary: p w em)
  case (Cons r rs)
  obtain p1 w1 x where b: "body r p w em = (p1, w1, x)" by (metis prod.exhaust)
  note s = Cons.prems(3) [OF _ Cons.prems(2) b]
  show ?case
  proof (cases x)
    case (Inl e)
    then show ?thesis using Cons.prems(1) b s by auto
  next
    case (Inr em1)
    have "run_rules body rs p1 w1 em1 = (p', w', res)" using Cons.prems(1) b Inr by simp
    moreover have "I p1 w1 em1" using s Inr by simp
    ultimately show ?thesis
      by (rule Cons.IH) (rule Cons.prems(3), simp_all)
  qed
qed (auto split: sum.split)

text \<open>A loop whose steps read only the states a pattern owns does so as a whole.\<close>

lemma run_rules_local:
  assumes "\<And>r p w v em p' w' x. r \<in> set rs \<Longrightarrow> same_states P w v \<Longrightarrow> body r p w em = (p', w', x) \<Longrightarrow>
      \<exists>v'. body r p v em = (p', v', x) \<and> same_states P w' v'"
    and "same_states P w v" "run_rules body rs p w em = (p', w', x)"
  shows "\<exists>v'. run_rules body rs p v em = (p', v', x) \<and> same_states P w' v'"
  using assms
proof (induction rs arbitrary: p w v em)
  case (Cons r rs)
  obtain p1 w1 y where b: "body r p w em = (p1, w1, y)" by (rule prod_cases3)
  from Cons.prems(1) [OF _ Cons.prems(2) b] obtain v1 where v1: "body r p v em = (p1, v1, y)" "same_states P w1 v1" by auto
  show ?case
  proof (cases y)
    case (Inl e)
    then have "p1 = p' \<and> w1 = w' \<and> x = Inl e" using Cons.prems(3) b by auto
    then show ?thesis using v1 Inl by auto
  next
    case (Inr em1)
    then have run: "run_rules body rs p1 w1 em1 = (p', w', x)" using Cons.prems(3) b by simp
    have "\<exists>v'. run_rules body rs p1 v1 em1 = (p', v', x) \<and> same_states P w' v'"
      by (rule Cons.IH [OF _ v1(2) run]) (rule Cons.prems(1), simp_all)
    then show ?thesis using v1(1) Inr by simp
  qed
qed simp

text \<open>What happens to a pattern: its configuration is reloaded, or it is given an event.\<close>

datatype pattern_call =
    Reload "((string \<times> string) \<times> json) list"
  | Process environment UnifiedEvent datetime world

text \<open>
  The frame of what a pattern does to the world for a tenant: the registry's logs stay, and of the
  states only those of the tenant under the pattern's identifier change.
\<close>

definition world_frame :: "string \<Rightarrow> string \<Rightarrow> world \<Rightarrow> world \<Rightarrow> bool" where
  "world_frame pid tenant w w' \<longleftrightarrow>
     w_detections w' = w_detections w \<and> w_published w' = w_published w \<and> w_raw_events w' = w_raw_events w
   \<and> (\<forall>t k s. (t, k) \<noteq> (tenant, pid) \<longrightarrow> w_states w' (t, k, s) = w_states w (t, k, s))"

lemma world_frame_refl [simp]: "world_frame pid t w w"
  by (simp add: world_frame_def)

lemma world_frame_trans: "world_frame pid t w w1 \<Longrightarrow> world_frame pid t w1 w2 \<Longrightarrow> world_frame pid t w w2"
  by (simp add: world_frame_def)

lemma world_frame_snapshot: "world_frame pid t w (insert_pattern_snapshot en s w)"
  by (simp add: world_frame_def insert_pattern_snapshot_def)

lemma world_frame_upsert: "world_frame pid t w (upsert_pattern_state en t pid k v w)"
  by (simp add: world_frame_def upsert_pattern_state_def)

section \<open>The contract of a bounded cache\<close>

lemma set_alist_update: "x \<in> set (AList.update k v al) \<Longrightarrow> x = (k, v) \<or> x \<in> set al"
  by (induction al) (auto split: if_splits)

text \<open>
  Pruning leaves a part of the cache within the limit, and keeps the current entry.
\<close>

locale bounded_cache =
  fixes prune :: "'c \<Rightarrow> 'k \<Rightarrow> ('k \<times> 'v) list \<Rightarrow> ('k \<times> 'v) list res" and max_entries :: nat
  assumes prune_ok: "prune c k cache = Inr cache' \<Longrightarrow> distinct (map fst cache) \<Longrightarrow>
      distinct (map fst cache') \<and> set cache' \<subseteq> set cache \<and> length cache' \<le> max_entries
      \<and> map_of cache' k = map_of cache k"
begin

text \<open>A cache is within the bounds when it is, and all its entries satisfy a property.\<close>

definition cache_within :: "('k \<Rightarrow> 'v \<Rightarrow> bool) \<Rightarrow> ('k \<times> 'v) list \<Rightarrow> bool" where
  "cache_within P cache \<longleftrightarrow> distinct (map fst cache) \<and> length cache \<le> max_entries \<and> (\<forall>(k, v) \<in> set cache. P k v)"

lemma cache_within_empty: "cache_within P []"
  by (simp add: cache_within_def)

lemma insert_ok:
  assumes "prune c k (AList.update k v cache) = Inr cache'" "cache_within P cache" "P k v"
  shows "cache_within P cache' \<and> map_of cache' k = Some v"
proof -
  have "distinct (map fst (AList.update k v cache))" using assms(2) by (simp add: cache_within_def distinct_update)
  note ok = prune_ok [OF assms(1) this]
  then have "P k' v'" if "(k', v') \<in> set cache'" for k' v'
    using that assms(2,3) set_alist_update by (fastforce simp: cache_within_def)
  then show ?thesis using ok by (auto simp: cache_within_def update_conv')
qed

end

section \<open>Pruning keeps the contract\<close>

lemma delete_keys:
  assumes "distinct (map fst c)" "distinct ks" "set ks \<subseteq> fst ` set c"
  shows "distinct (map fst (fold AList.delete ks c)) \<and> set (fold AList.delete ks c) \<subseteq> set c
       \<and> length (fold AList.delete ks c) = length c - length ks"
  using assms
proof (induction ks arbitrary: c)
  case (Cons k ks)
  let ?c = "AList.delete k c"
  have d: "distinct (map fst ?c)" "set ?c \<subseteq> set c" using Cons.prems(1) by (auto simp: AList.delete_eq distinct_map_filter)
  have "set ks \<subseteq> fst ` set ?c" using Cons.prems(2,3) by (force simp: AList.delete_eq)
  from Cons.IH [OF d(1) _ this] Cons.prems(2) have IH:
    "distinct (map fst (fold AList.delete ks ?c))" "set (fold AList.delete ks ?c) \<subseteq> set ?c"
    "length (fold AList.delete ks ?c) = length ?c - length ks" by simp_all
  have kin: "k \<in> fst ` set c" using Cons.prems(3) by simp
  have "length ?c = length c - 1"
    using Cons.prems(1) kin
  proof (induction c)
    case (Cons x c)
    then show ?case
    proof (cases "fst x = k")
      case True
      then have "\<forall>y \<in> set c. fst y \<noteq> k" using Cons.prems(1) True by (auto simp: image_iff)
      then have "AList.delete k c = c" by (auto simp: AList.delete_eq intro!: filter_True)
      with True show ?thesis by (cases x) simp
    next
      case False
      with Cons have "length (AList.delete k c) = length c - 1" "c \<noteq> []" by auto
      with False show ?thesis by (cases x; cases c) simp_all
    qed
  qed simp
  with IH d(2) show ?case by auto
qed simp

lemma fold_delete_fst: "fold (\<lambda>(key, _) c. AList.delete key c) ks c = fold AList.delete (map fst ks) c"
  by (induction ks arbitrary: c) (auto simp: split_beta)

lemma map_of_fold_delete: "k \<notin> set ks \<Longrightarrow> map_of (fold AList.delete ks c) k = map_of c k"
  by (induction ks arbitrary: c) (auto simp: delete_conv')

lemma retain_recent_keeps: "map_of (retain_recent activity cutoff k cache) k = map_of cache k"
  by (induction cache) (auto simp: retain_recent_def)

lemma mset_oldest_keys:
  "set (map fst (oldest_keys activity lo k cache)) = fst ` set (filter (\<lambda>(key, _). key \<noteq> k) cache)"
  "length (oldest_keys activity lo k cache) = length (filter (\<lambda>(key, _). key \<noteq> k) cache)"
  by (force simp: oldest_keys_def)+

lemma distinct_oldest_keys: "distinct (map fst cache) \<Longrightarrow> distinct (map fst (oldest_keys activity lo k cache))"
proof -
  assume d: "distinct (map fst cache)"
  let ?f = "filter (\<lambda>(key, _). key \<noteq> k) cache"
  have "mset (map fst (oldest_keys activity lo k cache)) = mset (map fst ?f)"
    by (simp add: oldest_keys_def image_mset.compositionality comp_def split_beta)
  moreover have "distinct (map fst ?f)" using d by (rule distinct_map_filter)
  ultimately show ?thesis by (metis mset_eq_imp_distinct_iff)
qed

lemma length_but_one: "distinct (map fst c) \<Longrightarrow> length c \<le> Suc (length (filter (\<lambda>(key, _). key \<noteq> k) c))"
proof (induction c)
  case (Cons x c)
  show ?case
  proof (cases "fst x = k")
    case True
    then have "\<forall>y \<in> set c. fst y \<noteq> k" using Cons.prems True by (auto simp: image_iff)
    then have "filter (\<lambda>(key, _). key \<noteq> k) c = c" by (auto intro!: filter_True)
    then show ?thesis by simp
  next
    case False
    then show ?thesis using Cons by (cases x) simp
  qed
qed simp

lemma prune_cache_ok:
  assumes "prune_cache activity lo n cutoff k cache = Inr cache'" "distinct (map fst cache)" "0 < n"
  shows "distinct (map fst cache') \<and> set cache' \<subseteq> set cache \<and> length cache' \<le> n \<and> map_of cache' k = map_of cache k"
proof -
  from assms(1) obtain t where cut: "cutoff = Some t" by (auto simp: prune_cache_def split: option.splits)
  define kept where "kept = retain_recent activity t k cache"
  have c: "cache' = (if length kept \<le> n then kept
          else fold AList.delete (map fst (take (length kept - n) (oldest_keys activity lo k kept))) kept)"
    using assms(1) cut by (simp add: prune_cache_def Let_def fold_delete_fst kept_def split: if_splits)
  have kept: "distinct (map fst kept)" "set kept \<subseteq> set cache" "map_of kept k = map_of cache k"
    using assms(2) retain_recent_keeps by (auto simp: kept_def retain_recent_def distinct_map_filter)
  show ?thesis
  proof (cases "length kept \<le> n")
    case True
    then show ?thesis using c kept by simp
  next
    case False
    define ks where "ks = map fst (take (length kept - n) (oldest_keys activity lo k kept))"
    have "set ks \<subseteq> set (map fst (oldest_keys activity lo k kept))"
      unfolding ks_def set_map by (intro image_mono set_take_subset)
    then have keys: "set ks \<subseteq> fst ` set (filter (\<lambda>(key, _). key \<noteq> k) kept)"
      unfolding mset_oldest_keys(1) .
    have "distinct ks" using distinct_oldest_keys [OF kept(1)] by (simp add: ks_def take_map [symmetric])
    from delete_keys [OF kept(1) this] keys
    have del: "distinct (map fst (fold AList.delete ks kept))" "set (fold AList.delete ks kept) \<subseteq> set kept"
      "length (fold AList.delete ks kept) = length kept - length ks" by auto
    have "length ks = length kept - n"
      using length_but_one [OF kept(1), of k] mset_oldest_keys(2) [of activity lo k kept] assms(3)
      by (simp add: ks_def)
    moreover have "k \<notin> set ks" using keys by auto
    moreover have "cache' = fold AList.delete ks kept" using c False by (simp add: ks_def)
    ultimately show ?thesis using del kept False map_of_fold_delete [of k ks kept] by auto
  qed
qed

interpretation pruned: bounded_cache "prune_cache activity lo (Suc n)" "Suc n" for activity lo n
  by unfold_locales (simp add: prune_cache_ok)

end
