(* ===== verification/DepegPattern.thy ===== *)
theory DepegPattern
  imports DepegEngine StateCache
begin

text \<open>
  The stateful part of \<^verbatim>\<open>apps/detector/src/patterns/depeg.rs\<close>: the pattern's configuration, its
  cache of recent quotes per tenant, market and replay scope, the context of a market, and
  \<^verbatim>\<open>process_event\<close> from the event to the stored snapshot, the stored state and the detection.
\<close>

section \<open>The pattern\<close>

definition PATTERN_ID :: string where
  "PATTERN_ID = ''depeg''"

definition DEPEG_QUOTE_CACHE_TTL_MINUTES :: int where
  "DEPEG_QUOTE_CACHE_TTL_MINUTES = 120"

definition DEPEG_QUOTE_CACHE_MAX_KEYS :: nat where
  "DEPEG_QUOTE_CACHE_MAX_KEYS = 2048"

definition MAX_QUOTE_HISTORY_PER_SOURCE :: nat where
  "MAX_QUOTE_HISTORY_PER_SOURCE = 16"

record SourceBindingRuntimeOverride =
  sr_active_stream_ids :: "string list"
  sr_stream_field_mappings :: "(string \<times> FieldMapping list) list"

type_synonym market_quotes = "(string \<times> QuoteInput list) list"
type_synonym cache_key = "string \<times> string \<times> string"
type_synonym mapping_overrides = "(string \<times> SourceBindingRuntimeOverride) list"

record DepegPattern =
  pt_policies :: "((string \<times> string) \<times> DepegPolicy) list"
  pt_quote_cache :: "(cache_key \<times> market_quotes) list"
  pt_source_bindings :: "string \<Rightarrow> string set option"
  pt_source_mapping_overrides :: "string \<Rightarrow> mapping_overrides option"

definition DepegPattern_default :: DepegPattern where
  "DepegPattern_default =
     \<lparr>pt_policies = [], pt_quote_cache = [], pt_source_bindings = Map.empty,
      pt_source_mapping_overrides = Map.empty\<rparr>"

definition state_key :: "string \<Rightarrow> string option \<Rightarrow> string" where
  "state_key market_key run_id =
     (case trimmed run_id of None \<Rightarrow> market_key | Some r \<Rightarrow> market_key @ ''::'' @ r)"

section \<open>Configuration\<close>

text \<open>The field mappings of one stream of a binding, \<open>None\<close> where the loop goes on to the next.\<close>

definition stream_mapping :: "'a depeg_libs_scheme \<Rightarrow> json \<Rightarrow> (string \<times> FieldMapping list) option" where
  "stream_mapping L stream =
     (case trimmed (get_str stream ''id'') of
        None \<Rightarrow> None
      | Some stream_id \<Rightarrow>
          (case Option.bind (j_get stream ''field_mappings'') (de_field_mappings L) of
             None \<Rightarrow> None
           | Some mappings \<Rightarrow> if mappings = [] then None else Some (stream_id, mappings)))"

definition binding_override ::
  "'a depeg_libs_scheme \<Rightarrow> json \<Rightarrow> (string \<times> SourceBindingRuntimeOverride) option" where
  "binding_override L binding =
     (if \<not> unwrap_or (get_bool binding ''enabled'') True then None
      else
        (case trimmed (get_str binding ''source_id'') of
           None \<Rightarrow> None
         | Some source_id \<Rightarrow>
             (let config = JObject (unwrap_or (Option.bind (j_get binding ''binding_config'') as_object) []);
                  active_stream_ids =
                    (case Option.bind (j_get config ''active_stream_ids'') as_array of
                       None \<Rightarrow> []
                     | Some items \<Rightarrow> List.map_filter (\<lambda>v. trimmed (as_str v)) items);
                  stream_field_mappings =
                    (case Option.bind (j_get config ''streams'') as_array of
                       None \<Rightarrow> []
                     | Some streams \<Rightarrow>
                         fold (\<lambda>(k, v) m. AList.update k v m) (List.map_filter (stream_mapping L) streams) [])
              in if active_stream_ids = [] \<and> stream_field_mappings = [] then None
                 else Some (source_id,
                   \<lparr>sr_active_stream_ids = active_stream_ids,
                    sr_stream_field_mappings = stream_field_mappings\<rparr>))))"

definition parse_source_mapping_overrides :: "'a depeg_libs_scheme \<Rightarrow> json \<Rightarrow> mapping_overrides" where
  "parse_source_mapping_overrides L config =
     (case Option.bind (j_get config ''source_bindings'') as_array of
        None \<Rightarrow> []
      | Some bindings \<Rightarrow>
          fold (\<lambda>(k, v) m. AList.update k v m) (List.map_filter (binding_override L) bindings) [])"

definition or_insert :: "string \<Rightarrow> json \<Rightarrow> (string \<times> json) list \<Rightarrow> (string \<times> json) list" where
  "or_insert k v m = (if map_of m k = None then AList.update k v m else m)"

definition normalized_policy_config :: "json \<Rightarrow> json" where
  "normalized_policy_config config =
     (case as_object config of
        None \<Rightarrow> config
      | Some obj \<Rightarrow>
          (case map_of obj ''policies'' of
             Some policies \<Rightarrow> policies
           | None \<Rightarrow>
               if map_of obj ''market_key'' = None then config
               else JArray [JObject (or_insert ''stale_timeout_ms'' (j_nat 30000)
                      (or_insert ''quorum_pct'' (JNumber (Float 0)) obj))]))"

definition parse_policies :: "'a depeg_libs_scheme \<Rightarrow> string \<Rightarrow> json \<Rightarrow> DepegPolicy list" where
  "parse_policies L tenant_id config =
     (case de_policies L (normalized_policy_config config) of
        None \<Rightarrow> []
      | Some entries \<Rightarrow>
          filter (\<lambda>p. validate p = Inr ()) (map (\<lambda>p. p\<lparr>dp_tenant_id := tenant_id\<rparr>) entries))"

definition effective_policy :: "DepegPattern \<Rightarrow> string \<Rightarrow> string \<Rightarrow> DepegPolicy option" where
  "effective_policy pt tenant_id market_key = map_of (pt_policies pt) (tenant_id, market_key)"

definition reload_entry ::
  "'a depeg_libs_scheme \<Rightarrow> (string \<times> string) \<times> json \<Rightarrow> DepegPattern \<Rightarrow> DepegPattern" where
  "reload_entry L = (\<lambda>((tenant_id, pattern_id), config) acc.
     (if pattern_id \<noteq> PATTERN_ID then acc
      else
        (let policies = fold (\<lambda>p m. AList.update (tenant_id, dp_market_key p) p m)
               (parse_policies L tenant_id (extract_detection_config config)) (pt_policies acc);
             bindings = (case extract_bound_source_ids config of
                 None \<Rightarrow> pt_source_bindings acc
               | Some bound \<Rightarrow> (pt_source_bindings acc)(tenant_id \<mapsto> bound));
             overrides = parse_source_mapping_overrides L config
         in acc\<lparr>pt_policies := policies, pt_source_bindings := bindings,
                pt_source_mapping_overrides :=
                  (if overrides = [] then pt_source_mapping_overrides acc
                   else (pt_source_mapping_overrides acc)(tenant_id \<mapsto> overrides))\<rparr>)))"

definition reload_config ::
  "'a depeg_libs_scheme \<Rightarrow> ((string \<times> string) \<times> json) list \<Rightarrow> DepegPattern \<Rightarrow> DepegPattern" where
  "reload_config L config_map pt =
     (let new = fold (reload_entry L) config_map DepegPattern_default
      in pt\<lparr>pt_policies := pt_policies new, pt_source_bindings := pt_source_bindings new,
            pt_source_mapping_overrides := pt_source_mapping_overrides new\<rparr>)"

section \<open>The quote cache\<close>

definition same_quote :: "QuoteInput \<Rightarrow> QuoteInput \<Rightarrow> bool" where
  "same_quote a b \<longleftrightarrow> qi_observed_at a = qi_observed_at b \<and> feq (qi_price a) (qi_price b)
     \<and> qi_source_kind a = qi_source_kind b \<and> qi_source_id a = qi_source_id b"

definition observed_le :: "QuoteInput \<Rightarrow> QuoteInput \<Rightarrow> bool" where
  "observed_le a b \<longleftrightarrow> qi_observed_at a \<le> qi_observed_at b"

definition push_quote :: "QuoteInput \<Rightarrow> QuoteInput list \<Rightarrow> QuoteInput list" where
  "push_quote q history =
     keep_last MAX_QUOTE_HISTORY_PER_SOURCE (dedup_by same_quote (sort_by observed_le (history @ [q])))"

definition remember_quote :: "QuoteInput \<Rightarrow> market_quotes \<Rightarrow> market_quotes" where
  "remember_quote q quotes =
     AList.update (qi_source_id q)
       (push_quote q (unwrap_or (map_of quotes (qi_source_id q)) [])) quotes"

definition latest_quote_timestamp :: "market_quotes \<Rightarrow> datetime option" where
  "latest_quote_timestamp quotes =
     max_opt (List.map_filter
       (\<lambda>(_, history). if history = [] then None else Some (qi_observed_at (last history))) quotes)"

definition latest_quotes_for_time :: "market_quotes \<Rightarrow> datetime \<Rightarrow> QuoteInput list" where
  "latest_quotes_for_time quotes now =
     List.map_filter (\<lambda>(_, history). List.find (\<lambda>q. qi_observed_at q \<le> now) (rev history)) quotes"

text \<open>
  \<^verbatim>\<open>prune_quote_cache\<close>: markets without a recent quote go, and above the size limit the markets
  whose latest quote is oldest. The subtraction of two hours may leave chrono's range.
\<close>

definition prune_quote_cache ::
  "'a depeg_libs_scheme \<Rightarrow> datetime \<Rightarrow> cache_key \<Rightarrow> (cache_key \<times> market_quotes) list
     \<Rightarrow> (cache_key \<times> market_quotes) list res" where
  "prune_quote_cache L now current_key cache =
     prune_cache latest_quote_timestamp (min_utc L) DEPEG_QUOTE_CACHE_MAX_KEYS
       (checked_add_secs L now (- (DEPEG_QUOTE_CACHE_TTL_MINUTES * 60))) current_key cache"

text \<open>A simulated run drops the cached quotes of earlier runs of the same market.\<close>

definition drop_other_runs ::
  "string \<Rightarrow> string \<Rightarrow> string \<Rightarrow> (cache_key \<times> market_quotes) list \<Rightarrow> (cache_key \<times> market_quotes) list" where
  "drop_other_runs tenant_id market_key replay_scope cache =
     filter (\<lambda>((tenant, market, scope), _).
       tenant \<noteq> tenant_id \<or> market \<noteq> market_key \<or> scope = replay_scope \<or> scope = ''__live__'') cache"

section \<open>The fields of an event\<close>

definition mapping_override :: "SourceBindingRuntimeOverride \<Rightarrow> json \<Rightarrow> FieldMapping list option" where
  "mapping_override b payload =
     (let mappings = sr_stream_field_mappings b;
          by_stream = Option.bind (trimmed (get_str payload ''stream_config_id'')) (map_of mappings)
      in case by_stream of
           Some m \<Rightarrow> Some m
         | None \<Rightarrow>
             (case List.map_filter (map_of mappings) (sr_active_stream_ids b) of
                m # _ \<Rightarrow> Some m
              | [] \<Rightarrow> (case mappings of [(_, m)] \<Rightarrow> Some m | _ \<Rightarrow> None)))"

definition effective_event_fields ::
  "'a depeg_libs_scheme \<Rightarrow> DepegPattern \<Rightarrow> UnifiedEvent \<Rightarrow> string option \<times> f64 option \<times> datetime" where
  "effective_event_fields L pt event =
     (let own = (ue_market_key event, ue_price event, ue_timestamp event) in
      case Option.bind (pt_source_mapping_overrides pt (ue_tenant_id event))
             (\<lambda>overrides. map_of overrides (ue_source_id event)) of
        None \<Rightarrow> own
      | Some b \<Rightarrow>
          (case mapping_override b (ue_payload event) of
             None \<Rightarrow> own
           | Some mappings \<Rightarrow>
               (let parser_name = unwrap_or (get_str (ue_payload event) ''parser_name'') [];
                    override_config = JObject [(''field_mappings'', ser_field_mappings L mappings)];
                    resolved = resolve_field_mappings L parser_name (Some override_config);
                    mapped = apply_mappings L resolved (ue_payload event) (Some override_config)
                in if resolved = [] then own
                   else
                     (case trimmed (mf_market_key mapped) of Some mk \<Rightarrow> Some mk | None \<Rightarrow> ue_market_key event,
                      case Option.bind (mf_price mapped) positive_finite of Some x \<Rightarrow> Some x | None \<Rightarrow> ue_price event,
                      unwrap_or (mf_timestamp mapped) (ue_timestamp event)))))"

section \<open>The context of a market\<close>

definition systemic_le :: "SystemicMarketContext \<Rightarrow> SystemicMarketContext \<Rightarrow> bool" where
  "systemic_le a b \<longleftrightarrow>
     sm_divergence_pct b < sm_divergence_pct a
     \<or> \<not> sm_divergence_pct a < sm_divergence_pct b \<and> sm_market_key a \<le> sm_market_key b"

definition systemic_market ::
  "DepegPattern \<Rightarrow> string \<Rightarrow> string \<Rightarrow> datetime \<Rightarrow> DepegPolicy \<Rightarrow> SystemicMarketContext option" where
  "systemic_market pt tenant_id replay_scope now candidate =
     (let market = dp_market_key candidate in
      if \<not> suffix ''/USD'' (to_ascii_uppercase market) then None
      else
        (case map_of (pt_quote_cache pt) (tenant_id, market, replay_scope) of
           None \<Rightarrow> None
         | Some quotes \<Rightarrow>
             (case market_divergence_pct candidate (latest_quotes_for_time quotes now) now of
                None \<Rightarrow> None
              | Some divergence_pct \<Rightarrow>
                  if dp_systemic_floor_pct candidate \<le> divergence_pct
                  then Some \<lparr>sm_market_key = market, sm_divergence_pct = divergence_pct,
                             sm_trigger_floor_pct = dp_systemic_floor_pct candidate\<rparr>
                  else None)))"

definition assess_context ::
  "DepegPattern \<Rightarrow> DepegPolicy \<Rightarrow> string \<Rightarrow> string \<Rightarrow> datetime \<Rightarrow> ContextAssessment" where
  "assess_context pt policy tenant_id replay_scope now =
     (if \<not> tg_contagion_detection (dp_toggles policy)
      then \<lparr>ca_classification = Isolated, ca_systemic_markets = []\<rparr>
      else
        (let tenant_policies = map snd (filter (\<lambda>((tenant, _), _). tenant = tenant_id) (pt_policies pt));
             markets = sort_by systemic_le
               (List.map_filter (systemic_market pt tenant_id replay_scope now) tenant_policies)
         in if 2 \<le> length markets
            then \<lparr>ca_classification = Systemic, ca_systemic_markets = markets\<rparr>
            else \<lparr>ca_classification = Isolated, ca_systemic_markets = []\<rparr>))"

section \<open>The detection\<close>

definition contains_ignoring_case :: "string \<Rightarrow> string \<Rightarrow> bool" where
  "contains_ignoring_case s hint = contains_str (to_ascii_lowercase s) hint"

definition oracle_price_fields :: "EvidenceContributor list \<Rightarrow> string \<Rightarrow> f64 option \<times> f64 option" where
  "oracle_price_fields contributors source_hint =
     (case List.find (\<lambda>c. ec_source_kind c = ''oracle'' \<and> contains_ignoring_case (ec_source_id c) source_hint)
             contributors of
        None \<Rightarrow> (None, None)
      | Some c \<Rightarrow> (Some (ec_price c), Some (ec_divergence_pct c)))"

definition bool_text :: "bool \<Rightarrow> string" where
  "bool_text b = (if b then ''true'' else ''false'')"

fun recommended_actions_for_severity :: "Severity \<Rightarrow> string list" where
  "recommended_actions_for_severity Critical =
     [''Immediate Rebalance: move all affected stablecoin positions to safe assets (ETH, BTC, or actively pegged stablecoins)'',
      ''Exit all positions in the affected stablecoin immediately to prevent further capital erosion'',
      ''Withdraw to Owner wallet: transfer funds to a secure wallet outside the affected protocol'']"
| "recommended_actions_for_severity High =
     [''Partial Exit: reduce stablecoin exposure by 50% to limit downside risk'',
      ''Rebalance to ETH or other correlated assets to maintain market exposure'',
      ''Hold and Monitor: set a recovery price alert at the peg target threshold'']"
| "recommended_actions_for_severity Medium =
     [''Hold and Monitor: depeg is within manageable range, no immediate action required'',
      ''Rebalance to maintain target stablecoin allocation if exposure exceeds risk tolerance'']"
| "recommended_actions_for_severity _ = []"

definition depeg_description :: "'a depeg_libs_scheme \<Rightarrow> DepegPolicy \<Rightarrow> ConsensusSnapshot \<Rightarrow> string" where
  "depeg_description L p snap =
     ''Market '' @ dp_market_key p @ '' deviated '' @ fmt6 L (cs_divergence_pct snap)
     @ ''% from peg target '' @ fmt6 L (dp_peg_target p) @ '' (median: ''
     @ fmt6 L (cs_weighted_median_price snap) @ ''). '' @ nat_to_string (cs_source_count snap)
     @ '' source(s), quorum: '' @ (if cs_quorum_met snap then ''met'' else ''not met'') @ ''.''"

definition depeg_risk_score :: "'a depeg_libs_scheme \<Rightarrow> DepegPolicy \<Rightarrow> ConsensusSnapshot \<Rightarrow> RiskScore" where
  "depeg_risk_score L p snap =
     \<lparr>rs_score = f64_min (cs_divergence_pct snap) (lit 100),
      rs_confidence = f64_clamp (confidence_total (cs_confidence_breakdown snap) / lit 100) (lit 0) (lit 1),
      rs_rationale =
        [''context='' @ context_classification_str (cs_classification snap)
           @ '' oracle_confirmed='' @ bool_text (cs_oracle_confirmed snap)
           @ '' quorum_met='' @ bool_text (cs_quorum_met snap),
         ''weighted_median='' @ fmt6 L (cs_weighted_median_price snap)
           @ '' peg_target='' @ fmt6 L (dp_peg_target p)],
      rs_attribution = []\<rparr>"

definition depeg_oracle_context ::
  "'a depeg_libs_scheme \<Rightarrow> DepegPolicy \<Rightarrow> ConsensusSnapshot \<Rightarrow> (string \<times> json) list" where
  "depeg_oracle_context L p snap =
     (let (chainlink_price, chainlink_deviation_pct) = oracle_price_fields (cs_contributors snap) ''chainlink'';
          (pyth_price, pyth_deviation_pct) = oracle_price_fields (cs_contributors snap) ''pyth'';
          context_str = JString (context_classification_str (cs_classification snap))
      in [(''oracle_confirmed'', JBool (cs_oracle_confirmed snap)),
          (''weighted_median_price'', j_f64 (cs_weighted_median_price snap)),
          (''trigger_floor_pct'', j_f64 (cs_trigger_floor_pct snap)),
          (''context_classification'', context_str),
          (''contagion_status'', context_str),
          (''source_count'', j_nat (cs_source_count snap)),
          (''eligible_source_count'', j_nat (cs_eligible_source_count snap)),
          (''healthy_source_count'', j_nat (cs_source_count snap)),
          (''total_source_count'', j_nat (cs_eligible_source_count snap)),
          (''divergence_pct'', j_f64 (cs_divergence_pct snap)),
          (''peg_target'', j_f64 (dp_peg_target p)),
          (''chainlink_price'', j_opt j_f64 chainlink_price),
          (''chainlink_deviation_pct'', j_opt j_f64 chainlink_deviation_pct),
          (''pyth_price'', j_opt j_f64 pyth_price),
          (''pyth_deviation_pct'', j_opt j_f64 pyth_deviation_pct),
          (''contributing_sources'', ser_contributors L (cs_contributors snap)),
          (''systemic_markets'', ser_systemic_markets L (cs_systemic_markets snap))])"

definition build_detection ::
  "'a depeg_libs_scheme \<Rightarrow> environment \<Rightarrow> UnifiedEvent \<Rightarrow> DepegPolicy \<Rightarrow> ConsensusSnapshot \<Rightarrow> Severity
     \<Rightarrow> IncidentTransition option \<Rightarrow> datetime \<Rightarrow> DetectionResult" where
  "build_detection L en event p snap severity transition now =
     (let (is_simulated, run_id) = simulation_metadata_from_event event in
      \<lparr>dr_detection_id = en_detection_uuid en, dr_pattern_id = PATTERN_ID,
       dr_event_key = Some (''depeg:'' @ dp_tenant_id p @ '':'' @ dp_market_key p),
       dr_subject_type = Some ''market'',
       dr_subject_key = Some (dp_tenant_id p @ '':'' @ dp_market_key p),
       dr_tenant_id = Some (dp_tenant_id p), dr_chain = Offchain, dr_chain_slug = ''offchain'',
       dr_protocol = ''Stablecoin'', dr_lifecycle_state = Confirmed,
       dr_requires_confirmation = tg_oracle_confirmation (dp_toggles p),
       dr_attack_family = AF_PegDeviation, dr_severity = severity,
       dr_description = Some (depeg_description L p snap),
       dr_triggered_rule_ids = [''depeg.sustained_breach''],
       dr_tx_hash = ''depeg-'' @ en_tx_uuid en, dr_block_number = 0,
       dr_signals = [\<lparr>sg_signal_type = ST_PriceDeviation, sg_value = cs_divergence_pct snap,
                      sg_label = Some (fmt6 L (cs_divergence_pct snap) @ ''%''), sg_source_id = None\<rparr>],
       dr_risk_score = depeg_risk_score L p snap,
       dr_incident_transition = transition,
       dr_context_classification = Some (cs_classification snap),
       dr_confidence_breakdown = cs_confidence_breakdown snap,
       dr_oracle_context = depeg_oracle_context L p snap,
       dr_actions_recommended = recommended_actions_for_severity severity,
       dr_is_simulated = is_simulated, dr_simulation_run_id = run_id,
       dr_detected_at = now, dr_created_at = now\<rparr>)"

text \<open>The reason that the log of a simulated evaluation gives.\<close>

definition depeg_test_mode_reason ::
  "DepegPolicy \<Rightarrow> DepegAlertState \<Rightarrow> EvaluationOutcome \<Rightarrow> datetime \<Rightarrow> f64 \<Rightarrow> string" where
  "depeg_test_mode_reason p current_state outcome now confidence =
     (let snap = eo_snapshot outcome;
          next_state = eo_next_state outcome;
          previous_active = severity_from_str (das_last_severity current_state);
          previous_rank = severity_rank previous_active;
          current_rank = severity_rank (cs_severity snap);
          cool = cooldown_active current_state now
      in if eo_should_emit_alert outcome then
           (case eo_transition outcome of
              Some Trigger \<Rightarrow> ''emitted_trigger''
            | Some Escalate \<Rightarrow> ''emitted_escalate''
            | Some Deescalate \<Rightarrow> ''emitted_deescalate''
            | Some Resolve \<Rightarrow> ''emitted_resolve''
            | Some Retract \<Rightarrow> ''emitted_retract''
            | Some Update \<Rightarrow> ''emitted_update''
            | None \<Rightarrow> ''emitted_detection'')
         else if cs_breach_active snap then
           (if previous_active = None then
              (if cool then ''cooldown_active_for_trigger'' else ''trigger_suppressed'')
            else if previous_rank < current_rank then
              (if cool then ''cooldown_active_for_escalation'' else ''escalation_suppressed'')
            else if current_rank < previous_rank then
              (if das_below_severity_blocks next_state < dp_deescalation_blocks p then ''deescalation_window_not_met''
               else if cool then ''cooldown_active_for_deescalation''
               else ''deescalation_suppressed'')
            else ''already_active_same_severity'')
         else if \<not> cs_quorum_met snap then ''quorum_not_met''
         else if tg_oracle_confirmation (dp_toggles p) \<and> \<not> cs_oracle_confirmed snap then
           ''oracle_confirmation_not_met''
         else if confidence < dp_min_confidence_to_fire p then ''confidence_below_threshold''
         else if cs_severity snap = None then ''trigger_floor_not_met''
         else if previous_active \<noteq> None then
           (if 0 < das_below_trigger_blocks next_state \<and> das_below_trigger_blocks next_state < dp_resolution_blocks p
            then ''resolution_window_not_met''
            else if cool then ''cooldown_active_for_resolution''
            else ''resolution_gates_not_met'')
         else ''breach_inactive'')"

section \<open>Processing an event\<close>

definition depeg_snapshot_data ::
  "'a depeg_libs_scheme \<Rightarrow> DepegPolicy \<Rightarrow> ConsensusSnapshot \<Rightarrow> IncidentTransition option \<Rightarrow> json" where
  "depeg_snapshot_data L p snap transition =
     JObject
       [(''weighted_median_price'', j_f64 (cs_weighted_median_price snap)),
        (''divergence_pct'', j_f64 (cs_divergence_pct snap)),
        (''source_count'', j_nat (cs_source_count snap)),
        (''eligible_source_count'', j_nat (cs_eligible_source_count snap)),
        (''quorum_met'', JBool (cs_quorum_met snap)),
        (''breach_active'', JBool (cs_breach_active snap)),
        (''oracle_confirmed'', JBool (cs_oracle_confirmed snap)),
        (''context_classification'', ser_classification L (cs_classification snap)),
        (''trigger_floor_pct'', j_f64 (cs_trigger_floor_pct snap)),
        (''confidence_breakdown'', ser_confidence L (cs_confidence_breakdown snap)),
        (''incident_transition'', ser_transition L transition),
        (''peg_target'', j_f64 (dp_peg_target p)),
        (''contributing_sources'', ser_contributors L (cs_contributors snap)),
        (''systemic_markets'', ser_systemic_markets L (cs_systemic_markets snap))]"

definition max_mark :: "datetime option \<Rightarrow> datetime \<Rightarrow> datetime" where
  "max_mark hwm t = (case hwm of None \<Rightarrow> t | Some h \<Rightarrow> max h t)"

definition late_delivery :: "DepegAlertState \<Rightarrow> datetime \<Rightarrow> bool" where
  "late_delivery st t = (case das_high_water_mark st of None \<Rightarrow> False | Some h \<Rightarrow> t < h)"

text \<open>The market an event updates, when it has one: its key, its policy, its price and its time.\<close>

definition relevant_market ::
  "'a depeg_libs_scheme \<Rightarrow> DepegPattern \<Rightarrow> UnifiedEvent \<Rightarrow> (string \<times> DepegPolicy \<times> f64 \<times> datetime) option" where
  "relevant_market L pt event =
     (case effective_event_fields L pt event of (market_key, price, t) \<Rightarrow>
        if (case pt_source_bindings pt (ue_tenant_id event) of
              None \<Rightarrow> False
            | Some bound \<Rightarrow> bound \<noteq> {} \<and> ue_source_id event \<notin> bound) then None
        else
          (case (market_key, price) of
             (Some mk, Some x) \<Rightarrow>
               if is_finite x \<and> 0 < x
               then map_option (\<lambda>p. (mk, p, x, t)) (effective_policy pt (ue_tenant_id event) mk)
               else None
           | _ \<Rightarrow> None))"

definition event_scope :: "UnifiedEvent \<Rightarrow> string" where
  "event_scope event = unwrap_or (simulation_run_id event) ''__live__''"

text \<open>The cache after the event's quote has been remembered, and pruned.\<close>

definition cache_quote ::
  "'a depeg_libs_scheme \<Rightarrow> UnifiedEvent \<Rightarrow> string \<Rightarrow> f64 \<Rightarrow> datetime \<Rightarrow> (cache_key \<times> market_quotes) list
     \<Rightarrow> (cache_key \<times> market_quotes) list res" where
  "cache_quote L event market_key price t cache =
     (let scope = event_scope event;
          key = (ue_tenant_id event, market_key, scope);
          cache1 = (if simulation_run_id event \<noteq> None
                    then drop_other_runs (ue_tenant_id event) market_key scope cache else cache);
          quote = \<lparr>qi_source_id = ue_source_id event,
                   qi_source_kind = infer_source_kind (source_type_debug (ue_source_type event)),
                   qi_price = price, qi_observed_at = t\<rparr>;
          cache2 = AList.update key (remember_quote quote (unwrap_or (map_of cache1 key) [])) cache1
      in prune_quote_cache L t key cache2)"

definition load_alert_state ::
  "'a depeg_libs_scheme \<Rightarrow> environment \<Rightarrow> string \<Rightarrow> string \<Rightarrow> world \<Rightarrow> DepegAlertState res" where
  "load_alert_state L en tenant key w =
     bind_res (load_pattern_state en tenant PATTERN_ID key w) (\<lambda>v.
       Inr (unwrap_or (Option.bind v (de_alert_state L)) DepegAlertState_default))"

text \<open>The evaluation of the market in its context, over the quotes in the cache.\<close>

definition evaluate_market ::
  "'a depeg_libs_scheme \<Rightarrow> DepegPattern \<Rightarrow> DepegPolicy \<Rightarrow> cache_key \<Rightarrow> datetime \<Rightarrow> DepegAlertState
     \<Rightarrow> EvaluationOutcome res" where
  "evaluate_market L pt p key t st =
     (let quotes = (case map_of (pt_quote_cache pt) key of None \<Rightarrow> [] | Some q \<Rightarrow> latest_quotes_for_time q t);
          context = assess_context pt p (fst key) (snd (snd key)) t
      in bind_res (evaluate_policy L p quotes st t (ca_classification context)) (\<lambda>o'.
           Inr (o'\<lparr>eo_snapshot := (eo_snapshot o')\<lparr>cs_systemic_markets := ca_systemic_markets context\<rparr>\<rparr>)))"

definition store_outcome ::
  "'a depeg_libs_scheme \<Rightarrow> environment \<Rightarrow> UnifiedEvent \<Rightarrow> string \<Rightarrow> DepegPolicy \<Rightarrow> datetime \<Rightarrow> EvaluationOutcome
     \<Rightarrow> world \<Rightarrow> world \<times> DetectionResult option res" where
  "store_outcome L en event market_key p t outcome w =
     (let snap = eo_snapshot outcome;
          w1 = insert_pattern_snapshot en
                 \<lparr>ps_tenant_id = ue_tenant_id event, ps_pattern_id = PATTERN_ID, ps_snapshot_key = market_key,
                  ps_data = append_snapshot_meta (to_rfc3339 L) event (depeg_snapshot_data L p snap (eo_transition outcome)),
                  ps_score = Some (cs_divergence_pct snap),
                  ps_severity = map_option severity_name (cs_severity snap), ps_observed_at = t\<rparr> w
      in case ser_alert_state L (eo_next_state outcome) of
           Inl e \<Rightarrow> (w1, Inl e)
         | Inr v \<Rightarrow>
             (upsert_pattern_state en (ue_tenant_id event) PATTERN_ID (state_key market_key (simulation_run_id event)) v w1,
              Inr (if eo_should_emit_alert outcome
                   then map_option (\<lambda>severity. build_detection L en event p snap severity (eo_transition outcome) t)
                          (eo_emitted_severity outcome)
                   else None)))"

definition process_event ::
  "'a depeg_libs_scheme \<Rightarrow> environment \<Rightarrow> UnifiedEvent \<Rightarrow> datetime \<Rightarrow> DepegPattern \<Rightarrow> world
     \<Rightarrow> DepegPattern \<times> world \<times> DetectionResult option res" where
  "process_event L en event wall_now pt w =
     (case relevant_market L pt event of
        None \<Rightarrow> (pt, w, Inr None)
      | Some (market_key, p, price, t) \<Rightarrow>
          (case cache_quote L event market_key price t (pt_quote_cache pt) of
             Inl e \<Rightarrow> (pt, w, Inl e)
           | Inr cache \<Rightarrow>
               (let pt1 = pt\<lparr>pt_quote_cache := cache\<rparr>;
                    key = (ue_tenant_id event, market_key, event_scope event)
                in case bind_res (load_alert_state L en (ue_tenant_id event) (state_key market_key (simulation_run_id event)) w)
                          (\<lambda>st. bind_res (evaluate_market L pt1 p key t st) (\<lambda>o'. Inr (st, o'))) of
                     Inl e \<Rightarrow> (pt1, w, Inl e)
                   | Inr (st, outcome) \<Rightarrow>
                       if late_delivery st t then (pt1, w, Inr None)
                       else
                         (let outcome1 = outcome\<lparr>eo_next_state :=
                                (eo_next_state outcome)\<lparr>das_high_water_mark := Some (max_mark (das_high_water_mark st) t)\<rparr>\<rparr>;
                              (w1, r) = store_outcome L en event market_key p t outcome1 w
                          in (pt1, w1, r)))))"

section \<open>Well-formed patterns\<close>

definition history_ok :: "string \<Rightarrow> QuoteInput list \<Rightarrow> bool" where
  "history_ok source_id h \<longleftrightarrow>
     h \<noteq> [] \<and> length h \<le> MAX_QUOTE_HISTORY_PER_SOURCE \<and> sorted_wrt observed_le h
     \<and> (\<forall>q \<in> set h. qi_source_id q = source_id \<and> is_finite (qi_price q) \<and> 0 < qi_price q)"

definition quotes_ok :: "market_quotes \<Rightarrow> bool" where
  "quotes_ok quotes \<longleftrightarrow> distinct (map fst quotes) \<and> (\<forall>(sid, h) \<in> set quotes. history_ok sid h)"

definition cache_ok :: "(cache_key \<times> market_quotes) list \<Rightarrow> bool" where
  "cache_ok cache \<longleftrightarrow> distinct (map fst cache) \<and> (\<forall>(_, quotes) \<in> set cache. quotes_ok quotes)
     \<and> length cache \<le> DEPEG_QUOTE_CACHE_MAX_KEYS"

definition policies_ok :: "((string \<times> string) \<times> DepegPolicy) list \<Rightarrow> bool" where
  "policies_ok ps \<longleftrightarrow> distinct (map fst ps)
     \<and> (\<forall>((tenant, market), p) \<in> set ps.
          dp_tenant_id p = tenant \<and> dp_market_key p = market \<and> validate p = Inr ())"

definition pattern_ok :: "DepegPattern \<Rightarrow> bool" where
  "pattern_ok pt \<longleftrightarrow> cache_ok (pt_quote_cache pt) \<and> policies_ok (pt_policies pt)"

lemma observed_le_orders: "orders_on A observed_le"
  by (auto simp: orders_on_def observed_le_def)

lemma dedup_from_neq_Nil: "dedup_from same y xs \<noteq> []"
  by (induction xs arbitrary: y) auto

lemma dedup_by_eq_Nil [simp]: "dedup_by same xs = [] \<longleftrightarrow> xs = []"
  by (auto simp: dedup_by_def dedup_from_neq_Nil split: list.splits)

lemma set_push_quote: "set (push_quote q h) \<subseteq> insert q (set h)"
  unfolding push_quote_def
  using set_keep_last set_dedup_by [of same_quote "sort_by observed_le (h @ [q])"] by fastforce

lemma history_ok_push:
  assumes "h = [] \<or> history_ok (qi_source_id q) h" "is_finite (qi_price q)" "0 < qi_price q"
  shows "history_ok (qi_source_id q) (push_quote q h)"
proof -
  have "push_quote q h \<noteq> []"
  proof
    assume "push_quote q h = []"
    then have "length (push_quote q h) = 0" by simp
    then show False by (auto simp: push_quote_def MAX_QUOTE_HISTORY_PER_SOURCE_def min_def split: if_splits)
  qed
  moreover have "sorted_wrt observed_le (push_quote q h)"
    unfolding push_quote_def
    by (intro sorted_wrt_keep_last sorted_wrt_dedup_by sort_by_sorted_wrt [OF observed_le_orders [of UNIV]]) simp
  moreover have "length (push_quote q h) \<le> MAX_QUOTE_HISTORY_PER_SOURCE" by (simp add: push_quote_def)
  moreover have "\<forall>x \<in> set (push_quote q h). qi_source_id x = qi_source_id q \<and> is_finite (qi_price x) \<and> 0 < qi_price x"
    using set_push_quote [of q h] assms by (auto simp: history_ok_def)
  ultimately show ?thesis by (simp add: history_ok_def)
qed

lemma quotes_ok_remember:
  assumes "quotes_ok quotes" "is_finite (qi_price q)" "0 < qi_price q"
  shows "quotes_ok (remember_quote q quotes)"
proof -
  have "unwrap_or (map_of quotes (qi_source_id q)) [] = [] \<or>
      history_ok (qi_source_id q) (unwrap_or (map_of quotes (qi_source_id q)) [])"
    using assms(1) by (cases "map_of quotes (qi_source_id q)") (auto simp: quotes_ok_def dest: map_of_SomeD)
  from history_ok_push [OF this assms(2,3)] assms(1) show ?thesis
    by (auto simp: quotes_ok_def remember_quote_def distinct_update dest!: set_alist_update)
qed

lemma prune_quote_cache_ok:
  assumes "prune_quote_cache L now k cache = Inr cache'" "distinct (map fst cache)"
  shows "distinct (map fst cache') \<and> set cache' \<subseteq> set cache
       \<and> length cache' \<le> DEPEG_QUOTE_CACHE_MAX_KEYS \<and> map_of cache' k = map_of cache k"
  using prune_cache_ok [OF assms(1) [unfolded prune_quote_cache_def] assms(2)] by (simp add: DEPEG_QUOTE_CACHE_MAX_KEYS_def)

end
