(* ===== verification/DepegSafety.thy ===== *)
theory DepegSafety
  imports DepegPattern
begin

text \<open>
  What holds of the depeg pattern over whole histories of reloads and events: the bounds of its
  quote cache, the contract it fulfils towards the registry, the isolation of tenants, and what
  event times do to a market.
\<close>

section \<open>The invariant of the pattern\<close>

lemma cache_quote_ok:
  assumes "cache_quote L ev mk x t cache = Inr cache'" "cache_ok cache" "is_finite x" "0 < x"
  shows "cache_ok cache'"
proof -
  let ?scope = "event_scope ev"
  let ?key = "(ue_tenant_id ev, mk, ?scope)"
  let ?q = "\<lparr>qi_source_id = ue_source_id ev,
             qi_source_kind = infer_source_kind (source_type_debug (ue_source_type ev)), qi_price = x, qi_observed_at = t\<rparr>"
  define c1 where "c1 = (if simulation_run_id ev \<noteq> None then drop_other_runs (ue_tenant_id ev) mk ?scope cache else cache)"
  define c2 where "c2 = AList.update ?key (remember_quote ?q (unwrap_or (map_of c1 ?key) [])) c1"
  have c1: "distinct (map fst c1)" "\<forall>(_, qs) \<in> set c1. quotes_ok qs"
    using assms(2) by (auto simp: c1_def cache_ok_def drop_other_runs_def distinct_map_filter)
  have "quotes_ok (unwrap_or (map_of c1 ?key) [])"
    using c1(2) by (cases "map_of c1 ?key") (auto simp: quotes_ok_def [of "[]"] dest: map_of_SomeD)
  then have "quotes_ok (remember_quote ?q (unwrap_or (map_of c1 ?key) []))"
    using assms(3,4) by (intro quotes_ok_remember) simp_all
  then have c2: "distinct (map fst c2)" "\<forall>(_, qs) \<in> set c2. quotes_ok qs"
    using c1 by (auto simp: c2_def distinct_update dest!: set_alist_update)
  have "prune_quote_cache L t ?key c2 = Inr cache'"
    using assms(1) by (simp add: cache_quote_def c1_def c2_def Let_def)
  from prune_quote_cache_ok [OF this c2(1)] c2(2) show ?thesis by (auto simp: cache_ok_def)
qed

lemma relevant_market_Some:
  assumes "relevant_market L pt ev = Some (mk, p, x, t)"
  shows "effective_policy pt (ue_tenant_id ev) mk = Some p" "is_finite x" "0 < x"
  using assms by (auto simp: relevant_market_def split: prod.splits if_splits option.splits)

lemma process_event_policies:
  "pt_policies (fst (process_event L en ev wall pt w)) = pt_policies pt"
  "pt_source_bindings (fst (process_event L en ev wall pt w)) = pt_source_bindings pt"
  by (auto simp: process_event_def Let_def split: option.splits sum.splits prod.splits)



lemma process_event_cache:
  assumes "cache_ok (pt_quote_cache pt)"
  shows "cache_ok (pt_quote_cache (fst (process_event L en ev wall pt w)))"
proof (cases "relevant_market L pt ev")
  case (Some m)
  obtain mk p x t where m: "m = (mk, p, x, t)" by (metis prod.exhaust)
  note rel = relevant_market_Some [OF Some [unfolded m]]
  show ?thesis
  proof (cases "cache_quote L ev mk x t (pt_quote_cache pt)")
    case (Inr cache)
    have "cache_ok cache" by (rule cache_quote_ok [OF Inr assms rel(2,3)])
    then show ?thesis using Some m Inr
      by (auto simp: process_event_def Let_def split: sum.splits prod.splits)
  qed (use assms Some m in \<open>simp add: process_event_def\<close>)
qed (use assms in \<open>simp add: process_event_def\<close>)

lemma policies_ok_insert:
  assumes "policies_ok ps" "\<forall>p \<in> set new. dp_tenant_id p = tenant \<and> validate p = Inr ()"
  shows "policies_ok (fold (\<lambda>p m. AList.update (tenant, dp_market_key p) p m) new ps)"
  using assms
proof (induction new arbitrary: ps)
  case (Cons p new)
  have "policies_ok (AList.update (tenant, dp_market_key p) p ps)"
    using Cons.prems by (auto simp: policies_ok_def distinct_update dest!: set_alist_update)
  then show ?case using Cons by simp
qed simp

lemma parse_policies_valid:
  "p \<in> set (parse_policies L tenant config) \<Longrightarrow> dp_tenant_id p = tenant \<and> validate p = Inr ()"
  by (auto simp: parse_policies_def split: option.splits)

lemma reload_config_policies: "policies_ok (pt_policies (reload_config L config_map pt))"
proof -
  have "policies_ok (pt_policies (fold (reload_entry L) config_map acc))" if "policies_ok (pt_policies acc)" for acc
    using that
  proof (induction config_map arbitrary: acc)
    case (Cons e config_map)
    obtain tenant pid config where e: "e = ((tenant, pid), config)" by (metis prod.exhaust)
    have "policies_ok (pt_policies (reload_entry L e acc))"
      using policies_ok_insert [OF Cons.prems, of "parse_policies L tenant (extract_detection_config config)" tenant]
        parse_policies_valid Cons.prems
      by (auto simp: reload_entry_def e Let_def)
    then show ?case using Cons by simp
  qed simp
  moreover have "policies_ok (pt_policies DepegPattern_default)"
    by (simp add: DepegPattern_default_def policies_ok_def)
  ultimately show ?thesis by (simp add: reload_config_def Let_def)
qed

fun depeg_step :: "'a depeg_libs_scheme \<Rightarrow> DepegPattern \<Rightarrow> pattern_call \<Rightarrow> DepegPattern" where
  "depeg_step L pt (Reload config_map) = reload_config L config_map pt"
| "depeg_step L pt (Process en ev wall w) = fst (process_event L en ev wall pt w)"

lemma reload_config_cache [simp]: "pt_quote_cache (reload_config L c pt) = pt_quote_cache pt"
  by (simp add: reload_config_def Let_def)

interpretation depeg: invariant_machine "depeg_step L" pattern_ok for L
proof
  show "pattern_ok pt \<Longrightarrow> pattern_ok (depeg_step L pt c)" for pt c
    by (cases c) (simp_all add: pattern_ok_def reload_config_policies process_event_cache process_event_policies)
qed

text \<open>
  (C17) The memory of the pattern is bounded and clean: after any sequence of reloads and events the
  quote cache holds at most 2048 markets, each with at most 16 quotes per source, in the order of
  their times and with finite positive prices, and every policy in force is valid and belongs to
  the tenant and market it is filed under.
\<close>

theorem depeg_pattern_stays_ok:
  "pattern_ok (foldl (depeg_step L) DepegPattern_default calls)"
  by (rule depeg.inv_run) (simp add: pattern_ok_def cache_ok_def policies_ok_def DepegPattern_default_def)

section \<open>The contract with the registry\<close>

lemma store_outcome_world:
  assumes "store_outcome L en ev mk p t o' w = (w', r)"
  shows "w_detections w' = w_detections w" "w_published w' = w_published w" "w_raw_events w' = w_raw_events w"
    "k \<noteq> PATTERN_ID \<or> tenant \<noteq> ue_tenant_id ev \<Longrightarrow> w_states w' (tenant, k, s) = w_states w (tenant, k, s)"
  using assms
  by (auto simp: store_outcome_def Let_def insert_pattern_snapshot_def upsert_pattern_state_def split: sum.splits if_splits)

lemma process_event_world:
  assumes "process_event L en ev wall pt w = (pt', w', r)"
  shows "w' = w \<and> (\<forall>d. r \<noteq> Inr (Some d)) \<or>
    (\<exists>mk p x t o'. relevant_market L pt ev = Some (mk, p, x, t) \<and> store_outcome L en ev mk p t o' w = (w', r))"
proof (cases "relevant_market L pt ev")
  case (Some m)
  obtain mk p x t where m: "m = (mk, p, x, t)" by (metis prod.exhaust)
  show ?thesis using assms Some m
    by (auto simp: process_event_def Let_def split: sum.splits prod.splits if_splits)
qed (use assms in \<open>auto simp: process_event_def\<close>)

lemma store_outcome_detection:
  assumes "store_outcome L en ev mk p t o' w = (w', Inr (Some d))"
  shows "\<exists>sev. d = build_detection L en ev p (eo_snapshot o') sev (eo_transition o') t"
  using assms by (auto simp: store_outcome_def Let_def split: sum.splits if_splits)

lemma build_detection_fields:
  "dr_pattern_id (build_detection L en ev p snap sev tr t) = PATTERN_ID"
  "dr_tenant_id (build_detection L en ev p snap sev tr t) = Some (dp_tenant_id p)"
  "dr_risk_score (build_detection L en ev p snap sev tr t) = depeg_risk_score L p snap"
  by (simp_all add: build_detection_def split: prod.splits)

interpretation depeg_contract: detection_pattern "\<lambda>_ k. k = PATTERN_ID" "process_event L" for L
proof
  show "dr_pattern_id d = PATTERN_ID" if "process_event L en ev now p w = (p', w', Inr (Some d))" for en ev now p w p' w' d
    using process_event_world [OF that] store_outcome_detection build_detection_fields(1) by fastforce
  show "w_detections w' = w_detections w \<and> w_published w' = w_published w \<and> w_raw_events w' = w_raw_events w"
    if "process_event L en ev now p w = (p', w', r)" for en ev now p w p' w' r
    using process_event_world [OF that] store_outcome_world by metis
  show "w_states w' (t, k, s) = w_states w (t, k, s)"
    if "process_event L en ev now p w = (p', w', r)" "k \<noteq> PATTERN_ID" for en ev now p w p' w' r k t s
    using process_event_world [OF that(1)] store_outcome_world(4) that(2) by metis
qed simp

section \<open>Tenants\<close>

lemma store_outcome_snapshots:
  assumes "store_outcome L en ev mk p t o' w = (w', r)"
  shows "\<forall>sn \<in> set (w_snapshots w'). sn \<in> set (w_snapshots w) \<or> ps_tenant_id sn = ue_tenant_id ev"
  using assms
  by (auto simp: store_outcome_def Let_def insert_pattern_snapshot_def upsert_pattern_state_def split: sum.splits if_splits)

text \<open>
  Tenants are isolated: processing an event of one tenant neither changes the stored alert states
  of another nor records snapshots for another, and the detection it may raise belongs to the
  tenant of the event.
\<close>

lemma tenants_are_isolated:
  assumes "pattern_ok pt" and "process_event L en ev wall pt w = (pt', w', r)"
  shows "(\<forall>tenant k s. tenant = ue_tenant_id ev \<or> w_states w' (tenant, k, s) = w_states w (tenant, k, s))
     \<and> (\<forall>sn \<in> set (w_snapshots w'). sn \<in> set (w_snapshots w) \<or> ps_tenant_id sn = ue_tenant_id ev)
     \<and> (\<forall>d. r = Inr (Some d) \<longrightarrow> dr_tenant_id d = Some (ue_tenant_id ev))"
proof (cases "w' = w \<and> (\<forall>d. r \<noteq> Inr (Some d))")
  case False
  with process_event_world [OF assms(2)] obtain mk p x t o' where
    rel: "relevant_market L pt ev = Some (mk, p, x, t)" and st: "store_outcome L en ev mk p t o' w = (w', r)" by blast
  have "map_of (pt_policies pt) (ue_tenant_id ev, mk) = Some p"
    using relevant_market_Some(1) [OF rel] by (simp add: effective_policy_def)
  then have "dp_tenant_id p = ue_tenant_id ev"
    using assms(1) by (auto simp: pattern_ok_def policies_ok_def dest!: map_of_SomeD)
  then have "dr_tenant_id d = Some (ue_tenant_id ev)" if "r = Inr (Some d)" for d
    using store_outcome_detection [of L en ev mk p t o' w w' d] st that by (auto simp: build_detection_fields)
  moreover have "tenant = ue_tenant_id ev \<or> w_states w' (tenant, k, s) = w_states w (tenant, k, s)" for tenant k s
    using store_outcome_world(4) [OF st] by blast
  ultimately show ?thesis using store_outcome_snapshots [OF st] by blast
qed auto

section \<open>Event times\<close>







text \<open>
  A market without eligible quotes forgets its incident: when an event (of a DEX, say, or of a
  disabled source) finds every counted quote stale, the stored state is reset to the initial one
  except for the time, whatever incident was active and however long its cooldown still had to run,
  and no transition is reported.
\<close>

lemma stale_market_forgets_incident:
  assumes "relevant_market L pt ev = Some (mk, p, x, t)"
    and "cache_quote L ev mk x t (pt_quote_cache pt) = Inr cache"
    and "map_of cache (ue_tenant_id ev, mk, event_scope ev) = Some quotes"
    and "filter (eligible_quote p t) (latest_quotes_for_time quotes t) = []"
    and "load_alert_state L en (ue_tenant_id ev) (state_key mk (simulation_run_id ev)) w = Inr st"
    and "\<not> late_delivery st t" and "\<not> en_fails en UpsertState"
    and "ser_alert_state L (DepegAlertState_default\<lparr>das_high_water_mark := Some (max_mark (das_high_water_mark st) t)\<rparr>) = Inr v"
  shows "\<exists>pt' w'. process_event L en ev wall pt w = (pt', w', Inr None)
     \<and> w_states w' (ue_tenant_id ev, PATTERN_ID, state_key mk (simulation_run_id ev)) = Some v"
proof -
  have points: "collect_quotes p t (latest_quotes_for_time quotes t) =
      (length (filter (counted p) (latest_quotes_for_time quotes t)), [], [])"
    using assms(4) by (simp add: collect_quotes_filter)
  then show ?thesis using assms
    by (simp add: process_event_def Let_def evaluate_market_def evaluate_policy_def no_consensus_def
        store_outcome_def upsert_pattern_state_def split_beta)
qed

section \<open>Source bindings\<close>

lemma effective_fields_bindings:
  "effective_event_fields L (pt\<lparr>pt_source_bindings := b\<rparr>) ev = effective_event_fields L pt ev"
  by (simp add: effective_event_fields_def)

text \<open>
  An empty set of bound sources restricts nothing: a tenant whose bindings are all disabled is
  treated as one without any bindings, and events from every source are processed.
\<close>

theorem empty_bindings_accept_every_source:
  "relevant_market L (pt\<lparr>pt_source_bindings := (pt_source_bindings pt)(ue_tenant_id ev \<mapsto> {})\<rparr>) ev =
   relevant_market L (pt\<lparr>pt_source_bindings := (pt_source_bindings pt)(ue_tenant_id ev := None)\<rparr>) ev"
  by (simp add: relevant_market_def effective_fields_bindings effective_policy_def split: prod.split option.split)

section \<open>Choosing the quotes of an evaluation\<close>

lemma find_rev_last:
  assumes "List.find P (rev h) = Some q" "sorted_wrt observed_le h"
  shows "q \<in> set h \<and> P q \<and> (\<forall>q' \<in> set h. P q' \<longrightarrow> qi_observed_at q' \<le> qi_observed_at q)"
  using assms
proof (induction h rule: rev_induct)
  case (snoc y h)
  then show ?case by (auto simp: sorted_wrt_append observed_le_def split: if_splits)
qed simp

text \<open>
  An evaluation sees one quote per source, the latest not after its time: from a well-formed cache
  entry exactly the sources that have quoted by then are represented, each once, by a quote that
  no other quote of the source up to that time is later than.
\<close>

lemma latest_quotes_are_latest:
  assumes "quotes_ok quotes"
  shows "distinct (map qi_source_id (latest_quotes_for_time quotes now))
     \<and> (\<forall>q \<in> set (latest_quotes_for_time quotes now). qi_observed_at q \<le> now
          \<and> (\<exists>h. map_of quotes (qi_source_id q) = Some h \<and> q \<in> set h
               \<and> (\<forall>q' \<in> set h. qi_observed_at q' \<le> now \<longrightarrow> qi_observed_at q' \<le> qi_observed_at q)))
     \<and> (\<forall>(sid, h) \<in> set quotes. (\<exists>q \<in> set h. qi_observed_at q \<le> now) \<longrightarrow>
          sid \<in> qi_source_id ` set (latest_quotes_for_time quotes now))"
proof -
  let ?pick = "\<lambda>(sid :: string, h). List.find (\<lambda>q. qi_observed_at q \<le> now) (rev h)"
  have pick: "q \<in> set h \<and> qi_observed_at q \<le> now \<and> qi_source_id q = sid
      \<and> (\<forall>q' \<in> set h. qi_observed_at q' \<le> now \<longrightarrow> qi_observed_at q' \<le> qi_observed_at q)"
    if "history_ok sid h" "?pick (sid, h) = Some q" for sid h q
    using find_rev_last [of "\<lambda>q. qi_observed_at q \<le> now" h q] that by (auto simp: history_ok_def)
  have ids: "distinct (map qi_source_id (List.map_filter ?pick qs)) \<and>
      qi_source_id ` set (List.map_filter ?pick qs) \<subseteq> fst ` set qs" if "quotes_ok qs" for qs
    using that
  proof (induction qs)
    case (Cons e qs)
    obtain sid h where e: "e = (sid, h)" by (cases e)
    have IH: "distinct (map qi_source_id (List.map_filter ?pick qs))"
      "qi_source_id ` set (List.map_filter ?pick qs) \<subseteq> fst ` set qs"
      using Cons by (auto simp: quotes_ok_def)
    show ?case
    proof (cases "?pick e")
      case None
      then show ?thesis using IH by (auto simp: map_filter_simps)
    next
      case (Some q)
      then have "qi_source_id q = sid" using pick [of sid h q] Cons.prems e by (simp add: quotes_ok_def)
      moreover have "sid \<notin> fst ` set qs" using Cons.prems e by (simp add: quotes_ok_def)
      ultimately show ?thesis using Some IH e by (auto simp: map_filter_simps)
    qed
  qed (simp add: map_filter_simps)
  have members: "q \<in> set (latest_quotes_for_time quotes now) \<longleftrightarrow> (\<exists>e \<in> set quotes. ?pick e = Some q)" for q
    by (force simp: latest_quotes_for_time_def List.map_filter_def)
  have hist: "(sid, h) \<in> set quotes \<Longrightarrow> history_ok sid h \<and> map_of quotes sid = Some h" for sid h
    using assms by (auto simp: quotes_ok_def)
  have "\<exists>q. ?pick (sid, h) = Some q" if "\<exists>q \<in> set h. qi_observed_at q \<le> now" for sid h
    using that by (auto simp: find_None_iff intro: ccontr simp del: not_None_eq)
  then have complete: "sid \<in> qi_source_id ` set (latest_quotes_for_time quotes now)"
    if "(sid, h) \<in> set quotes" "\<exists>q \<in> set h. qi_observed_at q \<le> now" for sid h
    using that pick hist members by (metis image_eqI)
  have chosen: "qi_observed_at q \<le> now
      \<and> (\<exists>h. map_of quotes (qi_source_id q) = Some h \<and> q \<in> set h
           \<and> (\<forall>q' \<in> set h. qi_observed_at q' \<le> now \<longrightarrow> qi_observed_at q' \<le> qi_observed_at q))"
    if "q \<in> set (latest_quotes_for_time quotes now)" for q
  proof -
    from that members obtain sid h where e: "(sid, h) \<in> set quotes" "?pick (sid, h) = Some q" by auto
    with hist have hh: "history_ok sid h" "map_of quotes sid = Some h" by blast+
    from pick [OF hh(1) e(2)] hh(2) show ?thesis by auto
  qed
  have "distinct (map qi_source_id (latest_quotes_for_time quotes now))"
    using ids [OF assms] by (simp add: latest_quotes_for_time_def)
  then show ?thesis using chosen complete by blast
qed

section \<open>A sample history\<close>

definition sample_unified :: "string \<Rightarrow> SourceType \<Rightarrow> datetime \<Rightarrow> UnifiedEvent" where
  "sample_unified source kind t =
     \<lparr>ue_event_id = [], ue_tenant_id = ''t'', ue_source_id = source, ue_source_type = kind,
      ue_event_type = ''price'', ue_timestamp = t, ue_payload = JNull, ue_chain_id = None,
      ue_block_number = None, ue_tx_hash = None, ue_market_key = Some ''USDC/USD'',
      ue_price = Some (Fin False 2)\<rparr>"

definition sample_pattern :: DepegPattern where
  "sample_pattern =
     DepegPattern_default\<lparr>pt_policies := [((''t'', ''USDC/USD''), sample_policy)],
       pt_quote_cache := [((''t'', ''USDC/USD'', ''__live__''), [(''a'', [hd (sample_quotes (Fin False 2) 0)])])]\<rparr>"



text \<open>Libraries that store the high-water mark only.\<close>

definition mark_libs :: depeg_libs where
  "mark_libs = sample_libs\<lparr>
     ser_alert_state := (\<lambda>s. Inr (case das_high_water_mark s of None \<Rightarrow> JNull | Some h \<Rightarrow> JNumber (NegInt h))),
     de_alert_state := (\<lambda>v. Some (DepegAlertState_default\<lparr>das_high_water_mark := as_i64 v\<rparr>))\<rparr>"

lemma mark_libs_secs [simp]: "checked_add_secs mark_libs t s = Some (t + s * nanos_per_sec)"
  by (simp add: mark_libs_def)




lemma sample_validates: "validate sample_policy = Inr ()"
  by (simp add: validate_def ensure_def sample_policy_def DepegConfidenceWeights_default_def f64_eval)

lemma sample_pattern_ok: "pattern_ok sample_pattern"
  by (simp add: pattern_ok_def cache_ok_def policies_ok_def sample_pattern_def DepegPattern_default_def
      quotes_ok_def history_ok_def sample_quotes_def sample_validates DEPEG_QUOTE_CACHE_MAX_KEYS_def
      MAX_QUOTE_HISTORY_PER_SOURCE_def f64_eval) (simp add: sample_policy_def)


lemma sample_run_id [simp]: "simulation_run_id (sample_unified src kind t) = None"
  by (simp add: simulation_run_id_def sample_unified_def)





definition stale_libs :: depeg_libs where
  "stale_libs = mark_libs\<lparr>de_alert_state := (\<lambda>_. Some (sample_incident\<lparr>das_cooldown_until := Some (3600 * nanos_per_sec)\<rparr>))\<rparr>"

end
