(* ===== verification/Pipeline.thy ===== *)
theory Pipeline
  imports Finality OrchestratorSafety DepegSafety
begin

text \<open>
  Properties that span processes: what the detector and the finality worker write to their streams,
  read by the orchestrator. The streams are logs; a consumer handles the messages of a log in order,
  each under surroundings of its own (clock readings, identifiers, failures).
\<close>

section \<open>The log of finality updates\<close>







section \<open>The orchestrator on that log\<close>














section \<open>From the depeg pattern to the alert\<close>

lemma split_on_ends: "c \<notin> set ys \<Longrightarrow> \<exists>z zs. split_on c (xs @ c # ys) = z # zs @ [ys]"
proof (induction xs)
  case (Cons x xs)
  then obtain z zs where "split_on c (xs @ c # ys) = z # zs @ [ys]" by blast
  then show ?case
    by (cases "x = c") (auto intro: exI [of _ "z # zs"])
qed (use split_on_no_sep [of c ys] in \<open>auto intro: exI [of _ "[]"]\<close>)

lemma last_split_on: "c \<notin> set ys \<Longrightarrow> last (split_on c (xs @ c # ys)) = ys"
  using split_on_ends [of c ys xs] by auto

lemma hd_split_on: "c \<notin> set xs \<Longrightarrow> hd (split_on c (xs @ c # ys)) = xs"
proof (induction xs)
  case (Cons x xs)
  then show ?case by (cases "split_on c (xs @ c # ys)") auto
qed simp

text \<open>
  The alert of a depeg detection names its market: from the subject key that the detector
  composes out of the tenant and the market \<^verbatim>\<open>BASE/QUOTE\<close>, the orchestrator reads back the market it
  files evidence under and the asset it looks up exposed positions by, whatever characters the tenant's name
  has; the alert belongs to the tenant, is metered as a depeg alert and keeps the event key of the market.
\<close>

lemma depeg_alert_names_its_market:
  assumes "alert_from_detection sur (build_detection L en ev p snap sev tr now) = Inr a"
    and "dp_market_key p = b @ ''/'' @ q" and "CHR ''/'' \<notin> set b" and "CHR '':'' \<notin> set (b @ q)" and "b \<noteq> []"
    and "trim (dp_market_key p) = dp_market_key p"
  shows "extract_market_key (al_subject_key a) (al_protocol a) = Some (dp_market_key p)
    \<and> extract_asset_symbol (al_subject_key a) = Some b
    \<and> al_tenant_id a = Some (trim (dp_tenant_id p))
    \<and> alert_type a = ''depeg'' \<and> alert_chain_id a = None
    \<and> al_event_key a = Some (''depeg:'' @ dp_tenant_id p @ '':'' @ dp_market_key p)"
proof -
  have f: "al_subject_key a = Some (dp_tenant_id p @ '':'' @ dp_market_key p)"
    "al_tenant_id a = Some (trim (dp_tenant_id p))" "al_chain a = Offchain"
    "al_event_key a = Some (''depeg:'' @ dp_tenant_id p @ '':'' @ dp_market_key p)"
    using assms(1) by (auto simp: alert_from_detection_def build_detection_def bind_res_eq_Inr
        require_alert_tenant_id_def non_empty_def split: prod.splits option.splits if_splits)
  have "CHR '':'' \<notin> set (dp_market_key p)" using assms(2,4) by auto
  from last_split_on [OF this, of "dp_tenant_id p"]
  have l: "last (split_on (CHR '':'') (dp_tenant_id p @ '':'' @ dp_market_key p)) = dp_market_key p" by simp
  have h: "hd (split_on (CHR ''/'') (dp_market_key p)) = b" using hd_split_on [OF assms(3), of q] assms(2) by simp
  have m: "extract_market_key (al_subject_key a) (al_protocol a) = Some (dp_market_key p)"
    unfolding f extract_market_key_def using assms(2,6) l by simp
  have s: "extract_asset_symbol (al_subject_key a) = Some b"
    unfolding f extract_asset_symbol_def using l h assms(5) by (simp add: non_empty_def)
  have "alert_type a = ''depeg''" "alert_chain_id a = None"
    using f(3,4) by (simp_all add: alert_type_def alert_chain_id_def)
  with m s f(2,4) show ?thesis by blast
qed

end
