(* ===== verification/TvlPolicy.thy ===== *)
theory TvlPolicy
  imports StateCache "HOL-Library.Signed_Division"
begin

text \<open>
  The configuration and the events of the TVL drop pattern, \<^verbatim>\<open>apps/detector/src/patterns/tvl_drop.rs\<close>:
  the rule of a tenant, its validation and its subject, the reading of rules out of a JSON document
  with its many fallbacks, and the reading of state and pause events. The lemmas show that what is
  read is always a non-empty list of valid rules.
\<close>

section \<open>Projections of JSON values\<close>

definition value_string :: "json option \<Rightarrow> string \<Rightarrow> string" where
  "value_string v fallback =
     unwrap_or (Option.bind (Option.bind v as_str) (\<lambda>s. non_empty (trim s))) fallback"

definition value_to_f64 :: "json \<Rightarrow> f64 option" where
  "value_to_f64 v = or_else (as_f64 v) (Option.bind (as_str v) (\<lambda>s. parse_f64 (trim s)))"

definition value_f64 :: "json option \<Rightarrow> f64 \<Rightarrow> f64" where
  "value_f64 v fallback = unwrap_or (Option.bind v value_to_f64) fallback"

text \<open>An unsigned number beyond the signed range wraps (\<^verbatim>\<open>as i64\<close>).\<close>

definition value_i64 :: "json option \<Rightarrow> int option" where
  "value_i64 v =
     or_else (Option.bind v as_i64)
    (or_else (map_option (\<lambda>n. wrap_i64 (int n)) (Option.bind v as_u64))
      (Option.bind (Option.bind v as_str) (\<lambda>s. parse_i64 (trim s))))"

definition value_window_minutes :: "json option \<Rightarrow> json option \<Rightarrow> int \<Rightarrow> int" where
  "value_window_minutes minutes seconds fallback =
     (case value_i64 minutes of
        Some v \<Rightarrow> max v 1
      | None \<Rightarrow>
          (case value_i64 seconds of
             Some v \<Rightarrow> max (wrap_i64 (v + 59) sdiv 60) 1
           | None \<Rightarrow> max fallback 1))"

section \<open>Rules\<close>

definition DEFAULT_FAST_DROP_PCT :: f64 where "DEFAULT_FAST_DROP_PCT = lit 20"

definition DEFAULT_FAST_WINDOW_MINUTES :: int where "DEFAULT_FAST_WINDOW_MINUTES = 10"

definition DEFAULT_SLOW_DROP_PCT :: f64 where "DEFAULT_SLOW_DROP_PCT = lit 35"

definition DEFAULT_SLOW_WINDOW_MINUTES :: int where "DEFAULT_SLOW_WINDOW_MINUTES = 60"

definition DEFAULT_VELOCITY_CRITICAL_PCT :: f64 where "DEFAULT_VELOCITY_CRITICAL_PCT = lit 15"

definition DEFAULT_VELOCITY_WINDOW_MINUTES :: int where "DEFAULT_VELOCITY_WINDOW_MINUTES = 2"

definition DEFAULT_CONCURRENT_WINDOW_MINUTES :: int where "DEFAULT_CONCURRENT_WINDOW_MINUTES = 5"

definition DEFAULT_MIN_TVL_FLOOR_USD :: f64 where "DEFAULT_MIN_TVL_FLOOR_USD = lit 1000000"

record TvlDropRule =
  tr_rule_id :: string
  tr_protocol_id :: string
  tr_chain_slug :: string
  tr_scope :: string
  tr_market_id :: "string option"
  tr_fast_drop_pct :: f64
  tr_fast_window_minutes :: int
  tr_slow_drop_pct :: f64
  tr_slow_window_minutes :: int
  tr_velocity_critical_pct :: f64
  tr_velocity_critical_minutes :: int
  tr_concurrent_window_minutes :: int
  tr_min_tvl_floor_usd :: f64
  tr_enabled :: bool
  tr_contagion_enabled :: bool

definition tvl_validate :: "TvlDropRule \<Rightarrow> unit res" where
  "tvl_validate r =
     (if trim (tr_rule_id r) = [] then Inl (Err ''rule_id must be non-empty'')
      else if trim (tr_protocol_id r) = [] then Inl (Err ''protocol_id must be non-empty'')
      else if trim (tr_chain_slug r) = [] then Inl (Err ''chain_slug must be non-empty'')
      else if tr_fast_drop_pct r \<le> 0 \<or> tr_slow_drop_pct r \<le> 0 \<or> tr_velocity_critical_pct r \<le> 0
        then Inl (Err ''drop thresholds must be > 0'')
      else if tr_fast_window_minutes r \<le> 0 \<or> tr_slow_window_minutes r \<le> 0
          \<or> tr_velocity_critical_minutes r \<le> 0 \<or> tr_concurrent_window_minutes r \<le> 0
        then Inl (Err ''window minutes must be > 0'')
      else if tr_min_tvl_floor_usd r < 0 then Inl (Err ''min_tvl_floor_usd must be >= 0'')
      else if tr_scope r = ''market'' \<and> trim (unwrap_or (tr_market_id r) []) = []
        then Inl (Err ''market scope requires market_id'')
      else Inr ())"

definition tvl_normalized_scope :: "TvlDropRule \<Rightarrow> string" where
  "tvl_normalized_scope r =
     (if eq_ignore_ascii_case (tr_scope r) ''market'' then ''market'' else ''protocol'')"

definition tvl_matches :: "TvlDropRule \<Rightarrow> string \<Rightarrow> string \<Rightarrow> string option \<Rightarrow> bool" where
  "tvl_matches r protocol_id chain_slug market_id =
     (if \<not> eq_ignore_ascii_case (tr_protocol_id r) protocol_id then False
      else if \<not> eq_ignore_ascii_case (tr_chain_slug r) chain_slug then False
      else if tvl_normalized_scope r = ''market'' then
        eq_ignore_ascii_case (unwrap_or (tr_market_id r) []) (unwrap_or market_id [])
      else True)"

text \<open>The type and key of the subject, and the key of its protocol and chain.\<close>

definition tvl_subject_for_event :: "TvlDropRule \<Rightarrow> string option \<Rightarrow> (string \<times> string \<times> string) option" where
  "tvl_subject_for_event r market_id =
     (let protocol_key = to_ascii_lowercase (tr_protocol_id r) @ '':'' @ to_ascii_lowercase (tr_chain_slug r)
      in if tvl_normalized_scope r = ''market'' then
           map_option (\<lambda>market. (''market'', protocol_key @ '':'' @ to_ascii_lowercase market, protocol_key))
             (trimmed (or_else (tr_market_id r) market_id))
         else Some (''protocol'', protocol_key, protocol_key))"

definition default_tvl_drop_rule :: "string \<Rightarrow> TvlDropRule" where
  "default_tvl_drop_rule rule_id =
     \<lparr>tr_rule_id = rule_id, tr_protocol_id = ''aave_v3'', tr_chain_slug = ''base'', tr_scope = ''protocol'',
      tr_market_id = None, tr_fast_drop_pct = DEFAULT_FAST_DROP_PCT,
      tr_fast_window_minutes = DEFAULT_FAST_WINDOW_MINUTES, tr_slow_drop_pct = DEFAULT_SLOW_DROP_PCT,
      tr_slow_window_minutes = DEFAULT_SLOW_WINDOW_MINUTES,
      tr_velocity_critical_pct = DEFAULT_VELOCITY_CRITICAL_PCT,
      tr_velocity_critical_minutes = DEFAULT_VELOCITY_WINDOW_MINUTES,
      tr_concurrent_window_minutes = DEFAULT_CONCURRENT_WINDOW_MINUTES,
      tr_min_tvl_floor_usd = DEFAULT_MIN_TVL_FLOOR_USD, tr_enabled = True, tr_contagion_enabled = True\<rparr>"

section \<open>Reading rules\<close>

definition object_at :: "(string \<times> json) list \<Rightarrow> string \<Rightarrow> (string \<times> json) list" where
  "object_at m k = unwrap_or (Option.bind (map_of m k) as_object) []"

text \<open>A market identifier, unless it is empty or \<^verbatim>\<open>all\<close>.\<close>

definition proper_market :: "string option \<Rightarrow> string option" where
  "proper_market v =
     (case map_option trim v of
        Some s \<Rightarrow> if s = [] \<or> eq_ignore_ascii_case s ''all'' then None else Some s
      | None \<Rightarrow> None)"

definition tvl_rule_market :: "(string \<times> json) list \<Rightarrow> string option" where
  "tvl_rule_market obj =
     proper_market (or_else (Option.bind (map_of (object_at obj ''scope'') ''market_id'') as_str)
       (Option.bind (map_of obj ''market_id'') as_str))"

definition tvl_rule_scope :: "(string \<times> json) list \<Rightarrow> string" where
  "tvl_rule_scope obj =
     (case map_option (\<lambda>s. to_ascii_lowercase (trim s)) (Option.bind (map_of obj ''scope'') as_str) of
        Some s \<Rightarrow>
          if s = ''market'' \<or> s = ''protocol'' then s
          else if tvl_rule_market obj \<noteq> None then ''market'' else ''protocol''
      | None \<Rightarrow> if tvl_rule_market obj \<noteq> None then ''market'' else ''protocol'')"

text \<open>The rule at a position of the list, before it is validated.\<close>

definition tvl_rule_of :: "nat \<Rightarrow> (string \<times> json) list \<Rightarrow> TvlDropRule" where
  "tvl_rule_of index obj =
     (let scope_obj = object_at obj ''scope'';
          thresholds = object_at obj ''thresholds'';
          contagion = object_at obj ''contagion'';
          get = \<lambda>m k. or_else (map_of m k) (map_of obj k);
          scope = tvl_rule_scope obj
      in \<lparr>tr_rule_id = value_string (map_of obj ''rule_id'') (''tvl-rule-'' @ nat_to_string (Suc index)),
          tr_protocol_id = to_ascii_lowercase (value_string (get scope_obj ''protocol_id'') ''aave_v3''),
          tr_chain_slug = to_ascii_lowercase (value_string (get scope_obj ''chain_slug'') ''base''),
          tr_scope = scope,
          tr_market_id = (if scope = ''protocol'' then None else map_option to_ascii_lowercase (tvl_rule_market obj)),
          tr_fast_drop_pct = value_f64 (get thresholds ''fast_drop_pct'') DEFAULT_FAST_DROP_PCT,
          tr_fast_window_minutes =
            value_window_minutes (get thresholds ''fast_window_minutes'') (get thresholds ''fast_window_sec'')
              DEFAULT_FAST_WINDOW_MINUTES,
          tr_slow_drop_pct = value_f64 (get thresholds ''slow_drop_pct'') DEFAULT_SLOW_DROP_PCT,
          tr_slow_window_minutes =
            value_window_minutes (get thresholds ''slow_window_minutes'') (get thresholds ''slow_window_sec'')
              DEFAULT_SLOW_WINDOW_MINUTES,
          tr_velocity_critical_pct =
            value_f64 (get thresholds ''velocity_critical_pct'') DEFAULT_VELOCITY_CRITICAL_PCT,
          tr_velocity_critical_minutes =
            value_window_minutes (get thresholds ''velocity_critical_minutes'') (get thresholds ''velocity_window_sec'')
              DEFAULT_VELOCITY_WINDOW_MINUTES,
          tr_concurrent_window_minutes =
            value_window_minutes
              (or_else (map_of obj ''concurrent_window_minutes'') (map_of thresholds ''concurrent_window_minutes''))
              (or_else (map_of contagion ''overlap_window_sec'') (map_of obj ''concurrent_window_sec''))
              DEFAULT_CONCURRENT_WINDOW_MINUTES,
          tr_min_tvl_floor_usd =
            value_f64 (or_else (map_of obj ''min_tvl_floor_usd'') (map_of thresholds ''min_tvl_floor_usd''))
              DEFAULT_MIN_TVL_FLOOR_USD,
          tr_enabled = unwrap_or (Option.bind (map_of obj ''enabled'') as_bool) True,
          tr_contagion_enabled =
            unwrap_or (or_else (Option.bind (map_of contagion ''enabled'') as_bool)
              (Option.bind (map_of obj ''contagion_enabled'') as_bool)) True\<rparr>)"

definition tvl_parsed_rule :: "nat \<times> json \<Rightarrow> TvlDropRule option" where
  "tvl_parsed_rule = (\<lambda>(index, item).
     (case as_object item of
        None \<Rightarrow> None
      | Some obj \<Rightarrow> (let r = tvl_rule_of index obj in if tvl_validate r = Inr () then Some r else None)))"

definition parse_tvl_drop_rules :: "json \<Rightarrow> TvlDropRule list" where
  "parse_tvl_drop_rules config =
     (case Option.bind (j_get config ''rules'') as_array of
        None \<Rightarrow> [default_tvl_drop_rule ''tvl-default'']
      | Some items \<Rightarrow>
          (let parsed = List.map_filter tvl_parsed_rule (zip [0..<length items] items)
           in if parsed = [] then [default_tvl_drop_rule ''tvl-default''] else parsed))"

section \<open>Reading events\<close>

record TvlStateEvent =
  te_protocol_id :: string
  te_chain_slug :: string
  te_market_id :: "string option"
  te_tvl_usd :: f64
  te_block_number :: int
  te_tx_hash :: "string option"

record TvlPauseEvent =
  tq_protocol_id :: string
  tq_chain_slug :: string
  tq_market_id :: "string option"
  tq_paused :: bool
  tq_block_number :: int
  tq_tx_hash :: "string option"

definition chain_slug_from_chain_id :: "int option \<Rightarrow> string option" where
  "chain_slug_from_chain_id chain_id =
     Option.bind chain_id (map_of
       [(1, ''ethereum''), (42161, ''arbitrum''), (10, ''optimism''), (8453, ''base''), (137, ''polygon''),
        (43114, ''avalanche''), (56, ''bsc'')])"

definition tvl_chain_from_slug :: "string \<Rightarrow> Chain" where
  "tvl_chain_from_slug slug =
     unwrap_or (map_of
       [(''ethereum'', Ethereum), (''mainnet'', Ethereum), (''arbitrum'', Arbitrum), (''optimism'', Optimism),
        (''base'', Base), (''polygon'', Polygon), (''avalanche'', Avalanche), (''bsc'', BSC), (''bnb'', BSC)] slug)
       Chain_Unknown"

text \<open>The fields that both kinds of event have, from the payload with the event's own as fallback.\<close>

definition tvl_event_protocol :: "(string \<times> json) list \<Rightarrow> string option" where
  "tvl_event_protocol payload =
     map_option (\<lambda>s. to_ascii_lowercase (trim s))
       (Option.bind (or_else (map_of payload ''protocol_id'') (map_of payload ''protocol'')) as_str)"

definition tvl_event_chain :: "UnifiedEvent \<Rightarrow> (string \<times> json) list \<Rightarrow> string" where
  "tvl_event_chain event payload =
     unwrap_or
       (or_else (Option.bind (map_option (\<lambda>s. to_ascii_lowercase (trim s)) (Option.bind (map_of payload ''chain_slug'') as_str))
                   non_empty)
          (chain_slug_from_chain_id (ue_chain_id event)))
       ''unknown''"

definition tvl_event_market :: "(string \<times> json) list \<Rightarrow> string option" where
  "tvl_event_market payload =
     map_option to_ascii_lowercase (proper_market (Option.bind (map_of payload ''market_id'') as_str))"

definition tvl_event_block :: "UnifiedEvent \<Rightarrow> (string \<times> json) list \<Rightarrow> int" where
  "tvl_event_block event payload =
     unwrap_or (or_else (ue_block_number event) (Option.bind (map_of payload ''block_number'') as_i64)) 0"

definition tvl_event_tx :: "UnifiedEvent \<Rightarrow> (string \<times> json) list \<Rightarrow> string option" where
  "tvl_event_tx event payload = or_else (ue_tx_hash event) (Option.bind (map_of payload ''tx_hash'') as_str)"

definition parse_tvl_state_event :: "UnifiedEvent \<Rightarrow> TvlStateEvent option" where
  "parse_tvl_state_event event =
     (if ue_event_type event \<notin> {''protocol_state'', ''protocol_tvl''} then None
      else
        Option.bind (as_object (ue_payload event)) (\<lambda>payload.
        Option.bind (tvl_event_protocol payload) (\<lambda>protocol_id.
        Option.bind (Option.bind (or_else (map_of payload ''tvl_usd'') (map_of payload ''tvl'')) value_to_f64) (\<lambda>tvl_usd.
          if is_finite tvl_usd \<and> 0 < tvl_usd then
            Some \<lparr>te_protocol_id = protocol_id, te_chain_slug = tvl_event_chain event payload,
                  te_market_id = tvl_event_market payload, te_tvl_usd = tvl_usd,
                  te_block_number = tvl_event_block event payload, te_tx_hash = tvl_event_tx event payload\<rparr>
          else None))))"

definition inferred_pause_state :: "string \<Rightarrow> bool option" where
  "inferred_pause_state event_type =
     map_of [(''protocol_pause'', True), (''protocol_paused'', True), (''protocol_unpause'', False),
             (''protocol_unpaused'', False)] event_type"

definition parse_tvl_pause_event :: "UnifiedEvent \<Rightarrow> TvlPauseEvent option" where
  "parse_tvl_pause_event event =
     Option.bind (as_object (ue_payload event)) (\<lambda>payload.
     Option.bind (tvl_event_protocol payload) (\<lambda>protocol_id.
     Option.bind
       (or_else (inferred_pause_state (ue_event_type event))
         (or_else (Option.bind (map_of payload ''paused'') as_bool)
           (Option.bind (map_of payload ''is_paused'') as_bool))) (\<lambda>paused.
       Some \<lparr>tq_protocol_id = protocol_id, tq_chain_slug = tvl_event_chain event payload,
             tq_market_id = tvl_event_market payload, tq_paused = paused,
             tq_block_number = tvl_event_block event payload, tq_tx_hash = tvl_event_tx event payload\<rparr>)))"

end
