(* ===== verification/TvlEngine.thy ===== *)
theory TvlEngine
  imports TvlPolicy
begin

text \<open>
  The evaluation of one TVL sample against one rule, \<^verbatim>\<open>apps/detector/src/patterns/tvl_drop.rs\<close>: the
  window of recent samples, the fast, slow and one-minute drops, the gates, the severity and the
  transition of the rule's incident. Everything is a function of the rule's persisted state, the
  sample and the time.
\<close>

section \<open>Constants and state\<close>

definition FAST_CRITICAL_WINDOW_MINUTES :: f64 where "FAST_CRITICAL_WINDOW_MINUTES = lit 5"

definition CLIFF_WINDOW_MINUTES :: f64 where "CLIFF_WINDOW_MINUTES = lit (1 / 10)"

definition LINEAR_WINDOW_UPPER_BOUND_MINUTES :: f64 where "LINEAR_WINDOW_UPPER_BOUND_MINUTES = lit 8"

record TvlSamplePoint =
  tp_observed_at :: datetime
  tp_tvl_usd :: f64

record TvlRuleState =
  ts_samples :: "TvlSamplePoint list"
  ts_last_severity :: "string option"
  ts_last_drop_pct :: "f64 option"
  ts_active_since :: "datetime option"
  ts_last_breach_at :: "datetime option"
  ts_last_transition_at :: "datetime option"
  ts_last_context :: "string option"
  ts_last_pause_state :: "bool option"
  ts_protocol_chain_key :: "string option"
  ts_tenant_has_deposit :: "bool option"
  ts_position_data_stale :: "bool option"

definition TvlRuleState_default :: TvlRuleState where
  "TvlRuleState_default =
     \<lparr>ts_samples = [], ts_last_severity = None, ts_last_drop_pct = None, ts_active_since = None,
      ts_last_breach_at = None, ts_last_transition_at = None, ts_last_context = None,
      ts_last_pause_state = None, ts_protocol_chain_key = None, ts_tenant_has_deposit = None,
      ts_position_data_stale = None\<rparr>"

record TvlEvaluation =
  tv_fast_drop_pct :: f64
  tv_slow_drop_pct :: f64
  tv_velocity_drop_pct :: f64
  tv_selected_drop_pct :: f64
  tv_fast_window_reference_tvl_usd :: "f64 option"
  tv_time_to_reach_current_drop_minutes :: "f64 option"
  tv_drain_rate_usd_per_min :: "f64 option"
  tv_estimated_time_to_empty_minutes :: "f64 option"
  tv_velocity_pattern :: "string option"
  tv_base_severity :: "Severity option"
  tv_breached_branches :: "string list"
  tv_deposit_gate_skipped :: bool
  tv_position_data_stale :: bool

record WindowAnalysis =
  wa_reference_tvl_usd :: "f64 option"
  wa_current_tvl_usd :: "f64 option"
  wa_drop_pct :: f64
  wa_time_to_reach :: "f64 option"

definition WindowAnalysis_default :: WindowAnalysis where
  "WindowAnalysis_default =
     \<lparr>wa_reference_tvl_usd = None, wa_current_tvl_usd = None, wa_drop_pct = 0, wa_time_to_reach = None\<rparr>"

section \<open>Windows\<close>

text \<open>
  What is relied on outside the repository: \<open>tl_add_secs\<close> adds seconds to a time where the result is in
  chrono's range, \<open>tl_min_utc\<close> is the smallest time, \<open>tl_fmt2\<close> renders with two decimals, and the
  state of a rule is (de)serialised by derived code.
\<close>

record tvl_libs =
  tl_add_secs :: "datetime \<Rightarrow> int \<Rightarrow> datetime option"
  tl_min_utc :: datetime
  tl_rfc3339 :: "datetime \<Rightarrow> string"
  tl_fmt2 :: "f64 \<Rightarrow> string"
  tl_de_state :: "json \<Rightarrow> TvlRuleState option"
  tl_ser_state :: "TvlRuleState \<Rightarrow> json res"

text \<open>
  \<^verbatim>\<open>now - Duration::minutes(m.max(1))\<close>: a duration holds at most \<open>2 ^ 63 - 1\<close> milliseconds, and both
  operations panic beyond their range.
\<close>

definition minutes_before :: "'a tvl_libs_scheme \<Rightarrow> datetime \<Rightarrow> int \<Rightarrow> datetime res" where
  "minutes_before L now m =
     (let secs = 60 * max m 1 in
      if (2 ^ 63 - 1) div 1000 < secs then Inl (Panic ''TimeDelta::minutes out of bounds'')
      else (case tl_add_secs L now (- secs) of
              None \<Rightarrow> Inl (Panic ''DateTime - Duration overflowed'')
            | Some t \<Rightarrow> Inr t))"

definition points_since :: "datetime \<Rightarrow> TvlSamplePoint list \<Rightarrow> TvlSamplePoint list" where
  "points_since cutoff samples = filter (\<lambda>p. cutoff \<le> tp_observed_at p) samples"

text \<open>The fall from one value to another, in percent of the first.\<close>

definition drop_pct_of :: "f64 \<Rightarrow> f64 \<Rightarrow> f64" where
  "drop_pct_of reference current =
     f64_max (f64_max (reference - current) 0 / reference * lit 100) 0"

definition analyze_points :: "TvlSamplePoint list \<Rightarrow> WindowAnalysis" where
  "analyze_points points =
     (case points of
        [] \<Rightarrow> WindowAnalysis_default
      | first # _ \<Rightarrow>
          (let lst = last points in
           if \<not> is_finite (tp_tvl_usd first) \<or> tp_tvl_usd first \<le> 0 then WindowAnalysis_default
           else
             \<lparr>wa_reference_tvl_usd = Some (tp_tvl_usd first), wa_current_tvl_usd = Some (tp_tvl_usd lst),
              wa_drop_pct = drop_pct_of (tp_tvl_usd first) (tp_tvl_usd lst),
              wa_time_to_reach =
                map_option (\<lambda>p. of_int_f64 (num_seconds (tp_observed_at p - tp_observed_at first)) / lit 60)
                  (List.find (\<lambda>p. tp_tvl_usd p \<le> tp_tvl_usd lst) points)\<rparr>))"

definition analyze_window ::
  "'a tvl_libs_scheme \<Rightarrow> TvlSamplePoint list \<Rightarrow> datetime \<Rightarrow> int \<Rightarrow> WindowAnalysis res" where
  "analyze_window L samples now window_minutes =
     (if samples = [] then Inr WindowAnalysis_default
      else bind_res (minutes_before L now window_minutes) (\<lambda>cutoff.
             Inr (analyze_points (points_since cutoff samples))))"

definition one_minute_drop :: "TvlSamplePoint \<times> TvlSamplePoint \<Rightarrow> f64 \<Rightarrow> f64" where
  "one_minute_drop = (\<lambda>(previous, current) max_drop.
     (let elapsed_seconds = num_seconds (tp_observed_at current - tp_observed_at previous) in
      if elapsed_seconds \<le> 0 \<or> 60 < elapsed_seconds \<or> tp_tvl_usd previous \<le> 0 then max_drop
      else (let d = drop_pct_of (tp_tvl_usd previous) (tp_tvl_usd current)
            in if max_drop < d then d else max_drop)))"

definition max_one_minute_drop_pct ::
  "'a tvl_libs_scheme \<Rightarrow> TvlSamplePoint list \<Rightarrow> datetime \<Rightarrow> int \<Rightarrow> f64 res" where
  "max_one_minute_drop_pct L samples now window_minutes =
     bind_res (minutes_before L now window_minutes) (\<lambda>cutoff.
       (let points = points_since cutoff samples
        in Inr (fold one_minute_drop (zip points (tl points)) 0)))"

definition classify_velocity_pattern :: "f64 \<Rightarrow> f64 \<Rightarrow> f64 option \<Rightarrow> string option" where
  "classify_velocity_pattern fast_drop_pct max_one_minute_drop time_to_reach =
     (if fast_drop_pct \<le> 0 then None
      else
        map_option (\<lambda>minutes.
          if minutes < CLIFF_WINDOW_MINUTES then ''CLIFF''
          else if fast_drop_pct / lit 2 < max_one_minute_drop then ''ACCELERATING''
          else if minutes \<le> LINEAR_WINDOW_UPPER_BOUND_MINUTES then ''LINEAR''
          else ''DECELERATING'') time_to_reach)"

section \<open>One sample\<close>

definition tvl_observed_le :: "TvlSamplePoint \<Rightarrow> TvlSamplePoint \<Rightarrow> bool" where
  "tvl_observed_le a b \<longleftrightarrow> tp_observed_at a \<le> tp_observed_at b"

definition max_window :: "TvlDropRule \<Rightarrow> int" where
  "max_window r =
     max (max (tr_fast_window_minutes r) (tr_slow_window_minutes r))
       (max (tr_velocity_critical_minutes r) (tr_concurrent_window_minutes r))"

text \<open>The samples after a new one: sorted by time, the expired ones dropped.\<close>

definition push_sample ::
  "'a tvl_libs_scheme \<Rightarrow> TvlDropRule \<Rightarrow> datetime \<Rightarrow> f64 \<Rightarrow> TvlSamplePoint list \<Rightarrow> TvlSamplePoint list res" where
  "push_sample L r now tvl_usd samples =
     bind_res (minutes_before L now (max_window r)) (\<lambda>cutoff.
       Inr (points_since cutoff
         (sort_by tvl_observed_le (samples @ [\<lparr>tp_observed_at = now, tp_tvl_usd = tvl_usd\<rparr>]))))"

definition drain_rate :: "WindowAnalysis \<Rightarrow> f64 option" where
  "drain_rate w =
     (case (wa_reference_tvl_usd w, wa_current_tvl_usd w, wa_time_to_reach w) of
        (Some reference, Some current, Some minutes) \<Rightarrow>
          if current < reference \<and> is_finite minutes \<and> 0 < minutes then Some ((reference - current) / minutes)
          else None
      | _ \<Rightarrow> None)"

definition time_to_empty :: "WindowAnalysis \<Rightarrow> f64 option \<Rightarrow> f64 option" where
  "time_to_empty w rate =
     (case (wa_current_tvl_usd w, rate) of
        (Some current, Some r) \<Rightarrow> if 0 < current \<and> 0 < r then Some (current / r) else None
      | _ \<Rightarrow> None)"

text \<open>Gate 1: no deposit according to data that is not stale.\<close>

definition has_deposit :: "TvlRuleState \<Rightarrow> bool" where
  "has_deposit st =
     (case (ts_tenant_has_deposit st, ts_position_data_stale st) of
        (Some False, Some True) \<Rightarrow> True
      | (Some False, _) \<Rightarrow> False
      | _ \<Rightarrow> True)"

definition below :: "f64 option \<Rightarrow> f64 \<Rightarrow> bool" where
  "below minutes bound = (case minutes of None \<Rightarrow> False | Some m \<Rightarrow> m < bound)"

text \<open>The severity of the drop and the branch of the rule that it breaches, past the gates.\<close>

definition breached_branch :: "TvlDropRule \<Rightarrow> f64 \<Rightarrow> f64 \<Rightarrow> f64 option \<Rightarrow> (Severity \<times> string) option" where
  "breached_branch r fast_drop slow_drop time_to_reach =
     (if tr_velocity_critical_pct r \<le> fast_drop
          \<and> below time_to_reach (of_int_f64 (tr_velocity_critical_minutes r))
      then Some (Critical, ''velocity'')
      else if tr_fast_drop_pct r \<le> fast_drop then
        Some (if below time_to_reach FAST_CRITICAL_WINDOW_MINUTES then Critical else High, ''fast'')
      else if tr_slow_drop_pct r \<le> slow_drop then Some (High, ''slow'')
      else None)"

definition process_state_sample ::
  "'a tvl_libs_scheme \<Rightarrow> TvlDropRule \<Rightarrow> TvlRuleState \<Rightarrow> f64 \<Rightarrow> datetime \<Rightarrow> (TvlRuleState \<times> TvlEvaluation) res" where
  "process_state_sample L r st tvl_usd now =
     bind_res (push_sample L r now tvl_usd (ts_samples st)) (\<lambda>samples.
     bind_res (analyze_window L samples now (tr_fast_window_minutes r)) (\<lambda>fast_window.
     bind_res (analyze_window L samples now (tr_slow_window_minutes r)) (\<lambda>slow_window.
     bind_res (max_one_minute_drop_pct L samples now (tr_fast_window_minutes r)) (\<lambda>velocity_drop.
       (let fast_drop = wa_drop_pct fast_window;
            slow_drop = wa_drop_pct slow_window;
            time_to_reach = wa_time_to_reach fast_window;
            rate = drain_rate fast_window;
            breach =
              (if has_deposit st \<and> tr_min_tvl_floor_usd r \<le> unwrap_or (wa_reference_tvl_usd fast_window) tvl_usd
               then breached_branch r fast_drop slow_drop time_to_reach else None)
        in Inr (st\<lparr>ts_samples := samples\<rparr>,
             \<lparr>tv_fast_drop_pct = fast_drop, tv_slow_drop_pct = slow_drop, tv_velocity_drop_pct = velocity_drop,
              tv_selected_drop_pct = f64_max fast_drop slow_drop,
              tv_fast_window_reference_tvl_usd = wa_reference_tvl_usd fast_window,
              tv_time_to_reach_current_drop_minutes = time_to_reach, tv_drain_rate_usd_per_min = rate,
              tv_estimated_time_to_empty_minutes = time_to_empty fast_window rate,
              tv_velocity_pattern = classify_velocity_pattern fast_drop velocity_drop time_to_reach,
              tv_base_severity = map_option fst breach,
              tv_breached_branches = (case breach of None \<Rightarrow> [] | Some b \<Rightarrow> [snd b]),
              tv_deposit_gate_skipped = (\<not> has_deposit st),
              tv_position_data_stale = unwrap_or (ts_position_data_stale st) False\<rparr>))))))"

section \<open>Severity and transition\<close>

definition tvl_severity_from_str :: "string option \<Rightarrow> Severity option" where
  "tvl_severity_from_str v =
     (case v of
        None \<Rightarrow> None
      | Some s \<Rightarrow>
          if eq_ignore_ascii_case s ''critical'' then Some Critical
          else if eq_ignore_ascii_case s ''high'' then Some High
          else if eq_ignore_ascii_case s ''medium'' then Some Medium
          else if eq_ignore_ascii_case s ''low'' then Some Low
          else if eq_ignore_ascii_case s ''info'' then Some Info
          else None)"

fun tvl_severity_rank :: "Severity option \<Rightarrow> nat" where
  "tvl_severity_rank (Some Critical) = 5"
| "tvl_severity_rank (Some High) = 4"
| "tvl_severity_rank (Some Medium) = 3"
| "tvl_severity_rank (Some Low) = 2"
| "tvl_severity_rank (Some Info) = 1"
| "tvl_severity_rank None = 0"

definition clamp_severity :: "Severity \<Rightarrow> Severity option \<Rightarrow> Severity" where
  "clamp_severity current previous =
     (case previous of
        Some prev \<Rightarrow> if tvl_severity_rank (Some current) < tvl_severity_rank (Some prev) then prev else current
      | None \<Rightarrow> current)"

fun tvl_incident_transition_str :: "IncidentTransition \<Rightarrow> string" where
  "tvl_incident_transition_str Trigger = ''trigger''"
| "tvl_incident_transition_str Escalate = ''escalate''"
| "tvl_incident_transition_str Deescalate = ''deescalate''"
| "tvl_incident_transition_str Resolve = ''resolve''"
| "tvl_incident_transition_str Retract = ''retract''"
| "tvl_incident_transition_str Update = ''update''"

fun tvl_context_classification_str :: "ContextClassification \<Rightarrow> string" where
  "tvl_context_classification_str Isolated = ''isolated''"
| "tvl_context_classification_str Systemic = ''systemic''"
| "tvl_context_classification_str Ctx_None = ''none''"

definition assess_severity ::
  "TvlEvaluation \<Rightarrow> bool \<Rightarrow> Severity option \<Rightarrow> Severity \<times> ContextClassification" where
  "assess_severity ev systemic previous =
     (case tv_base_severity ev of
        None \<Rightarrow> (Info, Ctx_None)
      | Some base \<Rightarrow>
          (let (unclamped, classification) = (if systemic then (Critical, Systemic) else (base, Isolated))
           in (clamp_severity unclamped previous, classification)))"

definition sample_transition ::
  "TvlRuleState \<Rightarrow> TvlEvaluation \<Rightarrow> Severity \<Rightarrow> ContextClassification \<Rightarrow> IncidentTransition option" where
  "sample_transition before ev severity classification =
     (let previous = tvl_severity_from_str (ts_last_severity before) in
      if tv_base_severity ev = None then None
      else if previous = None then Some Trigger
      else if tvl_severity_rank previous < tvl_severity_rank (Some severity) then Some Escalate
      else if unwrap_or (ts_last_drop_pct before) 0 + lit 1 \<le> tv_selected_drop_pct ev
            \<or> unwrap_or (ts_last_context before) ''isolated'' \<noteq> tvl_context_classification_str classification
      then Some Update else None)"

definition note_sample ::
  "TvlRuleState \<Rightarrow> TvlEvaluation \<Rightarrow> Severity \<Rightarrow> ContextClassification \<Rightarrow> IncidentTransition option
     \<Rightarrow> datetime \<Rightarrow> TvlRuleState" where
  "note_sample st ev severity classification transition now =
     (if tv_base_severity ev \<noteq> None then
        st\<lparr>ts_active_since := or_else (ts_active_since st) (Some now),
           ts_last_breach_at := Some now,
           ts_last_severity := Some (severity_name severity),
           ts_last_drop_pct := Some (tv_selected_drop_pct ev),
           ts_last_context := Some (tvl_context_classification_str classification),
           ts_last_transition_at := (if transition \<noteq> None then Some now else ts_last_transition_at st)\<rparr>
      else st\<lparr>ts_last_drop_pct := Some (tv_selected_drop_pct ev)\<rparr>)"

record tvl_outcome =
  to_state :: TvlRuleState
  to_evaluation :: TvlEvaluation
  to_severity :: Severity
  to_classification :: ContextClassification
  to_transition :: "IncidentTransition option"

text \<open>
  The whole step of a rule on a sample. \<open>concurrent\<close> says whether another protocol of the tenant has an
  active drop; it is only asked for a breach, where the rule looks at contagion.
\<close>

definition tvl_rule_step ::
  "'a tvl_libs_scheme \<Rightarrow> TvlDropRule \<Rightarrow> TvlRuleState \<Rightarrow> f64 \<Rightarrow> bool res \<Rightarrow> datetime \<Rightarrow> tvl_outcome res" where
  "tvl_rule_step L r st tvl_usd concurrent now =
     bind_res (process_state_sample L r st tvl_usd now) (\<lambda>(st1, ev).
     bind_res (if tv_base_severity ev \<noteq> None \<and> tr_contagion_enabled r then concurrent else Inr False) (\<lambda>systemic.
       (let (severity, classification) =
              assess_severity ev systemic (tvl_severity_from_str (ts_last_severity st));
            transition = sample_transition st ev severity classification
        in Inr \<lparr>to_state = note_sample st1 ev severity classification transition now, to_evaluation = ev,
                to_severity = severity, to_classification = classification, to_transition = transition\<rparr>)))"

end
