(* ===== verification/TvlPattern.thy ===== *)
theory TvlPattern
  imports TvlEngine
begin

text \<open>
  The stateful part of \<^verbatim>\<open>apps/detector/src/patterns/tvl_drop.rs\<close>: the pattern with its rules per
  tenant, its cache of rule states and the source bindings; the contagion checks; the detections; and
  \<^verbatim>\<open>process_event\<close> for TVL samples and for pause signals. Only one detection leaves an event, so the two
  random identifiers of the environment are those of that detection.
\<close>

section \<open>The pattern\<close>

definition TVL_PATTERN_ID :: string where
  "TVL_PATTERN_ID = ''tvl_drop''"

definition TVL_DROP_STATE_CACHE_TTL_HOURS :: int where
  "TVL_DROP_STATE_CACHE_TTL_HOURS = 24"

definition TVL_DROP_STATE_CACHE_MAX_ENTRIES :: nat where
  "TVL_DROP_STATE_CACHE_MAX_ENTRIES = 4096"

record TvlDropPattern =
  td_configs :: "string \<Rightarrow> TvlDropRule list option"
  td_state_cache :: "(string \<times> TvlRuleState) list"
  td_source_bindings :: "string \<Rightarrow> string set option"

definition TvlDropPattern_default :: TvlDropPattern where
  "TvlDropPattern_default =
     \<lparr>td_configs = Map.empty, td_state_cache = [], td_source_bindings = Map.empty\<rparr>"

definition tvl_load_state_key :: "string \<Rightarrow> string \<Rightarrow> string" where
  "tvl_load_state_key rule_id subject_key = rule_id @ '':'' @ subject_key"

definition tvl_cache_key :: "string \<Rightarrow> string \<Rightarrow> string" where
  "tvl_cache_key tenant_id load_state_key = tenant_id @ '':'' @ load_state_key"

definition tvl_reload_entry :: "(string \<times> string) \<times> json \<Rightarrow> TvlDropPattern \<Rightarrow> TvlDropPattern" where
  "tvl_reload_entry = (\<lambda>((tenant_id, pattern_id), config) acc.
     (if pattern_id \<noteq> TVL_PATTERN_ID then acc
      else acc\<lparr>td_configs := (td_configs acc)(tenant_id \<mapsto> parse_tvl_drop_rules (extract_detection_config config)),
               td_source_bindings :=
                 (case extract_bound_source_ids config of
                    None \<Rightarrow> td_source_bindings acc
                  | Some bound \<Rightarrow> (td_source_bindings acc)(tenant_id \<mapsto> bound))\<rparr>))"

definition tvl_reload_config :: "((string \<times> string) \<times> json) list \<Rightarrow> TvlDropPattern \<Rightarrow> TvlDropPattern" where
  "tvl_reload_config config_map pt =
     (let new = fold tvl_reload_entry config_map TvlDropPattern_default
      in pt\<lparr>td_configs := td_configs new, td_source_bindings := td_source_bindings new\<rparr>)"

definition tvl_state_last_activity :: "TvlRuleState \<Rightarrow> datetime option" where
  "tvl_state_last_activity st =
     max_opt (List.map_filter (\<lambda>t. t)
       [if ts_samples st = [] then None else Some (tp_observed_at (last (ts_samples st))),
        ts_last_transition_at st, ts_last_breach_at st, ts_active_since st])"

definition tvl_prune_state_cache ::
  "'a tvl_libs_scheme \<Rightarrow> datetime \<Rightarrow> string \<Rightarrow> (string \<times> TvlRuleState) list \<Rightarrow> (string \<times> TvlRuleState) list res" where
  "tvl_prune_state_cache L now current_cache_key cache =
     prune_cache tvl_state_last_activity (tl_min_utc L) TVL_DROP_STATE_CACHE_MAX_ENTRIES
       (tl_add_secs L now (- (TVL_DROP_STATE_CACHE_TTL_HOURS * 3600))) current_cache_key cache"

section \<open>Contagion\<close>

definition find_at_risk_markets ::
  "TvlDropPattern \<Rightarrow> string \<Rightarrow> string \<Rightarrow> string \<Rightarrow> string option \<Rightarrow> string list" where
  "find_at_risk_markets pt tenant_id protocol_id chain_slug current_market_id =
     (case td_configs pt tenant_id of
        None \<Rightarrow> []
      | Some rules \<Rightarrow>
          List.map_filter (\<lambda>r.
              Option.bind (tr_market_id r) (\<lambda>market.
                if (case current_market_id of None \<Rightarrow> True | Some current \<Rightarrow> \<not> eq_ignore_ascii_case market current)
                then Some (to_ascii_lowercase (tr_protocol_id r) @ '':'' @ to_ascii_lowercase (tr_chain_slug r)
                           @ '':'' @ to_ascii_lowercase market)
                else None))
            (filter (\<lambda>r. tr_enabled r \<and> eq_ignore_ascii_case (tr_protocol_id r) protocol_id
                       \<and> eq_ignore_ascii_case (tr_chain_slug r) chain_slug
                       \<and> tvl_normalized_scope r = ''market'') rules))"

text \<open>The protocol and chain of a cached state of the tenant that has an active, recent drop.\<close>

definition active_drop ::
  "string \<Rightarrow> string \<Rightarrow> datetime \<Rightarrow> string \<times> TvlRuleState \<Rightarrow> string option" where
  "active_drop tenant_id current_cache_key cutoff = (\<lambda>(key, st).
     (if key = current_cache_key \<or> \<not> prefix (tenant_id @ '':'') key \<or> ts_last_severity st = None then None
      else
        (case ts_last_breach_at st of
           None \<Rightarrow> None
         | Some t \<Rightarrow> if t < cutoff then None else ts_protocol_chain_key st)))"

definition has_concurrent_active_drop ::
  "'a tvl_libs_scheme \<Rightarrow> (string \<times> TvlRuleState) list \<Rightarrow> string \<Rightarrow> string \<Rightarrow> string \<Rightarrow> datetime \<Rightarrow> int \<Rightarrow> bool res" where
  "has_concurrent_active_drop L cache tenant_id current_cache_key current_protocol_chain_key now window_minutes =
     bind_res (minutes_before L now window_minutes) (\<lambda>cutoff.
       Inr (2 \<le> card (insert current_protocol_chain_key
                  (set (List.map_filter (active_drop tenant_id current_cache_key cutoff) cache)))))"

section \<open>The detections\<close>

fun tvl_recommended_actions :: "Severity \<Rightarrow> string list" where
  "tvl_recommended_actions Critical =
     [''Activate incident playbook and halt high-risk protocol interactions.'',
      ''Escalate to on-call and communicate exposure impact immediately.'',
      ''Verify protocol pause controls and liquidity withdrawal options.'']"
| "tvl_recommended_actions High =
     [''Increase monitoring cadence and review wallet/protocol exposure.'',
      ''Prepare partial de-risk actions for affected markets.'']"
| "tvl_recommended_actions _ = [''Monitor trend and keep incident timeline updated.'']"

fun tvl_risk_points :: "Severity \<Rightarrow> f64" where
  "tvl_risk_points Critical = lit 95"
| "tvl_risk_points High = lit 80"
| "tvl_risk_points Medium = lit 60"
| "tvl_risk_points Low = lit 30"
| "tvl_risk_points Info = lit 10"

definition breached_threshold_branch :: "TvlEvaluation \<Rightarrow> string" where
  "breached_threshold_branch ev = (case tv_breached_branches ev of [] \<Rightarrow> ''fast'' | b # _ \<Rightarrow> b)"

definition tvl_oracle_context ::
  "TvlDropRule \<Rightarrow> TvlStateEvent \<Rightarrow> TvlEvaluation \<Rightarrow> IncidentTransition \<Rightarrow> ContextClassification \<Rightarrow> (string \<times> json) list" where
  "tvl_oracle_context r sample ev transition classification =
     (let branch = breached_threshold_branch ev;
          reference = j_opt j_f64 (tv_fast_window_reference_tvl_usd ev);
          pattern = j_opt JString (tv_velocity_pattern ev)
      in [(''protocol_id'', JString (te_protocol_id sample)),
          (''chain_slug'', JString (te_chain_slug sample)),
          (''market_id'', j_opt JString (te_market_id sample)),
          (''tvl_usd'', j_f64 (te_tvl_usd sample)),
          (''current_tvl_usd'', j_f64 (te_tvl_usd sample)),
          (''fast_window_reference_tvl_usd'', reference),
          (''window_start_tvl_usd'', reference),
          (''drop_pct'', j_f64 (tv_selected_drop_pct ev)),
          (''time_to_reach_current_drop_minutes'', j_opt j_f64 (tv_time_to_reach_current_drop_minutes ev)),
          (''drain_rate_usd_per_min'', j_opt j_f64 (tv_drain_rate_usd_per_min ev)),
          (''estimated_time_to_empty_minutes'', j_opt j_f64 (tv_estimated_time_to_empty_minutes ev)),
          (''velocity_pattern'', pattern),
          (''velocity_classification'', pattern),
          (''breached_branches'', JArray (map JString (tv_breached_branches ev))),
          (''breached_threshold_branch'', JString branch),
          (''breached_threshold_pct'',
             j_f64 (if branch = ''velocity'' then tr_velocity_critical_pct r
                    else if branch = ''slow'' then tr_slow_drop_pct r else tr_fast_drop_pct r)),
          (''transition'', JString (tvl_incident_transition_str transition)),
          (''contagion_status'', JString (if classification = Systemic then ''CONCURRENT_DROPS'' else ''NONE''))]
         @ (if tv_position_data_stale ev then [(''position_data_stale'', JBool True)] else []))"

definition tvl_tx_hash :: "environment \<Rightarrow> UnifiedEvent \<Rightarrow> string option \<Rightarrow> string \<Rightarrow> string" where
  "tvl_tx_hash en event own label =
     unwrap_or (or_else own (ue_tx_hash event)) (label @ en_tx_uuid en)"

definition tvl_block_number :: "UnifiedEvent \<Rightarrow> int \<Rightarrow> int" where
  "tvl_block_number event own = (if 0 < own then own else unwrap_or (ue_block_number event) 0)"

definition build_tvl_detection ::
  "'a tvl_libs_scheme \<Rightarrow> environment \<Rightarrow> UnifiedEvent \<Rightarrow> TvlDropRule \<Rightarrow> string \<Rightarrow> string \<Rightarrow> tvl_outcome
     \<Rightarrow> IncidentTransition \<Rightarrow> TvlStateEvent \<Rightarrow> datetime \<Rightarrow> DetectionResult" where
  "build_tvl_detection L en event r subject_type subject_key out transition sample now =
     (let (is_simulated, run_id) = simulation_metadata_from_event event;
          ev = to_evaluation out;
          fast = tl_fmt2 L (tv_fast_drop_pct ev);
          slow = tl_fmt2 L (tv_slow_drop_pct ev);
          velocity = tl_fmt2 L (tv_velocity_drop_pct ev)
      in \<lparr>dr_detection_id = en_detection_uuid en, dr_pattern_id = TVL_PATTERN_ID,
          dr_event_key = Some (''tvl_drop:'' @ ue_tenant_id event @ '':'' @ tr_rule_id r @ '':'' @ subject_key),
          dr_subject_type = Some subject_type, dr_subject_key = Some subject_key,
          dr_tenant_id = Some (ue_tenant_id event), dr_chain = tvl_chain_from_slug (te_chain_slug sample),
          dr_chain_slug = te_chain_slug sample, dr_protocol = te_protocol_id sample,
          dr_lifecycle_state = Confirmed, dr_requires_confirmation = False,
          dr_attack_family = AF_LiquidationCascade, dr_severity = to_severity out,
          dr_description = Some (''TVL drop rule '' @ [CHR 0x27] @ tr_rule_id r @ [CHR 0x27]
            @ '' triggered (fast='' @ fast @ ''%, slow='' @ slow @ ''%, velocity='' @ velocity
            @ ''%, current_tvl=$'' @ tl_fmt2 L (te_tvl_usd sample) @ '').''),
          dr_triggered_rule_ids = [''tvl_drop.'' @ tr_rule_id r],
          dr_tx_hash = tvl_tx_hash en event (te_tx_hash sample) ''tvl-drop-'',
          dr_block_number = tvl_block_number event (te_block_number sample),
          dr_signals =
            [\<lparr>sg_signal_type = (if ''velocity'' \<in> set (tv_breached_branches ev) then ST_TvlVelocityDrop
                                else ST_TvlDropDetected),
              sg_value = tv_selected_drop_pct ev,
              sg_label = Some (tl_fmt2 L (tv_selected_drop_pct ev) @ ''% drop''),
              sg_source_id = Some (ue_source_id event)\<rparr>],
          dr_risk_score =
            \<lparr>rs_score = tvl_risk_points (to_severity out), rs_confidence = lit (78 / 100),
             rs_rationale =
               [''fast='' @ fast @ '', slow='' @ slow @ '', velocity='' @ velocity,
                ''classification='' @ tvl_context_classification_str (to_classification out)],
             rs_attribution = []\<rparr>,
          dr_incident_transition = Some transition, dr_context_classification = Some (to_classification out),
          dr_confidence_breakdown =
            [(''fast_drop_pct'', tv_fast_drop_pct ev), (''slow_drop_pct'', tv_slow_drop_pct ev),
             (''velocity_drop_pct'', tv_velocity_drop_pct ev)],
          dr_oracle_context = tvl_oracle_context r sample ev transition (to_classification out),
          dr_actions_recommended = tvl_recommended_actions (to_severity out),
          dr_is_simulated = is_simulated, dr_simulation_run_id = run_id,
          dr_detected_at = now, dr_created_at = now\<rparr>)"

text \<open>The UTF-8 bytes of the dash in the description of a pause.\<close>

definition em_dash :: string where
  "em_dash = [CHR 0xE2, CHR 0x80, CHR 0x94]"

definition pause_label :: "bool \<Rightarrow> string" where
  "pause_label paused = (if paused then ''paused'' else ''unpaused'')"

definition tvl_build_pause_detection ::
  "environment \<Rightarrow> UnifiedEvent \<Rightarrow> TvlDropRule \<Rightarrow> string \<Rightarrow> string \<Rightarrow> Severity \<Rightarrow> IncidentTransition
     \<Rightarrow> ContextClassification \<Rightarrow> TvlPauseEvent \<Rightarrow> datetime \<Rightarrow> DetectionResult" where
  "tvl_build_pause_detection en event r subject_type subject_key severity transition classification pause now =
     (let (is_simulated, run_id) = simulation_metadata_from_event event;
          label = pause_label (tq_paused pause)
      in \<lparr>dr_detection_id = en_detection_uuid en, dr_pattern_id = TVL_PATTERN_ID,
          dr_event_key = Some (''tvl_drop:'' @ ue_tenant_id event @ '':'' @ tr_rule_id r @ '':'' @ subject_key @ '':pause''),
          dr_subject_type = Some subject_type, dr_subject_key = Some subject_key,
          dr_tenant_id = Some (ue_tenant_id event), dr_chain = tvl_chain_from_slug (tq_chain_slug pause),
          dr_chain_slug = tq_chain_slug pause, dr_protocol = tq_protocol_id pause,
          dr_lifecycle_state = Confirmed, dr_requires_confirmation = False,
          dr_attack_family = AF_LiquidationCascade, dr_severity = severity,
          dr_description = Some (
            if transition = Trigger
            then ''Protocol '' @ tq_protocol_id pause @ '' has been '' @ label @ '' '' @ em_dash
                   @ '' PROTOCOL_PAUSED alert initiated.''
            else ''Protocol '' @ tq_protocol_id pause @ '' is '' @ label
                   @ '' while a TVL-drop incident remains active.''),
          dr_triggered_rule_ids = [''tvl_drop.'' @ tr_rule_id r],
          dr_tx_hash = tvl_tx_hash en event (tq_tx_hash pause) ''tvl-drop-pause-'',
          dr_block_number = tvl_block_number event (tq_block_number pause),
          dr_signals =
            [\<lparr>sg_signal_type = ST_ProtocolPauseState, sg_value = (if tq_paused pause then lit 1 else lit 0),
              sg_label = Some (''protocol_'' @ label), sg_source_id = Some (ue_source_id event)\<rparr>],
          dr_risk_score =
            \<lparr>rs_score = lit 70, rs_confidence = lit (7 / 10),
             rs_rationale = [''protocol marked '' @ label @ '' during active incident''], rs_attribution = []\<rparr>,
          dr_incident_transition = Some transition, dr_context_classification = Some classification,
          dr_confidence_breakdown = [],
          dr_oracle_context =
            [(''protocol_id'', JString (tq_protocol_id pause)), (''chain_slug'', JString (tq_chain_slug pause)),
             (''market_id'', j_opt JString (tq_market_id pause)), (''pause_state'', JString label)],
          dr_actions_recommended =
            (if transition = Trigger
             then [''Monitor protocol for unpause event.'', ''Review protocol status with protocol operators.'']
             else [''Confirm protocol control-plane status with protocol operators.'',
                   ''Keep incident open until manual resolution criteria are met.'']),
          dr_is_simulated = is_simulated, dr_simulation_run_id = run_id,
          dr_detected_at = now, dr_created_at = now\<rparr>)"

section \<open>Processing an event\<close>

definition tvl_pick_higher_severity :: "DetectionResult option \<Rightarrow> DetectionResult \<Rightarrow> DetectionResult option" where
  "tvl_pick_higher_severity current candidate =
     (case current of
        None \<Rightarrow> Some candidate
      | Some existing \<Rightarrow>
          if tvl_severity_rank (Some (dr_severity existing)) < tvl_severity_rank (Some (dr_severity candidate))
          then Some candidate else Some existing)"

definition tvl_load_state ::
  "'a tvl_libs_scheme \<Rightarrow> environment \<Rightarrow> string \<Rightarrow> string \<Rightarrow> world \<Rightarrow> TvlRuleState res" where
  "tvl_load_state L en tenant key w =
     bind_res (load_pattern_state en tenant TVL_PATTERN_ID key w) (\<lambda>v.
       Inr (unwrap_or (Option.bind v (tl_de_state L)) TvlRuleState_default))"

text \<open>The deposit gate is fed from the metadata of the event.\<close>

definition with_event_metadata :: "UnifiedEvent \<Rightarrow> string \<Rightarrow> TvlRuleState \<Rightarrow> TvlRuleState" where
  "with_event_metadata event protocol_chain_key st =
     st\<lparr>ts_protocol_chain_key := Some protocol_chain_key,
        ts_tenant_has_deposit := or_else (get_bool (ue_payload event) ''tenant_has_deposit'') (ts_tenant_has_deposit st),
        ts_position_data_stale := or_else (get_bool (ue_payload event) ''position_data_stale'') (ts_position_data_stale st)\<rparr>"

definition tvl_snapshot :: "TvlDropRule \<Rightarrow> string \<Rightarrow> TvlStateEvent \<Rightarrow> tvl_outcome \<Rightarrow> json" where
  "tvl_snapshot r subject_key sample out =
     (let ev = to_evaluation out in
      JObject
        [(''rule_id'', JString (tr_rule_id r)), (''subject_key'', JString subject_key),
         (''tvl_usd'', j_f64 (te_tvl_usd sample)), (''fast_drop_pct'', j_f64 (tv_fast_drop_pct ev)),
         (''slow_drop_pct'', j_f64 (tv_slow_drop_pct ev)), (''velocity_drop_pct'', j_f64 (tv_velocity_drop_pct ev)),
         (''selected_drop_pct'', j_f64 (tv_selected_drop_pct ev)),
         (''breached_branches'', JArray (map JString (tv_breached_branches ev))),
         (''base_severity'', j_opt (\<lambda>s. JString (severity_name s)) (tv_base_severity ev)),
         (''final_severity'', if tv_base_severity ev \<noteq> None then JString (severity_name (to_severity out)) else JNull),
         (''incident_transition'', j_opt (\<lambda>t. JString (tvl_incident_transition_str t)) (to_transition out)),
         (''context_classification'', JString (tvl_context_classification_str (to_classification out))),
         (''deposit_gate_skipped'', JBool (tv_deposit_gate_skipped ev)),
         (''min_tvl_floor_usd'', j_f64 (tr_min_tvl_floor_usd r))])"

text \<open>Inserting a state into the cache, and pruning.\<close>

definition tvl_cache_state ::
  "'a tvl_libs_scheme \<Rightarrow> datetime \<Rightarrow> string \<Rightarrow> TvlRuleState \<Rightarrow> TvlDropPattern \<Rightarrow> TvlDropPattern res" where
  "tvl_cache_state L now cache_key st pt =
     bind_res (tvl_prune_state_cache L now cache_key (AList.update cache_key st (td_state_cache pt))) (\<lambda>cache.
       Inr (pt\<lparr>td_state_cache := cache\<rparr>))"

text \<open>The stores after a rule has been evaluated: snapshot, state, cache.\<close>

definition tvl_store ::
  "'a tvl_libs_scheme \<Rightarrow> environment \<Rightarrow> UnifiedEvent \<Rightarrow> string \<Rightarrow> TvlRuleState \<Rightarrow> json \<Rightarrow> f64 option \<Rightarrow> string option
     \<Rightarrow> datetime \<Rightarrow> TvlDropPattern \<Rightarrow> world \<Rightarrow> TvlDropPattern \<times> world \<times> unit res" where
  "tvl_store L en event state_key st snapshot score severity now pt w =
     (let w1 = insert_pattern_snapshot en
                 \<lparr>ps_tenant_id = ue_tenant_id event, ps_pattern_id = TVL_PATTERN_ID, ps_snapshot_key = state_key,
                  ps_data = append_snapshot_meta (tl_rfc3339 L) event snapshot, ps_score = score,
                  ps_severity = severity, ps_observed_at = ue_timestamp event\<rparr> w
      in case tl_ser_state L st of
           Inl e \<Rightarrow> (pt, w1, Inl e)
         | Inr v \<Rightarrow>
             (let w2 = upsert_pattern_state en (ue_tenant_id event) TVL_PATTERN_ID state_key v w1
              in case tvl_cache_state L now (tvl_cache_key (ue_tenant_id event) state_key) st pt of
                   Inl e \<Rightarrow> (pt, w2, Inl e)
                 | Inr pt' \<Rightarrow> (pt', w2, Inr ())))"

definition with_at_risk_markets :: "string list \<Rightarrow> DetectionResult \<Rightarrow> DetectionResult" where
  "with_at_risk_markets at_risk d =
     (if at_risk = [] then d
      else d\<lparr>dr_oracle_context := AList.update ''at_risk_markets'' (JArray (map JString at_risk)) (dr_oracle_context d)\<rparr>)"

definition tvl_sample_rule ::
  "'a tvl_libs_scheme \<Rightarrow> environment \<Rightarrow> UnifiedEvent \<Rightarrow> TvlStateEvent \<Rightarrow> datetime \<Rightarrow> TvlDropRule
     \<Rightarrow> TvlDropPattern \<Rightarrow> world \<Rightarrow> DetectionResult option \<Rightarrow> TvlDropPattern \<times> world \<times> DetectionResult option res" where
  "tvl_sample_rule L en event sample now r pt w emitted =
     (case tvl_subject_for_event r (te_market_id sample) of
        None \<Rightarrow> (pt, w, Inr emitted)
      | Some (subject_type, subject_key, protocol_chain_key) \<Rightarrow>
          (let tenant = ue_tenant_id event;
               state_key = tvl_load_state_key (tr_rule_id r) subject_key;
               cache_key = tvl_cache_key tenant state_key
           in case bind_res (tvl_load_state L en tenant state_key w) (\<lambda>st.
                     bind_res (tvl_cache_state L now cache_key st pt) (\<lambda>pt1. Inr (st, pt1))) of
                Inl e \<Rightarrow> (pt, w, Inl e)
              | Inr (current_state, pt1) \<Rightarrow>
                  (case tvl_rule_step L r (with_event_metadata event protocol_chain_key current_state) (te_tvl_usd sample)
                          (has_concurrent_active_drop L (td_state_cache pt1) tenant cache_key protocol_chain_key now
                             (tr_concurrent_window_minutes r)) now of
                     Inl e \<Rightarrow> (pt1, w, Inl e)
                   | Inr out \<Rightarrow>
                       (case tvl_store L en event state_key (to_state out) (tvl_snapshot r subject_key sample out)
                               (Some (tv_selected_drop_pct (to_evaluation out)))
                               (if tv_base_severity (to_evaluation out) \<noteq> None
                                then Some (severity_name (to_severity out)) else None) now pt1 w of
                          (pt2, w2, Inl e) \<Rightarrow> (pt2, w2, Inl e)
                        | (pt2, w2, Inr ()) \<Rightarrow>
                            (pt2, w2, Inr
                               (case to_transition out of
                                  None \<Rightarrow> emitted
                                | Some transition \<Rightarrow>
                                    tvl_pick_higher_severity emitted
                                      (with_at_risk_markets
                                        (find_at_risk_markets pt2 tenant (te_protocol_id sample) (te_chain_slug sample)
                                           (te_market_id sample))
                                        (build_tvl_detection L en event r subject_type subject_key out transition
                                           sample now))))))))"

text \<open>A pause is a detection of its own, or an update of the active incident.\<close>

definition pause_parameters ::
  "TvlRuleState \<Rightarrow> bool \<Rightarrow> (Severity \<times> IncidentTransition \<times> ContextClassification) option" where
  "pause_parameters st paused =
     (case tvl_severity_from_str (ts_last_severity st) of
        Some prev \<Rightarrow>
          Some (prev, Update,
            if ts_last_context st = Some ''systemic'' then Systemic
            else if ts_last_context st = Some ''isolated'' then Isolated else Ctx_None)
      | None \<Rightarrow> if paused then Some (High, Trigger, Ctx_None) else None)"

definition tvl_pause_rule ::
  "'a tvl_libs_scheme \<Rightarrow> environment \<Rightarrow> UnifiedEvent \<Rightarrow> TvlPauseEvent \<Rightarrow> datetime \<Rightarrow> TvlDropRule
     \<Rightarrow> TvlDropPattern \<Rightarrow> world \<Rightarrow> DetectionResult option \<Rightarrow> TvlDropPattern \<times> world \<times> DetectionResult option res" where
  "tvl_pause_rule L en event pause now r pt w emitted =
     (case tvl_subject_for_event r (tq_market_id pause) of
        None \<Rightarrow> (pt, w, Inr emitted)
      | Some (subject_type, subject_key, protocol_chain_key) \<Rightarrow>
          (let tenant = ue_tenant_id event;
               state_key = tvl_load_state_key (tr_rule_id r) subject_key;
               cache_key = tvl_cache_key tenant state_key
           in case bind_res (tvl_load_state L en tenant state_key w) (\<lambda>st.
                     bind_res (tvl_cache_state L now cache_key st pt) (\<lambda>pt1. Inr (st, pt1))) of
                Inl e \<Rightarrow> (pt, w, Inl e)
              | Inr (current_state, pt1) \<Rightarrow>
                  (case pause_parameters current_state (tq_paused pause) of
                     None \<Rightarrow> (pt1, w, Inr emitted)
                   | Some (severity, transition, classification) \<Rightarrow>
                       (let st = current_state\<lparr>ts_protocol_chain_key := Some protocol_chain_key,
                                  ts_last_pause_state := Some (tq_paused pause), ts_last_transition_at := Some now\<rparr>;
                            snapshot = JObject
                              [(''rule_id'', JString (tr_rule_id r)), (''subject_key'', JString subject_key),
                               (''pause_state'', JString (pause_label (tq_paused pause))),
                               (''incident_transition'', JString (tvl_incident_transition_str transition)),
                               (''context_classification'', JString (tvl_context_classification_str classification))]
                        in case tvl_store L en event state_key st snapshot (ts_last_drop_pct st) (ts_last_severity st)
                                  now pt1 w of
                             (pt2, w2, Inl e) \<Rightarrow> (pt2, w2, Inl e)
                           | (pt2, w2, Inr ()) \<Rightarrow>
                               (pt2, w2, Inr (tvl_pick_higher_severity emitted
                                  (tvl_build_pause_detection en event r subject_type subject_key severity transition
                                     classification pause now)))))))"

text \<open>The rules of the event's tenant, if its source is bound to the pattern.\<close>

definition tvl_rules_for :: "TvlDropPattern \<Rightarrow> UnifiedEvent \<Rightarrow> TvlDropRule list option" where
  "tvl_rules_for pt event =
     (if (case td_source_bindings pt (ue_tenant_id event) of
            None \<Rightarrow> False
          | Some bound \<Rightarrow> bound \<noteq> {} \<and> ue_source_id event \<notin> bound) then None
      else td_configs pt (ue_tenant_id event))"

definition tvl_process_event ::
  "'a tvl_libs_scheme \<Rightarrow> environment \<Rightarrow> UnifiedEvent \<Rightarrow> datetime \<Rightarrow> TvlDropPattern \<Rightarrow> world
     \<Rightarrow> TvlDropPattern \<times> world \<times> DetectionResult option res" where
  "tvl_process_event L en event now pt w =
     (case tvl_rules_for pt event of
        None \<Rightarrow> (pt, w, Inr None)
      | Some rules \<Rightarrow>
          (case parse_tvl_state_event event of
             Some sample \<Rightarrow>
               run_rules (tvl_sample_rule L en event sample now)
                 (filter (\<lambda>r. tr_enabled r \<and> tvl_matches r (te_protocol_id sample) (te_chain_slug sample) (te_market_id sample))
                    rules) pt w None
           | None \<Rightarrow>
               (case parse_tvl_pause_event event of
                  Some pause \<Rightarrow>
                    run_rules (tvl_pause_rule L en event pause now)
                      (filter (\<lambda>r. tr_enabled r \<and> tvl_matches r (tq_protocol_id pause) (tq_chain_slug pause) (tq_market_id pause))
                         rules) pt w None
                | None \<Rightarrow> (pt, w, Inr None))))"

end
