(* ===== verification/TvlSafety.thy ===== *)
theory TvlSafety
  imports TvlPattern
begin

text \<open>
  What holds of the TVL drop pattern: drops are percentages of a bounded window of samples, the
  severity of a rule's incident only rises and its announcements form a fixed language, alerts are
  justified by a breach past both gates, rules in force are valid, tenants are isolated, and an alert
  of one rule can hide the first alert of another.
\<close>

section \<open>Drops are percentages\<close>

definition positive_finite :: "f64 \<Rightarrow> bool" where
  "positive_finite x \<longleftrightarrow> representable x \<and> is_finite x \<and> 0 < x"

lemma positive_finite_iff:
  "positive_finite x \<longleftrightarrow> (\<exists>m. x = Fin False m \<and> 0 < m \<and> round_mag m = m \<and> rexp m < 1024)"
proof (cases x)
  case (Fin s m)
  then show ?thesis by (cases s) (auto simp: positive_finite_def zero_f64_def)
qed (simp_all add: positive_finite_def)

lemma zero_le_f64_max: "0 \<le> f64_max x 0"
  by (cases x) (auto simp: f64_max_def zero_f64_def less_eq_f64_def less_f64_def)

lemma pack_finite_below:
  assumes "0 \<le> q" "q \<le> m" "round_mag m = m" "rexp m < 1024"
  obtains n where "pack s q = Fin s n" "0 \<le> n" "n \<le> m"
proof -
  have n: "0 \<le> round_mag q" "round_mag q \<le> m" using round_mag_nonneg [OF assms(1)] round_mag_mono [OF assms(1,2)] assms(3) by simp_all
  have "\<not> (round_mag q \<noteq> 0 \<and> 1024 \<le> rexp (round_mag q))"
  proof
    assume a: "round_mag q \<noteq> 0 \<and> 1024 \<le> rexp (round_mag q)"
    then have "rexp (round_mag q) \<le> rexp m" using n by (intro rexp_mono) auto
    with a assms(4) show False by simp
  qed
  then show thesis using that n by (auto simp: pack_def Let_def)
qed

lemma rexp_100: "rexp 100 = 6" "rexp 1 = 0"
  by (intro rexp_eqI; simp)+

lemma drop_pct_range:
  assumes "positive_finite a" "positive_finite b"
  shows "0 \<le> drop_pct_of a b \<and> drop_pct_of a b \<le> lit 100"
proof
  show "0 \<le> drop_pct_of a b" by (simp add: drop_pct_of_def zero_le_f64_max)
  obtain m where a: "a = Fin False m" "0 < m" "round_mag m = m" "rexp m < 1024"
    using assms(1) by (auto simp: positive_finite_iff)
  obtain n where b: "b = Fin False n" "0 < n" using assms(2) by (auto simp: positive_finite_iff)
  obtain s k where k: "f64_max (a - b) 0 = Fin s k" "0 \<le> k" "k \<le> m" "s \<longrightarrow> k = 0"
  proof (cases "n < m")
    case True
    obtain k where "pack False (m - n) = Fin False k" "0 \<le> k" "k \<le> m"
      using pack_finite_below [of "m - n" m False] True a b by auto
    then show thesis using that [of False k] True a(1) b(1)
      by (auto simp: minus_f64_def f64_max_def zero_f64_def less_f64_def)
  next
    case False
    have "\<not> round_mag (n - m) < 0" using False round_mag_nonneg [of "n - m"] by simp
    then have "\<not> 0 < a - b" using False a(1) b(1)
      by (auto simp: minus_f64_def zero_f64_def less_f64_def Let_def pack_def round_mag_nonneg)
    moreover have "a - b \<noteq> NaN" using a(1) b(1) by (auto simp: minus_f64_def Let_def pack_def)
    ultimately have "f64_max (a - b) 0 = 0 \<or> f64_max (a - b) 0 = a - b \<and> \<not> a - b < 0"
      by (auto simp: f64_max_def zero_f64_def)
    then show thesis
    proof
      assume "f64_max (a - b) 0 = 0"
      then show thesis using that [of False 0] a by (simp add: zero_f64_def)
    next
      assume h: "f64_max (a - b) 0 = a - b \<and> \<not> a - b < 0"
      obtain t j where j: "a - b = Fin t j" "j = 0"
        using h \<open>\<not> 0 < a - b\<close> \<open>a - b \<noteq> NaN\<close> a(1) b(1) False
        by (cases "a - b") (auto simp: zero_f64_def less_f64_def split: if_splits)
      then show thesis using that [of t 0] h a by simp
    qed
  qed
  have "0 \<le> k / m" "k / m \<le> 1" using k a by simp_all
  then obtain q where q: "pack s (k / m) = Fin s q" "0 \<le> q" "q \<le> 1"
    using pack_finite_below [of "k / m" 1 s] round_mag_int [of 1] rexp_100 by auto
  have "s \<longrightarrow> q = 0" using k(4) q by (auto simp: pack_0)
  have d: "f64_max (a - b) 0 / a = Fin s q" using k(1) a(1,2) q(1) by (simp add: divide_f64_def)
  have h: "lit 100 = Fin False 100" by (simp add: lit_numeral)
  have m100: "round_mag 100 = 100" using round_mag_int [of 100] by simp
  have "0 \<le> q * 100" "q * 100 \<le> 100" using q by simp_all
  then obtain p where p: "pack s (q * 100) = Fin s p" "0 \<le> p" "p \<le> 100"
    using pack_finite_below [of "q * 100" 100 s] m100 rexp_100 by auto
  have "f64_max (a - b) 0 / a * lit 100 = Fin s p" using d h p(1) by (simp add: times_f64_def)
  then show "drop_pct_of a b \<le> lit 100"
    using p h by (auto simp: drop_pct_of_def f64_max_def zero_f64_def less_f64_def)
qed

definition percentage :: "f64 \<Rightarrow> bool" where
  "percentage x \<longleftrightarrow> 0 \<le> x \<and> x \<le> lit 100"

lemma percentage_0: "percentage 0"
  unfolding percentage_def using zero_le_lit [of 100] by (simp add: zero_f64_def)

definition samples_ok :: "TvlSamplePoint list \<Rightarrow> bool" where
  "samples_ok ps \<longleftrightarrow> sorted_wrt tvl_observed_le ps \<and> (\<forall>p \<in> set ps. positive_finite (tp_tvl_usd p))"

lemma analyze_points_percentage:
  assumes "samples_ok ps"
  shows "percentage (wa_drop_pct (analyze_points ps))"
proof (cases ps)
  case (Cons p qs)
  have "percentage (drop_pct_of (tp_tvl_usd p) (tp_tvl_usd (last ps)))"
    unfolding percentage_def by (rule drop_pct_range) (use assms Cons in \<open>auto simp: samples_ok_def\<close>)
  then show ?thesis using Cons by (simp add: analyze_points_def WindowAnalysis_default_def percentage_0 Let_def)
qed (simp add: analyze_points_def WindowAnalysis_default_def percentage_0)

lemma samples_ok_since: "samples_ok ps \<Longrightarrow> samples_ok (points_since c ps)"
  by (auto simp: samples_ok_def points_since_def sorted_wrt_filter)

lemma analyze_window_percentage:
  "analyze_window L ps now m = Inr w \<Longrightarrow> samples_ok ps \<Longrightarrow> percentage (wa_drop_pct w)"
  by (auto simp: analyze_window_def bind_res_eq_Inr WindowAnalysis_default_def percentage_0
      intro: analyze_points_percentage samples_ok_since split: if_splits)

lemma one_minute_percentage:
  assumes "percentage x" "positive_finite (tp_tvl_usd p)" "positive_finite (tp_tvl_usd q)"
  shows "percentage (one_minute_drop (p, q) x)"
  using assms drop_pct_range [OF assms(2,3)] by (auto simp: one_minute_drop_def Let_def percentage_def)

lemma fold_one_minute_percentage:
  "percentage x \<Longrightarrow> \<forall>(p, q) \<in> set xs. positive_finite (tp_tvl_usd p) \<and> positive_finite (tp_tvl_usd q)
     \<Longrightarrow> percentage (fold one_minute_drop xs x)"
  by (induction xs arbitrary: x) (auto simp: one_minute_percentage)

lemma in_pairs: "(x, y) \<in> set (zip xs (tl xs)) \<Longrightarrow> x \<in> set xs \<and> y \<in> set xs"
  by (cases xs) (auto dest: set_zip_leftD set_zip_rightD)

lemma max_one_minute_percentage:
  assumes "max_one_minute_drop_pct L ps now m = Inr x" "samples_ok ps"
  shows "percentage x"
proof -
  obtain c where c: "minutes_before L now m = Inr c" using assms(1) by (auto simp: max_one_minute_drop_pct_def bind_res_eq_Inr)
  let ?ps = "points_since c ps"
  have "\<forall>(p, q) \<in> set (zip ?ps (tl ?ps)). positive_finite (tp_tvl_usd p) \<and> positive_finite (tp_tvl_usd q)"
    using samples_ok_since [OF assms(2), of c] by (auto simp: samples_ok_def dest!: in_pairs)
  then show ?thesis using assms(1) c fold_one_minute_percentage [OF percentage_0]
    by (auto simp: max_one_minute_drop_pct_def Let_def)
qed

lemma push_sample_ok:
  assumes "push_sample L r now x ps = Inr qs" "samples_ok ps" "positive_finite x"
  shows "samples_ok qs"
proof -
  have o: "orders_on UNIV tvl_observed_le" by (auto simp: orders_on_def tvl_observed_le_def)
  have "samples_ok (sort_by tvl_observed_le (ps @ [\<lparr>tp_observed_at = now, tp_tvl_usd = x\<rparr>]))"
    using assms(2,3) sort_by_sorted_wrt [OF o] by (auto simp: samples_ok_def)
  then show ?thesis using assms(1) samples_ok_since by (auto simp: push_sample_def bind_res_eq_Inr)
qed

lemma process_state_sampleD:
  assumes "process_state_sample L r st x now = Inr (st', ev)"
  obtains qs fast slow velocity where "push_sample L r now x (ts_samples st) = Inr qs"
    "analyze_window L qs now (tr_fast_window_minutes r) = Inr fast"
    "analyze_window L qs now (tr_slow_window_minutes r) = Inr slow"
    "max_one_minute_drop_pct L qs now (tr_fast_window_minutes r) = Inr velocity"
    "st' = st\<lparr>ts_samples := qs\<rparr>" "tv_fast_drop_pct ev = wa_drop_pct fast" "tv_slow_drop_pct ev = wa_drop_pct slow"
    "tv_velocity_drop_pct ev = velocity" "tv_selected_drop_pct ev = f64_max (wa_drop_pct fast) (wa_drop_pct slow)"
    "tv_fast_window_reference_tvl_usd ev = wa_reference_tvl_usd fast"
    "tv_time_to_reach_current_drop_minutes ev = wa_time_to_reach fast"
    "tv_base_severity ev = map_option fst
       (if has_deposit st \<and> tr_min_tvl_floor_usd r \<le> unwrap_or (wa_reference_tvl_usd fast) x
        then breached_branch r (wa_drop_pct fast) (wa_drop_pct slow) (wa_time_to_reach fast) else None)"
  using assms by (auto simp: process_state_sample_def bind_res_eq_Inr Let_def)

lemma percentage_max: "percentage x \<Longrightarrow> percentage y \<Longrightarrow> percentage (f64_max x y)"
  by (auto simp: percentage_def f64_max_def)

text \<open>
  (C11) Drops are percentages of a bounded window: from samples that are positive, finite and in the
  order of their times, a sample of the same kind leads to such samples again, none older than the
  rule's largest window, and the fast, slow, one-minute and selected drops lie between 0 and 100,
  rounding included.
\<close>

theorem tvl_drops_are_percentages:
  assumes "process_state_sample L r st x now = Inr (st', ev)" and "samples_ok (ts_samples st)" and "positive_finite x"
  shows "samples_ok (ts_samples st')
    \<and> (\<exists>c. minutes_before L now (max_window r) = Inr c \<and> (\<forall>p \<in> set (ts_samples st'). c \<le> tp_observed_at p))
    \<and> (\<forall>d \<in> {tv_fast_drop_pct ev, tv_slow_drop_pct ev, tv_velocity_drop_pct ev, tv_selected_drop_pct ev}.
         0 \<le> d \<and> d \<le> lit 100)"
  using assms(1)
proof (rule process_state_sampleD)
  fix qs fast slow velocity
  assume a: "push_sample L r now x (ts_samples st) = Inr qs"
    "analyze_window L qs now (tr_fast_window_minutes r) = Inr fast"
    "analyze_window L qs now (tr_slow_window_minutes r) = Inr slow"
    "max_one_minute_drop_pct L qs now (tr_fast_window_minutes r) = Inr velocity"
    "st' = st\<lparr>ts_samples := qs\<rparr>" "tv_fast_drop_pct ev = wa_drop_pct fast" "tv_slow_drop_pct ev = wa_drop_pct slow"
    "tv_velocity_drop_pct ev = velocity" "tv_selected_drop_pct ev = f64_max (wa_drop_pct fast) (wa_drop_pct slow)"
  have ok: "samples_ok qs" using push_sample_ok [OF a(1) assms(2,3)] .
  have "\<exists>c. minutes_before L now (max_window r) = Inr c \<and> (\<forall>p \<in> set qs. c \<le> tp_observed_at p)"
    using a(1) by (auto simp: push_sample_def bind_res_eq_Inr points_since_def)
  moreover have "percentage (wa_drop_pct fast)" "percentage (wa_drop_pct slow)" "percentage velocity"
    using a(2-4) ok by (auto intro: analyze_window_percentage max_one_minute_percentage)
  moreover from this have "percentage (tv_selected_drop_pct ev)" by (simp add: a(9) percentage_max)
  ultimately show ?thesis using ok a(5-9) by (simp add: percentage_def)
qed

section \<open>The life cycle of a drop\<close>

lemma tvl_severity_names:
  "\<forall>s\<in>{Info, Low, Medium, High, Critical}. tvl_severity_from_str (Some (severity_name s)) = Some s"
  by code_simp

lemma tvl_severity_name [simp]: "tvl_severity_from_str (Some (severity_name s)) = Some s"
  using tvl_severity_names by (cases s) blast+

lemma tvl_severity_None [simp]: "tvl_severity_from_str None = None"
  by (simp add: tvl_severity_from_str_def)

definition active_severity :: "TvlRuleState \<Rightarrow> Severity option" where
  "active_severity st = tvl_severity_from_str (ts_last_severity st)"

text \<open>
  The abstract incident: a severity once there is one, announced when it appears, when it rises and
  when it is updated; it never falls and never ends.
\<close>

inductive drop_move :: "Severity option \<Rightarrow> IncidentTransition option \<Rightarrow> Severity option \<Rightarrow> bool" where
  quiet: "drop_move s None s"
| trigger: "High \<le> s \<Longrightarrow> drop_move None (Some Trigger) (Some s)"
| escalate: "s < s' \<Longrightarrow> High \<le> s' \<Longrightarrow> drop_move (Some s) (Some Escalate) (Some s')"
| renew: "drop_move (Some s) (Some Update) (Some s)"

inductive_cases drop_move_trigger: "drop_move s (Some Trigger) s'"
inductive_simps drop_move_iff: "drop_move s t s'"

lemma tvl_rank_less: "tvl_severity_rank (Some a) < tvl_severity_rank (Some b) \<longleftrightarrow> a < b"
  by (cases a; cases b) (simp_all add: less_Severity_def)

lemma clamp_severity_max: "clamp_severity s prev = (case prev of None \<Rightarrow> s | Some p \<Rightarrow> max s p)"
  by (auto simp: clamp_severity_def tvl_rank_less max_def split: option.split)

lemma breached_branch_severity: "breached_branch r f s t = Some (sev, b) \<Longrightarrow> High \<le> sev"
  by (auto simp: breached_branch_def less_eq_Severity_def split: if_splits)

lemma tvl_rule_stepD:
  assumes "tvl_rule_step L r st x conc now = Inr out"
  obtains st1 ev systemic sev cl where "process_state_sample L r st x now = Inr (st1, ev)"
    "(sev, cl) = assess_severity ev systemic (active_severity st)"
    "out = \<lparr>to_state = note_sample st1 ev sev cl (sample_transition st ev sev cl) now, to_evaluation = ev,
            to_severity = sev, to_classification = cl, to_transition = sample_transition st ev sev cl\<rparr>"
proof -
  obtain p systemic where p: "process_state_sample L r st x now = Inr p"
    and out: "(let (sev, cl) = assess_severity (snd p) systemic (active_severity st);
          t = sample_transition st (snd p) sev cl
        in Inr \<lparr>to_state = note_sample (fst p) (snd p) sev cl t now, to_evaluation = snd p,
                to_severity = sev, to_classification = cl, to_transition = t\<rparr>) = (Inr out :: tvl_outcome res)"
    using assms by (auto simp only: tvl_rule_step_def bind_res_eq_Inr active_severity_def case_prod_beta)
  obtain st1 ev where ev: "p = (st1, ev)" by (cases p)
  obtain sev cl where a: "(sev, cl) = assess_severity ev systemic (active_severity st)"
    by (cases "assess_severity ev systemic (active_severity st)") simp
  show ?thesis using that [OF _ a] p out unfolding ev by (simp add: a [symmetric] Let_def)
qed

lemma base_severity_high:
  "process_state_sample L r st x now = Inr (st', ev) \<Longrightarrow> tv_base_severity ev = Some b \<Longrightarrow> High \<le> b"
  by (erule process_state_sampleD) (auto simp: breached_branch_severity split: if_splits)

lemma tvl_rule_step_move:
  assumes "tvl_rule_step L r st x conc now = Inr out"
  shows "drop_move (active_severity st) (to_transition out) (active_severity (to_state out))"
  using assms
proof (rule tvl_rule_stepD)
  fix st1 ev systemic sev cl
  assume p: "process_state_sample L r st x now = Inr (st1, ev)"
    and a: "(sev, cl) = assess_severity ev systemic (active_severity st)"
    and out: "out = \<lparr>to_state = note_sample st1 ev sev cl (sample_transition st ev sev cl) now, to_evaluation = ev,
            to_severity = sev, to_classification = cl, to_transition = sample_transition st ev sev cl\<rparr>"
  have same: "ts_last_severity st1 = ts_last_severity st" using p by (rule process_state_sampleD) simp
  show ?thesis
  proof (cases "tv_base_severity ev")
    case None
    then show ?thesis using same
      by (simp add: out note_sample_def sample_transition_def active_severity_def drop_move.quiet)
  next
    case (Some b)
    have after: "active_severity (to_state out) = Some sev"
      by (simp add: out note_sample_def Some active_severity_def)
    have high: "High \<le> b" using base_severity_high [OF p Some] .
    have sev: "sev = (case active_severity st of None \<Rightarrow> (if systemic then Critical else b)
         | Some prev \<Rightarrow> max (if systemic then Critical else b) prev)"
      using a Some by (auto simp: assess_severity_def clamp_severity_max split: if_splits option.split)
    have h: "High \<le> (if systemic then Critical else b)" using high by (simp add: less_eq_Severity_def)
    show ?thesis
    proof (cases "active_severity st")
      case None
      then show ?thesis using sev h Some after
        by (simp add: out sample_transition_def active_severity_def drop_move.trigger)
    next
      case (Some prev)
      then have s: "sev = max (if systemic then Critical else b) prev" using sev by simp
      have t: "to_transition out =
          (if prev < sev then Some Escalate
           else if unwrap_or (ts_last_drop_pct st) 0 + lit 1 \<le> tv_selected_drop_pct ev
                \<or> unwrap_or (ts_last_context st) ''isolated'' \<noteq> tvl_context_classification_str cl
           then Some Update else None)"
        using Some \<open>tv_base_severity ev = Some b\<close> tvl_rank_less [of prev sev]
        by (simp add: out sample_transition_def active_severity_def)
      show ?thesis
      proof (cases "prev < sev")
        case True
        moreover have "High \<le> sev" using s h by (simp add: le_max_iff_disj)
        ultimately show ?thesis unfolding Some after t by (simp add: drop_move.escalate)
      next
        case False
        then have "sev = prev" using s by (simp add: max_def split: if_splits)
        then show ?thesis unfolding Some after t by (simp add: drop_move.quiet drop_move.renew)
      qed
    qed
  qed
qed

text \<open>A rule over a sequence of samples, each with its time and its contagion check.\<close>

fun tvl_run ::
  "'a tvl_libs_scheme \<Rightarrow> TvlDropRule \<Rightarrow> TvlRuleState \<Rightarrow> (f64 \<times> bool res \<times> datetime) list
     \<Rightarrow> (TvlRuleState \<times> IncidentTransition list) res" where
  "tvl_run L r st [] = Inr (st, [])"
| "tvl_run L r st ((x, conc, now) # xs) =
     bind_res (tvl_rule_step L r st x conc now) (\<lambda>out.
     bind_res (tvl_run L r (to_state out) xs) (\<lambda>(st', ts).
       Inr (st', (case to_transition out of None \<Rightarrow> ts | Some t \<Rightarrow> t # ts))))"

text \<open>The announcements that can follow, by the severity there is.\<close>

definition announcements :: "Severity option \<Rightarrow> IncidentTransition list \<Rightarrow> bool" where
  "announcements s ts \<longleftrightarrow>
     (case s of
        None \<Rightarrow> ts = [] \<or> (\<exists>us vs. ts = Trigger # us \<and> set us \<subseteq> {Update} \<or>
                 ts = Trigger # us @ Escalate # vs \<and> set us \<subseteq> {Update} \<and> set vs \<subseteq> {Update})
      | Some Critical \<Rightarrow> set ts \<subseteq> {Update}
      | Some High \<Rightarrow> set ts \<subseteq> {Update} \<or> (\<exists>us vs. ts = us @ Escalate # vs \<and> set us \<subseteq> {Update} \<and> set vs \<subseteq> {Update})
      | Some _ \<Rightarrow> True)"

lemma at_least_High: "High \<le> s \<longleftrightarrow> s = High \<or> s = Critical"
  by (cases s) (simp_all add: less_eq_Severity_def)

lemma announcements_updates: "High \<le> s \<Longrightarrow> set us \<subseteq> {Update} \<Longrightarrow> announcements (Some s) us"
  by (auto simp: announcements_def at_least_High)

lemma announcements_step:
  assumes "drop_move s t s'" "announcements s' ts" "\<forall>x. s = Some x \<longrightarrow> High \<le> x"
  shows "announcements s (case t of None \<Rightarrow> ts | Some t \<Rightarrow> t # ts)"
  using assms(1)
proof cases
  case (trigger x)
  then consider "set ts \<subseteq> {Update}" | us vs where "ts = us @ Escalate # vs" "set us \<subseteq> {Update}" "set vs \<subseteq> {Update}"
    using assms(2) by (auto simp: announcements_def at_least_High)
  then show ?thesis unfolding trigger announcements_def by cases auto
next
  case (escalate x y)
  then have "x = High" "y = Critical" using assms(3) by (auto simp: at_least_High less_Severity_def)
  then show ?thesis using assms(2) escalate
    by (auto simp: announcements_def intro: exI [of _ "[]"])
next
  case (renew x)
  show ?thesis
  proof (cases "x = Critical")
    case False
    then have x: "x = High" using assms(3) renew by (auto simp: at_least_High)
    then consider "set ts \<subseteq> {Update}" | us vs where "ts = us @ Escalate # vs" "set us \<subseteq> {Update}" "set vs \<subseteq> {Update}"
      using assms(2) renew by (auto simp: announcements_def)
    then show ?thesis
    proof cases
      case 2
      then show ?thesis using renew x
        by (auto simp: announcements_def intro: exI [of _ "Update # us"])
    qed (use renew x in \<open>simp add: announcements_def\<close>)
  qed (use assms(2) renew in \<open>auto simp: announcements_def\<close>)
qed (use assms(2) in auto)

lemma tvl_run_announcements:
  assumes "tvl_run L r st xs = Inr (st', ts)" "\<forall>s. active_severity st = Some s \<longrightarrow> High \<le> s"
  shows "announcements (active_severity st) ts \<and> (active_severity st \<noteq> None \<longrightarrow> active_severity st' \<noteq> None)"
  using assms
proof (induction xs arbitrary: st ts)
  case Nil
  then show ?case by (auto simp: announcements_def at_least_High split: option.split Severity.split)
next
  case (Cons y ys)
  obtain x conc now where y: "y = (x, conc, now)" by (cases y) auto
  from Cons.prems(1) obtain out ts' where out: "tvl_rule_step L r st x conc now = Inr out"
    and run: "tvl_run L r (to_state out) ys = Inr (st', ts')"
    and ts: "ts = (case to_transition out of None \<Rightarrow> ts' | Some t \<Rightarrow> t # ts')"
    by (auto simp: y bind_res_eq_Inr)
  note m = tvl_rule_step_move [OF out]
  have "\<forall>s. active_severity (to_state out) = Some s \<longrightarrow> High \<le> s"
    using m Cons.prems(2) by (auto simp: drop_move_iff)
  note IH = Cons.IH [OF run this]
  have "active_severity st \<noteq> None \<Longrightarrow> active_severity (to_state out) \<noteq> None" using m by (auto simp: drop_move_iff)
  then show ?case using announcements_step [OF m _ Cons.prems(2)] IH by (simp add: ts)
qed

text \<open>
  A drop is announced once, escalated at most once and never closed: over every sequence of samples
  a rule that starts without an incident announces nothing, or one trigger followed by updates with at
  most one escalation among them; no announcement ever ends the incident.
\<close>

lemma tvl_announcements_language:
  assumes "tvl_run L r st xs = Inr (st', ts)" and "ts_last_severity st = None"
  shows "ts = [] \<or> (\<exists>us vs. set us \<subseteq> {Update} \<and> set vs \<subseteq> {Update} \<and>
           (ts = Trigger # us \<or> ts = Trigger # us @ Escalate # vs))"
proof -
  have "active_severity st = None" using assms(2) by (simp add: active_severity_def)
  then have "announcements None ts" using tvl_run_announcements [OF assms(1)] by simp
  then show ?thesis unfolding announcements_def by (auto intro: exI [of _ "[]"])
qed

section \<open>What an event changes\<close>

interpretation tvl_cache: bounded_cache "tvl_prune_state_cache L" TVL_DROP_STATE_CACHE_MAX_ENTRIES for L
proof unfold_locales
  fix now k and cache cache' :: "(string \<times> TvlRuleState) list"
  assume "tvl_prune_state_cache L now k cache = Inr cache'" "distinct (map fst cache)"
  from prune_cache_ok [OF this(1) [unfolded tvl_prune_state_cache_def] this(2)]
  show "distinct (map fst cache') \<and> set cache' \<subseteq> set cache \<and> length cache' \<le> TVL_DROP_STATE_CACHE_MAX_ENTRIES
      \<and> map_of cache' k = map_of cache k"
    by (simp add: TVL_DROP_STATE_CACHE_MAX_ENTRIES_def)
qed

abbreviation tvl_cache_ok :: "TvlDropPattern \<Rightarrow> bool" where
  "tvl_cache_ok pt \<equiv> tvl_cache.cache_within (\<lambda>_ _. True) (td_state_cache pt)"

text \<open>
  The frame of an event of a tenant: the configuration and the registry's logs stay, the cache stays
  within its bounds, and of the states only those of the tenant under the pattern's identifier change.
\<close>

definition tvl_frame ::
  "string \<Rightarrow> TvlDropPattern \<Rightarrow> world \<Rightarrow> TvlDropPattern \<Rightarrow> world \<Rightarrow> bool" where
  "tvl_frame tenant pt w pt' w' \<longleftrightarrow>
     td_configs pt' = td_configs pt \<and> td_source_bindings pt' = td_source_bindings pt
   \<and> (tvl_cache_ok pt \<longrightarrow> tvl_cache_ok pt')
   \<and> world_frame TVL_PATTERN_ID tenant w w'"

lemma tvl_frame_refl [simp]: "tvl_frame t pt w pt w"
  by (simp add: tvl_frame_def)

lemma tvl_frame_trans: "tvl_frame t pt w pt1 w1 \<Longrightarrow> tvl_frame t pt1 w1 pt2 w2 \<Longrightarrow> tvl_frame t pt w pt2 w2"
  by (auto simp: tvl_frame_def intro: world_frame_trans)

lemma tvl_cache_state_frame: "tvl_cache_state L now k st pt = Inr pt' \<Longrightarrow> tvl_frame t pt w pt' w"
  using tvl_cache.insert_ok [where P = "\<lambda>_ _. True"]
  by (fastforce simp: tvl_cache_state_def bind_res_eq_Inr tvl_frame_def)

lemma tvl_frame_snapshot: "tvl_frame t pt w pt (insert_pattern_snapshot en s w)"
  by (simp add: tvl_frame_def world_frame_snapshot)

lemma tvl_frame_upsert: "tvl_frame t pt w pt (upsert_pattern_state en t TVL_PATTERN_ID k v w)"
  by (simp add: tvl_frame_def world_frame_upsert)

lemma tvl_store_frame:
  assumes "tvl_store L en event k st snap score sev now pt w = (pt', w', x)"
  shows "tvl_frame (ue_tenant_id event) pt w pt' w'"
  using assms
  by (auto simp: tvl_store_def Let_def
      intro: tvl_frame_snapshot tvl_frame_trans [OF tvl_frame_snapshot tvl_frame_upsert]
        tvl_frame_trans [OF tvl_frame_trans [OF tvl_frame_snapshot tvl_frame_upsert] tvl_cache_state_frame]
      split: sum.splits)

text \<open>What a rule does with an event, as far as it comes.\<close>

lemma tvl_sample_ruleE:
  assumes "tvl_sample_rule L en event sample now r pt w em = (pt', w', x)"
  obtains (unchanged) "pt' = pt" "w' = w" "\<forall>em'. x = Inr em' \<longrightarrow> em' = em"
  | (failed) st st_ty sk pck pt1 where "tvl_subject_for_event r (te_market_id sample) = Some (st_ty, sk, pck)"
      "tvl_cache_state L now (tvl_cache_key (ue_tenant_id event) (tvl_load_state_key (tr_rule_id r) sk)) st pt = Inr pt1"
      "pt' = pt1" "w' = w" "\<exists>e. x = Inl e"
  | (stored) st st_ty sk pck pt1 conc out y where "tvl_subject_for_event r (te_market_id sample) = Some (st_ty, sk, pck)"
      "tvl_load_state L en (ue_tenant_id event) (tvl_load_state_key (tr_rule_id r) sk) w = Inr st"
      "tvl_cache_state L now (tvl_cache_key (ue_tenant_id event) (tvl_load_state_key (tr_rule_id r) sk)) st pt = Inr pt1"
      "tvl_rule_step L r (with_event_metadata event pck st) (te_tvl_usd sample) conc now = Inr out"
      "tvl_store L en event (tvl_load_state_key (tr_rule_id r) sk) (to_state out) (tvl_snapshot r sk sample out)
         (Some (tv_selected_drop_pct (to_evaluation out)))
         (if tv_base_severity (to_evaluation out) \<noteq> None then Some (severity_name (to_severity out)) else None) now pt1 w
         = (pt', w', y)"
      "\<forall>em'. x = Inr em' \<longrightarrow> (case to_transition out of None \<Rightarrow> em' = em
         | Some t \<Rightarrow> em' = tvl_pick_higher_severity em (with_at_risk_markets
             (find_at_risk_markets pt' (ue_tenant_id event) (te_protocol_id sample) (te_chain_slug sample) (te_market_id sample))
             (build_tvl_detection L en event r st_ty sk out t sample now)))"
proof (cases "tvl_subject_for_event r (te_market_id sample)")
  case None
  then show ?thesis using assms unchanged by (auto simp: tvl_sample_rule_def)
next
  case (Some s)
  obtain st_ty sk pck where s: "s = (st_ty, sk, pck)" by (metis prod.exhaust)
  let ?k = "tvl_load_state_key (tr_rule_id r) sk" and ?t = "ue_tenant_id event"
  show ?thesis
  proof (cases "bind_res (tvl_load_state L en ?t ?k w) (\<lambda>st.
      bind_res (tvl_cache_state L now (tvl_cache_key ?t ?k) st pt) (\<lambda>pt1. Inr (st, pt1)))")
    case (Inl e)
    then show ?thesis using assms Some s unchanged by (auto simp: tvl_sample_rule_def Let_def)
  next
    case (Inr p)
    obtain st pt1 where p: "p = (st, pt1)" by (cases p)
    from Inr p have ld: "tvl_load_state L en ?t ?k w = Inr st" "tvl_cache_state L now (tvl_cache_key ?t ?k) st pt = Inr pt1"
      by (auto simp: bind_res_eq_Inr)
    let ?conc = "has_concurrent_active_drop L (td_state_cache pt1) ?t (tvl_cache_key ?t ?k) pck now (tr_concurrent_window_minutes r)"
    show ?thesis
    proof (cases "tvl_rule_step L r (with_event_metadata event pck st) (te_tvl_usd sample) ?conc now")
      case (Inl e)
      then show ?thesis using assms Some s Inr p ld(2) by (intro failed [OF _ ld(2)]) (auto simp: tvl_sample_rule_def Let_def)
    next
      case step: (Inr out)
      obtain pt2 w2 y where sto: "tvl_store L en event ?k (to_state out) (tvl_snapshot r sk sample out)
         (Some (tv_selected_drop_pct (to_evaluation out)))
         (if tv_base_severity (to_evaluation out) \<noteq> None then Some (severity_name (to_severity out)) else None) now pt1 w
         = (pt2, w2, y)" by (metis prod.exhaust)
      let ?d = "\<lambda>t. with_at_risk_markets
             (find_at_risk_markets pt2 ?t (te_protocol_id sample) (te_chain_slug sample) (te_market_id sample))
             (build_tvl_detection L en event r st_ty sk out t sample now)"
      have "(pt', w', x) = (case y of Inl e \<Rightarrow> (pt2, w2, Inl e) | Inr _ \<Rightarrow> (pt2, w2, Inr
          (case to_transition out of None \<Rightarrow> em | Some t \<Rightarrow> tvl_pick_higher_severity em (?d t))))"
        unfolding assms [symmetric]
        by (cases y) (simp_all only: tvl_sample_rule_def Some s Inr p step sto Let_def option.case prod.case sum.case
            simp_thms split: unit.split)
      then have "pt' = pt2" "w' = w2" "\<forall>em'. x = Inr em' \<longrightarrow> em' = (case to_transition out of None \<Rightarrow> em
          | Some t \<Rightarrow> tvl_pick_higher_severity em (?d t))"
        by (cases y; simp)+
      then show ?thesis using sto Some s
        by (intro stored [OF _ ld step, of st_ty y]) (auto split: option.splits)
    qed
  qed
qed

lemma tvl_sample_rule_frame:
  "tvl_sample_rule L en event sample now r pt w em = (pt', w', x) \<Longrightarrow> tvl_frame (ue_tenant_id event) pt w pt' w'"
proof (erule tvl_sample_ruleE)
  fix st k st_ty sk pck and pt1 :: TvlDropPattern
  assume "tvl_cache_state L now (tvl_cache_key (ue_tenant_id event) (tvl_load_state_key (tr_rule_id r) sk)) st pt = Inr pt1"
    "pt' = pt1" "w' = w"
  then show "tvl_frame (ue_tenant_id event) pt w pt' w'" using tvl_cache_state_frame by simp
qed (auto intro: tvl_frame_trans tvl_cache_state_frame tvl_store_frame)

text \<open>The same for a pause.\<close>

lemma tvl_pause_ruleE:
  assumes "tvl_pause_rule L en event pause now r pt w em = (pt', w', x)"
  obtains (unchanged) "pt' = pt" "w' = w" "\<forall>em'. x = Inr em' \<longrightarrow> em' = em"
  | (quiet) st k pt1 where "tvl_cache_state L now k st pt = Inr pt1" "pt' = pt1" "w' = w" "x = Inr em"
  | (stored) st st_ty sk pck pt1 sev t cl snap y where "tvl_subject_for_event r (tq_market_id pause) = Some (st_ty, sk, pck)"
      "tvl_load_state L en (ue_tenant_id event) (tvl_load_state_key (tr_rule_id r) sk) w = Inr st"
      "tvl_cache_state L now (tvl_cache_key (ue_tenant_id event) (tvl_load_state_key (tr_rule_id r) sk)) st pt = Inr pt1"
      "pause_parameters st (tq_paused pause) = Some (sev, t, cl)"
      "tvl_store L en event (tvl_load_state_key (tr_rule_id r) sk)
         (st\<lparr>ts_protocol_chain_key := Some pck, ts_last_pause_state := Some (tq_paused pause), ts_last_transition_at := Some now\<rparr>)
         snap (ts_last_drop_pct st) (ts_last_severity st) now pt1 w = (pt', w', y)"
      "\<forall>em'. x = Inr em' \<longrightarrow> em' = tvl_pick_higher_severity em
         (tvl_build_pause_detection en event r st_ty sk sev t cl pause now)"
proof (cases "tvl_subject_for_event r (tq_market_id pause)")
  case None
  then show ?thesis using assms unchanged by (auto simp: tvl_pause_rule_def)
next
  case (Some s)
  obtain st_ty sk pck where s: "s = (st_ty, sk, pck)" by (metis prod.exhaust)
  let ?k = "tvl_load_state_key (tr_rule_id r) sk" and ?t = "ue_tenant_id event"
  show ?thesis
  proof (cases "bind_res (tvl_load_state L en ?t ?k w) (\<lambda>st.
      bind_res (tvl_cache_state L now (tvl_cache_key ?t ?k) st pt) (\<lambda>pt1. Inr (st, pt1)))")
    case (Inl e)
    then show ?thesis using assms Some s unchanged by (auto simp: tvl_pause_rule_def Let_def)
  next
    case (Inr p)
    obtain st pt1 where p: "p = (st, pt1)" by (cases p)
    from Inr p have ld: "tvl_load_state L en ?t ?k w = Inr st" "tvl_cache_state L now (tvl_cache_key ?t ?k) st pt = Inr pt1"
      by (auto simp: bind_res_eq_Inr)
    show ?thesis
    proof (cases "pause_parameters st (tq_paused pause)")
      case None
      then show ?thesis using assms Some s Inr p by (intro quiet [OF ld(2)]) (auto simp: tvl_pause_rule_def Let_def)
    next
      case par: (Some q)
      obtain sev t cl where q: "q = (sev, t, cl)" by (metis prod.exhaust)
      let ?st = "st\<lparr>ts_protocol_chain_key := Some pck, ts_last_pause_state := Some (tq_paused pause), ts_last_transition_at := Some now\<rparr>"
      let ?snap = "JObject
        [(''rule_id'', JString (tr_rule_id r)), (''subject_key'', JString sk),
         (''pause_state'', JString (pause_label (tq_paused pause))),
         (''incident_transition'', JString (tvl_incident_transition_str t)),
         (''context_classification'', JString (tvl_context_classification_str cl))]"
      obtain pt2 w2 y where sto: "tvl_store L en event ?k ?st ?snap (ts_last_drop_pct ?st) (ts_last_severity ?st) now pt1 w = (pt2, w2, y)"
        by (metis prod.exhaust)
      let ?d = "tvl_build_pause_detection en event r st_ty sk sev t cl pause now"
      have "(pt', w', x) = (case y of Inl e \<Rightarrow> (pt2, w2, Inl e) | Inr _ \<Rightarrow> (pt2, w2, Inr (tvl_pick_higher_severity em ?d)))"
        unfolding assms [symmetric]
        by (cases y) (simp_all only: tvl_pause_rule_def Some s Inr p par q sto Let_def option.case prod.case sum.case
            simp_thms split: unit.split)
      then have eq: "pt' = pt2" "w' = w2" "\<forall>em'. x = Inr em' \<longrightarrow> em' = tvl_pick_higher_severity em ?d"
        by (cases y; simp)+
      have "tvl_store L en event ?k ?st ?snap (ts_last_drop_pct st) (ts_last_severity st) now pt1 w = (pt', w', y)"
        using sto eq by simp
      from stored [OF Some [unfolded s] ld par [unfolded q] this eq(3)] show ?thesis .
    qed
  qed
qed

lemma tvl_pause_rule_frame:
  "tvl_pause_rule L en event pause now r pt w em = (pt', w', x) \<Longrightarrow> tvl_frame (ue_tenant_id event) pt w pt' w'"
  by (erule tvl_pause_ruleE) (auto intro: tvl_frame_trans tvl_cache_state_frame tvl_store_frame)

text \<open>An event as a whole: its rules, one after the other.\<close>

lemma tvl_process_eventE:
  assumes "tvl_process_event L en event now pt w = (pt', w', x)"
  obtains (ignored) "pt' = pt" "w' = w" "x = Inr None"
  | (sample) rules sample where "tvl_rules_for pt event = Some rules" "parse_tvl_state_event event = Some sample"
      "run_rules (tvl_sample_rule L en event sample now)
         (filter (\<lambda>r. tr_enabled r \<and> tvl_matches r (te_protocol_id sample) (te_chain_slug sample) (te_market_id sample))
            rules) pt w None = (pt', w', x)"
  | (pause) rules pause where "tvl_rules_for pt event = Some rules" "parse_tvl_state_event event = None"
      "parse_tvl_pause_event event = Some pause"
      "run_rules (tvl_pause_rule L en event pause now)
         (filter (\<lambda>r. tr_enabled r \<and> tvl_matches r (tq_protocol_id pause) (tq_chain_slug pause) (tq_market_id pause))
            rules) pt w None = (pt', w', x)"
  using assms unfolding tvl_process_event_def by (auto split: option.splits)

text \<open>
  What every rule keeps or establishes, the event does: \<open>R\<close> relates the world before and after a rule, \<open>D\<close>
  holds of every detection made.
\<close>

lemma tvl_process_event_inv:
  assumes "tvl_process_event L en event now pt w = (pt', w', x)"
    and R: "reflp R" "transp R"
    and sample: "\<And>rules sample r p w em p' w' x.
      tvl_rules_for pt event = Some rules \<Longrightarrow> parse_tvl_state_event event = Some sample \<Longrightarrow> r \<in> set rules \<Longrightarrow> tr_enabled r \<Longrightarrow>
      tvl_matches r (te_protocol_id sample) (te_chain_slug sample) (te_market_id sample) \<Longrightarrow>
      tvl_sample_rule L en event sample now r p w em = (p', w', x) \<Longrightarrow>
      R (p, w) (p', w') \<and> (\<forall>d. x = Inr (Some d) \<longrightarrow> em = Some d \<or> D d)"
    and pause: "\<And>rules pause r p w em p' w' x.
      tvl_rules_for pt event = Some rules \<Longrightarrow> parse_tvl_state_event event = None \<Longrightarrow> parse_tvl_pause_event event = Some pause \<Longrightarrow>
      r \<in> set rules \<Longrightarrow> tr_enabled r \<Longrightarrow>
      tvl_matches r (tq_protocol_id pause) (tq_chain_slug pause) (tq_market_id pause) \<Longrightarrow>
      tvl_pause_rule L en event pause now r p w em = (p', w', x) \<Longrightarrow>
      R (p, w) (p', w') \<and> (\<forall>d. x = Inr (Some d) \<longrightarrow> em = Some d \<or> D d)"
  shows "R (pt, w) (pt', w') \<and> (\<forall>d. x = Inr (Some d) \<longrightarrow> D d)"
proof -
  let ?I = "\<lambda>p v em. R (pt, w) (p, v) \<and> (\<forall>d. em = Some d \<longrightarrow> D d)"
  let ?J = "\<lambda>p v. R (pt, w) (p, v)"
  have init: "?I pt w None" using R(1) by (simp add: reflp_def)
  have step: "case x of Inl _ \<Rightarrow> ?J p' v' | Inr em' \<Rightarrow> ?I p' v' em'"
    if "?I p v em" "R (p, v) (p', v') \<and> (\<forall>d. x = Inr (Some d) \<longrightarrow> em = Some d \<or> D d)" for p v em p' v' x
    using that transpD [OF R(2), of "(pt, w)" "(p, v)" "(p', v')"] by (auto split: sum.split)
  from assms(1) have "case x of Inl _ \<Rightarrow> ?J pt' w' | Inr em' \<Rightarrow> ?I pt' w' em'"
  proof (cases rule: tvl_process_eventE)
    case ignored
    then show ?thesis using init by simp
  next
    case (sample rules s)
    show ?thesis
      by (rule run_rules_inv [OF sample(3), of ?I ?J, OF init])
         (rule step, assumption, rule assms(4) [OF sample(1,2)], auto)
  next
    case (pause rules s)
    show ?thesis
      by (rule run_rules_inv [OF pause(4), of ?I ?J, OF init])
         (rule step, assumption, rule assms(5) [OF pause(1,2,3)], auto)
  qed
  then show ?thesis by (auto split: sum.splits)
qed

end
