(* ===== verification/TvlIncidents.thy ===== *)
theory TvlIncidents
  imports TvlSafety
begin

text \<open>
  The TVL drop pattern over events: rules stay valid and the cache bounded, tenants are isolated,
  detections are justified, the stored severity of an incident never falls, and of several rules
  that fire on one event only one is announced.
\<close>

section \<open>The configuration is well formed\<close>

definition valid_rule :: "TvlDropRule \<Rightarrow> bool" where
  "valid_rule r \<longleftrightarrow> tvl_validate r = Inr ()"

definition tvl_pattern_ok :: "TvlDropPattern \<Rightarrow> bool" where
  "tvl_pattern_ok pt \<longleftrightarrow>
     tvl_cache_ok pt \<and> (\<forall>t rules. td_configs pt t = Some rules \<longrightarrow> rules \<noteq> [] \<and> (\<forall>r \<in> set rules. valid_rule r))"

lemma default_names: "trim ''base'' \<noteq> []" "trim ''aave_v3'' \<noteq> []" "trim ''tvl-default'' \<noteq> []"
  by code_simp+

lemma default_rule_valid: "valid_rule (default_tvl_drop_rule ''tvl-default'')"
  by (simp add: valid_rule_def tvl_validate_def default_tvl_drop_rule_def DEFAULT_FAST_DROP_PCT_def
      DEFAULT_SLOW_DROP_PCT_def DEFAULT_VELOCITY_CRITICAL_PCT_def DEFAULT_MIN_TVL_FLOOR_USD_def
      DEFAULT_FAST_WINDOW_MINUTES_def DEFAULT_SLOW_WINDOW_MINUTES_def DEFAULT_VELOCITY_WINDOW_MINUTES_def
      DEFAULT_CONCURRENT_WINDOW_MINUTES_def f64_eval default_names)

lemma parsed_rule_valid: "tvl_parsed_rule x = Some r \<Longrightarrow> valid_rule r"
  by (auto simp: tvl_parsed_rule_def valid_rule_def Let_def split: prod.splits option.splits if_splits)

lemma parse_tvl_drop_rules_valid:
  "parse_tvl_drop_rules config \<noteq> [] \<and> (\<forall>r \<in> set (parse_tvl_drop_rules config). valid_rule r)"
proof -
  have "\<forall>r \<in> set (List.map_filter tvl_parsed_rule xs). valid_rule r" for xs
    by (auto simp: map_filter_def dest: parsed_rule_valid)
  then show ?thesis using default_rule_valid
    by (simp add: parse_tvl_drop_rules_def Let_def split: option.split)
qed

lemma tvl_reload_configs:
  assumes "\<forall>t rules. td_configs acc t = Some rules \<longrightarrow> rules \<noteq> [] \<and> (\<forall>r \<in> set rules. valid_rule r)"
    "td_configs (fold tvl_reload_entry cm acc) t = Some rules"
  shows "rules \<noteq> [] \<and> (\<forall>r \<in> set rules. valid_rule r)"
  using assms
proof (induction cm arbitrary: acc)
  case (Cons x cm)
  have "\<forall>t rules. td_configs (tvl_reload_entry x acc) t = Some rules \<longrightarrow> rules \<noteq> [] \<and> (\<forall>r \<in> set rules. valid_rule r)"
    using Cons.prems(1) parse_tvl_drop_rules_valid by (auto simp: tvl_reload_entry_def split_beta)
  then show ?case using Cons by simp
qed simp

lemma tvl_process_event_frame:
  assumes "tvl_process_event L en event now pt w = (pt', w', x)"
  shows "tvl_frame (ue_tenant_id event) pt w pt' w'"
proof -
  let ?R = "\<lambda>(p, v) (p', v'). tvl_frame (ue_tenant_id event) p v p' v'"
  have "?R (pt, w) (pt', w') \<and> (\<forall>d. x = Inr (Some d) \<longrightarrow> True)"
    by (rule tvl_process_event_inv [OF assms, of ?R "\<lambda>_. True"])
       (auto intro!: reflpI transpI intro: tvl_frame_trans tvl_sample_rule_frame tvl_pause_rule_frame)
  then show ?thesis by simp
qed

fun tvl_step :: "'a tvl_libs_scheme \<Rightarrow> TvlDropPattern \<Rightarrow> pattern_call \<Rightarrow> TvlDropPattern" where
  "tvl_step L pt (Reload config_map) = tvl_reload_config config_map pt"
| "tvl_step L pt (Process en ev now w) = fst (tvl_process_event L en ev now pt w)"

interpretation tvl: invariant_machine "tvl_step L" tvl_pattern_ok for L
proof
  fix pt c assume ok: "tvl_pattern_ok pt"
  show "tvl_pattern_ok (tvl_step L pt c)"
  proof (cases c)
    case (Reload config_map)
    have "\<forall>t rules. td_configs TvlDropPattern_default t = Some rules \<longrightarrow> rules \<noteq> [] \<and> (\<forall>r \<in> set rules. valid_rule r)"
      by (simp add: TvlDropPattern_default_def)
    from tvl_reload_configs [OF this, of config_map] show ?thesis
      using ok by (simp add: Reload tvl_pattern_ok_def tvl_reload_config_def Let_def)
  next
    case (Process en ev now w)
    obtain pt' w' x where p: "tvl_process_event L en ev now pt w = (pt', w', x)" by (metis prod.exhaust)
    from tvl_process_event_frame [OF p] show ?thesis
      using ok by (simp add: Process p tvl_pattern_ok_def tvl_frame_def)
  qed
qed

text \<open>
  The pattern is always well typed: after any sequence of reloads and events every tenant that has
  rules has at least one, every rule passes validation (positive thresholds and windows, a market
  where the scope is one), and the cache of states keeps distinct keys and at most 4096 entries.
\<close>

lemma tvl_pattern_stays_ok:
  "tvl_pattern_ok (foldl (tvl_step L) TvlDropPattern_default calls)"
  by (rule tvl.inv_run) (simp add: tvl_pattern_ok_def TvlDropPattern_default_def tvl_cache.cache_within_empty)

section \<open>The contract with the registry\<close>

lemma tvl_pick_cases: "tvl_pick_higher_severity em d = Some d' \<Longrightarrow> em = Some d' \<or> d' = d"
  by (auto simp: tvl_pick_higher_severity_def split: option.splits if_splits)

lemma at_risk_fields [simp]:
  "dr_pattern_id (with_at_risk_markets ms d) = dr_pattern_id d"
  "dr_tenant_id (with_at_risk_markets ms d) = dr_tenant_id d"
  "dr_severity (with_at_risk_markets ms d) = dr_severity d"
  "dr_incident_transition (with_at_risk_markets ms d) = dr_incident_transition d"
  "dr_triggered_rule_ids (with_at_risk_markets ms d) = dr_triggered_rule_ids d"
  "dr_confidence_breakdown (with_at_risk_markets ms d) = dr_confidence_breakdown d"
  by (simp_all add: with_at_risk_markets_def)

lemma build_tvl_fields [simp]:
  "dr_pattern_id (build_tvl_detection L en ev r ty key out t sample now) = TVL_PATTERN_ID"
  "dr_tenant_id (build_tvl_detection L en ev r ty key out t sample now) = Some (ue_tenant_id ev)"
  "dr_severity (build_tvl_detection L en ev r ty key out t sample now) = to_severity out"
  "dr_incident_transition (build_tvl_detection L en ev r ty key out t sample now) = Some t"
  "dr_triggered_rule_ids (build_tvl_detection L en ev r ty key out t sample now) = [''tvl_drop.'' @ tr_rule_id r]"
  "dr_confidence_breakdown (build_tvl_detection L en ev r ty key out t sample now) =
     [(''fast_drop_pct'', tv_fast_drop_pct (to_evaluation out)), (''slow_drop_pct'', tv_slow_drop_pct (to_evaluation out)),
      (''velocity_drop_pct'', tv_velocity_drop_pct (to_evaluation out))]"
  by (simp_all add: build_tvl_detection_def Let_def split_beta)

lemma build_pause_fields [simp]:
  "dr_pattern_id (tvl_build_pause_detection en ev r ty key s t c pause now) = TVL_PATTERN_ID"
  "dr_tenant_id (tvl_build_pause_detection en ev r ty key s t c pause now) = Some (ue_tenant_id ev)"
  "dr_severity (tvl_build_pause_detection en ev r ty key s t c pause now) = s"
  "dr_incident_transition (tvl_build_pause_detection en ev r ty key s t c pause now) = Some t"
  by (simp_all add: tvl_build_pause_detection_def Let_def split_beta)

text \<open>Where a detection of a rule comes from.\<close>

lemma tvl_sample_rule_detects:
  assumes "tvl_sample_rule L en event sample now r pt w em = (pt', w', Inr (Some d))" "em \<noteq> Some d"
  obtains st ty key pck conc out t ms where
    "tvl_rule_step L r (with_event_metadata event pck st) (te_tvl_usd sample) conc now = Inr out"
    "to_transition out = Some t"
    "d = with_at_risk_markets ms (build_tvl_detection L en event r ty key out t sample now)"
  using assms(1)
proof (cases rule: tvl_sample_ruleE)
  case (stored st ty key pck pt1 conc out y)
  with assms(2) obtain t where "to_transition out = Some t" "tvl_pick_higher_severity em (with_at_risk_markets
     (find_at_risk_markets pt' (ue_tenant_id event) (te_protocol_id sample) (te_chain_slug sample) (te_market_id sample))
     (build_tvl_detection L en event r ty key out t sample now)) = Some d"
    by (auto split: option.splits)
  with stored(4) assms(2) that show ?thesis by (metis tvl_pick_cases)
qed (use assms(2) in auto)

lemma tvl_pause_rule_detects:
  assumes "tvl_pause_rule L en event pause now r pt w em = (pt', w', Inr (Some d))" "em \<noteq> Some d"
  obtains st ty key sev t cl where "pause_parameters st (tq_paused pause) = Some (sev, t, cl)"
    "d = tvl_build_pause_detection en event r ty key sev t cl pause now"
  using assms(1)
proof (cases rule: tvl_pause_ruleE)
  case (stored st ty key pck pt1 sev t cl snap y)
  then show ?thesis using that assms(2) by (metis tvl_pick_cases)
qed (use assms(2) in auto)

text \<open>A detection of an event is that of a rule on its sample or on its pause.\<close>

lemma tvl_process_event_detects:
  assumes "tvl_process_event L en event now pt w = (pt', w', Inr (Some d))"
  obtains (sample) rules r sample st ty key pck conc out t ms where
      "tvl_rules_for pt event = Some rules" "r \<in> set rules" "tr_enabled r"
      "parse_tvl_state_event event = Some sample"
      "tvl_matches r (te_protocol_id sample) (te_chain_slug sample) (te_market_id sample)"
      "tvl_rule_step L r (with_event_metadata event pck st) (te_tvl_usd sample) conc now = Inr out"
      "to_transition out = Some t"
      "d = with_at_risk_markets ms (build_tvl_detection L en event r ty key out t sample now)"
  | (pause) r pause st ty key sev t cl where "parse_tvl_state_event event = None" "parse_tvl_pause_event event = Some pause"
      "pause_parameters st (tq_paused pause) = Some (sev, t, cl)"
      "d = tvl_build_pause_detection en event r ty key sev t cl pause now"
proof -
  have "True \<and> (\<forall>d'. (Inr (Some d) :: DetectionResult option res) = Inr (Some d') \<longrightarrow> d' = d \<longrightarrow> thesis)"
  proof (rule tvl_process_event_inv [OF assms, of "\<lambda>_ _. True" "\<lambda>d'. d' = d \<longrightarrow> thesis"], goal_cases)
    case (3 rules sample r p w em p' w' x)
    then show ?case by (auto elim: tvl_sample_rule_detects intro: that(1))
  next
    case (4 rules pause r p w em p' w' x)
    then show ?case by (auto elim: tvl_pause_rule_detects intro: that(2))
  qed (simp_all add: reflp_def transp_def)
  then show ?thesis by simp
qed

lemma tvl_process_event_signs:
  assumes "tvl_process_event L en event now pt w = (pt', w', Inr (Some d))"
  shows "dr_pattern_id d = TVL_PATTERN_ID \<and> dr_tenant_id d = Some (ue_tenant_id event)"
  using assms by (rule tvl_process_event_detects) simp_all

interpretation tvl_contract: detection_pattern "\<lambda>_ k. k = TVL_PATTERN_ID" "tvl_process_event L" for L
proof unfold_locales
  fix en ev now p w p' w' r
  assume r: "tvl_process_event L en ev now p w = (p', w', r)"
  note f = tvl_process_event_frame [OF r, unfolded tvl_frame_def world_frame_def]
  show "w_detections w' = w_detections w \<and> w_published w' = w_published w \<and> w_raw_events w' = w_raw_events w"
    using f by blast
  show "w_states w' (t, k, s) = w_states w (t, k, s)" if "\<not> k = TVL_PATTERN_ID" for k t s
    using f that by blast
qed (use tvl_process_event_signs in blast)+

section \<open>Detections are justified\<close>

lemma breach_gates:
  assumes "process_state_sample L r st x now = Inr (st', ev)" "tv_base_severity ev = Some b"
  shows "has_deposit st \<and> tr_min_tvl_floor_usd r \<le> unwrap_or (tv_fast_window_reference_tvl_usd ev) x
    \<and> (tr_velocity_critical_pct r \<le> tv_fast_drop_pct ev \<or> tr_fast_drop_pct r \<le> tv_fast_drop_pct ev
      \<or> tr_slow_drop_pct r \<le> tv_slow_drop_pct ev)"
  using assms(1) by (rule process_state_sampleD)
    (use assms(2) in \<open>auto simp: breached_branch_def split: if_splits\<close>)

lemma announced_breach:
  assumes "tvl_rule_step L r st x conc now = Inr out" "to_transition out = Some t"
  shows "has_deposit st \<and> tr_min_tvl_floor_usd r \<le> unwrap_or (tv_fast_window_reference_tvl_usd (to_evaluation out)) x
    \<and> (tr_velocity_critical_pct r \<le> tv_fast_drop_pct (to_evaluation out)
      \<or> tr_fast_drop_pct r \<le> tv_fast_drop_pct (to_evaluation out)
      \<or> tr_slow_drop_pct r \<le> tv_slow_drop_pct (to_evaluation out))
    \<and> High \<le> to_severity out"
  using assms(1)
proof (rule tvl_rule_stepD)
  fix st1 ev systemic sev cl
  assume p: "process_state_sample L r st x now = Inr (st1, ev)"
    and a: "(sev, cl) = assess_severity ev systemic (active_severity st)"
    and out: "out = \<lparr>to_state = note_sample st1 ev sev cl (sample_transition st ev sev cl) now, to_evaluation = ev,
            to_severity = sev, to_classification = cl, to_transition = sample_transition st ev sev cl\<rparr>"
  from assms(2) obtain b where b: "tv_base_severity ev = Some b"
    by (cases "tv_base_severity ev") (auto simp: out sample_transition_def Let_def)
  have h: "High \<le> b" using base_severity_high [OF p b] .
  have "High \<le> Critical" by (simp add: less_eq_Severity_def)
  then have "High \<le> sev" using a b h
    by (auto simp: assess_severity_def clamp_severity_max le_max_iff_disj split: if_splits option.splits)
  then show ?thesis using breach_gates [OF p b] by (simp add: out)
qed

lemma announced_state:
  assumes "tvl_rule_step L r st x conc now = Inr out" "to_transition out = Some t"
  shows "active_severity (to_state out) = Some (to_severity out)"
  using assms(1)
proof (rule tvl_rule_stepD)
  fix st1 ev systemic sev cl
  assume out: "out = \<lparr>to_state = note_sample st1 ev sev cl (sample_transition st ev sev cl) now, to_evaluation = ev,
            to_severity = sev, to_classification = cl, to_transition = sample_transition st ev sev cl\<rparr>"
  have "tv_base_severity ev \<noteq> None" using assms(2) by (cases "tv_base_severity ev") (auto simp: out sample_transition_def)
  then show ?thesis by (simp add: out note_sample_def active_severity_def)
qed

text \<open>
  (C10) Every alert on a TVL sample is justified: it names an enabled rule of the event's tenant that
  covers the sample's protocol, chain and market; the event's source is bound to the pattern, where
  the tenant binds any; fresh position data did not deny a deposit; the drop reported reaches one of
  the rule's thresholds; and its severity is at least high.
\<close>

theorem tvl_alerts_are_justified:
  assumes "tvl_process_event L en event now pt w = (pt', w', Inr (Some d))"
    and "parse_tvl_state_event event = Some sample"
  shows "\<exists>rules r fast slow. td_configs pt (ue_tenant_id event) = Some rules \<and> r \<in> set rules \<and> tr_enabled r
     \<and> tvl_matches r (te_protocol_id sample) (te_chain_slug sample) (te_market_id sample)
     \<and> (\<forall>bound. td_source_bindings pt (ue_tenant_id event) = Some bound \<longrightarrow> bound = {} \<or> ue_source_id event \<in> bound)
     \<and> \<not> (get_bool (ue_payload event) ''tenant_has_deposit'' = Some False
          \<and> get_bool (ue_payload event) ''position_data_stale'' = Some False)
     \<and> dr_triggered_rule_ids d = [''tvl_drop.'' @ tr_rule_id r]
     \<and> map_of (dr_confidence_breakdown d) ''fast_drop_pct'' = Some fast
     \<and> map_of (dr_confidence_breakdown d) ''slow_drop_pct'' = Some slow
     \<and> (tr_velocity_critical_pct r \<le> fast \<or> tr_fast_drop_pct r \<le> fast \<or> tr_slow_drop_pct r \<le> slow)
     \<and> High \<le> dr_severity d"
  using assms(1)
proof (cases rule: tvl_process_event_detects)
  case (sample rules r s st ty key pck conc out t ms)
  have s: "s = sample" using sample(4) assms(2) by simp
  note j = announced_breach [OF sample(6,7)]
  have cfg: "td_configs pt (ue_tenant_id event) = Some rules"
    "\<forall>bound. td_source_bindings pt (ue_tenant_id event) = Some bound \<longrightarrow> bound = {} \<or> ue_source_id event \<in> bound"
    using sample(1) by (auto simp: tvl_rules_for_def split: if_splits)
  have "\<not> (get_bool (ue_payload event) ''tenant_has_deposit'' = Some False
          \<and> get_bool (ue_payload event) ''position_data_stale'' = Some False)"
    using j by (auto simp: has_deposit_def with_event_metadata_def or_else_def)
  with cfg sample j s show ?thesis
    by (intro exI [of _ rules] exI [of _ r] exI [of _ "tv_fast_drop_pct (to_evaluation out)"]
        exI [of _ "tv_slow_drop_pct (to_evaluation out)"]) simp
next
  case (pause r p st ty key sev t cl)
  then show ?thesis using assms(2) by simp
qed

section \<open>Incidents never end\<close>

text \<open>
  What serde is relied on for: the severity of a stored state is read back as it was. The states of
  all rules of all tenants are stored under the pattern's identifier.
\<close>

definition severity_round_trip :: "'a tvl_libs_scheme \<Rightarrow> bool" where
  "severity_round_trip L \<longleftrightarrow> (\<forall>st v. tl_ser_state L st = Inr v \<longrightarrow>
     (\<exists>st'. tl_de_state L v = Some st' \<and> ts_last_severity st' = ts_last_severity st))"

definition stored_severity ::
  "'a tvl_libs_scheme \<Rightarrow> world \<Rightarrow> string \<Rightarrow> string \<Rightarrow> Severity option" where
  "stored_severity L w tenant key =
     active_severity (unwrap_or (Option.bind (w_states w (tenant, TVL_PATTERN_ID, key)) (tl_de_state L))
       TvlRuleState_default)"

lemma loaded_severity:
  "tvl_load_state L en tenant key w = Inr st \<Longrightarrow> active_severity st = stored_severity L w tenant key"
  by (auto simp: tvl_load_state_def load_pattern_state_def bind_res_eq_Inr stored_severity_def split: if_splits)

definition severity_kept :: "'a tvl_libs_scheme \<Rightarrow> world \<Rightarrow> world \<Rightarrow> bool" where
  "severity_kept L w w' \<longleftrightarrow>
     (\<forall>tenant key. tvl_severity_rank (stored_severity L w tenant key) \<le> tvl_severity_rank (stored_severity L w' tenant key))"

lemma severity_kept_refl [simp]: "severity_kept L w w"
  by (simp add: severity_kept_def)

lemma severity_kept_trans: "severity_kept L w1 w2 \<Longrightarrow> severity_kept L w2 w3 \<Longrightarrow> severity_kept L w1 w3"
  unfolding severity_kept_def by (meson order_trans)

lemma tvl_store_severity:
  assumes "tvl_store L en event key st snap score sev now pt w = (pt', w', x)" "severity_round_trip L"
    and "tvl_severity_rank (stored_severity L w (ue_tenant_id event) key) \<le> tvl_severity_rank (active_severity st)"
  shows "severity_kept L w w'"
proof -
  have snapshot: "w_states (insert_pattern_snapshot en s w) = w_states w" for s
    by (simp add: insert_pattern_snapshot_def)
  have same: "severity_kept L w w1" if "w_states w1 = w_states w" for w1
    using that by (simp add: severity_kept_def stored_severity_def)
  show ?thesis
  proof (cases "tl_ser_state L st")
    case (Inl e)
    then show ?thesis using assms(1) snapshot same by (auto simp: tvl_store_def Let_def)
  next
    case (Inr v)
    with assms(2) obtain st' where "tl_de_state L v = Some st'" "ts_last_severity st' = ts_last_severity st"
      by (auto simp: severity_round_trip_def)
    then have "active_severity (unwrap_or (tl_de_state L v) TvlRuleState_default) = active_severity st"
      by (simp add: active_severity_def)
    moreover have "w_states w' = (if en_fails en UpsertState then w_states w
        else (w_states w)((ue_tenant_id event, TVL_PATTERN_ID, key) \<mapsto> v))"
      using assms(1) Inr snapshot by (auto simp: tvl_store_def Let_def upsert_pattern_state_def split: sum.splits if_splits)
    ultimately show ?thesis using assms(3) by (auto simp: severity_kept_def stored_severity_def)
  qed
qed

lemma drop_move_rank: "drop_move s t s' \<Longrightarrow> tvl_severity_rank s \<le> tvl_severity_rank s'"
  by (auto simp: drop_move_iff tvl_rank_less [THEN iffD2, THEN less_imp_le])

lemma drop_move_kinds: "drop_move s (Some t) s' \<Longrightarrow> t \<in> {Trigger, Escalate, Update}"
  by (auto simp: drop_move_iff)

lemma with_event_metadata_severity [simp]: "active_severity (with_event_metadata ev k st) = active_severity st"
  by (simp add: with_event_metadata_def active_severity_def)

lemma pause_parameters_kinds: "pause_parameters st p = Some (sev, t, cl) \<Longrightarrow> t \<in> {Trigger, Update}"
  by (auto simp: pause_parameters_def split: option.splits if_splits)

lemma tvl_sample_rule_severity:
  assumes "tvl_sample_rule L en event sample now r pt w em = (pt', w', x)" "severity_round_trip L"
  shows "severity_kept L w w'"
  using assms(1)
proof (cases rule: tvl_sample_ruleE)
  case (stored st ty key pck pt1 conc out y)
  from drop_move_rank [OF tvl_rule_step_move [OF stored(4)]] loaded_severity [OF stored(2)]
  show ?thesis by (intro tvl_store_severity [OF stored(5) assms(2)]) simp
qed (simp_all add: severity_kept_def)

lemma tvl_pause_rule_severity:
  assumes "tvl_pause_rule L en event pause now r pt w em = (pt', w', x)" "severity_round_trip L"
  shows "severity_kept L w w'"
  using assms(1)
proof (cases rule: tvl_pause_ruleE)
  case (stored st ty key pck pt1 sev t cl snap y)
  from loaded_severity [OF stored(2)] show ?thesis
    by (intro tvl_store_severity [OF stored(5) assms(2)]) (simp add: active_severity_def)
qed (simp_all add: severity_kept_def)

text \<open>
  (C12) No event ends an incident: whatever the pattern is given, the stored severity of every rule and
  subject of every tenant stays or rises, also when statements fail and when the event ends with an
  error, and every detection triggers, escalates or updates; none resolves or retracts.
\<close>

theorem tvl_incidents_never_end:
  assumes "severity_round_trip L" and "tvl_process_event L en event now pt w = (pt', w', x)"
  shows "(\<forall>tenant key. tvl_severity_rank (stored_severity L w tenant key) \<le> tvl_severity_rank (stored_severity L w' tenant key))
    \<and> (\<forall>d. x = Inr (Some d) \<longrightarrow> dr_incident_transition d \<in> Some ` {Trigger, Escalate, Update})"
proof (intro conjI)
  let ?R = "\<lambda>(p :: TvlDropPattern, v) (p' :: TvlDropPattern, v'). severity_kept L v v'"
  have "?R (pt, w) (pt', w') \<and> (\<forall>d. x = Inr (Some d) \<longrightarrow> True)"
    by (rule tvl_process_event_inv [OF assms(2), of ?R "\<lambda>_. True"])
       (auto intro!: reflpI transpI intro: severity_kept_trans tvl_sample_rule_severity tvl_pause_rule_severity assms(1))
  then show "\<forall>tenant key. tvl_severity_rank (stored_severity L w tenant key) \<le> tvl_severity_rank (stored_severity L w' tenant key)"
    by (simp add: severity_kept_def)
  show "\<forall>d. x = Inr (Some d) \<longrightarrow> dr_incident_transition d \<in> Some ` {Trigger, Escalate, Update}"
  proof (intro allI impI)
    fix d assume "x = Inr (Some d)"
    with assms(2) have "tvl_process_event L en event now pt w = (pt', w', Inr (Some d))" by simp
    then show "dr_incident_transition d \<in> Some ` {Trigger, Escalate, Update}"
    proof (cases rule: tvl_process_event_detects)
      case (sample rules r s st ty key pck conc out t ms)
      from tvl_rule_step_move [OF sample(6), unfolded sample(7)] show ?thesis
        using drop_move_kinds by (simp add: sample(8) image_iff)
    next
      case (pause r p st ty key sev t cl)
      from pause_parameters_kinds [OF pause(3)] show ?thesis by (auto simp: pause(4))
    qed
  qed
qed

section \<open>One detection per event\<close>

lemma tvl_cache_state_ok:
  "tl_add_secs L now (- (TVL_DROP_STATE_CACHE_TTL_HOURS * 3600)) \<noteq> None \<Longrightarrow> \<exists>pt'. tvl_cache_state L now k st pt = Inr pt'"
  by (auto simp: tvl_cache_state_def tvl_prune_state_cache_def prune_cache_def Let_def)

lemma tvl_rule_step_alone:
  "\<not> tr_contagion_enabled r \<Longrightarrow> tvl_rule_step L r st x c now = tvl_rule_step L r st x (Inr False) now"
  by (simp add: tvl_rule_step_def)

text \<open>A rule that does not look at contagion, when nothing fails.\<close>

lemma tvl_sample_rule_computes:
  assumes subj: "tvl_subject_for_event r (te_market_id sample) = Some (ty, sk, pck)"
    and key: "key = tvl_load_state_key (tr_rule_id r) sk"
    and load: "tvl_load_state L en (ue_tenant_id event) key w = Inr st"
    and alone: "\<not> tr_contagion_enabled r"
    and step: "tvl_rule_step L r (with_event_metadata event pck st) (te_tvl_usd sample) (Inr False) now = Inr out"
    and works: "\<And>f. \<not> en_fails en f" "tl_add_secs L now (- (TVL_DROP_STATE_CACHE_TTL_HOURS * 3600)) \<noteq> None"
      "tl_ser_state L (to_state out) = Inr v"
  obtains pt' w' ms where "tvl_sample_rule L en event sample now r pt w em = (pt', w', Inr
      (case to_transition out of None \<Rightarrow> em
       | Some t \<Rightarrow> tvl_pick_higher_severity em
           (with_at_risk_markets ms (build_tvl_detection L en event r ty sk out t sample now))))"
    "w_states w' = (w_states w)((ue_tenant_id event, TVL_PATTERN_ID, key) \<mapsto> v)"
proof -
  let ?t = "ue_tenant_id event"
  obtain pt1 where pt1: "tvl_cache_state L now (tvl_cache_key ?t key) st pt = Inr pt1"
    using tvl_cache_state_ok [OF works(2)] by blast
  obtain pt2 where pt2: "tvl_cache_state L now (tvl_cache_key ?t key) (to_state out) pt1 = Inr pt2"
    using tvl_cache_state_ok [OF works(2)] by blast
  let ?sn = "tvl_snapshot r sk sample out" and ?score = "Some (tv_selected_drop_pct (to_evaluation out))"
  let ?sev = "if tv_base_severity (to_evaluation out) \<noteq> None then Some (severity_name (to_severity out)) else None"
  obtain w2 where sto: "tvl_store L en event key (to_state out) ?sn ?score ?sev now pt1 w = (pt2, w2, Inr ())"
    and w2: "w_states w2 = (w_states w)((?t, TVL_PATTERN_ID, key) \<mapsto> v)"
    using pt2 works by (simp add: tvl_store_def Let_def upsert_pattern_state_def insert_pattern_snapshot_def)
  let ?ms = "find_at_risk_markets pt2 ?t (te_protocol_id sample) (te_chain_slug sample) (te_market_id sample)"
  have step': "tvl_rule_step L r (with_event_metadata event pck st) (te_tvl_usd sample) conc now = Inr out" for conc
    using step tvl_rule_step_alone [OF alone, of L _ _ conc] by simp
  have "tvl_sample_rule L en event sample now r pt w em = (pt2, w2, Inr
      (case to_transition out of None \<Rightarrow> em
       | Some t \<Rightarrow> tvl_pick_higher_severity em
           (with_at_risk_markets ?ms (build_tvl_detection L en event r ty sk out t sample now))))"
    by (simp only: tvl_sample_rule_def subj step' key [symmetric] load pt1 Let_def sto bind_res_def option.case prod.case sum.case
        unit.case)
  with w2 that show thesis by blast
qed

text \<open>
  Only one of the rules that fire on an event is announced: where two rules of a tenant open
  their incidents on the same sample, the detection is that of the first, if the second is not more
  severe; the second rule's incident is stored as open all the same, although nothing announced it.
\<close>

lemma tvl_second_trigger_is_lost:
  assumes rules: "tvl_rules_for pt event = Some [r1, r2]" and sample: "parse_tvl_state_event event = Some sample"
    and on: "\<forall>r \<in> {r1, r2}. tr_enabled r \<and> \<not> tr_contagion_enabled r
        \<and> tvl_matches r (te_protocol_id sample) (te_chain_slug sample) (te_market_id sample)"
    and subj: "tvl_subject_for_event r1 (te_market_id sample) = Some (ty1, sk1, pck1)"
      "tvl_subject_for_event r2 (te_market_id sample) = Some (ty2, sk2, pck2)"
    and load: "tvl_load_state L en (ue_tenant_id event) (tvl_load_state_key (tr_rule_id r1) sk1) w = Inr st1"
      "tvl_load_state L en (ue_tenant_id event) (tvl_load_state_key (tr_rule_id r2) sk2) w = Inr st2"
      "tvl_load_state_key (tr_rule_id r1) sk1 \<noteq> tvl_load_state_key (tr_rule_id r2) sk2"
    and steps: "tvl_rule_step L r1 (with_event_metadata event pck1 st1) (te_tvl_usd sample) (Inr False) now = Inr out1"
      "tvl_rule_step L r2 (with_event_metadata event pck2 st2) (te_tvl_usd sample) (Inr False) now = Inr out2"
    and fire: "to_transition out1 = Some Trigger" "to_transition out2 = Some Trigger" "to_severity out2 \<le> to_severity out1"
    and works: "\<And>f. \<not> en_fails en f" "tl_add_secs L now (- (TVL_DROP_STATE_CACHE_TTL_HOURS * 3600)) \<noteq> None"
      "\<And>st. \<exists>v. tl_ser_state L st = Inr v" "severity_round_trip L"
  shows "\<exists>pt' w' d. tvl_process_event L en event now pt w = (pt', w', Inr (Some d))
     \<and> dr_triggered_rule_ids d = [''tvl_drop.'' @ tr_rule_id r1]
     \<and> stored_severity L w' (ue_tenant_id event) (tvl_load_state_key (tr_rule_id r2) sk2) = Some (to_severity out2)"
proof -
  let ?t = "ue_tenant_id event" and ?k2 = "tvl_load_state_key (tr_rule_id r2) sk2"
  obtain v1 v2 where v: "tl_ser_state L (to_state out1) = Inr v1" "tl_ser_state L (to_state out2) = Inr v2"
    using works(3) by meson
  obtain pt1 w1 ms1 where one: "tvl_sample_rule L en event sample now r1 pt w None = (pt1, w1, Inr
      (Some (with_at_risk_markets ms1 (build_tvl_detection L en event r1 ty1 sk1 out1 Trigger sample now))))"
    and w1: "w_states w1 = (w_states w)((?t, TVL_PATTERN_ID, tvl_load_state_key (tr_rule_id r1) sk1) \<mapsto> v1)"
    using tvl_sample_rule_computes [OF subj(1) refl load(1) _ steps(1) works(1,2) v(1), of pt None] on fire(1)
    by (auto simp: tvl_pick_higher_severity_def)
  have "tvl_load_state L en ?t ?k2 w1 = Inr st2" using w1 load(2,3) works(1) by (simp add: tvl_load_state_def load_pattern_state_def)
  from tvl_sample_rule_computes [OF subj(2) refl this _ steps(2) works(1,2) v(2), of pt1
      "Some (with_at_risk_markets ms1 (build_tvl_detection L en event r1 ty1 sk1 out1 Trigger sample now))"] on
  obtain pt2 w2 ms2 where two: "tvl_sample_rule L en event sample now r2 pt1 w1
      (Some (with_at_risk_markets ms1 (build_tvl_detection L en event r1 ty1 sk1 out1 Trigger sample now)))
      = (pt2, w2, Inr (case to_transition out2 of
           None \<Rightarrow> Some (with_at_risk_markets ms1 (build_tvl_detection L en event r1 ty1 sk1 out1 Trigger sample now))
         | Some t \<Rightarrow> tvl_pick_higher_severity
             (Some (with_at_risk_markets ms1 (build_tvl_detection L en event r1 ty1 sk1 out1 Trigger sample now)))
             (with_at_risk_markets ms2 (build_tvl_detection L en event r2 ty2 sk2 out2 t sample now))))"
    and w2: "w_states w2 = (w_states w1)((?t, TVL_PATTERN_ID, ?k2) \<mapsto> v2)" by blast
  have "\<not> to_severity out1 < to_severity out2" using fire(3) by simp
  then have "\<not> tvl_severity_rank (Some (to_severity out1)) < tvl_severity_rank (Some (to_severity out2))"
    by (simp only: tvl_rank_less not_False_eq_True)
  then have "tvl_process_event L en event now pt w = (pt2, w2, Inr (Some
      (with_at_risk_markets ms1 (build_tvl_detection L en event r1 ty1 sk1 out1 Trigger sample now))))"
    using on fire(2) by (simp add: tvl_process_event_def rules sample one two tvl_pick_higher_severity_def)
  moreover have "stored_severity L w2 ?t ?k2 = Some (to_severity out2)"
  proof -
    from works(4) v(2) obtain st' where st': "tl_de_state L v2 = Some st'" "ts_last_severity st' = ts_last_severity (to_state out2)"
      by (auto simp: severity_round_trip_def)
    from announced_state [OF steps(2) fire(2)] st' show ?thesis
      by (simp add: stored_severity_def w2 active_severity_def)
  qed
  moreover have "dr_triggered_rule_ids (with_at_risk_markets ms1
      (build_tvl_detection L en event r1 ty1 sk1 out1 Trigger sample now)) = [''tvl_drop.'' @ tr_rule_id r1]" by simp
  ultimately show ?thesis by blast
qed

section \<open>Samples\<close>

text \<open>
  A market of four million dollars that loses half of its deposits within a minute, under two rules.
\<close>

definition half_state :: TvlRuleState where
  "half_state = TvlRuleState_default\<lparr>ts_samples := [\<lparr>tp_observed_at = 0, tp_tvl_usd = Fin False 4000000\<rparr>]\<rparr>"

definition half_libs :: tvl_libs where
  "half_libs =
     \<lparr>tl_add_secs = (\<lambda>t s. Some (t + s * nanos_per_sec)), tl_min_utc = 0, tl_rfc3339 = (\<lambda>_. []), tl_fmt2 = (\<lambda>_. []),
      tl_de_state = (\<lambda>v. Some (half_state\<lparr>ts_last_severity := as_str v\<rparr>)),
      tl_ser_state = (\<lambda>st. Inr (j_opt JString (ts_last_severity st)))\<rparr>"

definition half_rule :: "string \<Rightarrow> TvlDropRule" where
  "half_rule name = (default_tvl_drop_rule name)\<lparr>tr_contagion_enabled := False\<rparr>"

definition half_time :: datetime where
  "half_time = 60 * nanos_per_sec"

definition half_points :: "TvlSamplePoint list" where
  "half_points = [\<lparr>tp_observed_at = 0, tp_tvl_usd = Fin False 4000000\<rparr>,
     \<lparr>tp_observed_at = half_time, tp_tvl_usd = Fin False 2000000\<rparr>]"

lemma half_pack: "pack False (1 / 2) = Fin False (1 / 2)"
  by code_simp

lemma half_drop: "drop_pct_of (Fin False 4000000) (Fin False 2000000) = Fin False 50"
  by (simp add: drop_pct_of_def f64_eval half_pack)

lemma half_seconds: "num_seconds half_time = 60"
  by (simp add: num_seconds_def half_time_def nanos_per_sec_def)

lemma half_before: "m \<in> {2, 5, 10, 60} \<Longrightarrow> \<exists>t \<le> 0. minutes_before half_libs half_time m = Inr t"
  by (auto simp: minutes_before_def half_libs_def half_time_def nanos_per_sec_def)

lemma half_since: "c \<le> 0 \<Longrightarrow> points_since c half_points = half_points"
  by (simp add: points_since_def half_points_def half_time_def nanos_per_sec_def)

lemma half_push: "push_sample half_libs (half_rule name) half_time (Fin False 2000000) (ts_samples half_state) = Inr half_points"
proof -
  obtain t where t: "t \<le> 0" "minutes_before half_libs half_time 60 = Inr t" using half_before [of 60] by auto
  have "max_window (half_rule name) = 60"
    by (simp add: max_window_def half_rule_def default_tvl_drop_rule_def DEFAULT_FAST_WINDOW_MINUTES_def
        DEFAULT_SLOW_WINDOW_MINUTES_def DEFAULT_VELOCITY_WINDOW_MINUTES_def DEFAULT_CONCURRENT_WINDOW_MINUTES_def)
  moreover have "sort_by tvl_observed_le (ts_samples half_state @ [\<lparr>tp_observed_at = half_time, tp_tvl_usd = Fin False 2000000\<rparr>]) = half_points"
    by (simp add: half_state_def half_points_def sort_by_def tvl_observed_le_def half_time_def nanos_per_sec_def)
  ultimately show ?thesis using t half_since by (simp add: push_sample_def)
qed

lemma half_window:
  assumes "m \<in> {2, 5, 10, 60}"
  shows "analyze_window half_libs half_points half_time m
    = Inr \<lparr>wa_reference_tvl_usd = Some (Fin False 4000000), wa_current_tvl_usd = Some (Fin False 2000000),
           wa_drop_pct = Fin False 50, wa_time_to_reach = Some (Fin False 1)\<rparr>"
proof -
  obtain t where t: "t \<le> 0" "minutes_before half_libs half_time m = Inr t" using half_before [OF assms] by auto
  have "analyze_points half_points = \<lparr>wa_reference_tvl_usd = Some (Fin False 4000000), wa_current_tvl_usd = Some (Fin False 2000000),
           wa_drop_pct = Fin False 50, wa_time_to_reach = Some (Fin False 1)\<rparr>"
    by (simp add: analyze_points_def half_points_def half_drop half_seconds f64_eval)
  then show ?thesis using t half_since by (simp add: analyze_window_def) (simp add: half_points_def)
qed

lemmas half_rule_fields =
  half_rule_def default_tvl_drop_rule_def DEFAULT_FAST_WINDOW_MINUTES_def DEFAULT_SLOW_WINDOW_MINUTES_def
  DEFAULT_VELOCITY_WINDOW_MINUTES_def DEFAULT_CONCURRENT_WINDOW_MINUTES_def DEFAULT_FAST_DROP_PCT_def
  DEFAULT_SLOW_DROP_PCT_def DEFAULT_VELOCITY_CRITICAL_PCT_def DEFAULT_MIN_TVL_FLOOR_USD_def

lemma half_velocity: "\<exists>v. max_one_minute_drop_pct half_libs half_points half_time 10 = Inr v"
  using half_before [of 10] by (auto simp: max_one_minute_drop_pct_def Let_def)

lemma half_sample:
  assumes "ts_samples st = ts_samples half_state" "has_deposit st"
  shows "\<exists>ev. process_state_sample half_libs (half_rule name) st (Fin False 2000000) half_time
      = Inr (st\<lparr>ts_samples := half_points\<rparr>, ev) \<and> tv_base_severity ev = Some Critical"
proof -
  have w: "tr_fast_window_minutes (half_rule name) = 10" "tr_slow_window_minutes (half_rule name) = 60"
    by (simp_all add: half_rule_fields)
  have b: "breached_branch (half_rule name) (Fin False 50) (Fin False 50) (Some (Fin False 1)) = Some (Critical, ''velocity'')"
    "tr_min_tvl_floor_usd (half_rule name) \<le> Fin False 4000000"
    by (simp_all add: breached_branch_def below_def half_rule_fields f64_eval)
  obtain v where v: "max_one_minute_drop_pct half_libs half_points half_time 10 = Inr v" using half_velocity by blast
  show ?thesis
    using half_window [of 10] half_window [of 60] v b
    by (simp add: process_state_sample_def assms half_push w Let_def)
qed

lemma half_step:
  assumes "ts_samples st = ts_samples half_state" "has_deposit st" "ts_last_severity st = None"
  shows "\<exists>out. tvl_rule_step half_libs (half_rule name) st (Fin False 2000000) (Inr False) half_time = Inr out
     \<and> to_transition out = Some Trigger \<and> to_severity out = Critical"
proof -
  obtain ev where ev: "process_state_sample half_libs (half_rule name) st (Fin False 2000000) half_time
      = Inr (st\<lparr>ts_samples := half_points\<rparr>, ev)" "tv_base_severity ev = Some Critical"
    using half_sample [OF assms(1,2)] by blast
  have "\<not> tr_contagion_enabled (half_rule name)" by (simp add: half_rule_def)
  with ev show ?thesis
    by (simp add: tvl_rule_step_def assess_severity_def assms(3) clamp_severity_def sample_transition_def Let_def)
qed

definition half_event :: UnifiedEvent where
  "half_event =
     \<lparr>ue_event_id = [], ue_tenant_id = ''t'', ue_source_id = ''b'', ue_source_type = CexWebsocket,
      ue_event_type = ''protocol_tvl'', ue_timestamp = 0,
      ue_payload = JObject [(''protocol_id'', JString ''aave_v3''), (''chain_slug'', JString ''base''),
        (''tvl_usd'', JNumber (PosInt 2000000))], ue_chain_id = None,
      ue_block_number = None, ue_tx_hash = None, ue_market_key = None, ue_price = None\<rparr>"

definition half_pattern :: TvlDropPattern where
  "half_pattern = TvlDropPattern_default\<lparr>td_configs := [''t'' \<mapsto> [half_rule ''r1'', half_rule ''r2'']]\<rparr>"

definition half_world :: world where
  "half_world = \<lparr>w_states = (\<lambda>_. Some JNull), w_snapshots = [], w_raw_events = [], w_detections = [], w_published = []\<rparr>"

definition calm_env :: environment where
  "calm_env = \<lparr>en_fails = (\<lambda>_. False), en_detection_uuid = [], en_tx_uuid = []\<rparr>"

lemma half_strings:
  "trim ''aave_v3'' = ''aave_v3''" "to_ascii_lowercase ''aave_v3'' = ''aave_v3''" "trim ''base'' = ''base''"
  "to_ascii_lowercase ''base'' = ''base''" "eq_ignore_ascii_case ''aave_v3'' ''aave_v3''"
  "eq_ignore_ascii_case ''base'' ''base''" "\<not> eq_ignore_ascii_case ''protocol'' ''market''"
  by code_simp+

definition half_reading :: TvlStateEvent where
  "half_reading =
     \<lparr>te_protocol_id = ''aave_v3'', te_chain_slug = ''base'', te_market_id = None, te_tvl_usd = Fin False 2000000,
      te_block_number = 0, te_tx_hash = None\<rparr>"

lemma half_parsed: "parse_tvl_state_event half_event = Some half_reading"
  by (simp add: parse_tvl_state_event_def half_event_def half_reading_def tvl_event_protocol_def tvl_event_chain_def
      tvl_event_market_def tvl_event_block_def tvl_event_tx_def proper_market_def or_else_def value_to_f64_def half_strings
      non_empty_def f64_eval)

lemma half_subject:
  "tvl_subject_for_event (half_rule name) None = Some (''protocol'', ''aave_v3:base'', ''aave_v3:base'')"
  by (simp add: tvl_subject_for_event_def tvl_normalized_scope_def half_rule_def default_tvl_drop_rule_def half_strings Let_def)

lemma half_matches: "tvl_matches (half_rule name) ''aave_v3'' ''base'' None" "tr_enabled (half_rule name)"
    "\<not> tr_contagion_enabled (half_rule name)" "tr_rule_id (half_rule name) = name"
  by (simp_all add: tvl_matches_def tvl_normalized_scope_def half_rule_def default_tvl_drop_rule_def half_strings)

lemma half_round_trip: "severity_round_trip half_libs"
  by (auto simp: severity_round_trip_def half_libs_def j_opt_def split: option.splits)

lemma half_load:
  "tvl_load_state half_libs calm_env t k half_world = Inr half_state"
  by (simp add: tvl_load_state_def load_pattern_state_def calm_env_def half_world_def half_libs_def half_state_def
      TvlRuleState_default_def)

lemma half_steps:
  "\<exists>out. tvl_rule_step half_libs (half_rule name) (with_event_metadata half_event ''aave_v3:base'' half_state)
     (Fin False 2000000) (Inr False) half_time = Inr out \<and> to_transition out = Some Trigger \<and> to_severity out = Critical"
  by (rule half_step)
     (simp_all add: with_event_metadata_def half_state_def TvlRuleState_default_def has_deposit_def half_event_def or_else_def
       get_bool_def)

definition lone_pattern :: TvlDropPattern where
  "lone_pattern = TvlDropPattern_default\<lparr>td_configs := [''t'' \<mapsto> [half_rule ''r1'']]\<rparr>"

lemma lone_rules: "tvl_rules_for lone_pattern half_event = Some [half_rule ''r1'']"
  by (simp add: tvl_rules_for_def lone_pattern_def TvlDropPattern_default_def half_event_def)

lemma half_detects:
  "\<exists>pt' w' d. tvl_process_event half_libs calm_env half_event half_time lone_pattern half_world = (pt', w', Inr (Some d))
     \<and> dr_incident_transition d = Some Trigger"
proof -
  obtain out where o: "tvl_rule_step half_libs (half_rule ''r1'') (with_event_metadata half_event ''aave_v3:base'' half_state)
     (Fin False 2000000) (Inr False) half_time = Inr out" "to_transition out = Some Trigger"
    using half_steps by blast
  have m: "te_market_id half_reading = None" "te_tvl_usd half_reading = Fin False 2000000"
    "te_protocol_id half_reading = ''aave_v3''" "te_chain_slug half_reading = ''base''"
    by (simp_all add: half_reading_def)
  have works: "\<not> en_fails calm_env f" "tl_add_secs half_libs half_time s \<noteq> None" for f s
    by (simp_all add: calm_env_def half_libs_def)
  have v: "tl_ser_state half_libs (to_state out) = Inr (j_opt JString (ts_last_severity (to_state out)))"
    by (simp add: half_libs_def)
  obtain pt' w' ms where "tvl_sample_rule half_libs calm_env half_event half_reading half_time (half_rule ''r1'') lone_pattern half_world None
      = (pt', w', Inr (case to_transition out of None \<Rightarrow> None | Some t \<Rightarrow> tvl_pick_higher_severity None
          (with_at_risk_markets ms (build_tvl_detection half_libs calm_env half_event (half_rule ''r1'')
           ''protocol'' ''aave_v3:base'' out t half_reading half_time))))"
    by (rule tvl_sample_rule_computes [OF half_subject [folded m(1)] refl half_load half_matches(3) o(1) [folded m(2)] works v])
  then have "tvl_sample_rule half_libs calm_env half_event half_reading half_time (half_rule ''r1'') lone_pattern half_world None
      = (pt', w', Inr (Some (with_at_risk_markets ms (build_tvl_detection half_libs calm_env half_event (half_rule ''r1'')
           ''protocol'' ''aave_v3:base'' out Trigger half_reading half_time))))"
    by (simp add: o(2) tvl_pick_higher_severity_def)
  then have "tvl_process_event half_libs calm_env half_event half_time lone_pattern half_world
      = (pt', w', Inr (Some (with_at_risk_markets ms (build_tvl_detection half_libs calm_env half_event (half_rule ''r1'')
           ''protocol'' ''aave_v3:base'' out Trigger half_reading half_time))))"
    by (simp add: tvl_process_event_def lone_rules half_parsed half_matches m)
  then show ?thesis by simp
qed

theorem tvl_alerts_are_justified_witness:
  "\<exists>pt' w' d r. tvl_process_event half_libs calm_env half_event half_time lone_pattern half_world = (pt', w', Inr (Some d))
     \<and> r \<in> {half_rule ''r1''} \<and> dr_triggered_rule_ids d = [''tvl_drop.'' @ tr_rule_id r] \<and> High \<le> dr_severity d"
proof -
  obtain pt' w' d where d: "tvl_process_event half_libs calm_env half_event half_time lone_pattern half_world = (pt', w', Inr (Some d))"
    using half_detects by blast
  have "td_configs lone_pattern (ue_tenant_id half_event) = Some [half_rule ''r1'']"
    by (simp add: lone_pattern_def half_event_def)
  with tvl_alerts_are_justified [OF d half_parsed] d show ?thesis by auto
qed

theorem tvl_incidents_never_end_witness:
  "\<exists>pt' w' d. tvl_process_event half_libs calm_env half_event half_time lone_pattern half_world = (pt', w', Inr (Some d))
     \<and> dr_incident_transition d \<in> Some ` {Trigger, Escalate, Update}"
proof -
  obtain pt' w' d where d: "tvl_process_event half_libs calm_env half_event half_time lone_pattern half_world = (pt', w', Inr (Some d))"
    using half_detects by blast
  with tvl_incidents_never_end [OF half_round_trip d] show ?thesis by blast
qed

theorem tvl_drops_are_percentages_witness:
  "\<exists>st' ev. process_state_sample half_libs (half_rule ''r1'') half_state (Fin False 2000000) half_time = Inr (st', ev)
     \<and> samples_ok (ts_samples st') \<and> 0 \<le> tv_selected_drop_pct ev \<and> tv_selected_drop_pct ev \<le> lit 100"
proof -
  have "ts_samples half_state = ts_samples half_state" "has_deposit half_state"
    by (simp_all add: half_state_def TvlRuleState_default_def has_deposit_def)
  from half_sample [OF this] obtain st' ev where
    ev: "process_state_sample half_libs (half_rule ''r1'') half_state (Fin False 2000000) half_time = Inr (st', ev)" by blast
  have "Fin False 4000000 = lit 4000000" "Fin False 2000000 = lit 2000000" by (simp_all add: f64_eval)
  then have "representable (Fin False 4000000)" "representable (Fin False 2000000)" by (simp_all only: representable_lit)
  then have "samples_ok (ts_samples half_state)" "positive_finite (Fin False 2000000)"
    by (simp_all add: samples_ok_def half_state_def TvlRuleState_default_def positive_finite_def f64_eval)
  from tvl_drops_are_percentages [OF ev this] ev show ?thesis by blast
qed

end
