(* ===== verification/UtilEngine.thy ===== *)
theory UtilEngine
  imports StateCache "HOL-Library.Word"
begin

text \<open>
  The rules of the utilisation pattern and the evaluation of one reading,
  \<^verbatim>\<open>apps/detector/src/patterns/utilization_high.rs\<close>: thresholds with a hysteresis gap, the incident with
  its trigger, its escalations and its resolution after a number of calm readings in a row, suspended
  while the protocol is paused. Counters are 32-bit words, as in the code.
\<close>

section \<open>Rules\<close>

record UtilizationHighRule =
  ur_rule_id :: string
  ur_protocol_id :: string
  ur_chain_slug :: string
  ur_scope :: string
  ur_market_id :: "string option"
  ur_medium_threshold_pct :: f64
  ur_high_threshold_pct :: f64
  ur_critical_threshold_pct :: f64
  ur_resolution_medium_pct :: f64
  ur_resolution_high_pct :: f64
  ur_resolution_critical_pct :: f64
  ur_resolution_confirmation_blocks :: "32 word"
  ur_min_tvl_floor_usd :: f64
  ur_enabled :: bool

text \<open>A rule that names only its subject: the defaults of every other field.\<close>

definition util_default_rule :: "string \<Rightarrow> string \<Rightarrow> string \<Rightarrow> string \<Rightarrow> string option \<Rightarrow> UtilizationHighRule" where
  "util_default_rule rule_id protocol_id chain_slug scope market_id =
     \<lparr>ur_rule_id = rule_id, ur_protocol_id = protocol_id, ur_chain_slug = chain_slug, ur_scope = scope,
      ur_market_id = market_id, ur_medium_threshold_pct = lit 90, ur_high_threshold_pct = lit 95,
      ur_critical_threshold_pct = lit 99, ur_resolution_medium_pct = lit 85, ur_resolution_high_pct = lit 88,
      ur_resolution_critical_pct = lit 90, ur_resolution_confirmation_blocks = 10,
      ur_min_tvl_floor_usd = lit 500000, ur_enabled = True\<rparr>"

definition util_validate :: "UtilizationHighRule \<Rightarrow> unit res" where
  "util_validate r =
     (if trim (ur_rule_id r) = [] then Inl (Err ''rule_id must be non-empty'')
      else if trim (ur_protocol_id r) = [] then Inl (Err ''protocol_id must be non-empty'')
      else if trim (ur_chain_slug r) = [] then Inl (Err ''chain_slug must be non-empty'')
      else if eq_ignore_ascii_case (ur_scope r) ''market'' \<and> trim (unwrap_or (ur_market_id r) []) = []
        then Inl (Err ''market scope requires market_id'')
      else if ur_high_threshold_pct r \<le> ur_medium_threshold_pct r
        then Inl (Err ''medium_threshold_pct must be < high_threshold_pct'')
      else if ur_critical_threshold_pct r \<le> ur_high_threshold_pct r
        then Inl (Err ''high_threshold_pct must be < critical_threshold_pct'')
      else if ur_medium_threshold_pct r \<le> ur_resolution_medium_pct r
        then Inl (Err ''resolution_medium_pct must be < medium_threshold_pct (hysteresis gap)'')
      else if ur_high_threshold_pct r \<le> ur_resolution_high_pct r
        then Inl (Err ''resolution_high_pct must be < high_threshold_pct (hysteresis gap)'')
      else if ur_critical_threshold_pct r \<le> ur_resolution_critical_pct r
        then Inl (Err ''resolution_critical_pct must be < critical_threshold_pct (hysteresis gap)'')
      else if ur_resolution_confirmation_blocks r = 0
        then Inl (Err ''resolution_confirmation_blocks must be >= 1'')
      else if ur_min_tvl_floor_usd r < 0 then Inl (Err ''min_tvl_floor_usd must be >= 0'')
      else Inr ())"

definition util_normalized_scope :: "UtilizationHighRule \<Rightarrow> string" where
  "util_normalized_scope r =
     (if eq_ignore_ascii_case (ur_scope r) ''market'' then ''market'' else ''protocol'')"

definition util_matches :: "UtilizationHighRule \<Rightarrow> string \<Rightarrow> string \<Rightarrow> string option \<Rightarrow> bool" where
  "util_matches r protocol_id chain_slug market_id =
     (if \<not> eq_ignore_ascii_case (ur_protocol_id r) protocol_id then False
      else if \<not> eq_ignore_ascii_case (ur_chain_slug r) chain_slug then False
      else if util_normalized_scope r = ''market'' then
        eq_ignore_ascii_case (unwrap_or (ur_market_id r) []) (unwrap_or market_id [])
      else True)"

text \<open>The type and the key of the subject; the third component of the source's result is not used.\<close>

definition util_subject_for_event :: "UtilizationHighRule \<Rightarrow> string option \<Rightarrow> (string \<times> string) option" where
  "util_subject_for_event r market_id =
     (let protocol_key = to_ascii_lowercase (ur_protocol_id r) @ '':'' @ to_ascii_lowercase (ur_chain_slug r)
      in if util_normalized_scope r = ''market'' then
           map_option (\<lambda>market. (''market'', protocol_key @ '':'' @ to_ascii_lowercase market))
             (trimmed (or_else (ur_market_id r) market_id))
         else Some (''protocol'', protocol_key))"

definition resolution_threshold_for :: "UtilizationHighRule \<Rightarrow> string \<Rightarrow> f64" where
  "resolution_threshold_for r severity =
     (if severity = ''critical'' then ur_resolution_critical_pct r
      else if severity = ''high'' then ur_resolution_high_pct r
      else ur_resolution_medium_pct r)"

section \<open>State and outcome\<close>

record UtilizationSample =
  us_observed_at :: datetime
  us_utilization_pct :: f64

record UtilizationRuleState =
  ust_last_severity :: "string option"
  ust_active_since :: "datetime option"
  ust_last_breach_at :: "datetime option"
  ust_last_transition_at :: "datetime option"
  ust_paused_status :: bool
  ust_resolution_block_counter :: "32 word"
  ust_samples :: "UtilizationSample list"
  ust_escalation_count :: "32 word"

definition UtilizationRuleState_default :: UtilizationRuleState where
  "UtilizationRuleState_default =
     \<lparr>ust_last_severity = None, ust_active_since = None, ust_last_breach_at = None, ust_last_transition_at = None,
      ust_paused_status = False, ust_resolution_block_counter = 0, ust_samples = [], ust_escalation_count = 0\<rparr>"

datatype RecommendedAction = EmergencyWithdraw | MonitorForUnpause | WithdrawMaxAvailable | Monitor

fun recommended_action_str :: "RecommendedAction \<Rightarrow> string" where
  "recommended_action_str EmergencyWithdraw = ''EMERGENCY_WITHDRAW''"
| "recommended_action_str MonitorForUnpause = ''MONITOR_FOR_UNPAUSE''"
| "recommended_action_str WithdrawMaxAvailable = ''WITHDRAW_MAX_AVAILABLE''"
| "recommended_action_str Monitor = ''MONITOR''"

definition recommended_action_for :: "Severity \<Rightarrow> bool \<Rightarrow> RecommendedAction" where
  "recommended_action_for severity paused =
     (if paused then MonitorForUnpause
      else if severity = Critical then EmergencyWithdraw
      else if severity = High then WithdrawMaxAvailable
      else Monitor)"

record UtilizationEvalResult =
  uv_tvl_floor_suppressed :: bool
  uv_transition :: "IncidentTransition option"
  uv_emit_severity :: "Severity option"
  uv_resolved :: bool
  uv_resolved_from_severity :: "Severity option"
  uv_recommended_action :: "RecommendedAction option"
  uv_incident_active_since :: "datetime option"
  uv_escalation_count :: "32 word"

definition UtilizationEvalResult_default :: UtilizationEvalResult where
  "UtilizationEvalResult_default =
     \<lparr>uv_tvl_floor_suppressed = False, uv_transition = None, uv_emit_severity = None, uv_resolved = False,
      uv_resolved_from_severity = None, uv_recommended_action = None, uv_incident_active_since = None,
      uv_escalation_count = 0\<rparr>"

section \<open>Severities\<close>

definition util_severity_from_str :: "string option \<Rightarrow> Severity option" where
  "util_severity_from_str s =
     Option.bind s (map_of [(''critical'', Critical), (''high'', High), (''medium'', Medium)])"

fun util_severity_to_str :: "Severity \<Rightarrow> string" where
  "util_severity_to_str Critical = ''critical''"
| "util_severity_to_str High = ''high''"
| "util_severity_to_str Medium = ''medium''"
| "util_severity_to_str Low = ''low''"
| "util_severity_to_str Info = ''info''"

fun util_severity_rank :: "Severity option \<Rightarrow> nat" where
  "util_severity_rank (Some Critical) = 4"
| "util_severity_rank (Some High) = 3"
| "util_severity_rank (Some Medium) = 2"
| "util_severity_rank (Some Low) = 1"
| "util_severity_rank _ = 0"

definition classify_severity :: "f64 \<Rightarrow> UtilizationHighRule \<Rightarrow> Severity option" where
  "classify_severity utilization_pct r =
     (if ur_critical_threshold_pct r \<le> utilization_pct then Some Critical
      else if ur_high_threshold_pct r \<le> utilization_pct then Some High
      else if ur_medium_threshold_pct r \<le> utilization_pct then Some Medium
      else None)"

section \<open>Evaluation\<close>

text \<open>
  What is relied on outside the repository: \<open>ul_add_secs\<close> adds seconds to a time where the result is in
  chrono's range, \<open>ul_fmt2\<close> and \<open>ul_fmt2_signed\<close> render with two decimals, and rules and states are
  (de)serialised by derived code.
\<close>

record util_libs =
  ul_add_secs :: "datetime \<Rightarrow> int \<Rightarrow> datetime option"
  ul_min_utc :: datetime
  ul_rfc3339 :: "datetime \<Rightarrow> string"
  ul_fmt2 :: "f64 \<Rightarrow> string"
  ul_fmt2_signed :: "f64 \<Rightarrow> string"
  ul_time_json :: "datetime \<Rightarrow> json"
  ul_de_rule :: "json \<Rightarrow> UtilizationHighRule option"
  ul_de_state :: "json \<Rightarrow> UtilizationRuleState option"
  ul_ser_state :: "UtilizationRuleState \<Rightarrow> json res"

definition minutes_ago :: "'a util_libs_scheme \<Rightarrow> datetime \<Rightarrow> int \<Rightarrow> datetime res" where
  "minutes_ago L now m =
     (case ul_add_secs L now (- (60 * m)) of
        None \<Rightarrow> Inl (Panic ''DateTime - Duration overflowed'')
      | Some t \<Rightarrow> Inr t)"

definition util_observed_le :: "UtilizationSample \<Rightarrow> UtilizationSample \<Rightarrow> bool" where
  "util_observed_le a b \<longleftrightarrow> us_observed_at a \<le> us_observed_at b"

definition push_utilization ::
  "'a util_libs_scheme \<Rightarrow> datetime \<Rightarrow> f64 \<Rightarrow> UtilizationSample list \<Rightarrow> UtilizationSample list res" where
  "push_utilization L now utilization_pct samples =
     bind_res (minutes_ago L now 61) (\<lambda>cutoff.
       Inr (filter (\<lambda>s. cutoff \<le> us_observed_at s)
         (sort_by util_observed_le (samples @ [\<lparr>us_observed_at = now, us_utilization_pct = utilization_pct\<rparr>]))))"

definition below_tvl_floor :: "UtilizationHighRule \<Rightarrow> f64 \<Rightarrow> bool" where
  "below_tvl_floor r tvl_usd \<longleftrightarrow> tvl_usd < ur_min_tvl_floor_usd r \<and> 0 < tvl_usd"

definition first_breach ::
  "UtilizationRuleState \<Rightarrow> Severity \<Rightarrow> datetime \<Rightarrow> UtilizationRuleState \<times> UtilizationEvalResult" where
  "first_breach st sev now =
     (st\<lparr>ust_active_since := Some now, ust_last_breach_at := Some now,
         ust_last_severity := Some (util_severity_to_str sev), ust_resolution_block_counter := 0,
         ust_escalation_count := 0, ust_last_transition_at := Some now\<rparr>,
      UtilizationEvalResult_default
        \<lparr>uv_transition := Some Trigger, uv_emit_severity := Some sev,
         uv_recommended_action := Some (recommended_action_for sev (ust_paused_status st))\<rparr>)"

definition further_breach ::
  "UtilizationRuleState \<Rightarrow> Severity \<Rightarrow> Severity \<Rightarrow> datetime \<Rightarrow> UtilizationRuleState \<times> UtilizationEvalResult" where
  "further_breach st prev new now =
     (if util_severity_rank (Some prev) < util_severity_rank (Some new) then
        (st\<lparr>ust_last_severity := Some (util_severity_to_str new), ust_last_breach_at := Some now,
            ust_resolution_block_counter := 0, ust_escalation_count := ust_escalation_count st + 1,
            ust_last_transition_at := Some now\<rparr>,
         UtilizationEvalResult_default
           \<lparr>uv_transition := Some Escalate, uv_emit_severity := Some new,
            uv_recommended_action := Some (recommended_action_for new (ust_paused_status st))\<rparr>)
      else (st\<lparr>ust_last_breach_at := Some now, ust_resolution_block_counter := 0\<rparr>,
            UtilizationEvalResult_default))"

definition calm_reading ::
  "UtilizationHighRule \<Rightarrow> UtilizationRuleState \<Rightarrow> Severity \<Rightarrow> f64 \<Rightarrow> datetime
     \<Rightarrow> UtilizationRuleState \<times> UtilizationEvalResult" where
  "calm_reading r st prev utilization_pct now =
     (let threshold = resolution_threshold_for r (unwrap_or (ust_last_severity st) ''medium'') in
      if utilization_pct < threshold \<and> \<not> ust_paused_status st then
        (let st1 = st\<lparr>ust_resolution_block_counter := ust_resolution_block_counter st + 1\<rparr> in
         if ur_resolution_confirmation_blocks r \<le> ust_resolution_block_counter st1 then
           (st1\<lparr>ust_last_severity := None, ust_active_since := None, ust_last_breach_at := None,
                ust_last_transition_at := Some now, ust_resolution_block_counter := 0, ust_escalation_count := 0\<rparr>,
            UtilizationEvalResult_default
              \<lparr>uv_transition := Some Resolve, uv_resolved := True, uv_resolved_from_severity := Some prev,
               uv_incident_active_since := ust_active_since st1, uv_escalation_count := ust_escalation_count st1\<rparr>)
         else (st1, UtilizationEvalResult_default))
      else if threshold \<le> utilization_pct then
        (st\<lparr>ust_resolution_block_counter := 0\<rparr>, UtilizationEvalResult_default)
      else (st, UtilizationEvalResult_default))"

text \<open>The fields of the result that describe the state after the evaluation.\<close>

definition complete_result :: "UtilizationRuleState \<Rightarrow> UtilizationEvalResult \<Rightarrow> UtilizationEvalResult" where
  "complete_result st res =
     res\<lparr>uv_recommended_action :=
           or_else (uv_recommended_action res)
             (map_option (\<lambda>sev. recommended_action_for sev (ust_paused_status st))
               (util_severity_from_str (ust_last_severity st))),
         uv_incident_active_since := or_else (uv_incident_active_since res) (ust_active_since st),
         uv_escalation_count :=
           (if 0 < ust_escalation_count st then ust_escalation_count st else uv_escalation_count res)\<rparr>"

definition evaluate_utilization_state ::
  "'a util_libs_scheme \<Rightarrow> UtilizationHighRule \<Rightarrow> UtilizationRuleState \<Rightarrow> f64 \<Rightarrow> f64 \<Rightarrow> datetime
     \<Rightarrow> (UtilizationRuleState \<times> UtilizationEvalResult) res" where
  "evaluate_utilization_state L r st utilization_pct tvl_usd now =
     (if below_tvl_floor r tvl_usd
      then Inr (st, UtilizationEvalResult_default\<lparr>uv_tvl_floor_suppressed := True\<rparr>)
      else bind_res (push_utilization L now utilization_pct (ust_samples st)) (\<lambda>samples.
        (let st0 = st\<lparr>ust_samples := samples\<rparr>;
             (st1, res) =
               (case (util_severity_from_str (ust_last_severity st), classify_severity utilization_pct r) of
                  (None, Some sev) \<Rightarrow> first_breach st0 sev now
                | (Some prev, Some new) \<Rightarrow> further_breach st0 prev new now
                | (Some prev, None) \<Rightarrow> calm_reading r st0 prev utilization_pct now
                | (None, None) \<Rightarrow> (st0, UtilizationEvalResult_default))
         in Inr (st1, complete_result st1 res))))"

end
