(* ===== verification/UtilPattern.thy ===== *)
theory UtilPattern
  imports UtilEngine
begin

text \<open>
  The stateful part of \<^verbatim>\<open>apps/detector/src/patterns/utilization_high.rs\<close>: the reading of events and of
  rules, the detections, the pattern with its cache of states, and \<^verbatim>\<open>process_event\<close> for readings of a
  market's utilisation and for pause signals. The cache is a list, in whose order the other active
  incidents are reported.
\<close>

section \<open>Reading events\<close>

record UtilizationStateEvent =
  uo_protocol_id :: string
  uo_chain_slug :: string
  uo_market_id :: "string option"
  uo_utilization_pct :: f64
  uo_tvl_usd :: f64
  uo_total_supplied_tokens :: f64
  uo_total_borrowed_tokens :: f64
  uo_block_number :: int
  uo_tx_hash :: "string option"

record UtilizationPauseEvent =
  up_protocol_id :: string
  up_chain_slug :: string
  up_market_id :: "string option"
  up_paused :: bool
  up_block_number :: int
  up_tx_hash :: "string option"

definition util_chain :: "(string \<times> json) list \<Rightarrow> string" where
  "util_chain payload = unwrap_or (Option.bind (map_of payload ''chain_slug'') as_str) ''base''"

definition util_market :: "(string \<times> json) list \<Rightarrow> string option" where
  "util_market payload = Option.bind (Option.bind (map_of payload ''market_id'') as_str) non_empty"

definition util_block :: "UnifiedEvent \<Rightarrow> (string \<times> json) list \<Rightarrow> int" where
  "util_block event payload =
     unwrap_or (or_else (Option.bind (map_of payload ''block_number'') as_i64) (ue_block_number event)) 0"

definition util_tx :: "UnifiedEvent \<Rightarrow> (string \<times> json) list \<Rightarrow> string option" where
  "util_tx event payload = or_else (Option.bind (map_of payload ''tx_hash'') as_str) (ue_tx_hash event)"

text \<open>A number under the first of two names that is present.\<close>

definition number_at :: "(string \<times> json) list \<Rightarrow> string \<Rightarrow> string \<Rightarrow> f64 option" where
  "number_at payload k k' = Option.bind (or_else (map_of payload k) (map_of payload k')) as_f64"

text \<open>A ratio becomes a percentage; a number above one is taken for a percentage already.\<close>

definition as_percentage :: "f64 \<Rightarrow> f64" where
  "as_percentage raw = (if raw \<le> lit 1 then raw * lit 100 else raw)"

definition parse_utilization_state_event :: "UnifiedEvent \<Rightarrow> UtilizationStateEvent option" where
  "parse_utilization_state_event event =
     (if \<not> eq_ignore_ascii_case (ue_event_type event) ''protocol_state'' then None
      else
        Option.bind (as_object (ue_payload event)) (\<lambda>payload.
        Option.bind (Option.bind (map_of payload ''metric'') as_str) (\<lambda>metric.
        if \<not> eq_ignore_ascii_case metric ''utilization'' then None
        else
          Option.bind (Option.bind (map_of payload ''protocol_id'') as_str) (\<lambda>protocol_id.
          Option.bind (number_at payload ''utilization'' ''current_utilization'') (\<lambda>raw.
            Some \<lparr>uo_protocol_id = protocol_id, uo_chain_slug = util_chain payload,
                  uo_market_id = util_market payload, uo_utilization_pct = as_percentage raw,
                  uo_tvl_usd = unwrap_or (number_at payload ''tvl_usd'' ''window_start_tvl_usd'') 0,
                  uo_total_supplied_tokens =
                    unwrap_or (number_at payload ''total_supplied_tokens'' ''total_supplied'') 0,
                  uo_total_borrowed_tokens =
                    unwrap_or (number_at payload ''total_borrowed_tokens'' ''total_borrowed'') 0,
                  uo_block_number = util_block event payload, uo_tx_hash = util_tx event payload\<rparr>)))))"

definition parse_utilization_pause_event :: "UnifiedEvent \<Rightarrow> UtilizationPauseEvent option" where
  "parse_utilization_pause_event event =
     (if \<not> eq_ignore_ascii_case (ue_event_type event) ''protocol_pause'' then None
      else
        Option.bind (as_object (ue_payload event)) (\<lambda>payload.
        Option.bind (Option.bind (map_of payload ''protocol_id'') as_str) (\<lambda>protocol_id.
          Some \<lparr>up_protocol_id = protocol_id, up_chain_slug = util_chain payload,
                up_market_id = util_market payload,
                up_paused = unwrap_or (Option.bind (map_of payload ''paused'') as_bool) True,
                up_block_number = util_block event payload, up_tx_hash = util_tx event payload\<rparr>)))"

section \<open>The pattern\<close>

definition UTIL_PATTERN_ID :: string where
  "UTIL_PATTERN_ID = ''utilization_high''"

definition UTILIZATION_STATE_CACHE_TTL_HOURS :: int where
  "UTILIZATION_STATE_CACHE_TTL_HOURS = 24"

definition UTILIZATION_STATE_CACHE_MAX_ENTRIES :: nat where
  "UTILIZATION_STATE_CACHE_MAX_ENTRIES = 4096"

record UtilizationHighPattern =
  uh_configs :: "string \<Rightarrow> UtilizationHighRule list option"
  uh_state_cache :: "(string \<times> UtilizationRuleState) list"
  uh_source_bindings :: "string \<Rightarrow> string set option"

definition UtilizationHighPattern_default :: UtilizationHighPattern where
  "UtilizationHighPattern_default =
     \<lparr>uh_configs = Map.empty, uh_state_cache = [], uh_source_bindings = Map.empty\<rparr>"

definition util_parsed_rule :: "'a util_libs_scheme \<Rightarrow> string \<Rightarrow> json \<Rightarrow> UtilizationHighRule option" where
  "util_parsed_rule L tenant_id raw =
     Option.bind (ul_de_rule L raw) (\<lambda>r0.
       (let r = (if trim (ur_rule_id r0) = []
                 then r0\<lparr>ur_rule_id := tenant_id @ ''-utilization-high-default''\<rparr> else r0)
        in if util_validate r = Inr () then Some r else None))"

definition parse_utilization_rules :: "'a util_libs_scheme \<Rightarrow> json \<Rightarrow> string \<Rightarrow> UtilizationHighRule list" where
  "parse_utilization_rules L config tenant_id =
     List.map_filter (util_parsed_rule L tenant_id)
       (case Option.bind (j_get config ''rules'') as_array of
          Some arr \<Rightarrow> arr
        | None \<Rightarrow> if as_object config \<noteq> None then [config] else [])"

definition util_reload_entry ::
  "'a util_libs_scheme \<Rightarrow> (string \<times> string) \<times> json \<Rightarrow> UtilizationHighPattern \<Rightarrow> UtilizationHighPattern" where
  "util_reload_entry L = (\<lambda>((tenant_id, pattern_id), config) acc.
     (if pattern_id \<noteq> UTIL_PATTERN_ID then acc
      else acc\<lparr>uh_configs := (uh_configs acc)
                 (tenant_id \<mapsto> parse_utilization_rules L (extract_detection_config config) tenant_id),
               uh_source_bindings :=
                 (case extract_bound_source_ids config of
                    None \<Rightarrow> uh_source_bindings acc
                  | Some bound \<Rightarrow> (uh_source_bindings acc)(tenant_id \<mapsto> bound))\<rparr>))"

definition util_reload_config ::
  "'a util_libs_scheme \<Rightarrow> ((string \<times> string) \<times> json) list \<Rightarrow> UtilizationHighPattern \<Rightarrow> UtilizationHighPattern" where
  "util_reload_config L config_map pt =
     (let new = fold (util_reload_entry L) config_map UtilizationHighPattern_default
      in pt\<lparr>uh_configs := uh_configs new, uh_source_bindings := uh_source_bindings new\<rparr>)"

definition util_state_key :: "string \<Rightarrow> string \<Rightarrow> string" where
  "util_state_key rule_id subject_key = rule_id @ '':'' @ subject_key"

definition util_cache_key :: "string \<Rightarrow> string \<Rightarrow> string" where
  "util_cache_key tenant_id key = tenant_id @ '':'' @ key"

definition utilization_state_last_activity :: "UtilizationRuleState \<Rightarrow> datetime option" where
  "utilization_state_last_activity st =
     max_opt (List.map_filter (\<lambda>t. t)
       [if ust_samples st = [] then None else Some (us_observed_at (last (ust_samples st))),
        ust_last_transition_at st, ust_last_breach_at st, ust_active_since st])"

definition util_prune_state_cache ::
  "'a util_libs_scheme \<Rightarrow> datetime \<Rightarrow> string \<Rightarrow> (string \<times> UtilizationRuleState) list
     \<Rightarrow> (string \<times> UtilizationRuleState) list res" where
  "util_prune_state_cache L now current_cache_key cache =
     prune_cache utilization_state_last_activity (ul_min_utc L) UTILIZATION_STATE_CACHE_MAX_ENTRIES
       (ul_add_secs L now (- (UTILIZATION_STATE_CACHE_TTL_HOURS * 3600))) current_cache_key cache"

section \<open>The detections\<close>

definition util_chain_from_slug :: "string \<Rightarrow> Chain" where
  "util_chain_from_slug slug =
     unwrap_or (map_of
       [(''base'', Base), (''ethereum'', Ethereum), (''mainnet'', Ethereum), (''arbitrum'', Arbitrum),
        (''optimism'', Optimism), (''polygon'', Polygon), (''avalanche'', Avalanche), (''bsc'', BSC)]
       (to_ascii_lowercase slug)) Chain_Unknown"

fun risk_score_for_severity :: "Severity \<Rightarrow> f64" where
  "risk_score_for_severity Critical = lit 95"
| "risk_score_for_severity High = lit 80"
| "risk_score_for_severity Medium = lit 60"
| "risk_score_for_severity Low = lit 30"
| "risk_score_for_severity Info = lit 10"

text \<open>The UTF-8 bytes of the dash in the texts.\<close>

definition util_dash :: string where
  "util_dash = [CHR 0xE2, CHR 0x80, CHR 0x94]"

definition actions_for_severity :: "Severity \<Rightarrow> bool \<Rightarrow> string list" where
  "actions_for_severity severity paused =
     (if paused then
        [''Protocol is paused. Monitor for unpause.'',
         ''Withdrawal not currently possible '' @ util_dash @ '' pool locked or governance-paused.'']
      else if severity = Critical then
        [''EMERGENCY_WITHDRAW: Exit the market immediately.'', ''Available liquidity may disappear within minutes.'']
      else if severity = High then
        [''WITHDRAW_MAX_AVAILABLE: Withdraw the maximum available portion.'',
         ''Full exit may not be possible '' @ util_dash @ '' take out what you can now.'']
      else if severity = Medium then
        [''MONITOR: Utilization is elevated but withdrawal is fully available.'', ''Watch for further deterioration.'']
      else [''MONITOR: Continue monitoring.''])"

text \<open>Against the first of the oldest samples of the window, from the last of the newest samples.\<close>

definition rate_of_change :: "'a util_libs_scheme \<Rightarrow> UtilizationSample list \<Rightarrow> datetime \<Rightarrow> int \<Rightarrow> f64 option res" where
  "rate_of_change L samples now window_minutes =
     bind_res (minutes_ago L now window_minutes) (\<lambda>cutoff.
       (let recent = sort_by util_observed_le (filter (\<lambda>s. cutoff \<le> us_observed_at s) samples)
        in Inr (if recent = [] then None
                else Some (us_utilization_pct (last (sort_by util_observed_le samples))
                           - us_utilization_pct (hd recent)))))"

definition available_liquidity_usd :: "UtilizationStateEvent \<Rightarrow> f64" where
  "available_liquidity_usd s = f64_max (uo_tvl_usd s * (lit 1 - uo_utilization_pct s / lit 100)) 0"

fun breached_threshold :: "UtilizationHighRule \<Rightarrow> Severity \<Rightarrow> f64" where
  "breached_threshold r Critical = ur_critical_threshold_pct r"
| "breached_threshold r High = ur_high_threshold_pct r"
| "breached_threshold r _ = ur_medium_threshold_pct r"

definition exit_feasibility :: "UtilizationHighRule \<Rightarrow> UtilizationRuleState \<Rightarrow> f64 \<Rightarrow> string" where
  "exit_feasibility r st utilization_pct =
     (if ust_paused_status st then ''protocol_paused''
      else if ur_critical_threshold_pct r \<le> utilization_pct then ''severely_constrained''
      else if ur_high_threshold_pct r \<le> utilization_pct then ''constrained''
      else ''open'')"

fun transition_lower :: "IncidentTransition \<Rightarrow> string" where
  "transition_lower Trigger = ''trigger''"
| "transition_lower Escalate = ''escalate''"
| "transition_lower Deescalate = ''deescalate''"
| "transition_lower Resolve = ''resolve''"
| "transition_lower Retract = ''retract''"
| "transition_lower Update = ''update''"

definition util_event_key :: "UnifiedEvent \<Rightarrow> UtilizationHighRule \<Rightarrow> string \<Rightarrow> string" where
  "util_event_key event r subject_key =
     ''utilization_high:'' @ ue_tenant_id event @ '':'' @ ur_rule_id r @ '':'' @ subject_key"

definition util_tx_hash :: "environment \<Rightarrow> UnifiedEvent \<Rightarrow> string option \<Rightarrow> string \<Rightarrow> string" where
  "util_tx_hash en event own label = unwrap_or (or_else own (ue_tx_hash event)) (label @ en_tx_uuid en)"

definition util_block_number :: "UnifiedEvent \<Rightarrow> int \<Rightarrow> int" where
  "util_block_number event own = (if 0 < own then own else unwrap_or (ue_block_number event) 0)"

definition util_oracle_context ::
  "UtilizationHighRule \<Rightarrow> UtilizationStateEvent \<Rightarrow> UtilizationRuleState \<Rightarrow> Severity \<Rightarrow> IncidentTransition
     \<Rightarrow> f64 \<Rightarrow> f64 \<Rightarrow> (string \<times> json) list" where
  "util_oracle_context r s st severity transition rate_10min rate_60min =
     [(''protocol_id'', JString (uo_protocol_id s)), (''chain_slug'', JString (uo_chain_slug s)),
      (''market_id'', j_opt JString (uo_market_id s)),
      (''current_utilization_pct'', j_f64 (uo_utilization_pct s)),
      (''total_supplied_tokens'', j_f64 (uo_total_supplied_tokens s)),
      (''total_borrowed_tokens'', j_f64 (uo_total_borrowed_tokens s)),
      (''tvl_usd'', j_f64 (uo_tvl_usd s)),
      (''available_liquidity_usd'', j_f64 (available_liquidity_usd s)),
      (''exit_feasibility'', JString (exit_feasibility r st (uo_utilization_pct s))),
      (''breached_threshold_pct'', j_f64 (breached_threshold r severity)),
      (''resolution_threshold_pct'', j_f64 (resolution_threshold_for r (util_severity_to_str severity))),
      (''medium_threshold_pct'', j_f64 (ur_medium_threshold_pct r)),
      (''high_threshold_pct'', j_f64 (ur_high_threshold_pct r)),
      (''critical_threshold_pct'', j_f64 (ur_critical_threshold_pct r)),
      (''rate_of_change_10min'', j_f64 rate_10min), (''rate_of_change_60min'', j_f64 rate_60min),
      (''paused_status'', JBool (ust_paused_status st)),
      (''transition'', JString (transition_lower transition)),
      (''recommended_action'', JString (recommended_action_str (recommended_action_for severity (ust_paused_status st)))),
      (''escalation_count'', j_nat (unat (ust_escalation_count st)))]"

definition build_utilization_detection ::
  "'a util_libs_scheme \<Rightarrow> environment \<Rightarrow> UnifiedEvent \<Rightarrow> UtilizationHighRule \<Rightarrow> string \<Rightarrow> string \<Rightarrow> Severity
     \<Rightarrow> IncidentTransition \<Rightarrow> UtilizationStateEvent \<Rightarrow> UtilizationRuleState \<Rightarrow> datetime \<Rightarrow> DetectionResult res" where
  "build_utilization_detection L en event r subject_type subject_key severity transition s st now =
     bind_res (rate_of_change L (ust_samples st) now 10) (\<lambda>r10.
     bind_res (rate_of_change L (ust_samples st) now 60) (\<lambda>r60.
     (let (is_simulated, run_id) = simulation_metadata_from_event event;
          pct = ul_fmt2 L (uo_utilization_pct s);
          rate_10min = unwrap_or r10 0;
          rate_60min = unwrap_or r60 0
      in Inr
         \<lparr>dr_detection_id = en_detection_uuid en, dr_pattern_id = UTIL_PATTERN_ID,
          dr_event_key = Some (util_event_key event r subject_key),
          dr_subject_type = Some subject_type, dr_subject_key = Some subject_key,
          dr_tenant_id = Some (ue_tenant_id event), dr_chain = util_chain_from_slug (uo_chain_slug s),
          dr_chain_slug = uo_chain_slug s, dr_protocol = uo_protocol_id s,
          dr_lifecycle_state = Confirmed, dr_requires_confirmation = False,
          dr_attack_family = AF_HighUtilization, dr_severity = severity,
          dr_description = Some (''High utilization detected: '' @ pct @ ''% in '' @ uo_protocol_id s @ ''/''
            @ unwrap_or (uo_market_id s) ''protocol'' @ '' ('' @ uo_chain_slug s @ ''). Rule: ''
            @ [CHR 0x27] @ ur_rule_id r @ [CHR 0x27] @ ''.''),
          dr_triggered_rule_ids = [''utilization_high.'' @ ur_rule_id r],
          dr_tx_hash = util_tx_hash en event (uo_tx_hash s) ''utilization-high-'',
          dr_block_number = util_block_number event (uo_block_number s),
          dr_signals =
            [\<lparr>sg_signal_type = ST_UtilizationHighDetected, sg_value = uo_utilization_pct s,
              sg_label = Some (pct @ ''% utilization''), sg_source_id = Some (ue_source_id event)\<rparr>],
          dr_risk_score =
            \<lparr>rs_score = risk_score_for_severity severity, rs_confidence = lit (9 / 10),
             rs_rationale = [''utilization='' @ pct @ ''%'',
               ''rate_10min='' @ ul_fmt2_signed L rate_10min @ ''pp, rate_60min='' @ ul_fmt2_signed L rate_60min @ ''pp''],
             rs_attribution = []\<rparr>,
          dr_incident_transition = Some transition, dr_context_classification = Some Isolated,
          dr_confidence_breakdown = [(''utilization_pct'', uo_utilization_pct s)],
          dr_oracle_context = util_oracle_context r s st severity transition rate_10min rate_60min,
          dr_actions_recommended = actions_for_severity severity (ust_paused_status st),
          dr_is_simulated = is_simulated, dr_simulation_run_id = run_id,
          dr_detected_at = now, dr_created_at = now\<rparr>)))"

definition build_resolve_detection ::
  "'a util_libs_scheme \<Rightarrow> environment \<Rightarrow> UnifiedEvent \<Rightarrow> UtilizationHighRule \<Rightarrow> string \<Rightarrow> string \<Rightarrow> Severity
     \<Rightarrow> UtilizationEvalResult \<Rightarrow> UtilizationStateEvent \<Rightarrow> datetime \<Rightarrow> DetectionResult" where
  "build_resolve_detection L en event r subject_type subject_key resolved_severity res s now =
     (let (is_simulated, run_id) = simulation_metadata_from_event event;
          pct = ul_fmt2 L (uo_utilization_pct s);
          duration_sec = (case uv_incident_active_since res of None \<Rightarrow> 0 | Some start \<Rightarrow> num_seconds (now - start))
      in \<lparr>dr_detection_id = en_detection_uuid en, dr_pattern_id = UTIL_PATTERN_ID,
          dr_event_key = Some (util_event_key event r subject_key),
          dr_subject_type = Some subject_type, dr_subject_key = Some subject_key,
          dr_tenant_id = Some (ue_tenant_id event), dr_chain = util_chain_from_slug (uo_chain_slug s),
          dr_chain_slug = uo_chain_slug s, dr_protocol = uo_protocol_id s,
          dr_lifecycle_state = Resolved, dr_requires_confirmation = False,
          dr_attack_family = AF_HighUtilization, dr_severity = resolved_severity,
          dr_description = Some (''High utilization incident resolved: '' @ pct @ ''% in '' @ uo_protocol_id s @ ''/''
            @ unwrap_or (uo_market_id s) ''protocol'' @ '' ('' @ uo_chain_slug s @ '').''),
          dr_triggered_rule_ids = [''utilization_high.'' @ ur_rule_id r],
          dr_tx_hash = util_tx_hash en event (uo_tx_hash s) ''utilization-high-resolve-'',
          dr_block_number = util_block_number event (uo_block_number s),
          dr_signals =
            [\<lparr>sg_signal_type = ST_UtilizationHighDetected, sg_value = uo_utilization_pct s,
              sg_label = Some ''incident resolved'', sg_source_id = Some (ue_source_id event)\<rparr>],
          dr_risk_score =
            \<lparr>rs_score = lit 10, rs_confidence = lit (9 / 10),
             rs_rationale = [''utilization fell to '' @ pct @ ''% '' @ util_dash @ '' below resolution threshold''],
             rs_attribution = []\<rparr>,
          dr_incident_transition = Some Resolve, dr_context_classification = Some Ctx_None,
          dr_confidence_breakdown = [],
          dr_oracle_context =
            [(''protocol_id'', JString (uo_protocol_id s)), (''chain_slug'', JString (uo_chain_slug s)),
             (''market_id'', j_opt JString (uo_market_id s)),
             (''current_utilization_pct'', j_f64 (uo_utilization_pct s)),
             (''available_liquidity_usd'', j_f64 (available_liquidity_usd s)),
             (''exit_feasibility'', JString ''recovering''),
             (''breached_threshold_pct'', j_f64 (breached_threshold r resolved_severity)),
             (''resolution_threshold_pct'',
                j_f64 (resolution_threshold_for r (util_severity_to_str resolved_severity))),
             (''transition'', JString ''resolve''), (''incident_duration_sec'', j_int duration_sec),
             (''escalation_occurred'', JBool (0 < uv_escalation_count res)),
             (''escalation_count'', j_nat (unat (uv_escalation_count res))),
             (''original_severity'', JString (util_severity_to_str resolved_severity))],
          dr_actions_recommended = [''Incident auto-resolved. Liquidity has recovered.''],
          dr_is_simulated = is_simulated, dr_simulation_run_id = run_id,
          dr_detected_at = now, dr_created_at = now\<rparr>)"

definition util_pause_label :: "bool \<Rightarrow> string" where
  "util_pause_label paused = (if paused then ''paused'' else ''unpaused'')"

definition util_build_pause_detection ::
  "environment \<Rightarrow> UnifiedEvent \<Rightarrow> UtilizationHighRule \<Rightarrow> string \<Rightarrow> string \<Rightarrow> Severity
     \<Rightarrow> UtilizationPauseEvent \<Rightarrow> datetime \<Rightarrow> DetectionResult" where
  "util_build_pause_detection en event r subject_type subject_key active_severity pause now =
     (let (is_simulated, run_id) = simulation_metadata_from_event event;
          label = util_pause_label (up_paused pause)
      in \<lparr>dr_detection_id = en_detection_uuid en, dr_pattern_id = UTIL_PATTERN_ID,
          dr_event_key = Some (util_event_key event r subject_key @ '':pause''),
          dr_subject_type = Some subject_type, dr_subject_key = Some subject_key,
          dr_tenant_id = Some (ue_tenant_id event), dr_chain = util_chain_from_slug (up_chain_slug pause),
          dr_chain_slug = up_chain_slug pause, dr_protocol = up_protocol_id pause,
          dr_lifecycle_state = Confirmed, dr_requires_confirmation = False,
          dr_attack_family = AF_HighUtilization, dr_severity = active_severity,
          dr_description = Some (''Protocol '' @ up_protocol_id pause @ '' '' @ label
            @ '' while a high-utilization incident is active.''),
          dr_triggered_rule_ids = [''utilization_high.'' @ ur_rule_id r],
          dr_tx_hash = util_tx_hash en event (up_tx_hash pause) ''utilization-high-pause-'',
          dr_block_number = util_block_number event (up_block_number pause),
          dr_signals =
            [\<lparr>sg_signal_type = ST_ProtocolPauseState, sg_value = (if up_paused pause then lit 1 else lit 0),
              sg_label = Some (''protocol_'' @ label), sg_source_id = Some (ue_source_id event)\<rparr>],
          dr_risk_score =
            \<lparr>rs_score = lit 70, rs_confidence = lit (85 / 100),
             rs_rationale = [''protocol marked '' @ label @ '' during active high-utilization incident''],
             rs_attribution = []\<rparr>,
          dr_incident_transition = Some Update, dr_context_classification = Some Isolated,
          dr_confidence_breakdown = [],
          dr_oracle_context =
            [(''protocol_id'', JString (up_protocol_id pause)), (''chain_slug'', JString (up_chain_slug pause)),
             (''market_id'', j_opt JString (up_market_id pause)), (''pause_state'', JString label)],
          dr_actions_recommended =
            (if up_paused pause
             then [''MONITOR_FOR_UNPAUSE: Withdrawal not currently possible.'',
                   ''Pool is paused by governance. Monitor for recovery.'']
             else [''Protocol unpaused. Auto-resolution tracking resumed.'']),
          dr_is_simulated = is_simulated, dr_simulation_run_id = run_id,
          dr_detected_at = now, dr_created_at = now\<rparr>)"

section \<open>Processing an event\<close>

text \<open>Of two detections of the same severity the later one is kept.\<close>

definition pick_higher :: "DetectionResult option \<Rightarrow> DetectionResult \<Rightarrow> DetectionResult option" where
  "pick_higher existing candidate =
     (case existing of
        None \<Rightarrow> Some candidate
      | Some prev \<Rightarrow>
          if util_severity_rank (Some (dr_severity prev)) \<le> util_severity_rank (Some (dr_severity candidate))
          then Some candidate else Some prev)"

definition util_load_state ::
  "'a util_libs_scheme \<Rightarrow> environment \<Rightarrow> string \<Rightarrow> string \<Rightarrow> world \<Rightarrow> UtilizationRuleState res" where
  "util_load_state L en tenant key w =
     bind_res (load_pattern_state en tenant UTIL_PATTERN_ID key w) (\<lambda>v.
       Inr (unwrap_or (Option.bind v (ul_de_state L)) UtilizationRuleState_default))"

definition util_store ::
  "'a util_libs_scheme \<Rightarrow> environment \<Rightarrow> UnifiedEvent \<Rightarrow> string \<Rightarrow> UtilizationRuleState \<Rightarrow> json \<Rightarrow> f64 option
     \<Rightarrow> string option \<Rightarrow> datetime \<Rightarrow> UtilizationHighPattern \<Rightarrow> world \<Rightarrow> UtilizationHighPattern \<times> world \<times> unit res" where
  "util_store L en event key st snapshot score severity now pt w =
     (let tenant = ue_tenant_id event;
          w1 = insert_pattern_snapshot en
                 \<lparr>ps_tenant_id = tenant, ps_pattern_id = UTIL_PATTERN_ID, ps_snapshot_key = key,
                  ps_data = append_snapshot_meta (ul_rfc3339 L) event snapshot, ps_score = score,
                  ps_severity = severity, ps_observed_at = ue_timestamp event\<rparr> w
      in case ul_ser_state L st of
           Inl e \<Rightarrow> (pt, w1, Inl e)
         | Inr v \<Rightarrow>
             (let w2 = upsert_pattern_state en tenant UTIL_PATTERN_ID key v w1
              in case util_prune_state_cache L now (util_cache_key tenant key)
                        (AList.update (util_cache_key tenant key) st (uh_state_cache pt)) of
                   Inl e \<Rightarrow> (pt, w2, Inl e)
                 | Inr cache \<Rightarrow> (pt\<lparr>uh_state_cache := cache\<rparr>, w2, Inr ())))"

definition util_snapshot ::
  "UtilizationHighRule \<Rightarrow> string \<Rightarrow> UtilizationStateEvent \<Rightarrow> UtilizationRuleState \<Rightarrow> UtilizationEvalResult \<Rightarrow> json" where
  "util_snapshot r subject_key s st res =
     JObject
       [(''rule_id'', JString (ur_rule_id r)), (''subject_key'', JString subject_key),
        (''utilization_pct'', j_f64 (uo_utilization_pct s)), (''tvl_usd'', j_f64 (uo_tvl_usd s)),
        (''total_supplied_tokens'', j_f64 (uo_total_supplied_tokens s)),
        (''total_borrowed_tokens'', j_f64 (uo_total_borrowed_tokens s)),
        (''last_severity'', j_opt JString (ust_last_severity st)),
        (''resolution_block_counter'', j_nat (unat (ust_resolution_block_counter st))),
        (''paused_status'', JBool (ust_paused_status st)),
        (''incident_transition'', j_opt (\<lambda>t. JString (transition_lower t)) (uv_transition res)),
        (''do_resolve'', JBool (uv_resolved res))]"

text \<open>The detection that an evaluation leads to.\<close>

definition util_detection_of ::
  "'a util_libs_scheme \<Rightarrow> environment \<Rightarrow> UnifiedEvent \<Rightarrow> UtilizationHighRule \<Rightarrow> string \<Rightarrow> string
     \<Rightarrow> UtilizationStateEvent \<Rightarrow> UtilizationRuleState \<Rightarrow> UtilizationEvalResult \<Rightarrow> datetime \<Rightarrow> DetectionResult option res" where
  "util_detection_of L en event r subject_type subject_key s st res now =
     (if uv_resolved res then
        (case uv_resolved_from_severity res of
           None \<Rightarrow> Inl (Panic ''called Option::unwrap() on a None value'')
         | Some sev \<Rightarrow> Inr (Some (build_resolve_detection L en event r subject_type subject_key sev res s now)))
      else
        (case (uv_transition res, uv_emit_severity res) of
           (Some transition, Some sev) \<Rightarrow>
             bind_res (build_utilization_detection L en event r subject_type subject_key sev transition s st now)
               (\<lambda>d. Inr (Some d))
         | _ \<Rightarrow> Inr None))"

definition util_reading_rule ::
  "'a util_libs_scheme \<Rightarrow> environment \<Rightarrow> UnifiedEvent \<Rightarrow> UtilizationStateEvent \<Rightarrow> datetime \<Rightarrow> UtilizationHighRule
     \<Rightarrow> UtilizationHighPattern \<Rightarrow> world \<Rightarrow> DetectionResult option
     \<Rightarrow> UtilizationHighPattern \<times> world \<times> DetectionResult option res" where
  "util_reading_rule L en event s now r pt w emitted =
     (case util_subject_for_event r (uo_market_id s) of
        None \<Rightarrow> (pt, w, Inr emitted)
      | Some (subject_type, subject_key) \<Rightarrow>
          (let key = util_state_key (ur_rule_id r) subject_key in
           case bind_res (util_load_state L en (ue_tenant_id event) key w) (\<lambda>st0.
                  evaluate_utilization_state L r st0 (uo_utilization_pct s) (uo_tvl_usd s) now) of
             Inl e \<Rightarrow> (pt, w, Inl e)
           | Inr (st, res) \<Rightarrow>
               if uv_tvl_floor_suppressed res then (pt, w, Inr emitted)
               else
                 (case util_detection_of L en event r subject_type subject_key s st res now of
                    Inl e \<Rightarrow> (pt, w, Inl e)
                  | Inr d \<Rightarrow>
                      (case util_store L en event key st (util_snapshot r subject_key s st res)
                              (Some (uo_utilization_pct s)) (ust_last_severity st) now pt w of
                         (pt', w', Inl e) \<Rightarrow> (pt', w', Inl e)
                       | (pt', w', Inr ()) \<Rightarrow>
                           (pt', w', Inr (case d of None \<Rightarrow> emitted | Some c \<Rightarrow> pick_higher emitted c))))))"

text \<open>The other active incidents of the tenant, listed in the detection that leaves.\<close>

definition other_incidents ::
  "'a util_libs_scheme \<Rightarrow> string \<Rightarrow> (string \<times> UtilizationRuleState) list \<Rightarrow> DetectionResult \<Rightarrow> json list" where
  "other_incidents L tenant cache d =
     List.map_filter (\<lambda>(k, st).
         (case ust_last_severity st of
            None \<Rightarrow> None
          | Some sev \<Rightarrow>
              if prefix (tenant @ '':'') k \<and> dr_event_key d \<noteq> Some (''utilization_high:'' @ k)
              then Some (JObject [(''state_key'', JString k), (''severity'', JString sev),
                      (''active_since'', j_opt (ul_time_json L) (ust_active_since st))])
              else None)) cache"

definition with_other_incidents ::
  "'a util_libs_scheme \<Rightarrow> string \<Rightarrow> (string \<times> UtilizationRuleState) list \<Rightarrow> DetectionResult \<Rightarrow> DetectionResult" where
  "with_other_incidents L tenant cache d =
     (let others = other_incidents L tenant cache d in
      if others = [] then d
      else d\<lparr>dr_oracle_context := AList.update ''concurrent_market_alerts'' (JArray others) (dr_oracle_context d)\<rparr>)"

text \<open>A pause is noted by the first rule with an active incident, which ends the event.\<close>

fun util_pause_rules ::
  "'a util_libs_scheme \<Rightarrow> environment \<Rightarrow> UnifiedEvent \<Rightarrow> UtilizationPauseEvent \<Rightarrow> datetime
     \<Rightarrow> UtilizationHighRule list \<Rightarrow> UtilizationHighPattern \<Rightarrow> world
     \<Rightarrow> UtilizationHighPattern \<times> world \<times> DetectionResult option res" where
  "util_pause_rules L en event pause now [] pt w = (pt, w, Inr None)"
| "util_pause_rules L en event pause now (r # rs) pt w =
     (case util_subject_for_event r (up_market_id pause) of
        None \<Rightarrow> util_pause_rules L en event pause now rs pt w
      | Some (subject_type, subject_key) \<Rightarrow>
          (let key = util_state_key (ur_rule_id r) subject_key in
           case util_load_state L en (ue_tenant_id event) key w of
             Inl e \<Rightarrow> (pt, w, Inl e)
           | Inr st0 \<Rightarrow>
               (case ust_last_severity st0 of
                  None \<Rightarrow> util_pause_rules L en event pause now rs pt w
                | Some active \<Rightarrow>
                    (let st = st0\<lparr>ust_paused_status := up_paused pause, ust_last_transition_at := Some now\<rparr>;
                         snapshot = JObject
                           [(''rule_id'', JString (ur_rule_id r)), (''subject_key'', JString subject_key),
                            (''pause_state'', JString (util_pause_label (up_paused pause))),
                            (''incident_transition'', JString ''update'')]
                     in case util_store L en event key st snapshot None (Some active) now pt w of
                          (pt', w', Inl e) \<Rightarrow> (pt', w', Inl e)
                        | (pt', w', Inr ()) \<Rightarrow>
                            (pt', w', Inr (Some (util_build_pause_detection en event r subject_type subject_key
                               (unwrap_or (util_severity_from_str (Some active)) Medium) pause now)))))))"

definition util_rules_for :: "UtilizationHighPattern \<Rightarrow> UnifiedEvent \<Rightarrow> UtilizationHighRule list option" where
  "util_rules_for pt event =
     (if (case uh_source_bindings pt (ue_tenant_id event) of
            None \<Rightarrow> False
          | Some bound \<Rightarrow> bound \<noteq> {} \<and> ue_source_id event \<notin> bound) then None
      else uh_configs pt (ue_tenant_id event))"

definition util_process_event ::
  "'a util_libs_scheme \<Rightarrow> environment \<Rightarrow> UnifiedEvent \<Rightarrow> datetime \<Rightarrow> UtilizationHighPattern \<Rightarrow> world
     \<Rightarrow> UtilizationHighPattern \<times> world \<times> DetectionResult option res" where
  "util_process_event L en event now pt w =
     (case util_rules_for pt event of
        None \<Rightarrow> (pt, w, Inr None)
      | Some rules \<Rightarrow>
          (case parse_utilization_state_event event of
             Some s \<Rightarrow>
               (case run_rules (util_reading_rule L en event s now)
                       (filter (\<lambda>r. ur_enabled r \<and> util_matches r (uo_protocol_id s) (uo_chain_slug s) (uo_market_id s))
                          rules) pt w None of
                  (pt', w', Inl e) \<Rightarrow> (pt', w', Inl e)
                | (pt', w', Inr d) \<Rightarrow>
                    (pt', w', Inr (map_option (with_other_incidents L (ue_tenant_id event) (uh_state_cache pt')) d)))
           | None \<Rightarrow>
               (case parse_utilization_pause_event event of
                  Some pause \<Rightarrow>
                    util_pause_rules L en event pause now
                      (filter (\<lambda>r. ur_enabled r \<and> util_matches r (up_protocol_id pause) (up_chain_slug pause) (up_market_id pause))
                         rules) pt w
                | None \<Rightarrow> (pt, w, Inr None))))"

end
