(* ===== verification/UtilSafety.thy ===== *)
theory UtilSafety
  imports UtilPattern
begin

text \<open>
  What holds of the utilisation pattern. A rule over a history of readings and pauses refines an
  abstract hysteresis machine, from which the language of its announcements, the resolution after the
  configured number of calm readings and the suspension by a pause are proved; then the pattern as a
  whole: its frame, its configuration, its contract with the registry, and what a pause does to the
  incidents of several rules.
\<close>

section \<open>The abstract incident\<close>

text \<open>
  The severity of the incident, the calm readings in a row, the escalations so far and whether the
  protocol is paused. A reading is a breach of some severity or none, and for each severity below or
  above the threshold at which an incident of that severity may resolve.
\<close>

record util_spec =
  sp_active :: "Severity option"
  sp_calm :: nat
  sp_escalations :: nat
  sp_paused :: bool

definition spec_initial :: util_spec where
  "spec_initial = \<lparr>sp_active = None, sp_calm = 0, sp_escalations = 0, sp_paused = False\<rparr>"

definition spec_reading ::
  "nat \<Rightarrow> Severity option \<Rightarrow> (Severity \<Rightarrow> bool) \<Rightarrow> (Severity \<Rightarrow> bool) \<Rightarrow> util_spec
     \<Rightarrow> util_spec \<times> IncidentTransition option" where
  "spec_reading n breach calm tense s =
     (case (sp_active s, breach) of
        (None, None) \<Rightarrow> (s, None)
      | (None, Some sev) \<Rightarrow> (s\<lparr>sp_active := Some sev, sp_calm := 0, sp_escalations := 0\<rparr>, Some Trigger)
      | (Some prev, Some new) \<Rightarrow>
          if prev < new
          then (s\<lparr>sp_active := Some new, sp_calm := 0, sp_escalations := Suc (sp_escalations s)\<rparr>, Some Escalate)
          else (s\<lparr>sp_calm := 0\<rparr>, None)
      | (Some prev, None) \<Rightarrow>
          if calm prev \<and> \<not> sp_paused s then
            (if n \<le> Suc (sp_calm s)
             then (s\<lparr>sp_active := None, sp_calm := 0, sp_escalations := 0\<rparr>, Some Resolve)
             else (s\<lparr>sp_calm := Suc (sp_calm s)\<rparr>, None))
          else if tense prev then (s\<lparr>sp_calm := 0\<rparr>, None)
          else (s, None))"

section \<open>A rule over a history\<close>

text \<open>
  What reaches the state of a rule: a reading with the value locked and the time, or a pause signal, which
  is noted only while there is an incident. The list is what has been announced. A panic ends the event
  before anything is stored.
\<close>

datatype util_input = Reading f64 f64 datetime | PauseSignal bool datetime

definition log_transition :: "IncidentTransition option \<Rightarrow> IncidentTransition list \<Rightarrow> IncidentTransition list" where
  "log_transition t said = (case t of None \<Rightarrow> said | Some x \<Rightarrow> said @ [x])"

fun util_machine ::
  "'a util_libs_scheme \<Rightarrow> UtilizationHighRule \<Rightarrow> UtilizationRuleState \<times> IncidentTransition list \<Rightarrow> util_input
     \<Rightarrow> UtilizationRuleState \<times> IncidentTransition list" where
  "util_machine L r (st, said) (Reading pct tvl now) =
     (case evaluate_utilization_state L r st pct tvl now of
        Inl _ \<Rightarrow> (st, said)
      | Inr (st', res) \<Rightarrow> (st', log_transition (uv_transition res) said))"
| "util_machine L r (st, said) (PauseSignal paused now) =
     (if ust_last_severity st = None then (st, said)
      else (st\<lparr>ust_paused_status := paused, ust_last_transition_at := Some now\<rparr>, said))"

text \<open>Readings below the floor, and those at a time with no room for the window, do not count.\<close>

definition reading_counts :: "'a util_libs_scheme \<Rightarrow> UtilizationHighRule \<Rightarrow> f64 \<Rightarrow> datetime \<Rightarrow> bool" where
  "reading_counts L r tvl now \<longleftrightarrow> \<not> below_tvl_floor r tvl \<and> ul_add_secs L now (- 3660) \<noteq> None"

abbreviation calm_for :: "UtilizationHighRule \<Rightarrow> f64 \<Rightarrow> Severity \<Rightarrow> bool" where
  "calm_for r pct s \<equiv> pct < resolution_threshold_for r (util_severity_to_str s)"

abbreviation tense_for :: "UtilizationHighRule \<Rightarrow> f64 \<Rightarrow> Severity \<Rightarrow> bool" where
  "tense_for r pct s \<equiv> resolution_threshold_for r (util_severity_to_str s) \<le> pct"

fun spec_machine ::
  "'a util_libs_scheme \<Rightarrow> UtilizationHighRule \<Rightarrow> util_spec \<times> IncidentTransition list \<Rightarrow> util_input
     \<Rightarrow> util_spec \<times> IncidentTransition list" where
  "spec_machine L r (s, said) (Reading pct tvl now) =
     (if reading_counts L r tvl now then
        (let (s', t) = spec_reading (unat (ur_resolution_confirmation_blocks r)) (classify_severity pct r)
               (calm_for r pct) (tense_for r pct) s
         in (s', log_transition t said))
      else (s, said))"
| "spec_machine L r (s, said) (PauseSignal paused now) =
     (if sp_active s = None then (s, said) else (s\<lparr>sp_paused := paused\<rparr>, said))"

definition util_abs :: "UtilizationRuleState \<Rightarrow> util_spec" where
  "util_abs st =
     \<lparr>sp_active = util_severity_from_str (ust_last_severity st),
      sp_calm = unat (ust_resolution_block_counter st), sp_escalations = unat (ust_escalation_count st),
      sp_paused = ust_paused_status st\<rparr>"

text \<open>
  The invariant: only the three severities are stored, the counter is below the number of readings to
  resolve, and there have been at most as many escalations as there are severities below.
\<close>

definition util_inv :: "UtilizationHighRule \<Rightarrow> UtilizationRuleState \<Rightarrow> bool" where
  "util_inv r st \<longleftrightarrow>
     ust_resolution_block_counter st < ur_resolution_confirmation_blocks r
   \<and> (case ust_last_severity st of
        None \<Rightarrow> ust_resolution_block_counter st = 0 \<and> ust_escalation_count st = 0
      | Some x \<Rightarrow> \<exists>s. Medium \<le> s \<and> x = util_severity_to_str s
                  \<and> unat (ust_escalation_count st) + 2 \<le> util_severity_rank (Some s))"

lemma util_severity_round_trip: "Medium \<le> s \<Longrightarrow> util_severity_from_str (Some (util_severity_to_str s)) = Some s"
  by (cases s) (simp_all add: less_eq_Severity_def util_severity_from_str_def)

lemma util_severity_None [simp]: "util_severity_from_str None = None"
  by (simp add: util_severity_from_str_def)

lemma util_rank_less: "util_severity_rank (Some a) < util_severity_rank (Some b) \<longleftrightarrow> a < b"
  by (cases a; cases b) (simp_all add: less_Severity_def)

lemma util_rank_le_4: "util_severity_rank (Some s) \<le> 4"
  by (cases s) simp_all

lemma classify_severity_medium: "classify_severity pct r = Some s \<Longrightarrow> Medium \<le> s"
  by (auto simp: classify_severity_def less_eq_Severity_def split: if_splits)

lemma push_utilization_Inl: "(\<exists>e. push_utilization L now pct ss = Inl e) \<longleftrightarrow> ul_add_secs L now (- 3660) = None"
  by (auto simp: push_utilization_def minutes_ago_def split: option.split)

text \<open>The three kinds of outcome of an evaluation.\<close>

lemma evaluate_utilization_cases:
  obtains (panic) e where "evaluate_utilization_state L r st pct tvl now = Inl e" "\<not> reading_counts L r tvl now"
  | (floor) res where "evaluate_utilization_state L r st pct tvl now = Inr (st, res)" "uv_transition res = None"
      "uv_tvl_floor_suppressed res" "\<not> reading_counts L r tvl now"
  | (counted) samples st1 res where "reading_counts L r tvl now"
      "evaluate_utilization_state L r st pct tvl now = Inr (st1, complete_result st1 res)"
      "(st1, res) = (case (util_severity_from_str (ust_last_severity st), classify_severity pct r) of
                  (None, Some sev) \<Rightarrow> first_breach (st\<lparr>ust_samples := samples\<rparr>) sev now
                | (Some prev, Some new) \<Rightarrow> further_breach (st\<lparr>ust_samples := samples\<rparr>) prev new now
                | (Some prev, None) \<Rightarrow> calm_reading r (st\<lparr>ust_samples := samples\<rparr>) prev pct now
                | (None, None) \<Rightarrow> (st\<lparr>ust_samples := samples\<rparr>, UtilizationEvalResult_default))"
proof (cases "below_tvl_floor r tvl")
  case True
  then show ?thesis
    by (intro floor [of "UtilizationEvalResult_default\<lparr>uv_tvl_floor_suppressed := True\<rparr>"])
       (simp_all add: evaluate_utilization_state_def reading_counts_def UtilizationEvalResult_default_def)
next
  case False
  show ?thesis
  proof (cases "push_utilization L now pct (ust_samples st)")
    case (Inl e)
    then have "\<not> reading_counts L r tvl now" using push_utilization_Inl [of L now pct "ust_samples st"] by (simp add: reading_counts_def)
    with Inl False show ?thesis by (intro panic [of e]) (simp_all add: evaluate_utilization_state_def)
  next
    case (Inr samples)
    then have rc: "reading_counts L r tvl now"
      using False push_utilization_Inl [of L now pct "ust_samples st"] by (auto simp: reading_counts_def)
    obtain st1 res where p: "(case (util_severity_from_str (ust_last_severity st), classify_severity pct r) of
                  (None, Some sev) \<Rightarrow> first_breach (st\<lparr>ust_samples := samples\<rparr>) sev now
                | (Some prev, Some new) \<Rightarrow> further_breach (st\<lparr>ust_samples := samples\<rparr>) prev new now
                | (Some prev, None) \<Rightarrow> calm_reading r (st\<lparr>ust_samples := samples\<rparr>) prev pct now
                | (None, None) \<Rightarrow> (st\<lparr>ust_samples := samples\<rparr>, UtilizationEvalResult_default)) = (st1, res)"
      by (rule prod.exhaust)
    have ev: "evaluate_utilization_state L r st pct tvl now = Inr (st1, complete_result st1 res)"
      unfolding evaluate_utilization_state_def Let_def by (simp only: False if_False Inr bind_res_Inr p) simp
    from counted [OF rc ev p [symmetric]] show ?thesis .
  qed
qed

section \<open>Refinement\<close>

lemma unat_inc_less: "(c :: 32 word) < n \<Longrightarrow> unat (c + 1) = Suc (unat c)"
proof -
  assume "c < n"
  then have "unat c < unat n" by (simp add: word_less_nat_alt)
  moreover have "unat n < 2 ^ LENGTH(32)" by (rule unsigned_less)
  ultimately have "Suc (unat c) < 2 ^ LENGTH(32)" by simp
  then show ?thesis by (simp add: unat_word_ariths)
qed

lemma first_breach_sim:
  assumes "Medium \<le> sev" "0 < ur_resolution_confirmation_blocks r"
  shows "util_inv r (fst (first_breach st sev now))
    \<and> util_abs (fst (first_breach st sev now))
        = (util_abs st)\<lparr>sp_active := Some sev, sp_calm := 0, sp_escalations := 0\<rparr>
    \<and> uv_transition (snd (first_breach st sev now)) = Some Trigger"
proof -
  have "2 \<le> util_severity_rank (Some sev)" using assms(1) by (cases sev) (simp_all add: less_eq_Severity_def)
  then show ?thesis using assms
    by (auto simp: first_breach_def util_inv_def util_abs_def util_severity_round_trip)
qed

lemma further_breach_sim:
  assumes "util_inv r st" "util_severity_from_str (ust_last_severity st) = Some prev" "Medium \<le> new"
    "0 < ur_resolution_confirmation_blocks r"
  shows "util_inv r (fst (further_breach st prev new now))
    \<and> util_abs (fst (further_breach st prev new now)) =
        (if prev < new then (util_abs st)\<lparr>sp_active := Some new, sp_calm := 0, sp_escalations := Suc (sp_escalations (util_abs st))\<rparr>
         else (util_abs st)\<lparr>sp_calm := 0\<rparr>)
    \<and> uv_transition (snd (further_breach st prev new now)) = (if prev < new then Some Escalate else None)"
proof -
  from assms(1,2) have x: "ust_last_severity st = Some (util_severity_to_str prev)" "Medium \<le> prev"
    and e: "unat (ust_escalation_count st) + 2 \<le> util_severity_rank (Some prev)"
    by (auto simp: util_inv_def util_severity_round_trip split: option.splits)
  have "ust_escalation_count st < (100 :: 32 word)" using e util_rank_le_4 [of prev] by (simp add: word_less_nat_alt)
  then have inc: "unat (ust_escalation_count st + 1) = Suc (unat (ust_escalation_count st))" by (rule unat_inc_less)
  show ?thesis
  proof (cases "prev < new")
    case True
    then have "util_severity_rank (Some prev) < util_severity_rank (Some new)" by (simp only: util_rank_less)
    with e inc have "unat (ust_escalation_count st + 1) + 2 \<le> util_severity_rank (Some new)" by simp
    with True assms(3,4) inc show ?thesis
      by (auto simp: further_breach_def util_inv_def util_abs_def util_severity_round_trip util_rank_less
          UtilizationEvalResult_default_def)
  next
    case False
    with assms(4) x e show ?thesis
      by (auto simp: further_breach_def util_inv_def util_abs_def util_severity_round_trip util_rank_less
          UtilizationEvalResult_default_def)
  qed
qed

lemma calm_reading_sim:
  assumes "util_inv r st" "util_severity_from_str (ust_last_severity st) = Some prev"
    "0 < ur_resolution_confirmation_blocks r"
  shows "util_inv r (fst (calm_reading r st prev pct now))
    \<and> (util_abs (fst (calm_reading r st prev pct now)), uv_transition (snd (calm_reading r st prev pct now)))
      = spec_reading (unat (ur_resolution_confirmation_blocks r)) None (calm_for r pct) (tense_for r pct) (util_abs st)"
proof -
  from assms(1,2) have x: "ust_last_severity st = Some (util_severity_to_str prev)" "Medium \<le> prev"
    and e: "unat (ust_escalation_count st) + 2 \<le> util_severity_rank (Some prev)"
    and c: "ust_resolution_block_counter st < ur_resolution_confirmation_blocks r"
    by (auto simp: util_inv_def util_severity_round_trip split: option.splits)
  have reach: "ur_resolution_confirmation_blocks r \<le> ust_resolution_block_counter st + 1
      \<longleftrightarrow> unat (ur_resolution_confirmation_blocks r) \<le> Suc (unat (ust_resolution_block_counter st))"
    by (simp add: word_le_nat_alt unat_inc_less [OF c])
  then have "\<not> ur_resolution_confirmation_blocks r \<le> ust_resolution_block_counter st + 1 \<Longrightarrow>
      ust_resolution_block_counter st + 1 < ur_resolution_confirmation_blocks r" by simp
  with x e c assms(2,3) reach unat_inc_less [OF c] show ?thesis
    by (auto simp: calm_reading_def Let_def util_inv_def util_abs_def spec_reading_def UtilizationEvalResult_default_def)
qed

lemma complete_result_transition [simp]: "uv_transition (complete_result st res) = uv_transition res"
  by (simp add: complete_result_def)

lemma samples_irrelevant [simp]:
  "util_inv r (st\<lparr>ust_samples := ss\<rparr>) = util_inv r st" "util_abs (st\<lparr>ust_samples := ss\<rparr>) = util_abs st"
  "ust_last_severity (st\<lparr>ust_samples := ss\<rparr>) = ust_last_severity st"
  by (simp_all add: util_inv_def util_abs_def split: option.splits)

lemma spec_reading_breach:
  "sp_active s = None \<Longrightarrow> spec_reading n (Some sev) c h s = (s\<lparr>sp_active := Some sev, sp_calm := 0, sp_escalations := 0\<rparr>, Some Trigger)"
  "sp_active s = Some prev \<Longrightarrow> spec_reading n (Some sev) c h s =
     (if prev < sev then (s\<lparr>sp_active := Some sev, sp_calm := 0, sp_escalations := Suc (sp_escalations s)\<rparr>, Some Escalate)
      else (s\<lparr>sp_calm := 0\<rparr>, None))"
  "sp_active s = None \<Longrightarrow> spec_reading n None c h s = (s, None)"
  by (simp_all add: spec_reading_def)

lemma evaluate_utilization_sim:
  assumes "util_inv r st" "reading_counts L r tvl now"
  obtains st' res where "evaluate_utilization_state L r st pct tvl now = Inr (st', res)" "util_inv r st'"
    "(util_abs st', uv_transition res) = spec_reading (unat (ur_resolution_confirmation_blocks r)) (classify_severity pct r)
       (calm_for r pct) (tense_for r pct) (util_abs st)"
proof -
  have pos: "0 < ur_resolution_confirmation_blocks r"
    using assms(1) by (auto simp: util_inv_def word_less_nat_alt)
  show thesis
  proof (cases rule: evaluate_utilization_cases [of L r st pct tvl now])
    case (counted samples st1 res)
    let ?st = "st\<lparr>ust_samples := samples\<rparr>"
    have inv: "util_inv r ?st" using assms(1) by simp
    have "util_inv r st1 \<and> (util_abs st1, uv_transition res)
        = spec_reading (unat (ur_resolution_confirmation_blocks r)) (classify_severity pct r) (calm_for r pct) (tense_for r pct) (util_abs ?st)"
    proof (cases "classify_severity pct r")
      case None
      note nobreach = None
      show ?thesis
      proof (cases "util_severity_from_str (ust_last_severity st)")
        case None
        then have "st1 = ?st" "res = UtilizationEvalResult_default" using counted(3) nobreach by simp_all
        moreover have "sp_active (util_abs ?st) = None" using None by (simp add: util_abs_def)
        ultimately show ?thesis using inv nobreach
          by (simp only: spec_reading_breach) (simp add: UtilizationEvalResult_default_def)
      next
        case (Some prev)
        then have r: "(st1, res) = calm_reading r ?st prev pct now" using counted(3) nobreach by simp
        have "util_severity_from_str (ust_last_severity ?st) = Some prev" using Some by simp
        from calm_reading_sim [OF inv this pos, of pct now] show ?thesis using r nobreach by (metis fst_conv snd_conv)
      qed
    next
      case (Some sev)
      note breach = Some
      have m: "Medium \<le> sev" using classify_severity_medium [OF Some] .
      show ?thesis
      proof (cases "util_severity_from_str (ust_last_severity st)")
        case None
        then have r: "(st1, res) = first_breach ?st sev now" using counted(3) breach by simp
        moreover have "sp_active (util_abs ?st) = None" using None by (simp add: util_abs_def)
        ultimately show ?thesis using first_breach_sim [OF m pos, of ?st now] breach
          by (simp only: spec_reading_breach) (metis fst_conv snd_conv)
      next
        case (Some prev)
        then have r: "(st1, res) = further_breach ?st prev sev now" using counted(3) breach by simp
        have a: "sp_active (util_abs ?st) = Some prev" using Some by (simp add: util_abs_def)
        have "util_severity_from_str (ust_last_severity ?st) = Some prev" using Some by simp
        from further_breach_sim [OF inv this m pos, of now] show ?thesis
          using r by (simp only: breach spec_reading_breach(2) [OF a]) (metis fst_conv snd_conv)
      qed
    qed
    then show thesis using that [OF counted(2)] by simp
  qed (use assms(2) in simp_all)
qed

lemma util_machine_uncounted:
  "\<not> reading_counts L r tvl now \<Longrightarrow> util_machine L r (st, said) (Reading pct tvl now) = (st, said)"
  by (cases rule: evaluate_utilization_cases [of L r st pct tvl now]) (simp_all add: log_transition_def)

lemma util_step_sim:
  assumes "util_inv r st"
  shows "util_inv r (fst (util_machine L r (st, said) e))
    \<and> (util_abs (fst (util_machine L r (st, said) e)), snd (util_machine L r (st, said) e))
      = spec_machine L r (util_abs st, said) e"
proof (cases e)
  case (Reading pct tvl now)
  show ?thesis
  proof (cases "reading_counts L r tvl now")
    case True
    obtain st' res where o: "evaluate_utilization_state L r st pct tvl now = Inr (st', res)" "util_inv r st'"
      "(util_abs st', uv_transition res) = spec_reading (unat (ur_resolution_confirmation_blocks r)) (classify_severity pct r)
         (calm_for r pct) (tense_for r pct) (util_abs st)"
      by (rule evaluate_utilization_sim [OF assms True])
    show ?thesis by (simp add: Reading True o(1,2) o(3) [symmetric] Let_def)
  next
    case False
    then have "util_machine L r (st, said) e = (st, said)" 
      unfolding Reading by (rule util_machine_uncounted)
    with False show ?thesis using assms by (simp only:) (simp add: Reading)
  qed
next
  case (PauseSignal paused now)
  have "ust_last_severity st = None \<longleftrightarrow> util_severity_from_str (ust_last_severity st) = None"
    using assms by (auto simp: util_inv_def util_severity_round_trip split: option.splits)
  then show ?thesis using assms
    by (auto simp: PauseSignal util_inv_def util_abs_def split: option.splits)
qed

interpretation util_rule:
  refinement_machine "util_machine L r" "\<lambda>x. util_inv r (fst x)" "spec_machine L r" "\<lambda>x. (util_abs (fst x), snd x)" for L r
proof
  show "util_inv r (fst (util_machine L r x e))" if "util_inv r (fst x)" for x e
    using util_step_sim [of r "fst x" L "snd x" e] that by simp
  show "(util_abs (fst (util_machine L r x e)), snd (util_machine L r x e)) = spec_machine L r (util_abs (fst x), snd x) e"
    if "util_inv r (fst x)" for x e
    using util_step_sim [of r "fst x" L "snd x" e] that by simp
qed

lemma util_inv_default:
  "util_validate r = Inr () \<Longrightarrow> util_inv r UtilizationRuleState_default"
  by (auto simp: util_validate_def util_inv_def UtilizationRuleState_default_def word_gt_0 split: if_splits)

lemma util_abs_default [simp]: "util_abs UtilizationRuleState_default = spec_initial"
  by (simp add: util_abs_def UtilizationRuleState_default_def spec_initial_def)

text \<open>
  (C24) The persisted state of a valid rule implements the abstract incident: after any history of
  readings and pauses its severity, its counters (no 32-bit counter wraps) and its pause flag are
  those of the abstract machine, and the same transitions have been announced.
\<close>

theorem utilization_refines_hysteresis:
  assumes "util_validate r = Inr ()"
  shows "(let (st, said) = foldl (util_machine L r) (UtilizationRuleState_default, []) es in (util_abs st, said))
    = foldl (spec_machine L r) (spec_initial, []) es"
  using util_rule.sim_run [of r "(UtilizationRuleState_default, [])" L es] util_inv_default [OF assms]
  by (simp add: split_beta)

section \<open>What is announced\<close>

text \<open>An episode: a trigger, its escalations and, if it is over, its resolution.\<close>

definition closed_episode :: "nat \<Rightarrow> IncidentTransition list" where
  "closed_episode n = Trigger # replicate n Escalate @ [Resolve]"

definition open_episode :: "util_spec \<Rightarrow> IncidentTransition list" where
  "open_episode s = (if sp_active s = None then [] else Trigger # replicate (sp_escalations s) Escalate)"

definition episodes :: "util_spec \<times> IncidentTransition list \<Rightarrow> bool" where
  "episodes = (\<lambda>(s, said).
     (\<exists>ns. set ns \<subseteq> {..2} \<and> said = concat (map closed_episode ns) @ open_episode s)
   \<and> (\<forall>sev. sp_active s = Some sev \<longrightarrow> sp_escalations s + 2 \<le> util_severity_rank (Some sev)))"

lemma episodesI:
  "set ns \<subseteq> {..2} \<Longrightarrow> said = concat (map closed_episode ns) @ open_episode s \<Longrightarrow>
   (\<And>sev. sp_active s = Some sev \<Longrightarrow> sp_escalations s + 2 \<le> util_severity_rank (Some sev)) \<Longrightarrow> episodes (s, said)"
  unfolding episodes_def by blast

lemma episodes_same:
  "episodes (s, said) \<Longrightarrow> sp_active s' = sp_active s \<Longrightarrow> sp_escalations s' = sp_escalations s \<Longrightarrow> episodes (s', said)"
proof -
  assume "sp_active s' = sp_active s" "sp_escalations s' = sp_escalations s"
  moreover from this have "open_episode s' = open_episode s" by (simp add: open_episode_def)
  moreover assume "episodes (s, said)"
  ultimately show ?thesis by (simp add: episodes_def)
qed

lemma episodes_reading:
  assumes "episodes (s, said)" and breach: "\<And>sev. breach = Some sev \<Longrightarrow> Medium \<le> sev"
  shows "episodes (fst (spec_reading n breach c h s), log_transition (snd (spec_reading n breach c h s)) said)"
proof -
  from assms(1) obtain ns where ns: "set ns \<subseteq> {..2}" "said = concat (map closed_episode ns) @ open_episode s"
    and e: "\<And>sev. sp_active s = Some sev \<Longrightarrow> sp_escalations s + 2 \<le> util_severity_rank (Some sev)"
    unfolding episodes_def by blast
  show ?thesis
  proof (cases "sp_active s")
    case None
    show ?thesis
    proof (cases breach)
      case (Some sev)
      have "2 \<le> util_severity_rank (Some sev)" using breach [OF Some] by (cases sev) (simp_all add: less_eq_Severity_def)
      then show ?thesis using None Some ns
        by (intro episodesI [of ns]) (auto simp: spec_reading_breach log_transition_def open_episode_def)
    qed (use None assms(1) in \<open>simp add: spec_reading_breach log_transition_def\<close>)
  next
    case active: (Some prev)
    show ?thesis
    proof (cases breach)
      case (Some sev)
      show ?thesis
      proof (cases "prev < sev")
        case True
        then have "util_severity_rank (Some prev) < util_severity_rank (Some sev)" by (simp only: util_rank_less)
        with e [OF active] have "Suc (sp_escalations s) + 2 \<le> util_severity_rank (Some sev)" by linarith
        with True active Some ns show ?thesis
          by (intro episodesI [of ns]) (auto simp: spec_reading_breach log_transition_def open_episode_def replicate_append_same)
      next
        case False
        with active Some assms(1) show ?thesis
          by (simp add: spec_reading_breach log_transition_def) (auto elim: episodes_same)
      qed
    next
      case None
      have two: "sp_escalations s \<le> 2" using e [OF active] util_rank_le_4 [of prev] by linarith
      show ?thesis
      proof (cases "c prev \<and> \<not> sp_paused s \<and> n \<le> Suc (sp_calm s)")
        case True
        with active None ns two show ?thesis
          by (intro episodesI [of "ns @ [sp_escalations s]"])
             (auto simp: spec_reading_def log_transition_def open_episode_def closed_episode_def)
      next
        case False
        with active None assms(1) show ?thesis
          by (auto simp: spec_reading_def log_transition_def elim: episodes_same)
      qed
    qed
  qed
qed

lemma episodes_run: "episodes x \<Longrightarrow> episodes (foldl (spec_machine L r) x es)"
proof (induction es arbitrary: x)
  case (Cons e es)
  obtain s said where x: "x = (s, said)" by (cases x)
  have "episodes (spec_machine L r (s, said) e)"
  proof (cases e)
    case (Reading pct tvl now)
    then show ?thesis
      using Cons.prems episodes_reading [of s said "classify_severity pct r"] classify_severity_medium
      by (auto simp: x Let_def split_beta)
  next
    case (PauseSignal paused now)
    then show ?thesis using Cons.prems by (auto simp: x elim: episodes_same)
  qed
  then show ?case using Cons.IH by (simp add: x)
qed simp

text \<open>
  The announcements of a valid rule, over every history, are a sequence of complete episodes, each a
  trigger, at most two escalations and a resolution, followed by an open episode exactly if an
  incident is active, whose escalations are the stored count.
\<close>

lemma utilization_announcements_language:
  assumes "util_validate r = Inr ()"
    and "foldl (util_machine L r) (UtilizationRuleState_default, []) es = (st, said)"
  shows "\<exists>ns. set ns \<subseteq> {..2}
     \<and> said = concat (map (\<lambda>n. Trigger # replicate n Escalate @ [Resolve]) ns)
            @ (if ust_last_severity st = None then []
               else Trigger # replicate (unat (ust_escalation_count st)) Escalate)
     \<and> unat (ust_escalation_count st) \<le> 2"
proof -
  let ?x = "(UtilizationRuleState_default, [] :: IncidentTransition list)"
  have inv: "util_inv r st" using util_rule.inv_run [of r ?x L es] util_inv_default [OF assms(1)] assms(2) by simp
  have "(util_abs st, said) = foldl (spec_machine L r) (spec_initial, []) es"
    using util_rule.sim_run [of r ?x L es] util_inv_default [OF assms(1)] assms(2) by simp
  moreover have "episodes (spec_initial, [])"
    by (rule episodesI [of "[]"]) (simp_all add: spec_initial_def open_episode_def)
  ultimately have "episodes (util_abs st, said)" using episodes_run by metis
  then obtain ns where ns: "set ns \<subseteq> {..2}" "said = concat (map closed_episode ns) @ open_episode (util_abs st)"
    unfolding episodes_def by blast
  moreover have "ust_last_severity st = None \<longleftrightarrow> sp_active (util_abs st) = None"
    using inv by (auto simp: util_inv_def util_abs_def util_severity_round_trip split: option.splits)
  moreover have "closed_episode = (\<lambda>n. Trigger # replicate n Escalate @ [Resolve])"
    by (simp add: closed_episode_def fun_eq_iff)
  moreover have "unat (ust_escalation_count st) \<le> 2"
    using inv util_rank_le_4 by (fastforce simp: util_inv_def split: option.splits dest: le_trans)
  ultimately show ?thesis by (auto simp: open_episode_def util_abs_def intro!: exI [of _ ns])
qed

section \<open>Resolution\<close>

fun calm_input :: "'a util_libs_scheme \<Rightarrow> UtilizationHighRule \<Rightarrow> Severity \<Rightarrow> util_input \<Rightarrow> bool" where
  "calm_input L r s (Reading pct tvl now) =
     (reading_counts L r tvl now \<and> classify_severity pct r = None \<and> calm_for r pct s)"
| "calm_input L r s (PauseSignal paused now) = False"

lemma spec_calm_step:
  assumes "calm_input L r sev e" "sp_active s = Some sev" "\<not> sp_paused s"
  shows "spec_machine L r (s, said) e =
    (if unat (ur_resolution_confirmation_blocks r) \<le> Suc (sp_calm s)
     then (s\<lparr>sp_active := None, sp_calm := 0, sp_escalations := 0\<rparr>, said @ [Resolve])
     else (s\<lparr>sp_calm := Suc (sp_calm s)\<rparr>, said))"
  using assms by (cases e) (simp_all add: spec_reading_def log_transition_def)

lemma spec_calm_run:
  assumes "list_all (calm_input L r sev) es" "sp_active s = Some sev" "\<not> sp_paused s"
    "sp_calm s + length es < unat (ur_resolution_confirmation_blocks r)"
  shows "foldl (spec_machine L r) (s, said) es = (s\<lparr>sp_calm := sp_calm s + length es\<rparr>, said)"
  using assms
proof (induction es arbitrary: s)
  case (Cons e es)
  then have "spec_machine L r (s, said) e = (s\<lparr>sp_calm := Suc (sp_calm s)\<rparr>, said)"
    using spec_calm_step [of L r sev e s said] by simp
  then show ?case using Cons.IH [of "s\<lparr>sp_calm := Suc (sp_calm s)\<rparr>"] Cons.prems by simp
qed simp

lemma reached_from_default:
  assumes "util_validate r = Inr ()" "foldl (util_machine L r) (UtilizationRuleState_default, []) es0 = (st, said)"
  shows "util_inv r st" "(let (st', said') = foldl (util_machine L r) (st, said) es in (util_abs st', said'))
    = foldl (spec_machine L r) (util_abs st, said) es"
proof -
  show "util_inv r st"
    using util_rule.inv_run [of r "(UtilizationRuleState_default, [])" L es0] util_inv_default [OF assms(1)] assms(2) by simp
  then show "(let (st', said') = foldl (util_machine L r) (st, said) es in (util_abs st', said'))
    = foldl (spec_machine L r) (util_abs st, said) es"
    using util_rule.sim_run [of r "(st, said)" L es] by (simp add: split_beta)
qed

lemma active_severity_known:
  assumes "util_inv r st"
  shows "ust_last_severity st = None \<longleftrightarrow> sp_active (util_abs st) = None"
    "sp_active (util_abs st) = Some sev \<Longrightarrow> ust_last_severity st = Some (util_severity_to_str sev)"
  using assms by (auto simp: util_inv_def util_abs_def util_severity_round_trip split: option.splits)

text \<open>
  Incidents end: from any state a valid rule can reach with an active incident on a protocol that is
  not paused, as many further calm readings as the counter still lacks (above the TVL floor, below
  every threshold and below the resolution threshold of the incident's severity) resolve it with the last of them, announced once,
  and with none before.
\<close>

lemma utilization_resolves_after_confirmation:
  assumes "util_validate r = Inr ()"
    and "foldl (util_machine L r) (UtilizationRuleState_default, []) es0 = (st, said)"
    and "util_severity_from_str (ust_last_severity st) = Some sev" and "\<not> ust_paused_status st"
    and "list_all (calm_input L r sev) es"
    and "length es = unat (ur_resolution_confirmation_blocks r) - unat (ust_resolution_block_counter st)"
  shows "(\<exists>st'. foldl (util_machine L r) (st, said) es = (st', said @ [Resolve]) \<and> ust_last_severity st' = None)
    \<and> (\<forall>n < length es. \<exists>st'. foldl (util_machine L r) (st, said) (take n es) = (st', said) \<and> ust_last_severity st' \<noteq> None)"
proof -
  note inv = reached_from_default(1) [OF assms(1,2)] and sim = reached_from_default(2) [OF assms(1,2)]
  let ?n = "unat (ur_resolution_confirmation_blocks r)" and ?s = "util_abs st"
  have s: "sp_active ?s = Some sev" "\<not> sp_paused ?s" "sp_calm ?s = unat (ust_resolution_block_counter st)"
    using assms(3,4) by (simp_all add: util_abs_def)
  have lt: "sp_calm ?s < ?n" using inv s by (simp add: util_inv_def word_less_nat_alt)
  have inv': "util_inv r (fst (foldl (util_machine L r) (st, said) xs))" for xs
    using util_rule.inv_run [of r "(st, said)" L xs] inv by simp
  have before: "\<exists>st'. foldl (util_machine L r) (st, said) (take n es) = (st', said) \<and> ust_last_severity st' \<noteq> None"
    if "n < length es" for n
  proof -
    have "foldl (spec_machine L r) (?s, said) (take n es) = (?s\<lparr>sp_calm := sp_calm ?s + n\<rparr>, said)"
      using spec_calm_run [of L r sev "take n es" ?s said] s that assms(5,6) lt
      by (simp add: list_all_length min_absorb2)
    moreover obtain st' said' where f: "foldl (util_machine L r) (st, said) (take n es) = (st', said')"
      by (cases "foldl (util_machine L r) (st, said) (take n es)")
    ultimately have "util_abs st' = ?s\<lparr>sp_calm := sp_calm ?s + n\<rparr>" "said' = said" using sim [of "take n es"] by simp_all
    moreover have "util_inv r st'" using inv' [of "take n es"] f by simp
    ultimately show ?thesis using f s active_severity_known(1) by fastforce
  qed
  obtain e es' where es: "es = es' @ [e]" using assms(6) lt s by (cases es rule: rev_cases) auto
  have "foldl (spec_machine L r) (?s, said) es' = (?s\<lparr>sp_calm := sp_calm ?s + length es'\<rparr>, said)"
    by (rule spec_calm_run) (use es s assms(5,6) lt in auto)
  moreover have "?n \<le> Suc (sp_calm ?s + length es')" using es assms(6) s lt by simp
  ultimately have spec: "foldl (spec_machine L r) (?s, said) es
      = (?s\<lparr>sp_active := None, sp_calm := 0, sp_escalations := 0\<rparr>, said @ [Resolve])"
    using spec_calm_step [of L r sev e "?s\<lparr>sp_calm := sp_calm ?s + length es'\<rparr>" said] s assms(5) es by simp
  obtain st' said' where f: "foldl (util_machine L r) (st, said) es = (st', said')"
    by (cases "foldl (util_machine L r) (st, said) es")
  then have "util_abs st' = ?s\<lparr>sp_active := None, sp_calm := 0, sp_escalations := 0\<rparr>" "said' = said @ [Resolve]"
    using sim [of es] spec by simp_all
  moreover have "util_inv r st'" using inv' [of es] f by simp
  ultimately show ?thesis using f before active_severity_known(1) [of r st'] by simp
qed

section \<open>Pauses\<close>

lemma spec_paused_run:
  assumes "\<forall>now. PauseSignal False now \<notin> set es" "sp_active s \<noteq> None" "sp_paused s"
  obtains s' ts where "foldl (spec_machine L r) (s, said) es = (s', said @ ts)" "sp_active s' \<noteq> None" "sp_paused s'"
    "set ts \<subseteq> {Escalate}"
  using assms
proof (induction es arbitrary: s said thesis)
  case (Cons e es)
  obtain s1 ts1 where one: "spec_machine L r (s, said) e = (s1, said @ ts1)" "sp_active s1 \<noteq> None" "sp_paused s1"
    "set ts1 \<subseteq> {Escalate}"
  proof (cases e)
    case (Reading pct tvl now)
    let ?o = "spec_reading (unat (ur_resolution_confirmation_blocks r)) (classify_severity pct r) (calm_for r pct) (tense_for r pct) s"
    have "sp_active (fst ?o) \<noteq> None \<and> sp_paused (fst ?o) \<and> (snd ?o = None \<or> snd ?o = Some Escalate)"
      using Cons.prems(3,4) by (cases "classify_severity pct r") (auto simp: spec_reading_def)
    then show thesis using Cons.prems(3,4)
      by (intro that [of "if reading_counts L r tvl now then fst ?o else s"
            "if reading_counts L r tvl now \<and> snd ?o \<noteq> None then [Escalate] else []"])
         (auto simp: Reading log_transition_def split_beta Let_def)
  next
    case (PauseSignal paused now)
    then have paused using Cons.prems(2) by (cases paused) auto
    then show thesis using PauseSignal Cons.prems(3) by (intro that [of "s\<lparr>sp_paused := True\<rparr>" "[]"]) auto
  qed
  have "\<forall>now. PauseSignal False now \<notin> set es" using Cons.prems(2) by simp
  from Cons.IH [OF _ this one(2,3), of "said @ ts1"] obtain s' ts where
    "foldl (spec_machine L r) (s1, said @ ts1) es = (s', (said @ ts1) @ ts)" "sp_active s' \<noteq> None" "sp_paused s'"
    "set ts \<subseteq> {Escalate}" by blast
  then show ?case using Cons.prems(1) [of s' "ts1 @ ts"] one by simp
qed (use that in fastforce)

text \<open>
  A pause that has reached an incident keeps it open: until the protocol is reported unpaused the
  incident stays active whatever the readings, and nothing but escalations is announced.
\<close>

lemma utilization_paused_incident_stays_open:
  assumes "util_validate r = Inr ()"
    and "foldl (util_machine L r) (UtilizationRuleState_default, []) es0 = (st, said)"
    and "ust_last_severity st \<noteq> None" and "ust_paused_status st"
    and "\<forall>now. PauseSignal False now \<notin> set es"
  shows "\<exists>st' ts. foldl (util_machine L r) (st, said) es = (st', said @ ts) \<and> ust_last_severity st' \<noteq> None
     \<and> ust_paused_status st' \<and> set ts \<subseteq> {Escalate}"
proof -
  note inv = reached_from_default(1) [OF assms(1,2)] and sim = reached_from_default(2) [OF assms(1,2), of es]
  have s: "sp_active (util_abs st) \<noteq> None" "sp_paused (util_abs st)"
    using assms(3,4) active_severity_known(1) [OF inv] by (simp_all add: util_abs_def)
  obtain s' ts where sp: "foldl (spec_machine L r) (util_abs st, said) es = (s', said @ ts)" "sp_active s' \<noteq> None"
    "sp_paused s'" "set ts \<subseteq> {Escalate}" by (rule spec_paused_run [OF assms(5) s])
  obtain st' said' where f: "foldl (util_machine L r) (st, said) es = (st', said')"
    by (cases "foldl (util_machine L r) (st, said) es")
  have "util_inv r st'" using util_rule.inv_run [of r "(st, said)" L es] inv f by simp
  moreover from f sim sp(1) have "util_abs st' = s'" "said' = said @ ts" by simp_all
  ultimately show ?thesis using f sp(2-4) active_severity_known(1) [of r st'] by (auto simp: util_abs_def)
qed

section \<open>A history\<close>

definition aave_rule :: "string \<Rightarrow> UtilizationHighRule" where
  "aave_rule name = (util_default_rule name ''aave_v3'' ''base'' ''protocol'' None)\<lparr>ur_resolution_confirmation_blocks := 2\<rparr>"

definition aave_libs :: util_libs where
  "aave_libs =
     \<lparr>ul_add_secs = (\<lambda>t s. Some (t + s * nanos_per_sec)), ul_min_utc = 0, ul_rfc3339 = (\<lambda>_. []), ul_fmt2 = (\<lambda>_. []),
      ul_fmt2_signed = (\<lambda>_. []), ul_time_json = (\<lambda>_. JNull), ul_de_rule = (\<lambda>_. None),
      ul_de_state = (\<lambda>v. Some (UtilizationRuleState_default\<lparr>ust_last_severity := as_str v\<rparr>)),
      ul_ser_state = (\<lambda>st. Inr (j_opt JString (ust_last_severity st)))\<rparr>"

lemmas aave_defs = aave_rule_def util_default_rule_def

lemma aave_names: "trim ''aave_v3'' \<noteq> []" "trim ''base'' \<noteq> []" "trim ''r1'' \<noteq> []" "\<not> eq_ignore_ascii_case ''protocol'' ''market''"
  by code_simp+

lemma aave_valid: "util_validate (aave_rule ''r1'') = Inr ()"
  by (simp add: util_validate_def aave_defs aave_names f64_eval)

lemma aave_counts: "reading_counts aave_libs (aave_rule name) (lit 0) now"
  by (simp add: reading_counts_def below_tvl_floor_def aave_libs_def f64_eval)

lemma aave_reading:
  "classify_severity (lit 96) (aave_rule name) = Some High" "classify_severity (lit 99) (aave_rule name) = Some Critical"
  "classify_severity (lit 50) (aave_rule name) = None" "calm_for (aave_rule name) (lit 50) s"
  by (simp_all add: classify_severity_def resolution_threshold_for_def aave_defs f64_eval)

lemma aave_blocks: "ur_resolution_confirmation_blocks (aave_rule name) = 2"
  by (simp add: aave_rule_def)

abbreviation aave_rising :: "util_input list" where
  "aave_rising \<equiv> [Reading (lit 96) (lit 0) 0, Reading (lit 99) (lit 0) 1]"

abbreviation aave_calm :: "util_input list" where
  "aave_calm \<equiv> [Reading (lit 50) (lit 0) 2, Reading (lit 50) (lit 0) 3]"

lemmas aave_spec = spec_initial_def spec_reading_def log_transition_def aave_counts aave_reading aave_blocks less_Severity_def

lemma aave_rising_spec:
  "foldl (spec_machine aave_libs (aave_rule ''r1'')) (spec_initial, []) aave_rising
   = (\<lparr>sp_active = Some Critical, sp_calm = 0, sp_escalations = 1, sp_paused = False\<rparr>, [Trigger, Escalate])"
  by (simp add: aave_spec)

lemma aave_run:
  obtains st where "foldl (util_machine aave_libs (aave_rule ''r1'')) (UtilizationRuleState_default, []) es
      = (st, snd (foldl (spec_machine aave_libs (aave_rule ''r1'')) (spec_initial, []) es))"
    "util_abs st = fst (foldl (spec_machine aave_libs (aave_rule ''r1'')) (spec_initial, []) es)"
proof -
  obtain st said where f: "foldl (util_machine aave_libs (aave_rule ''r1'')) (UtilizationRuleState_default, []) es = (st, said)"
    by (rule prod.exhaust)
  have "(util_abs st, said) = foldl (spec_machine aave_libs (aave_rule ''r1'')) (spec_initial, []) es"
    using util_rule.sim_run [of "aave_rule ''r1''" "(UtilizationRuleState_default, [])" aave_libs es]
      util_inv_default [OF aave_valid] f by simp
  from this [symmetric] f that show thesis by simp
qed

theorem utilization_refines_hysteresis_witness:
  "(let (st, said) = foldl (util_machine aave_libs (aave_rule ''r1'')) (UtilizationRuleState_default, []) aave_rising
    in (util_abs st, said))
   = (\<lparr>sp_active = Some Critical, sp_calm = 0, sp_escalations = 1, sp_paused = False\<rparr>, [Trigger, Escalate])"
  unfolding utilization_refines_hysteresis [OF aave_valid] by (rule aave_rising_spec)

end
