(* ===== verification/UtilIncidents.thy ===== *)
theory UtilIncidents
  imports UtilSafety
begin

text \<open>
  The utilisation pattern over events: what it changes, that its rules stay valid and its cache bounded,
  its contract with the registry, the source of its detections, and the reach of a pause.
\<close>

section \<open>What an event changes\<close>

interpretation util_cache: bounded_cache "util_prune_state_cache L" UTILIZATION_STATE_CACHE_MAX_ENTRIES for L
proof unfold_locales
  fix now k and cache cache' :: "(string \<times> UtilizationRuleState) list"
  assume "util_prune_state_cache L now k cache = Inr cache'" "distinct (map fst cache)"
  from prune_cache_ok [OF this(1) [unfolded util_prune_state_cache_def] this(2)]
  show "distinct (map fst cache') \<and> set cache' \<subseteq> set cache \<and> length cache' \<le> UTILIZATION_STATE_CACHE_MAX_ENTRIES
      \<and> map_of cache' k = map_of cache k"
    by (simp add: UTILIZATION_STATE_CACHE_MAX_ENTRIES_def)
qed

abbreviation util_cache_ok :: "UtilizationHighPattern \<Rightarrow> bool" where
  "util_cache_ok pt \<equiv> util_cache.cache_within (\<lambda>_ _. True) (uh_state_cache pt)"

definition util_frame ::
  "string \<Rightarrow> UtilizationHighPattern \<Rightarrow> world \<Rightarrow> UtilizationHighPattern \<Rightarrow> world \<Rightarrow> bool" where
  "util_frame tenant pt w pt' w' \<longleftrightarrow>
     uh_configs pt' = uh_configs pt \<and> uh_source_bindings pt' = uh_source_bindings pt
   \<and> (util_cache_ok pt \<longrightarrow> util_cache_ok pt') \<and> world_frame UTIL_PATTERN_ID tenant w w'"

lemma util_frame_refl [simp]: "util_frame t pt w pt w"
  by (simp add: util_frame_def)

lemma util_frame_trans: "util_frame t pt w pt1 w1 \<Longrightarrow> util_frame t pt1 w1 pt2 w2 \<Longrightarrow> util_frame t pt w pt2 w2"
  by (auto simp: util_frame_def intro: world_frame_trans)

text \<open>A store changes one state at most.\<close>

lemma util_store_effect:
  assumes "util_store L en event key st snap score sev now pt w = (pt', w', x)"
  shows "util_frame (ue_tenant_id event) pt w pt' w'"
    and "k \<noteq> key \<Longrightarrow> w_states w' (t, p, k) = w_states w (t, p, k)"
proof -
  have sn: "world_frame UTIL_PATTERN_ID u w (insert_pattern_snapshot en s w)" for u s
    by (rule world_frame_snapshot)
  have same: "w_states (insert_pattern_snapshot en s w) = w_states w" for s
    by (simp add: insert_pattern_snapshot_def)
  have up: "world_frame UTIL_PATTERN_ID u w (upsert_pattern_state en u UTIL_PATTERN_ID j v (insert_pattern_snapshot en s w))"
    for u j v s by (rule world_frame_trans [OF sn world_frame_upsert])
  show "util_frame (ue_tenant_id event) pt w pt' w'"
  proof (cases "ul_ser_state L st")
    case (Inl e)
    then show ?thesis using assms sn by (auto simp: util_store_def Let_def util_frame_def split: if_splits)
  next
    case (Inr v)
    then show ?thesis using assms up sn util_cache.insert_ok [where P = "\<lambda>_ _. True"]
      by (fastforce simp: util_store_def Let_def util_frame_def split: sum.splits if_splits)
  qed
  show "w_states w' (t, p, k) = w_states w (t, p, k)" if "k \<noteq> key"
    using assms that same by (auto simp: util_store_def Let_def upsert_pattern_state_def split: sum.splits if_splits)
qed


lemma util_reading_ruleE:
  assumes "util_reading_rule L en event s now r pt w em = (pt', w', x)"
  obtains (unchanged) "pt' = pt" "w' = w" "\<forall>em'. x = Inr em' \<longrightarrow> em' = em"
  | (stored) ty sk st0 st res d y where "util_subject_for_event r (uo_market_id s) = Some (ty, sk)"
      "util_load_state L en (ue_tenant_id event) (util_state_key (ur_rule_id r) sk) w = Inr st0"
      "evaluate_utilization_state L r st0 (uo_utilization_pct s) (uo_tvl_usd s) now = Inr (st, res)"
      "\<not> uv_tvl_floor_suppressed res" "util_detection_of L en event r ty sk s st res now = Inr d"
      "util_store L en event (util_state_key (ur_rule_id r) sk) st (util_snapshot r sk s st res)
         (Some (uo_utilization_pct s)) (ust_last_severity st) now pt w = (pt', w', y)"
      "\<forall>em'. x = Inr em' \<longrightarrow> em' = (case d of None \<Rightarrow> em | Some c \<Rightarrow> pick_higher em c)"
proof (cases "util_subject_for_event r (uo_market_id s)")
  case None
  then show ?thesis using assms unchanged by (auto simp: util_reading_rule_def)
next
  case (Some p)
  obtain ty sk where p: "p = (ty, sk)" by (cases p)
  let ?k = "util_state_key (ur_rule_id r) sk"
  show ?thesis
  proof (cases "bind_res (util_load_state L en (ue_tenant_id event) ?k w) (\<lambda>st0.
      evaluate_utilization_state L r st0 (uo_utilization_pct s) (uo_tvl_usd s) now)")
    case (Inl e)
    then show ?thesis using assms Some p unchanged by (auto simp: util_reading_rule_def Let_def)
  next
    case ev: (Inr q)
    obtain st res where q: "q = (st, res)" by (cases q)
    from ev q obtain st0 where st0: "util_load_state L en (ue_tenant_id event) ?k w = Inr st0"
      "evaluate_utilization_state L r st0 (uo_utilization_pct s) (uo_tvl_usd s) now = Inr (st, res)"
      by (auto simp: bind_res_eq_Inr)
    show ?thesis
    proof (cases "uv_tvl_floor_suppressed res")
      case True
      then show ?thesis using assms Some p ev q unchanged by (auto simp: util_reading_rule_def Let_def)
    next
      case False
      show ?thesis
      proof (cases "util_detection_of L en event r ty sk s st res now")
        case (Inl e)
        then have "pt' = pt \<and> w' = w \<and> x = Inl e" using assms Some p ev q False by (simp add: util_reading_rule_def Let_def)
        then show ?thesis by (intro unchanged) simp_all
      next
        case (Inr d)
        obtain pt1 w1 y where sto: "util_store L en event ?k st (util_snapshot r sk s st res)
          (Some (uo_utilization_pct s)) (ust_last_severity st) now pt w = (pt1, w1, y)" by (metis prod.exhaust)
        have "(pt', w', x) = (case y of Inl e \<Rightarrow> (pt1, w1, Inl e)
            | Inr _ \<Rightarrow> (pt1, w1, Inr (case d of None \<Rightarrow> em | Some c \<Rightarrow> pick_higher em c)))"
          unfolding assms [symmetric]
          by (cases y) (simp_all only: util_reading_rule_def Some p ev q False Inr sto Let_def option.case prod.case
              sum.case simp_thms if_False split: unit.split)
        then have eq: "pt' = pt1" "w' = w1" "\<forall>em'. x = Inr em' \<longrightarrow> em' = (case d of None \<Rightarrow> em | Some c \<Rightarrow> pick_higher em c)"
          by (cases y; simp)+
        from stored [OF Some [unfolded p] st0 False Inr _ eq(3)] sto eq(1,2) show ?thesis by simp
      qed
    qed
  qed
qed

lemma util_reading_rule_frame:
  "util_reading_rule L en event s now r pt w em = (pt', w', x) \<Longrightarrow> util_frame (ue_tenant_id event) pt w pt' w'"
  by (erule util_reading_ruleE) (auto intro: util_store_effect(1))

text \<open>A pause: either no rule has an incident, or the first that has one takes it.\<close>

lemma util_pause_rulesE:
  assumes "util_pause_rules L en event pause now rs pt w = (pt', w', x)"
  obtains (ignored) "pt' = pt" "w' = w" "\<forall>d. x \<noteq> Inr (Some d)"
  | (taken) r ty sk st0 active snap y where "r \<in> set rs"
      "util_subject_for_event r (up_market_id pause) = Some (ty, sk)"
      "util_load_state L en (ue_tenant_id event) (util_state_key (ur_rule_id r) sk) w = Inr st0"
      "ust_last_severity st0 = Some active"
      "util_store L en event (util_state_key (ur_rule_id r) sk)
         (st0\<lparr>ust_paused_status := up_paused pause, ust_last_transition_at := Some now\<rparr>) snap None (Some active) now pt w
       = (pt', w', y)"
      "\<forall>d. x = Inr d \<longrightarrow> d = Some (util_build_pause_detection en event r ty sk
         (unwrap_or (util_severity_from_str (Some active)) Medium) pause now) \<and> y = Inr ()"
  using assms
proof (induction rs arbitrary: thesis)
  case Nil
  then show ?case by auto
next
  case (Cons r rs)
  have tail: thesis if "util_pause_rules L en event pause now rs pt w = (pt', w', x)"
  proof (rule Cons.IH [OF _ _ that], goal_cases)
    case (2 ra ty sk st0 active snap y)
    then show ?case by (intro Cons.prems(2) [of ra ty sk st0 active snap y]) simp_all
  qed (rule Cons.prems(1))
  show ?case
  proof (cases "util_subject_for_event r (up_market_id pause)")
    case None
    then show thesis using Cons.prems(3) tail by simp
  next
    case (Some p)
    obtain ty sk where p: "p = (ty, sk)" by (cases p)
    let ?k = "util_state_key (ur_rule_id r) sk"
    show thesis
    proof (cases "util_load_state L en (ue_tenant_id event) ?k w")
      case (Inl e)
      then show thesis using Cons.prems(1,3) Some p by (auto simp: Let_def)
    next
      case ld: (Inr st0)
      show thesis
      proof (cases "ust_last_severity st0")
        case None
        then show thesis using Cons.prems(3) Some p ld tail by (simp add: Let_def)
      next
        case act: (Some active)
        let ?st = "st0\<lparr>ust_paused_status := up_paused pause, ust_last_transition_at := Some now\<rparr>"
        let ?snap = "JObject
                           [(''rule_id'', JString (ur_rule_id r)), (''subject_key'', JString sk),
                            (''pause_state'', JString (util_pause_label (up_paused pause))),
                            (''incident_transition'', JString ''update'')]"
        let ?d = "util_build_pause_detection en event r ty sk (unwrap_or (util_severity_from_str (Some active)) Medium) pause now"
        obtain pt1 w1 y where sto: "util_store L en event ?k ?st ?snap None (Some active) now pt w = (pt1, w1, y)"
          by (metis prod.exhaust)
        have "(pt', w', x) = (case y of Inl e \<Rightarrow> (pt1, w1, Inl e) | Inr _ \<Rightarrow> (pt1, w1, Inr (Some ?d)))"
          unfolding Cons.prems(3) [symmetric]
          by (cases y) (simp_all only: util_pause_rules.simps Some p ld act sto Let_def option.case prod.case sum.case
              simp_thms split: unit.split)
        then have eq: "pt' = pt1" "w' = w1" "\<forall>d. x = Inr d \<longrightarrow> d = Some ?d \<and> y = Inr ()" by (cases y; simp)+
        then have "util_store L en event ?k ?st ?snap None (Some active) now pt w = (pt', w', y)" using sto by simp
        from Cons.prems(2) [OF _ Some [unfolded p] ld act this eq(3)] show thesis by simp
      qed
    qed
  qed
qed

text \<open>An event is one reading for the rules in turn, or one pause for the first that has an incident.\<close>

lemma util_process_eventE:
  assumes "util_process_event L en event now pt w = (pt', w', x)"
  obtains (ignored) "pt' = pt" "w' = w" "x = Inr None"
  | (reading) rules s res where "util_rules_for pt event = Some rules" "parse_utilization_state_event event = Some s"
      "run_rules (util_reading_rule L en event s now)
         (filter (\<lambda>r. ur_enabled r \<and> util_matches r (uo_protocol_id s) (uo_chain_slug s) (uo_market_id s)) rules) pt w None
       = (pt', w', res)"
      "x = map_sum id (map_option (with_other_incidents L (ue_tenant_id event) (uh_state_cache pt'))) res"
  | (pause) rules pause where "util_rules_for pt event = Some rules" "parse_utilization_state_event event = None"
      "parse_utilization_pause_event event = Some pause"
      "util_pause_rules L en event pause now
         (filter (\<lambda>r. ur_enabled r \<and> util_matches r (up_protocol_id pause) (up_chain_slug pause) (up_market_id pause)) rules) pt w
       = (pt', w', x)"
proof (cases "util_rules_for pt event")
  case None
  then show ?thesis using assms ignored by (simp add: util_process_event_def)
next
  case rules: (Some rules)
  show ?thesis
  proof (cases "parse_utilization_state_event event")
    case None
    then show ?thesis using assms rules ignored pause
      by (cases "parse_utilization_pause_event event") (auto simp: util_process_event_def)
  next
    case (Some s)
    obtain p1 w1 res where run: "run_rules (util_reading_rule L en event s now)
         (filter (\<lambda>r. ur_enabled r \<and> util_matches r (uo_protocol_id s) (uo_chain_slug s) (uo_market_id s)) rules) pt w None
       = (p1, w1, res)" by (rule prod_cases3)
    then have "pt' = p1 \<and> w' = w1
      \<and> x = map_sum id (map_option (with_other_incidents L (ue_tenant_id event) (uh_state_cache p1))) res"
      using assms by (cases res) (auto simp: util_process_event_def rules Some)
    with reading [OF rules Some] run show ?thesis by simp
  qed
qed

lemma util_process_event_frame:
  assumes "util_process_event L en event now pt w = (pt', w', x)"
  shows "util_frame (ue_tenant_id event) pt w pt' w'"
  using assms
proof (cases rule: util_process_eventE)
  case (reading rules s res)
  let ?I = "\<lambda>p v (_ :: DetectionResult option). util_frame (ue_tenant_id event) pt w p v"
  have "case res of Inl _ \<Rightarrow> util_frame (ue_tenant_id event) pt w pt' w' | Inr em \<Rightarrow> ?I pt' w' em"
    by (rule run_rules_inv [OF reading(3), of ?I])
       (auto intro: util_frame_trans util_reading_rule_frame split: sum.split)
  then show ?thesis by (simp split: sum.splits)
next
  case (pause rules pause)
  from pause(4) show ?thesis by (cases rule: util_pause_rulesE) (auto intro: util_store_effect(1))
qed simp

section \<open>The pattern stays well formed\<close>

definition util_rule_ok :: "UtilizationHighRule \<Rightarrow> bool" where
  "util_rule_ok r \<longleftrightarrow> util_validate r = Inr ()"

definition util_pattern_ok :: "UtilizationHighPattern \<Rightarrow> bool" where
  "util_pattern_ok pt \<longleftrightarrow>
     util_cache_ok pt \<and> (\<forall>t rules. uh_configs pt t = Some rules \<longrightarrow> (\<forall>r \<in> set rules. util_rule_ok r))"

fun util_step :: "'a util_libs_scheme \<Rightarrow> UtilizationHighPattern \<Rightarrow> pattern_call \<Rightarrow> UtilizationHighPattern" where
  "util_step L pt (Reload config_map) = util_reload_config L config_map pt"
| "util_step L pt (Process en ev now w) = fst (util_process_event L en ev now pt w)"

lemma util_reload_configs:
  assumes "\<forall>t rules. uh_configs acc t = Some rules \<longrightarrow> (\<forall>r \<in> set rules. util_rule_ok r)"
    "uh_configs (fold (util_reload_entry L) cm acc) t = Some rules"
  shows "\<forall>r \<in> set rules. util_rule_ok r"
  using assms
proof (induction cm arbitrary: acc)
  case (Cons x cm)
  have "\<forall>r \<in> set (parse_utilization_rules L c tenant). util_rule_ok r" for c tenant
    by (auto simp: parse_utilization_rules_def map_filter_def util_parsed_rule_def util_rule_ok_def Let_def
        split: Option.bind_splits if_splits)
  then have "\<forall>t rules. uh_configs (util_reload_entry L x acc) t = Some rules \<longrightarrow> (\<forall>r \<in> set rules. util_rule_ok r)"
    using Cons.prems(1) by (auto simp: util_reload_entry_def split_beta)
  then show ?case using Cons by simp
qed simp

interpretation utilization: invariant_machine "util_step L" util_pattern_ok for L
proof
  fix pt c assume ok: "util_pattern_ok pt"
  show "util_pattern_ok (util_step L pt c)"
  proof (cases c)
    case (Reload config_map)
    have "\<forall>t rules. uh_configs UtilizationHighPattern_default t = Some rules \<longrightarrow> (\<forall>r \<in> set rules. util_rule_ok r)"
      by (simp add: UtilizationHighPattern_default_def)
    from util_reload_configs [OF this, of L config_map] show ?thesis
      using ok by (simp add: Reload util_pattern_ok_def util_reload_config_def Let_def)
  next
    case (Process en ev now w)
    obtain pt' w' x where p: "util_process_event L en ev now pt w = (pt', w', x)" by (rule prod_cases3)
    from util_process_event_frame [OF p] show ?thesis
      using ok by (simp add: Process p util_pattern_ok_def util_frame_def)
  qed
qed

text \<open>
  The pattern is always well typed: after any sequence of reloads and events every configured rule
  passes validation, so its thresholds are ordered with a gap below each for the resolution and it needs
  at least one calm reading, and the cache of states keeps distinct keys and at most 4096 entries.
\<close>

lemma util_pattern_stays_ok:
  "util_pattern_ok (foldl (util_step L) UtilizationHighPattern_default calls)"
  by (rule utilization.inv_run)
     (simp add: util_pattern_ok_def UtilizationHighPattern_default_def util_cache.cache_within_empty)

section \<open>The contract with the registry\<close>

lemma util_pick_cases: "pick_higher em d = Some d' \<Longrightarrow> em = Some d' \<or> d' = d"
  by (auto simp: pick_higher_def split: option.splits if_splits)

lemma other_incidents_fields [simp]:
  "dr_pattern_id (with_other_incidents L t c d) = dr_pattern_id d"
  "dr_tenant_id (with_other_incidents L t c d) = dr_tenant_id d"
  "dr_severity (with_other_incidents L t c d) = dr_severity d"
  "dr_incident_transition (with_other_incidents L t c d) = dr_incident_transition d"
  "dr_triggered_rule_ids (with_other_incidents L t c d) = dr_triggered_rule_ids d"
  by (simp_all add: with_other_incidents_def Let_def)

lemma util_build_fields:
  assumes "build_utilization_detection L en ev r ty key sev t s st now = Inr d"
  shows "dr_pattern_id d = UTIL_PATTERN_ID" "dr_tenant_id d = Some (ue_tenant_id ev)" "dr_severity d = sev"
    "dr_incident_transition d = Some t" "dr_triggered_rule_ids d = [''utilization_high.'' @ ur_rule_id r]"
  using assms by (auto simp: build_utilization_detection_def Let_def split_beta bind_res_eq_Inr)

lemma util_resolve_fields [simp]:
  "dr_pattern_id (build_resolve_detection L en ev r ty key sev res s now) = UTIL_PATTERN_ID"
  "dr_tenant_id (build_resolve_detection L en ev r ty key sev res s now) = Some (ue_tenant_id ev)"
  "dr_severity (build_resolve_detection L en ev r ty key sev res s now) = sev"
  "dr_incident_transition (build_resolve_detection L en ev r ty key sev res s now) = Some Resolve"
  "dr_triggered_rule_ids (build_resolve_detection L en ev r ty key sev res s now) = [''utilization_high.'' @ ur_rule_id r]"
  by (simp_all add: build_resolve_detection_def Let_def split_beta)

lemma util_pause_fields [simp]:
  "dr_pattern_id (util_build_pause_detection en ev r ty key s pause now) = UTIL_PATTERN_ID"
  "dr_tenant_id (util_build_pause_detection en ev r ty key s pause now) = Some (ue_tenant_id ev)"
  "dr_incident_transition (util_build_pause_detection en ev r ty key s pause now) = Some Update"
  "dr_triggered_rule_ids (util_build_pause_detection en ev r ty key s pause now) = [''utilization_high.'' @ ur_rule_id r]"
  by (simp_all add: util_build_pause_detection_def Let_def split_beta)

text \<open>Where the detection of a reading comes from.\<close>

lemma util_reading_rule_detects:
  assumes "util_reading_rule L en event s now r pt w em = (pt', w', Inr (Some d))" "em \<noteq> Some d"
  obtains ty sk st0 st res where "util_subject_for_event r (uo_market_id s) = Some (ty, sk)"
    "evaluate_utilization_state L r st0 (uo_utilization_pct s) (uo_tvl_usd s) now = Inr (st, res)"
    "\<not> uv_tvl_floor_suppressed res" "util_detection_of L en event r ty sk s st res now = Inr (Some d)"
  using assms(1)
proof (cases rule: util_reading_ruleE)
  case (stored ty sk st0 st res c y)
  from stored(7) assms(2) have "c = Some d" by (cases c) (auto dest: util_pick_cases [OF sym])
  with stored that show ?thesis by blast
qed (use assms(2) in auto)

lemma util_process_event_detects:
  assumes "util_process_event L en event now pt w = (pt', w', Inr (Some d))"
  obtains (reading) rules r s ty sk st0 st res c where
      "util_rules_for pt event = Some rules" "r \<in> set rules" "ur_enabled r"
      "parse_utilization_state_event event = Some s"
      "util_matches r (uo_protocol_id s) (uo_chain_slug s) (uo_market_id s)"
      "evaluate_utilization_state L r st0 (uo_utilization_pct s) (uo_tvl_usd s) now = Inr (st, res)"
      "\<not> uv_tvl_floor_suppressed res" "util_detection_of L en event r ty sk s st res now = Inr (Some c)"
      "d = with_other_incidents L (ue_tenant_id event) (uh_state_cache pt') c"
  | (pause) r pause ty sk sev where "parse_utilization_state_event event = None"
      "parse_utilization_pause_event event = Some pause" "d = util_build_pause_detection en event r ty sk sev pause now"
  using assms
proof (cases rule: util_process_eventE)
  case (reading rules s res)
  from reading(4) [symmetric] obtain c where c: "res = Inr (Some c)"
    "d = with_other_incidents L (ue_tenant_id event) (uh_state_cache pt') c" by (cases res) auto
  let ?I = "\<lambda>_ _ em. em = Some c \<longrightarrow> thesis"
  have "case res of Inl _ \<Rightarrow> True | Inr em \<Rightarrow> ?I pt' w' em"
  proof (rule run_rules_inv [OF reading(3), of ?I], goal_cases)
    case (2 r p w em p' w' x)
    show ?case
    proof (cases "x = Inr (Some c) \<and> em \<noteq> Some c")
      case True
      then have "util_reading_rule L en event s now r p w em = (p', w', Inr (Some c))" "em \<noteq> Some c" using 2(3) by simp_all
      then obtain ty sk st0 st res where o: "util_subject_for_event r (uo_market_id s) = Some (ty, sk)"
        "evaluate_utilization_state L r st0 (uo_utilization_pct s) (uo_tvl_usd s) now = Inr (st, res)"
        "\<not> uv_tvl_floor_suppressed res" "util_detection_of L en event r ty sk s st res now = Inr (Some c)"
        by (rule util_reading_rule_detects)
      have "r \<in> set rules" "ur_enabled r" "util_matches r (uo_protocol_id s) (uo_chain_slug s) (uo_market_id s)"
        using 2(1) by simp_all
      from that(1) [OF reading(1) this(1,2) reading(2) this(3) o(2,3,4) c(2)] show ?thesis by (simp split: sum.split)
    qed (use 2(2) in \<open>auto split: sum.split\<close>)
  qed simp
  with c(1) show ?thesis by simp
next
  case (pause rules pause)
  from pause(4) show ?thesis
    by (cases rule: util_pause_rulesE) (use pause that(2) in auto)
qed simp

lemma util_process_event_signs:
  assumes "util_process_event L en event now pt w = (pt', w', Inr (Some d))"
  shows "dr_pattern_id d = UTIL_PATTERN_ID \<and> dr_tenant_id d = Some (ue_tenant_id event)"
  using assms
  by (rule util_process_event_detects)
     (auto simp: util_detection_of_def util_build_fields bind_res_eq_Inr split: if_splits option.splits)

interpretation util_contract: detection_pattern "\<lambda>_ k. k = UTIL_PATTERN_ID" "util_process_event L" for L
proof unfold_locales
  fix en ev now p w p' w' r
  assume r: "util_process_event L en ev now p w = (p', w', r)"
  note f = util_process_event_frame [OF r, unfolded util_frame_def world_frame_def]
  show "w_detections w' = w_detections w \<and> w_published w' = w_published w \<and> w_raw_events w' = w_raw_events w"
    using f by blast
  show "w_states w' (t, k, s) = w_states w (t, k, s)" if "\<not> k = UTIL_PATTERN_ID" for k t s
    using f that by blast
qed (use util_process_event_signs in blast)+

section \<open>Detections are justified\<close>

lemma severity_from_known: "util_severity_from_str (Some x) = Some s \<Longrightarrow> x = util_severity_to_str s"
  by (auto simp: util_severity_from_str_def split: if_splits)

lemma complete_result_fields [simp]:
  "uv_resolved (complete_result st res) = uv_resolved res"
  "uv_emit_severity (complete_result st res) = uv_emit_severity res"
  "uv_resolved_from_severity (complete_result st res) = uv_resolved_from_severity res"
  by (simp_all add: complete_result_def)

lemma util_detection_justified:
  assumes "evaluate_utilization_state L r st0 pct tvl now = Inr (st, res)" "\<not> uv_tvl_floor_suppressed res"
    "util_detection_of L en event r ty sk s st res now = Inr (Some c)"
  shows "reading_counts L r tvl now
    \<and> (dr_incident_transition c = Some Trigger \<and> classify_severity pct r = Some (dr_severity c)
     \<or> dr_incident_transition c = Some Escalate \<and> classify_severity pct r = Some (dr_severity c)
     \<or> dr_incident_transition c = Some Resolve \<and> classify_severity pct r = None \<and> calm_for r pct (dr_severity c))
    \<and> dr_triggered_rule_ids c = [''utilization_high.'' @ ur_rule_id r]"
proof (cases rule: evaluate_utilization_cases [of L r st0 pct tvl now])
  case (counted samples st1 res1)
  from counted(2) assms(1) have res: "st = st1" "res = complete_result st1 res1" by simp_all
  show ?thesis
  proof (cases "util_severity_from_str (ust_last_severity st0)")
    case None
    with counted(1,3) assms(3) show ?thesis
      by (cases "classify_severity pct r")
         (auto simp: res first_breach_def util_detection_of_def UtilizationEvalResult_default_def bind_res_eq_Inr util_build_fields)
  next
    case (Some prev)
    then obtain x where x: "ust_last_severity st0 = Some x" by (cases "ust_last_severity st0") auto
    with Some have "x = util_severity_to_str prev" by (simp add: severity_from_known)
    with counted(1,3) assms(3) Some x show ?thesis
      by (cases "classify_severity pct r")
         (auto simp: res further_breach_def calm_reading_def Let_def util_detection_of_def UtilizationEvalResult_default_def
           bind_res_eq_Inr util_build_fields split: if_splits)
  qed
qed (use assms in auto)

text \<open>
  (C25) Every detection on a reading is justified: it names an enabled rule of the event's tenant that
  covers the reading's protocol, chain and market; the event's source is bound to the pattern where
  the tenant binds any; the value locked, where it is positive, is not below the rule's floor (a
  reading that comes without one, or with zero, passes that gate); and either an incident
  starts or grows, to the severity whose threshold the reading reaches, or it resolves, and the reading
  is below every threshold and below the resolution threshold of the severity it had.
\<close>

theorem utilization_alerts_are_justified:
  assumes "util_process_event L en event now pt w = (pt', w', Inr (Some d))"
    and "parse_utilization_state_event event = Some s"
  shows "\<exists>rules r. uh_configs pt (ue_tenant_id event) = Some rules \<and> r \<in> set rules \<and> ur_enabled r
     \<and> util_matches r (uo_protocol_id s) (uo_chain_slug s) (uo_market_id s)
     \<and> (\<forall>bound. uh_source_bindings pt (ue_tenant_id event) = Some bound \<longrightarrow> bound = {} \<or> ue_source_id event \<in> bound)
     \<and> dr_triggered_rule_ids d = [''utilization_high.'' @ ur_rule_id r]
     \<and> \<not> (uo_tvl_usd s < ur_min_tvl_floor_usd r \<and> 0 < uo_tvl_usd s)
     \<and> (case classify_severity (uo_utilization_pct s) r of
          Some sev \<Rightarrow> dr_severity d = sev \<and> dr_incident_transition d \<in> {Some Trigger, Some Escalate}
        | None \<Rightarrow> dr_incident_transition d = Some Resolve
            \<and> uo_utilization_pct s < resolution_threshold_for r (util_severity_to_str (dr_severity d)))"
  using assms(1)
proof (cases rule: util_process_event_detects)
  case (reading rules r s' ty sk st0 st res c)
  have "s' = s" using reading(4) assms(2) by simp
  with util_detection_justified [OF reading(6-8)] reading(1-3,5,9) show ?thesis
    by (intro exI [of _ rules] exI [of _ r])
       (auto simp: util_rules_for_def reading_counts_def below_tvl_floor_def split: if_splits option.splits)
qed (use assms(2) in simp)

section \<open>The reach of a pause\<close>


section \<open>Two events\<close>

definition aave_pattern :: "string list \<Rightarrow> UtilizationHighPattern" where
  "aave_pattern names = UtilizationHighPattern_default\<lparr>uh_configs := [''t'' \<mapsto> map aave_rule names]\<rparr>"

definition aave_event :: "string \<Rightarrow> (string \<times> json) list \<Rightarrow> UnifiedEvent" where
  "aave_event ty payload =
     \<lparr>ue_event_id = [], ue_tenant_id = ''t'', ue_source_id = ''b'', ue_source_type = CexWebsocket,
      ue_event_type = ty, ue_timestamp = 0, ue_payload = JObject payload, ue_chain_id = None,
      ue_block_number = None, ue_tx_hash = None, ue_market_key = None, ue_price = None\<rparr>"

abbreviation aave_state_event :: UnifiedEvent where
  "aave_state_event \<equiv> aave_event ''protocol_state''
     [(''metric'', JString ''utilization''), (''protocol_id'', JString ''aave_v3''), (''utilization'', JNumber (PosInt 96))]"


abbreviation aave_state :: UtilizationStateEvent where
  "aave_state \<equiv>
     \<lparr>uo_protocol_id = ''aave_v3'', uo_chain_slug = ''base'', uo_market_id = None, uo_utilization_pct = lit 96,
      uo_tvl_usd = lit 0, uo_total_supplied_tokens = 0, uo_total_borrowed_tokens = 0, uo_block_number = 0, uo_tx_hash = None\<rparr>"


definition aave_world :: "json \<Rightarrow> world" where
  "aave_world v = \<lparr>w_states = (\<lambda>_. Some v), w_snapshots = [], w_raw_events = [], w_detections = [], w_published = []\<rparr>"

definition aave_env :: environment where
  "aave_env = \<lparr>en_fails = (\<lambda>_. False), en_detection_uuid = [], en_tx_uuid = []\<rparr>"

lemma aave_strings:
  "eq_ignore_ascii_case ''protocol_state'' ''protocol_state''" "\<not> eq_ignore_ascii_case ''protocol_pause'' ''protocol_state''"
  "eq_ignore_ascii_case ''protocol_pause'' ''protocol_pause''" "eq_ignore_ascii_case ''utilization'' ''utilization''"
  "eq_ignore_ascii_case ''aave_v3'' ''aave_v3''" "eq_ignore_ascii_case ''base'' ''base''"
  "to_ascii_lowercase ''aave_v3'' = ''aave_v3''" "to_ascii_lowercase ''base'' = ''base''"
  by code_simp+

lemmas aave_parse = aave_event_def util_chain_def util_market_def util_block_def util_tx_def number_at_def or_else_def
  as_percentage_def f64_eval aave_strings

lemma aave_state_parsed: "parse_utilization_state_event aave_state_event = Some aave_state"
  by (simp add: parse_utilization_state_event_def aave_parse)


lemma aave_subject: "util_subject_for_event (aave_rule name) None = Some (''protocol'', ''aave_v3:base'')"
  by (simp add: util_subject_for_event_def util_normalized_scope_def aave_defs aave_names aave_strings)

lemma aave_matches: "util_matches (aave_rule name) ''aave_v3'' ''base'' None" "ur_enabled (aave_rule name)" "ur_rule_id (aave_rule name) = name"
  by (simp_all add: util_matches_def util_normalized_scope_def aave_defs aave_names aave_strings)

lemma aave_load: "util_load_state aave_libs aave_env t k (aave_world v) = Inr (UtilizationRuleState_default\<lparr>ust_last_severity := as_str v\<rparr>)"
  by (simp add: util_load_state_def load_pattern_state_def aave_env_def aave_world_def aave_libs_def)

lemma aave_rules: "util_rules_for (aave_pattern names) (aave_event ty payload) = Some (map aave_rule names)"
  by (simp add: util_rules_for_def aave_pattern_def UtilizationHighPattern_default_def aave_event_def)

lemma aave_store:
  "snd (snd (util_store aave_libs aave_env (aave_event ty payload) key st snap score sev now (aave_pattern names) w)) = Inr ()"
  by (simp add: util_store_def Let_def aave_libs_def util_prune_state_cache_def prune_cache_def retain_recent_def
      aave_pattern_def UtilizationHighPattern_default_def)


lemma aave_evaluates:
  "\<exists>st res. evaluate_utilization_state aave_libs (aave_rule name) UtilizationRuleState_default (lit 96) (lit 0) now = Inr (st, res)
     \<and> \<not> uv_tvl_floor_suppressed res \<and> \<not> uv_resolved res \<and> uv_transition res = Some Trigger \<and> uv_emit_severity res = Some High"
proof (cases rule: evaluate_utilization_cases [of aave_libs "aave_rule name" UtilizationRuleState_default "lit 96" "lit 0" now])
  case (counted samples st1 res)
  then show ?thesis
    by (auto simp: UtilizationRuleState_default_def aave_reading first_breach_def complete_result_def UtilizationEvalResult_default_def)
qed (use aave_counts in auto)

lemma aave_builds: "\<exists>d. build_utilization_detection aave_libs en ev r ty key sev t s st now = Inr d"
  by (auto simp: build_utilization_detection_def rate_of_change_def minutes_ago_def aave_libs_def Let_def split_beta bind_res_eq_Inr)

theorem utilization_alerts_are_justified_witness:
  "\<exists>pt' w' d. util_process_event aave_libs aave_env aave_state_event 0 (aave_pattern [''r1'']) (aave_world JNull) = (pt', w', Inr (Some d))
     \<and> dr_severity d = High \<and> dr_incident_transition d \<in> {Some Trigger, Some Escalate}"
proof -
  let ?w = "aave_world JNull"
  have ld: "util_load_state aave_libs aave_env t k ?w = Inr UtilizationRuleState_default" for t k
    by (simp add: aave_load) (simp add: UtilizationRuleState_default_def)
  obtain st res where ev: "evaluate_utilization_state aave_libs (aave_rule ''r1'') UtilizationRuleState_default (lit 96) (lit 0) 0 = Inr (st, res)"
    "\<not> uv_tvl_floor_suppressed res" "\<not> uv_resolved res" "uv_transition res = Some Trigger" "uv_emit_severity res = Some High"
    using aave_evaluates by blast
  obtain c where "build_utilization_detection aave_libs aave_env aave_state_event (aave_rule ''r1'') ''protocol'' ''aave_v3:base''
      High Trigger aave_state st 0 = Inr c" using aave_builds by blast
  then have det: "util_detection_of aave_libs aave_env aave_state_event (aave_rule ''r1'') ''protocol'' ''aave_v3:base'' aave_state st res 0
      = Inr (Some c)" by (simp add: util_detection_of_def ev)
  have "\<exists>pt' w'. util_reading_rule aave_libs aave_env aave_state_event aave_state 0 (aave_rule ''r1'') (aave_pattern [''r1'']) ?w None
      = (pt', w', Inr (Some c))"
    by (simp add: util_reading_rule_def aave_subject ld ev det aave_matches pick_higher_def Let_def aave_store split_beta split: unit.split)
  then have "\<exists>pt' w' d. util_process_event aave_libs aave_env aave_state_event 0 (aave_pattern [''r1'']) ?w = (pt', w', Inr (Some d))"
    by (elim exE) (simp add: util_process_event_def aave_rules aave_state_parsed aave_matches)
  then obtain pt' w' d where p: "util_process_event aave_libs aave_env aave_state_event 0 (aave_pattern [''r1'']) ?w
      = (pt', w', Inr (Some d))" by blast
  from utilization_alerts_are_justified [OF p aave_state_parsed] obtain r where
    "r \<in> {aave_rule ''r1''}" "case classify_severity (uo_utilization_pct aave_state) r of
          Some sev \<Rightarrow> dr_severity d = sev \<and> dr_incident_transition d \<in> {Some Trigger, Some Escalate} | None \<Rightarrow> True"
    by (auto simp: aave_pattern_def aave_event_def split: option.splits)
  then show ?thesis using p by (auto simp: aave_reading)
qed

end
