(* ===== verification/FlashLoan.thy ===== *)
theory FlashLoan
  imports StateCache
begin

text \<open>
  The flash-loan pattern, \<^verbatim>\<open>apps/detector/src/patterns/flash_loan.rs\<close>: rules with thresholds on the loan
  and on the profit, and a cooldown per rule and attacker that is kept per tenant. The pattern, what it
  announces, and that the cooldowns are kept over every history.
\<close>

section \<open>Rules\<close>

record FlashLoanRule =
  flr_rule_id :: string
  flr_name :: string
  flr_protocol_id :: string
  flr_chain_slug :: string
  flr_min_loan_amount_usd :: f64
  flr_profit_threshold_usd :: f64
  flr_cooldown_sec :: int
  flr_enabled :: bool

definition FLASH_PATTERN_ID :: string where
  "FLASH_PATTERN_ID = ''flash_loan''"

definition DEFAULT_MIN_LOAN_USD :: f64 where
  "DEFAULT_MIN_LOAN_USD = lit 100000"

definition DEFAULT_PROFIT_THRESHOLD_USD :: f64 where
  "DEFAULT_PROFIT_THRESHOLD_USD = lit 1000"

definition DEFAULT_COOLDOWN_SEC :: int where
  "DEFAULT_COOLDOWN_SEC = 300"

definition flash_parse_f64 :: "json option \<Rightarrow> f64 \<Rightarrow> f64" where
  "flash_parse_f64 v fallback = unwrap_or (Option.bind v as_f64) fallback"

definition flash_parse_i64 :: "json option \<Rightarrow> int \<Rightarrow> int" where
  "flash_parse_i64 v fallback =
     (case Option.bind v as_i64 of
        Some n \<Rightarrow> n
      | None \<Rightarrow> (case Option.bind v as_u64 of Some n \<Rightarrow> wrap_i64 (int n) | None \<Rightarrow> fallback))"

definition flash_parse_rule_item :: "json \<Rightarrow> nat \<Rightarrow> FlashLoanRule option" where
  "flash_parse_rule_item v i =
     map_option (\<lambda>m.
       (let rule_id = unwrap_or (trimmed (Option.bind (map_of m ''rule_id'') as_str))
                        (''flash-rule-'' @ nat_to_string (i + 1))
        in \<lparr>flr_rule_id = rule_id,
            flr_name = unwrap_or (trimmed (Option.bind (map_of m ''name'') as_str)) rule_id,
            flr_protocol_id = unwrap_or (Option.bind (map_of m ''protocol_id'') as_str) [],
            flr_chain_slug = unwrap_or (Option.bind (map_of m ''chain_slug'') as_str) [],
            flr_min_loan_amount_usd = flash_parse_f64 (map_of m ''min_loan_amount_usd'') DEFAULT_MIN_LOAN_USD,
            flr_profit_threshold_usd = flash_parse_f64 (map_of m ''profit_threshold_usd'') DEFAULT_PROFIT_THRESHOLD_USD,
            flr_cooldown_sec = flash_parse_i64 (map_of m ''cooldown_sec'') DEFAULT_COOLDOWN_SEC,
            flr_enabled = unwrap_or (Option.bind (map_of m ''enabled'') as_bool) True\<rparr>))
       (as_object v)"

definition default_flash_rule :: "string \<Rightarrow> string \<Rightarrow> FlashLoanRule" where
  "default_flash_rule rule_id name =
     \<lparr>flr_rule_id = rule_id, flr_name = name, flr_protocol_id = [], flr_chain_slug = [],
      flr_min_loan_amount_usd = DEFAULT_MIN_LOAN_USD, flr_profit_threshold_usd = DEFAULT_PROFIT_THRESHOLD_USD,
      flr_cooldown_sec = DEFAULT_COOLDOWN_SEC, flr_enabled = True\<rparr>"

definition parse_flash_loan_rules :: "json \<Rightarrow> FlashLoanRule list" where
  "parse_flash_loan_rules config =
     (let items = unwrap_or (Option.bind (j_get config ''rules'') as_array) [];
          parsed = List.map_filter (\<lambda>(i, item). flash_parse_rule_item item i) (enumerate 0 items)
      in if parsed \<noteq> [] then parsed
         else [default_flash_rule ''flash-default'' ''Default Flash Loan Rule''])"

section \<open>Indicators\<close>

record FlashLoanIndicators =
  fli_loan_amount_usd :: f64
  fli_profit_usd :: f64
  fli_attacker_address :: string
  fli_protocol :: string
  fli_chain :: Chain
  fli_chain_slug :: string

definition flash_chain_from_slug :: "string \<Rightarrow> Chain" where
  "flash_chain_from_slug slug =
     unwrap_or (map_of
       [(''ethereum'', Ethereum), (''mainnet'', Ethereum), (''arbitrum'', Arbitrum), (''optimism'', Optimism),
        (''base'', Base), (''polygon'', Polygon), (''avalanche'', Avalanche), (''bsc'', BSC), (''bnb'', BSC)]
       slug) Chain_Unknown"

definition extract_flash_loan_indicators :: "json \<Rightarrow> FlashLoanIndicators option" where
  "extract_flash_loan_indicators payload =
     (let fl = unwrap_or (j_get payload ''flash_loan'') payload in
      Option.bind (Option.bind (j_get fl ''loan_amount_usd'') as_f64) (\<lambda>loan.
        (let chain_slug = unwrap_or (get_str payload ''chain_slug'') ''unknown''
         in Some
           \<lparr>fli_loan_amount_usd = loan,
            fli_profit_usd = unwrap_or (Option.bind (j_get fl ''profit_usd'') as_f64) 0,
            fli_attacker_address =
              unwrap_or (Option.bind (or_else (j_get fl ''attacker_address'') (j_get payload ''from'')) as_str) ''unknown'',
            fli_protocol =
              unwrap_or (Option.bind (or_else (j_get fl ''protocol'') (j_get payload ''protocol'')) as_str) ''unknown'',
            fli_chain = flash_chain_from_slug chain_slug, fli_chain_slug = chain_slug\<rparr>)))"

section \<open>The pattern\<close>

text \<open>The end of the cooldown of each rule and attacker; the order of the map does not matter.\<close>

record FlashLoanState =
  fls_cooldowns :: "(string \<times> datetime) list"

record FlashLoanPattern =
  fp_configs :: "string \<Rightarrow> FlashLoanRule list option"
  fp_state_cache :: "string \<Rightarrow> FlashLoanState option"
  fp_source_bindings :: "string \<Rightarrow> string set option"

definition FlashLoanPattern_default :: FlashLoanPattern where
  "FlashLoanPattern_default =
     \<lparr>fp_configs = Map.empty, fp_state_cache = Map.empty, fp_source_bindings = Map.empty\<rparr>"

text \<open>
  What is relied on outside the repository: \<open>fl_add_secs\<close> adds seconds to a time where chrono can
  represent them and the result, \<open>fl_fmt0\<close> renders without decimals, and the derived code
  (de)serialises the cooldowns.
\<close>

record flash_libs =
  fl_add_secs :: "datetime \<Rightarrow> int \<Rightarrow> datetime option"
  fl_rfc3339 :: "datetime \<Rightarrow> string"
  fl_fmt0 :: "f64 \<Rightarrow> string"
  fl_de_state :: "json \<Rightarrow> FlashLoanState option"
  fl_ser_state :: "FlashLoanState \<Rightarrow> json res"

definition flash_reload_entry :: "(string \<times> string) \<times> json \<Rightarrow> FlashLoanPattern \<Rightarrow> FlashLoanPattern" where
  "flash_reload_entry = (\<lambda>((tenant_id, pattern_id), config) acc.
     (if pattern_id \<noteq> FLASH_PATTERN_ID then acc
      else acc\<lparr>fp_configs := (fp_configs acc)(tenant_id \<mapsto> parse_flash_loan_rules (extract_detection_config config)),
               fp_source_bindings :=
                 (case extract_bound_source_ids config of
                    None \<Rightarrow> fp_source_bindings acc
                  | Some bound \<Rightarrow> (fp_source_bindings acc)(tenant_id \<mapsto> bound))\<rparr>))"

definition flash_reload_config :: "((string \<times> string) \<times> json) list \<Rightarrow> FlashLoanPattern \<Rightarrow> FlashLoanPattern" where
  "flash_reload_config config_map pt =
     (let new = fold flash_reload_entry config_map FlashLoanPattern_default
      in pt\<lparr>fp_configs := fp_configs new, fp_source_bindings := fp_source_bindings new\<rparr>)"

definition flash_build_detection ::
  "'a flash_libs_scheme \<Rightarrow> environment \<Rightarrow> UnifiedEvent \<Rightarrow> FlashLoanIndicators \<Rightarrow> datetime \<Rightarrow> FlashLoanRule
     \<Rightarrow> DetectionResult" where
  "flash_build_detection L en event fl now r =
     (let (is_simulated, run_id) = simulation_metadata_from_event event;
          tx_hash = unwrap_or (ue_tx_hash event) (en_tx_uuid en);
          loan = fl_fmt0 L (fli_loan_amount_usd fl);
          profit = fl_fmt0 L (fli_profit_usd fl)
      in \<lparr>dr_detection_id = en_detection_uuid en, dr_pattern_id = FLASH_PATTERN_ID,
          dr_event_key = Some (''flash_loan:'' @ ue_tenant_id event @ '':'' @ flr_rule_id r @ '':'' @ tx_hash),
          dr_subject_type = Some ''address'', dr_subject_key = Some (fli_attacker_address fl),
          dr_tenant_id = Some (ue_tenant_id event), dr_chain = fli_chain fl, dr_chain_slug = fli_chain_slug fl,
          dr_protocol = fli_protocol fl, dr_lifecycle_state = Confirmed, dr_requires_confirmation = False,
          dr_attack_family = AF_FlashLoan, dr_severity = High,
          dr_description = Some (''Flash loan rule '' @ [CHR 0x27] @ flr_name r @ [CHR 0x27] @ '' triggered: $'' @ loan
            @ '' borrowed from '' @ fli_protocol fl @ '', $'' @ profit @ '' profit extracted by ''
            @ fli_attacker_address fl @ '' on '' @ fli_chain_slug fl @ ''.''),
          dr_triggered_rule_ids = [''flash_loan.'' @ flr_rule_id r],
          dr_tx_hash = tx_hash, dr_block_number = unwrap_or (ue_block_number event) 0,
          dr_signals =
            [\<lparr>sg_signal_type = ST_LoanVolumeSpike, sg_value = fli_loan_amount_usd fl,
              sg_label = Some (''loan $'' @ loan), sg_source_id = None\<rparr>,
             \<lparr>sg_signal_type = ST_ProfitExtracted, sg_value = fli_profit_usd fl,
              sg_label = Some (''profit $'' @ profit), sg_source_id = None\<rparr>],
          dr_risk_score = RiskScore_default, dr_incident_transition = None, dr_context_classification = None,
          dr_confidence_breakdown = [], dr_oracle_context = [],
          dr_actions_recommended =
            [''Pause affected protocol pools immediately.'', ''Notify protocol team and security researchers.''],
          dr_is_simulated = is_simulated, dr_simulation_run_id = run_id,
          dr_detected_at = now, dr_created_at = now\<rparr>)"

section \<open>Processing an event\<close>

definition flash_cooldown_key :: "FlashLoanRule \<Rightarrow> FlashLoanIndicators \<Rightarrow> string" where
  "flash_cooldown_key r fl = flr_rule_id r @ '':'' @ fli_attacker_address fl"

text \<open>A rule fires when it is enabled, both thresholds are met and the attacker is not cooling down.\<close>

definition flash_rule_met :: "FlashLoanIndicators \<Rightarrow> FlashLoanRule \<Rightarrow> bool" where
  "flash_rule_met fl r \<longleftrightarrow>
     flr_enabled r \<and> \<not> fli_loan_amount_usd fl < flr_min_loan_amount_usd r
   \<and> \<not> fli_profit_usd fl < flr_profit_threshold_usd r"

definition flash_cooling :: "FlashLoanState \<Rightarrow> string \<Rightarrow> datetime \<Rightarrow> bool" where
  "flash_cooling st key now \<longleftrightarrow>
     (case map_of (fls_cooldowns st) key of None \<Rightarrow> False | Some until \<Rightarrow> now < until)"

definition flash_drop_expired :: "datetime \<Rightarrow> FlashLoanState \<Rightarrow> FlashLoanState" where
  "flash_drop_expired now st = st\<lparr>fls_cooldowns := filter (\<lambda>(_, until). now < until) (fls_cooldowns st)\<rparr>"

definition flash_store ::
  "'a flash_libs_scheme \<Rightarrow> environment \<Rightarrow> UnifiedEvent \<Rightarrow> FlashLoanIndicators \<Rightarrow> FlashLoanRule \<Rightarrow> json \<Rightarrow> world \<Rightarrow> world" where
  "flash_store L en event fl r v w =
     insert_pattern_snapshot en
       \<lparr>ps_tenant_id = ue_tenant_id event, ps_pattern_id = FLASH_PATTERN_ID, ps_snapshot_key = flash_cooldown_key r fl,
        ps_data = append_snapshot_meta (fl_rfc3339 L) event
          (JObject [(''rule_id'', JString (flr_rule_id r)), (''rule_name'', JString (flr_name r)),
             (''loan_amount_usd'', j_f64 (fli_loan_amount_usd fl)), (''profit_usd'', j_f64 (fli_profit_usd fl)),
             (''attacker_address'', JString (fli_attacker_address fl)), (''protocol'', JString (fli_protocol fl)),
             (''tx_hash'', j_opt JString (ue_tx_hash event))]),
        ps_score = Some (fli_profit_usd fl), ps_severity = Some ''high'', ps_observed_at = ue_timestamp event\<rparr>
       (upsert_pattern_state en (ue_tenant_id event) FLASH_PATTERN_ID ''cooldowns'' v w)"

text \<open>The first rule that fires ends the event. The result is the tenant's state after it.\<close>

fun flash_rules ::
  "'a flash_libs_scheme \<Rightarrow> environment \<Rightarrow> UnifiedEvent \<Rightarrow> FlashLoanIndicators \<Rightarrow> datetime \<Rightarrow> FlashLoanRule list
     \<Rightarrow> FlashLoanState \<Rightarrow> world \<Rightarrow> FlashLoanState \<times> world \<times> DetectionResult option res" where
  "flash_rules L en event fl now [] st w = (st, w, Inr None)"
| "flash_rules L en event fl now (r # rs) st w =
     (let key = flash_cooldown_key r fl in
      if \<not> flash_rule_met fl r \<or> flash_cooling st key now then flash_rules L en event fl now rs st w
      else
        (case fl_add_secs L now (flr_cooldown_sec r) of
           None \<Rightarrow> (st, w, Inl (Panic ''DateTime + Duration overflowed''))
         | Some until \<Rightarrow>
             (let st' = st\<lparr>fls_cooldowns := AList.update key until (fls_cooldowns st)\<rparr> in
              case fl_ser_state L st' of
                Inl e \<Rightarrow> (st', w, Inl e)
              | Inr v \<Rightarrow> (st', flash_store L en event fl r v w, Inr (Some (flash_build_detection L en event fl now r))))))"

definition flash_load_state ::
  "'a flash_libs_scheme \<Rightarrow> environment \<Rightarrow> string \<Rightarrow> FlashLoanPattern \<Rightarrow> world \<Rightarrow> FlashLoanState res" where
  "flash_load_state L en tenant pt w =
     (case fp_state_cache pt tenant of
        Some st \<Rightarrow> Inr st
      | None \<Rightarrow>
          bind_res (load_pattern_state en tenant FLASH_PATTERN_ID ''cooldowns'' w) (\<lambda>v.
            Inr (unwrap_or (Option.bind v (fl_de_state L)) \<lparr>fls_cooldowns = []\<rparr>)))"

definition flash_rules_for :: "FlashLoanPattern \<Rightarrow> UnifiedEvent \<Rightarrow> FlashLoanRule list option" where
  "flash_rules_for pt event =
     (if ue_source_type event \<noteq> EvmChain then None
      else if (case fp_source_bindings pt (ue_tenant_id event) of
            None \<Rightarrow> False
          | Some bound \<Rightarrow> bound \<noteq> {} \<and> ue_source_id event \<notin> bound) then None
      else (case fp_configs pt (ue_tenant_id event) of
              None \<Rightarrow> None
            | Some rules \<Rightarrow> if rules = [] then None else Some rules))"

definition flash_process_event ::
  "'a flash_libs_scheme \<Rightarrow> environment \<Rightarrow> UnifiedEvent \<Rightarrow> datetime \<Rightarrow> FlashLoanPattern \<Rightarrow> world
     \<Rightarrow> FlashLoanPattern \<times> world \<times> DetectionResult option res" where
  "flash_process_event L en event now pt w =
     (case (flash_rules_for pt event, extract_flash_loan_indicators (ue_payload event)) of
        (Some rules, Some fl) \<Rightarrow>
          (case flash_load_state L en (ue_tenant_id event) pt w of
             Inl e \<Rightarrow> (pt, w, Inl e)
           | Inr st0 \<Rightarrow>
               (let (st, w', x) = flash_rules L en event fl now rules (flash_drop_expired now st0) w
                in (pt\<lparr>fp_state_cache := (fp_state_cache pt)(ue_tenant_id event \<mapsto> st)\<rparr>, w', x)))
      | _ \<Rightarrow> (pt, w, Inr None))"

end
