(* ===== verification/FlashSafety.thy ===== *)
theory FlashSafety
  imports FlashLoan
begin

text \<open>
  What holds of the flash-loan pattern: which rule answers an event, the cooldown of an attacker over
  every history, and the contract with the registry.
\<close>

section \<open>Which rule answers\<close>

lemma flash_rulesE:
  assumes "flash_rules L en event fl now rs st w = (st', w', x)"
  obtains (silent) "st' = st" "w' = w" "\<forall>d. x \<noteq> Inr (Some d)"
  | (fired) r until where "r \<in> set rs" "flash_rule_met fl r" "\<not> flash_cooling st (flash_cooldown_key r fl) now"
      "fl_add_secs L now (flr_cooldown_sec r) = Some until"
      "st' = st\<lparr>fls_cooldowns := AList.update (flash_cooldown_key r fl) until (fls_cooldowns st)\<rparr>"
      "w' = w \<and> (\<forall>d. x \<noteq> Inr (Some d))
       \<or> (\<exists>v. w' = flash_store L en event fl r v w) \<and> x = Inr (Some (flash_build_detection L en event fl now r))"
  using assms
proof (induction rs arbitrary: thesis)
  case (Cons r rs)
  show ?case
  proof (cases "\<not> flash_rule_met fl r \<or> flash_cooling st (flash_cooldown_key r fl) now")
    case True
    then have tail: "flash_rules L en event fl now rs st w = (st', w', x)" using Cons.prems(3) by simp
    show ?thesis
    proof (rule Cons.IH [OF _ _ tail], goal_cases)
      case (2 ra until)
      then show ?case by (intro Cons.prems(2) [of ra until]) simp_all
    qed (rule Cons.prems(1))
  next
    case False
    note met = False [simplified]
    let ?st = "\<lambda>until. st\<lparr>fls_cooldowns := AList.update (flash_cooldown_key r fl) until (fls_cooldowns st)\<rparr>"
    show ?thesis
    proof (cases "fl_add_secs L now (flr_cooldown_sec r)")
      case None
      then have "st' = st \<and> w' = w \<and> (\<exists>e. x = Inl e)" using Cons.prems(3) False by (auto simp: Let_def)
      then show ?thesis by (intro Cons.prems(1)) auto
    next
      case (Some until)
      have "st' = ?st until \<and> (w' = w \<and> (\<exists>e. x = Inl e) \<or>
          (\<exists>v. w' = flash_store L en event fl r v w) \<and> x = Inr (Some (flash_build_detection L en event fl now r)))"
        using Cons.prems(3) False Some by (cases "fl_ser_state L (?st until)") (auto simp: Let_def)
      then show ?thesis using met Some by (intro Cons.prems(2) [of r until]) auto
    qed
  qed
qed auto

lemma flash_process_eventE:
  assumes "flash_process_event L en event now pt w = (pt', w', x)"
  obtains (ignored) "pt' = pt" "w' = w" "\<forall>d. x \<noteq> Inr (Some d)"
  | (answered) rules fl st0 st where "flash_rules_for pt event = Some rules"
      "extract_flash_loan_indicators (ue_payload event) = Some fl"
      "flash_load_state L en (ue_tenant_id event) pt w = Inr st0"
      "flash_rules L en event fl now rules (flash_drop_expired now st0) w = (st, w', x)"
      "pt' = pt\<lparr>fp_state_cache := (fp_state_cache pt)(ue_tenant_id event \<mapsto> st)\<rparr>"
proof (cases "flash_rules_for pt event")
  case None
  then show ?thesis using assms ignored by (auto simp: flash_process_event_def)
next
  case rules: (Some rules)
  show ?thesis
  proof (cases "extract_flash_loan_indicators (ue_payload event)")
    case None
    then show ?thesis using assms rules ignored by (auto simp: flash_process_event_def)
  next
    case fl: (Some fl)
    show ?thesis
    proof (cases "flash_load_state L en (ue_tenant_id event) pt w")
      case (Inl e)
      then show ?thesis using assms rules fl ignored by (auto simp: flash_process_event_def)
    next
      case (Inr st0)
      obtain st w1 y where run: "flash_rules L en event fl now rules (flash_drop_expired now st0) w = (st, w1, y)"
        by (rule prod_cases3)
      then have "pt' = pt\<lparr>fp_state_cache := (fp_state_cache pt)(ue_tenant_id event \<mapsto> st)\<rparr>" "w' = w1" "x = y"
        using assms rules fl Inr by (auto simp: flash_process_event_def)
      with answered [OF rules fl Inr] run show ?thesis by simp
    qed
  qed
qed

lemma cooling_drop_expired:
  "distinct (map fst (fls_cooldowns st)) \<Longrightarrow> flash_cooling (flash_drop_expired now st) key now = flash_cooling st key now"
proof -
  assume d: "distinct (map fst (fls_cooldowns st))"
  have "map_of (filter (\<lambda>(_, until). now < until) xs) key = Option.bind (map_of xs key) (\<lambda>u. if now < u then Some u else None)"
    if "distinct (map fst xs)" for xs :: "(string \<times> datetime) list"
    using that
  proof (induction xs)
    case (Cons x xs)
    have "map_of xs (fst x) = None" using Cons.prems by (simp add: map_of_eq_None_iff)
    then show ?case using Cons by (cases x) auto
  qed simp
  from this [OF d] show ?thesis
    by (auto simp: flash_cooling_def flash_drop_expired_def split: option.splits)
qed

text \<open>
  The answer to a chain event with indicators, where nothing fails, is that of a search: the first
  rule in the tenant's order that is enabled, whose thresholds on loan and profit are met and whose
  attacker is not cooling down announces the loan, and if there is none nobody does. The protocol
  and the chain a rule is configured for play no part.
\<close>

lemma flash_answers_first_rule:
  assumes "flash_rules_for pt event = Some rules"
    and "extract_flash_loan_indicators (ue_payload event) = Some fl"
    and "flash_load_state L en (ue_tenant_id event) pt w = Inr st" and "distinct (map fst (fls_cooldowns st))"
    and "\<forall>r \<in> set rules. fl_add_secs L now (flr_cooldown_sec r) \<noteq> None" and "\<And>s. \<exists>v. fl_ser_state L s = Inr v"
  shows "snd (snd (flash_process_event L en event now pt w)) =
    Inr (map_option (flash_build_detection L en event fl now)
      (find (\<lambda>r. flr_enabled r \<and> \<not> fli_loan_amount_usd fl < flr_min_loan_amount_usd r
             \<and> \<not> fli_profit_usd fl < flr_profit_threshold_usd r
             \<and> \<not> flash_cooling st (flr_rule_id r @ '':'' @ fli_attacker_address fl) now) rules))"
proof -
  let ?st = "flash_drop_expired now st"
  have "snd (snd (flash_rules L en event fl now rs ?st w)) =
    Inr (map_option (flash_build_detection L en event fl now)
      (find (\<lambda>r. flash_rule_met fl r \<and> \<not> flash_cooling ?st (flash_cooldown_key r fl) now) rs))"
    if "\<forall>r \<in> set rs. fl_add_secs L now (flr_cooldown_sec r) \<noteq> None" for rs
    using that
  proof (induction rs)
    case (Cons r rs)
    then obtain until where u: "fl_add_secs L now (flr_cooldown_sec r) = Some until" by auto
    obtain v where "fl_ser_state L (?st\<lparr>fls_cooldowns := AList.update (flash_cooldown_key r fl) until (fls_cooldowns ?st)\<rparr>) = Inr v"
      using assms(6) by blast
    then show ?case using Cons u by (simp add: Let_def)
  qed simp
  from this [OF assms(5)] show ?thesis
    using assms(1-3)
    by (simp add: flash_process_event_def split_beta cooling_drop_expired [OF assms(4)] flash_rule_met_def
        flash_cooldown_key_def conj_ac)
qed

section \<open>Cooldowns\<close>

text \<open>The detections of a tenant's history; the database may change in any way between events.\<close>

type_synonym flash_call = "environment \<times> UnifiedEvent \<times> datetime \<times> world"

definition flash_announce ::
  "'a flash_libs_scheme \<Rightarrow> FlashLoanPattern \<times> DetectionResult list \<Rightarrow> flash_call \<Rightarrow> FlashLoanPattern \<times> DetectionResult list" where
  "flash_announce L = (\<lambda>(pt, ds) (en, event, now, w).
     (let (pt', _, x) = flash_process_event L en event now pt w
      in (pt', case x of Inr (Some d) \<Rightarrow> ds @ [d] | _ \<Rightarrow> ds)))"

text \<open>The rule that announced a detection, and the end of its cooldown.\<close>

definition flash_ends :: "'a flash_libs_scheme \<Rightarrow> FlashLoanPattern \<Rightarrow> DetectionResult \<Rightarrow> FlashLoanRule \<Rightarrow> datetime \<Rightarrow> bool" where
  "flash_ends L pt d r until \<longleftrightarrow>
     (\<exists>tenant rules. dr_tenant_id d = Some tenant \<and> fp_configs pt tenant = Some rules \<and> r \<in> set rules)
   \<and> dr_triggered_rule_ids d = [''flash_loan.'' @ flr_rule_id r]
   \<and> fl_add_secs L (dr_detected_at d) (flr_cooldown_sec r) = Some until"

text \<open>Two detections of one tenant, rule and attacker are a cooldown apart.\<close>

definition flash_apart :: "'a flash_libs_scheme \<Rightarrow> FlashLoanPattern \<Rightarrow> DetectionResult \<Rightarrow> DetectionResult \<Rightarrow> bool" where
  "flash_apart L pt d d' \<longleftrightarrow>
     (dr_tenant_id d' = dr_tenant_id d \<and> dr_triggered_rule_ids d' = dr_triggered_rule_ids d
      \<and> dr_subject_key d' = dr_subject_key d \<longrightarrow>
      (\<exists>r until. flash_ends L pt d r until \<and> until \<le> dr_detected_at d'))"

text \<open>A detection is covered while its cooldown is over or in the cache.\<close>

definition flash_covered :: "'a flash_libs_scheme \<Rightarrow> FlashLoanPattern \<Rightarrow> datetime \<Rightarrow> DetectionResult \<Rightarrow> bool" where
  "flash_covered L pt t d \<longleftrightarrow>
     (\<exists>r until attacker tenant. flash_ends L pt d r until \<and> dr_subject_key d = Some attacker \<and> dr_tenant_id d = Some tenant
       \<and> (until \<le> t \<or> (\<exists>st c. fp_state_cache pt tenant = Some st
            \<and> map_of (fls_cooldowns st) (flr_rule_id r @ '':'' @ attacker) = Some c \<and> until \<le> c)))"

lemma flash_detection_fields [simp]:
  "dr_pattern_id (flash_build_detection L en event fl now r) = FLASH_PATTERN_ID"
  "dr_tenant_id (flash_build_detection L en event fl now r) = Some (ue_tenant_id event)"
  "dr_subject_key (flash_build_detection L en event fl now r) = Some (fli_attacker_address fl)"
  "dr_triggered_rule_ids (flash_build_detection L en event fl now r) = [''flash_loan.'' @ flr_rule_id r]"
  "dr_detected_at (flash_build_detection L en event fl now r) = now"
  by (simp_all add: flash_build_detection_def Let_def split_beta)

lemma flash_rules_for_config: "flash_rules_for pt event = Some rules \<Longrightarrow> fp_configs pt (ue_tenant_id event) = Some rules"
  by (auto simp: flash_rules_for_def split: if_splits option.splits)

lemma kept_cooldown:
  "map_of xs key = Some c \<Longrightarrow> now < c \<Longrightarrow> map_of (filter (\<lambda>(_, until). now < until) xs) key = Some (c :: datetime)"
  by (induction xs) auto

lemma flash_covered_later:
  assumes "flash_covered L pt t d" "t \<le> now"
  shows "flash_covered L pt now d"
proof -
  have "until \<le> now \<or> P" if "until \<le> t \<or> P" for until P using that assms(2) by auto
  with assms(1) show ?thesis unfolding flash_covered_def by blast
qed

lemma flash_step_covered:
  assumes p: "flash_process_event L en event now pt w = (pt', w', x)"
    and t: "t \<le> now" and cov: "flash_covered L pt t d"
  shows "flash_covered L pt' now d \<and> (\<forall>d'. x = Inr (Some d') \<longrightarrow> flash_apart L pt d d')"
  using p
proof (cases rule: flash_process_eventE)
  case ignored
  then show ?thesis using flash_covered_later [OF cov t] by simp
next
  case (answered rules fl st0 st)
  obtain r until attacker tenant where e: "flash_ends L pt d r until" "dr_subject_key d = Some attacker" "dr_tenant_id d = Some tenant"
    and u: "until \<le> t \<or> (\<exists>s c. fp_state_cache pt tenant = Some s
            \<and> map_of (fls_cooldowns s) (flr_rule_id r @ '':'' @ attacker) = Some c \<and> until \<le> c)"
    using cov by (auto simp: flash_covered_def)
  have e': "flash_ends L pt' d r until" using e(1) answered(5) by (simp add: flash_ends_def)
  let ?k = "flr_rule_id r @ '':'' @ attacker" and ?s = "flash_drop_expired now st0"
  have kept: "until \<le> now \<or> (\<exists>c. map_of (fls_cooldowns ?s) ?k = Some c \<and> until \<le> c \<and> now < c)" if "tenant = ue_tenant_id event"
    using u t that answered(3) kept_cooldown [of "fls_cooldowns st0" ?k _ now]
    by (fastforce simp: flash_load_state_def flash_drop_expired_def not_le)
  have other: "until \<le> now \<or> (\<exists>s c. fp_state_cache pt' tenant = Some s \<and> map_of (fls_cooldowns s) ?k = Some c \<and> until \<le> c)"
    if "tenant \<noteq> ue_tenant_id event" using u t that answered(5) by auto
  from answered(4) show ?thesis
  proof (cases rule: flash_rulesE)
    case silent
    then have "flash_covered L pt' now d"
      using kept other e' e answered(5) by (cases "tenant = ue_tenant_id event") (auto simp: flash_covered_def)
    then show ?thesis using silent by simp
  next
    case (fired r' until')
    have free: "until \<le> now" if "tenant = ue_tenant_id event" "flash_cooldown_key r' fl = ?k"
      using kept [OF that(1)] fired(3) that(2) by (auto simp: flash_cooling_def)
    have "until \<le> now \<or> (\<exists>s c. fp_state_cache pt' tenant = Some s \<and> map_of (fls_cooldowns s) ?k = Some c \<and> until \<le> c)"
      using kept other free answered(5) fired(5) by (cases "flash_cooldown_key r' fl = ?k") (auto simp: update_conv')
    then have c: "flash_covered L pt' now d" using e' e by (auto simp: flash_covered_def)
    have "flash_apart L pt d (flash_build_detection L en event fl now r')"
      using e free by (auto simp: flash_apart_def flash_ends_def flash_cooldown_key_def)
    with c fired(6) show ?thesis by auto
  qed
qed

lemma flash_step_new:
  assumes "flash_process_event L en event now pt w = (pt', w', Inr (Some d))"
  shows "flash_covered L pt' now d"
  using assms
proof (cases rule: flash_process_eventE)
  case (answered rules fl st0 st)
  from answered(4) show ?thesis
  proof (cases rule: flash_rulesE)
    case (fired r until)
    then have "d = flash_build_detection L en event fl now r" by simp
    with fired answered flash_rules_for_config [OF answered(1)] show ?thesis
      by (auto simp: flash_covered_def flash_ends_def flash_cooldown_key_def update_conv'
          intro!: exI [of _ r] exI [of _ until])
  qed simp
qed simp

lemma flash_configs_fixed: "fp_configs (fst (flash_announce L x c)) = fp_configs (fst x)"
  by (auto simp: flash_announce_def flash_process_event_def Let_def split_beta split: option.split sum.split)

lemma flash_ends_cong: "fp_configs pt = fp_configs pt' \<Longrightarrow> flash_ends L pt = flash_ends L pt'"
  by (simp add: flash_ends_def fun_eq_iff)

text \<open>
  (C27) Cooldowns are kept: over every history of events in the order of their times, whatever happens to
  the database in between, of two alerts of one tenant, rule and attacker the later comes no earlier
  than the end of the cooldown that the earlier has started.
\<close>

theorem flash_alerts_respect_cooldown:
  assumes "sorted (map (\<lambda>(_, _, now, _). now) calls)"
    and "foldl (flash_announce L) (pt, []) calls = (pt', ds)"
    and "i < j" and "j < length ds"
    and "dr_tenant_id (ds ! j) = dr_tenant_id (ds ! i)"
    and "dr_triggered_rule_ids (ds ! j) = dr_triggered_rule_ids (ds ! i)"
    and "dr_subject_key (ds ! j) = dr_subject_key (ds ! i)"
  shows "\<exists>tenant rules r until. dr_tenant_id (ds ! i) = Some tenant \<and> fp_configs pt tenant = Some rules \<and> r \<in> set rules
     \<and> dr_triggered_rule_ids (ds ! i) = [''flash_loan.'' @ flr_rule_id r]
     \<and> fl_add_secs L (dr_detected_at (ds ! i)) (flr_cooldown_sec r) = Some until \<and> until \<le> dr_detected_at (ds ! j)"
proof -
  have "fp_configs pt' = fp_configs pt \<and> sorted_wrt (flash_apart L pt) ds
    \<and> (\<forall>t. calls \<noteq> [] \<longrightarrow> (case last calls of (_, _, now, _) \<Rightarrow> t = now) \<longrightarrow> (\<forall>d \<in> set ds. flash_covered L pt' t d))"
    using assms(1,2)
  proof (induction calls arbitrary: pt' ds rule: rev_induct)
    case (snoc c calls)
    obtain en event now w where c: "c = (en, event, now, w)" by (metis prod.exhaust)
    obtain pt1 ds1 where run: "foldl (flash_announce L) (pt, []) calls = (pt1, ds1)" by (rule prod.exhaust)
    obtain pt2 w2 x where p: "flash_process_event L en event now pt1 w = (pt2, w2, x)" by (rule prod_cases3)
    have out: "pt' = pt2" "ds = (case x of Inr (Some d) \<Rightarrow> ds1 @ [d] | _ \<Rightarrow> ds1)"
      using snoc.prems(2) run by (simp_all add: c flash_announce_def p)
    have srt: "sorted (map (\<lambda>(_, _, now, _). now) calls)" using snoc.prems(1) by (simp add: sorted_append)
    note IH = snoc.IH [OF srt run]
    have same: "flash_apart L pt = flash_apart L pt1"
      using IH flash_ends_cong [of pt pt1 L] by (auto simp: flash_apart_def fun_eq_iff)
    have step: "flash_covered L pt2 now d \<and> (\<forall>d'. x = Inr (Some d') \<longrightarrow> flash_apart L pt d d')" if d: "d \<in> set ds1" for d
    proof -
      have "calls \<noteq> []" using run d by auto
      then obtain e0 v0 t w0 where l: "last calls = (e0, v0, t, w0)" "(e0, v0, t, w0) \<in> set calls"
        by (metis last_in_set prod.exhaust)
      have "t \<le> now" using snoc.prems(1) l(2) by (auto simp: sorted_append c)
      moreover have "flash_covered L pt1 t d" using IH \<open>calls \<noteq> []\<close> l(1) d by simp
      ultimately show ?thesis using flash_step_covered [OF p] same by simp
    qed
    have conf: "fp_configs pt2 = fp_configs pt"
      using flash_configs_fixed [of L "(pt1, ds1)" c] IH by (simp add: flash_announce_def c p)
    have new: "flash_covered L pt2 now d" if "x = Inr (Some d)" for d using flash_step_new p that by blast
    show ?case using IH step conf new out
      by (auto simp: c sorted_wrt_append split: sum.splits option.splits)
  qed simp
  then have "flash_apart L pt (ds ! i) (ds ! j)" using assms(3,4) by (auto simp: sorted_wrt_iff_nth_less)
  with assms(5-7) show ?thesis by (auto simp: flash_apart_def flash_ends_def)
qed

section \<open>The contract with the registry\<close>

lemma flash_process_event_world:
  assumes "flash_process_event L en event now pt w = (pt', w', x)"
  shows "world_frame FLASH_PATTERN_ID (ue_tenant_id event) w w'
    \<and> (\<forall>d. x = Inr (Some d) \<longrightarrow> dr_pattern_id d = FLASH_PATTERN_ID \<and> dr_tenant_id d = Some (ue_tenant_id event))"
  using assms
proof (cases rule: flash_process_eventE)
  case (answered rules fl st0 st)
  have f: "world_frame FLASH_PATTERN_ID (ue_tenant_id event) w (flash_store L en event fl r v w)" for r v
    unfolding flash_store_def by (rule world_frame_trans [OF world_frame_upsert world_frame_snapshot])
  from answered(4) show ?thesis
    by (cases rule: flash_rulesE) (use f in \<open>auto simp: answered\<close>)
qed simp

lemma flash_rules_local:
  assumes "same_states P w v" "flash_rules L en event fl now rs st w = (st', w', x)"
  shows "\<exists>v'. flash_rules L en event fl now rs st v = (st', v', x) \<and> same_states P w' v'"
  using assms(2)
proof (induction rs)
  case (Cons r rs)
  have store: "same_states P (flash_store L en event fl r s w) (flash_store L en event fl r s v)" for s
    unfolding flash_store_def by (intro same_states_intros assms(1))
  show ?case
  proof (cases "\<not> flash_rule_met fl r \<or> flash_cooling st (flash_cooldown_key r fl) now")
    case True
    then show ?thesis using Cons by simp
  next
    case False
    then show ?thesis using Cons.prems store assms(1)
      by (auto simp: Let_def split: option.splits sum.splits if_splits)
  qed
qed (use assms(1) in auto)

interpretation flash_contract: local_pattern "\<lambda>_ k. k = FLASH_PATTERN_ID" "flash_process_event L" for L
proof unfold_locales
  fix en ev now p w p' w' r
  assume r: "flash_process_event L en ev now p w = (p', w', r)"
  note f = flash_process_event_world [OF r, unfolded world_frame_def]
  show "w_detections w' = w_detections w \<and> w_published w' = w_published w \<and> w_raw_events w' = w_raw_events w"
    using f by blast
  show "w_states w' (t, k, s) = w_states w (t, k, s)" if "\<not> k = FLASH_PATTERN_ID" for k t s
    using f that by blast
  show "\<exists>v'. flash_process_event L en ev now p v = (p', v', r) \<and> same_states (\<lambda>k. k = FLASH_PATTERN_ID) w' v'"
    if s: "same_states (\<lambda>k. k = FLASH_PATTERN_ID) w v" for v
  proof -
    have ld: "flash_load_state L en (ue_tenant_id ev) p v = flash_load_state L en (ue_tenant_id ev) p w"
      using same_states_load [OF s refl] by (simp add: flash_load_state_def split: option.split)
    show ?thesis
    proof (cases "flash_rules_for p ev = None \<or> extract_flash_loan_indicators (ue_payload ev) = None")
      case True
      then show ?thesis using r s by (auto simp: flash_process_event_def split: option.splits)
    next
      case False
      then obtain rules fl where rl: "flash_rules_for p ev = Some rules"
        "extract_flash_loan_indicators (ue_payload ev) = Some fl" by auto
      show ?thesis
      proof (cases "flash_load_state L en (ue_tenant_id ev) p w")
        case (Inl e)
        then show ?thesis using r s rl ld by (simp add: flash_process_event_def)
      next
        case (Inr st0)
        obtain st w1 y where run: "flash_rules L en ev fl now rules (flash_drop_expired now st0) w = (st, w1, y)"
          by (rule prod_cases3)
        from flash_rules_local [OF s run] r rl ld Inr run show ?thesis by (auto simp: flash_process_event_def)
      qed
    qed
  qed
qed (use flash_process_event_world in blast)+

section \<open>Two loans\<close>

definition loan_libs :: flash_libs where
  "loan_libs =
     \<lparr>fl_add_secs = (\<lambda>t s. Some (t + s * nanos_per_sec)), fl_rfc3339 = (\<lambda>_. []), fl_fmt0 = (\<lambda>_. []),
      fl_de_state = (\<lambda>_. None), fl_ser_state = (\<lambda>_. Inr JNull)\<rparr>"

definition loan_env :: environment where
  "loan_env = \<lparr>en_fails = (\<lambda>_. False), en_detection_uuid = [], en_tx_uuid = []\<rparr>"

definition loan_event :: UnifiedEvent where
  "loan_event =
     \<lparr>ue_event_id = [], ue_tenant_id = ''t'', ue_source_id = ''s'', ue_source_type = EvmChain, ue_event_type = ''flash_loan'',
      ue_timestamp = 0, ue_payload = JObject [(''loan_amount_usd'', JNumber (PosInt 200000)),
        (''profit_usd'', JNumber (PosInt 5000)), (''from'', JString ''0xa'')], ue_chain_id = None, ue_block_number = None,
      ue_tx_hash = None, ue_market_key = None, ue_price = None\<rparr>"

definition loan_pattern :: FlashLoanPattern where
  "loan_pattern = FlashLoanPattern_default\<lparr>fp_configs := [''t'' \<mapsto> [default_flash_rule ''r'' ''r'']]\<rparr>"

definition loan_world :: world where
  "loan_world = \<lparr>w_states = (\<lambda>_. None), w_snapshots = [], w_raw_events = [], w_detections = [], w_published = []\<rparr>"

definition loan_found :: FlashLoanIndicators where
  "loan_found =
     \<lparr>fli_loan_amount_usd = lit 200000, fli_profit_usd = lit 5000, fli_attacker_address = ''0xa'', fli_protocol = ''unknown'',
      fli_chain = Chain_Unknown, fli_chain_slug = ''unknown''\<rparr>"

lemma loan_extracted: "extract_flash_loan_indicators (ue_payload loan_event) = Some loan_found"
  by (simp add: extract_flash_loan_indicators_def loan_event_def loan_found_def get_str_def flash_chain_from_slug_def Let_def f64_eval)

lemma loan_rules: "flash_rules_for (loan_pattern\<lparr>fp_state_cache := c\<rparr>) loan_event = Some [default_flash_rule ''r'' ''r'']"
  "flash_rules_for loan_pattern loan_event = Some [default_flash_rule ''r'' ''r'']"
  by (simp_all add: flash_rules_for_def loan_pattern_def FlashLoanPattern_default_def loan_event_def)

lemma loan_met: "flash_rule_met loan_found (default_flash_rule ''r'' ''r'')"
  by (simp add: flash_rule_met_def loan_found_def default_flash_rule_def DEFAULT_MIN_LOAN_USD_def
      DEFAULT_PROFIT_THRESHOLD_USD_def f64_eval)

lemma loan_tenant: "ue_tenant_id loan_event = ''t''"
  by (simp add: loan_event_def)

lemma loan_load: "flash_load_state loan_libs loan_env ''t'' loan_pattern loan_world = Inr \<lparr>fls_cooldowns = []\<rparr>"
  by (simp add: flash_load_state_def loan_pattern_def FlashLoanPattern_default_def load_pattern_state_def loan_env_def loan_world_def)

definition loan_state :: "datetime \<Rightarrow> FlashLoanState" where
  "loan_state until = \<lparr>fls_cooldowns = [(''r:0xa'', until)]\<rparr>"

lemma loan_key: "flash_cooldown_key (default_flash_rule ''r'' ''r'') loan_found = ''r:0xa''"
  by (simp add: flash_cooldown_key_def default_flash_rule_def loan_found_def)

lemma loan_fires:
  "flash_cooling st ''r:0xa'' now = False \<Longrightarrow> set (fls_cooldowns st) = {} \<Longrightarrow>
   flash_rules loan_libs loan_env loan_event loan_found now [default_flash_rule ''r'' ''r''] st w
   = (loan_state (now + 300 * nanos_per_sec), flash_store loan_libs loan_env loan_event loan_found (default_flash_rule ''r'' ''r'') JNull w,
      Inr (Some (flash_build_detection loan_libs loan_env loan_event loan_found now (default_flash_rule ''r'' ''r''))))"
  by (simp add: Let_def loan_met loan_key loan_libs_def loan_state_def)
     (simp add: default_flash_rule_def DEFAULT_COOLDOWN_SEC_def)

abbreviation loan_calls :: "flash_call list" where
  "loan_calls \<equiv> [(loan_env, loan_event, 0, loan_world), (loan_env, loan_event, 400 * nanos_per_sec, loan_world)]"

abbreviation loan_detection :: "datetime \<Rightarrow> DetectionResult" where
  "loan_detection now \<equiv> flash_build_detection loan_libs loan_env loan_event loan_found now (default_flash_rule ''r'' ''r'')"

lemma loan_history:
  "\<exists>pt'. foldl (flash_announce loan_libs) (loan_pattern, []) loan_calls
     = (pt', [loan_detection 0, loan_detection (400 * nanos_per_sec)])"
proof -
  let ?pt = "loan_pattern\<lparr>fp_state_cache := (fp_state_cache loan_pattern)(''t'' \<mapsto> loan_state (300 * nanos_per_sec))\<rparr>"
  have d1: "flash_drop_expired 0 \<lparr>fls_cooldowns = []\<rparr> = \<lparr>fls_cooldowns = []\<rparr>"
    and d2: "flash_drop_expired (400 * nanos_per_sec) (loan_state (300 * nanos_per_sec)) = \<lparr>fls_cooldowns = []\<rparr>"
    by (simp_all add: flash_drop_expired_def loan_state_def nanos_per_sec_def)
  have cool: "flash_cooling \<lparr>fls_cooldowns = []\<rparr> k t = False" for k t by (simp add: flash_cooling_def)
  have ld: "flash_load_state loan_libs loan_env ''t'' ?pt loan_world = Inr (loan_state (300 * nanos_per_sec))"
    by (simp add: flash_load_state_def)
  have "\<exists>w1. flash_process_event loan_libs loan_env loan_event 0 loan_pattern loan_world = (?pt, w1, Inr (Some (loan_detection 0)))"
    by (simp add: flash_process_event_def loan_rules loan_extracted loan_tenant loan_load d1 loan_fires [OF cool]
        del: flash_rules.simps)
  moreover have "\<exists>pt' w2. flash_process_event loan_libs loan_env loan_event (400 * nanos_per_sec) ?pt loan_world
      = (pt', w2, Inr (Some (loan_detection (400 * nanos_per_sec))))"
    by (simp add: flash_process_event_def loan_rules loan_extracted loan_tenant ld d2 loan_fires [OF cool]
        del: flash_rules.simps)
  ultimately show ?thesis by (elim exE) (simp add: flash_announce_def)
qed

theorem flash_alerts_respect_cooldown_witness:
  "\<exists>pt' ds until. foldl (flash_announce loan_libs) (loan_pattern, []) loan_calls = (pt', ds)
     \<and> fl_add_secs loan_libs (dr_detected_at (ds ! 0)) 300 = Some until \<and> until \<le> dr_detected_at (ds ! 1)"
proof -
  let ?ds = "[loan_detection 0, loan_detection (400 * nanos_per_sec)]"
  obtain pt' where run: "foldl (flash_announce loan_libs) (loan_pattern, []) loan_calls = (pt', ?ds)"
    using loan_history by blast
  have "sorted (map (\<lambda>(_, _, now, _). now) loan_calls)" by (simp add: nanos_per_sec_def)
  from flash_alerts_respect_cooldown [OF this run, of 0 1] obtain r until where
    "r \<in> set [default_flash_rule ''r'' ''r'']" "fl_add_secs loan_libs (dr_detected_at (?ds ! 0)) (flr_cooldown_sec r) = Some until"
    "until \<le> dr_detected_at (?ds ! 1)"
    by (auto simp: loan_tenant loan_pattern_def)
  then show ?thesis using run by (auto simp: default_flash_rule_def DEFAULT_COOLDOWN_SEC_def)
qed

end
