(* ===== verification/GenericRule.thy ===== *)
theory GenericRule
  imports StateCache
begin

text \<open>
  The generic rule pattern, \<^verbatim>\<open>apps/detector/src/patterns/generic_rule.rs\<close>: tenant-authored rules that a
  sandbox service runs. The service is outside the repository: its answer to a request is a parameter.
  The maps from pattern and tenant to rules are lists, in whose order the rules are run.
\<close>

section \<open>Rules and runtime\<close>

definition GENERIC_PATTERN_ID :: string where
  "GENERIC_PATTERN_ID = ''generic_rule''"

record CompiledRuleRef =
  cr_rule_id :: string
  cr_version :: "int option"
  cr_language :: string
  cr_engine :: string
  cr_compiled_artifact :: json
  cr_params :: json

record RuntimeExecuteRequest =
  rx_tenant_id :: string
  rx_pattern_id :: string
  rx_rule_id :: string
  rx_rule_version :: "int option"
  rx_language :: string
  rx_compiled_artifact :: json
  rx_event :: json
  rx_state :: json
  rx_params :: json
  rx_now :: string

record RuntimeMetrics =
  rm_execution_ms :: int
  rm_ops_count :: int

record RuntimeAlert =
  ra_severity :: string
  ra_title :: string
  ra_reason :: string
  ra_payload :: json

record RuntimeReport =
  rp_ok :: bool
  rp_matched_alerts :: "RuntimeAlert list"
  rp_state :: json
  rp_trace :: "string list"
  rp_metrics :: RuntimeMetrics
  rp_error_code :: "string option"

record RuntimeExecuteResponse =
  re_ok :: bool
  re_runtime :: RuntimeReport

text \<open>
  The service is posted to at a URL, with a token if there is one. It cannot be reached, answers with
  an error status, or with a body that can be read as a response or not. \<open>gl_now\<close> is the clock when a
  rule is run or a detection is made.
\<close>

datatype runtime_answer =
    Unreachable string
  | Answered nat "RuntimeExecuteResponse res"

record generic_libs =
  gl_post :: "string \<Rightarrow> string option \<Rightarrow> RuntimeExecuteRequest \<Rightarrow> runtime_answer"
  gl_now :: datetime
  gl_rfc3339 :: "datetime \<Rightarrow> string"

section \<open>The pattern\<close>

type_synonym rules_of_tenants = "(string \<times> CompiledRuleRef list) list"

record GenericRulePattern =
  gp_compiled_rules :: "(string \<times> rules_of_tenants) list"
  gp_runtime_url :: "string option"
  gp_runtime_token :: "string option"
  gp_runtime_degraded :: "string \<Rightarrow> bool option"

text \<open>The two environment variables are read when the pattern is made.\<close>

definition GenericRulePattern_default :: "string option \<Rightarrow> string option \<Rightarrow> GenericRulePattern" where
  "GenericRulePattern_default url token =
     \<lparr>gp_compiled_rules = [],
      gp_runtime_url = Option.bind url (\<lambda>v. non_empty (trim_end_matches (CHR ''/'') (trim v))),
      gp_runtime_token = Option.bind token (\<lambda>v. if trim v = [] then None else Some v),
      gp_runtime_degraded = Map.empty\<rparr>"

definition generic_state_key :: "string \<Rightarrow> string \<Rightarrow> string" where
  "generic_state_key pattern_id rule_id = ''runtime:'' @ pattern_id @ '':'' @ rule_id"

definition generic_health_key :: "string \<Rightarrow> string \<Rightarrow> string \<Rightarrow> string" where
  "generic_health_key tenant_id pattern_id rule_id = tenant_id @ '':'' @ pattern_id @ '':'' @ rule_id"

definition severity_from_runtime :: "string \<Rightarrow> Severity" where
  "severity_from_runtime v =
     unwrap_or (map_of [(''critical'', Critical), (''high'', High), (''medium'', Medium), (''low'', Low), (''info'', Info)]
       (to_ascii_lowercase v)) Medium"

fun generic_risk_score_for_severity :: "Severity \<Rightarrow> f64" where
  "generic_risk_score_for_severity Critical = lit 95"
| "generic_risk_score_for_severity High = lit 80"
| "generic_risk_score_for_severity Medium = lit 60"
| "generic_risk_score_for_severity Low = lit 35"
| "generic_risk_score_for_severity Info = lit 10"

definition signal_type_for_pattern :: "string \<Rightarrow> SignalType" where
  "signal_type_for_pattern pattern_id =
     (if pattern_id = ''depeg'' then ST_PegDeviation
      else if pattern_id = ''tvl_drop'' then ST_PriceDeviation
      else ST_NearMissPattern)"

definition attack_family_for_pattern :: "string \<Rightarrow> AttackFamily" where
  "attack_family_for_pattern pattern_id =
     (if pattern_id = ''depeg'' then AF_PegDeviation
      else if pattern_id = ''tvl_drop'' then AF_LiquidationCascade
      else if pattern_id = ''flash_loan'' then AF_FlashLoan
      else AF_Unknown)"

definition chain_from_event :: "UnifiedEvent \<Rightarrow> Chain" where
  "chain_from_event event =
     unwrap_or (map_of
       [(1, Ethereum), (42161, Arbitrum), (10, Optimism), (8453, Base), (137, Polygon), (43114, Avalanche), (56, BSC)]
       (unwrap_or (ue_chain_id event) 0)) Chain_Unknown"

fun generic_chain_slug :: "Chain \<Rightarrow> string" where
  "generic_chain_slug Ethereum = ''ethereum''"
| "generic_chain_slug Arbitrum = ''arbitrum''"
| "generic_chain_slug Optimism = ''optimism''"
| "generic_chain_slug Base = ''base''"
| "generic_chain_slug Polygon = ''polygon''"
| "generic_chain_slug Avalanche = ''avalanche''"
| "generic_chain_slug BSC = ''bsc''"
| "generic_chain_slug Offchain = ''offchain''"
| "generic_chain_slug Chain_Unknown = ''unknown''"

definition detection_from_alert ::
  "'a generic_libs_scheme \<Rightarrow> environment \<Rightarrow> string \<Rightarrow> string \<Rightarrow> UnifiedEvent \<Rightarrow> RuntimeAlert \<Rightarrow> string list \<Rightarrow> DetectionResult" where
  "detection_from_alert L en pattern_id rule_id event alert runtime_trace =
     (let (is_simulated, run_id) = simulation_metadata_from_event event;
          severity = severity_from_runtime (ra_severity alert);
          risk = generic_risk_score_for_severity severity;
          chain = chain_from_event event
      in \<lparr>dr_detection_id = en_detection_uuid en, dr_pattern_id = pattern_id, dr_event_key = Some (ue_event_id event),
          dr_subject_type = Some ''rule'', dr_subject_key = Some rule_id, dr_tenant_id = Some (ue_tenant_id event),
          dr_chain = chain, dr_chain_slug = generic_chain_slug chain, dr_protocol = pattern_id,
          dr_lifecycle_state = Provisional, dr_requires_confirmation = False,
          dr_attack_family = attack_family_for_pattern pattern_id, dr_severity = severity,
          dr_description = Some (ra_reason alert), dr_triggered_rule_ids = [rule_id],
          dr_tx_hash = unwrap_or (ue_tx_hash event) (ue_event_id event),
          dr_block_number = unwrap_or (ue_block_number event) 0,
          dr_signals =
            [\<lparr>sg_signal_type = signal_type_for_pattern pattern_id, sg_value = risk,
              sg_label = Some (ra_title alert), sg_source_id = Some (ue_source_id event)\<rparr>],
          dr_risk_score =
            \<lparr>rs_score = risk, rs_confidence = lit (72 / 100), rs_rationale = [ra_reason alert], rs_attribution = []\<rparr>,
          dr_incident_transition = Some Trigger, dr_context_classification = Some Ctx_None,
          dr_confidence_breakdown = [],
          dr_oracle_context =
            [(''runtime_payload'', ra_payload alert), (''runtime_trace'', JArray (map JString runtime_trace)),
             (''source_id'', JString (ue_source_id event))],
          dr_actions_recommended = [''Review runtime-generated alert payload'', ''Confirm source freshness and quorum''],
          dr_is_simulated = is_simulated, dr_simulation_run_id = run_id,
          dr_detected_at = gl_now L, dr_created_at = gl_now L\<rparr>)"

section \<open>Running a rule\<close>

text \<open>The payload with the event's own fields, where it is an object.\<close>

definition runtime_event_payload :: "UnifiedEvent \<Rightarrow> json" where
  "runtime_event_payload event =
     (case ue_payload event of
        JObject m \<Rightarrow>
          JObject (fold (\<lambda>(k, v) acc. (case v of None \<Rightarrow> acc | Some x \<Rightarrow> AList.update k x acc))
            [(''event_id'', Some (JString (ue_event_id event))), (''event_type'', Some (JString (ue_event_type event))),
             (''source_id'', Some (JString (ue_source_id event))),
             (''market_key'', map_option JString (ue_market_key event)),
             (''price'', map_option j_f64 (ue_price event)),
             (''block_number'', map_option j_int (ue_block_number event)),
             (''tx_hash'', map_option JString (ue_tx_hash event))] m)
      | v \<Rightarrow> v)"

definition runtime_failure :: "json \<Rightarrow> string \<Rightarrow> string \<Rightarrow> RuntimeReport" where
  "runtime_failure state trace code =
     \<lparr>rp_ok = False, rp_matched_alerts = [], rp_state = state, rp_trace = [trace],
      rp_metrics = \<lparr>rm_execution_ms = 0, rm_ops_count = 0\<rparr>, rp_error_code = Some code\<rparr>"

definition execute_runtime ::
  "'a generic_libs_scheme \<Rightarrow> GenericRulePattern \<Rightarrow> string \<Rightarrow> CompiledRuleRef \<Rightarrow> UnifiedEvent \<Rightarrow> json \<Rightarrow> RuntimeReport res" where
  "execute_runtime L pt pattern_id rule event state =
     (case gp_runtime_url pt of
        None \<Rightarrow> Inr (runtime_failure state ''runtime_url_not_configured'' ''runtime_url_not_configured'')
      | Some url \<Rightarrow>
          (let request =
             \<lparr>rx_tenant_id = ue_tenant_id event, rx_pattern_id = pattern_id, rx_rule_id = cr_rule_id rule,
              rx_rule_version = cr_version rule, rx_language = cr_language rule,
              rx_compiled_artifact = cr_compiled_artifact rule, rx_event = runtime_event_payload event,
              rx_state = state, rx_params = cr_params rule, rx_now = gl_rfc3339 L (gl_now L)\<rparr>
           in case gl_post L (url @ ''/execute'') (gp_runtime_token pt) request of
                Unreachable e \<Rightarrow> Inl (Err e)
              | Answered status body \<Rightarrow>
                  if \<not> (200 \<le> status \<and> status < 300)
                  then Inr (runtime_failure (JObject []) (''http_status='' @ nat_to_string status) ''runtime_http_error'')
                  else bind_res body (\<lambda>payload.
                    if re_ok payload then Inr (re_runtime payload)
                    else Inr (runtime_failure (JObject []) ''runtime_response_not_ok'' ''runtime_response_not_ok''))))"

section \<open>Configuration\<close>

definition parse_compiled_rule :: "json \<Rightarrow> CompiledRuleRef option" where
  "parse_compiled_rule item =
     Option.bind (as_object item) (\<lambda>m.
       (let rule_id = trim (unwrap_or (Option.bind (map_of m ''rule_id'') as_str) []);
            compiled = unwrap_or (map_of m ''compiled_artifact'') (JObject []);
            engine = unwrap_or (get_str compiled ''engine'') ''unknown''
        in if rule_id = [] then None
           else if engine \<noteq> ''python-sandbox-v1'' \<and> engine \<noteq> ''js-sandbox-v1'' then None
           else Some \<lparr>cr_rule_id = rule_id, cr_version = Option.bind (map_of m ''rule_version'') as_i64,
                      cr_language = unwrap_or (Option.bind (map_of m ''language'') as_str) ''cel'',
                      cr_engine = engine, cr_compiled_artifact = compiled,
                      cr_params = unwrap_or (map_of m ''authoring_model'') (JObject [])\<rparr>))"

definition generic_reload_entry ::
  "(string \<times> string) \<times> json \<Rightarrow> (string \<times> rules_of_tenants) list \<Rightarrow> (string \<times> rules_of_tenants) list" where
  "generic_reload_entry = (\<lambda>((tenant_id, pattern_id), config) next.
     (if pattern_id = ''depeg'' \<or> pattern_id = ''flash_loan'' \<or> pattern_id = ''tvl_drop'' then next
      else
        (let rules = List.map_filter parse_compiled_rule
               (unwrap_or (Option.bind (j_get config ''rules'') as_array) [])
         in if rules = [] then next
            else AList.update pattern_id
                   (AList.update tenant_id rules (unwrap_or (map_of next pattern_id) [])) next)))"

definition generic_reload_config ::
  "((string \<times> string) \<times> json) list \<Rightarrow> GenericRulePattern \<Rightarrow> GenericRulePattern" where
  "generic_reload_config config_map pt = pt\<lparr>gp_compiled_rules := fold generic_reload_entry config_map []\<rparr>"

section \<open>Processing an event\<close>

definition generic_candidates :: "GenericRulePattern \<Rightarrow> string \<Rightarrow> (string \<times> CompiledRuleRef) list" where
  "generic_candidates pt tenant =
     concat (map (\<lambda>(pattern_id, per_tenant).
         map (Pair pattern_id) (unwrap_or (map_of per_tenant tenant) []))
       (gp_compiled_rules pt))"

definition generic_snapshot :: "CompiledRuleRef \<Rightarrow> RuntimeReport \<Rightarrow> json" where
  "generic_snapshot rule runtime =
     JObject
       [(''rule_id'', JString (cr_rule_id rule)), (''engine'', JString (cr_engine rule)),
        (''language'', JString (cr_language rule)),
        (''runtime_trace'', JArray (map JString (rp_trace runtime))),
        (''runtime_metrics'', JObject
           [(''execution_ms'', j_int (rm_execution_ms (rp_metrics runtime))),
            (''ops_count'', j_int (rm_ops_count (rp_metrics runtime)))]),
        (''matched_alerts'', JArray (map (\<lambda>a. JObject
           [(''severity'', JString (ra_severity a)), (''title'', JString (ra_title a)),
            (''reason'', JString (ra_reason a)), (''payload'', ra_payload a)]) (rp_matched_alerts runtime)))]"

text \<open>The candidates in turn; the first that matches ends the event.\<close>

fun generic_rules ::
  "'a generic_libs_scheme \<Rightarrow> environment \<Rightarrow> UnifiedEvent \<Rightarrow> (string \<times> CompiledRuleRef) list
     \<Rightarrow> GenericRulePattern \<Rightarrow> world \<Rightarrow> GenericRulePattern \<times> world \<times> DetectionResult option res" where
  "generic_rules L en event [] pt w = (pt, w, Inr None)"
| "generic_rules L en event ((pattern_id, rule) # rs) pt w =
     (let tenant = ue_tenant_id event;
          key = generic_state_key pattern_id (cr_rule_id rule);
          health = generic_health_key tenant pattern_id (cr_rule_id rule)
      in case bind_res (load_pattern_state en tenant pattern_id key w)
                (\<lambda>v. execute_runtime L pt pattern_id rule event (unwrap_or v (JObject []))) of
           Inl e \<Rightarrow> (pt, w, Inl e)
         | Inr runtime \<Rightarrow>
             if \<not> rp_ok runtime then
               generic_rules L en event rs
                 (pt\<lparr>gp_runtime_degraded := (gp_runtime_degraded pt)(health \<mapsto> True)\<rparr>) w
             else
               (let pt' = pt\<lparr>gp_runtime_degraded := (gp_runtime_degraded pt)(health \<mapsto> False)\<rparr>;
                    w1 = upsert_pattern_state en tenant pattern_id key (rp_state runtime) w
                in case rp_matched_alerts runtime of
                     [] \<Rightarrow> generic_rules L en event rs pt' w1
                   | first # _ \<Rightarrow>
                       (let detection = detection_from_alert L en pattern_id (cr_rule_id rule) event first (rp_trace runtime)
                        in (pt',
                            insert_pattern_snapshot en
                              \<lparr>ps_tenant_id = tenant, ps_pattern_id = pattern_id,
                               ps_snapshot_key = cr_rule_id rule @ '':'' @ ue_event_id event,
                               ps_data = append_snapshot_meta (gl_rfc3339 L) event (generic_snapshot rule runtime),
                               ps_score = Some (generic_risk_score_for_severity (dr_severity detection)),
                               ps_severity = Some (to_ascii_lowercase (ra_severity first)),
                               ps_observed_at = ue_timestamp event\<rparr> w1,
                            Inr (Some detection)))))"

definition generic_process_event ::
  "'a generic_libs_scheme \<Rightarrow> environment \<Rightarrow> UnifiedEvent \<Rightarrow> datetime \<Rightarrow> GenericRulePattern \<Rightarrow> world
     \<Rightarrow> GenericRulePattern \<times> world \<times> DetectionResult option res" where
  "generic_process_event L en event now pt w =
     (if gp_runtime_url pt = None then (pt, w, Inr None)
      else generic_rules L en event (generic_candidates pt (ue_tenant_id event)) pt w)"

end
