(* ===== verification/GenericSafety.thy ===== *)
theory GenericSafety
  imports GenericRule
begin

text \<open>
  What holds of the generic rule pattern: the identifiers it acts under, which rule ends an event and
  what the rules after it miss, and the contract with the registry.
\<close>

section \<open>Ownership\<close>

definition generic_owns :: "GenericRulePattern \<Rightarrow> string \<Rightarrow> bool" where
  "generic_owns pt k \<longleftrightarrow> k \<in> fst ` set (gp_compiled_rules pt)"

lemma candidates_owned: "(pid, r) \<in> set (generic_candidates pt tenant) \<Longrightarrow> generic_owns pt pid"
  by (force simp: generic_candidates_def generic_owns_def)

lemma degraded_irrelevant [simp]:
  "generic_owns (pt\<lparr>gp_runtime_degraded := m\<rparr>) = generic_owns pt"
  "execute_runtime L (pt\<lparr>gp_runtime_degraded := m\<rparr>) = execute_runtime L pt"
  by (simp_all add: generic_owns_def execute_runtime_def fun_eq_iff Let_def split: option.split)

text \<open>The built-in patterns with states of their own are skipped, save one.\<close>

lemma generic_reload_owns:
  "generic_owns (generic_reload_config config_map pt) k \<Longrightarrow> k \<notin> {''depeg'', ''flash_loan'', ''tvl_drop''}"
proof -
  have "k \<in> fst ` set (fold generic_reload_entry config_map acc) \<Longrightarrow>
      k \<notin> {''depeg'', ''flash_loan'', ''tvl_drop''} \<or> k \<in> fst ` set acc" for acc
  proof (induction config_map arbitrary: acc)
    case (Cons e config_map)
    have "k \<in> fst ` set (generic_reload_entry e acc) \<Longrightarrow> k \<notin> {''depeg'', ''flash_loan'', ''tvl_drop''} \<or> k \<in> fst ` set acc"
      by (cases e rule: prod.exhaust)
         (auto simp: generic_reload_entry_def Let_def dom_update [unfolded set_map [symmetric]] split: if_splits prod.splits
           dest!: set_alist_update)
    then show ?case using Cons by auto
  qed simp
  then show "generic_owns (generic_reload_config config_map pt) k \<Longrightarrow> k \<notin> {''depeg'', ''flash_loan'', ''tvl_drop''}"
    by (fastforce simp: generic_owns_def generic_reload_config_def)
qed

section \<open>The run over the candidates\<close>

definition generic_key :: "string \<times> CompiledRuleRef \<Rightarrow> string \<times> string" where
  "generic_key c = (fst c, generic_state_key (fst c) (cr_rule_id (snd c)))"

lemma generic_state_key_inject: "generic_state_key p a = generic_state_key p b \<longleftrightarrow> a = b"
  by (simp add: generic_state_key_def)

text \<open>
  What a run does: a detection comes from a candidate, and only the states of the candidates up to it
  change; without a detection only states of candidates change.
\<close>

lemma generic_rules_run:
  assumes "generic_rules L en event cs pt w = (pt', w', x)"
  shows "gp_compiled_rules pt' = gp_compiled_rules pt \<and> gp_runtime_url pt' = gp_runtime_url pt
    \<and> w_detections w' = w_detections w \<and> w_published w' = w_published w \<and> w_raw_events w' = w_raw_events w
    \<and> (\<exists>xs ys. cs = xs @ ys
        \<and> (\<forall>t k s. t \<noteq> ue_tenant_id event \<or> (k, s) \<notin> generic_key ` set xs \<longrightarrow> w_states w' (t, k, s) = w_states w (t, k, s))
        \<and> (\<forall>d. x = Inr (Some d) \<longrightarrow> xs \<noteq> [] \<and> dr_pattern_id d = fst (last xs)
             \<and> dr_triggered_rule_ids d = [cr_rule_id (snd (last xs))] \<and> dr_tenant_id d = Some (ue_tenant_id event)))"
  using assms
proof (induction cs arbitrary: pt w)
  case Nil
  then show ?case by auto
next
  case (Cons c cs)
  obtain pid rule where c: "c = (pid, rule)" by (rule prod.exhaust)
  let ?key = "generic_state_key pid (cr_rule_id rule)" and ?t = "ue_tenant_id event"
  let ?run = "bind_res (load_pattern_state en ?t pid ?key w)
      (\<lambda>v. execute_runtime L pt pid rule event (unwrap_or v (JObject [])))"
  show ?case
  proof (cases ?run)
    case (Inl e)
    then have "pt' = pt \<and> w' = w \<and> x = Inl e" using Cons.prems by (simp add: c Let_def)
    then show ?thesis by (intro conjI exI [of _ "[]"] exI [of _ "c # cs"]) auto
  next
    case (Inr runtime)
    let ?pt = "\<lambda>b. pt\<lparr>gp_runtime_degraded := (gp_runtime_degraded pt)(generic_health_key ?t pid (cr_rule_id rule) \<mapsto> b)\<rparr>"
    let ?w = "upsert_pattern_state en ?t pid ?key (rp_state runtime) w"
    have states: "w_states ?w (t, k, s) = w_states w (t, k, s)" if "t \<noteq> ?t \<or> (k, s) \<noteq> generic_key c" for t k s
      using that by (auto simp: upsert_pattern_state_def c generic_key_def)
    have logs: "w_detections ?w = w_detections w" "w_published ?w = w_published w" "w_raw_events ?w = w_raw_events w"
      by (simp_all add: upsert_pattern_state_def)
    have tail: ?thesis if run: "generic_rules L en event cs (?pt b) v = (pt', w', x)"
      and v: "v = w \<or> v = ?w" for b v
    proof -
      from Cons.IH [OF run] obtain xs ys where IH: "gp_compiled_rules pt' = gp_compiled_rules pt"
        "gp_runtime_url pt' = gp_runtime_url pt" "w_detections w' = w_detections v" "w_published w' = w_published v"
        "w_raw_events w' = w_raw_events v" "cs = xs @ ys"
        "\<And>t k s. t \<noteq> ?t \<or> (k, s) \<notin> generic_key ` set xs \<Longrightarrow> w_states w' (t, k, s) = w_states v (t, k, s)"
        "\<And>d. x = Inr (Some d) \<Longrightarrow> xs \<noteq> [] \<and> dr_pattern_id d = fst (last xs)
             \<and> dr_triggered_rule_ids d = [cr_rule_id (snd (last xs))] \<and> dr_tenant_id d = Some ?t" by auto
      have "w_states w' (t, k, s) = w_states w (t, k, s)" if "t \<noteq> ?t \<or> (k, s) \<notin> generic_key ` set (c # xs)" for t k s
        using that v states [of t k s] IH(7) [of t k s] by auto
      with IH v logs show ?thesis by (intro conjI exI [of _ "c # xs"] exI [of _ ys]) auto
    qed
    show ?thesis
    proof (cases "rp_ok runtime")
      case False
      then have "generic_rules L en event cs (?pt True) w = (pt', w', x)" using Cons.prems Inr by (simp add: c Let_def)
      then show ?thesis by (rule tail) simp
    next
      case ok: True
      show ?thesis
      proof (cases "rp_matched_alerts runtime")
        case Nil
        then have "generic_rules L en event cs (?pt False) ?w = (pt', w', x)" using Cons.prems Inr ok by (simp add: c Let_def)
        then show ?thesis by (rule tail) simp
      next
        case (Cons alert more)
        then have out: "pt' = ?pt False" "w_states w' = w_states ?w" "w_detections w' = w_detections w"
          "w_published w' = w_published w" "w_raw_events w' = w_raw_events w"
          "x = Inr (Some (detection_from_alert L en pid (cr_rule_id rule) event alert (rp_trace runtime)))"
          using Cons.prems Inr ok logs by (auto simp: c Let_def insert_pattern_snapshot_def)
        have "dr_pattern_id d = pid \<and> dr_triggered_rule_ids d = [cr_rule_id rule] \<and> dr_tenant_id d = Some ?t"
          if "x = Inr (Some d)" for d
          using that out(6) by (auto simp: detection_from_alert_def Let_def split_beta)
        with out(1-5) states show ?thesis
          by (intro conjI exI [of _ "[c]"] exI [of _ cs]) (auto simp: c)
      qed
    qed
  qed
qed

lemma generic_process_run:
  assumes "generic_process_event L en event now pt w = (pt', w', x)"
  shows "gp_compiled_rules pt' = gp_compiled_rules pt \<and> gp_runtime_url pt' = gp_runtime_url pt
    \<and> w_detections w' = w_detections w \<and> w_published w' = w_published w \<and> w_raw_events w' = w_raw_events w
    \<and> (\<exists>xs ys. generic_candidates pt (ue_tenant_id event) = xs @ ys
        \<and> (\<forall>t k s. t \<noteq> ue_tenant_id event \<or> (k, s) \<notin> generic_key ` set xs \<longrightarrow> w_states w' (t, k, s) = w_states w (t, k, s))
        \<and> (\<forall>d. x = Inr (Some d) \<longrightarrow> xs \<noteq> [] \<and> dr_pattern_id d = fst (last xs)
             \<and> dr_triggered_rule_ids d = [cr_rule_id (snd (last xs))] \<and> dr_tenant_id d = Some (ue_tenant_id event)))"
proof (cases "gp_runtime_url pt")
  case None
  then show ?thesis using assms
    by (intro conjI exI [of _ "[]"] exI [of _ "generic_candidates pt (ue_tenant_id event)"]) (auto simp: generic_process_event_def)
next
  case (Some url)
  then have "generic_rules L en event (generic_candidates pt (ue_tenant_id event)) pt w = (pt', w', x)"
    using assms by (simp add: generic_process_event_def)
  from generic_rules_run [OF this] show ?thesis .
qed

text \<open>
  The first match ends the event: a detection belongs to one of the tenant's rules, and the rules
  after it are not run. Their states, which the sandbox programs keep across events, are what they
  were, so they never see the event, whatever they watch for.
\<close>

lemma generic_first_match_starves_rest:
  assumes "generic_process_event L en event now pt w = (pt', w', Inr (Some d))"
  shows "\<exists>xs pid rule ys. generic_candidates pt (ue_tenant_id event) = xs @ (pid, rule) # ys
     \<and> dr_pattern_id d = pid \<and> dr_triggered_rule_ids d = [cr_rule_id rule]
     \<and> (\<forall>(pid', rule') \<in> set ys. (\<forall>(p, r) \<in> set (xs @ [(pid, rule)]). (p, cr_rule_id r) \<noteq> (pid', cr_rule_id rule')) \<longrightarrow>
          w_states w' (ue_tenant_id event, pid', generic_state_key pid' (cr_rule_id rule'))
          = w_states w (ue_tenant_id event, pid', generic_state_key pid' (cr_rule_id rule')))"
proof -
  from generic_process_run [OF assms] obtain xs ys where r: "generic_candidates pt (ue_tenant_id event) = xs @ ys"
    "\<And>t k s. t \<noteq> ue_tenant_id event \<or> (k, s) \<notin> generic_key ` set xs \<Longrightarrow> w_states w' (t, k, s) = w_states w (t, k, s)"
    "xs \<noteq> []" "dr_pattern_id d = fst (last xs)" "dr_triggered_rule_ids d = [cr_rule_id (snd (last xs))]" by blast
  obtain pid rule where l: "last xs = (pid, rule)" by (rule prod.exhaust)
  have xs: "xs = butlast xs @ [(pid, rule)]" using r(3) l by (metis append_butlast_last_id)
  have keys: "(pid', generic_state_key pid' (cr_rule_id rule')) \<notin> generic_key ` set xs"
    if "\<forall>(p, q) \<in> set xs. (p, cr_rule_id q) \<noteq> (pid', cr_rule_id rule')" for pid' rule'
    using that by (auto simp: generic_key_def generic_state_key_inject)
  have rest: "w_states w' (ue_tenant_id event, pid', generic_state_key pid' (cr_rule_id rule'))
      = w_states w (ue_tenant_id event, pid', generic_state_key pid' (cr_rule_id rule'))"
    if "\<forall>(p, q) \<in> set xs. (p, cr_rule_id q) \<noteq> (pid', cr_rule_id rule')" for pid' rule'
    by (rule r(2)) (use keys [OF that] in blast)
  have "generic_candidates pt (ue_tenant_id event) = butlast xs @ (pid, rule) # ys"
    using r(1) xs by (metis append.assoc append_Cons append_Nil)
  moreover have "dr_pattern_id d = pid" "dr_triggered_rule_ids d = [cr_rule_id rule]" using r(4,5) l by simp_all
  ultimately show ?thesis using rest
    by (intro exI [of _ "butlast xs"] exI [of _ pid] exI [of _ rule] exI [of _ ys]) (auto simp only: xs [symmetric])
qed

text \<open>Two rules that would both match: the sandbox is asked about the first only.\<close>

definition sandbox_report :: RuntimeReport where
  "sandbox_report =
     \<lparr>rp_ok = True, rp_matched_alerts = [\<lparr>ra_severity = ''high'', ra_title = [], ra_reason = [], ra_payload = JNull\<rparr>],
      rp_state = JObject [], rp_trace = [], rp_metrics = \<lparr>rm_execution_ms = 1, rm_ops_count = 1\<rparr>, rp_error_code = None\<rparr>"

definition sandbox_libs :: generic_libs where
  "sandbox_libs =
     \<lparr>gl_post = (\<lambda>_ _ _. Answered 200 (Inr \<lparr>re_ok = True, re_runtime = sandbox_report\<rparr>)), gl_now = 0, gl_rfc3339 = (\<lambda>_. [])\<rparr>"

definition sandbox_rule :: "string \<Rightarrow> CompiledRuleRef" where
  "sandbox_rule rule_id =
     \<lparr>cr_rule_id = rule_id, cr_version = None, cr_language = ''cel'', cr_engine = ''js-sandbox-v1'',
      cr_compiled_artifact = JObject [], cr_params = JObject []\<rparr>"

definition sandbox_pattern :: GenericRulePattern where
  "sandbox_pattern =
     \<lparr>gp_compiled_rules = [(''custom'', [(''t'', [sandbox_rule ''r1'', sandbox_rule ''r2''])])],
      gp_runtime_url = Some ''http'', gp_runtime_token = None, gp_runtime_degraded = Map.empty\<rparr>"

definition sandbox_env :: environment where
  "sandbox_env = \<lparr>en_fails = (\<lambda>_. False), en_detection_uuid = [], en_tx_uuid = []\<rparr>"

definition sandbox_event :: UnifiedEvent where
  "sandbox_event =
     \<lparr>ue_event_id = [], ue_tenant_id = ''t'', ue_source_id = [], ue_source_type = EvmChain, ue_event_type = [],
      ue_timestamp = 0, ue_payload = JObject [], ue_chain_id = None, ue_block_number = None,
      ue_tx_hash = None, ue_market_key = None, ue_price = None\<rparr>"

definition sandbox_world :: world where
  "sandbox_world = \<lparr>w_states = (\<lambda>_. None), w_snapshots = [], w_raw_events = [], w_detections = [], w_published = []\<rparr>"

lemma sandbox_candidates:
  "generic_candidates sandbox_pattern (ue_tenant_id sandbox_event)
   = [(''custom'', sandbox_rule ''r1''), (''custom'', sandbox_rule ''r2'')]"
  by (simp add: generic_candidates_def sandbox_pattern_def sandbox_event_def)

lemma sandbox_fires:
  "\<exists>pt' w' d. generic_process_event sandbox_libs sandbox_env sandbox_event 0 sandbox_pattern sandbox_world = (pt', w', Inr (Some d))
     \<and> dr_triggered_rule_ids d = [''r1'']"
proof -
  have run: "execute_runtime sandbox_libs sandbox_pattern pid r sandbox_event st = Inr sandbox_report" for pid r st
    by (simp add: execute_runtime_def sandbox_pattern_def sandbox_libs_def Let_def)
  have load: "load_pattern_state sandbox_env t pid k sandbox_world = Inr None" for t pid k
    by (simp add: load_pattern_state_def sandbox_env_def sandbox_world_def)
  have alert: "rp_ok sandbox_report" "\<exists>a. rp_matched_alerts sandbox_report = [a]" by (simp_all add: sandbox_report_def)
  have url: "gp_runtime_url sandbox_pattern \<noteq> None" by (simp add: sandbox_pattern_def)
  from alert(2) obtain a where a: "rp_matched_alerts sandbox_report = [a]" ..
  show ?thesis
    by (simp add: generic_process_event_def url sandbox_candidates run load alert(1) a Let_def
        detection_from_alert_def split_beta sandbox_rule_def)
qed

section \<open>The contract with the registry\<close>

lemma generic_rules_local:
  assumes "\<And>k. k \<in> fst ` set cs \<Longrightarrow> P k" "same_states P w v" "generic_rules L en event cs pt w = (pt', w', x)"
  shows "\<exists>v'. generic_rules L en event cs pt v = (pt', v', x) \<and> same_states P w' v'"
  using assms
proof (induction cs arbitrary: pt w v)
  case (Cons c cs)
  obtain pid rule where c: "c = (pid, rule)" by (rule prod.exhaust)
  let ?key = "generic_state_key pid (cr_rule_id rule)" and ?t = "ue_tenant_id event"
  have P: "P pid" using Cons.prems(1) c by simp
  have ld: "load_pattern_state en ?t pid ?key v = load_pattern_state en ?t pid ?key w"
    using same_states_load [OF Cons.prems(2) P] by simp
  have tl: "\<And>k. k \<in> fst ` set cs \<Longrightarrow> P k" using Cons.prems(1) by auto
  show ?case
  proof (cases "bind_res (load_pattern_state en ?t pid ?key w)
      (\<lambda>v. execute_runtime L pt pid rule event (unwrap_or v (JObject [])))")
    case (Inl e)
    then show ?thesis using Cons.prems(2,3) by (simp add: c Let_def ld)
  next
    case (Inr runtime)
    let ?up = "upsert_pattern_state en ?t pid ?key (rp_state runtime)"
    have up: "same_states P (?up w) (?up v)" using Cons.prems(2) by (rule same_states_upsert)
    show ?thesis
    proof (cases "rp_ok runtime")
      case False
      then show ?thesis using Cons.IH [OF tl Cons.prems(2)] Cons.prems(3) Inr by (simp add: c Let_def ld)
    next
      case ok: True
      show ?thesis
      proof (cases "rp_matched_alerts runtime")
        case Nil
        then show ?thesis using Cons.IH [OF tl up] Cons.prems(3) Inr ok by (simp add: c Let_def ld)
      next
        case (Cons alert more)
        then show ?thesis using Cons.prems(3) Inr ok up by (auto simp: c Let_def ld intro: same_states_snapshot)
      qed
    qed
  qed
qed auto

lemma generic_own_states:
  assumes "generic_process_event L en event now pt w = (pt', w', x)" "t \<noteq> ue_tenant_id event \<or> \<not> generic_owns pt k"
  shows "w_states w' (t, k, s) = w_states w (t, k, s)"
proof -
  from generic_process_run [OF assms(1)] obtain xs ys where r: "generic_candidates pt (ue_tenant_id event) = xs @ ys"
    "\<And>t k s. t \<noteq> ue_tenant_id event \<or> (k, s) \<notin> generic_key ` set xs \<Longrightarrow> w_states w' (t, k, s) = w_states w (t, k, s)" by blast
  have "(k, s) \<notin> generic_key ` set xs" if "\<not> generic_owns pt k"
    using that r(1) candidates_owned [of k _ pt "ue_tenant_id event"] by (fastforce simp: generic_key_def)
  with assms(2) r(2) show ?thesis by blast
qed

lemma generic_signs:
  assumes "generic_process_event L en event now pt w = (pt', w', Inr (Some d))"
  shows "generic_owns pt (dr_pattern_id d) \<and> dr_tenant_id d = Some (ue_tenant_id event)"
proof -
  from generic_process_run [OF assms] obtain xs ys where "generic_candidates pt (ue_tenant_id event) = xs @ ys"
    "xs \<noteq> []" "dr_pattern_id d = fst (last xs)" "dr_tenant_id d = Some (ue_tenant_id event)" by blast
  then show ?thesis using candidates_owned [of "fst (last xs)" "snd (last xs)" pt "ue_tenant_id event"] by simp
qed

interpretation generic_contract: local_pattern generic_owns "generic_process_event L" for L
proof unfold_locales
  fix en ev now p w p' w' r
  assume r: "generic_process_event L en ev now p w = (p', w', r)"
  show "generic_owns p' = generic_owns p" using generic_process_run [OF r] by (simp add: generic_owns_def fun_eq_iff)
  show "w_detections w' = w_detections w \<and> w_published w' = w_published w \<and> w_raw_events w' = w_raw_events w"
    using generic_process_run [OF r] by blast
  show "w_states w' (t, k, s) = w_states w (t, k, s)" if "\<not> generic_owns p k" for k t s
    using generic_own_states [OF r] that by blast
  show "\<exists>v'. generic_process_event L en ev now p v = (p', v', r) \<and> same_states (generic_owns p) w' v'"
    if "same_states (generic_owns p) w v" for v
  proof (cases "gp_runtime_url p")
    case None
    then show ?thesis using r that by (auto simp: generic_process_event_def)
  next
    case (Some url)
    have "\<And>k. k \<in> fst ` set (generic_candidates p (ue_tenant_id ev)) \<Longrightarrow> generic_owns p k"
      using candidates_owned by force
    from generic_rules_local [OF this that] r Some show ?thesis by (simp add: generic_process_event_def)
  qed
qed (use generic_signs in blast)

end
