(* ===== verification/Registry.thy ===== *)
theory Registry
  imports DepegSafety TvlIncidents UtilIncidents FlashSafety GenericSafety
begin

text \<open>
  The registry with its five built-in patterns, \<^verbatim>\<open>PatternRegistry\<close> of \<^verbatim>\<open>apps/detector/src/patterns/mod.rs\<close>.
  Each pattern reads and writes only the states it owns, so in the registry each does what it would do
  alone; a reload keeps the invariants of all patterns, and so does an event.
\<close>

section \<open>Patterns read only what they own\<close>

text \<open>A stored state is loaded in the same way from worlds that agree on what is owned.\<close>

lemma tvl_store_local:
  assumes "same_states P w v" "tvl_store L en event k st snap score sev now pt w = (pt', w', x)"
  shows "\<exists>v'. tvl_store L en event k st snap score sev now pt v = (pt', v', x) \<and> same_states P w' v'"
  using assms by (auto simp: tvl_store_def Let_def intro: same_states_intros split: sum.splits)

lemma util_store_local:
  assumes "same_states P w v" "util_store L en event k st snap score sev now pt w = (pt', w', x)"
  shows "\<exists>v'. util_store L en event k st snap score sev now pt v = (pt', v', x) \<and> same_states P w' v'"
  using assms by (auto simp: util_store_def Let_def intro: same_states_intros split: sum.splits)

lemma tvl_load_local: "same_states (\<lambda>k. k = TVL_PATTERN_ID) w v \<Longrightarrow> tvl_load_state L en t k v = tvl_load_state L en t k w"
  by (simp add: tvl_load_state_def same_states_load [where P = "\<lambda>k. k = TVL_PATTERN_ID" and w = w and v = v])

lemma util_load_local: "same_states (\<lambda>k. k = UTIL_PATTERN_ID) w v \<Longrightarrow> util_load_state L en t k v = util_load_state L en t k w"
  by (simp add: util_load_state_def same_states_load [where P = "\<lambda>k. k = UTIL_PATTERN_ID" and w = w and v = v])

lemma tvl_sample_rule_local:
  assumes s: "same_states (\<lambda>k. k = TVL_PATTERN_ID) w v"
    and r: "tvl_sample_rule L en event sample now r pt w em = (pt', w', x)"
  shows "\<exists>v'. tvl_sample_rule L en event sample now r pt v em = (pt', v', x) \<and> same_states (\<lambda>k. k = TVL_PATTERN_ID) w' v'"
proof (cases "tvl_subject_for_event r (te_market_id sample)")
  case None
  then show ?thesis using r s by (auto simp: tvl_sample_rule_def)
next
  case (Some q)
  obtain ty sk pck where q: "q = (ty, sk, pck)" by (rule prod_cases3)
  let ?key = "tvl_load_state_key (tr_rule_id r) sk" and ?t = "ue_tenant_id event"
  let ?ck = "tvl_cache_key ?t ?key"
  note ld = tvl_load_local [OF s]
  show ?thesis
  proof (cases "bind_res (tvl_load_state L en ?t ?key w) (\<lambda>st.
                     bind_res (tvl_cache_state L now ?ck st pt) (\<lambda>pt1. Inr (st, pt1)))")
    case (Inl e)
    then show ?thesis using r s by (auto simp: tvl_sample_rule_def Some q Let_def ld)
  next
    case (Inr c)
    obtain st pt1 where c: "c = (st, pt1)" by (rule prod.exhaust)
    show ?thesis
    proof (cases "tvl_rule_step L r (with_event_metadata event pck st) (te_tvl_usd sample)
        (has_concurrent_active_drop L (td_state_cache pt1) ?t ?ck pck now (tr_concurrent_window_minutes r)) now")
      case (Inl e)
      then show ?thesis using r s Inr by (auto simp: tvl_sample_rule_def Some q c Let_def ld)
    next
      case out: (Inr out)
      let ?store = "tvl_store L en event ?key (to_state out) (tvl_snapshot r sk sample out)
          (Some (tv_selected_drop_pct (to_evaluation out)))
          (if tv_base_severity (to_evaluation out) \<noteq> None then Some (severity_name (to_severity out)) else None) now pt1"
      let ?em = "\<lambda>pt2. case to_transition out of None \<Rightarrow> em | Some transition \<Rightarrow> tvl_pick_higher_severity em
          (with_at_risk_markets (find_at_risk_markets pt2 ?t (te_protocol_id sample) (te_chain_slug sample) (te_market_id sample))
            (build_tvl_detection L en event r ty sk out transition sample now))"
      have run: "tvl_sample_rule L en event sample now r pt u em = (pt2, u2, map_sum id (\<lambda>_. ?em pt2) y)"
        if "?store u = (pt2, u2, y)" "tvl_load_state L en ?t ?key u = tvl_load_state L en ?t ?key w" for u pt2 u2 y
        by (cases y)
           (simp_all only: tvl_sample_rule_def Some q that Inr c out Let_def option.case prod.case sum.case map_sum.simps
             id_apply simp_thms split: unit.split)
      obtain pt2 w2 y where st: "?store w = (pt2, w2, y)" by (rule prod_cases3)
      from tvl_store_local [OF s st] obtain v2 where v2: "?store v = (pt2, v2, y)" "same_states (\<lambda>k. k = TVL_PATTERN_ID) w2 v2"
        by blast
      have "pt' = pt2" "w' = w2" "x = map_sum id (\<lambda>_. ?em pt2) y" using run [OF st refl] r by simp_all
      then show ?thesis using run [OF v2(1) ld] v2(2) by blast
    qed
  qed
qed

lemma tvl_pause_rule_local:
  assumes s: "same_states (\<lambda>k. k = TVL_PATTERN_ID) w v"
    and r: "tvl_pause_rule L en event pause now r pt w em = (pt', w', x)"
  shows "\<exists>v'. tvl_pause_rule L en event pause now r pt v em = (pt', v', x) \<and> same_states (\<lambda>k. k = TVL_PATTERN_ID) w' v'"
proof (cases "tvl_subject_for_event r (tq_market_id pause)")
  case None
  then show ?thesis using r s by (auto simp: tvl_pause_rule_def)
next
  case (Some q)
  obtain ty sk pck where q: "q = (ty, sk, pck)" by (rule prod_cases3)
  let ?key = "tvl_load_state_key (tr_rule_id r) sk" and ?t = "ue_tenant_id event"
  note ld = tvl_load_local [OF s]
  show ?thesis
  proof (cases "bind_res (tvl_load_state L en ?t ?key w) (\<lambda>st.
                     bind_res (tvl_cache_state L now (tvl_cache_key ?t ?key) st pt) (\<lambda>pt1. Inr (st, pt1)))")
    case (Inl e)
    then show ?thesis using r s by (auto simp: tvl_pause_rule_def Some q Let_def ld)
  next
    case (Inr c)
    obtain st pt1 where c: "c = (st, pt1)" by (rule prod.exhaust)
    show ?thesis
    proof (cases "pause_parameters st (tq_paused pause)")
      case None
      then show ?thesis using r s Inr by (auto simp: tvl_pause_rule_def Some q c Let_def ld)
    next
      case par: (Some p)
      obtain severity transition classification where p: "p = (severity, transition, classification)" by (rule prod_cases3)
      let ?st = "st\<lparr>ts_protocol_chain_key := Some pck, ts_last_pause_state := Some (tq_paused pause),
          ts_last_transition_at := Some now\<rparr>"
      let ?snap = "JObject
                              [(''rule_id'', JString (tr_rule_id r)), (''subject_key'', JString sk),
                               (''pause_state'', JString (pause_label (tq_paused pause))),
                               (''incident_transition'', JString (tvl_incident_transition_str transition)),
                               (''context_classification'', JString (tvl_context_classification_str classification))]"
      let ?store = "tvl_store L en event ?key ?st ?snap (ts_last_drop_pct ?st) (ts_last_severity ?st) now pt1"
      let ?em = "tvl_pick_higher_severity em (tvl_build_pause_detection en event r ty sk severity transition classification pause now)"
      have run: "tvl_pause_rule L en event pause now r pt u em = (pt2, u2, map_sum id (\<lambda>_. ?em) y)"
        if "?store u = (pt2, u2, y)" "tvl_load_state L en ?t ?key u = tvl_load_state L en ?t ?key w" for u pt2 u2 y
        by (cases y)
           (simp_all only: tvl_pause_rule_def Some q that Inr c par p Let_def option.case prod.case sum.case map_sum.simps
             id_apply simp_thms split: unit.split)
      obtain pt2 w2 y where st: "?store w = (pt2, w2, y)" by (rule prod_cases3)
      from tvl_store_local [OF s st] obtain v2 where v2: "?store v = (pt2, v2, y)" "same_states (\<lambda>k. k = TVL_PATTERN_ID) w2 v2"
        by blast
      have "pt' = pt2" "w' = w2" "x = map_sum id (\<lambda>_. ?em) y" using run [OF st refl] r by simp_all
      then show ?thesis using run [OF v2(1) ld] v2(2) by blast
    qed
  qed
qed

lemma tvl_process_event_local:
  assumes s: "same_states (\<lambda>k. k = TVL_PATTERN_ID) w v" and r: "tvl_process_event L en event now pt w = (pt', w', x)"
  shows "\<exists>v'. tvl_process_event L en event now pt v = (pt', v', x) \<and> same_states (\<lambda>k. k = TVL_PATTERN_ID) w' v'"
proof (cases "tvl_rules_for pt event")
  case None
  then show ?thesis using r s by (auto simp: tvl_process_event_def)
next
  case (Some rules)
  show ?thesis
  proof (cases "parse_tvl_state_event event")
    case sample: (Some sample)
    from r have "run_rules (tvl_sample_rule L en event sample now)
                 (filter (\<lambda>r. tr_enabled r \<and> tvl_matches r (te_protocol_id sample) (te_chain_slug sample) (te_market_id sample))
                    rules) pt w None = (pt', w', x)" by (simp add: tvl_process_event_def Some sample)
    from run_rules_local [OF tvl_sample_rule_local s this] show ?thesis by (simp add: tvl_process_event_def Some sample)
  next
    case None
    show ?thesis
    proof (cases "parse_tvl_pause_event event")
      case none: None
      then show ?thesis using r s None Some by (auto simp: tvl_process_event_def)
    next
      case pause: (Some pause)
      from r have "run_rules (tvl_pause_rule L en event pause now)
                      (filter (\<lambda>r. tr_enabled r \<and> tvl_matches r (tq_protocol_id pause) (tq_chain_slug pause) (tq_market_id pause))
                         rules) pt w None = (pt', w', x)" by (simp add: tvl_process_event_def Some None pause)
      from run_rules_local [OF tvl_pause_rule_local s this] show ?thesis by (simp add: tvl_process_event_def Some None pause)
    qed
  qed
qed

lemma util_reading_rule_local:
  assumes s: "same_states (\<lambda>k. k = UTIL_PATTERN_ID) w v"
    and r: "util_reading_rule L en event sm now r pt w em = (pt', w', x)"
  shows "\<exists>v'. util_reading_rule L en event sm now r pt v em = (pt', v', x) \<and> same_states (\<lambda>k. k = UTIL_PATTERN_ID) w' v'"
proof (cases "util_subject_for_event r (uo_market_id sm)")
  case None
  then show ?thesis using r s by (auto simp: util_reading_rule_def)
next
  case (Some q)
  obtain ty sk where q: "q = (ty, sk)" by (rule prod.exhaust)
  let ?key = "util_state_key (ur_rule_id r) sk" and ?t = "ue_tenant_id event"
  note ld = util_load_local [OF s]
  show ?thesis
  proof (cases "bind_res (util_load_state L en ?t ?key w) (\<lambda>st0.
                  evaluate_utilization_state L r st0 (uo_utilization_pct sm) (uo_tvl_usd sm) now)")
    case (Inl e)
    then show ?thesis using r s by (auto simp: util_reading_rule_def Some q Let_def ld)
  next
    case ev: (Inr c)
    obtain st res where c: "c = (st, res)" by (rule prod.exhaust)
    show ?thesis
    proof (cases "uv_tvl_floor_suppressed res")
      case True
      then show ?thesis using r s ev by (auto simp: util_reading_rule_def Some q c Let_def ld)
    next
      case False
      show ?thesis
      proof (cases "util_detection_of L en event r ty sk sm st res now")
        case (Inl e)
        have "util_reading_rule L en event sm now r pt u em = (pt, u, Inl e)"
          if "util_load_state L en ?t ?key u = util_load_state L en ?t ?key w" for u
          by (simp_all only: util_reading_rule_def Some q that ev c Inl False if_False Let_def option.case prod.case sum.case)
        from this [OF refl] this [OF ld] r s show ?thesis by auto
      next
        case d: (Inr d)
        let ?store = "util_store L en event ?key st (util_snapshot r sk sm st res) (Some (uo_utilization_pct sm))
            (ust_last_severity st) now pt"
        let ?em = "case d of None \<Rightarrow> em | Some c \<Rightarrow> pick_higher em c"
        have run: "util_reading_rule L en event sm now r pt u em = (pt2, u2, map_sum id (\<lambda>_. ?em) y)"
          if "?store u = (pt2, u2, y)" "util_load_state L en ?t ?key u = util_load_state L en ?t ?key w" for u pt2 u2 y
          by (cases y)
             (simp_all only: util_reading_rule_def Some q that ev c d False if_False Let_def option.case prod.case sum.case
               map_sum.simps id_apply simp_thms split: unit.split)
        obtain pt2 w2 y where st: "?store w = (pt2, w2, y)" by (rule prod_cases3)
        from util_store_local [OF s st] obtain v2 where v2: "?store v = (pt2, v2, y)"
          "same_states (\<lambda>k. k = UTIL_PATTERN_ID) w2 v2" by blast
        have "pt' = pt2" "w' = w2" "x = map_sum id (\<lambda>_. ?em) y" using run [OF st refl] r by simp_all
        then show ?thesis using run [OF v2(1) ld] v2(2) by blast
      qed
    qed
  qed
qed

lemma util_pause_rules_local:
  assumes s: "same_states (\<lambda>k. k = UTIL_PATTERN_ID) w v"
    and r: "util_pause_rules L en event pause now rs pt w = (pt', w', x)"
  shows "\<exists>v'. util_pause_rules L en event pause now rs pt v = (pt', v', x) \<and> same_states (\<lambda>k. k = UTIL_PATTERN_ID) w' v'"
  using r
proof (induction rs)
  case Nil
  then show ?case using s by auto
next
  case (Cons r rs)
  let ?t = "ue_tenant_id event"
  note ld = util_load_local [OF s]
  show ?case
  proof (cases "util_subject_for_event r (up_market_id pause)")
    case None
    then show ?thesis using Cons by simp
  next
    case (Some q)
    obtain ty sk where q: "q = (ty, sk)" by (rule prod.exhaust)
    let ?k = "util_state_key (ur_rule_id r) sk"
    show ?thesis
    proof (cases "util_load_state L en ?t ?k w")
      case (Inl e)
      have "util_pause_rules L en event pause now (r # rs) pt u = (pt, u, Inl e)"
        if "util_load_state L en ?t ?k u = util_load_state L en ?t ?k w" for u by (simp add: Some q that Inl Let_def)
      from this [OF refl] this [OF ld] Cons.prems s show ?thesis by auto
    next
      case st0: (Inr st0)
      show ?thesis
      proof (cases "ust_last_severity st0")
        case None
        then show ?thesis using Cons Some q st0 by (simp add: Let_def ld)
      next
        case act: (Some active)
        let ?store = "util_store L en event ?k (st0\<lparr>ust_paused_status := up_paused pause, ust_last_transition_at := Some now\<rparr>)
            (JObject
                           [(''rule_id'', JString (ur_rule_id r)), (''subject_key'', JString sk),
                            (''pause_state'', JString (util_pause_label (up_paused pause))),
                            (''incident_transition'', JString ''update'')]) None (Some active) now pt"
        let ?d = "util_build_pause_detection en event r ty sk (unwrap_or (util_severity_from_str (Some active)) Medium) pause now"
        have run: "util_pause_rules L en event pause now (r # rs) pt u = (pt2, u2, map_sum id (\<lambda>_. Some ?d) y)"
          if "?store u = (pt2, u2, y)" "util_load_state L en ?t ?k u = util_load_state L en ?t ?k w" for u pt2 u2 y
          by (cases y)
             (simp_all only: util_pause_rules.simps Some q that st0 act Let_def option.case prod.case sum.case
               map_sum.simps id_apply simp_thms split: unit.split)
        obtain pt2 w2 y where st: "?store w = (pt2, w2, y)" by (rule prod_cases3)
        from util_store_local [OF s st] obtain v2 where v2: "?store v = (pt2, v2, y)"
          "same_states (\<lambda>k. k = UTIL_PATTERN_ID) w2 v2" by blast
        have "pt' = pt2" "w' = w2" "x = map_sum id (\<lambda>_. Some ?d) y" using run [OF st refl] Cons.prems by simp_all
        then show ?thesis using run [OF v2(1) ld] v2(2) by blast
      qed
    qed
  qed
qed

lemma util_readings_local:
  assumes "same_states (\<lambda>k. k = UTIL_PATTERN_ID) w v"
    and "run_rules (util_reading_rule L en event sm now) rs pt w em = (pt', w', x)"
  shows "\<exists>v'. run_rules (util_reading_rule L en event sm now) rs pt v em = (pt', v', x)
    \<and> same_states (\<lambda>k. k = UTIL_PATTERN_ID) w' v'"
  by (rule run_rules_local [OF _ assms]) (rule util_reading_rule_local)

lemma util_process_event_local:
  assumes s: "same_states (\<lambda>k. k = UTIL_PATTERN_ID) w v" and r: "util_process_event L en event now pt w = (pt', w', x)"
  shows "\<exists>v'. util_process_event L en event now pt v = (pt', v', x) \<and> same_states (\<lambda>k. k = UTIL_PATTERN_ID) w' v'"
proof (cases "util_rules_for pt event")
  case None
  then show ?thesis using r s by (auto simp: util_process_event_def)
next
  case (Some rules)
  show ?thesis
  proof (cases "parse_utilization_state_event event")
    case sm: (Some sm)
    obtain p1 w1 y where run: "run_rules (util_reading_rule L en event sm now)
         (filter (\<lambda>r. ur_enabled r \<and> util_matches r (uo_protocol_id sm) (uo_chain_slug sm) (uo_market_id sm)) rules) pt w None
       = (p1, w1, y)" by (rule prod_cases3)
    obtain v1 where v1: "run_rules (util_reading_rule L en event sm now)
         (filter (\<lambda>r. ur_enabled r \<and> util_matches r (uo_protocol_id sm) (uo_chain_slug sm) (uo_market_id sm)) rules) pt v None
       = (p1, v1, y)" "same_states (\<lambda>k. k = UTIL_PATTERN_ID) w1 v1" using util_readings_local [OF s run] by blast
    have "(pt', w', x) = (p1, w1, map_sum id (map_option (with_other_incidents L (ue_tenant_id event) (uh_state_cache p1))) y)"
      using r run by (cases y) (auto simp: util_process_event_def Some sm)
    moreover have "util_process_event L en event now pt v
        = (p1, v1, map_sum id (map_option (with_other_incidents L (ue_tenant_id event) (uh_state_cache p1))) y)"
      using v1(1) by (cases y) (simp_all add: util_process_event_def Some sm)
    ultimately show ?thesis using v1(2) by simp
  next
    case None
    show ?thesis
    proof (cases "parse_utilization_pause_event event")
      case none: None
      then show ?thesis using r s None Some by (auto simp: util_process_event_def)
    next
      case p: (Some pause)
      from r have "util_pause_rules L en event pause now
         (filter (\<lambda>r. ur_enabled r \<and> util_matches r (up_protocol_id pause) (up_chain_slug pause) (up_market_id pause)) rules) pt w
        = (pt', w', x)" by (simp add: util_process_event_def Some None p)
      from util_pause_rules_local [OF s this] show ?thesis by (simp add: util_process_event_def Some None p)
    qed
  qed
qed

lemma depeg_process_event_local:
  assumes s: "same_states (\<lambda>k. k = PATTERN_ID) w v" and r: "process_event L en event now pt w = (pt', w', x)"
  shows "\<exists>v'. process_event L en event now pt v = (pt', v', x) \<and> same_states (\<lambda>k. k = PATTERN_ID) w' v'"
proof -
  have ld: "load_alert_state L en t k v = load_alert_state L en t k w" for t k
    by (simp add: load_alert_state_def same_states_load [OF s])
  have st: "\<exists>v'. store_outcome L en event mk p t o' v = (v', y) \<and> same_states (\<lambda>k. k = PATTERN_ID) w1 v'"
    if "store_outcome L en event mk p t o' w = (w1, y)" for mk p t o' w1 y
    using that s by (auto simp: store_outcome_def Let_def intro: same_states_intros split: sum.splits)
  show ?thesis
  proof (cases "relevant_market L pt event")
    case None
    then show ?thesis using r s by (auto simp: process_event_def)
  next
    case (Some m)
    obtain mk p price t where m: "m = (mk, p, price, t)" by (rule prod_cases4)
    show ?thesis
    proof (cases "cache_quote L event mk price t (pt_quote_cache pt)")
      case (Inl e)
      then have "process_event L en event now pt u = (pt, u, Inl e)" for u by (simp add: process_event_def Some m)
      then show ?thesis using r s by auto
    next
      case c: (Inr cache)
      let ?pt = "pt\<lparr>pt_quote_cache := cache\<rparr>" and ?key = "(ue_tenant_id event, mk, event_scope event)"
      show ?thesis
      proof (cases "bind_res (load_alert_state L en (ue_tenant_id event) (state_key mk (simulation_run_id event)) w)
                          (\<lambda>st. bind_res (evaluate_market L ?pt p ?key t st) (\<lambda>o'. Inr (st, o')))")
        case (Inl e)
        then have "process_event L en event now pt u = (?pt, u, Inl e)"
          if "load_alert_state L en (ue_tenant_id event) (state_key mk (simulation_run_id event)) u
            = load_alert_state L en (ue_tenant_id event) (state_key mk (simulation_run_id event)) w" for u
          by (simp add: process_event_def Some m c Let_def that)
        from this [OF refl] this [OF ld] r s show ?thesis by auto
      next
        case (Inr q)
        obtain st outcome where q: "q = (st, outcome)" by (rule prod.exhaust)
        show ?thesis
        proof (cases "late_delivery st t")
          case True
          then have "process_event L en event now pt u = (?pt, u, Inr None)"
            if "load_alert_state L en (ue_tenant_id event) (state_key mk (simulation_run_id event)) u
              = load_alert_state L en (ue_tenant_id event) (state_key mk (simulation_run_id event)) w" for u
            using Inr by (simp add: process_event_def Some m c q Let_def that)
          from this [OF refl] this [OF ld] r s show ?thesis by auto
        next
          case False
          let ?o = "outcome\<lparr>eo_next_state := (eo_next_state outcome)\<lparr>das_high_water_mark := Some (max_mark (das_high_water_mark st) t)\<rparr>\<rparr>"
          obtain w1 y where so: "store_outcome L en event mk p t ?o w = (w1, y)" by (rule prod.exhaust)
          from st [OF so] obtain v1 where "store_outcome L en event mk p t ?o v = (v1, y)"
            "same_states (\<lambda>k. k = PATTERN_ID) w1 v1" by blast
          moreover have "process_event L en event now pt u = (?pt, u1, y)"
            if "store_outcome L en event mk p t ?o u = (u1, y)"
              "load_alert_state L en (ue_tenant_id event) (state_key mk (simulation_run_id event)) u
              = load_alert_state L en (ue_tenant_id event) (state_key mk (simulation_run_id event)) w" for u u1
            using Inr False that(1) by (simp add: process_event_def Some m c q Let_def that(2))
          from this [OF so refl] this [OF _ ld] r calculation show ?thesis by auto
        qed
      qed
    qed
  qed
qed

section \<open>The five patterns\<close>

datatype pattern =
    DepegP DepegPattern
  | FlashLoanP FlashLoanPattern
  | TvlDropP TvlDropPattern
  | GenericRuleP GenericRulePattern
  | UtilizationHighP UtilizationHighPattern

record registry_libs =
  rl_depeg :: depeg_libs
  rl_flash :: flash_libs
  rl_tvl :: tvl_libs
  rl_generic :: generic_libs
  rl_util :: util_libs

fun pattern_process :: "registry_libs \<Rightarrow> pattern process" where
  "pattern_process R en ev now (DepegP p) w = map_prod DepegP id (process_event (rl_depeg R) en ev now p w)"
| "pattern_process R en ev now (FlashLoanP p) w = map_prod FlashLoanP id (flash_process_event (rl_flash R) en ev now p w)"
| "pattern_process R en ev now (TvlDropP p) w = map_prod TvlDropP id (tvl_process_event (rl_tvl R) en ev now p w)"
| "pattern_process R en ev now (GenericRuleP p) w = map_prod GenericRuleP id (generic_process_event (rl_generic R) en ev now p w)"
| "pattern_process R en ev now (UtilizationHighP p) w = map_prod UtilizationHighP id (util_process_event (rl_util R) en ev now p w)"

fun pattern_reload :: "registry_libs \<Rightarrow> ((string \<times> string) \<times> json) list \<Rightarrow> pattern \<Rightarrow> pattern" where
  "pattern_reload R c (DepegP p) = DepegP (reload_config (rl_depeg R) c p)"
| "pattern_reload R c (FlashLoanP p) = FlashLoanP (flash_reload_config c p)"
| "pattern_reload R c (TvlDropP p) = TvlDropP (tvl_reload_config c p)"
| "pattern_reload R c (GenericRuleP p) = GenericRuleP (generic_reload_config c p)"
| "pattern_reload R c (UtilizationHighP p) = UtilizationHighP (util_reload_config (rl_util R) c p)"

text \<open>The registry as it is made; the two values are those of the sandbox's environment variables.\<close>

definition new_registry :: "string option \<Rightarrow> string option \<Rightarrow> pattern list" where
  "new_registry url token =
     [DepegP DepegPattern_default, FlashLoanP FlashLoanPattern_default, TvlDropP TvlDropPattern_default,
      GenericRuleP (GenericRulePattern_default url token), UtilizationHighP UtilizationHighPattern_default]"

text \<open>No reload of a pattern fails.\<close>

definition reload_all :: "registry_libs \<Rightarrow> ((string \<times> string) \<times> json) list \<Rightarrow> pattern list \<Rightarrow> pattern list" where
  "reload_all R config_map ps = map (pattern_reload R config_map) ps"

fun pattern_owns :: "pattern \<Rightarrow> string \<Rightarrow> bool" where
  "pattern_owns (DepegP p) k = (k = PATTERN_ID)"
| "pattern_owns (FlashLoanP p) k = (k = FLASH_PATTERN_ID)"
| "pattern_owns (TvlDropP p) k = (k = TVL_PATTERN_ID)"
| "pattern_owns (GenericRuleP p) k = generic_owns p k"
| "pattern_owns (UtilizationHighP p) k = (k = UTIL_PATTERN_ID)"

lemma pattern_owns_eqs:
  "pattern_owns (DepegP p) = (\<lambda>k. k = PATTERN_ID)" "pattern_owns (FlashLoanP q) = (\<lambda>k. k = FLASH_PATTERN_ID)"
  "pattern_owns (TvlDropP t) = (\<lambda>k. k = TVL_PATTERN_ID)" "pattern_owns (GenericRuleP g) = generic_owns g"
  "pattern_owns (UtilizationHighP u) = (\<lambda>k. k = UTIL_PATTERN_ID)"
  by (simp_all add: fun_eq_iff)

lemma pattern_processE:
  assumes "pattern_process R en ev now p w = (p', w', r)"
  obtains (depeg) q q' where "p = DepegP q" "p' = DepegP q'" "process_event (rl_depeg R) en ev now q w = (q', w', r)"
  | (flash) q q' where "p = FlashLoanP q" "p' = FlashLoanP q'" "flash_process_event (rl_flash R) en ev now q w = (q', w', r)"
  | (tvl) q q' where "p = TvlDropP q" "p' = TvlDropP q'" "tvl_process_event (rl_tvl R) en ev now q w = (q', w', r)"
  | (generic) q q' where "p = GenericRuleP q" "p' = GenericRuleP q'" "generic_process_event (rl_generic R) en ev now q w = (q', w', r)"
  | (util) q q' where "p = UtilizationHighP q" "p' = UtilizationHighP q'" "util_process_event (rl_util R) en ev now q w = (q', w', r)"
  using assms by (cases p) (auto simp: map_prod_def split: prod.splits)

text \<open>Every pattern has the contract; the registry has it for their sum.\<close>

interpretation registry: local_pattern pattern_owns "pattern_process R" for R
proof unfold_locales
  fix en ev now p w p' w' r
  assume r: "pattern_process R en ev now p w = (p', w', r)"
  show "pattern_owns p' = pattern_owns p"
    using r by (cases rule: pattern_processE) (auto simp: pattern_owns_eqs generic_contract.keeps_owner)
  show "w_detections w' = w_detections w \<and> w_published w' = w_published w \<and> w_raw_events w' = w_raw_events w"
    using r
    by (cases rule: pattern_processE)
       (erule depeg_contract.keeps_logs flash_contract.keeps_logs tvl_contract.keeps_logs generic_contract.keeps_logs
         util_contract.keeps_logs)+
  show "w_states w' (t, k, s) = w_states w (t, k, s)" if "\<not> pattern_owns p k" for k t s
    using r
  proof (cases rule: pattern_processE)
    case (depeg q q')
    then show ?thesis using that depeg_contract.own_states [OF depeg(3)] by simp
  next
    case (flash q q')
    then show ?thesis using that flash_contract.own_states [OF flash(3)] by simp
  next
    case (tvl q q')
    then show ?thesis using that tvl_contract.own_states [OF tvl(3)] by simp
  next
    case (generic q q')
    then show ?thesis using that generic_contract.own_states [OF generic(3)] by simp
  next
    case (util q q')
    then show ?thesis using that util_contract.own_states [OF util(3)] by simp
  qed
  show "\<exists>v'. pattern_process R en ev now p v = (p', v', r) \<and> same_states (pattern_owns p) w' v'"
    if "same_states (pattern_owns p) w v" for v
    using r
  proof (cases rule: pattern_processE)
    case (depeg q q')
    from that depeg(1) have "same_states (\<lambda>k. k = PATTERN_ID) w v" by (simp add: pattern_owns_eqs)
    from depeg_process_event_local [OF this depeg(3)] depeg(1,2) show ?thesis by (auto simp: pattern_owns_eqs)
  next
    case (flash q q')
    from that flash(1) have "same_states (\<lambda>k. k = FLASH_PATTERN_ID) w v" by (simp add: pattern_owns_eqs)
    from flash_contract.reads_own [OF this flash(3)] flash(1,2) show ?thesis by (auto simp: pattern_owns_eqs)
  next
    case (tvl q q')
    from that tvl(1) have "same_states (\<lambda>k. k = TVL_PATTERN_ID) w v" by (simp add: pattern_owns_eqs)
    from tvl_process_event_local [OF this tvl(3)] tvl(1,2) show ?thesis by (auto simp: pattern_owns_eqs)
  next
    case (generic q q')
    from that generic(1) have "same_states (generic_owns q) w v" by (simp add: pattern_owns_eqs)
    from generic_contract.reads_own [OF this generic(3)] generic(1,2) show ?thesis by (auto simp: pattern_owns_eqs)
  next
    case (util q q')
    from that util(1) have "same_states (\<lambda>k. k = UTIL_PATTERN_ID) w v" by (simp add: pattern_owns_eqs)
    from util_process_event_local [OF this util(3)] util(1,2) show ?thesis by (auto simp: pattern_owns_eqs)
  qed
next
  show "pattern_owns p (dr_pattern_id d)" if r: "pattern_process R en ev now p w = (p', w', Inr (Some d))" for en ev now p w p' w' d
    using r
  proof (cases rule: pattern_processE)
    case (depeg q q')
    then show ?thesis using depeg_contract.signs [OF depeg(3)] by simp
  next
    case (flash q q')
    then show ?thesis using flash_contract.signs [OF flash(3)] by simp
  next
    case (tvl q q')
    then show ?thesis using tvl_contract.signs [OF tvl(3)] by simp
  next
    case (generic q q')
    then show ?thesis using generic_contract.signs [OF generic(3)] by simp
  next
    case (util q q')
    then show ?thesis using util_contract.signs [OF util(3)] by simp
  qed
qed

section \<open>No interference\<close>

text \<open>Separate patterns end as each would have alone.\<close>

lemma separate_dispatch:
  assumes sep: "registry.separate ps"
  shows "fst (dispatch (pattern_process R) en event now ps w) = map (fst \<circ> (\<lambda>p. pattern_process R en event now p w)) ps
     \<and> (\<forall>p \<in> set ps. \<forall>tenant k s. pattern_owns p k \<longrightarrow>
          w_states (snd (dispatch (pattern_process R) en event now ps w)) (tenant, k, s)
            = w_states (fst (snd (pattern_process R en event now p w))) (tenant, k, s))"
proof -
  let ?run = "dispatch (pattern_process R) en event now ps w" and ?alone = "\<lambda>p. pattern_process R en event now p w"
  have one: "fst ?run ! i = fst (?alone (ps ! i))
      \<and> same_states (pattern_owns (ps ! i)) (snd ?run) (fst (snd (?alone (ps ! i))))" if "i < length ps" for i
    using registry.dispatch_separate [OF sep that, of R en event now w] by (metis prod.collapse)
  have len: "length (fst (dispatch process en event now qs v)) = length qs" for process qs v
    by (induction qs arbitrary: v) (simp_all add: split_beta)
  have "fst ?run = map (fst \<circ> ?alone) ps"
    by (rule nth_equalityI) (simp_all only: len length_map nth_map comp_apply one)
  moreover have "\<forall>p \<in> set ps. \<forall>tenant k s. pattern_owns p k \<longrightarrow>
      w_states (snd ?run) (tenant, k, s) = w_states (fst (snd (?alone p))) (tenant, k, s)"
    using one unfolding same_states_def all_set_conv_all_nth by blast
  ultimately show ?thesis ..
qed

text \<open>
  The patterns do not interfere: where no sandbox rule is filed under the identifier of a built-in
  pattern and the stores work, the registry leaves each pattern and each of the states it owns as
  if that pattern alone had been given the event, and saves and publishes, in order, just the
  detections that the patterns make alone.
\<close>

lemma patterns_do_not_interfere:
  assumes "\<forall>k. generic_owns g k \<longrightarrow> k \<notin> {PATTERN_ID, FLASH_PATTERN_ID, TVL_PATTERN_ID, UTIL_PATTERN_ID}"
    and "\<And>f. \<not> en_fails en f"
  shows "let ps = [DepegP d, FlashLoanP f, TvlDropP t, GenericRuleP g, UtilizationHighP u];
        w0 = (if ingest_persisted event then w else insert_raw_event en event w);
        alone = (\<lambda>p. pattern_process R en event (analysis_time wall event) p w0);
        (ps', w') = registry_process_event (pattern_process R) en wall event ps w;
        ds = List.map_filter (\<lambda>p. detected (snd (snd (alone p)))) ps
    in ps' = map (fst \<circ> alone) ps
     \<and> w_detections w' = w_detections w0 @ ds \<and> w_published w' = w_published w0 @ ds
     \<and> (\<forall>p \<in> set ps. \<forall>tenant k s. pattern_owns p k \<longrightarrow>
          w_states w' (tenant, k, s) = w_states (fst (snd (alone p))) (tenant, k, s))"
proof -
  define ps where "ps = [DepegP d, FlashLoanP f, TvlDropP t, GenericRuleP g, UtilizationHighP u]"
  let ?w = "if ingest_persisted event then w else insert_raw_event en event w"
  have "distinct [PATTERN_ID, FLASH_PATTERN_ID, TVL_PATTERN_ID, UTIL_PATTERN_ID]"
    by (simp add: PATTERN_ID_def FLASH_PATTERN_ID_def TVL_PATTERN_ID_def UTIL_PATTERN_ID_def)
  with assms(1) have sep: "registry.separate ps" by (auto simp: registry.separate_def ps_def)
  from separate_dispatch [OF sep, of R en event "analysis_time wall event" ?w]
    registry.dispatch_separate_detections [OF sep assms(2), of R event "analysis_time wall event" ?w]
  show ?thesis unfolding registry_process_event_def Let_def split_beta ps_def [symmetric] by blast
qed

section \<open>Tenants\<close>

text \<open>A pattern that acts for the tenant of the event only, as long as it is well formed.\<close>

locale tenant_pattern = detection_pattern owns process for owns :: "'p \<Rightarrow> string \<Rightarrow> bool" and process :: "'p process" +
  fixes ok :: "'p \<Rightarrow> bool"
  assumes keeps_ok: "ok p \<Longrightarrow> process en ev now p w = (p', w', r) \<Longrightarrow> ok p'"
    and tenant_states: "ok p \<Longrightarrow> process en ev now p w = (p', w', r) \<Longrightarrow> t \<noteq> ue_tenant_id ev \<Longrightarrow>
          w_states w' (t, k, s) = w_states w (t, k, s)"
    and tenant_signs: "ok p \<Longrightarrow> process en ev now p w = (p', w', Inr (Some d)) \<Longrightarrow> dr_tenant_id d = Some (ue_tenant_id ev)"
begin

lemma dispatch_tenant:
  assumes "list_all ok ps" "dispatch process en ev now ps w = (ps', w')"
  shows "list_all ok ps' \<and> (\<forall>t k s. t \<noteq> ue_tenant_id ev \<longrightarrow> w_states w' (t, k, s) = w_states w (t, k, s))
    \<and> (\<exists>ds. w_detections w' = w_detections w @ ds \<and> (\<forall>d \<in> set ds. dr_tenant_id d = Some (ue_tenant_id ev)))
    \<and> (\<exists>ds. w_published w' = w_published w @ ds \<and> (\<forall>d \<in> set ds. dr_tenant_id d = Some (ue_tenant_id ev)))"
  using assms
proof (induction ps arbitrary: ps' w)
  case (Cons p ps)
  obtain q w1 r where one: "process en ev now p w = (q, w1, r)" by (rule prod_cases3)
  define w2 where "w2 = store_detection en r w1"
  obtain qs where tl: "dispatch process en ev now ps w2 = (qs, w')" "ps' = q # qs"
    using Cons.prems(2) one by (auto simp: w2_def split: prod.splits)
  have ok: "ok p" "list_all ok ps" using Cons.prems(1) by simp_all
  have new: "\<exists>ds. w_detections w2 = w_detections w @ ds \<and> (\<forall>d \<in> set ds. dr_tenant_id d = Some (ue_tenant_id ev))"
    "\<exists>ds. w_published w2 = w_published w @ ds \<and> (\<forall>d \<in> set ds. dr_tenant_id d = Some (ue_tenant_id ev))"
    using keeps_logs [OF one] tenant_signs [OF ok(1)] one
    by (auto simp: w2_def store_detection_def save_detection_def publish_detection_def split: sum.splits option.splits)
  have "w_states w2 (t, k, s) = w_states w (t, k, s)" if "t \<noteq> ue_tenant_id ev" for t k s
    using tenant_states [OF ok(1) one that] by (simp add: w2_def store_detection_states)
  with Cons.IH [OF ok(2) tl(1)] keeps_ok [OF ok(1) one] new tl(2) show ?case by fastforce
qed simp

end

fun pattern_wf :: "pattern \<Rightarrow> bool" where
  "pattern_wf (DepegP p) = pattern_ok p"
| "pattern_wf (FlashLoanP p) = (\<forall>t rules. fp_configs p t = Some rules \<longrightarrow> rules \<noteq> [])"
| "pattern_wf (TvlDropP p) = tvl_pattern_ok p"
| "pattern_wf (GenericRuleP p) = (\<forall>k. generic_owns p k \<longrightarrow> k \<notin> {''depeg'', ''flash_loan'', ''tvl_drop''})"
| "pattern_wf (UtilizationHighP p) = util_pattern_ok p"

lemma flash_keeps_configs: "fp_configs (fst (flash_process_event L en ev now pt w)) = fp_configs pt"
  by (auto simp: flash_process_event_def Let_def split_beta split: option.split sum.split)

interpretation registry: tenant_pattern pattern_owns "pattern_process R" pattern_wf for R
proof unfold_locales
  fix en ev now p w p' w' r
  assume ok: "pattern_wf p" and r: "pattern_process R en ev now p w = (p', w', r)"
  show "pattern_wf p'"
    using r
  proof (cases rule: pattern_processE)
    case (depeg q q')
    then show ?thesis using ok depeg.inv_step [of q "rl_depeg R" "Process en ev now w"] by simp
  next
    case (flash q q')
    then show ?thesis using ok flash_keeps_configs [of "rl_flash R" en ev now q w] by simp
  next
    case (tvl q q')
    then show ?thesis using ok tvl.inv_step [of q "rl_tvl R" "Process en ev now w"] by simp
  next
    case (generic q q')
    then show ?thesis using ok generic_contract.keeps_owner [OF generic(3)] by simp
  next
    case (util q q')
    then show ?thesis using ok utilization.inv_step [of q "rl_util R" "Process en ev now w"] by simp
  qed
  show "w_states w' (t, k, s) = w_states w (t, k, s)" if "t \<noteq> ue_tenant_id ev" for t k s
    using r
  proof (cases rule: pattern_processE)
    case (depeg q q')
    then show ?thesis using ok that tenants_are_isolated [of q "rl_depeg R" en ev now w q' w' r] by auto
  next
    case (flash q q')
    then show ?thesis using that flash_process_event_world [OF flash(3)] by (simp add: world_frame_def)
  next
    case (tvl q q')
    then show ?thesis using that tvl_process_event_frame [OF tvl(3)] by (simp add: tvl_frame_def world_frame_def)
  next
    case (generic q q')
    then show ?thesis using that generic_own_states [OF generic(3)] by simp
  next
    case (util q q')
    then show ?thesis using that util_process_event_frame [OF util(3)] by (simp add: util_frame_def world_frame_def)
  qed
next
  fix en ev now p w p' w' d
  assume ok: "pattern_wf p" and r: "pattern_process R en ev now p w = (p', w', Inr (Some d))"
  show "dr_tenant_id d = Some (ue_tenant_id ev)"
    using r
  proof (cases rule: pattern_processE)
    case (depeg q q')
    then show ?thesis using ok tenants_are_isolated [of q "rl_depeg R" en ev now w q' w' "Inr (Some d)"] by auto
  next
    case (flash q q')
    then show ?thesis using flash_process_event_world [OF flash(3)] by simp
  next
    case (tvl q q')
    then show ?thesis using tvl_process_event_signs [OF tvl(3)] by simp
  next
    case (generic q q')
    then show ?thesis using generic_signs [OF generic(3)] by simp
  next
    case (util q q')
    then show ?thesis using util_process_event_signs [OF util(3)] by simp
  qed
qed

lemma flash_reload_wf:
  assumes "\<forall>t rules. fp_configs acc t = Some rules \<longrightarrow> rules \<noteq> []"
    "fp_configs (fold flash_reload_entry cm acc) t = Some rules"
  shows "rules \<noteq> []"
  using assms
proof (induction cm arbitrary: acc)
  case (Cons x cm)
  have "parse_flash_loan_rules c \<noteq> []" for c by (simp add: parse_flash_loan_rules_def Let_def)
  then have "\<forall>t rules. fp_configs (flash_reload_entry x acc) t = Some rules \<longrightarrow> rules \<noteq> []"
    using Cons.prems(1) by (auto simp: flash_reload_entry_def split_beta)
  then show ?case using Cons by simp
qed simp

lemma pattern_reload_wf: "pattern_wf p \<Longrightarrow> pattern_wf (pattern_reload R c p)"
proof (cases p)
  case (DepegP q)
  then show "pattern_wf p \<Longrightarrow> ?thesis" using depeg.inv_step [of q "rl_depeg R" "Reload c"] by simp
next
  case (FlashLoanP q)
  have "\<forall>t rules. fp_configs FlashLoanPattern_default t = Some rules \<longrightarrow> rules \<noteq> []" by (simp add: FlashLoanPattern_default_def)
  from flash_reload_wf [OF this] FlashLoanP show ?thesis by (auto simp: flash_reload_config_def Let_def)
next
  case (TvlDropP q)
  then show "pattern_wf p \<Longrightarrow> ?thesis" using tvl.inv_step [of q "rl_tvl R" "Reload c"] by simp
next
  case (GenericRuleP q)
  then show ?thesis using generic_reload_owns by auto
next
  case (UtilizationHighP q)
  then show "pattern_wf p \<Longrightarrow> ?thesis" using utilization.inv_step [of q "rl_util R" "Reload c"] by simp
qed

lemma new_registry_wf: "list_all pattern_wf (new_registry url token)"
  by (simp add: new_registry_def pattern_ok_def cache_ok_def policies_ok_def DepegPattern_default_def
      FlashLoanPattern_default_def tvl_pattern_ok_def TvlDropPattern_default_def tvl_cache.cache_within_empty
      util_pattern_ok_def UtilizationHighPattern_default_def util_cache.cache_within_empty
      GenericRulePattern_default_def generic_owns_def)

end
