(* ===== verification/Detector.thy ===== *)
theory Detector
  imports Registry
begin

text \<open>
  The detector process, \<^verbatim>\<open>apps/detector/src/main.rs\<close>: the pattern configurations it loads from the
  database (\<^verbatim>\<open>load_tenant_pattern_configs\<close> of \<^verbatim>\<open>crates/state-manager/src/persistence.rs\<close>), the reloads,
  and the loop over the stream of unified events. What the patterns promise one by one is put
  together here over whole runs of the process.
\<close>

section \<open>The stored configurations\<close>

record pattern_row =
  pn_pattern_id :: string
  pn_enabled :: bool

record tenant_pattern_row =
  tpc_tenant_id :: string
  tpc_pattern_id :: string
  tpc_enabled :: bool
  tpc_config :: json

record binding_row =
  sb_tenant_id :: string
  sb_pattern_id :: string
  sb_source_id :: string
  sb_enabled :: bool
  sb_binding_config :: json

text \<open>A row of the alert policies is rendered to JSON by the database.\<close>

record policy_row =
  ap_tenant_id :: string
  ap_pattern_id :: string
  ap_row :: json

record channel_row =
  nc_tenant_id :: string
  nc_pattern_id :: string
  nc_channel :: string
  nc_enabled :: bool
  nc_config_json :: json

record pattern_tables =
  pt_patterns :: "pattern_row list"
  pt_configs :: "tenant_pattern_row list"
  pt_bindings :: "binding_row list"
  pt_policies :: "policy_row list"
  pt_channels :: "channel_row list"

text \<open>An aggregate over no rows is null.\<close>

definition jsonb_agg :: "json list \<Rightarrow> json" where
  "jsonb_agg xs = (if xs = [] then JNull else JArray xs)"

definition stored_bindings :: "pattern_tables \<Rightarrow> string \<Rightarrow> string \<Rightarrow> json" where
  "stored_bindings T tenant pattern_id =
     jsonb_agg (map (\<lambda>b. JObject
         [(''source_id'', JString (sb_source_id b)), (''enabled'', JBool (sb_enabled b)),
          (''binding_config'', sb_binding_config b)])
       (filter (\<lambda>b. sb_tenant_id b = tenant \<and> sb_pattern_id b = pattern_id \<and> sb_enabled b) (pt_bindings T)))"

definition stored_policy :: "pattern_tables \<Rightarrow> string \<Rightarrow> string \<Rightarrow> json" where
  "stored_policy T tenant pattern_id =
     j_opt ap_row (find (\<lambda>p. ap_tenant_id p = tenant \<and> ap_pattern_id p = pattern_id) (pt_policies T))"

definition stored_channels :: "pattern_tables \<Rightarrow> string \<Rightarrow> string \<Rightarrow> json" where
  "stored_channels T tenant pattern_id =
     jsonb_agg (map (\<lambda>c. JObject
         [(''channel'', JString (nc_channel c)), (''enabled'', JBool (nc_enabled c)), (''config_json'', nc_config_json c)])
       (filter (\<lambda>c. nc_tenant_id c = tenant \<and> nc_pattern_id c = pattern_id \<and> nc_enabled c) (pt_channels T)))"

definition full_config :: "pattern_tables \<Rightarrow> tenant_pattern_row \<Rightarrow> json" where
  "full_config T r =
     JObject
       [(''enabled'', JBool (tpc_enabled r)), (''detection_config'', tpc_config r),
        (''source_bindings'', stored_bindings T (tpc_tenant_id r) (tpc_pattern_id r)),
        (''alert_policy'', stored_policy T (tpc_tenant_id r) (tpc_pattern_id r)),
        (''notification_channels'', stored_channels T (tpc_tenant_id r) (tpc_pattern_id r))]"

text \<open>
  One row per tenant and pattern, where both the pattern and the tenant's configuration of it are enabled. The
  rows are put in a map, so the order of the query does not matter.
\<close>

definition load_tenant_pattern_configs :: "pattern_tables \<Rightarrow> ((string \<times> string) \<times> json) list" where
  "load_tenant_pattern_configs T =
     fold (\<lambda>r m. AList.update (tpc_tenant_id r, tpc_pattern_id r) (full_config T r) m)
       (filter (\<lambda>r. tpc_enabled r
            \<and> list_ex (\<lambda>p. pn_pattern_id p = tpc_pattern_id r \<and> pn_enabled p) (pt_patterns T)) (pt_configs T)) []"

section \<open>The process\<close>

record detector =
  dt_patterns :: "pattern list"
  dt_world :: world
  dt_acked :: "string list"

text \<open>A query of the configurations fails, or sees the tables; then every pattern reloads.\<close>

definition reload_pattern_configs :: "registry_libs \<Rightarrow> pattern_tables res \<Rightarrow> pattern list \<Rightarrow> pattern list" where
  "reload_pattern_configs R query ps =
     (case query of Inl _ \<Rightarrow> ps | Inr T \<Rightarrow> reload_all R (load_tenant_pattern_configs T) ps)"

text \<open>
  What wakes the loop: a tick, a notification or a command to reload, or an entry of the stream,
  with the failures while it is processed, the clock, and whether the acknowledgement goes through.
\<close>

datatype detector_input =
    ReloadSignal "pattern_tables res"
  | Entry environment datetime string UnifiedEvent bool

fun detector_step :: "registry_libs \<Rightarrow> detector \<Rightarrow> detector_input \<Rightarrow> detector" where
  "detector_step R dt (ReloadSignal query) = dt\<lparr>dt_patterns := reload_pattern_configs R query (dt_patterns dt)\<rparr>"
| "detector_step R dt (Entry en wall entry_id event acked) =
     (let (ps, w) = registry_process_event (pattern_process R) en wall event (dt_patterns dt) (dt_world dt)
      in \<lparr>dt_patterns = ps, dt_world = w,
          dt_acked = (if acked then dt_acked dt @ [entry_id] else dt_acked dt)\<rparr>)"

text \<open>The start: the registry is built and its first configuration loaded.\<close>

definition detector_start ::
  "registry_libs \<Rightarrow> string option \<Rightarrow> string option \<Rightarrow> pattern_tables res \<Rightarrow> world \<Rightarrow> detector" where
  "detector_start R url token query w =
     \<lparr>dt_patterns = reload_pattern_configs R query (new_registry url token), dt_world = w, dt_acked = []\<rparr>"

section \<open>What the stored configurations say\<close>

text \<open>
  What the patterns take for the sources of a tenant: the sources whose binding is enabled,
  where there is one. Where a tenant's bindings are all disabled the database aggregates to null, which
  the patterns read as no restriction.
\<close>

lemma bound_sources_of_stored_config:
  "extract_bound_source_ids (full_config T r) =
     (let bound = sb_source_id ` {b \<in> set (pt_bindings T).
            sb_tenant_id b = tpc_tenant_id r \<and> sb_pattern_id b = tpc_pattern_id r \<and> sb_enabled b}
      in if bound = {} then None else Some bound)"
proof -
  let ?bs = "filter (\<lambda>b. sb_tenant_id b = tpc_tenant_id r \<and> sb_pattern_id b = tpc_pattern_id r \<and> sb_enabled b) (pt_bindings T)"
  let ?f = "\<lambda>b. JObject [(''source_id'', JString (sb_source_id b)), (''enabled'', JBool (sb_enabled b)),
          (''binding_config'', sb_binding_config b)]"
  have get: "j_get (full_config T r) ''source_bindings'' = Some (jsonb_agg (map ?f ?bs))"
    by (simp add: full_config_def stored_bindings_def)
  have "set (List.map_filter (\<lambda>b. get_str b ''source_id'') (filter (\<lambda>b. unwrap_or (get_bool b ''enabled'') True) (map ?f bs)))
      = sb_source_id ` set bs" if "\<forall>b \<in> set bs. sb_enabled b" for bs
    using that by (induction bs) (simp_all add: List.map_filter_simps get_str_def get_bool_def)
  from this [of ?bs] show ?thesis
    by (auto simp: extract_bound_source_ids_def get jsonb_agg_def Let_def)
qed

lemma loaded_are_full: "(k, c) \<in> set (load_tenant_pattern_configs T) \<Longrightarrow> \<exists>r. c = full_config T r"
proof -
  have "(k, c) \<in> set (fold (\<lambda>r m. AList.update (tpc_tenant_id r, tpc_pattern_id r) (full_config T r) m) rs m)
      \<Longrightarrow> \<forall>(k, c) \<in> set m. \<exists>r. c = full_config T r \<Longrightarrow> \<exists>r. c = full_config T r" for rs m
  proof (induction rs arbitrary: m)
    case (Cons r rs)
    from Cons.prems(2) have "\<forall>(k, c) \<in> set (AList.update (tpc_tenant_id r, tpc_pattern_id r) (full_config T r) m). \<exists>r. c = full_config T r"
      by (auto dest!: set_alist_update)
    with Cons show ?case by simp
  qed auto
  then show "(k, c) \<in> set (load_tenant_pattern_configs T) \<Longrightarrow> \<exists>r. c = full_config T r"
    by (simp add: load_tenant_pattern_configs_def)
qed

text \<open>The generic rule pattern looks for rules where the loaded configurations have none.\<close>

lemma stored_rules_not_found: "gp_compiled_rules (generic_reload_config (load_tenant_pattern_configs T) g) = []"
proof -
  have "generic_reload_entry (k, full_config T r) acc = acc" for k r acc
    by (cases k) (simp add: generic_reload_entry_def full_config_def List.map_filter_simps)
  then have "fold generic_reload_entry m acc = acc" if "\<forall>(k, c) \<in> set m. \<exists>r. c = full_config T r" for m acc
    using that by (induction m arbitrary: acc) auto
  then show ?thesis using loaded_are_full by (fastforce simp: generic_reload_config_def)
qed

section \<open>The invariant of the process\<close>

fun entry_tenants :: "detector_input list \<Rightarrow> string list" where
  "entry_tenants [] = []"
| "entry_tenants (ReloadSignal _ # inputs) = entry_tenants inputs"
| "entry_tenants (Entry _ _ _ event _ # inputs) = ue_tenant_id event # entry_tenants inputs"

text \<open>The five patterns in their order, well formed, and no sandbox rule.\<close>

definition detector_patterns_ok :: "pattern list \<Rightarrow> bool" where
  "detector_patterns_ok ps \<longleftrightarrow> list_all pattern_wf ps
     \<and> (\<exists>d f t g u. ps = [DepegP d, FlashLoanP f, TvlDropP t, GenericRuleP g, UtilizationHighP u] \<and> gp_compiled_rules g = [])"

lemma no_rules_iff: "gp_compiled_rules g = [] \<longleftrightarrow> (\<forall>k. \<not> generic_owns g k)"
  by (auto simp: generic_owns_def)

lemma reload_ok:
  assumes "list_all pattern_wf ps" "\<exists>d f t g u. ps = [DepegP d, FlashLoanP f, TvlDropP t, GenericRuleP g, UtilizationHighP u]"
  shows "detector_patterns_ok (reload_all R (load_tenant_pattern_configs T) ps)"
proof -
  have "list_all pattern_wf (reload_all R (load_tenant_pattern_configs T) ps)"
    using assms(1) pattern_reload_wf by (simp add: reload_all_def list_all_iff)
  moreover have "\<exists>d f t g u. reload_all R (load_tenant_pattern_configs T) ps
      = [DepegP d, FlashLoanP f, TvlDropP t, GenericRuleP g, UtilizationHighP u] \<and> gp_compiled_rules g = []"
    using assms(2) stored_rules_not_found by (auto simp: reload_all_def)
  ultimately show ?thesis by (simp add: detector_patterns_ok_def)
qed

lemma new_registry_ok: "detector_patterns_ok (new_registry url token)"
  using new_registry_wf by (auto simp: detector_patterns_ok_def new_registry_def GenericRulePattern_default_def)

lemma reload_pattern_configs_ok: "detector_patterns_ok ps \<Longrightarrow> detector_patterns_ok (reload_pattern_configs R query ps)"
  using reload_ok by (auto simp: reload_pattern_configs_def detector_patterns_ok_def split: sum.split)

lemma pattern_process_kind:
  assumes "pattern_process R en ev now p w = (p', w', r)"
  shows "(\<forall>d. p = DepegP d \<longrightarrow> (\<exists>d'. p' = DepegP d')) \<and> (\<forall>f. p = FlashLoanP f \<longrightarrow> (\<exists>f'. p' = FlashLoanP f'))
    \<and> (\<forall>t. p = TvlDropP t \<longrightarrow> (\<exists>t'. p' = TvlDropP t')) \<and> (\<forall>u. p = UtilizationHighP u \<longrightarrow> (\<exists>u'. p' = UtilizationHighP u'))
    \<and> (\<forall>g. p = GenericRuleP g \<longrightarrow> (\<exists>g'. p' = GenericRuleP g' \<and> generic_owns g' = generic_owns g))"
  using assms by (cases rule: pattern_processE) (auto dest: generic_contract.keeps_owner)

lemma dispatch_ok:
  assumes ok: "detector_patterns_ok ps" and run: "dispatch (pattern_process R) en event now ps w = (ps', w')"
  shows "detector_patterns_ok ps'"
proof -
  obtain d f t g u where ps: "ps = [DepegP d, FlashLoanP f, TvlDropP t, GenericRuleP g, UtilizationHighP u]" "gp_compiled_rules g = []"
    using ok by (auto simp: detector_patterns_ok_def)
  obtain p1 p2 p3 p4 p5 w1 w2 w3 w4 w5 v1 v2 v3 v4 v5 r1 r2 r3 r4 r5 where ps': "ps' = [p1, p2, p3, p4, p5]"
    "pattern_process R en event now (DepegP d) w1 = (p1, v1, r1)" "pattern_process R en event now (FlashLoanP f) w2 = (p2, v2, r2)"
    "pattern_process R en event now (TvlDropP t) w3 = (p3, v3, r3)" "pattern_process R en event now (GenericRuleP g) w4 = (p4, v4, r4)"
    "pattern_process R en event now (UtilizationHighP u) w5 = (p5, v5, r5)"
    using run unfolding ps(1) by (auto simp del: pattern_process.simps split: prod.splits)
  have "\<exists>d f t g u. ps' = [DepegP d, FlashLoanP f, TvlDropP t, GenericRuleP g, UtilizationHighP u] \<and> gp_compiled_rules g = []"
    using ps'(1) ps(2) pattern_process_kind [OF ps'(2)] pattern_process_kind [OF ps'(3)] pattern_process_kind [OF ps'(4)]
      pattern_process_kind [OF ps'(5)] pattern_process_kind [OF ps'(6)] by (auto simp: no_rules_iff)
  moreover have "list_all pattern_wf ps'"
    using registry.dispatch_tenant [OF _ run] ok by (simp add: detector_patterns_ok_def)
  ultimately show ?thesis by (simp add: detector_patterns_ok_def)
qed

definition detector_ok :: "detector \<Rightarrow> bool" where
  "detector_ok dt \<longleftrightarrow> detector_patterns_ok (dt_patterns dt)"

interpretation detector: invariant_machine "detector_step R" detector_ok for R
proof
  fix dt :: detector and i assume "detector_ok dt"
  then have ok: "detector_patterns_ok (dt_patterns dt)" by (simp add: detector_ok_def)
  show "detector_ok (detector_step R dt i)"
    unfolding detector_ok_def
  proof (cases i)
    case (ReloadSignal q)
    then show "detector_patterns_ok (dt_patterns (detector_step R dt i))" using reload_pattern_configs_ok [OF ok] by simp
  next
    case (Entry en wall eid event acked)
    obtain ps w where d: "registry_process_event (pattern_process R) en wall event (dt_patterns dt) (dt_world dt) = (ps, w)"
      by (rule prod.exhaust)
    from dispatch_ok [OF ok d [unfolded registry_process_event_def]]
    show "detector_patterns_ok (dt_patterns (detector_step R dt i))" by (simp add: Entry d)
  qed
qed

lemma detector_start_ok: "detector_ok (detector_start R url token query w)"
  by (simp add: detector_ok_def detector_start_def reload_pattern_configs_ok [OF new_registry_ok])

lemma detector_shape:
  obtains d f t g u where
    "dt_patterns (foldl (detector_step R) (detector_start R url token query w) inputs)
     = [DepegP d, FlashLoanP f, TvlDropP t, GenericRuleP g, UtilizationHighP u]" "gp_compiled_rules g = []"
  using detector.inv_run [OF detector_start_ok [of R url token query w], of R inputs]
  unfolding detector_ok_def detector_patterns_ok_def by (elim conjE exE) blast

section \<open>Whole runs\<close>

text \<open>
  (C28) No stored sandbox rule ever runs: whatever rules the database holds, and whatever the detector
  has loaded and read, its generic rule pattern answers every event without a call to the sandbox, a
  detection or a change of any state.
\<close>

theorem stored_sandbox_rules_never_run:
  "let dt = foldl (detector_step R) (detector_start R url token query w) inputs
   in \<exists>d f t g u. dt_patterns dt = [DepegP d, FlashLoanP f, TvlDropP t, GenericRuleP g, UtilizationHighP u]
     \<and> (\<forall>L en event now w'. generic_process_event L en event now g w' = (g, w', Inr None))"
proof -
  let ?dt = "foldl (detector_step R) (detector_start R url token query w) inputs"
  obtain d f t g u where
    ps: "dt_patterns ?dt = [DepegP d, FlashLoanP f, TvlDropP t, GenericRuleP g, UtilizationHighP u]" "gp_compiled_rules g = []"
    by (rule detector_shape)
  then have "generic_process_event L en event now g w' = (g, w', Inr None)" for L en event now w'
    by (simp add: generic_process_event_def generic_candidates_def)
  with ps(1) show ?thesis unfolding Let_def by blast
qed

text \<open>
  (C23) The patterns of the detector do not interfere: after whatever it has loaded and read, an entry
  that is processed while the stores work leaves each pattern, and each of the states it owns, as if that
  pattern alone had been given the event, and what is saved and published is, in order, just the
  detections that the patterns make alone.
\<close>

theorem detector_patterns_do_not_interfere:
  assumes "\<And>f. \<not> en_fails en f"
  shows "let dt = foldl (detector_step R) (detector_start R url token query w) inputs;
        dt' = detector_step R dt (Entry en wall entry_id event acked);
        w0 = (if ingest_persisted event then dt_world dt else insert_raw_event en event (dt_world dt));
        alone = (\<lambda>p. pattern_process R en event (analysis_time wall event) p w0);
        ds = List.map_filter (\<lambda>p. detected (snd (snd (alone p)))) (dt_patterns dt)
    in dt_patterns dt' = map (fst \<circ> alone) (dt_patterns dt)
     \<and> w_detections (dt_world dt') = w_detections w0 @ ds \<and> w_published (dt_world dt') = w_published w0 @ ds
     \<and> (\<forall>p \<in> set (dt_patterns dt). \<forall>tenant k s. pattern_owns p k \<longrightarrow>
          w_states (dt_world dt') (tenant, k, s) = w_states (fst (snd (alone p))) (tenant, k, s))"
proof -
  let ?dt = "foldl (detector_step R) (detector_start R url token query w) inputs"
  obtain d f t g u where
    ps: "dt_patterns ?dt = [DepegP d, FlashLoanP f, TvlDropP t, GenericRuleP g, UtilizationHighP u]" "gp_compiled_rules g = []"
    by (rule detector_shape)
  have no: "\<forall>k. generic_owns g k \<longrightarrow> k \<notin> {PATTERN_ID, FLASH_PATTERN_ID, TVL_PATTERN_ID, UTIL_PATTERN_ID}"
    using ps(2) by (simp add: no_rules_iff)
  have "dt_patterns (detector_step R ?dt (Entry en wall entry_id event acked))
        = fst (registry_process_event (pattern_process R) en wall event (dt_patterns ?dt) (dt_world ?dt))"
    "dt_world (detector_step R ?dt (Entry en wall entry_id event acked))
        = snd (registry_process_event (pattern_process R) en wall event (dt_patterns ?dt) (dt_world ?dt))"
    by (simp_all add: split_beta)
  with patterns_do_not_interfere [OF no assms, of d f t u event "dt_world ?dt" R wall]
  show ?thesis unfolding Let_def split_beta ps(1) [symmetric] by (simp only:) blast
qed

theorem detector_patterns_do_not_interfere_witness:
  "\<forall>R. w_detections (dt_world (detector_step R (detector_start R None None (Inl (Err [])) sandbox_world)
         (Entry sandbox_env 0 [] sandbox_event True)))
     = List.map_filter (\<lambda>p. detected (snd (snd (pattern_process R sandbox_env sandbox_event 0 p
         (insert_raw_event sandbox_env sandbox_event sandbox_world))))) (new_registry None None)"
proof
  fix R :: registry_libs
  have fails: "\<And>f. \<not> en_fails sandbox_env f" by (simp add: sandbox_env_def)
  have e: "\<not> ingest_persisted sandbox_event" "analysis_time 0 sandbox_event = 0"
    by (simp_all add: ingest_persisted_def analysis_time_def sandbox_event_def get_bool_def)
  have w: "w_detections (insert_raw_event sandbox_env sandbox_event sandbox_world) = []"
    by (simp add: insert_raw_event_def sandbox_world_def)
  have st: "dt_patterns (detector_start R None None (Inl (Err [])) sandbox_world) = new_registry None None"
    "dt_world (detector_start R None None (Inl (Err [])) sandbox_world) = sandbox_world"
    by (simp_all add: detector_start_def reload_pattern_configs_def)
  from detector_patterns_do_not_interfere [OF fails, of R None None "Inl (Err [])" sandbox_world "[]" 0 "[]" sandbox_event True]
  show "w_detections (dt_world (detector_step R (detector_start R None None (Inl (Err [])) sandbox_world)
         (Entry sandbox_env 0 [] sandbox_event True)))
     = List.map_filter (\<lambda>p. detected (snd (snd (pattern_process R sandbox_env sandbox_event 0 p
         (insert_raw_event sandbox_env sandbox_event sandbox_world))))) (new_registry None None)"
    unfolding Let_def foldl_Nil st e(2) if_not_P [OF e(1)] w append_Nil by blast
qed

text \<open>Nothing is written, saved or published but for some tenants.\<close>

definition acts_for :: "string list \<Rightarrow> world \<Rightarrow> world \<Rightarrow> bool" where
  "acts_for ts w w' \<longleftrightarrow>
     (\<forall>tenant k s. tenant \<in> set ts \<or> w_states w' (tenant, k, s) = w_states w (tenant, k, s))
   \<and> (\<exists>ds. w_detections w' = w_detections w @ ds \<and> dr_tenant_id ` set ds \<subseteq> Some ` set ts)
   \<and> (\<exists>ds. w_published w' = w_published w @ ds \<and> dr_tenant_id ` set ds \<subseteq> Some ` set ts)"

lemma acts_for_trans:
  assumes "acts_for ts w w'" "acts_for us w' w''"
  shows "acts_for (ts @ us) w w''"
proof -
  have app: "\<exists>ds. f w'' = f w @ ds \<and> dr_tenant_id ` set ds \<subseteq> Some ` set (ts @ us)"
    if "\<exists>ds. f w' = f w @ ds \<and> dr_tenant_id ` set ds \<subseteq> Some ` set ts"
      "\<exists>ds. f w'' = f w' @ ds \<and> dr_tenant_id ` set ds \<subseteq> Some ` set us" for f :: "world \<Rightarrow> DetectionResult list"
  proof -
    from that obtain ds ds' where "f w' = f w @ ds" "f w'' = f w' @ ds'" "dr_tenant_id ` set ds \<subseteq> Some ` set ts"
      "dr_tenant_id ` set ds' \<subseteq> Some ` set us" by blast
    then show ?thesis by (intro exI [of _ "ds @ ds'"]) (simp add: image_Un le_supI1 le_supI2)
  qed
  show ?thesis
    using assms app [of w_detections] app [of w_published] unfolding acts_for_def by (simp add: image_Un) metis
qed

lemma step_acts_for:
  assumes "detector_ok dt"
  shows "acts_for (entry_tenants [i]) (dt_world dt) (dt_world (detector_step R dt i))"
proof (cases i)
  case (Entry en wall eid event acked)
  have ok: "list_all pattern_wf (dt_patterns dt)" using assms by (simp add: detector_ok_def detector_patterns_ok_def)
  let ?w0 = "if ingest_persisted event then dt_world dt else insert_raw_event en event (dt_world dt)"
  have same: "w_states ?w0 = w_states (dt_world dt)" "w_detections ?w0 = w_detections (dt_world dt)"
    "w_published ?w0 = w_published (dt_world dt)"
    by (simp_all add: insert_raw_event_def)
  obtain ps w1 where d: "dispatch (pattern_process R) en event (analysis_time wall event) (dt_patterns dt) ?w0 = (ps, w1)"
    by (rule prod.exhaust)
  have "dt_world (detector_step R dt i) = w1" by (simp add: Entry registry_process_event_def d)
  with registry.dispatch_tenant [OF ok d, unfolded same] show ?thesis
    unfolding acts_for_def Entry by (simp add: image_subset_iff) blast
qed (simp add: acts_for_def)

text \<open>
  (C22) Tenants are isolated in the detector: over every history of reloads and entries, whatever
  statements fail, the stored states of a tenant without an entry stay as they were, and everything
  saved or published belongs to a tenant that had an entry.
\<close>

theorem detector_isolates_tenants:
  "let dt = foldl (detector_step R) (detector_start R url token query w) inputs
   in (\<forall>tenant k s. tenant \<in> set (entry_tenants inputs) \<or> w_states (dt_world dt) (tenant, k, s) = w_states w (tenant, k, s))
    \<and> (\<exists>ds. w_detections (dt_world dt) = w_detections w @ ds \<and> dr_tenant_id ` set ds \<subseteq> Some ` set (entry_tenants inputs))
    \<and> (\<exists>ds. w_published (dt_world dt) = w_published w @ ds \<and> dr_tenant_id ` set ds \<subseteq> Some ` set (entry_tenants inputs))"
proof -
  have "acts_for (entry_tenants inputs) (dt_world dt) (dt_world (foldl (detector_step R) dt inputs))" if "detector_ok dt" for dt
    using that
  proof (induction inputs arbitrary: dt)
    case (Cons i inputs)
    have "acts_for (entry_tenants [i]) (dt_world dt) (dt_world (detector_step R dt i))"
      using Cons.prems by (rule step_acts_for)
    from acts_for_trans [OF this Cons.IH [OF detector.inv_step [OF Cons.prems]]]
    show ?case by (cases i) simp_all
  qed (simp add: acts_for_def)
  from this [OF detector_start_ok, of R url token query w] show ?thesis
    by (simp add: detector_start_def acts_for_def Let_def)
qed

end
