(* ===== verification/StreamParser.thy ===== *)
theory StreamParser
  imports FieldMapping PatternCommon
begin

text \<open>
  How the indexer reads the payloads of exchanges, \<^verbatim>\<open>apps/indexer/src/stream_parser/\<close>: the helpers of
  \<^verbatim>\<open>mod.rs\<close> and the parsers of Binance, Coinbase, Kraken, OKX, Bybit, Gate and Gemini. A parser turns
  the JSON it receives into a feed event or an error message. The clock is an argument; chrono is
  a field of the record of libraries.
\<close>

section \<open>Input and output\<close>

record ParserInput =
  pi_parser_name :: string
  pi_event_type :: string
  pi_market_key_hint :: "string option"
  pi_asset_pair_hint :: "string option"
  pi_payload_ts_path :: "string option"
  pi_payload_ts_unit :: string
  pi_filter_config :: json

record ParsedFeedEvent =
  pf_event_type :: string
  pf_event_id :: "string option"
  pf_market_key :: "string option"
  pf_asset_pair :: "string option"
  pf_price :: "f64 option"
  pf_chain_id :: "int option"
  pf_block_number :: "int option"
  pf_tx_hash :: "string option"
  pf_log_index :: "int option"
  pf_topic0 :: "string option"
  pf_payload_event_ts :: "datetime option"
  pf_observed_at :: datetime
  pf_normalized_fields :: json

type_synonym parsed = "string + ParsedFeedEvent"

text \<open>\<^verbatim>\<open>ok_or\<close> and the \<^verbatim>\<open>?\<close> operator over error messages.\<close>

definition ok_or :: "'a option \<Rightarrow> string \<Rightarrow> string + 'a" where
  "ok_or x e = (case x of None \<Rightarrow> Inl e | Some a \<Rightarrow> Inr a)"

definition bind_msg :: "string + 'a \<Rightarrow> ('a \<Rightarrow> string + 'b) \<Rightarrow> string + 'b" where
  "bind_msg r f = (case r of Inl e \<Rightarrow> Inl e | Inr a \<Rightarrow> f a)"

lemma bind_msg_simps [simp]:
  "bind_msg (Inl e) f = Inl e" "bind_msg (Inr a) f = f a" "bind_msg (ok_or None e) f = Inl e" "bind_msg (ok_or (Some a) e) f = f a"
  by (simp_all add: bind_msg_def ok_or_def)

lemma bind_msg_Inr: "bind_msg r f = Inr b \<longleftrightarrow> (\<exists>a. r = Inr a \<and> f a = Inr b)"
  by (simp add: bind_msg_def split: sum.split)

lemma ok_or_Inr: "ok_or x e = Inr a \<longleftrightarrow> x = Some a"
  by (simp add: ok_or_def split: option.split)

section \<open>Numbers and times\<close>

definition hex_value :: "char \<Rightarrow> nat option" where
  "hex_value c = map_of (zip ''0123456789abcdef'' [0..<16]) (lower_char c)"

fun parse_hex_digits :: "nat \<Rightarrow> string \<Rightarrow> nat option" where
  "parse_hex_digits acc [] = Some acc"
| "parse_hex_digits acc (c # cs) =
     (case hex_value c of None \<Rightarrow> None | Some d \<Rightarrow> parse_hex_digits (16 * acc + d) cs)"

definition parse_hex_nat :: "string \<Rightarrow> nat option" where
  "parse_hex_nat s = (if s = [] then None else parse_hex_digits 0 s)"

text \<open>\<^verbatim>\<open>i64::from_str_radix(s, 16)\<close> and \<^verbatim>\<open>u128::from_str_radix(s, 16)\<close> accept a sign, and reject what does not fit.\<close>

definition i64_from_hex :: "string \<Rightarrow> int option" where
  "i64_from_hex s =
     (case s of
        CHR ''-'' # r \<Rightarrow> Option.bind (parse_hex_nat r) (\<lambda>n. if n \<le> 2 ^ 63 then Some (- int n) else None)
      | _ \<Rightarrow> Option.bind (parse_hex_nat (strip_plus s)) (\<lambda>n. if n < 2 ^ 63 then Some (int n) else None))"

definition u128_from_hex :: "string \<Rightarrow> nat option" where
  "u128_from_hex s = Option.bind (parse_hex_nat (strip_plus s)) (\<lambda>n. if n < 2 ^ 128 then Some n else None)"

definition feed_i64 :: "json option \<Rightarrow> int option" where
  "feed_i64 v = Option.bind v (\<lambda>raw.
     (case as_i64 raw of
        Some n \<Rightarrow> Some n
      | None \<Rightarrow> Option.bind (as_str raw) (\<lambda>text.
          (case strip_prefix ''0x'' text of Some hex \<Rightarrow> i64_from_hex hex | None \<Rightarrow> parse_i64 text))))"

definition feed_f64 :: "json option \<Rightarrow> f64 option" where
  "feed_f64 v = Option.bind v (\<lambda>raw.
     (case as_f64 raw of Some x \<Rightarrow> Some x | None \<Rightarrow> Option.bind (as_str raw) parse_f64))"

definition parse_ts_value :: "'a libs_scheme \<Rightarrow> json \<Rightarrow> string \<Rightarrow> datetime option" where
  "parse_ts_value L v unit =
     (if unit = ''iso8601'' then Option.bind (as_str v) (parse_from_rfc3339 L)
      else if unit = ''s'' then Option.bind (feed_i64 (Some v)) (timestamp_opt L)
      else Option.bind (feed_i64 (Some v)) (timestamp_millis_opt L))"

definition parse_ts_from_path :: "'a libs_scheme \<Rightarrow> json \<Rightarrow> string option \<Rightarrow> string \<Rightarrow> datetime option" where
  "parse_ts_from_path L payload path unit = Option.bind path (\<lambda>p.
     Option.bind (j_get payload (unwrap_or (strip_prefix ''$.'' p) p)) (\<lambda>v. parse_ts_value L v unit))"

text \<open>The configured path, as every parser tries it first.\<close>

definition input_ts :: "'a libs_scheme \<Rightarrow> ParserInput \<Rightarrow> json \<Rightarrow> datetime option" where
  "input_ts L input payload = parse_ts_from_path L payload (pi_payload_ts_path input) (pi_payload_ts_unit input)"

definition observed_at :: "datetime \<Rightarrow> datetime option \<Rightarrow> datetime" where
  "observed_at now payload_event_ts = unwrap_or payload_event_ts now"

definition str_or_u64 :: "json \<Rightarrow> string option" where
  "str_or_u64 v = or_else (as_str v) (map_option nat_to_string (as_u64 v))"

definition source_event_id :: "json \<Rightarrow> string option" where
  "source_event_id payload =
     or_else (get_str payload ''id'')
      (or_else (get_str payload ''event_id'')
        (or_else (Option.bind (j_get payload ''sequence_num'') str_or_u64)
          (Option.bind (j_get payload ''socket_sequence'') str_or_u64)))"

section \<open>Symbols\<close>

text \<open>The first two non-empty pieces between delimiters.\<close>

definition first_two :: "string list \<Rightarrow> (string \<times> string) option" where
  "first_two parts = (case filter (\<lambda>p. p \<noteq> []) parts of base # quote # _ \<Rightarrow> Some (base, quote) | _ \<Rightarrow> None)"

definition strip_quote :: "string \<Rightarrow> string \<Rightarrow> (string \<times> string) option" where
  "strip_quote cleaned quote = Option.bind (strip_suffix quote cleaned) (\<lambda>base.
     if base = [] then None else Some (base, quote))"

definition split_symbol_pair :: "string \<Rightarrow> (string \<times> string) option" where
  "split_symbol_pair symbol =
     (let cleaned = filter (\<lambda>c. c \<noteq> CHR '':'' \<and> c \<noteq> CHR '' '') (to_ascii_uppercase (trim symbol))
      in if cleaned = [] then None
         else if CHR ''/'' \<in> set cleaned then first_two (split_on (CHR ''/'') cleaned)
         else if CHR ''-'' \<in> set cleaned then first_two (split_on (CHR ''-'') cleaned)
         else or_else (strip_quote cleaned ''USDT'')
               (or_else (strip_quote cleaned ''USDC'') (strip_quote cleaned ''USD'')))"

definition usd_quotes :: "string list" where
  "usd_quotes = [''USD'', ''USDT'', ''USDC'']"

definition feed_market_key :: "string \<Rightarrow> string option" where
  "feed_market_key symbol = map_option (\<lambda>(base, quote).
       if quote \<in> set usd_quotes then base @ ''/USD'' else base @ ''/'' @ quote)
     (split_symbol_pair symbol)"

definition extract_symbol_from_topic :: "string \<Rightarrow> string option" where
  "extract_symbol_from_topic topic = Option.bind (strip_prefix ''tickers.'' (trim topic)) (\<lambda>v.
     if v = [] then None else Some (to_ascii_uppercase v))"

section \<open>Exchanges\<close>

text \<open>What all parsers of quotes return; \<open>normalized\<close> are the normalized fields.\<close>

definition quote_event ::
  "ParserInput \<Rightarrow> json \<Rightarrow> datetime \<Rightarrow> datetime option \<Rightarrow> string \<Rightarrow> f64 \<Rightarrow> json \<Rightarrow> ParsedFeedEvent" where
  "quote_event input payload now ts symbol price normalized =
     \<lparr>pf_event_type = pi_event_type input, pf_event_id = source_event_id payload,
      pf_market_key = or_else (pi_market_key_hint input) (feed_market_key symbol),
      pf_asset_pair = Some symbol, pf_price = Some price, pf_chain_id = None, pf_block_number = None,
      pf_tx_hash = None, pf_log_index = None, pf_topic0 = None, pf_payload_event_ts = ts,
      pf_observed_at = observed_at now ts, pf_normalized_fields = normalized\<rparr>"

definition quote_fields :: "string \<Rightarrow> string \<Rightarrow> f64 \<Rightarrow> json" where
  "quote_fields symbol_name symbol price =
     JObject [(symbol_name, JString symbol), (''raw_price'', j_f64 price),
              (''quote_asset'', j_opt JString (map_option snd (split_symbol_pair symbol)))]"

definition binance_parse :: "'a libs_scheme \<Rightarrow> datetime \<Rightarrow> ParserInput \<Rightarrow> json \<Rightarrow> parsed" where
  "binance_parse L now input payload =
     bind_msg (ok_or (or_else (Option.bind (or_else (j_get payload ''s'') (j_get payload ''symbol'')) as_str)
                        (pi_asset_pair_hint input)) ''missing_binance_symbol'') (\<lambda>symbol.
     bind_msg (ok_or (or_else (feed_f64 (j_get payload ''c''))
                        (or_else (feed_f64 (j_get payload ''lastPrice'')) (feed_f64 (j_get payload ''price''))))
                ''missing_binance_price'') (\<lambda>price.
       (let ts = or_else (input_ts L input payload)
                   (or_else (parse_ts_from_path L payload (Some ''$.E'') ''ms'')
                     (parse_ts_from_path L payload (Some ''$.closeTime'') ''ms''))
        in Inr (quote_event input payload now ts symbol price (quote_fields ''symbol'' symbol price)))))"

text \<open>
  A search over the items of a payload for the symbol and the price that are still missing; it stops
  at the item that completes them.
\<close>

fun complete_from :: "(json \<Rightarrow> string option) \<Rightarrow> (json \<Rightarrow> f64 option) \<Rightarrow> json list
     \<Rightarrow> string option \<Rightarrow> f64 option \<Rightarrow> string option \<times> f64 option" where
  "complete_from symbol_of price_of [] s p = (s, p)"
| "complete_from symbol_of price_of (item # items) s p =
     (let s' = or_else s (symbol_of item); p' = or_else p (price_of item)
      in if s' \<noteq> None \<and> p' \<noteq> None then (s', p') else complete_from symbol_of price_of items s' p')"

text \<open>Coinbase looks into the tickers of each event until both are found.\<close>

fun coinbase_events :: "json list \<Rightarrow> string option \<Rightarrow> f64 option \<Rightarrow> string option \<times> f64 option" where
  "coinbase_events [] s p = (s, p)"
| "coinbase_events (event # events) s p =
     (let (s', p') = (case Option.bind (j_get event ''tickers'') as_array of
            None \<Rightarrow> (s, p)
          | Some tickers \<Rightarrow> complete_from (\<lambda>t. get_str t ''product_id'')
              (\<lambda>t. feed_f64 (or_else (j_get t ''price'') (j_get t ''last''))) tickers s p)
      in if s' \<noteq> None \<and> p' \<noteq> None then (s', p') else coinbase_events events s' p')"

definition coinbase_parse :: "'a libs_scheme \<Rightarrow> datetime \<Rightarrow> ParserInput \<Rightarrow> json \<Rightarrow> parsed" where
  "coinbase_parse L now input payload =
     (let s0 = get_str payload ''product_id''; p0 = feed_f64 (j_get payload ''price'');
          (s, p) = (case Option.bind (j_get payload ''events'') as_array of
                      Some events \<Rightarrow> if s0 = None \<or> p0 = None then coinbase_events events s0 p0 else (s0, p0)
                    | None \<Rightarrow> (s0, p0))
      in bind_msg (ok_or (or_else s (pi_asset_pair_hint input)) ''missing_coinbase_product_id'') (\<lambda>product_id.
         bind_msg (ok_or p ''missing_coinbase_price'') (\<lambda>price.
           (let ts = or_else (input_ts L input payload)
                       (or_else (parse_ts_from_path L payload (Some ''$.timestamp'') ''iso8601'')
                         (parse_ts_from_path L payload (Some ''$.time'') ''iso8601''))
            in Inr (quote_event input payload now ts product_id price (quote_fields ''product_id'' product_id price))))))"

text \<open>A price is a number, a text, an object with a price, or the first of an array.\<close>

lemma size_map_of: "map_of m k = Some v \<Longrightarrow> size v < Suc (size_list (size_prod (\<lambda>_. 0) size) m)"
proof -
  assume "map_of m k = Some v"
  then have "(k, v) \<in> set m" by (rule map_of_SomeD)
  then show ?thesis using size_list_estimation' [of "(k, v)" m "size v" "size_prod (\<lambda>_. 0) size"] by simp
qed

function extract_kraken_last :: "json \<Rightarrow> f64 option" where
  "extract_kraken_last v =
     (case v of
        JNumber n \<Rightarrow> as_f64 (JNumber n)
      | JString s \<Rightarrow> parse_f64 s
      | JObject m \<Rightarrow> (case map_of m ''price'' of None \<Rightarrow> None | Some p \<Rightarrow> extract_kraken_last p)
      | JArray items \<Rightarrow> (case items of [] \<Rightarrow> None | first # _ \<Rightarrow> extract_kraken_last first)
      | _ \<Rightarrow> None)"
  by pat_completeness auto
termination
  by (relation "measure size") (auto dest: size_map_of)

declare extract_kraken_last.simps [simp del]

definition kraken_last :: "json option \<Rightarrow> f64 option" where
  "kraken_last v = Option.bind v extract_kraken_last"

text \<open>The pairs of a result are searched like items; the first pair's name is a symbol in any case.\<close>

fun kraken_result :: "(string \<times> json) list \<Rightarrow> string option \<Rightarrow> f64 option \<Rightarrow> string option \<times> f64 option" where
  "kraken_result [] s p = (s, p)"
| "kraken_result ((pair, item) # rest) s p =
     (let s' = or_else s (Some pair);
          p' = or_else p (kraken_last (or_else (j_get item ''last'') (or_else (j_get item ''c'')
                 (or_else (j_get item ''last_price'') (j_get item ''price'')))))
      in if s' \<noteq> None \<and> p' \<noteq> None then (s', p') else kraken_result rest s' p')"

definition kraken_parse :: "'a libs_scheme \<Rightarrow> datetime \<Rightarrow> ParserInput \<Rightarrow> json \<Rightarrow> parsed" where
  "kraken_parse L now input payload =
     (let s0 = get_str payload ''symbol''; p0 = kraken_last (j_get payload ''last'');
          (s1, p1) = (case Option.bind (j_get payload ''data'') as_array of
                        Some items \<Rightarrow>
                          if s0 = None \<or> p0 = None
                          then complete_from (\<lambda>i. get_str i ''symbol'')
                                 (\<lambda>i. kraken_last (or_else (j_get i ''last'') (or_else (j_get i ''last_price'') (j_get i ''price''))))
                                 items s0 p0
                          else (s0, p0)
                      | None \<Rightarrow> (s0, p0));
          (s2, p2) = (case Option.bind (j_get payload ''result'') as_object of
                        Some m \<Rightarrow> if s1 = None \<or> p1 = None then kraken_result m s1 p1 else (s1, p1)
                      | None \<Rightarrow> (s1, p1))
      in bind_msg (ok_or (or_else s2 (pi_asset_pair_hint input)) ''missing_kraken_symbol'') (\<lambda>symbol.
         bind_msg (ok_or p2 ''missing_kraken_last'') (\<lambda>price.
           (let ts = or_else (input_ts L input payload)
                       (or_else (parse_ts_from_path L payload (Some ''$.time_in'') ''iso8601'')
                         (parse_ts_from_path L payload (Some ''$.time_out'') ''iso8601''))
            in Inr (quote_event input payload now ts symbol price (quote_fields ''symbol'' symbol price))))))"

text \<open>OKX also looks for a time in the items it passes.\<close>

fun okx_items :: "json list \<Rightarrow> string option \<Rightarrow> f64 option \<Rightarrow> json option \<Rightarrow> string option \<times> f64 option \<times> json option" where
  "okx_items [] s p t = (s, p, t)"
| "okx_items (item # items) s p t =
     (let s' = or_else s (get_str item ''instId'');
          p' = or_else p (feed_f64 (or_else (j_get item ''last'') (j_get item ''lastPrice'')));
          t' = or_else t (j_get item ''ts'')
      in if s' \<noteq> None \<and> p' \<noteq> None then (s', p', t') else okx_items items s' p' t')"

definition okx_parse :: "'a libs_scheme \<Rightarrow> datetime \<Rightarrow> ParserInput \<Rightarrow> json \<Rightarrow> parsed" where
  "okx_parse L now input payload =
     (let s0 = get_str payload ''instId'';
          p0 = feed_f64 (or_else (j_get payload ''last'') (j_get payload ''lastPrice''));
          t0 = j_get payload ''ts'';
          (s, p, t) = (case Option.bind (j_get payload ''data'') as_array of
                         Some items \<Rightarrow> if s0 = None \<or> p0 = None then okx_items items s0 p0 t0 else (s0, p0, t0)
                       | None \<Rightarrow> (s0, p0, t0))
      in bind_msg (ok_or (or_else s (pi_asset_pair_hint input)) ''missing_okx_inst_id'') (\<lambda>inst_id.
         bind_msg (ok_or p ''missing_okx_last'') (\<lambda>price.
           (let ts = or_else (input_ts L input payload) (Option.bind t (\<lambda>v. parse_ts_value L v ''ms''))
            in Inr (quote_event input payload now ts inst_id price (quote_fields ''inst_id'' inst_id price))))))"

abbreviation bybit_price :: "json \<Rightarrow> f64 option" where
  "bybit_price v \<equiv> feed_f64 (or_else (j_get v ''lastPrice'') (j_get v ''last''))"

definition bybit_parse :: "'a libs_scheme \<Rightarrow> datetime \<Rightarrow> ParserInput \<Rightarrow> json \<Rightarrow> parsed" where
  "bybit_parse L now input payload =
     (let s0 = or_else (get_str payload ''symbol'') (Option.bind (get_str payload ''topic'') extract_symbol_from_topic);
          p0 = bybit_price payload;
          (s1, p1) = (case j_get payload ''data'' of
                        Some (JObject m) \<Rightarrow> (or_else s0 (get_str (JObject m) ''symbol''), or_else p0 (bybit_price (JObject m)))
                      | Some (JArray items) \<Rightarrow> complete_from (\<lambda>i. get_str i ''symbol'') bybit_price items s0 p0
                      | _ \<Rightarrow> (s0, p0));
          (s2, p2) = (if s1 = None \<or> p1 = None
                      then (case Option.bind (Option.bind (j_get payload ''result'') (\<lambda>r. j_get r ''list'')) as_array of
                              Some items \<Rightarrow> complete_from (\<lambda>i. get_str i ''symbol'') bybit_price items s1 p1
                            | None \<Rightarrow> (s1, p1))
                      else (s1, p1))
      in bind_msg (ok_or (or_else s2 (pi_asset_pair_hint input)) ''missing_bybit_symbol'') (\<lambda>symbol.
         bind_msg (ok_or p2 ''missing_bybit_last_price'') (\<lambda>price.
           (let ts = or_else (input_ts L input payload)
                       (or_else (parse_ts_from_path L payload (Some ''$.ts'') ''ms'')
                         (parse_ts_from_path L payload (Some ''$.time'') ''ms''))
            in Inr (quote_event input payload now ts symbol price (quote_fields ''symbol'' symbol price))))))"

text \<open>Gate separates base and quote by an underscore.\<close>

definition normalise_gate_pair :: "string \<Rightarrow> string" where
  "normalise_gate_pair pair = to_ascii_uppercase (map (\<lambda>c. if c = CHR ''_'' then CHR ''/'' else c) pair)"

definition split_gate_pair :: "string \<Rightarrow> (string \<times> string) option" where
  "split_gate_pair pair =
     (let normalised = normalise_gate_pair pair
      in first_two (case split_once (CHR ''/'') normalised of None \<Rightarrow> [normalised] | Some (base, quote) \<Rightarrow> [base, quote]))"

definition gate_ticker :: "json \<Rightarrow> json" where
  "gate_ticker payload =
     (case j_get payload ''result'' of
        Some (JObject m) \<Rightarrow> JObject m
      | Some (JArray (first # _)) \<Rightarrow> first
      | _ \<Rightarrow> payload)"

definition gate_parse :: "'a libs_scheme \<Rightarrow> datetime \<Rightarrow> ParserInput \<Rightarrow> json \<Rightarrow> parsed" where
  "gate_parse L now input payload =
     (let ticker = gate_ticker payload in
      bind_msg (ok_or (or_else (get_str ticker ''currency_pair'') (or_else (get_str payload ''s'') (pi_asset_pair_hint input)))
                 ''missing_gate_currency_pair'') (\<lambda>raw_pair.
      bind_msg (ok_or (or_else (feed_f64 (j_get ticker ''last''))
                         (or_else (feed_f64 (j_get ticker ''close'')) (feed_f64 (j_get ticker ''lastPrice''))))
                 ''missing_gate_last_price'') (\<lambda>price.
      bind_msg (ok_or (split_gate_pair raw_pair) (''unparseable_gate_pair:'' @ raw_pair)) (\<lambda>(base, quote).
        (let symbol = normalise_gate_pair raw_pair;
             ts = or_else (input_ts L input payload)
                    (or_else (parse_ts_from_path L payload (Some ''$.time_ms'') ''ms'')
                      (parse_ts_from_path L payload (Some ''$.time'') ''s''))
         in Inr (quote_event input payload now ts symbol price
              (JObject [(''decoded_by'', JString ''gate_ticker_v4''), (''symbol'', JString symbol),
                 (''raw_pair'', JString raw_pair), (''raw_price'', j_f64 price),
                 (''base_asset'', JString base), (''quote_asset'', JString quote)])))))))"

text \<open>Gemini looks for a price and a time in its events.\<close>

fun gemini_events :: "json list \<Rightarrow> f64 option \<Rightarrow> json option \<Rightarrow> f64 option \<times> json option" where
  "gemini_events [] p t = (p, t)"
| "gemini_events (event # events) p t =
     (let p' = or_else p (feed_f64 (or_else (j_get event ''price'') (or_else (j_get event ''last'') (j_get event ''last_price''))));
          t' = or_else t (or_else (j_get event ''timestampms'') (j_get event ''timestamp''))
      in if p' \<noteq> None \<and> t' \<noteq> None then (p', t') else gemini_events events p' t')"

definition gemini_parse :: "'a libs_scheme \<Rightarrow> datetime \<Rightarrow> ParserInput \<Rightarrow> json \<Rightarrow> parsed" where
  "gemini_parse L now input payload =
     bind_msg (ok_or (or_else (get_str payload ''symbol'') (pi_asset_pair_hint input)) ''missing_gemini_symbol'') (\<lambda>symbol.
       (let p0 = feed_f64 (or_else (j_get payload ''price'') (or_else (j_get payload ''last'') (j_get payload ''last_price'')));
            t0 = j_get payload ''timestampms'';
            (p, t) = (case Option.bind (j_get payload ''events'') as_array of
                        Some events \<Rightarrow> gemini_events events p0 t0
                      | None \<Rightarrow> (p0, t0))
        in bind_msg (ok_or p ''missing_gemini_price'') (\<lambda>price.
             (let ts = or_else (input_ts L input payload)
                         (or_else (Option.bind t (\<lambda>v. or_else (parse_ts_value L v ''ms'') (parse_ts_value L v ''s'')))
                           (Option.bind (Option.bind (j_get payload ''volume'') (\<lambda>v. j_get v ''timestamp''))
                             (\<lambda>v. parse_ts_value L v ''ms'')))
              in Inr (quote_event input payload now ts symbol price (quote_fields ''symbol'' symbol price))))))"

end
