(* ===== verification/ChainParser.thy ===== *)
theory ChainParser
  imports StreamParser "HOL-Library.Word"
begin

text \<open>
  How the indexer reads the logs of EVM chains, oracles and protocol states, \<^verbatim>\<open>apps/indexer/src/stream_parser/\<close>:
  the decoding of 256-bit words in \<^verbatim>\<open>mod.rs\<close>, the parsers of plain logs, Chainlink, Pyth, Uniswap,
  Aerodrome and of the protocol metrics, and the choice of a parser by its name. Reading a hexadecimal
  \<^verbatim>\<open>U256\<close> (the ethers crate) is a parameter.
\<close>

record parser_libs = libs +
  pl_u256_hex :: "string \<Rightarrow> 256 word option"
  pl_rfc3339 :: "datetime \<Rightarrow> string"

section \<open>Words\<close>

text \<open>\<^verbatim>\<open>std::str::from_utf8\<close> on bytes.\<close>

definition byte_of :: "char \<Rightarrow> nat" where
  "byte_of c = of_char c"

definition continuation :: "char \<Rightarrow> bool" where
  "continuation c \<longleftrightarrow> 128 \<le> byte_of c \<and> byte_of c < 192"

fun utf8_valid :: "string \<Rightarrow> bool" where
  "utf8_valid [] = True"
| "utf8_valid (a # s) =
     (let b = byte_of a in
      if b < 128 then utf8_valid s
      else if 194 \<le> b \<and> b < 224 then (case s of x # r \<Rightarrow> continuation x \<and> utf8_valid r | _ \<Rightarrow> False)
      else if 224 \<le> b \<and> b < 240 then
        (case s of
           x # y # r \<Rightarrow> continuation x \<and> continuation y \<and> \<not> (b = 224 \<and> byte_of x < 160)
             \<and> \<not> (b = 237 \<and> 160 \<le> byte_of x) \<and> utf8_valid r
         | _ \<Rightarrow> False)
      else if 240 \<le> b \<and> b < 245 then
        (case s of
           x # y # z # r \<Rightarrow> continuation x \<and> continuation y \<and> continuation z \<and> \<not> (b = 240 \<and> byte_of x < 144)
             \<and> \<not> (b = 244 \<and> 144 \<le> byte_of x) \<and> utf8_valid r
         | _ \<Rightarrow> False)
      else False)"

function chunks64 :: "string \<Rightarrow> string list" where
  "chunks64 s = (if s = [] then [] else take 64 s # chunks64 (drop 64 s))"
  by pat_completeness auto
termination
  by (relation "measure length") simp_all

declare chunks64.simps [simp del]

definition decode_hex_words :: "string \<Rightarrow> string list" where
  "decode_hex_words data_hex =
     (case strip_prefix ''0x'' (trim data_hex) of
        None \<Rightarrow> []
      | Some body \<Rightarrow> if length body < 64 then [] else filter utf8_valid (chunks64 body))"

text \<open>\<^verbatim>\<open>trim_start_matches("0x")\<close> drops the prefix as often as it is there.\<close>

fun trim_0x :: "string \<Rightarrow> string" where
  "trim_0x (CHR ''0'' # CHR ''x'' # s) = trim_0x s"
| "trim_0x s = s"

definition u256_to_f64 :: "256 word \<Rightarrow> f64 option" where
  "u256_to_f64 v = parse_f64 (nat_to_string (unat v))"

definition parse_u256_word_to_f64 :: "'a parser_libs_scheme \<Rightarrow> string \<Rightarrow> f64 option" where
  "parse_u256_word_to_f64 L w = Option.bind (pl_u256_hex L (trim_0x w)) u256_to_f64"

text \<open>Two's complement: the sign is read off the first digit, the magnitude is the negated word.\<close>

definition parse_i256_word_to_f64 :: "'a parser_libs_scheme \<Rightarrow> string \<Rightarrow> f64 option" where
  "parse_i256_word_to_f64 L w =
     (let trimmed_word = trim_0x w in
      Option.bind (pl_u256_hex L trimmed_word) (\<lambda>v.
        (let negative = (case trimmed_word of [] \<Rightarrow> False | c # _ \<Rightarrow> (case hex_value c of None \<Rightarrow> False | Some d \<Rightarrow> 8 \<le> d))
         in if \<not> negative then u256_to_f64 v
            else map_option uminus (u256_to_f64 (not v + 1)))))"

definition scale_price :: "'a libs_scheme \<Rightarrow> f64 \<Rightarrow> int \<Rightarrow> f64 option" where
  "scale_price L raw_value decimals =
     (let divisor = powi_f64 L (lit 10) decimals
      in if \<not> is_finite raw_value then None
         else if \<not> is_finite divisor \<or> feq divisor 0 then None
         else Some (raw_value / divisor))"

text \<open>Casts of a float to an integer saturate; NaN becomes 0.\<close>

definition saturate :: "int \<Rightarrow> f64 \<Rightarrow> int" where
  "saturate bound x =
     (case x of
        NaN \<Rightarrow> 0
      | Inf s \<Rightarrow> if s then - bound else bound - 1
      | Fin s m \<Rightarrow> max (- bound) (min (bound - 1) (if s then - \<lfloor>m\<rfloor> else \<lfloor>m\<rfloor>)))"

definition f64_as_i64 :: "f64 \<Rightarrow> int" where
  "f64_as_i64 x = saturate (2 ^ 63) x"

definition f64_as_i128 :: "f64 \<Rightarrow> int" where
  "f64_as_i128 x = saturate (2 ^ 127) x"

definition i64_try_from :: "int \<Rightarrow> int option" where
  "i64_try_from x = (if - (2 ^ 63) \<le> x \<and> x < 2 ^ 63 then Some x else None)"

definition as_i32 :: "json option \<Rightarrow> int option" where
  "as_i32 v = Option.bind (Option.bind v as_i64) i32_try_from"

definition nth_opt :: "'a list \<Rightarrow> nat \<Rightarrow> 'a option" where
  "nth_opt xs i = (if i < length xs then Some (xs ! i) else None)"

section \<open>Logs\<close>

definition payload_tx_hash :: "json \<Rightarrow> string option" where
  "payload_tx_hash payload = or_else (get_str payload ''transactionHash'') (get_str payload ''tx_hash'')"

definition payload_block_number :: "json \<Rightarrow> int option" where
  "payload_block_number payload = feed_i64 (or_else (j_get payload ''blockNumber'') (j_get payload ''block_number''))"

definition payload_log_index :: "json \<Rightarrow> int option" where
  "payload_log_index payload = feed_i64 (or_else (j_get payload ''logIndex'') (j_get payload ''log_index''))"

definition payload_chain_id :: "json \<Rightarrow> int option" where
  "payload_chain_id payload = feed_i64 (or_else (j_get payload ''chainId'') (j_get payload ''chain_id''))"

definition payload_topics :: "json \<Rightarrow> json list option" where
  "payload_topics payload = Option.bind (j_get payload ''topics'') as_array"

definition payload_topic0 :: "json \<Rightarrow> string option" where
  "payload_topic0 payload =
     or_else (Option.bind (Option.bind (payload_topics payload) (\<lambda>ts. nth_opt ts 0)) as_str) (get_str payload ''topic0'')"

definition evm_log_event :: "'a libs_scheme \<Rightarrow> datetime \<Rightarrow> ParserInput \<Rightarrow> json \<Rightarrow> ParsedFeedEvent" where
  "evm_log_event L now input payload =
     (let ts = or_else (input_ts L input payload) (parse_ts_from_path L payload (Some ''$.timestamp'') ''s'')
      in \<lparr>pf_event_type = pi_event_type input, pf_event_id = source_event_id payload,
          pf_market_key = pi_market_key_hint input, pf_asset_pair = pi_asset_pair_hint input, pf_price = None,
          pf_chain_id = payload_chain_id payload, pf_block_number = payload_block_number payload,
          pf_tx_hash = payload_tx_hash payload, pf_log_index = payload_log_index payload,
          pf_topic0 = payload_topic0 payload, pf_payload_event_ts = ts, pf_observed_at = observed_at now ts,
          pf_normalized_fields = JObject
            [(''address'', unwrap_or (j_get payload ''address'') JNull),
             (''topics'', unwrap_or (j_get payload ''topics'') (JArray [])),
             (''data'', unwrap_or (j_get payload ''data'') JNull)]\<rparr>)"

definition evm_log_parse :: "'a libs_scheme \<Rightarrow> datetime \<Rightarrow> ParserInput \<Rightarrow> json \<Rightarrow> parsed" where
  "evm_log_parse L now input payload = Inr (evm_log_event L now input payload)"

section \<open>Chainlink\<close>

definition chainlink_answer_updated_parse ::
  "'a parser_libs_scheme \<Rightarrow> datetime \<Rightarrow> ParserInput \<Rightarrow> json \<Rightarrow> parsed" where
  "chainlink_answer_updated_parse L now input payload =
     bind_msg (evm_log_parse L now input payload) (\<lambda>parsed.
       (let decoded = Option.bind (j_get payload ''decoded_json'') as_object;
            decoded_get = (\<lambda>k. Option.bind decoded (\<lambda>m. map_of m k));
            cfg = j_get (pi_filter_config input);
            topics = unwrap_or (payload_topics payload) [];
            data_words = unwrap_or (map_option decode_hex_words (get_str payload ''data'')) [];
            raw_answer = or_else (Option.bind (Option.bind (nth_opt topics 1) as_str) (parse_i256_word_to_f64 L))
              (or_else (Option.bind (nth_opt data_words 0) (parse_i256_word_to_f64 L))
                (Option.bind (decoded_get ''raw_answer'') as_f64));
            round_id = or_else (Option.bind (Option.bind (nth_opt topics 2) as_str) (parse_u256_word_to_f64 L))
              (or_else (Option.bind (nth_opt data_words 1) (parse_u256_word_to_f64 L))
                (Option.bind (decoded_get ''round_id'') as_f64));
            updated_at_seconds = or_else (feed_i64 (j_get payload ''updatedAt''))
              (if data_words = [] then None
               else Option.bind (parse_u256_word_to_f64 L (last data_words)) (\<lambda>v. i64_try_from (f64_as_i128 v)));
            updated_at = or_else (Option.bind updated_at_seconds (timestamp_opt L))
              (Option.bind (Option.bind (decoded_get ''updated_at'') as_str) (parse_from_rfc3339 L));
            decimals = unwrap_or (or_else (as_i32 (cfg ''decimals''))
              (or_else (as_i32 (cfg ''price_decimals'')) (as_i32 (decoded_get ''price_decimals'')))) 8;
            price = or_else (Option.bind raw_answer (\<lambda>raw. scale_price L raw decimals))
              (or_else (Option.bind (decoded_get ''oracle_price'') as_f64)
                (Option.bind (decoded_get ''normalized_price_usd'') as_f64));
            ts = or_else (pf_payload_event_ts parsed) updated_at
        in Inr (parsed\<lparr>pf_event_type := pi_event_type input,
             pf_market_key := or_else (pi_market_key_hint input) (get_str (pi_filter_config input) ''market_key''),
             pf_asset_pair := or_else (pf_asset_pair parsed)
               (or_else (pi_asset_pair_hint input) (get_str (pi_filter_config input) ''asset_pair'')),
             pf_price := price, pf_payload_event_ts := ts, pf_observed_at := observed_at now ts,
             pf_normalized_fields := JObject
               [(''decoded_by'', JString ''chainlink_answer_updated_v1''), (''raw_answer'', j_opt j_f64 raw_answer),
                (''price_decimals'', j_int decimals), (''round_id'', j_opt j_f64 round_id),
                (''updated_at'', j_opt (\<lambda>t. JString (pl_rfc3339 L t)) updated_at), (''quote_asset'', JString ''USD'')]\<rparr>)))"

definition chainlink_data_streams_parse ::
  "'a parser_libs_scheme \<Rightarrow> datetime \<Rightarrow> ParserInput \<Rightarrow> json \<Rightarrow> parsed" where
  "chainlink_data_streams_parse L now input payload =
     (let decimals = unwrap_or (or_else (as_i32 (j_get (pi_filter_config input) ''price_decimals''))
            (as_i32 (j_get payload ''price_decimals''))) 8
      in bind_msg (ok_or (or_else (feed_f64 (j_get payload ''benchmark_price'')) (feed_f64 (j_get payload ''price'')))
                     ''chainlink_data_streams_v3 missing benchmark_price'') (\<lambda>raw_benchmark_price.
         bind_msg (ok_or (scale_price L raw_benchmark_price decimals)
                     ''chainlink_data_streams_v3 failed to scale benchmark_price'') (\<lambda>price.
           (let scaled = (\<lambda>k. Option.bind (feed_f64 (j_get payload k)) (\<lambda>raw. scale_price L raw decimals));
                ts_of = (\<lambda>k. Option.bind (feed_i64 (j_get payload k)) (timestamp_opt L));
                ts = ts_of ''observations_timestamp'';
                feed_id = get_str payload ''feed_id'';
                json_ts = j_opt (\<lambda>t. JString (pl_rfc3339 L t))
            in Inr
              \<lparr>pf_event_type = pi_event_type input,
               pf_event_id = (case (feed_id, feed_i64 (j_get payload ''observations_timestamp'')) of
                   (Some f, Some t) \<Rightarrow> Some (f @ '':'' @ int_to_string t)
                 | _ \<Rightarrow> feed_id),
               pf_market_key = or_else (get_str payload ''market_key'') (pi_market_key_hint input),
               pf_asset_pair = or_else (get_str payload ''asset_pair'') (pi_asset_pair_hint input),
               pf_price = Some price, pf_chain_id = None, pf_block_number = None, pf_tx_hash = None,
               pf_log_index = None, pf_topic0 = None, pf_payload_event_ts = ts, pf_observed_at = observed_at now ts,
               pf_normalized_fields = JObject
                 [(''decoded_by'', JString ''chainlink_data_streams_v3''), (''feed_id'', j_opt JString feed_id),
                  (''valid_from_timestamp'', json_ts (ts_of ''valid_from_timestamp'')),
                  (''observations_timestamp'', json_ts ts), (''price_decimals'', j_int decimals),
                  (''benchmark_price_raw'', j_f64 raw_benchmark_price), (''bid_price_usd'', j_opt j_f64 (scaled ''bid'')),
                  (''ask_price_usd'', j_opt j_f64 (scaled ''ask'')), (''quote_asset'', JString ''USD'')]\<rparr>))))"

section \<open>Pyth\<close>

definition decode_pyth_price :: "'a libs_scheme \<Rightarrow> json \<Rightarrow> f64 option" where
  "decode_pyth_price L obj =
     Option.bind (Option.bind (get_str obj ''price'') parse_f64) (\<lambda>mantissa.
     Option.bind (as_i32 (j_get obj ''expo'')) (\<lambda>expo.
       positive_finite (mantissa * powi_f64 L (lit 10) expo)))"

definition decode_pyth_ts :: "'a libs_scheme \<Rightarrow> json \<Rightarrow> datetime option" where
  "decode_pyth_ts L obj = Option.bind (Option.bind (j_get obj ''publish_time'') as_i64) (timestamp_opt L)"

definition if_finite :: "f64 \<Rightarrow> f64 option" where
  "if_finite x = (if is_finite x then Some x else None)"

text \<open>A price update as a log: identifier, price, confidence, exponent and time.\<close>

definition decode_pyth_log ::
  "'a parser_libs_scheme \<Rightarrow> json \<Rightarrow> (string option \<times> f64 \<times> f64 option \<times> int \<times> datetime option) option" where
  "decode_pyth_log L payload =
     Option.bind (payload_topics payload) (\<lambda>topics.
     Option.bind (get_str payload ''data'') (\<lambda>data_hex.
       (let data_words = decode_hex_words data_hex in
        if length data_words < 4 then None
        else Option.bind (parse_i256_word_to_f64 L (data_words ! 0)) (\<lambda>price_mantissa.
          (let conf_mantissa = parse_u256_word_to_f64 L (data_words ! 1);
               expo = unwrap_or (Option.bind (parse_i256_word_to_f64 L (data_words ! 2))
                        (\<lambda>v. i32_try_from (f64_as_i64 v))) (- 8);
               publish_time = Option.bind (parse_u256_word_to_f64 L (data_words ! 3))
                        (\<lambda>v. timestamp_opt L (f64_as_i64 v));
               scale = powi_f64 L (lit 10) expo
           in if \<not> is_finite scale then None
              else map_option (\<lambda>price.
                  (Option.bind (nth_opt topics 1) as_str, price,
                   Option.bind conf_mantissa (\<lambda>c. if_finite (c * scale)), expo, publish_time))
                (positive_finite (price_mantissa * scale)))))))"

definition pyth_log_event_id :: "json \<Rightarrow> string option" where
  "pyth_log_event_id payload =
     map_option (\<lambda>tx. (case payload_log_index payload of
           Some index \<Rightarrow> tx @ '':'' @ int_to_string index
         | None \<Rightarrow> tx))
       (trimmed (payload_tx_hash payload))"

definition pyth_slot :: "json \<Rightarrow> int option" where
  "pyth_slot feed = Option.bind (Option.bind (j_get feed ''metadata'') (\<lambda>m. j_get m ''slot'')) as_i64"

definition pyth_stream_event_id :: "json \<Rightarrow> string option \<Rightarrow> datetime option \<Rightarrow> string option" where
  "pyth_stream_event_id feed feed_id ts =
     Option.bind (trimmed feed_id) (\<lambda>f.
       (case pyth_slot feed of
          Some slot \<Rightarrow> Some (f @ '':'' @ int_to_string slot)
        | None \<Rightarrow> map_option (\<lambda>t. f @ '':'' @ int_to_string (t div nanos_per_sec)) ts))"

definition pyth_symbol :: "string \<Rightarrow> string" where
  "pyth_symbol raw_symbol = to_ascii_uppercase (last (split_on (CHR ''.'') raw_symbol))"

definition market_key_from_pyth_symbol :: "string \<Rightarrow> string" where
  "market_key_from_pyth_symbol raw_symbol =
     (let symbol = pyth_symbol raw_symbol
      in case split_once (CHR ''/'') symbol of
           Some (base, quote) \<Rightarrow> base @ ''/'' @ (if quote \<in> set usd_quotes then ''USD'' else quote)
         | None \<Rightarrow> symbol)"

definition pyth_log_event ::
  "ParserInput \<Rightarrow> json \<Rightarrow> datetime \<Rightarrow> string option \<times> f64 \<times> f64 option \<times> int \<times> datetime option \<Rightarrow> ParsedFeedEvent" where
  "pyth_log_event input payload now = (\<lambda>(feed_id, price, conf_usd, expo, ts).
     \<lparr>pf_event_type = pi_event_type input,
      pf_event_id = or_else (pyth_log_event_id payload) (source_event_id payload),
      pf_market_key = pi_market_key_hint input, pf_asset_pair = pi_asset_pair_hint input, pf_price = Some price,
      pf_chain_id = payload_chain_id payload, pf_block_number = payload_block_number payload,
      pf_tx_hash = payload_tx_hash payload, pf_log_index = payload_log_index payload,
      pf_topic0 = payload_topic0 payload, pf_payload_event_ts = ts, pf_observed_at = observed_at now ts,
      pf_normalized_fields = JObject
        [(''decoded_by'', JString ''pyth_hermes_v2''), (''feed_id'', j_opt JString feed_id),
         (''price_type'', JString ''spot''), (''ema_price_usd'', JNull), (''spot_price_usd'', j_f64 price),
         (''conf_usd'', j_opt j_f64 conf_usd), (''expo'', j_int expo)]\<rparr>)"

definition pyth_stream_parse :: "'a libs_scheme \<Rightarrow> datetime \<Rightarrow> ParserInput \<Rightarrow> json \<Rightarrow> parsed" where
  "pyth_stream_parse L now input payload =
     (let feed = (case j_get payload ''price_feed'' of Some (JObject m) \<Rightarrow> JObject m | _ \<Rightarrow> payload);
          use_spot = unwrap_or (get_bool (pi_filter_config input) ''use_spot_price'') False
      in bind_msg (ok_or (if use_spot then or_else (j_get feed ''price'') (j_get feed ''ema_price'')
                          else or_else (j_get feed ''ema_price'') (j_get feed ''price''))
                     ''missing_pyth_price_object'') (\<lambda>price_obj.
         bind_msg (ok_or (decode_pyth_price L price_obj) ''invalid_pyth_price_mantissa_or_expo'') (\<lambda>price.
           (let expo = unwrap_or (as_i32 (j_get price_obj ''expo'')) (- 8);
                conf_usd = Option.bind (Option.bind (get_str price_obj ''conf'') parse_f64)
                  (\<lambda>c. if_finite (c * powi_f64 L (lit 10) expo));
                ts = or_else (decode_pyth_ts L price_obj) (decode_pyth_ts L feed);
                raw_symbol = or_else (Option.bind (Option.bind (j_get feed ''metadata'') (\<lambda>m. j_get m ''symbol'')) as_str)
                  (get_str feed ''symbol'');
                feed_id = get_str feed ''id''
            in Inr
              \<lparr>pf_event_type = pi_event_type input,
               pf_event_id = or_else (pyth_stream_event_id feed feed_id ts) feed_id,
               pf_market_key = or_else (pi_market_key_hint input) (map_option market_key_from_pyth_symbol raw_symbol),
               pf_asset_pair = or_else (pi_asset_pair_hint input) (map_option pyth_symbol raw_symbol),
               pf_price = Some price, pf_chain_id = None, pf_block_number = None, pf_tx_hash = None,
               pf_log_index = None, pf_topic0 = None, pf_payload_event_ts = ts, pf_observed_at = observed_at now ts,
               pf_normalized_fields = JObject
                 [(''decoded_by'', JString ''pyth_hermes_v2''), (''feed_id'', j_opt JString feed_id),
                  (''slot'', j_opt j_int (pyth_slot feed)), (''raw_symbol'', j_opt JString raw_symbol),
                  (''price_type'', JString (if use_spot then ''spot'' else ''ema'')),
                  (''ema_price_usd'', j_opt j_f64 (Option.bind (j_get feed ''ema_price'') (decode_pyth_price L))),
                  (''spot_price_usd'', j_opt j_f64 (Option.bind (j_get feed ''price'') (decode_pyth_price L))),
                  (''conf_usd'', j_opt j_f64 conf_usd), (''expo'', j_int expo)]\<rparr>))))"

definition pyth_parse :: "'a parser_libs_scheme \<Rightarrow> datetime \<Rightarrow> ParserInput \<Rightarrow> json \<Rightarrow> parsed" where
  "pyth_parse L now input payload =
     (case decode_pyth_log L payload of
        Some decoded \<Rightarrow> Inr (pyth_log_event input payload now decoded)
      | None \<Rightarrow> pyth_stream_parse L now input payload)"

section \<open>Uniswap and Aerodrome\<close>

definition parse_swap_amounts :: "string option \<Rightarrow> json" where
  "parse_swap_amounts data_hex =
     (case Option.bind data_hex (strip_prefix ''0x'') of
        None \<Rightarrow> JArray []
      | Some body \<Rightarrow>
          if length body < 64 then JArray []
          else JArray (map (\<lambda>text. JString (case u128_from_hex text of
                   Some amount \<Rightarrow> nat_to_string amount
                 | None \<Rightarrow> ''0x'' @ text))
                 (filter utf8_valid (take 4 (chunks64 body)))))"

definition uniswap_v2_swap_parse :: "'a libs_scheme \<Rightarrow> datetime \<Rightarrow> ParserInput \<Rightarrow> json \<Rightarrow> parsed" where
  "uniswap_v2_swap_parse L now input payload =
     bind_msg (evm_log_parse L now input payload) (\<lambda>parsed.
       (let normalized = unwrap_or (as_object (pf_normalized_fields parsed)) []
        in Inr (parsed\<lparr>pf_normalized_fields := JObject
             (AList.update ''decoded_by'' (JString ''uniswap_v2_swap_v1'')
               (AList.update ''swap_amounts'' (parse_swap_amounts (get_str payload ''data'')) normalized))\<rparr>)))"

definition read_string :: "json \<Rightarrow> string \<Rightarrow> string \<Rightarrow> string" where
  "read_string config key default_value = unwrap_or (trimmed (get_str config key)) default_value"

definition read_i32 :: "json \<Rightarrow> string \<Rightarrow> int \<Rightarrow> int" where
  "read_i32 config key default_value = unwrap_or (as_i32 (j_get config key)) default_value"

record pool_tokens =
  pk_token0 :: string
  pk_token1 :: string
  pk_base :: string
  pk_decimals0 :: int
  pk_decimals1 :: int

definition read_pool :: "json \<Rightarrow> pool_tokens" where
  "read_pool config =
     (let token0 = to_ascii_uppercase (read_string config ''token0_symbol'' ''TOKEN0'');
          token1 = to_ascii_uppercase (read_string config ''token1_symbol'' ''TOKEN1'')
      in \<lparr>pk_token0 = token0, pk_token1 = token1,
          pk_base = to_ascii_uppercase (read_string config ''base_symbol'' token0),
          pk_decimals0 = read_i32 config ''token0_decimals'' 18, pk_decimals1 = read_i32 config ''token1_decimals'' 18\<rparr>)"

text \<open>The price of token 0 in token 1, turned to the base symbol, with the asset it is quoted in.\<close>

definition price_of_base :: "pool_tokens \<Rightarrow> f64 \<Rightarrow> f64 \<times> string" where
  "price_of_base pool token0_price_in_token1 =
     (if pk_base pool = pk_token0 pool then (token0_price_in_token1, pk_token1 pool)
      else if pk_base pool = pk_token1 pool then (lit 1 / token0_price_in_token1, pk_token0 pool)
      else (token0_price_in_token1, pk_token1 pool))"

definition swap_event :: "ParserInput \<Rightarrow> pool_tokens \<Rightarrow> f64 \<Rightarrow> string \<Rightarrow> json \<Rightarrow> ParsedFeedEvent \<Rightarrow> ParsedFeedEvent" where
  "swap_event input pool raw_price quote_asset normalized parsed =
     parsed\<lparr>pf_event_type := pi_event_type input, pf_price := Some raw_price,
       pf_market_key := or_else (pi_market_key_hint input)
         (Some (if quote_asset \<in> set usd_quotes then pk_base pool @ ''/USD'' else pk_base pool @ ''/'' @ quote_asset)),
       pf_asset_pair := or_else (pf_asset_pair parsed)
         (or_else (pi_asset_pair_hint input) (Some (pk_token0 pool @ pk_token1 pool))),
       pf_normalized_fields := normalized\<rparr>"

text \<open>The price of a swap of either direction, or of both.\<close>

definition v2_token0_price :: "f64 \<Rightarrow> f64 \<Rightarrow> f64 \<Rightarrow> f64 \<Rightarrow> f64 option" where
  "v2_token0_price in0 in1 out0 out1 =
     Option.bind
       (if 0 < in0 \<and> 0 < out1 then Some (out1 / in0)
        else if 0 < in1 \<and> 0 < out0 then Some (in1 / out0)
        else if 0 < in0 + out0 \<and> 0 < in1 + out1 then Some ((in1 + out1) / (in0 + out0))
        else None)
       positive_finite"

definition swap_words :: "json \<Rightarrow> nat \<Rightarrow> string \<Rightarrow> string \<Rightarrow> string + string list" where
  "swap_words payload n missing invalid =
     bind_msg (ok_or (get_str payload ''data'') missing) (\<lambda>data_hex.
       (let data_words = decode_hex_words data_hex in if length data_words < n then Inl invalid else Inr data_words))"

definition uniswap_v2_price_parse ::
  "'a parser_libs_scheme \<Rightarrow> datetime \<Rightarrow> ParserInput \<Rightarrow> json \<Rightarrow> parsed" where
  "uniswap_v2_price_parse L now input payload =
     bind_msg (evm_log_parse L now input payload) (\<lambda>parsed.
     bind_msg (swap_words payload 4 ''missing_uniswap_v2_swap_data'' ''invalid_uniswap_v2_swap_data'') (\<lambda>ws.
     bind_msg (ok_or (parse_u256_word_to_f64 L (ws ! 0)) ''invalid_amount0_in'') (\<lambda>in0_raw.
     bind_msg (ok_or (parse_u256_word_to_f64 L (ws ! 1)) ''invalid_amount1_in'') (\<lambda>in1_raw.
     bind_msg (ok_or (parse_u256_word_to_f64 L (ws ! 2)) ''invalid_amount0_out'') (\<lambda>out0_raw.
     bind_msg (ok_or (parse_u256_word_to_f64 L (ws ! 3)) ''invalid_amount1_out'') (\<lambda>out1_raw.
       (let pool = read_pool (pi_filter_config input) in
        bind_msg (ok_or (scale_price L in0_raw (pk_decimals0 pool)) ''invalid_scaled_amount0_in'') (\<lambda>in0.
        bind_msg (ok_or (scale_price L in1_raw (pk_decimals1 pool)) ''invalid_scaled_amount1_in'') (\<lambda>in1.
        bind_msg (ok_or (scale_price L out0_raw (pk_decimals0 pool)) ''invalid_scaled_amount0_out'') (\<lambda>out0.
        bind_msg (ok_or (scale_price L out1_raw (pk_decimals1 pool)) ''invalid_scaled_amount1_out'') (\<lambda>out1.
        bind_msg (ok_or (v2_token0_price in0 in1 out0 out1) ''unable_to_derive_uniswap_v2_price'') (\<lambda>token0_price.
          (let (raw_price, quote_asset) = price_of_base pool token0_price
           in Inr (swap_event input pool raw_price quote_asset
                (JObject
                  [(''decoded_by'', JString ''uniswap_v2_swap_price_v1''), (''token0_symbol'', JString (pk_token0 pool)),
                   (''token1_symbol'', JString (pk_token1 pool)), (''base_symbol'', JString (pk_base pool)),
                   (''quote_asset'', JString quote_asset), (''raw_price'', j_f64 raw_price),
                   (''amount0_in'', j_f64 in0), (''amount1_in'', j_f64 in1), (''amount0_out'', j_f64 out0),
                   (''amount1_out'', j_f64 out1), (''token0_decimals'', j_int (pk_decimals0 pool)),
                   (''token1_decimals'', j_int (pk_decimals1 pool))]) parsed))))))))))))))"

definition derive_price_from_sqrt :: "'a libs_scheme \<Rightarrow> f64 \<Rightarrow> int \<Rightarrow> int \<Rightarrow> f64 option" where
  "derive_price_from_sqrt L sqrt_price_x96 token0_decimals token1_decimals =
     Option.bind (positive_finite sqrt_price_x96) (\<lambda>root.
     Option.bind (positive_finite (root * root)) (\<lambda>ratio_x192.
     Option.bind (positive_finite (powi_f64 L (lit 2) 192)) (\<lambda>q192.
       positive_finite (ratio_x192 / q192 * powi_f64 L (lit 10) (wrap_i32 (token0_decimals - token1_decimals))))))"

definition v3_amount_price :: "'a libs_scheme \<Rightarrow> f64 \<Rightarrow> f64 \<Rightarrow> int \<Rightarrow> int \<Rightarrow> f64 option" where
  "v3_amount_price L amount0 amount1 token0_decimals token1_decimals =
     (let abs0 = \<bar>amount0\<bar> / powi_f64 L (lit 10) token0_decimals;
          abs1 = \<bar>amount1\<bar> / powi_f64 L (lit 10) token1_decimals
      in if 0 < abs0 \<and> 0 < abs1 then Some (abs1 / abs0) else None)"

definition uniswap_v3_price_parse ::
  "'a parser_libs_scheme \<Rightarrow> datetime \<Rightarrow> ParserInput \<Rightarrow> json \<Rightarrow> parsed" where
  "uniswap_v3_price_parse L now input payload =
     bind_msg (evm_log_parse L now input payload) (\<lambda>parsed.
     bind_msg (swap_words payload 3 ''missing_uniswap_v3_swap_data'' ''invalid_uniswap_v3_swap_data'') (\<lambda>ws.
       (let pool = read_pool (pi_filter_config input);
            amount0 = unwrap_or (parse_i256_word_to_f64 L (ws ! 0)) 0;
            amount1 = unwrap_or (parse_i256_word_to_f64 L (ws ! 1)) 0;
            sqrt_price_x96 = unwrap_or (parse_u256_word_to_f64 L (ws ! 2)) 0
        in bind_msg (ok_or (Option.bind
               (or_else (derive_price_from_sqrt L sqrt_price_x96 (pk_decimals0 pool) (pk_decimals1 pool))
                 (v3_amount_price L amount0 amount1 (pk_decimals0 pool) (pk_decimals1 pool)))
               positive_finite) ''unable_to_derive_uniswap_v3_price'') (\<lambda>token0_price.
             (let (raw_price, quote_asset) = price_of_base pool token0_price
              in Inr (swap_event input pool raw_price quote_asset
                   (JObject
                     [(''decoded_by'', JString ''uniswap_v3_swap_price_v1''), (''token0_symbol'', JString (pk_token0 pool)),
                      (''token1_symbol'', JString (pk_token1 pool)), (''base_symbol'', JString (pk_base pool)),
                      (''quote_asset'', JString quote_asset), (''raw_price'', j_f64 raw_price),
                      (''amount0'', j_f64 amount0), (''amount1'', j_f64 amount1),
                      (''sqrt_price_x96'', j_f64 sqrt_price_x96), (''token0_decimals'', j_int (pk_decimals0 pool)),
                      (''token1_decimals'', j_int (pk_decimals1 pool))]) parsed))))))"

definition aerodrome_parse :: "'a parser_libs_scheme \<Rightarrow> datetime \<Rightarrow> ParserInput \<Rightarrow> json \<Rightarrow> parsed" where
  "aerodrome_parse L now input payload =
     (let pool_type = unwrap_or (map_option to_ascii_lowercase (get_str (pi_filter_config input) ''pool_type'')) ''cl'';
          tag = (\<lambda>prefix_text r. (case r of Inl e \<Rightarrow> Inl (prefix_text @ e) | Inr parsed \<Rightarrow> Inr parsed))
      in bind_msg (if pool_type \<in> {''basic'', ''stable'', ''volatile''}
                   then tag ''aerodrome_basic_pool:'' (uniswap_v2_price_parse L now input payload)
                   else tag ''aerodrome_cl_pool:'' (uniswap_v3_price_parse L now input payload)) (\<lambda>parsed.
           Inr (case pf_normalized_fields parsed of
                  JObject m \<Rightarrow> parsed\<lparr>pf_normalized_fields := JObject
                    (AList.update ''chain'' (JString ''base'')
                      (AList.update ''pool_type'' (JString pool_type)
                        (AList.update ''decoded_by'' (JString ''aerodrome_swap_price_v1'') m)))\<rparr>
                | _ \<Rightarrow> parsed)))"

section \<open>Protocol metrics\<close>

definition feed_value_to_f64 :: "json \<Rightarrow> f64 option" where
  "feed_value_to_f64 v = or_else (as_f64 v) (Option.bind (as_str v) (\<lambda>text. parse_f64 (trim text)))"

definition value_to_i32 :: "json \<Rightarrow> int option" where
  "value_to_i32 v =
     (case as_i64 v of
        Some n \<Rightarrow> i32_try_from n
      | None \<Rightarrow> Option.bind (Option.bind (as_str v) (\<lambda>text. parse_i64 (trim text))) i32_try_from)"

definition value_to_bool :: "json \<Rightarrow> bool option" where
  "value_to_bool v =
     (case as_bool v of
        Some b \<Rightarrow> Some b
      | None \<Rightarrow>
          (case as_i64 v of
             Some n \<Rightarrow> Some (n \<noteq> 0)
           | None \<Rightarrow> Option.bind (as_str v) (\<lambda>text. map_of
               [(''true'', True), (''1'', True), (''paused'', True), (''false'', False), (''0'', False), (''unpaused'', False)]
               (to_ascii_lowercase (trim text)))))"

definition scale_by_decimals :: "'a libs_scheme \<Rightarrow> f64 \<Rightarrow> int \<Rightarrow> f64 option" where
  "scale_by_decimals L raw decimals =
     (let divisor = powi_f64 L (lit 10) (max decimals 0)
      in if \<not> is_finite raw then None
         else if \<not> is_finite divisor \<or> divisor \<le> 0 then None
         else Some (raw / divisor))"

definition feed_chain_slug :: "int option \<Rightarrow> string option" where
  "feed_chain_slug chain_id = Option.bind chain_id (map_of
     [(1, ''ethereum''), (42161, ''arbitrum''), (10, ''optimism''), (8453, ''base''), (137, ''polygon''),
      (43114, ''avalanche''), (56, ''bsc'')])"

definition protocol_id_of :: "json \<Rightarrow> string + string" where
  "protocol_id_of payload =
     bind_msg (ok_or (trimmed (Option.bind (or_else (j_get payload ''protocol_id'') (j_get payload ''protocol'')) as_str))
                 ''missing_protocol_id'') (\<lambda>p. Inr (to_ascii_lowercase p))"

definition chain_slug_of :: "json \<Rightarrow> string" where
  "chain_slug_of payload =
     unwrap_or (or_else (map_option to_ascii_lowercase (trimmed (get_str payload ''chain_slug'')))
       (feed_chain_slug (payload_chain_id payload))) ''unknown''"

definition market_id_of :: "json \<Rightarrow> string option" where
  "market_id_of payload = Option.bind (trimmed (get_str payload ''market_id'')) (\<lambda>v.
     if eq_ignore_ascii_case v ''all'' then None else Some (to_ascii_lowercase v))"

definition protocol_event_type :: "json \<Rightarrow> string \<Rightarrow> string" where
  "protocol_event_type payload default_type = unwrap_or (trimmed (get_str payload ''event_type'')) default_type"

definition protocol_event ::
  "'a libs_scheme \<Rightarrow> datetime \<Rightarrow> ParserInput \<Rightarrow> json \<Rightarrow> string \<Rightarrow> json \<Rightarrow> ParsedFeedEvent" where
  "protocol_event L now input payload event_type normalized =
     (let ts = or_else (input_ts L input payload) (parse_ts_from_path L payload (Some ''$.timestamp'') ''ms'')
      in \<lparr>pf_event_type = event_type, pf_event_id = source_event_id payload,
          pf_market_key = pi_market_key_hint input, pf_asset_pair = pi_asset_pair_hint input, pf_price = None,
          pf_chain_id = payload_chain_id payload,
          pf_block_number = feed_i64 (or_else (j_get payload ''block_number'') (j_get payload ''blockNumber'')),
          pf_tx_hash = Option.bind (or_else (j_get payload ''tx_hash'') (j_get payload ''transactionHash'')) as_str,
          pf_log_index = feed_i64 (or_else (j_get payload ''log_index'') (j_get payload ''logIndex'')),
          pf_topic0 = get_str payload ''topic0'', pf_payload_event_ts = ts, pf_observed_at = observed_at now ts,
          pf_normalized_fields = normalized\<rparr>)"

definition protocol_tvl_parse :: "'a libs_scheme \<Rightarrow> datetime \<Rightarrow> ParserInput \<Rightarrow> json \<Rightarrow> parsed" where
  "protocol_tvl_parse L now input payload =
     bind_msg (protocol_id_of payload) (\<lambda>protocol_id.
       (let decimals = unwrap_or (Option.bind (or_else (j_get payload ''decimals'') (j_get payload ''tvl_decimals'')) value_to_i32) 18;
            price_usd = Option.bind (Option.bind (j_get payload ''price_usd'') feed_value_to_f64) positive_finite;
            tvl_raw = Option.bind (j_get payload ''tvl_raw'') feed_value_to_f64;
            tvl_native = or_else (Option.bind (j_get payload ''tvl_native'') feed_value_to_f64)
              (Option.bind tvl_raw (\<lambda>raw. scale_by_decimals L raw decimals))
        in bind_msg (ok_or (Option.bind
               (or_else (Option.bind (j_get payload ''tvl_usd'') feed_value_to_f64)
                 (case (tvl_native, price_usd) of (Some native, Some price) \<Rightarrow> Some (native * price) | _ \<Rightarrow> None))
               positive_finite) ''missing_tvl_usd'') (\<lambda>tvl_usd.
             Inr (protocol_event L now input payload (protocol_event_type payload (pi_event_type input))
               (JObject
                 [(''metric'', JString ''tvl''), (''protocol_id'', JString protocol_id),
                  (''chain_slug'', JString (chain_slug_of payload)), (''market_id'', j_opt JString (market_id_of payload)),
                  (''tvl_usd'', j_f64 tvl_usd), (''tvl_native'', j_opt j_f64 tvl_native), (''tvl_raw'', j_opt j_f64 tvl_raw),
                  (''price_usd'', j_opt j_f64 price_usd), (''decimals'', j_int decimals),
                  (''quote_asset'', JString ''USD'')])))))"

definition protocol_utilization_parse :: "'a libs_scheme \<Rightarrow> datetime \<Rightarrow> ParserInput \<Rightarrow> json \<Rightarrow> parsed" where
  "protocol_utilization_parse L now input payload =
     bind_msg (protocol_id_of payload) (\<lambda>protocol_id.
     bind_msg (ok_or (Option.bind (or_else (j_get payload ''utilization'') (j_get payload ''current_utilization'')) feed_value_to_f64)
                 ''missing_utilization'') (\<lambda>raw_utilization.
       (let utilization = (if raw_utilization \<le> lit 1 then raw_utilization * lit 100 else raw_utilization);
            number = (\<lambda>k k'. j_opt j_f64 (Option.bind (or_else (j_get payload k) (j_get payload k')) feed_value_to_f64))
        in Inr (protocol_event L now input payload (protocol_event_type payload (pi_event_type input))
             (JObject
               [(''metric'', JString ''utilization''), (''protocol_id'', JString protocol_id),
                (''chain_slug'', JString (chain_slug_of payload)), (''market_id'', j_opt JString (market_id_of payload)),
                (''utilization_pct'', j_f64 utilization), (''utilization'', j_f64 utilization),
                (''tvl_usd'', number ''tvl_usd'' ''tvl_usd''),
                (''total_supplied_tokens'', number ''total_supplied_tokens'' ''total_supplied''),
                (''total_borrowed_tokens'', number ''total_borrowed_tokens'' ''total_borrowed'')])))))"

definition pause_event_type :: "string \<Rightarrow> bool \<Rightarrow> string" where
  "pause_event_type configured paused =
     (if configured = ''protocol_pause'' \<and> \<not> paused then ''protocol_unpause''
      else if configured = ''protocol_unpause'' \<and> paused then ''protocol_pause''
      else if trim configured = [] then (if paused then ''protocol_pause'' else ''protocol_unpause'')
      else configured)"

definition protocol_pause_parse :: "'a libs_scheme \<Rightarrow> datetime \<Rightarrow> ParserInput \<Rightarrow> json \<Rightarrow> parsed" where
  "protocol_pause_parse L now input payload =
     bind_msg (protocol_id_of payload) (\<lambda>protocol_id.
     bind_msg (ok_or (Option.bind (or_else (j_get payload ''paused'') (j_get payload ''is_paused'')) value_to_bool)
                 ''missing_pause_state'') (\<lambda>paused.
       Inr (protocol_event L now input payload
         (protocol_event_type payload (pause_event_type (pi_event_type input) paused))
         (JObject
           [(''metric'', JString ''pause''), (''protocol_id'', JString protocol_id),
            (''chain_slug'', JString (chain_slug_of payload)),
            (''market_id'', j_opt JString (map_option to_ascii_lowercase (get_str payload ''market_id''))),
            (''paused'', JBool paused)]))))"

section \<open>The choice of a parser\<close>

definition parse_payload :: "'a parser_libs_scheme \<Rightarrow> datetime \<Rightarrow> ParserInput \<Rightarrow> json \<Rightarrow> parsed" where
  "parse_payload L now input payload =
     (let name = pi_parser_name input in
      if name = ''binance_miniticker_v1'' then binance_parse L now input payload
      else if name = ''coinbase_ticker_v1'' then coinbase_parse L now input payload
      else if name = ''kraken_ticker_v2'' then kraken_parse L now input payload
      else if name = ''okx_tickers_v5'' then okx_parse L now input payload
      else if name = ''bybit_tickers_v5'' then bybit_parse L now input payload
      else if name = ''gate_ticker_v4'' then gate_parse L now input payload
      else if name = ''gemini_marketdata_v1'' then gemini_parse L now input payload
      else if name = ''evm_log_v1'' then evm_log_parse L now input payload
      else if name = ''chainlink_answer_updated_v1'' then chainlink_answer_updated_parse L now input payload
      else if name = ''chainlink_data_streams_v3'' then chainlink_data_streams_parse L now input payload
      else if name = ''pyth_hermes_v2'' \<or> name = ''pyth_price_update_v1'' then pyth_parse L now input payload
      else if name = ''uniswap_v2_swap_v1'' then uniswap_v2_swap_parse L now input payload
      else if name = ''uniswap_v2_swap_price_v1'' then uniswap_v2_price_parse L now input payload
      else if name = ''uniswap_v3_swap_price_v1'' then uniswap_v3_price_parse L now input payload
      else if name = ''aerodrome_swap_price_v1'' then aerodrome_parse L now input payload
      else if name = ''protocol_tvl_v1'' then protocol_tvl_parse L now input payload
      else if name = ''protocol_utilization_v1'' then protocol_utilization_parse L now input payload
      else if name = ''protocol_pause_v1'' then protocol_pause_parse L now input payload
      else Inl (''unsupported_parser:'' @ name))"

end
