(* ===== verification/StreamWorker.thy ===== *)
theory StreamWorker
  imports ChainParser
begin

text \<open>
  The indexer's worker, \<^verbatim>\<open>apps/indexer/src/stream_worker.rs\<close>: what it does with one payload of a stream, from
  the parser to the unified events it publishes for each tenant of the stream, over a model of the
  table of ingested events (\<^verbatim>\<open>crates/state-manager/src/persistence.rs\<close>), of the stream of unified
  events and of the landing of raw envelopes. Statements and publications may fail: which ones do while
  a payload is processed is part of its surroundings, with the clock, the random identifiers and the
  outcome of the raw landing. SHA-256 and the printing of dates and of JSON are parameters. Logging is
  left out.
\<close>

section \<open>Configuration and state\<close>

record RuntimeStreamConfig =
  rc_stream_config_id :: string
  rc_source_id :: string
  rc_source_type :: string
  rc_source_name :: string
  rc_source_scope_kind :: string
  rc_owner_tenant_id :: "string option"
  rc_connection_config :: json
  rc_operating_mode_profile :: string
  rc_auth_secret_ref :: "string option"
  rc_auth_config :: json
  rc_connector_mode :: string
  rc_stream_name :: string
  rc_subscription_key :: "string option"
  rc_event_type :: string
  rc_parser_name :: string
  rc_market_key :: "string option"
  rc_asset_pair :: "string option"
  rc_filter_config :: json
  rc_payload_ts_path :: "string option"
  rc_payload_ts_unit :: string
  rc_poll_interval_ms :: "nat option"
  rc_tenant_targets :: "string list"

record CachedFxRate =
  cx_rate :: f64
  cx_cached_at_ms :: int

text \<open>Equality of the bits of a float is equality here, as only finite positive prices are kept.\<close>

record RecentQuoteState =
  rq_last_price :: "f64 option"
  rq_last_emitted_at_ms :: "int option"

record SourceHealthReportState =
  sh_last_success_report_at :: "int option"
  sh_last_failure_report_at :: "int option"
  sh_last_failure_message :: "string option"
  sh_last_reported_healthy :: "bool option"

record worker =
  wk_fx_cache :: "CachedFxRate option"
  wk_recent_quote :: RecentQuoteState
  wk_health :: SourceHealthReportState

definition worker_start :: worker where
  "worker_start =
     \<lparr>wk_fx_cache = None, wk_recent_quote = \<lparr>rq_last_price = None, rq_last_emitted_at_ms = None\<rparr>,
      wk_health = \<lparr>sh_last_success_report_at = None, sh_last_failure_report_at = None,
                   sh_last_failure_message = None, sh_last_reported_healthy = None\<rparr>\<rparr>"

datatype RawLandingStatus = Persisted | Deferred | Disabled | TimedOut | Failed

fun raw_status_str :: "RawLandingStatus \<Rightarrow> string" where
  "raw_status_str Persisted = ''persisted''"
| "raw_status_str Deferred = ''deferred''"
| "raw_status_str Disabled = ''disabled''"
| "raw_status_str TimedOut = ''timed_out''"
| "raw_status_str Failed = ''failed''"

record RawRecordPointer =
  rr_raw_ref_type :: string
  rr_raw_ref_id :: string

record RawLandingOutcome =
  ro_pointer :: "RawRecordPointer option"
  ro_status :: RawLandingStatus
  ro_error :: "string option"

record SourceEnvelopeV1 =
  se_envelope_id :: string
  se_source_id :: string
  se_source_type :: string
  se_stream_id :: string
  se_schema_version :: string
  se_event_type :: string
  se_event_ts :: datetime
  se_observed_at :: datetime
  se_partition_key :: string
  se_idempotency_key :: string
  se_payload :: json
  se_chain_id :: "int option"
  se_block_number :: "int option"
  se_tx_hash :: "string option"
  se_log_index :: "int option"
  se_topic0 :: "string option"
  se_market_key :: "string option"
  se_price :: "f64 option"
  se_is_simulated :: bool
  se_simulation_run_id :: "string option"

record IngestOperationalEventRecord =
  io_stream_id :: "string option"
  io_source_id :: string
  io_source_type :: string
  io_tenant_id :: "string option"
  io_event_type :: string
  io_event_id :: "string option"
  io_market_key :: "string option"
  io_asset_pair :: "string option"
  io_chain_id :: "int option"
  io_block_number :: "int option"
  io_tx_hash :: "string option"
  io_log_index :: "int option"
  io_topic0 :: "string option"
  io_price :: "f64 option"
  io_payload_event_ts :: "datetime option"
  io_observed_at :: datetime
  io_parse_status :: string
  io_parse_error :: "string option"
  io_payload :: json
  io_normalized_fields :: json
  io_dedup_key :: "string option"
  io_raw_ref_type :: "string option"
  io_raw_ref_id :: "string option"
  io_raw_s3_uri :: "string option"
  io_is_simulated :: bool
  io_simulation_run_id :: "string option"

record IngestFailureRecord =
  if_stream_id :: "string option"
  if_source_id :: string
  if_source_type :: string
  if_event_type :: "string option"
  if_payload_excerpt :: json
  if_error_kind :: string
  if_error_message :: string
  if_retryable :: bool
  if_observed_at :: datetime

text \<open>A row of the health of a tenant's source: healthy, the last message, the last error.\<close>

record source_health =
  hl_healthy :: bool
  hl_last_message_at :: "datetime option"
  hl_last_error :: "string option"

record ingest =
  ig_rows :: "IngestOperationalEventRecord list"
  ig_unified :: "UnifiedEvent list"
  ig_health :: "string \<times> string \<Rightarrow> source_health option"
  ig_failures :: "IngestFailureRecord list"

text \<open>
  The surroundings of a payload. The landing of an envelope writes it, with or without a pointer, fails
  or times out; it is there if the raw repository is configured, and waited for if it is required.
\<close>

datatype raw_write = RawWritten "RawRecordPointer option" | RawError string | RawTimeout

datatype ingest_op =
    MarketPriceQuery | SourcePricesQuery | InsertRow nat | PublishUnified nat | HealthUpdate string | FailureInsert

record surrounding =
  we_now :: datetime
  we_instant :: int
  we_fails :: "ingest_op \<Rightarrow> bool"
  we_raw_repo :: bool
  we_raw_required :: bool
  we_raw_timeout_ms :: nat
  we_raw_write :: "SourceEnvelopeV1 \<Rightarrow> raw_write"
  we_envelope_uuid :: string
  we_key_uuid :: string
  we_event_uuid :: "nat \<Rightarrow> string"

record worker_libs = parser_libs +
  wl_sha256_hex :: "string \<Rightarrow> string"
  wl_date :: "datetime \<Rightarrow> string"

definition ts_millis :: "datetime \<Rightarrow> int" where
  "ts_millis t = t div 1000000"

section \<open>Simulation\<close>

definition simulation_metadata_from_payload :: "json \<Rightarrow> bool \<times> string option" where
  "simulation_metadata_from_payload payload =
     (let simulation = Option.bind (j_get payload ''simulation'') as_object;
          run_id = trimmed (Option.bind simulation (\<lambda>meta.
            Option.bind (or_else (map_of meta ''run_id'') (map_of meta ''simulation_run_id'')) as_str));
          marked = unwrap_or (Option.bind (Option.bind simulation (\<lambda>meta. map_of meta ''is_simulated'')) as_bool) False
      in (marked \<or> unwrap_or (get_bool payload ''is_simulated'') False \<or> run_id \<noteq> None, run_id))"

definition effective_simulation_metadata :: "json \<Rightarrow> string option \<Rightarrow> bool \<times> string option" where
  "effective_simulation_metadata payload hint =
     (let (is_simulated, run_id) = simulation_metadata_from_payload payload;
          resolved = or_else run_id (trimmed hint)
      in (is_simulated \<or> resolved \<noteq> None, resolved))"

definition parse_simulation_timestamp_value :: "'a libs_scheme \<Rightarrow> json \<Rightarrow> datetime option" where
  "parse_simulation_timestamp_value L v =
     (case v of
        JString raw \<Rightarrow> parse_from_rfc3339 L (trim raw)
      | JNumber n \<Rightarrow> Option.bind (as_i64 (JNumber n)) (timestamp_millis_opt L)
      | _ \<Rightarrow> None)"

definition accelerated_simulation_timestamp :: "'a libs_scheme \<Rightarrow> json \<Rightarrow> string option \<Rightarrow> datetime option" where
  "accelerated_simulation_timestamp L payload hint =
     (let (is_simulated, run_id) = effective_simulation_metadata payload hint in
      if \<not> is_simulated \<and> run_id = None then None
      else Option.bind (Option.bind (j_get payload ''simulation'') as_object) (\<lambda>simulation.
        (let speed_factor = unwrap_or (Option.bind (map_of simulation ''speed_factor'') (\<lambda>v.
               (case v of
                  JNumber n \<Rightarrow> as_f64 (JNumber n)
                | JString raw \<Rightarrow> parse_f64 (trim raw)
                | _ \<Rightarrow> None))) (lit 1);
             time_at = (\<lambda>k. Option.bind (map_of simulation k) (parse_simulation_timestamp_value L))
         in if \<not> is_finite speed_factor \<or> speed_factor \<le> lit 1 then None
            else or_else (time_at ''event_ts'') (or_else (time_at ''event_timestamp'') (time_at ''event_ts_ms'')))))"

definition apply_accelerated_simulation_timestamp ::
  "'a libs_scheme \<Rightarrow> json \<Rightarrow> string option \<Rightarrow> ParsedFeedEvent \<Rightarrow> ParsedFeedEvent" where
  "apply_accelerated_simulation_timestamp L payload hint parsed =
     (case accelerated_simulation_timestamp L payload hint of
        None \<Rightarrow> parsed
      | Some replay_ts \<Rightarrow> parsed\<lparr>pf_payload_event_ts := or_else (pf_payload_event_ts parsed) (Some replay_ts),
                                pf_observed_at := replay_ts\<rparr>)"

section \<open>Overrides of what was parsed\<close>

text \<open>The configured mappings take precedence over the parser, for whatever fields they find.\<close>

definition apply_runtime_field_mapping_overrides ::
  "'a libs_scheme \<Rightarrow> RuntimeStreamConfig \<Rightarrow> json \<Rightarrow> ParsedFeedEvent \<Rightarrow> ParsedFeedEvent" where
  "apply_runtime_field_mapping_overrides L config payload parsed =
     (let mappings = resolve_field_mappings L (rc_parser_name config) (Some (rc_filter_config config)) in
      if mappings = [] then parsed
      else
        (let mapped = apply_mappings L mappings payload (Some (rc_filter_config config));
             p1 = (case trimmed (mf_market_key mapped) of
                     None \<Rightarrow> parsed
                   | Some k \<Rightarrow> parsed\<lparr>pf_market_key := Some k\<rparr>);
             p2 = (case Option.bind (mf_price mapped) positive_finite of
                     None \<Rightarrow> p1
                   | Some price \<Rightarrow> p1\<lparr>pf_price := Some price\<rparr>);
             p3 = (case mf_timestamp mapped of
                     None \<Rightarrow> p2
                   | Some t \<Rightarrow> p2\<lparr>pf_payload_event_ts := Some t, pf_observed_at := t\<rparr>);
             p4 = (case Option.bind (mf_block_number mapped) (\<lambda>n. i64_try_from (int n)) of
                     None \<Rightarrow> p3
                   | Some n \<Rightarrow> p3\<lparr>pf_block_number := Some n\<rparr>)
         in case mf_tx_hash mapped of
              None \<Rightarrow> p4
            | Some tx \<Rightarrow> if trim tx = [] then p4 else p4\<lparr>pf_tx_hash := Some tx\<rparr>))"

text \<open>
  The quote asset of a pair. A delimiter with fewer than two pieces around it is passed over, unlike in
  the parsers.
\<close>

definition second_piece :: "char \<Rightarrow> string \<Rightarrow> string option" where
  "second_piece delimiter s =
     (if delimiter \<in> set s then map_option snd (first_two (split_on delimiter s)) else None)"

definition quote_asset_from_asset_pair :: "string \<Rightarrow> string option" where
  "quote_asset_from_asset_pair asset_pair =
     (let cleaned = to_ascii_uppercase (trim asset_pair)
      in or_else (second_piece (CHR ''/'') cleaned)
          (or_else (second_piece (CHR ''-'') cleaned)
            (find (\<lambda>s. suffix s cleaned) [''USDT'', ''USDC'', ''USD''])))"

definition apply_inverted_price_override :: "RuntimeStreamConfig \<Rightarrow> ParsedFeedEvent \<Rightarrow> ParsedFeedEvent" where
  "apply_inverted_price_override config parsed =
     (let cfg = rc_filter_config config in
      if \<not> unwrap_or (get_bool cfg ''invert_price'') False then parsed
      else
        (case Option.bind (pf_price parsed) positive_finite of
           None \<Rightarrow> parsed
         | Some source_price \<Rightarrow>
             (case positive_finite (lit 1 / source_price) of
                None \<Rightarrow> parsed
              | Some inverted_price \<Rightarrow>
                  (let source_pair = pf_asset_pair parsed;
                       pair = or_else (trimmed (get_str cfg ''output_asset_pair'')) source_pair;
                       quote = or_else (map_option to_ascii_uppercase (trimmed (get_str cfg ''output_quote_asset'')))
                         (Option.bind pair quote_asset_from_asset_pair);
                       normalized = (case pf_normalized_fields parsed of JObject m \<Rightarrow> m | _ \<Rightarrow> []);
                       n1 = AList.update ''source_raw_price'' (j_f64 source_price)
                         (AList.update ''price_inverted'' (JBool True) normalized);
                       n2 = (case source_pair of None \<Rightarrow> n1 | Some p \<Rightarrow> AList.update ''source_asset_pair'' (JString p) n1);
                       n3 = (case quote of None \<Rightarrow> n2 | Some q \<Rightarrow> AList.update ''quote_asset'' (JString q) n2)
                   in parsed\<lparr>pf_price := Some inverted_price, pf_asset_pair := pair, pf_normalized_fields := JObject n3\<rparr>))))"

section \<open>Repeated quotes\<close>

definition DEFAULT_GEMINI_DUPLICATE_QUOTE_WINDOW_MS :: nat where
  "DEFAULT_GEMINI_DUPLICATE_QUOTE_WINDOW_MS = 250"

definition duplicate_quote_window_ms :: "RuntimeStreamConfig \<Rightarrow> nat option" where
  "duplicate_quote_window_ms config =
     (case Option.bind (j_get (rc_filter_config config) ''dedupe_same_price_window_ms'') as_u64 of
        Some configured_ms \<Rightarrow> if 0 < configured_ms then Some configured_ms else None
      | None \<Rightarrow>
          if rc_operating_mode_profile config = ''live'' \<and> rc_parser_name config = ''gemini_marketdata_v1''
          then Some DEFAULT_GEMINI_DUPLICATE_QUOTE_WINDOW_MS else None)"

text \<open>The window as a signed number of milliseconds; the difference of two times always fits.\<close>

definition should_skip_duplicate_quote ::
  "RuntimeStreamConfig \<Rightarrow> ParsedFeedEvent \<Rightarrow> RecentQuoteState \<Rightarrow> bool \<times> RecentQuoteState" where
  "should_skip_duplicate_quote config parsed state =
     (case duplicate_quote_window_ms config of
        None \<Rightarrow> (False, state)
      | Some window_ms \<Rightarrow>
          if pf_event_type parsed \<noteq> ''quote'' then (False, state)
          else
            (case Option.bind (pf_price parsed) positive_finite of
               None \<Rightarrow> (False, state)
             | Some price \<Rightarrow>
                 (let observed_at_ms = ts_millis (pf_observed_at parsed);
                      skip = (case (rq_last_price state, rq_last_emitted_at_ms state) of
                          (Some last_price, Some last_ms) \<Rightarrow>
                            last_price = price \<and> last_ms \<le> observed_at_ms
                            \<and> observed_at_ms - last_ms < unwrap_or (i64_try_from (int window_ms)) (2 ^ 63 - 1)
                        | _ \<Rightarrow> False)
                  in if skip then (True, state)
                     else (False, \<lparr>rq_last_price = Some price, rq_last_emitted_at_ms = Some observed_at_ms\<rparr>))))"


section \<open>Fields added to a document\<close>

definition upsert :: "(string \<times> json) list \<Rightarrow> (string \<times> json) list \<Rightarrow> (string \<times> json) list" where
  "upsert fs m = fold (\<lambda>(k, v). AList.update k v) fs m"

definition object_or_empty :: "json \<Rightarrow> (string \<times> json) list" where
  "object_or_empty v = unwrap_or (as_object v) []"

definition ensure_object_payload :: "json \<Rightarrow> json" where
  "ensure_object_payload payload =
     (case payload of JObject m \<Rightarrow> JObject m | raw \<Rightarrow> JObject [(''raw_payload'', raw)])"

definition upsert_normalized :: "(string \<times> json) list \<Rightarrow> ParsedFeedEvent \<Rightarrow> ParsedFeedEvent" where
  "upsert_normalized fs parsed =
     parsed\<lparr>pf_normalized_fields := JObject (upsert fs (object_or_empty (pf_normalized_fields parsed)))\<rparr>"

definition upsert_payload :: "(string \<times> json) list \<Rightarrow> json \<Rightarrow> json" where
  "upsert_payload fs payload = JObject (upsert fs (object_or_empty (ensure_object_payload payload)))"

section \<open>The table of ingested events\<close>

text \<open>
  \<^verbatim>\<open>ON CONFLICT DO NOTHING\<close>: a row is dropped if it repeats the event identifier or the key of a row
  of any stream and tenant, under the two unique indexes of \<^verbatim>\<open>core_schema.sql\<close>. Nulls do not conflict.
\<close>

definition repeats :: "'a option \<Rightarrow> 'a option \<Rightarrow> bool" where
  "repeats a b \<longleftrightarrow> a = b \<and> a \<noteq> None"

definition conflicts :: "IngestOperationalEventRecord \<Rightarrow> IngestOperationalEventRecord \<Rightarrow> bool" where
  "conflicts r q \<longleftrightarrow> repeats (io_event_id r) (io_event_id q) \<or> repeats (io_dedup_key r) (io_dedup_key q)"

definition insert_ingest_operational_event ::
  "surrounding \<Rightarrow> nat \<Rightarrow> IngestOperationalEventRecord \<Rightarrow> ingest \<Rightarrow> ingest \<times> bool res" where
  "insert_ingest_operational_event S i r db =
     (if we_fails S (InsertRow i) then (db, Inl (Err ''insert failed''))
      else if list_ex (conflicts r) (ig_rows db) then (db, Inr False)
      else (db\<lparr>ig_rows := ig_rows db @ [r]\<rparr>, Inr True))"

definition fresh_price_row :: "surrounding \<Rightarrow> string \<Rightarrow> int \<Rightarrow> IngestOperationalEventRecord \<Rightarrow> bool" where
  "fresh_price_row S market_key max_age_seconds r \<longleftrightarrow>
     io_market_key r = Some market_key \<and> io_price r \<noteq> None
     \<and> (io_parse_status r = ''parsed'' \<or> io_parse_status r = ''partial'')
     \<and> we_now S - max 1 max_age_seconds * nanos_per_sec \<le> io_observed_at r"

text \<open>Of rows observed at the same time the database may take any; here it is the last one inserted.\<close>

definition newest :: "IngestOperationalEventRecord list \<Rightarrow> IngestOperationalEventRecord option" where
  "newest rs = fold (\<lambda>r best. case best of
       None \<Rightarrow> Some r
     | Some b \<Rightarrow> if io_observed_at b \<le> io_observed_at r then Some r else best) rs None"

text \<open>
  The purge of quotes and trades. \<^verbatim>\<open>created_at\<close> is a column that the database fills in when it inserts a row,
  and compares with its own clock.
\<close>

definition old_tick :: "(IngestOperationalEventRecord \<Rightarrow> datetime) \<Rightarrow> datetime \<Rightarrow> int \<Rightarrow> IngestOperationalEventRecord \<Rightarrow> bool" where
  "old_tick created_at db_now retention_seconds r \<longleftrightarrow>
     io_event_type r \<in> {''quote'', ''trade''} \<and> created_at r < db_now - max retention_seconds 0 * nanos_per_sec"

definition purge_old_tick_events ::
  "(IngestOperationalEventRecord \<Rightarrow> datetime) \<Rightarrow> datetime \<Rightarrow> int \<Rightarrow> ingest \<Rightarrow> ingest \<times> nat" where
  "purge_old_tick_events created_at db_now retention_seconds db =
     (let old = old_tick created_at db_now retention_seconds
      in (db\<lparr>ig_rows := filter (\<lambda>r. \<not> old r) (ig_rows db)\<rparr>, length (filter old (ig_rows db))))"

definition latest_operational_market_price :: "surrounding \<Rightarrow> string \<Rightarrow> int \<Rightarrow> ingest \<Rightarrow> f64 option res" where
  "latest_operational_market_price S market_key max_age_seconds db =
     (if we_fails S MarketPriceQuery then Inl (Err ''query failed'')
      else Inr (Option.bind (newest (filter (fresh_price_row S market_key max_age_seconds) (ig_rows db))) io_price))"

definition latest_operational_source_prices :: "surrounding \<Rightarrow> string \<Rightarrow> int \<Rightarrow> ingest \<Rightarrow> (string \<times> f64) list res" where
  "latest_operational_source_prices S market_key max_age_seconds db =
     (if we_fails S SourcePricesQuery then Inl (Err ''query failed'')
      else
        (let rows = filter (fresh_price_row S market_key max_age_seconds) (ig_rows db)
         in Inr (List.map_filter (\<lambda>source_id.
              map_option (\<lambda>price. (source_id, price))
                (Option.bind (newest (filter (\<lambda>r. io_source_id r = source_id) rows)) io_price))
              (remdups (map io_source_id rows)))))"

definition update_source_health :: "surrounding \<Rightarrow> string \<Rightarrow> string \<Rightarrow> bool \<Rightarrow> string option \<Rightarrow> ingest \<Rightarrow> ingest" where
  "update_source_health S tenant_id source_id healthy error db =
     (if we_fails S (HealthUpdate tenant_id) then db
      else db\<lparr>ig_health := (ig_health db)((tenant_id, source_id) \<mapsto>
        \<lparr>hl_healthy = healthy,
         hl_last_message_at = (if healthy then Some (we_now S)
                               else Option.bind (ig_health db (tenant_id, source_id)) hl_last_message_at),
         hl_last_error = error\<rparr>)\<rparr>)"

section \<open>The price in dollars\<close>

definition FX_LOOKUP_MARKET_KEY :: string where
  "FX_LOOKUP_MARKET_KEY = ''USDT/USD''"

definition FX_LOOKUP_FRESHNESS_SECONDS :: int where
  "FX_LOOKUP_FRESHNESS_SECONDS = 30"

definition FX_CACHE_TTL_SECONDS :: int where
  "FX_CACHE_TTL_SECONDS = 3"

definition normalization_fields ::
  "f64 \<Rightarrow> string option \<Rightarrow> f64 option \<Rightarrow> f64 option \<Rightarrow> bool \<Rightarrow> (string \<times> json) list" where
  "normalization_fields raw_quote_price quote_asset normalized_price_usd fx_rate_usdt_usd fx_adjusted =
     [(''raw_quote_price'', j_f64 raw_quote_price),
      (''quote_asset'', j_opt JString quote_asset),
      (''normalized_price_usd'', j_opt j_f64 normalized_price_usd),
      (''fx_rate_usdt_usd'', j_opt j_f64 fx_rate_usdt_usd),
      (''fx_adjusted'', JBool fx_adjusted)]"

definition derive_quote_asset :: "ParsedFeedEvent \<Rightarrow> string option" where
  "derive_quote_asset parsed =
     (case trimmed (get_str (pf_normalized_fields parsed) ''quote_asset'') of
        Some v \<Rightarrow> Some (to_ascii_uppercase v)
      | None \<Rightarrow>
          or_else (Option.bind (pf_asset_pair parsed) quote_asset_from_asset_pair)
            (Option.bind (pf_market_key parsed) (\<lambda>k.
               Option.bind (nth_opt (split_on (CHR ''/'') k) 1) (\<lambda>q. non_empty (to_ascii_uppercase (trim q))))))"

definition fallback_usdt_usd_rate :: "ParsedFeedEvent \<Rightarrow> string option \<Rightarrow> f64 option" where
  "fallback_usdt_usd_rate parsed quote_asset =
     (if quote_asset \<noteq> Some ''USDT'' then None
      else Option.bind (pf_market_key parsed) (\<lambda>k.
        (let market_key = to_ascii_uppercase (trim k) in
         if market_key = FX_LOOKUP_MARKET_KEY then None
         else if \<not> suffix ''/USD'' market_key then None
         else Some (lit 1))))"

definition lookup_usdt_usd_rate ::
  "surrounding \<Rightarrow> ingest \<Rightarrow> CachedFxRate option \<Rightarrow> CachedFxRate option \<times> f64 option res" where
  "lookup_usdt_usd_rate S db cache =
     (let now_ms = ts_millis (we_now S);
          cached = Option.bind cache (\<lambda>c.
            if now_ms - cx_cached_at_ms c \<le> FX_CACHE_TTL_SECONDS * 1000 then Some (cx_rate c) else None)
      in case cached of
           Some rate \<Rightarrow> (cache, Inr (Some rate))
         | None \<Rightarrow>
             (case latest_operational_market_price S FX_LOOKUP_MARKET_KEY FX_LOOKUP_FRESHNESS_SECONDS db of
                Inl e \<Rightarrow> (cache, Inl e)
              | Inr latest \<Rightarrow>
                  (case Option.bind latest positive_finite of
                     Some rate \<Rightarrow> (Some \<lparr>cx_rate = rate, cx_cached_at_ms = now_ms\<rparr>, Inr (Some rate))
                   | None \<Rightarrow> (cache, Inr None))))"

record normalization =
  nz_parsed :: ParsedFeedEvent
  nz_payload :: json
  nz_parse_status :: string
  nz_parse_error :: "string option"
  nz_should_fanout :: bool

definition normalized_with ::
  "ParsedFeedEvent \<Rightarrow> json \<Rightarrow> f64 option \<Rightarrow> (string \<times> json) list \<Rightarrow> string \<Rightarrow> string option \<Rightarrow> bool \<Rightarrow> normalization" where
  "normalized_with parsed payload price fs status error fanout =
     \<lparr>nz_parsed = upsert_normalized fs (parsed\<lparr>pf_price := price\<rparr>), nz_payload = upsert_payload fs payload,
      nz_parse_status = status, nz_parse_error = error, nz_should_fanout = fanout\<rparr>"

definition apply_usdt_normalization ::
  "surrounding \<Rightarrow> ingest \<Rightarrow> ParsedFeedEvent \<Rightarrow> json \<Rightarrow> CachedFxRate option \<Rightarrow> CachedFxRate option \<times> normalization res" where
  "apply_usdt_normalization S db parsed payload cache =
     (case pf_price parsed of
        None \<Rightarrow> (cache, Inr \<lparr>nz_parsed = parsed, nz_payload = payload, nz_parse_status = ''parsed'',
                          nz_parse_error = None, nz_should_fanout = True\<rparr>)
      | Some raw_price \<Rightarrow>
          (let quote_asset = derive_quote_asset parsed in
           if quote_asset \<noteq> Some ''USDT'' then
             (cache, Inr (normalized_with parsed payload (Some raw_price)
                (normalization_fields raw_price quote_asset (Some raw_price) None False) ''parsed'' None True))
           else
             (case lookup_usdt_usd_rate S db cache of
                (cache', Inl e) \<Rightarrow> (cache', Inl e)
              | (cache', Inr rate) \<Rightarrow>
                  (case or_else rate (fallback_usdt_usd_rate parsed quote_asset) of
                     None \<Rightarrow>
                       (cache', Inr (normalized_with parsed payload None
                          (normalization_fields raw_price quote_asset None None True)
                          ''partial'' (Some ''missing_fresh_usdt_usd_rate'') False))
                   | Some fx_rate \<Rightarrow>
                       (let normalized_price = raw_price * fx_rate
                        in (cache', Inr (normalized_with parsed payload (Some normalized_price)
                             (normalization_fields raw_price quote_asset (Some normalized_price) (Some fx_rate) True)
                             ''parsed'' None True)))))))"

section \<open>The market as all sources see it\<close>

definition MARKET_TRUTH_FRESHNESS_SECONDS :: int where
  "MARKET_TRUTH_FRESHNESS_SECONDS = 30"

definition MARKET_TRUTH_PEG_TARGET :: f64 where
  "MARKET_TRUTH_PEG_TARGET = lit 1"

text \<open>The comparator takes what cannot be compared for equal.\<close>

definition compute_median :: "f64 list \<Rightarrow> f64 option" where
  "compute_median values =
     (if values = [] then None
      else
        (let sorted = sort_by (\<lambda>a b. \<not> b < a) values;
             mid = length sorted div 2
         in if even (length sorted) then Some ((sorted ! (mid - 1) + sorted ! mid) / lit 2)
            else Some (sorted ! mid)))"

record MarketTruthSnapshot =
  mt_market_key :: string
  mt_median_price :: f64
  mt_deviation_pct :: f64
  mt_source_count :: nat
  mt_peg_target :: f64

definition build_market_truth_snapshot :: "string \<Rightarrow> (string \<times> f64) list \<Rightarrow> MarketTruthSnapshot option" where
  "build_market_truth_snapshot market_key source_prices =
     (if source_prices = [] then None
      else
        (let values = List.map_filter positive_finite (map snd source_prices)
         in map_option (\<lambda>median_price.
              \<lparr>mt_market_key = market_key, mt_median_price = median_price,
               mt_deviation_pct = (\<bar>median_price - MARKET_TRUTH_PEG_TARGET\<bar> / MARKET_TRUTH_PEG_TARGET) * lit 100,
               mt_source_count = length values, mt_peg_target = MARKET_TRUTH_PEG_TARGET\<rparr>) (compute_median values)))"

definition market_truth_fields :: "MarketTruthSnapshot \<Rightarrow> (string \<times> json) list" where
  "market_truth_fields snap =
     [(''median_price'', j_f64 (mt_median_price snap)),
      (''deviation_pct'', j_f64 (mt_deviation_pct snap)),
      (''true_price_median'', j_f64 (mt_median_price snap)),
      (''true_price_deviation_pct'', j_f64 (mt_deviation_pct snap)),
      (''true_price_peg_target'', j_f64 (mt_peg_target snap)),
      (''true_price_source_count'', j_nat (mt_source_count snap)),
      (''true_price_scope'', JString ''platform_global''),
      (''true_price_market_key'', JString (mt_market_key snap))]"

definition platform_context :: "MarketTruthSnapshot \<Rightarrow> json" where
  "platform_context snap =
     JObject [(''market_truth'', JObject
       [(''market_key'', JString (mt_market_key snap)),
        (''median_price'', j_f64 (mt_median_price snap)),
        (''deviation_pct'', j_f64 (mt_deviation_pct snap)),
        (''peg_target'', j_f64 (mt_peg_target snap)),
        (''source_count'', j_nat (mt_source_count snap)),
        (''scope'', JString ''platform_global'')])]"

text \<open>The prices of the other sources, and the price at hand for its own source.\<close>

definition truth_prices :: "string \<Rightarrow> f64 \<Rightarrow> (string \<times> f64) list \<Rightarrow> (string \<times> f64) list" where
  "truth_prices source_id current_price latest =
     AList.update source_id current_price
       (fold (\<lambda>(s, x) m. case positive_finite x of None \<Rightarrow> m | Some p \<Rightarrow> AList.update s p m) latest [])"

definition apply_market_truth_context ::
  "surrounding \<Rightarrow> ingest \<Rightarrow> RuntimeStreamConfig \<Rightarrow> ParsedFeedEvent \<Rightarrow> json \<Rightarrow> (ParsedFeedEvent \<times> json) res" where
  "apply_market_truth_context S db config parsed payload =
     (case (pf_market_key parsed, Option.bind (pf_price parsed) positive_finite) of
        (Some market_key, Some current_price) \<Rightarrow>
          bind_res (latest_operational_source_prices S market_key MARKET_TRUTH_FRESHNESS_SECONDS db) (\<lambda>latest.
            (case build_market_truth_snapshot market_key (truth_prices (rc_source_id config) current_price latest) of
               None \<Rightarrow> Inr (parsed, payload)
             | Some snap \<Rightarrow>
                 Inr (upsert_normalized (market_truth_fields snap) parsed,
                      upsert_payload (market_truth_fields snap @ [(''platform_context'', platform_context snap)]) payload)))
      | _ \<Rightarrow> Inr (parsed, payload))"

section \<open>Keys\<close>

definition scoped_simulation_event_id :: "string option \<Rightarrow> string option \<Rightarrow> string option" where
  "scoped_simulation_event_id event_id run_id =
     map_option (\<lambda>e. (case trimmed run_id of Some r \<Rightarrow> e @ '':sim:'' @ r | None \<Rightarrow> e))
       (trimmed event_id)"

definition key_tail :: "datetime option \<Rightarrow> bool \<Rightarrow> string option \<Rightarrow> string" where
  "key_tail payload_event_ts is_simulated run_id =
     (case payload_event_ts of None \<Rightarrow> [] | Some t \<Rightarrow> '':ts:'' @ int_to_string (ts_millis t))
     @ (case run_id of
          Some r \<Rightarrow> if is_simulated then '':sim:'' @ r else []
        | None \<Rightarrow> [])"

definition key_log_index :: "json \<Rightarrow> int option" where
  "key_log_index payload =
     Option.bind (or_else (j_get payload ''logIndex'') (j_get payload ''log_index'')) (\<lambda>v.
       (case v of
          JNumber n \<Rightarrow> as_i64 (JNumber n)
        | JString raw \<Rightarrow>
            (let token = trim raw in
             if token = [] then None
             else (case strip_prefix ''0x'' token of Some hex \<Rightarrow> i64_from_hex hex | None \<Rightarrow> parse_i64 token))
        | _ \<Rightarrow> None))"

definition build_dedup_key :: "'a worker_libs_scheme \<Rightarrow> RuntimeStreamConfig \<Rightarrow> ParsedFeedEvent \<Rightarrow> json \<Rightarrow> string option \<Rightarrow> string option" where
  "build_dedup_key L config parsed payload hint =
     (let (is_simulated, run_id) = effective_simulation_metadata payload hint;
          payload_tx = trimmed (Option.bind
            (or_else (j_get payload ''transactionHash'') (j_get payload ''transaction_hash'')) as_str);
          tx_hash = or_else (Option.bind (pf_tx_hash parsed) non_empty) payload_tx;
          log_index = or_else (pf_log_index parsed) (key_log_index payload);
          prefix = ''provider:'' @ rc_source_id config @ '':'' @ rc_stream_config_id config @ '':'';
          tail = key_tail (pf_payload_event_ts parsed) is_simulated run_id
      in case tx_hash of
           Some tx \<Rightarrow> Some (prefix @ tx @ '':'' @ int_to_string (unwrap_or log_index 0) @ tail)
         | None \<Rightarrow>
             (case pf_event_id parsed of
                Some event_id \<Rightarrow> Some (prefix @ event_id @ tail)
              | None \<Rightarrow>
                  Some (wl_sha256_hex L (join ''|''
                    [rc_source_id config, rc_stream_config_id config, pf_event_type parsed,
                     unwrap_or (pf_tx_hash parsed) [], int_to_string (unwrap_or (pf_log_index parsed) 0),
                     int_to_string (ts_millis (pf_observed_at parsed)), unwrap_or (pf_asset_pair parsed) [],
                     unwrap_or (pf_market_key parsed) [], unwrap_or (pf_topic0 parsed) [],
                     if is_simulated then unwrap_or run_id [] else [], json_to_string L payload]))))"

definition hash_payload_only :: "'a worker_libs_scheme \<Rightarrow> RuntimeStreamConfig \<Rightarrow> json \<Rightarrow> datetime \<Rightarrow> string option \<Rightarrow> string" where
  "hash_payload_only L config payload observed hint =
     (let (is_simulated, run_id) = effective_simulation_metadata payload hint
      in wl_sha256_hex L (join ''|''
           [rc_source_id config, rc_stream_config_id config, rc_event_type config,
            int_to_string (ts_millis observed), if is_simulated then unwrap_or run_id [] else [],
            json_to_string L payload]))"

section \<open>Raw landing\<close>

definition raw_outcome :: "RawRecordPointer option \<Rightarrow> RawLandingStatus \<Rightarrow> string option \<Rightarrow> RawLandingOutcome" where
  "raw_outcome pointer status error = \<lparr>ro_pointer = pointer, ro_status = status, ro_error = error\<rparr>"

definition persist_raw_envelope :: "surrounding \<Rightarrow> SourceEnvelopeV1 \<Rightarrow> RawLandingOutcome" where
  "persist_raw_envelope S envelope =
     (if \<not> we_raw_repo S then raw_outcome None Disabled (Some ''raw_repo_not_configured'')
      else
        (case we_raw_write S envelope of
           RawWritten (Some pointer) \<Rightarrow> raw_outcome (Some pointer) Persisted None
         | RawWritten None \<Rightarrow> raw_outcome None Failed (Some ''raw_pointer_missing'')
         | RawError e \<Rightarrow> raw_outcome None Failed (Some e)
         | RawTimeout \<Rightarrow> raw_outcome None TimedOut
             (Some (''raw_landing_timeout_ms='' @ nat_to_string (we_raw_timeout_ms S)))))"

text \<open>A deferred landing goes on in the background, and nothing here depends on its outcome.\<close>

definition start_raw_landing :: "surrounding \<Rightarrow> SourceEnvelopeV1 \<Rightarrow> RawLandingOutcome" where
  "start_raw_landing S envelope =
     (if we_raw_required S then persist_raw_envelope S envelope
      else if we_raw_repo S then raw_outcome None Deferred None
      else raw_outcome None Disabled (Some ''raw_repo_not_configured''))"

definition missing_raw_landing :: "surrounding \<Rightarrow> RawLandingOutcome \<Rightarrow> bool" where
  "missing_raw_landing S landing \<longleftrightarrow> we_raw_required S \<and> ro_status landing \<noteq> Persisted"

definition raw_landing_error :: "RuntimeStreamConfig \<Rightarrow> RawLandingOutcome \<Rightarrow> fault" where
  "raw_landing_error config landing =
     Err (''raw_landing_required_but_not_persisted status='' @ raw_status_str (ro_status landing)
          @ '' source_id='' @ rc_source_id config @ '' stream_config_id='' @ rc_stream_config_id config
          @ '' error='' @ unwrap_or (ro_error landing) ''unknown'')"

definition to_source_envelope ::
  "'a worker_libs_scheme \<Rightarrow> surrounding \<Rightarrow> RuntimeStreamConfig \<Rightarrow> ParsedFeedEvent \<Rightarrow> json \<Rightarrow> string option
     \<Rightarrow> bool \<Rightarrow> string option \<Rightarrow> SourceEnvelopeV1" where
  "to_source_envelope L S config parsed payload dedup_key is_simulated run_id =
     \<lparr>se_envelope_id = we_envelope_uuid S, se_source_id = rc_source_id config,
      se_source_type = rc_source_type config, se_stream_id = rc_stream_config_id config,
      se_schema_version = ''v1'', se_event_type = pf_event_type parsed,
      se_event_ts = unwrap_or (pf_payload_event_ts parsed) (pf_observed_at parsed),
      se_observed_at = pf_observed_at parsed, se_partition_key = wl_date L (pf_observed_at parsed),
      se_idempotency_key = unwrap_or dedup_key (we_key_uuid S), se_payload = payload,
      se_chain_id = pf_chain_id parsed, se_block_number = pf_block_number parsed,
      se_tx_hash = pf_tx_hash parsed, se_log_index = pf_log_index parsed, se_topic0 = pf_topic0 parsed,
      se_market_key = pf_market_key parsed, se_price = pf_price parsed,
      se_is_simulated = is_simulated, se_simulation_run_id = run_id\<rparr>"

definition raw_error_field :: "RawLandingOutcome \<Rightarrow> (string \<times> json) list" where
  "raw_error_field landing =
     (case ro_error landing of
        None \<Rightarrow> []
      | Some e \<Rightarrow> if trim e = [] then [] else [(''raw_landing_error'', JString e)])"

definition annotate_ingestion_meta :: "string \<Rightarrow> RawLandingOutcome \<Rightarrow> json \<Rightarrow> json" where
  "annotate_ingestion_meta processing_mode landing normalized_fields =
     JObject (AList.update ''ingestion_meta''
       (JObject ([(''processing_mode'', JString processing_mode),
                  (''raw_landing_status'', JString (raw_status_str (ro_status landing))),
                  (''raw_persisted'', JBool (ro_status landing = Persisted))] @ raw_error_field landing))
       (object_or_empty normalized_fields))"

section \<open>Rows\<close>

definition only_tenant :: "RuntimeStreamConfig \<Rightarrow> string option" where
  "only_tenant config = (case rc_tenant_targets config of [tenant] \<Rightarrow> Some tenant | _ \<Rightarrow> None)"

definition to_operational_record ::
  "RuntimeStreamConfig \<Rightarrow> ParsedFeedEvent \<Rightarrow> json \<Rightarrow> string option \<Rightarrow> string \<Rightarrow> string option
     \<Rightarrow> RawRecordPointer option \<Rightarrow> bool \<Rightarrow> string option \<Rightarrow> IngestOperationalEventRecord" where
  "to_operational_record config parsed payload dedup_key parse_status parse_error raw_pointer is_simulated run_id =
     \<lparr>io_stream_id = Some (rc_stream_config_id config), io_source_id = rc_source_id config,
      io_source_type = rc_source_type config, io_tenant_id = only_tenant config,
      io_event_type = pf_event_type parsed, io_event_id = scoped_simulation_event_id (pf_event_id parsed) run_id,
      io_market_key = pf_market_key parsed, io_asset_pair = pf_asset_pair parsed,
      io_chain_id = pf_chain_id parsed, io_block_number = pf_block_number parsed,
      io_tx_hash = pf_tx_hash parsed, io_log_index = pf_log_index parsed, io_topic0 = pf_topic0 parsed,
      io_price = pf_price parsed, io_payload_event_ts = pf_payload_event_ts parsed,
      io_observed_at = pf_observed_at parsed, io_parse_status = parse_status, io_parse_error = parse_error,
      io_payload = payload, io_normalized_fields = pf_normalized_fields parsed, io_dedup_key = dedup_key,
      io_raw_ref_type = map_option rr_raw_ref_type raw_pointer,
      io_raw_ref_id = map_option rr_raw_ref_id raw_pointer, io_raw_s3_uri = None,
      io_is_simulated = is_simulated, io_simulation_run_id = run_id\<rparr>"

text \<open>One row for each tenant of the stream, until a statement fails; whether any of them was new.\<close>

fun insert_for_tenants ::
  "surrounding \<Rightarrow> nat \<Rightarrow> string list \<Rightarrow> IngestOperationalEventRecord \<Rightarrow> ingest \<Rightarrow> ingest \<times> bool res" where
  "insert_for_tenants S i [] r db = (db, Inr False)"
| "insert_for_tenants S i (tenant # tenants) r db =
     (case insert_ingest_operational_event S i (r\<lparr>io_tenant_id := Some tenant\<rparr>) db of
        (db1, Inl e) \<Rightarrow> (db1, Inl e)
      | (db1, Inr new) \<Rightarrow>
          (case insert_for_tenants S (Suc i) tenants r db1 of
             (db2, Inl e) \<Rightarrow> (db2, Inl e)
           | (db2, Inr later) \<Rightarrow> (db2, Inr (new \<or> later))))"

definition insert_rows ::
  "surrounding \<Rightarrow> RuntimeStreamConfig \<Rightarrow> IngestOperationalEventRecord \<Rightarrow> ingest \<Rightarrow> ingest \<times> bool res" where
  "insert_rows S config r db =
     (if 1 < length (rc_tenant_targets config) then insert_for_tenants S 0 (rc_tenant_targets config) r db
      else insert_ingest_operational_event S 0 r db)"

section \<open>Publication\<close>

definition map_source_type :: "string \<Rightarrow> SourceType" where
  "map_source_type source_type =
     (let s = to_ascii_lowercase source_type in
      if s = ''cex_websocket'' then CexWebsocket
      else if s = ''evm_chain'' then EvmChain
      else if s = ''dex_api'' then DexApi
      else if s = ''oracle_api'' then OracleApi
      else CustomApi)"

definition mark_simulation :: "string option \<Rightarrow> (string \<times> json) list \<Rightarrow> (string \<times> json) list" where
  "mark_simulation run_id m =
     (let m1 = AList.update ''is_simulated'' (JBool True) m;
          simulation = object_or_empty (unwrap_or (map_of m1 ''simulation'') (JObject []));
          marks = (''is_simulated'', JBool True)
            # (case run_id of
                 None \<Rightarrow> []
               | Some r \<Rightarrow> [(''run_id'', JString r), (''simulation_run_id'', JString r)])
      in AList.update ''simulation'' (JObject (upsert marks simulation)) m1)"

definition some_field :: "string \<Rightarrow> ('a \<Rightarrow> json) \<Rightarrow> 'a option \<Rightarrow> (string \<times> json) list" where
  "some_field k f x = (case x of None \<Rightarrow> [] | Some a \<Rightarrow> [(k, f a)])"

definition enrich_payload_for_unified ::
  "RuntimeStreamConfig \<Rightarrow> json \<Rightarrow> ParsedFeedEvent \<Rightarrow> string option \<Rightarrow> bool \<Rightarrow> RawLandingOutcome \<Rightarrow> bool \<Rightarrow> string option \<Rightarrow> json" where
  "enrich_payload_for_unified config payload parsed dedup_key persisted landing is_simulated run_id =
     (let m = object_or_empty (ensure_object_payload payload);
          m1 = (if is_simulated then mark_simulation run_id m else m)
      in JObject (upsert
           ([(''raw_persisted'', JBool (ro_status landing = Persisted)),
             (''ingest_persisted'', JBool persisted),
             (''raw_landing_status'', JString (raw_status_str (ro_status landing)))]
            @ raw_error_field landing
            @ [(''processing_mode'', JString ''realtime''),
               (''stream_config_id'', JString (rc_stream_config_id config)),
               (''source_id'', JString (rc_source_id config)),
               (''parser_name'', JString (rc_parser_name config))]
            @ some_field ''market_key'' JString (pf_market_key parsed)
            @ some_field ''asset_pair'' JString (pf_asset_pair parsed)
            @ some_field ''price'' j_f64 (pf_price parsed)
            @ some_field ''chainId'' j_int (pf_chain_id parsed)
            @ some_field ''dedup_key'' JString dedup_key) m1))"

definition unified_event :: "surrounding \<Rightarrow> RuntimeStreamConfig \<Rightarrow> ParsedFeedEvent \<Rightarrow> json \<Rightarrow> string option \<Rightarrow> nat \<Rightarrow> string \<Rightarrow> UnifiedEvent" where
  "unified_event S config parsed enriched run_id i tenant_id =
     \<lparr>ue_event_id = unwrap_or (scoped_simulation_event_id (pf_event_id parsed) run_id) (we_event_uuid S i),
      ue_tenant_id = tenant_id, ue_source_id = rc_source_id config,
      ue_source_type = map_source_type (rc_source_type config), ue_event_type = pf_event_type parsed,
      ue_timestamp = pf_observed_at parsed, ue_payload = enriched, ue_chain_id = pf_chain_id parsed,
      ue_block_number = pf_block_number parsed, ue_tx_hash = pf_tx_hash parsed,
      ue_market_key = pf_market_key parsed, ue_price = pf_price parsed\<rparr>"

fun publish_for_tenants :: "surrounding \<Rightarrow> (nat \<Rightarrow> string \<Rightarrow> UnifiedEvent) \<Rightarrow> nat \<Rightarrow> string list \<Rightarrow> ingest \<Rightarrow> ingest \<times> unit res" where
  "publish_for_tenants S event_for i [] db = (db, Inr ())"
| "publish_for_tenants S event_for i (tenant # tenants) db =
     (if we_fails S (PublishUnified i) then (db, Inl (Err ''publish failed''))
      else publish_for_tenants S event_for (Suc i) tenants (db\<lparr>ig_unified := ig_unified db @ [event_for i tenant]\<rparr>))"

definition fanout_unified_events ::
  "surrounding \<Rightarrow> RuntimeStreamConfig \<Rightarrow> json \<Rightarrow> ParsedFeedEvent \<Rightarrow> string option \<Rightarrow> bool \<Rightarrow> RawLandingOutcome \<Rightarrow> bool \<Rightarrow> string option
     \<Rightarrow> ingest \<Rightarrow> ingest \<times> unit res" where
  "fanout_unified_events S config payload parsed dedup_key persisted landing is_simulated run_id db =
     (let enriched = enrich_payload_for_unified config payload parsed dedup_key persisted landing is_simulated run_id
      in publish_for_tenants S (unified_event S config parsed enriched run_id) 0 (rc_tenant_targets config) db)"

section \<open>The health of a source\<close>

definition SOURCE_HEALTH_SUCCESS_REPORT_INTERVAL_SECS :: int where
  "SOURCE_HEALTH_SUCCESS_REPORT_INTERVAL_SECS = 30"

definition SOURCE_HEALTH_FAILURE_REPORT_INTERVAL_SECS :: int where
  "SOURCE_HEALTH_FAILURE_REPORT_INTERVAL_SECS = 30"

definition should_skip_source_health_updates :: "RuntimeStreamConfig \<Rightarrow> bool" where
  "should_skip_source_health_updates config \<longleftrightarrow>
     rc_operating_mode_profile config \<noteq> ''live'' \<or> rc_tenant_targets config = []"

definition long_since :: "surrounding \<Rightarrow> int option \<Rightarrow> int \<Rightarrow> bool" where
  "long_since S reported_at secs \<longleftrightarrow>
     unwrap_or (map_option (\<lambda>t. secs * nanos_per_sec \<le> we_instant S - t) reported_at) True"

definition should_report_source_health_success :: "surrounding \<Rightarrow> SourceHealthReportState \<Rightarrow> bool" where
  "should_report_source_health_success S state \<longleftrightarrow>
     sh_last_reported_healthy state \<noteq> Some True
     \<or> long_since S (sh_last_success_report_at state) SOURCE_HEALTH_SUCCESS_REPORT_INTERVAL_SECS"

definition should_report_source_health_failure :: "surrounding \<Rightarrow> SourceHealthReportState \<Rightarrow> string \<Rightarrow> bool" where
  "should_report_source_health_failure S state failure_message \<longleftrightarrow>
     sh_last_reported_healthy state \<noteq> Some False
     \<or> sh_last_failure_message state \<noteq> Some failure_message
     \<or> long_since S (sh_last_failure_report_at state) SOURCE_HEALTH_FAILURE_REPORT_INTERVAL_SECS"

definition report_source_health_success ::
  "surrounding \<Rightarrow> RuntimeStreamConfig \<Rightarrow> SourceHealthReportState \<Rightarrow> ingest \<Rightarrow> SourceHealthReportState \<times> ingest" where
  "report_source_health_success S config state db =
     (if should_skip_source_health_updates config \<or> \<not> should_report_source_health_success S state then (state, db)
      else
        (\<lparr>sh_last_success_report_at = Some (we_instant S), sh_last_failure_report_at = None,
          sh_last_failure_message = None, sh_last_reported_healthy = Some True\<rparr>,
         fold (\<lambda>tenant. update_source_health S tenant (rc_source_id config) True None) (rc_tenant_targets config) db))"

definition report_source_health_failure ::
  "surrounding \<Rightarrow> RuntimeStreamConfig \<Rightarrow> SourceHealthReportState \<Rightarrow> string \<Rightarrow> ingest \<Rightarrow> SourceHealthReportState \<times> ingest" where
  "report_source_health_failure S config state failure_message db =
     (if should_skip_source_health_updates config \<or> \<not> should_report_source_health_failure S state failure_message
      then (state, db)
      else
        (state\<lparr>sh_last_failure_report_at := Some (we_instant S), sh_last_failure_message := Some failure_message,
               sh_last_reported_healthy := Some False\<rparr>,
         fold (\<lambda>tenant. update_source_health S tenant (rc_source_id config) False (Some failure_message))
           (rc_tenant_targets config) db))"

section \<open>One payload\<close>

definition parser_input :: "RuntimeStreamConfig \<Rightarrow> ParserInput" where
  "parser_input config =
     \<lparr>pi_parser_name = rc_parser_name config, pi_event_type = rc_event_type config,
      pi_market_key_hint = rc_market_key config, pi_asset_pair_hint = rc_asset_pair config,
      pi_payload_ts_path = rc_payload_ts_path config, pi_payload_ts_unit = rc_payload_ts_unit config,
      pi_filter_config = rc_filter_config config\<rparr>"

text \<open>What the stream and the connection add to a payload: the chain and the simulation run, if known.\<close>

record hints =
  hi_chain_id :: "int option"
  hi_run_id :: "string option"

definition prepare_parsed ::
  "'a libs_scheme \<Rightarrow> RuntimeStreamConfig \<Rightarrow> hints \<Rightarrow> json \<Rightarrow> ParsedFeedEvent \<Rightarrow> ParsedFeedEvent" where
  "prepare_parsed L config hint payload parsed =
     apply_accelerated_simulation_timestamp L payload (hi_run_id hint)
       (apply_inverted_price_override config
         (apply_runtime_field_mapping_overrides L config payload
           (parsed\<lparr>pf_chain_id := or_else (pf_chain_id parsed) (hi_chain_id hint)\<rparr>)))"

text \<open>Landing, rows and publication of an event that was parsed and priced.\<close>

definition store_and_publish ::
  "'a worker_libs_scheme \<Rightarrow> surrounding \<Rightarrow> RuntimeStreamConfig \<Rightarrow> hints \<Rightarrow> json \<Rightarrow> normalization
     \<Rightarrow> SourceHealthReportState \<Rightarrow> ingest \<Rightarrow> SourceHealthReportState \<times> ingest \<times> unit res" where
  "store_and_publish L S config hint payload nz health db =
     (let (is_simulated, run_id) = effective_simulation_metadata payload (hi_run_id hint);
          parsed = nz_parsed nz;
          dedup_key = build_dedup_key L config parsed payload (hi_run_id hint);
          landing = start_raw_landing S
            (to_source_envelope L S config parsed (nz_payload nz) dedup_key is_simulated run_id)
      in if missing_raw_landing S landing then (health, db, Inl (raw_landing_error config landing))
         else
           (let annotated = parsed\<lparr>pf_normalized_fields :=
                  annotate_ingestion_meta ''realtime'' landing (pf_normalized_fields parsed)\<rparr>;
                row = to_operational_record config annotated (nz_payload nz) dedup_key (nz_parse_status nz)
                  (nz_parse_error nz) (ro_pointer landing) is_simulated run_id
            in case insert_rows S config row db of
                 (db1, Inl e) \<Rightarrow> (health, db1, Inl e)
               | (db1, Inr inserted) \<Rightarrow>
                   if \<not> inserted then (health, db1, Inr ())
                   else
                     (case (if nz_should_fanout nz
                            then fanout_unified_events S config (nz_payload nz) annotated dedup_key inserted landing
                                   is_simulated run_id db1
                            else (db1, Inr ())) of
                        (db2, Inl e) \<Rightarrow> (health, db2, Inl e)
                      | (db2, Inr _) \<Rightarrow>
                          (let (health', db3) = report_source_health_success S config health db2
                           in (health', db3, Inr ())))))"

definition ingest_parsed ::
  "'a worker_libs_scheme \<Rightarrow> surrounding \<Rightarrow> RuntimeStreamConfig \<Rightarrow> hints \<Rightarrow> json \<Rightarrow> ParsedFeedEvent
     \<Rightarrow> worker \<Rightarrow> ingest \<Rightarrow> worker \<times> ingest \<times> unit res" where
  "ingest_parsed L S config hint payload found wk db =
     (let parsed = prepare_parsed L config hint payload found;
          (skip, quote_state) = should_skip_duplicate_quote config parsed (wk_recent_quote wk);
          wk1 = wk\<lparr>wk_recent_quote := quote_state\<rparr>
      in if skip then (wk1, db, Inr ())
         else
           (case apply_usdt_normalization S db parsed payload (wk_fx_cache wk1) of
              (cache, Inl e) \<Rightarrow> (wk1\<lparr>wk_fx_cache := cache\<rparr>, db, Inl e)
            | (cache, Inr nz) \<Rightarrow>
                (let wk2 = wk1\<lparr>wk_fx_cache := cache\<rparr> in
                 case apply_market_truth_context S db config (nz_parsed nz) (nz_payload nz) of
                   Inl e \<Rightarrow> (wk2, db, Inl e)
                 | Inr (parsed', payload') \<Rightarrow>
                     (let (health, db', r) = store_and_publish L S config hint payload
                            (nz\<lparr>nz_parsed := parsed', nz_payload := payload'\<rparr>) (wk_health wk2) db
                      in (wk2\<lparr>wk_health := health\<rparr>, db', r)))))"

text \<open>A payload that no parser reads still leaves a row for each tenant, and a failure record.\<close>

definition unparsed_envelope ::
  "'a worker_libs_scheme \<Rightarrow> surrounding \<Rightarrow> RuntimeStreamConfig \<Rightarrow> hints \<Rightarrow> json \<Rightarrow> datetime \<Rightarrow> string \<Rightarrow> SourceEnvelopeV1" where
  "unparsed_envelope L S config hint payload observed dedup_key =
     (let (is_simulated, run_id) = effective_simulation_metadata payload (hi_run_id hint) in
      \<lparr>se_envelope_id = we_envelope_uuid S, se_source_id = rc_source_id config,
       se_source_type = rc_source_type config, se_stream_id = rc_stream_config_id config,
       se_schema_version = ''v1'', se_event_type = rc_event_type config, se_event_ts = observed,
       se_observed_at = observed, se_partition_key = wl_date L observed, se_idempotency_key = dedup_key,
       se_payload = payload, se_chain_id = hi_chain_id hint, se_block_number = None, se_tx_hash = None,
       se_log_index = None, se_topic0 = None, se_market_key = rc_market_key config, se_price = None,
       se_is_simulated = is_simulated, se_simulation_run_id = run_id\<rparr>)"

definition unparsed_row ::
  "RuntimeStreamConfig \<Rightarrow> hints \<Rightarrow> json \<Rightarrow> datetime \<Rightarrow> string \<Rightarrow> string \<Rightarrow> RawLandingOutcome \<Rightarrow> IngestOperationalEventRecord" where
  "unparsed_row config hint payload observed dedup_key parse_error landing =
     (let (is_simulated, run_id) = effective_simulation_metadata payload (hi_run_id hint) in
      \<lparr>io_stream_id = Some (rc_stream_config_id config), io_source_id = rc_source_id config,
       io_source_type = rc_source_type config, io_tenant_id = only_tenant config,
       io_event_type = rc_event_type config, io_event_id = None, io_market_key = rc_market_key config,
       io_asset_pair = rc_asset_pair config, io_chain_id = hi_chain_id hint, io_block_number = None,
       io_tx_hash = None, io_log_index = None, io_topic0 = None, io_price = None, io_payload_event_ts = None,
       io_observed_at = observed, io_parse_status = ''error'', io_parse_error = Some parse_error,
       io_payload = payload,
       io_normalized_fields = annotate_ingestion_meta ''realtime'' landing (JObject []),
       io_dedup_key = Some dedup_key, io_raw_ref_type = map_option rr_raw_ref_type (ro_pointer landing),
       io_raw_ref_id = map_option rr_raw_ref_id (ro_pointer landing), io_raw_s3_uri = None,
       io_is_simulated = is_simulated, io_simulation_run_id = run_id\<rparr>)"

definition record_ingest_failure ::
  "surrounding \<Rightarrow> RuntimeStreamConfig \<Rightarrow> json \<Rightarrow> string \<Rightarrow> datetime \<Rightarrow> ingest \<Rightarrow> ingest" where
  "record_ingest_failure S config payload parse_error observed db =
     (if \<not> we_raw_repo S \<or> we_fails S FailureInsert then db
      else db\<lparr>ig_failures := ig_failures db @
        [\<lparr>if_stream_id = Some (rc_stream_config_id config), if_source_id = rc_source_id config,
          if_source_type = rc_source_type config, if_event_type = Some (rc_event_type config),
          if_payload_excerpt = payload, if_error_kind = ''parse'', if_error_message = parse_error,
          if_retryable = False, if_observed_at = observed\<rparr>]\<rparr>)"

definition ingest_unparsed ::
  "'a worker_libs_scheme \<Rightarrow> surrounding \<Rightarrow> RuntimeStreamConfig \<Rightarrow> hints \<Rightarrow> json \<Rightarrow> string
     \<Rightarrow> worker \<Rightarrow> ingest \<Rightarrow> worker \<times> ingest \<times> unit res" where
  "ingest_unparsed L S config hint payload parse_error wk db =
     (let observed = unwrap_or (accelerated_simulation_timestamp L payload (hi_run_id hint)) (we_now S);
          dedup_key = hash_payload_only L config payload observed (hi_run_id hint);
          landing = start_raw_landing S (unparsed_envelope L S config hint payload observed dedup_key)
      in if missing_raw_landing S landing then (wk, db, Inl (raw_landing_error config landing))
         else
           (case insert_rows S config (unparsed_row config hint payload observed dedup_key parse_error landing) db of
              (db1, Inl e) \<Rightarrow> (wk, db1, Inl e)
            | (db1, Inr _) \<Rightarrow>
                (let (health, db2) = report_source_health_success S config (wk_health wk)
                       (record_ingest_failure S config payload parse_error observed db1)
                 in (wk\<lparr>wk_health := health\<rparr>, db2, Inr ()))))"

definition process_payload ::
  "'a worker_libs_scheme \<Rightarrow> surrounding \<Rightarrow> RuntimeStreamConfig \<Rightarrow> hints \<Rightarrow> json
     \<Rightarrow> worker \<Rightarrow> ingest \<Rightarrow> worker \<times> ingest \<times> unit res" where
  "process_payload L S config hint payload wk db =
     (case parse_payload L (we_now S) (parser_input config) payload of
        Inr parsed \<Rightarrow> ingest_parsed L S config hint payload parsed wk db
      | Inl parse_error \<Rightarrow> ingest_unparsed L S config hint payload parse_error wk db)"

section \<open>The answer of a poll\<close>

definition is_pyth_hermes_parser :: "string \<Rightarrow> bool" where
  "is_pyth_hermes_parser parser_name \<longleftrightarrow> parser_name = ''pyth_hermes_v2'' \<or> parser_name = ''pyth_price_update_v1''"

definition http_poll_payload_items :: "string \<Rightarrow> json \<Rightarrow> json list" where
  "http_poll_payload_items parser_name payload =
     (case payload of
        JArray items \<Rightarrow> items
      | JNull \<Rightarrow> []
      | other \<Rightarrow>
          (case Option.bind (j_get other ''events'') as_array of
             Some items \<Rightarrow> items
           | None \<Rightarrow>
               (case (if is_pyth_hermes_parser parser_name then Option.bind (j_get other ''parsed'') as_array else None) of
                  Some items \<Rightarrow> items
                | None \<Rightarrow> [other])))"

text \<open>The items in their order, each with its surroundings; what follows a failure is left out.\<close>

fun process_items ::
  "'a worker_libs_scheme \<Rightarrow> RuntimeStreamConfig \<Rightarrow> hints \<Rightarrow> (nat \<Rightarrow> surrounding) \<Rightarrow> nat \<Rightarrow> json list
     \<Rightarrow> worker \<Rightarrow> ingest \<Rightarrow> worker \<times> ingest \<times> unit res" where
  "process_items L config hint S i [] wk db = (wk, db, Inr ())"
| "process_items L config hint S i (item # items) wk db =
     (case process_payload L (S i) config hint item wk db of
        (wk1, db1, Inl e) \<Rightarrow> (wk1, db1, Inl e)
      | (wk1, db1, Inr _) \<Rightarrow> process_items L config hint S (Suc i) items wk1 db1)"

definition process_http_poll_payload ::
  "'a worker_libs_scheme \<Rightarrow> RuntimeStreamConfig \<Rightarrow> hints \<Rightarrow> (nat \<Rightarrow> surrounding) \<Rightarrow> json
     \<Rightarrow> worker \<Rightarrow> ingest \<Rightarrow> worker \<times> ingest \<times> unit res" where
  "process_http_poll_payload L config hint S payload wk db =
     process_items L config hint S 0 (http_poll_payload_items (rc_parser_name config) payload) wk db"

section \<open>The worker of a stream\<close>

text \<open>
  The worker connects again after every failure of its connector or of a payload, unless the failure is
  one of its configuration. It waits in between, at first one second and then twice as long each time,
  up to thirty. What its connector yields is an input of the model.
\<close>

record stream_worker =
  sw_worker :: worker
  sw_ingest :: ingest
  sw_backoff_secs :: nat
  sw_stopped :: bool

definition stream_worker_start :: "ingest \<Rightarrow> stream_worker" where
  "stream_worker_start db =
     \<lparr>sw_worker = worker_start, sw_ingest = db, sw_backoff_secs = 1, sw_stopped = False\<rparr>"

definition is_static_worker_config_error :: "string \<Rightarrow> bool" where
  "is_static_worker_config_error message \<longleftrightarrow>
     contains_str message ''rpc_state connector missing calls configuration''
     \<or> contains_str message ''unsupported_connector_mode:''"

fun fault_message :: "fault \<Rightarrow> string" where
  "fault_message (Err m) = m"
| "fault_message (Panic m) = m"

definition loop_failed :: "surrounding \<Rightarrow> RuntimeStreamConfig \<Rightarrow> string \<Rightarrow> stream_worker \<Rightarrow> stream_worker" where
  "loop_failed S config message sw =
     (let (health, db) = report_source_health_failure S config (wk_health (sw_worker sw)) message (sw_ingest sw);
          reported = sw\<lparr>sw_worker := (sw_worker sw)\<lparr>wk_health := health\<rparr>, sw_ingest := db\<rparr>
      in if is_static_worker_config_error message then reported\<lparr>sw_stopped := True\<rparr>
         else reported\<lparr>sw_backoff_secs := min (2 * sw_backoff_secs sw) 30\<rparr>)"

datatype worker_input = Payload surrounding hints json | ConnectorFailed surrounding string

fun stream_worker_step :: "'a worker_libs_scheme \<Rightarrow> RuntimeStreamConfig \<Rightarrow> stream_worker \<Rightarrow> worker_input \<Rightarrow> stream_worker" where
  "stream_worker_step L config sw (Payload S hint payload) =
     (if sw_stopped sw then sw
      else
        (let (wk, db, r) = process_payload L S config hint payload (sw_worker sw) (sw_ingest sw);
             sw' = sw\<lparr>sw_worker := wk, sw_ingest := db\<rparr>
         in case r of Inr _ \<Rightarrow> sw' | Inl e \<Rightarrow> loop_failed S config (fault_message e) sw'))"
| "stream_worker_step L config sw (ConnectorFailed S message) =
     (if sw_stopped sw then sw else loop_failed S config message sw)"

end
