(* ===== verification/StreamSafety.thy ===== *)
theory StreamSafety
  imports StreamWorker
begin

text \<open>
  What the indexer promises about the events it publishes: at most one row per payload, every tenant at
  most once per key over all histories of all workers, as long as the row of the key is not purged, all
  tenants or none on success, and prices in dollars at a positive finite rate. The steps are whole payloads
  and purges: the statements of two workers on the same payload are not interleaved.
\<close>

section \<open>Logs whose entries claim their keys\<close>

text \<open>
  A system logs entries under a tag and a key. A step logs only keys that nobody had claimed before, each
  tag once, and claims them.
\<close>

locale claimed_log =
  fixes step :: "'s \<Rightarrow> 's \<Rightarrow> bool" and claimed :: "'s \<Rightarrow> 'k set" and entries :: "'s \<Rightarrow> ('t \<times> 'k) list"
  assumes claims_stay: "step s s' \<Longrightarrow> claimed s \<subseteq> claimed s'"
    and logs_fresh: "step s s' \<Longrightarrow> \<exists>new. entries s' = entries s @ new \<and> distinct new
          \<and> snd ` set new \<subseteq> claimed s' - claimed s"
begin

definition claims_ok :: "'s \<Rightarrow> bool" where
  "claims_ok s \<longleftrightarrow> distinct (entries s) \<and> snd ` set (entries s) \<subseteq> claimed s"

lemma step_ok: "step s s' \<Longrightarrow> claims_ok s \<Longrightarrow> claims_ok s'"
proof -
  assume st: "step s s'" and ok: "claims_ok s"
  obtain new where new: "entries s' = entries s @ new" "distinct new" "snd ` set new \<subseteq> claimed s' - claimed s"
    using logs_fresh [OF st] by blast
  then have "set (entries s) \<inter> set new = {}" using ok unfolding claims_ok_def by blast
  with new ok claims_stay [OF st] show "claims_ok s'" unfolding claims_ok_def by auto
qed

lemma reach_ok: "step\<^sup>*\<^sup>* s s' \<Longrightarrow> claims_ok s \<Longrightarrow> claims_ok s'"
  by (induction rule: rtranclp_induct) (auto intro: step_ok)

lemma reach_distinct: "step\<^sup>*\<^sup>* s s' \<Longrightarrow> claims_ok s \<Longrightarrow> distinct (entries s')"
  using reach_ok by (simp add: claims_ok_def)

text \<open>What is logged on the way was not claimed at its start.\<close>

lemma reach_fresh:
  "step\<^sup>*\<^sup>* s s' \<Longrightarrow> \<exists>new. entries s' = entries s @ new \<and> distinct new \<and> snd ` set new \<subseteq> claimed s' - claimed s"
proof (induction rule: rtranclp_induct)
  case (step t u)
  have ts: "claimed s \<subseteq> claimed t"
    using step(1) by (induction rule: rtranclp_induct) (auto dest: claims_stay)
  obtain a where a: "entries t = entries s @ a" "distinct a" "snd ` set a \<subseteq> claimed t - claimed s" using step.IH by blast
  obtain b where b: "entries u = entries t @ b" "distinct b" "snd ` set b \<subseteq> claimed u - claimed t"
    using logs_fresh [OF step(2)] by blast
  have "set a \<inter> set b = {}" using a(3) b(3) by blast
  moreover have "snd ` set (a @ b) \<subseteq> claimed u - claimed s" using a(3) b(3) ts claims_stay [OF step(2)] by auto
  ultimately show ?case using a b by (intro exI [of _ "a @ b"]) simp
qed simp

lemma reach_claims: "step\<^sup>*\<^sup>* s s' \<Longrightarrow> claimed s \<subseteq> claimed s'"
  by (induction rule: rtranclp_induct) (auto dest: claims_stay)

end

section \<open>Documents\<close>

lemma map_of_upsert: "map_of (upsert fs m) = map_of m ++ map_of (rev fs)"
proof (induction fs arbitrary: m)
  case (Cons f fs)
  obtain a v where f: "f = (a, v)" by (cases f)
  have "map_of (upsert (f # fs) m) = map_of (AList.update a v m) ++ map_of (rev fs)"
    using Cons [of "AList.update a v m"] by (simp add: upsert_def f)
  also have "\<dots> = map_of m ++ map_of (rev (f # fs))" by (simp add: update_conv' f map_add_assoc [symmetric])
  finally show ?case .
qed (simp add: upsert_def)

lemma map_of_raw_error [simp]: "k \<noteq> ''raw_landing_error'' \<Longrightarrow> map_of (raw_error_field landing) k = None"
  by (simp add: raw_error_field_def split: option.splits)

lemma map_of_some_field [simp]: "map_of (some_field a f x) k = (if a = k then map_option f x else None)"
  by (simp add: some_field_def split: option.splits)

lemma rev_short [simp]: "rev (raw_error_field landing) = raw_error_field landing" "rev (some_field a f x) = some_field a f x"
  by (simp_all add: raw_error_field_def some_field_def split: option.splits)

lemma enriched_key:
  "get_str (enrich_payload_for_unified config payload parsed (Some k) persisted landing is_simulated run_id) ''dedup_key'' = Some k"
  by (simp add: enrich_payload_for_unified_def get_str_def Let_def map_of_upsert map_add_def)

lemma enriched_persisted:
  "get_bool (enrich_payload_for_unified config payload parsed key persisted landing is_simulated run_id) ''ingest_persisted'' = Some persisted"
  by (simp add: enrich_payload_for_unified_def get_bool_def Let_def map_of_upsert map_add_def)

lemma dedup_key_always: "\<exists>k. build_dedup_key L config parsed payload hint = Some k"
  by (simp add: build_dedup_key_def Let_def split: prod.splits option.splits)

section \<open>Rows\<close>

definition first_tenant :: "RuntimeStreamConfig \<Rightarrow> string option" where
  "first_tenant config = (case rc_tenant_targets config of [] \<Rightarrow> None | t # _ \<Rightarrow> Some t)"

lemma conflicts_tenant [simp]: "conflicts (r\<lparr>io_tenant_id := t\<rparr>) = conflicts r"
  by (simp add: conflicts_def fun_eq_iff)

lemma conflicts_self: "io_dedup_key r = Some k \<Longrightarrow> conflicts q (r\<lparr>io_tenant_id := t\<rparr>) \<longleftrightarrow> conflicts q r"
  by (simp add: conflicts_def)

lemma insert_for_tenants_conflict:
  assumes "list_ex (conflicts r) (ig_rows db)" "insert_for_tenants S i tenants r db = (db', res)"
  shows "db' = db \<and> res \<noteq> Inr True"
  using assms
proof (induction tenants arbitrary: i res db')
  case (Cons t tenants)
  then show ?case
    by (auto simp: insert_ingest_operational_event_def split: if_splits prod.splits sum.splits)
qed auto

text \<open>One row at most, of the first tenant, and only if nothing in the table conflicts with it.\<close>

lemma insert_rows_cases:
  assumes run: "insert_rows S config r db = (db', res)" and key: "io_dedup_key r = Some k"
    and tenant: "io_tenant_id r = only_tenant config"
  shows "if list_ex (conflicts r) (ig_rows db) then db' = db \<and> res \<noteq> Inr True
         else db' = db \<and> (\<exists>e. res = Inl e)
            \<or> db' = db\<lparr>ig_rows := ig_rows db @ [r\<lparr>io_tenant_id := first_tenant config\<rparr>]\<rparr> \<and> (res = Inr True \<or> (\<exists>e. res = Inl e))"
proof (cases "1 < length (rc_tenant_targets config)")
  case True
  then obtain t ts where ts: "rc_tenant_targets config = t # ts" by (cases "rc_tenant_targets config") auto
  have run': "insert_for_tenants S 0 (t # ts) r db = (db', res)" using run True by (simp add: insert_rows_def ts)
  show ?thesis
  proof (cases "list_ex (conflicts r) (ig_rows db)")
    case conflict: True
    with insert_for_tenants_conflict [OF _ run'] show ?thesis by simp
  next
    case False
    let ?db1 = "db\<lparr>ig_rows := ig_rows db @ [r\<lparr>io_tenant_id := Some t\<rparr>]\<rparr>"
    have "list_ex (conflicts r) (ig_rows ?db1)" using key by (simp add: conflicts_def repeats_def)
    note rest = insert_for_tenants_conflict [OF this]
    show ?thesis
      using run' False rest
      by (auto simp: insert_ingest_operational_event_def first_tenant_def ts split: if_splits prod.splits sum.splits)
  qed
next
  case False
  then have "io_tenant_id r = first_tenant config"
    using tenant by (cases "rc_tenant_targets config") (auto simp: only_tenant_def first_tenant_def split: list.splits)
  then have "r\<lparr>io_tenant_id := first_tenant config\<rparr> = r" by simp
  with run False show ?thesis
    by (auto simp: insert_rows_def insert_ingest_operational_event_def split: if_splits)
qed

section \<open>What one payload does to the table and to the stream of events\<close>

definition published_key :: "UnifiedEvent \<Rightarrow> string option" where
  "published_key e = get_str (ue_payload e) ''dedup_key''"

text \<open>
  Nothing, or one new row and, for its key, an event for each of the stream's tenants, as far as the
  publications went through.
\<close>

definition payload_effect :: "RuntimeStreamConfig \<Rightarrow> ingest \<Rightarrow> ingest \<Rightarrow> unit res \<Rightarrow> bool" where
  "payload_effect config db db' res \<longleftrightarrow>
     ig_rows db' = ig_rows db \<and> ig_unified db' = ig_unified db
     \<or> (\<exists>r es. ig_rows db' = ig_rows db @ [r] \<and> ig_unified db' = ig_unified db @ es
          \<and> \<not> list_ex (conflicts r) (ig_rows db) \<and> io_dedup_key r \<noteq> None \<and> io_tenant_id r = first_tenant config
          \<and> prefix (map ue_tenant_id es) (rc_tenant_targets config)
          \<and> (res = Inr () \<longrightarrow> es = [] \<or> map ue_tenant_id es = rc_tenant_targets config)
          \<and> (\<forall>e \<in> set es. published_key e = io_dedup_key r \<and> ingest_persisted e \<and> ue_event_type e = io_event_type r))"

lemma no_effect: "payload_effect config db db res"
  by (simp add: payload_effect_def)

lemma effect_of_row:
  assumes "\<not> list_ex (conflicts r) (ig_rows db)" "io_dedup_key r \<noteq> None" "io_tenant_id r = first_tenant config"
    "ig_rows db' = ig_rows db @ [r]" "ig_unified db' = ig_unified db @ es" "prefix (map ue_tenant_id es) (rc_tenant_targets config)"
    "res = Inr () \<Longrightarrow> es = [] \<or> map ue_tenant_id es = rc_tenant_targets config"
    "\<And>e. e \<in> set es \<Longrightarrow> published_key e = io_dedup_key r \<and> ingest_persisted e \<and> ue_event_type e = io_event_type r"
  shows "payload_effect config db db' res"
  unfolding payload_effect_def using assms by blast

text \<open>Health and failure records are kept apart from rows and events.\<close>

lemma update_health_keeps [simp]:
  "ig_rows (fold (\<lambda>t. update_source_health S t s h e) ts db) = ig_rows db"
  "ig_unified (fold (\<lambda>t. update_source_health S t s h e) ts db) = ig_unified db"
  by (induction ts arbitrary: db) (simp_all add: update_source_health_def)

lemma report_success_keeps:
  "report_source_health_success S config state db = (state', db') \<Longrightarrow> ig_rows db' = ig_rows db \<and> ig_unified db' = ig_unified db"
  by (auto simp: report_source_health_success_def split: if_splits)

lemma report_failure_keeps:
  "report_source_health_failure S config state m db = (state', db') \<Longrightarrow> ig_rows db' = ig_rows db \<and> ig_unified db' = ig_unified db"
  by (auto simp: report_source_health_failure_def split: if_splits)

lemma record_failure_keeps [simp]:
  "ig_rows (record_ingest_failure S config payload m observed db) = ig_rows db"
  "ig_unified (record_ingest_failure S config payload m observed db) = ig_unified db"
  by (simp_all add: record_ingest_failure_def)

lemma publish_for_tenants_effect:
  assumes "publish_for_tenants S ev i ts db = (db', res)"
    and "\<And>i t. ue_tenant_id (ev i t) = t \<and> ue_payload (ev i t) = payload \<and> ue_event_type (ev i t) = ty"
  shows "\<exists>es. ig_rows db' = ig_rows db \<and> ig_unified db' = ig_unified db @ es \<and> prefix (map ue_tenant_id es) ts
    \<and> (res = Inr () \<longrightarrow> map ue_tenant_id es = ts) \<and> (\<forall>e \<in> set es. ue_payload e = payload \<and> ue_event_type e = ty)"
  using assms(1)
proof (induction ts arbitrary: i db)
  case (Cons t ts)
  show ?case
  proof (cases "we_fails S (PublishUnified i)")
    case True
    then show ?thesis using Cons.prems by (auto intro!: exI [of _ "[]"])
  next
    case False
    then have "publish_for_tenants S ev (Suc i) ts (db\<lparr>ig_unified := ig_unified db @ [ev i t]\<rparr>) = (db', res)"
      using Cons.prems by simp
    from Cons.IH [OF this] obtain es where "ig_rows db' = ig_rows db" "ig_unified db' = ig_unified db @ ev i t # es"
      "prefix (map ue_tenant_id es) ts" "res = Inr () \<longrightarrow> map ue_tenant_id es = ts" "\<forall>e \<in> set es. ue_payload e = payload \<and> ue_event_type e = ty"
      by auto
    then show ?thesis using assms(2) by (intro exI [of _ "ev i t # es"]) auto
  qed
qed simp

lemma fanout_effect:
  assumes "fanout_unified_events S config payload parsed (Some k) True landing sim run_id db = (db', res)"
  shows "\<exists>es. ig_rows db' = ig_rows db \<and> ig_unified db' = ig_unified db @ es
    \<and> prefix (map ue_tenant_id es) (rc_tenant_targets config)
    \<and> (res = Inr () \<longrightarrow> map ue_tenant_id es = rc_tenant_targets config)
    \<and> (\<forall>e \<in> set es. published_key e = Some k \<and> ingest_persisted e \<and> ue_event_type e = pf_event_type parsed)"
proof -
  let ?p = "enrich_payload_for_unified config payload parsed (Some k) True landing sim run_id"
  have "\<exists>es. ig_rows db' = ig_rows db \<and> ig_unified db' = ig_unified db @ es \<and> prefix (map ue_tenant_id es) (rc_tenant_targets config)
    \<and> (res = Inr () \<longrightarrow> map ue_tenant_id es = rc_tenant_targets config) \<and> (\<forall>e \<in> set es. ue_payload e = ?p \<and> ue_event_type e = pf_event_type parsed)"
    by (rule publish_for_tenants_effect [OF assms [unfolded fanout_unified_events_def Let_def]]) (simp add: unified_event_def)
  then obtain es where "ig_rows db' = ig_rows db" "ig_unified db' = ig_unified db @ es"
    "prefix (map ue_tenant_id es) (rc_tenant_targets config)"
    "res = Inr () \<longrightarrow> map ue_tenant_id es = rc_tenant_targets config"
    "\<forall>e \<in> set es. ue_payload e = ?p \<and> ue_event_type e = pf_event_type parsed" by blast
  then show ?thesis
    by (intro exI [of _ es]) (simp add: published_key_def ingest_persisted_def enriched_key enriched_persisted)
qed

lemma store_and_publish_effect:
  assumes "store_and_publish L S config hint payload nz health db = (health', db', res)"
  shows "payload_effect config db db' res"
proof -
  obtain sim run_id where meta: "effective_simulation_metadata payload (hi_run_id hint) = (sim, run_id)" by (rule prod.exhaust)
  obtain k where k: "build_dedup_key L config (nz_parsed nz) payload (hi_run_id hint) = Some k" using dedup_key_always by blast
  define landing where "landing = start_raw_landing S (to_source_envelope L S config (nz_parsed nz) (nz_payload nz) (Some k) sim run_id)"
  define annotated where "annotated = (nz_parsed nz)\<lparr>pf_normalized_fields :=
      annotate_ingestion_meta ''realtime'' landing (pf_normalized_fields (nz_parsed nz))\<rparr>"
  define row where "row = to_operational_record config annotated (nz_payload nz) (Some k) (nz_parse_status nz)
      (nz_parse_error nz) (ro_pointer landing) sim run_id"
  obtain db1 ins where ins: "insert_rows S config row db = (db1, ins)" by (rule prod.exhaust)
  have row: "io_dedup_key row = Some k" "io_tenant_id row = only_tenant config" "io_event_type row = pf_event_type annotated" by (simp_all add: row_def to_operational_record_def)
  note run = assms [unfolded store_and_publish_def Let_def meta prod.case k landing_def [symmetric] annotated_def [symmetric] row_def [symmetric] ins]
  note cases = insert_rows_cases [OF ins row(1,2)]
  show ?thesis
  proof (cases "missing_raw_landing S landing")
    case True
    then show ?thesis using run by (simp add: no_effect)
  next
    case False
    show ?thesis
    proof (cases "list_ex (conflicts row) (ig_rows db)")
      case True
      then have "db1 = db" "ins \<noteq> Inr True" using cases by simp_all
      then show ?thesis using run False by (auto simp: no_effect split: sum.splits)
    next
      case fresh: False
      define r where "r = row\<lparr>io_tenant_id := first_tenant config\<rparr>"
      have r: "\<not> list_ex (conflicts r) (ig_rows db)" "io_dedup_key r = Some k" "io_dedup_key r \<noteq> None" "io_tenant_id r = first_tenant config"
        "io_event_type r = pf_event_type annotated"
        using fresh row by (simp_all add: r_def)
      from fresh cases have "(db1 = db \<and> (\<exists>e. ins = Inl e)) \<or> (db1 = db\<lparr>ig_rows := ig_rows db @ [r]\<rparr> \<and> (ins = Inr True \<or> (\<exists>e. ins = Inl e)))"
        by (simp add: r_def)
      then consider e where "db1 = db" "ins = Inl e" | e where "db1 = db\<lparr>ig_rows := ig_rows db @ [r]\<rparr>" "ins = Inl e"
        | "db1 = db\<lparr>ig_rows := ig_rows db @ [r]\<rparr>" "ins = Inr True" by blast
      then show ?thesis
      proof cases
        case 1
        then show ?thesis using run False by (simp add: no_effect)
      next
        case 2
        then have "db' = db1" using run False by simp
        then show ?thesis using 2 r by (intro effect_of_row [of r _ _ _ "[]"]) simp_all
      next
        case 3
        obtain db2 out where out: "(if nz_should_fanout nz then fanout_unified_events S config (nz_payload nz) annotated (Some k) True landing
            sim run_id db1 else (db1, Inr ())) = (db2, out)" by (rule prod.exhaust)
        have "\<exists>es. ig_rows db2 = ig_rows db1 \<and> ig_unified db2 = ig_unified db1 @ es
            \<and> prefix (map ue_tenant_id es) (rc_tenant_targets config)
            \<and> (out = Inr () \<longrightarrow> es = [] \<or> map ue_tenant_id es = rc_tenant_targets config)
            \<and> (\<forall>e \<in> set es. published_key e = Some k \<and> ingest_persisted e \<and> ue_event_type e = pf_event_type annotated)"
        proof (cases "nz_should_fanout nz")
          case True
          then show ?thesis using out fanout_effect by (metis (full_types))
        next
          case False
          then show ?thesis using out by (intro exI [of _ "[]"]) simp
        qed
        then obtain es where es: "ig_rows db2 = ig_rows db1" "ig_unified db2 = ig_unified db1 @ es"
            "prefix (map ue_tenant_id es) (rc_tenant_targets config)"
            "out = Inr () \<longrightarrow> es = [] \<or> map ue_tenant_id es = rc_tenant_targets config"
            "\<forall>e \<in> set es. published_key e = Some k \<and> ingest_persisted e \<and> ue_event_type e = pf_event_type annotated" by blast
        have "ig_rows db' = ig_rows db2 \<and> ig_unified db' = ig_unified db2 \<and> (res = Inr () \<longrightarrow> out = Inr ())"
          using run False 3 out by (auto dest: report_success_keeps split: sum.splits prod.splits)
        with es 3 r show ?thesis by (intro effect_of_row [of r _ _ _ es]) simp_all
      qed
    qed
  qed
qed

lemma ingest_parsed_effect:
  assumes "ingest_parsed L S config hint payload found wk db = (wk', db', res)"
  shows "payload_effect config db db' res"
  using assms
  by (auto simp: ingest_parsed_def Let_def split: prod.splits sum.splits if_splits
           intro: no_effect store_and_publish_effect)

lemma ingest_unparsed_effect:
  assumes "ingest_unparsed L S config hint payload m wk db = (wk', db', res)"
  shows "payload_effect config db db' res"
proof -
  define observed where "observed = unwrap_or (accelerated_simulation_timestamp L payload (hi_run_id hint)) (we_now S)"
  define k where "k = hash_payload_only L config payload observed (hi_run_id hint)"
  define landing where "landing = start_raw_landing S (unparsed_envelope L S config hint payload observed k)"
  define row where "row = unparsed_row config hint payload observed k m landing"
  obtain db1 ins where ins: "insert_rows S config row db = (db1, ins)" by (rule prod.exhaust)
  have row: "io_dedup_key row = Some k" "io_tenant_id row = only_tenant config" by (simp_all add: row_def unparsed_row_def split_beta)
  note run = assms [unfolded ingest_unparsed_def Let_def observed_def [symmetric] k_def [symmetric] landing_def [symmetric] row_def [symmetric] ins]
  have same: "ig_unified db1 = ig_unified db" "ig_rows db1 = ig_rows db
      \<or> \<not> list_ex (conflicts row) (ig_rows db) \<and> ig_rows db1 = ig_rows db @ [row\<lparr>io_tenant_id := first_tenant config\<rparr>]"
    using insert_rows_cases [OF ins row] by (auto split: if_splits)
  have "ig_rows db' = ig_rows db \<and> ig_unified db' = ig_unified db \<or> ig_rows db' = ig_rows db1 \<and> ig_unified db' = ig_unified db1"
    using run by (auto dest: report_success_keeps split: if_splits sum.splits prod.splits)
  with same show ?thesis
    using row effect_of_row [of "row\<lparr>io_tenant_id := first_tenant config\<rparr>" db config db' "[]" res]
    by (auto simp: payload_effect_def [of config db db' res])
qed

lemma process_payload_effect:
  assumes "process_payload L S config hint payload wk db = (wk', db', res)"
  shows "payload_effect config db db' res"
  using assms by (auto simp: process_payload_def intro: ingest_parsed_effect ingest_unparsed_effect split: sum.splits)

section \<open>All workers, over one table\<close>

record fleet =
  fl_workers :: "string \<Rightarrow> stream_worker"
  fl_ingest :: ingest

text \<open>
  The worker of a stream gets an input, or the supervisor starts it anew; and the supervisor's purge tick, with
  the retention that is configured.
\<close>

datatype fleet_event =
    Input string worker_input
  | Restart string
  | PurgeTick "IngestOperationalEventRecord \<Rightarrow> datetime" datetime int

fun fleet_step :: "'a worker_libs_scheme \<Rightarrow> (string \<Rightarrow> RuntimeStreamConfig) \<Rightarrow> fleet \<Rightarrow> fleet_event \<Rightarrow> fleet" where
  "fleet_step L configs fl (Input i input) =
     (let sw = stream_worker_step L (configs i) ((fl_workers fl i)\<lparr>sw_ingest := fl_ingest fl\<rparr>) input
      in \<lparr>fl_workers = (fl_workers fl)(i := sw), fl_ingest = sw_ingest sw\<rparr>)"
| "fleet_step L configs fl (Restart i) = fl\<lparr>fl_workers := (fl_workers fl)(i := stream_worker_start (fl_ingest fl))\<rparr>"
| "fleet_step L configs fl (PurgeTick created_at db_now retention_seconds) =
     fl\<lparr>fl_ingest := fst (purge_old_tick_events created_at db_now retention_seconds (fl_ingest fl))\<rparr>"

definition fleet_start :: fleet where
  "fleet_start =
     (let db = \<lparr>ig_rows = [], ig_unified = [], ig_health = (\<lambda>_. None), ig_failures = []\<rparr>
      in \<lparr>fl_workers = (\<lambda>_. stream_worker_start db), fl_ingest = db\<rparr>)"

lemma loop_failed_keeps:
  "ig_rows (sw_ingest (loop_failed S config m sw)) = ig_rows (sw_ingest sw)"
  "ig_unified (sw_ingest (loop_failed S config m sw)) = ig_unified (sw_ingest sw)"
  by (auto simp: loop_failed_def Let_def split: prod.split dest: report_failure_keeps)

lemma effect_of_same:
  "payload_effect config db db1 res \<Longrightarrow> ig_rows db2 = ig_rows db1 \<Longrightarrow> ig_unified db2 = ig_unified db1 \<Longrightarrow> payload_effect config db db2 res"
  by (simp add: payload_effect_def)

lemma stream_worker_step_effect: "\<exists>res. payload_effect config (sw_ingest sw) (sw_ingest (stream_worker_step L config sw input)) res"
proof (cases input)
  case (Payload S hint payload)
  obtain wk db res where r: "process_payload L S config hint payload (sw_worker sw) (sw_ingest sw) = (wk, db, res)"
    by (rule prod_cases3)
  let ?db = "sw_ingest (stream_worker_step L config sw input)"
  have "ig_rows ?db = ig_rows db \<and> ig_unified ?db = ig_unified db \<or> ?db = sw_ingest sw"
    using r by (simp add: Payload Let_def loop_failed_keeps split: sum.split)
  then show ?thesis using effect_of_same [OF process_payload_effect [OF r]] no_effect by metis
next
  case (ConnectorFailed S m)
  then show ?thesis by (auto simp: payload_effect_def loop_failed_keeps)
qed

text \<open>Every step is the effect of a payload of a stream, or a purge.\<close>

lemma fleet_step_cases:
  obtains (payload) i res where "payload_effect (configs i) (fl_ingest fl) (fl_ingest (fleet_step L configs fl ev)) res"
  | (purge) created_at db_now secs where "ev = PurgeTick created_at db_now secs"
      "ig_rows (fl_ingest (fleet_step L configs fl ev)) = filter (\<lambda>r. \<not> old_tick created_at db_now secs r) (ig_rows (fl_ingest fl))"
      "ig_unified (fl_ingest (fleet_step L configs fl ev)) = ig_unified (fl_ingest fl)"
proof (cases ev)
  case (Input i input)
  then show ?thesis
    using stream_worker_step_effect [of "configs i" "(fl_workers fl i)\<lparr>sw_ingest := fl_ingest fl\<rparr>" L input] that(1)
    by (auto simp: Let_def)
next
  case (Restart i)
  then show ?thesis using that(1) [of i] no_effect by simp
next
  case (PurgeTick created_at db_now secs)
  then show ?thesis using that(2) by (simp add: purge_old_tick_events_def Let_def)
qed

definition is_tick :: "string \<Rightarrow> bool" where
  "is_tick event_type \<longleftrightarrow> event_type \<in> {''quote'', ''trade''}"

definition table_keys :: "(string \<Rightarrow> bool) \<Rightarrow> ingest \<Rightarrow> string option set" where
  "table_keys P db = io_dedup_key ` {r \<in> set (ig_rows db). P (io_event_type r)}"

definition publications :: "(string \<Rightarrow> bool) \<Rightarrow> ingest \<Rightarrow> (string \<times> string option) list" where
  "publications P db = map (\<lambda>e. (ue_tenant_id e, published_key e)) (filter (\<lambda>e. P (ue_event_type e)) (ig_unified db))"

lemma payload_logs_fresh:
  assumes eff: "payload_effect config db db' res" and d: "distinct (rc_tenant_targets config)"
  shows "table_keys P db \<subseteq> table_keys P db'"
    and "\<exists>new. publications P db' = publications P db @ new \<and> distinct new \<and> snd ` set new \<subseteq> table_keys P db' - table_keys P db"
proof -
  show "table_keys P db \<subseteq> table_keys P db'"
    using eff by (auto simp: payload_effect_def table_keys_def)
  show "\<exists>new. publications P db' = publications P db @ new \<and> distinct new \<and> snd ` set new \<subseteq> table_keys P db' - table_keys P db"
    using eff unfolding payload_effect_def
  proof (elim disjE exE conjE)
    assume "ig_rows db' = ig_rows db" "ig_unified db' = ig_unified db"
    then show ?thesis by (simp add: publications_def)
  next
    fix r es
    assume r: "ig_rows db' = ig_rows db @ [r]" "ig_unified db' = ig_unified db @ es" "\<not> list_ex (conflicts r) (ig_rows db)"
      "io_dedup_key r \<noteq> None" "prefix (map ue_tenant_id es) (rc_tenant_targets config)"
      "\<forall>e \<in> set es. published_key e = io_dedup_key r \<and> ingest_persisted e \<and> ue_event_type e = io_event_type r"
    let ?new = "map (\<lambda>e. (ue_tenant_id e, published_key e)) (filter (\<lambda>e. P (ue_event_type e)) es)"
    have "distinct (map ue_tenant_id es)" using r(5) d by (auto simp: prefix_def)
    then have "distinct ?new"
      by (auto simp: distinct_map inj_on_def)
    moreover have "io_dedup_key r \<notin> table_keys P db"
      using r(3,4) by (auto simp: table_keys_def list_ex_iff conflicts_def repeats_def)
    moreover have "snd ` set ?new \<subseteq> (if P (io_event_type r) then {io_dedup_key r} else {})" using r(6) by auto
    moreover have "table_keys P db' = (if P (io_event_type r) then {io_dedup_key r} else {}) \<union> table_keys P db"
      using r(1) by (auto simp: table_keys_def)
    ultimately have "snd ` set ?new \<subseteq> table_keys P db' - table_keys P db" "distinct ?new" by (auto simp del: set_map split: if_splits)
    then show ?thesis using r(2) by (intro exI [of _ ?new]) (simp add: publications_def)
  qed
qed

text \<open>Without a purge the rows claim their keys; with purges those do that are neither quotes nor trades.\<close>

definition payload_moves :: "ingest \<Rightarrow> ingest \<Rightarrow> bool" where
  "payload_moves db db' \<longleftrightarrow> (\<exists>config res. distinct (rc_tenant_targets config) \<and> payload_effect config db db' res)"

definition fleet_moves :: "ingest \<Rightarrow> ingest \<Rightarrow> bool" where
  "fleet_moves db db' \<longleftrightarrow> payload_moves db db' \<or> (\<exists>created_at db_now secs.
     ig_rows db' = filter (\<lambda>r. \<not> old_tick created_at db_now secs r) (ig_rows db) \<and> ig_unified db' = ig_unified db)"

interpretation payload_log: claimed_log payload_moves "table_keys (\<lambda>_. True)" "publications (\<lambda>_. True)"
  by unfold_locales (auto simp: payload_moves_def dest: payload_logs_fresh)

interpretation fleet_log: claimed_log fleet_moves "table_keys (\<lambda>ty. \<not> is_tick ty)" "publications (\<lambda>ty. \<not> is_tick ty)"
proof
  fix db db' assume "fleet_moves db db'"
  then consider (payload) "payload_moves db db'" | (purge) created_at db_now secs where
    "ig_rows db' = filter (\<lambda>r. \<not> old_tick created_at db_now secs r) (ig_rows db)" "ig_unified db' = ig_unified db"
    unfolding fleet_moves_def by blast
  then show "table_keys (\<lambda>ty. \<not> is_tick ty) db \<subseteq> table_keys (\<lambda>ty. \<not> is_tick ty) db'"
    and "\<exists>new. publications (\<lambda>ty. \<not> is_tick ty) db' = publications (\<lambda>ty. \<not> is_tick ty) db @ new \<and> distinct new
      \<and> snd ` set new \<subseteq> table_keys (\<lambda>ty. \<not> is_tick ty) db' - table_keys (\<lambda>ty. \<not> is_tick ty) db"
  proof (atomize (full), cases)
    case payload
    then show "table_keys (\<lambda>ty. \<not> is_tick ty) db \<subseteq> table_keys (\<lambda>ty. \<not> is_tick ty) db'
      \<and> (\<exists>new. publications (\<lambda>ty. \<not> is_tick ty) db' = publications (\<lambda>ty. \<not> is_tick ty) db @ new \<and> distinct new
      \<and> snd ` set new \<subseteq> table_keys (\<lambda>ty. \<not> is_tick ty) db' - table_keys (\<lambda>ty. \<not> is_tick ty) db)"
      using payload_logs_fresh unfolding payload_moves_def by blast
  next
    case purge
    then show "table_keys (\<lambda>ty. \<not> is_tick ty) db \<subseteq> table_keys (\<lambda>ty. \<not> is_tick ty) db'
      \<and> (\<exists>new. publications (\<lambda>ty. \<not> is_tick ty) db' = publications (\<lambda>ty. \<not> is_tick ty) db @ new \<and> distinct new
      \<and> snd ` set new \<subseteq> table_keys (\<lambda>ty. \<not> is_tick ty) db' - table_keys (\<lambda>ty. \<not> is_tick ty) db)"
      by (auto simp: table_keys_def publications_def old_tick_def is_tick_def)
  qed
qed

lemma fleet_step_moves:
  assumes "\<And>i. distinct (rc_tenant_targets (configs i))"
  shows "fleet_moves (fl_ingest fl) (fl_ingest (fleet_step L configs fl ev))"
  using assms by (cases rule: fleet_step_cases [where configs = configs and fl = fl and L = L and ev = ev])
    (unfold fleet_moves_def payload_moves_def, blast+)

lemma payload_step_moves:
  assumes "\<And>i. distinct (rc_tenant_targets (configs i))" "\<And>created_at db_now secs. ev \<noteq> PurgeTick created_at db_now secs"
  shows "payload_moves (fl_ingest fl) (fl_ingest (fleet_step L configs fl ev))"
  using assms by (cases rule: fleet_step_cases [where configs = configs and fl = fl and L = L and ev = ev])
    (unfold payload_moves_def, blast+)

lemma fleet_history:
  assumes "\<And>i. distinct (rc_tenant_targets (configs i))"
  shows "fleet_moves\<^sup>*\<^sup>* (fl_ingest fl) (fl_ingest (foldl (fleet_step L configs) fl history))"
    and "(\<And>created_at db_now secs. PurgeTick created_at db_now secs \<notin> set history)
      \<Longrightarrow> payload_moves\<^sup>*\<^sup>* (fl_ingest fl) (fl_ingest (foldl (fleet_step L configs) fl history))"
proof (induction history rule: rev_induct)
  case (snoc ev history)
  let ?fl = "foldl (fleet_step L configs) fl history"
  { case 1 then show ?case using snoc.IH(1) fleet_step_moves [where configs = configs and fl = ?fl and L = L and ev = ev, OF assms] by (simp add: rtranclp.rtrancl_into_rtrancl) }
  { case 2
    then have "payload_moves\<^sup>*\<^sup>* (fl_ingest fl) (fl_ingest ?fl)" using snoc.IH(2) by simp
    moreover have "payload_moves (fl_ingest ?fl) (fl_ingest (fleet_step L configs ?fl ev))" by (rule payload_step_moves) (use assms 2 in auto)
    ultimately show ?case by simp }
qed simp_all

section \<open>At most once\<close>

text \<open>
  (C29) Where the tenants of each stream are distinct, each of them gets at most one event for a key, over
  every history of payloads, failures and restarts of all workers and of purges, if the event is neither
  a quote nor a trade. Of quotes and trades each tenant gets at most one for a key between two purges,
  and none for a key that is then in the table: a purge forgets the keys of the rows it deletes,
  and the same message is published again if it comes again.
\<close>

theorem published_at_most_once:
  assumes "\<And>i. distinct (rc_tenant_targets (configs i))"
    and "\<And>created_at db_now secs. PurgeTick created_at db_now secs \<notin> set later"
  shows "let before = fl_ingest (foldl (fleet_step L configs) fleet_start history);
             after = fl_ingest (foldl (fleet_step L configs) fleet_start (history @ later));
             key = (\<lambda>e. (ue_tenant_id e, published_key e))
     in distinct (map key (filter (\<lambda>e. ue_event_type e \<notin> {''quote'', ''trade''}) (ig_unified after)))
      \<and> (\<exists>new. map key (ig_unified after) = map key (ig_unified before) @ new \<and> distinct new
           \<and> (\<forall>r \<in> set (ig_rows before). io_dedup_key r \<notin> snd ` set new))"
proof -
  let ?before = "foldl (fleet_step L configs) fleet_start history"
  have all: "distinct (publications (\<lambda>ty. \<not> is_tick ty) (fl_ingest (foldl (fleet_step L configs) fleet_start (history @ later))))"
    by (rule fleet_log.reach_distinct [OF fleet_history(1)])
       (use assms in \<open>auto simp: fleet_log.claims_ok_def publications_def fleet_start_def Let_def\<close>)
  have "payload_moves\<^sup>*\<^sup>* (fl_ingest ?before) (fl_ingest (foldl (fleet_step L configs) ?before later))"
    by (rule fleet_history(2)) (use assms in auto)
  from payload_log.reach_fresh [OF this] all show ?thesis
    by (fastforce simp: publications_def table_keys_def is_tick_def Let_def)
qed

fun spares :: "IngestOperationalEventRecord \<Rightarrow> fleet_event \<Rightarrow> bool" where
  "spares r (PurgeTick created_at db_now retention_seconds) \<longleftrightarrow> \<not> old_tick created_at db_now retention_seconds r"
| "spares r _ \<longleftrightarrow> True"

lemma decided_step:
  assumes "r \<in> set (ig_rows (fl_ingest fl))" "spares r ev"
  shows "r \<in> set (ig_rows (fl_ingest (fleet_step L configs fl ev)))
    \<and> filter (\<lambda>e. published_key e = io_dedup_key r) (ig_unified (fl_ingest (fleet_step L configs fl ev)))
      = filter (\<lambda>e. published_key e = io_dedup_key r) (ig_unified (fl_ingest fl))"
proof (cases rule: fleet_step_cases [where configs = configs and fl = fl and L = L and ev = ev])
  case (payload i res)
  then show ?thesis unfolding payload_effect_def
  proof (elim disjE exE conjE)
    fix q es
    assume q: "ig_rows (fl_ingest (fleet_step L configs fl ev)) = ig_rows (fl_ingest fl) @ [q]"
      "ig_unified (fl_ingest (fleet_step L configs fl ev)) = ig_unified (fl_ingest fl) @ es"
      "\<not> list_ex (conflicts q) (ig_rows (fl_ingest fl))" "io_dedup_key q \<noteq> None"
      "\<forall>e \<in> set es. published_key e = io_dedup_key q \<and> ingest_persisted e \<and> ue_event_type e = io_event_type q"
    have "io_dedup_key q \<noteq> io_dedup_key r"
      using q(3,4) assms(1) by (auto simp: list_ex_iff conflicts_def repeats_def)
    then show ?thesis using q assms(1) by (auto simp: filter_empty_conv)
  qed (use assms(1) in auto)
qed (use assms in auto)

text \<open>
  (C38) What is in the table is decided for as long as it stays there: no event is published again under the
  key of a row, whatever payloads, failures and restarts follow, and whatever purges that spare the row; a
  purge only deletes old quotes and trades. Until then an event that was stored but whose publication
  failed is not published.
\<close>

theorem stored_keys_are_decided:
  assumes "r \<in> set (ig_rows (fl_ingest fl))" "list_all (spares r) history"
  shows "filter (\<lambda>e. published_key e = io_dedup_key r) (ig_unified (fl_ingest (foldl (fleet_step L configs) fl history)))
       = filter (\<lambda>e. published_key e = io_dedup_key r) (ig_unified (fl_ingest fl))"
  using assms
proof (induction history arbitrary: fl)
  case (Cons ev history)
  then show ?case using decided_step [of r fl ev L configs] by simp
qed simp

text \<open>
  (C31) The detector stores no event of the indexer a second time: whatever the history, the registry
  goes straight to its patterns.
\<close>

theorem detector_keeps_indexed_events_as_stored:
  assumes "e \<in> set (ig_unified (fl_ingest (foldl (fleet_step L configs) fleet_start history)))"
  shows "registry_process_event process en wall e ps w = dispatch process en e (analysis_time wall e) ps w"
proof -
  have "\<forall>e \<in> set (ig_unified (fl_ingest (foldl (fleet_step L configs) fleet_start history))). ingest_persisted e"
  proof (induction history rule: rev_induct)
    case (snoc ev history)
    show ?case
    proof (cases rule: fleet_step_cases [where configs = configs and fl = "foldl (fleet_step L configs) fleet_start history" and L = L and ev = ev])
      case (payload i res)
      then show ?thesis using snoc by (auto simp: payload_effect_def)
    next
      case (purge created_at db_now secs)
      then show ?thesis using snoc by simp
    qed
  qed (simp add: fleet_start_def Let_def)
  with assms show ?thesis by (simp add: registry_process_event_def)
qed

section \<open>What becomes of one payload\<close>

lemma override_event_id [simp]: "pf_event_id (apply_runtime_field_mapping_overrides L config payload parsed) = pf_event_id parsed"
  unfolding apply_runtime_field_mapping_overrides_def Let_def by (simp split: option.split)

lemma inverted_event_id [simp]: "pf_event_id (apply_inverted_price_override config parsed) = pf_event_id parsed"
  unfolding apply_inverted_price_override_def Let_def
  by (cases "Option.bind (pf_price parsed) positive_finite") (simp_all split: option.split)

lemma accelerated_event_id [simp]: "pf_event_id (apply_accelerated_simulation_timestamp L payload hint parsed) = pf_event_id parsed"
  by (simp add: apply_accelerated_simulation_timestamp_def split: option.split)

lemma prepared_event_id [simp]: "pf_event_id (prepare_parsed L config hint payload parsed) = pf_event_id parsed"
  by (simp add: prepare_parsed_def)

lemma normalized_event_id:
  "apply_usdt_normalization S db parsed payload cache = (cache', Inr nz) \<Longrightarrow> pf_event_id (nz_parsed nz) = pf_event_id parsed"
  by (auto simp: apply_usdt_normalization_def normalized_with_def upsert_normalized_def Let_def
      split: option.splits if_splits prod.splits sum.splits)

lemma truth_event_id:
  "apply_market_truth_context S db config parsed payload = Inr (parsed', payload') \<Longrightarrow> pf_event_id parsed' = pf_event_id parsed"
  by (auto simp: apply_market_truth_context_def upsert_normalized_def bind_res_def split: option.splits sum.splits)

lemma store_known_event_id:
  assumes run: "store_and_publish L S config hint payload nz health db = (health', db', res)"
    and x: "scoped_simulation_event_id (pf_event_id (nz_parsed nz)) (snd (effective_simulation_metadata payload (hi_run_id hint))) = Some x"
    and q: "q \<in> set (ig_rows db)" "io_event_id q = Some x"
  shows "db' = db"
proof -
  obtain sim run_id where meta: "effective_simulation_metadata payload (hi_run_id hint) = (sim, run_id)" by (rule prod.exhaust)
  obtain k where k: "build_dedup_key L config (nz_parsed nz) payload (hi_run_id hint) = Some k" using dedup_key_always by blast
  define landing where "landing = start_raw_landing S (to_source_envelope L S config (nz_parsed nz) (nz_payload nz) (Some k) sim run_id)"
  define row where "row = to_operational_record config ((nz_parsed nz)\<lparr>pf_normalized_fields :=
      annotate_ingestion_meta ''realtime'' landing (pf_normalized_fields (nz_parsed nz))\<rparr>) (nz_payload nz) (Some k) (nz_parse_status nz)
      (nz_parse_error nz) (ro_pointer landing) sim run_id"
  obtain db1 ins where ins: "insert_rows S config row db = (db1, ins)" by (rule prod.exhaust)
  have row: "io_dedup_key row = Some k" "io_tenant_id row = only_tenant config" "io_event_id row = Some x"
    using x meta by (simp_all add: row_def to_operational_record_def)
  have "conflicts row q" using q(2) row(3) by (simp add: conflicts_def repeats_def)
  with q(1) have "list_ex (conflicts row) (ig_rows db)" by (auto simp: list_ex_iff)
  with insert_rows_cases [OF ins row(1,2)] have "db1 = db" "ins \<noteq> Inr True" by simp_all
  then show ?thesis
    using run [unfolded store_and_publish_def Let_def meta prod.case k landing_def [symmetric] row_def [symmetric] ins]
    by (auto split: if_splits sum.splits)
qed

text \<open>
  (C37) Event identifiers are unique over all streams and tenants: a payload whose identifier is already in
  the table leaves no row and no event, even if the row is another stream's. Exchanges number the messages
  of each connection from the start, so that after a reconnection, or on a second stream, quotes are dropped.
\<close>

theorem known_event_ids_are_dropped:
  assumes "parse_payload L (we_now S) (parser_input config) payload = Inr found"
    and "scoped_simulation_event_id (pf_event_id found) (snd (effective_simulation_metadata payload (hi_run_id hint))) = Some x"
    and "q \<in> set (ig_rows db)" "io_event_id q = Some x"
    and "process_payload L S config hint payload wk db = (wk', db', res)"
  shows "db' = db"
proof -
  have run: "ingest_parsed L S config hint payload found wk db = (wk', db', res)"
    using assms(1,5) by (simp add: process_payload_def)
  show ?thesis
  proof (rule ccontr)
    assume "db' \<noteq> db"
    then obtain quotes cache nz parsed' payload' health where
      "apply_usdt_normalization S db (prepare_parsed L config hint payload found) payload quotes = (cache, Inr nz)"
      "apply_market_truth_context S db config (nz_parsed nz) (nz_payload nz) = Inr (parsed', payload')"
      "store_and_publish L S config hint payload (nz\<lparr>nz_parsed := parsed', nz_payload := payload'\<rparr>) health db
         = (wk_health wk', db', res)"
      using run by (auto simp: ingest_parsed_def Let_def split: prod.splits sum.splits if_splits)
    from store_known_event_id [OF this(3), of x q] truth_event_id [OF this(2)] normalized_event_id [OF this(1)]
      assms(2-4) \<open>db' \<noteq> db\<close> show False by simp
  qed
qed

text \<open>With no failure the row of a parsed event is new only together with an event for every tenant.\<close>

lemma publish_all:
  assumes "\<And>f. \<not> we_fails S f"
  shows "publish_for_tenants S ev i ts db = (db\<lparr>ig_unified := ig_unified db @ map (\<lambda>(j, t). ev j t) (enumerate i ts)\<rparr>, Inr ())"
  using assms by (induction ts arbitrary: i db) simp_all

lemma insert_rows_ok:
  assumes "\<And>f. \<not> we_fails S f"
  shows "\<exists>b. snd (insert_rows S config r db) = Inr b"
proof -
  have "\<exists>b. snd (insert_for_tenants S i ts r db) = Inr b" for i ts
    using assms
    by (induction ts arbitrary: i db) (auto simp: insert_ingest_operational_event_def split: prod.splits sum.splits; metis snd_conv sum.distinct(1))+
  then show ?thesis using assms by (auto simp: insert_rows_def insert_ingest_operational_event_def)
qed

text \<open>A row of the table is an event for every tenant, unless it has no price in dollars or could not be read.\<close>

definition reached_all :: "RuntimeStreamConfig \<Rightarrow> ingest \<Rightarrow> ingest \<Rightarrow> bool" where
  "reached_all config db db' \<longleftrightarrow>
     ig_rows db' = ig_rows db \<and> ig_unified db' = ig_unified db
     \<or> (\<exists>r es. ig_rows db' = ig_rows db @ [r] \<and> ig_unified db' = ig_unified db @ es
          \<and> map ue_tenant_id es = (if io_parse_status r = ''parsed'' then rc_tenant_targets config else []))"

lemma store_reaches_all:
  assumes ok: "\<And>f. \<not> we_fails S f" "\<not> we_raw_required S" and out: "nz_should_fanout nz \<longleftrightarrow> nz_parse_status nz = ''parsed''"
    and run: "store_and_publish L S config hint payload nz health db = (health', db', res)"
  shows "res = Inr () \<and> reached_all config db db'"
proof -
  obtain sim run_id where meta: "effective_simulation_metadata payload (hi_run_id hint) = (sim, run_id)" by (rule prod.exhaust)
  obtain k where k: "build_dedup_key L config (nz_parsed nz) payload (hi_run_id hint) = Some k" using dedup_key_always by blast
  define landing where "landing = start_raw_landing S (to_source_envelope L S config (nz_parsed nz) (nz_payload nz) (Some k) sim run_id)"
  define annotated where "annotated = (nz_parsed nz)\<lparr>pf_normalized_fields :=
      annotate_ingestion_meta ''realtime'' landing (pf_normalized_fields (nz_parsed nz))\<rparr>"
  define row where "row = to_operational_record config annotated (nz_payload nz) (Some k) (nz_parse_status nz)
      (nz_parse_error nz) (ro_pointer landing) sim run_id"
  obtain db1 ins where ins: "insert_rows S config row db = (db1, ins)" by (rule prod.exhaust)
  obtain b where b: "ins = Inr b" using insert_rows_ok [of S config row db] ok(1) ins by auto
  have row: "io_dedup_key row = Some k" "io_tenant_id row = only_tenant config" "io_parse_status row = nz_parse_status nz"
    by (simp_all add: row_def to_operational_record_def)
  have landed: "\<not> missing_raw_landing S landing" using ok(2) by (simp add: missing_raw_landing_def)
  note run' = run [unfolded store_and_publish_def Let_def meta prod.case k landing_def [symmetric] annotated_def [symmetric]
      row_def [symmetric] ins b if_not_P [OF landed] sum.case fanout_unified_events_def publish_all [OF ok(1)]]
  show ?thesis
  proof (cases b)
    case False
    then have "db1 = db" using insert_rows_cases [OF ins row(1,2)] b by (auto split: if_splits)
    then show ?thesis using run' False by (simp add: reached_all_def)
  next
    case True
    then have db1: "db1 = db\<lparr>ig_rows := ig_rows db @ [row\<lparr>io_tenant_id := first_tenant config\<rparr>]\<rparr>"
      using insert_rows_cases [OF ins row(1,2)] b by (auto split: if_splits)
    define es where "es = (if nz_should_fanout nz then map (\<lambda>(j, t). unified_event S config annotated
        (enrich_payload_for_unified config (nz_payload nz) annotated (Some k) True landing sim run_id) run_id j t)
        (enumerate 0 (rc_tenant_targets config)) else [])"
    have "res = Inr () \<and> ig_rows db' = ig_rows db1 \<and> ig_unified db' = ig_unified db1 @ es"
      using run' True by (auto simp: es_def dest: report_success_keeps split: if_splits prod.splits)
    moreover have "map ue_tenant_id es = (if io_parse_status row = ''parsed'' then rc_tenant_targets config else [])"
      using out by (simp add: es_def row unified_event_def o_def case_prod_unfold map_snd_enumerate [unfolded o_def])
    ultimately show ?thesis
      by (auto simp: db1 reached_all_def intro!: exI [of _ "row\<lparr>io_tenant_id := first_tenant config\<rparr>"] exI [of _ es])
  qed
qed

lemma normalization_fans_out:
  "apply_usdt_normalization S db parsed payload cache = (cache', Inr nz) \<Longrightarrow> nz_should_fanout nz \<longleftrightarrow> nz_parse_status nz = ''parsed''"
  by (auto simp: apply_usdt_normalization_def normalized_with_def Let_def split: option.splits if_splits prod.splits sum.splits)

lemma normalization_ok:
  assumes "\<And>f. \<not> we_fails S f"
  shows "\<exists>nz. snd (apply_usdt_normalization S db parsed payload cache) = Inr nz"
  using assms
  by (auto simp: apply_usdt_normalization_def lookup_usdt_usd_rate_def latest_operational_market_price_def Let_def
           split: option.splits prod.splits sum.splits if_splits)

lemma market_truth_ok:
  assumes "\<And>f. \<not> we_fails S f"
  shows "\<exists>r. apply_market_truth_context S db config parsed payload = Inr r"
  using assms by (auto simp: apply_market_truth_context_def latest_operational_source_prices_def bind_res_def split: option.split)

text \<open>
  (C30) Where nothing fails, and raw landing is not required, processing a payload succeeds: its row is new
  and each of the stream's tenants gets one event, in order, or there is no row, and nobody gets one. A row
  without a price in dollars and one that no parser reads come without events.
\<close>

theorem new_rows_reach_every_tenant:
  assumes "\<And>f. \<not> we_fails S f" "\<not> we_raw_required S"
    and "process_payload L S config hint payload wk db = (wk', db', res)"
  shows "res = Inr () \<and> reached_all config db db'"
proof (cases "parse_payload L (we_now S) (parser_input config) payload")
  case (Inr found)
  define parsed where "parsed = prepare_parsed L config hint payload found"
  obtain skip quotes where q: "should_skip_duplicate_quote config parsed (wk_recent_quote wk) = (skip, quotes)" by (rule prod.exhaust)
  obtain cache nz where nz: "apply_usdt_normalization S db parsed payload (wk_fx_cache wk) = (cache, Inr nz)"
    using normalization_ok [OF assms(1)] by (metis prod.collapse)
  obtain p' pl' where t: "apply_market_truth_context S db config (nz_parsed nz) (nz_payload nz) = Inr (p', pl')"
    using market_truth_ok [OF assms(1)] by (metis prod.collapse)
  obtain h db1 r where st: "store_and_publish L S config hint payload (nz\<lparr>nz_parsed := p', nz_payload := pl'\<rparr>) (wk_health wk) db = (h, db1, r)"
    by (rule prod_cases3)
  have "r = Inr () \<and> reached_all config db db1"
    using store_reaches_all [OF assms(1,2) _ st] normalization_fans_out [OF nz] by simp
  moreover have "if skip then db' = db \<and> res = Inr () else db' = db1 \<and> res = r"
    using assms(3) by (simp add: process_payload_def Inr ingest_parsed_def Let_def parsed_def [symmetric] q nz t st split: if_splits)
  ultimately show ?thesis by (auto simp: reached_all_def split: if_splits)
next
  case (Inl m)
  define observed where "observed = unwrap_or (accelerated_simulation_timestamp L payload (hi_run_id hint)) (we_now S)"
  define k where "k = hash_payload_only L config payload observed (hi_run_id hint)"
  define landing where "landing = start_raw_landing S (unparsed_envelope L S config hint payload observed k)"
  define row where "row = unparsed_row config hint payload observed k m landing"
  obtain db1 ins where ins: "insert_rows S config row db = (db1, ins)" by (rule prod.exhaust)
  obtain b where b: "ins = Inr b" using insert_rows_ok [of S config row db] assms(1) ins by auto
  have row: "io_dedup_key row = Some k" "io_tenant_id row = only_tenant config" "io_parse_status row = ''error''"
    by (simp_all add: row_def unparsed_row_def split_beta)
  have landed: "\<not> missing_raw_landing S landing" using assms(2) by (simp add: missing_raw_landing_def)
  have "res = Inr () \<and> ig_rows db' = ig_rows db1 \<and> ig_unified db' = ig_unified db1"
    using assms(3) landed by (auto simp: process_payload_def Inl ingest_unparsed_def Let_def observed_def [symmetric] k_def [symmetric]
        landing_def [symmetric] row_def [symmetric] ins b dest: report_success_keeps split: prod.splits)
  then show ?thesis
    using insert_rows_cases [OF ins row(1,2)] row(3) b
    by (auto simp: reached_all_def split: if_splits intro!: exI [of _ "row\<lparr>io_tenant_id := first_tenant config\<rparr>"] exI [of _ "[]"])
qed

section \<open>Prices in dollars\<close>

text \<open>Where a rate comes from: the cache within three seconds, a quote within thirty, or one for one.\<close>

definition usdt_rate_source :: "surrounding \<Rightarrow> ingest \<Rightarrow> CachedFxRate option \<Rightarrow> ParsedFeedEvent \<Rightarrow> f64 \<Rightarrow> bool" where
  "usdt_rate_source S db cache parsed rate \<longleftrightarrow>
     (\<exists>c. cache = Some c \<and> cx_rate c = rate \<and> ts_millis (we_now S) - cx_cached_at_ms c \<le> 3000)
     \<or> (\<exists>r \<in> set (ig_rows db). fresh_price_row S ''USDT/USD'' 30 r \<and> io_price r = Some rate)
     \<or> rate = lit 1 \<and> (\<exists>k. pf_market_key parsed = Some k \<and> suffix ''/USD'' (to_ascii_uppercase (trim k)))"

definition cache_positive :: "CachedFxRate option \<Rightarrow> bool" where
  "cache_positive cache \<longleftrightarrow> (\<forall>c. cache = Some c \<longrightarrow> positive_finite (cx_rate c) = Some (cx_rate c))"

lemma positive_finite_id: "positive_finite x = Some y \<Longrightarrow> y = x \<and> positive_finite y = Some y"
  by (auto simp: positive_finite_def split: if_splits)

lemma newest_mem: "newest rs = Some r \<Longrightarrow> r \<in> set rs"
proof -
  have "fold (\<lambda>r best. case best of None \<Rightarrow> Some r | Some b \<Rightarrow> if io_observed_at b \<le> io_observed_at r then Some r else best) rs x = Some r
      \<Longrightarrow> r \<in> set rs \<or> x = Some r" for x
    by (induction rs arbitrary: x) (auto split: option.splits if_splits)
  then show "newest rs = Some r \<Longrightarrow> r \<in> set rs" by (auto simp: newest_def)
qed

lemma lookup_rate:
  assumes run: "lookup_usdt_usd_rate S db cache = (cache', Inr rate)" and ok: "cache_positive cache"
  shows "cache_positive cache' \<and> (\<forall>x. rate = Some x \<longrightarrow> positive_finite x = Some x \<and> usdt_rate_source S db cache parsed x)"
proof (cases "Option.bind cache (\<lambda>c. if ts_millis (we_now S) - cx_cached_at_ms c \<le> 3000 then Some (cx_rate c) else None)")
  case (Some x)
  then have "cache' = cache" "rate = Some x"
    using run by (simp_all add: lookup_usdt_usd_rate_def FX_CACHE_TTL_SECONDS_def Let_def)
  then show ?thesis using Some ok
    by (cases cache) (auto simp: cache_positive_def usdt_rate_source_def split: if_splits)
next
  case None
  have "cache' = cache \<and> rate = None \<or> (\<exists>r y. newest (filter (fresh_price_row S ''USDT/USD'' 30) (ig_rows db)) = Some r \<and> io_price r = Some y
      \<and> positive_finite y = Some y \<and> rate = Some y \<and> cache_positive cache')"
    using run None
    by (auto simp: lookup_usdt_usd_rate_def FX_CACHE_TTL_SECONDS_def FX_LOOKUP_MARKET_KEY_def FX_LOOKUP_FRESHNESS_SECONDS_def Let_def
        latest_operational_market_price_def bind_eq_Some_conv cache_positive_def dest: positive_finite_id split: option.splits sum.splits if_splits)
  then show ?thesis using ok newest_mem by (fastforce simp: usdt_rate_source_def)
qed

lemma fallback_rate:
  assumes "fallback_usdt_usd_rate parsed q = Some x"
  shows "x = lit 1 \<and> (\<exists>k. pf_market_key parsed = Some k \<and> suffix ''/USD'' (to_ascii_uppercase (trim k)))"
  using assms by (auto simp: fallback_usdt_usd_rate_def bind_eq_Some_conv Let_def split: if_splits)

text \<open>
  (C33) A price in USDT is published only in dollars, at a positive finite rate that is at most three
  seconds old in the cache, that a quote of the last thirty seconds gives, or that is one for a market
  against the dollar; without any of them the price is dropped and the event is not published.
\<close>

theorem usdt_prices_are_converted:
  assumes run: "apply_usdt_normalization S db parsed payload cache = (cache', Inr nz)"
    and price: "pf_price parsed = Some raw" and quote: "derive_quote_asset parsed = Some ''USDT''" and ok: "cache_positive cache"
  shows "cache_positive cache' \<and>
    (if nz_should_fanout nz
     then \<exists>rate. positive_finite rate = Some rate \<and> usdt_rate_source S db cache parsed rate \<and> pf_price (nz_parsed nz) = Some (raw * rate)
     else pf_price (nz_parsed nz) = None \<and> nz_parse_error nz = Some ''missing_fresh_usdt_usd_rate'')"
proof -
  obtain c r where look: "lookup_usdt_usd_rate S db cache = (c, r)" by (rule prod.exhaust)
  obtain rate where r: "r = Inr rate" "c = cache'"
    using run look price quote by (auto simp: apply_usdt_normalization_def Let_def split: sum.splits option.splits)
  note facts = lookup_rate [OF look [unfolded r] ok, of parsed]
  show ?thesis
  proof (cases "or_else rate (fallback_usdt_usd_rate parsed (Some ''USDT''))")
    case None
    then have "nz = normalized_with parsed payload None
        (normalization_fields raw (Some ''USDT'') None None True) ''partial'' (Some ''missing_fresh_usdt_usd_rate'') False"
      using run look r price quote by (simp add: apply_usdt_normalization_def)
    then show ?thesis using facts by (simp add: normalized_with_def upsert_normalized_def)
  next
    case (Some x)
    then have nz: "nz = normalized_with parsed payload (Some (raw * x))
        (normalization_fields raw (Some ''USDT'') (Some (raw * x)) (Some x) True) ''parsed'' None True"
      using run look r price quote by (simp add: apply_usdt_normalization_def Let_def)
    have "positive_finite x = Some x \<and> usdt_rate_source S db cache parsed x"
    proof (cases rate)
      case None
      with Some have "x = lit 1" "\<exists>k. pf_market_key parsed = Some k \<and> suffix ''/USD'' (to_ascii_uppercase (trim k))"
        using fallback_rate by auto
      moreover have "positive_finite (lit 1) = Some (lit 1)" by code_simp
      ultimately show ?thesis by (simp add: usdt_rate_source_def)
    next
      case (Some y)
      then show ?thesis using facts \<open>or_else rate _ = Some x\<close> by simp
    qed
    then show ?thesis using facts nz by (auto simp: normalized_with_def upsert_normalized_def)
  qed
qed

section \<open>Samples\<close>

definition sample_worker_libs :: worker_libs where
  "sample_worker_libs =
     \<lparr>timestamp_millis_opt = Some, timestamp_opt = Some, parse_from_rfc3339 = (\<lambda>_. None), json_to_string = (\<lambda>_. []),
      unicode_uppercase = id, powi_f64 = (\<lambda>_ _. NaN), de_field_mappings = (\<lambda>_. None), ser_field_mappings = (\<lambda>_. JNull),
      pl_u256_hex = (\<lambda>_. None), pl_rfc3339 = (\<lambda>_. []), wl_sha256_hex = id, wl_date = (\<lambda>_. [])\<rparr>"

definition log_stream :: "string \<Rightarrow> RuntimeStreamConfig" where
  "log_stream i =
     \<lparr>rc_stream_config_id = i, rc_source_id = ''rpc'', rc_source_type = ''evm_chain'', rc_source_name = [], rc_source_scope_kind = ''platform'', rc_owner_tenant_id = None,
      rc_connection_config = JNull, rc_operating_mode_profile = ''test'', rc_auth_secret_ref = None, rc_auth_config = JNull,
      rc_connector_mode = ''websocket'', rc_stream_name = [], rc_subscription_key = None,
      rc_event_type = ''log'', rc_parser_name = ''evm_log_v1'', rc_market_key = None, rc_asset_pair = None,
      rc_filter_config = JNull, rc_payload_ts_path = None, rc_payload_ts_unit = ''ms'', rc_poll_interval_ms = None, rc_tenant_targets = [''a'', ''b'']\<rparr>"

definition calm :: "(ingest_op \<Rightarrow> bool) \<Rightarrow> surrounding" where
  "calm fails =
     \<lparr>we_now = 0, we_instant = 0, we_fails = fails, we_raw_repo = False, we_raw_required = False, we_raw_timeout_ms = 5000,
      we_raw_write = (\<lambda>_. RawTimeout), we_envelope_uuid = [], we_key_uuid = [], we_event_uuid = (\<lambda>_. [])\<rparr>"

definition numbered :: "string \<Rightarrow> json" where
  "numbered n = JObject [(''id'', JString n)]"

definition no_hints :: hints where
  "no_hints = \<lparr>hi_chain_id = None, hi_run_id = None\<rparr>"

definition sample_history :: "fleet_event list" where
  "sample_history =
     [Input ''s1'' (Payload (calm (\<lambda>_. False)) no_hints (numbered ''7'')),
      Input ''s2'' (Payload (calm (\<lambda>_. False)) no_hints (numbered ''7'')),
      Input ''s1'' (Payload (calm (\<lambda>f. f = PublishUnified 0)) no_hints (numbered ''8'')),
      Input ''s1'' (Payload (calm (\<lambda>_. False)) no_hints (numbered ''8''))]"

lemma sample_fleet:
  "let db = fl_ingest (foldl (fleet_step sample_worker_libs log_stream) fleet_start sample_history)
   in map io_event_id (ig_rows db) = [Some ''7'', Some ''8''] \<and> map ue_tenant_id (ig_unified db) = [''a'', ''b'']"
  by code_simp

definition sample_fleet_after :: "nat \<Rightarrow> fleet" where
  "sample_fleet_after n = foldl (fleet_step sample_worker_libs log_stream) fleet_start (take n sample_history)"

lemma log_stream_distinct: "distinct (rc_tenant_targets (log_stream i))"
  by (simp add: log_stream_def)

definition quote_stream :: "string \<Rightarrow> RuntimeStreamConfig" where
  "quote_stream i = (log_stream i)\<lparr>rc_event_type := ''quote''\<rparr>"

text \<open>A quote that comes three times, with a purge before the third.\<close>

definition quote_message :: fleet_event where
  "quote_message = Input ''s1'' (Payload (calm (\<lambda>_. False)) no_hints (numbered ''7''))"

definition everything_old :: fleet_event where
  "everything_old = PurgeTick (\<lambda>_. 0) 1 0"

lemma purged_quotes_come_again:
  "map ue_tenant_id (ig_unified (fl_ingest (foldl (fleet_step sample_worker_libs quote_stream) fleet_start
     [quote_message, quote_message, everything_old, quote_message]))) = [''a'', ''b'', ''a'', ''b'']"
  by code_simp

theorem published_at_most_once_witness:
  "let run = (\<lambda>h. map (\<lambda>e. (ue_tenant_id e, published_key e))
       (ig_unified (fl_ingest (foldl (fleet_step sample_worker_libs quote_stream) fleet_start h))))
   in \<exists>new. run ([quote_message, everything_old] @ [quote_message, quote_message]) = run [quote_message, everything_old] @ new
        \<and> distinct new \<and> length new = 2"
proof -
  let ?run = "\<lambda>h. map (\<lambda>e. (ue_tenant_id e, published_key e))
       (ig_unified (fl_ingest (foldl (fleet_step sample_worker_libs quote_stream) fleet_start h)))"
  have targets: "distinct (rc_tenant_targets (quote_stream i))" for i by (simp add: quote_stream_def log_stream_def)
  have unpurged: "PurgeTick created_at db_now secs \<notin> set [quote_message, quote_message]" for created_at db_now secs
    by (simp add: quote_message_def)
  have "\<exists>new. ?run ([quote_message, everything_old] @ [quote_message, quote_message]) = ?run [quote_message, everything_old] @ new \<and> distinct new"
    using published_at_most_once [where configs = quote_stream and L = sample_worker_libs and history = "[quote_message, everything_old]",
        OF targets unpurged, unfolded Let_def] by blast
  moreover have "length (?run ([quote_message, everything_old] @ [quote_message, quote_message])) = 4" by code_simp
  moreover have "length (?run [quote_message, everything_old]) = 2" by code_simp
  ultimately show ?thesis unfolding Let_def by (elim exE conjE) (metis add_left_cancel length_append num_double numeral_times_numeral one_add_one mult_2)
qed

text \<open>The publication of the second message failed, and it is not repeated when the message comes again.\<close>

theorem stored_keys_are_decided_witness:
  "list_ex (\<lambda>r. io_dedup_key r = Some ''provider:rpc:s1:8'') (ig_rows (fl_ingest (sample_fleet_after 3)))
   \<and> filter (\<lambda>e. published_key e = Some ''provider:rpc:s1:8'')
       (ig_unified (fl_ingest (foldl (fleet_step sample_worker_libs log_stream) (sample_fleet_after 3)
         (everything_old # drop 3 sample_history)))) = []"
proof -
  let ?rows = "ig_rows (fl_ingest (sample_fleet_after 3))"
  have stored: "list_ex (\<lambda>r. io_dedup_key r = Some ''provider:rpc:s1:8'' \<and> io_event_type r = ''log'') ?rows" by code_simp
  then obtain r where r: "r \<in> set ?rows" "io_dedup_key r = Some ''provider:rpc:s1:8''" "io_event_type r = ''log''"
    by (auto simp: list_ex_iff)
  have "list_all (spares r) (everything_old # drop 3 sample_history)"
    by (simp add: everything_old_def sample_history_def old_tick_def r(3))
  moreover have "filter (\<lambda>e. published_key e = Some ''provider:rpc:s1:8'') (ig_unified (fl_ingest (sample_fleet_after 3))) = []" by code_simp
  ultimately have "filter (\<lambda>e. published_key e = Some ''provider:rpc:s1:8'')
       (ig_unified (fl_ingest (foldl (fleet_step sample_worker_libs log_stream) (sample_fleet_after 3)
         (everything_old # drop 3 sample_history)))) = []"
    using stored_keys_are_decided [where L = sample_worker_libs and configs = log_stream
        and history = "everything_old # drop 3 sample_history", OF r(1)] r(2) by simp
  with stored show ?thesis by (auto simp: list_ex_iff)
qed

theorem detector_keeps_indexed_events_as_stored_witness:
  "\<forall>process en wall ps w.
     registry_process_event process en wall (hd (ig_unified (fl_ingest (sample_fleet_after 4)))) ps w
     = dispatch process en (hd (ig_unified (fl_ingest (sample_fleet_after 4))))
         (analysis_time wall (hd (ig_unified (fl_ingest (sample_fleet_after 4))))) ps w"
proof -
  have "ig_unified (fl_ingest (sample_fleet_after 4)) \<noteq> []" by code_simp
  then have "hd (ig_unified (fl_ingest (sample_fleet_after 4))) \<in> set (ig_unified (fl_ingest (sample_fleet_after 4)))" by simp
  then show ?thesis using detector_keeps_indexed_events_as_stored unfolding sample_fleet_after_def by blast
qed

theorem known_event_ids_are_dropped_witness:
  "map io_stream_id (ig_rows (fl_ingest (sample_fleet_after 1))) = [Some ''s1'']
   \<and> fst (snd (process_payload sample_worker_libs (calm (\<lambda>_. False)) (log_stream ''s2'') no_hints (numbered ''7'')
         worker_start (fl_ingest (sample_fleet_after 1)))) = fl_ingest (sample_fleet_after 1)"
proof -
  let ?S = "calm (\<lambda>_. False)" and ?db = "fl_ingest (sample_fleet_after 1)"
  obtain found where found: "parse_payload sample_worker_libs (we_now ?S) (parser_input (log_stream ''s2'')) (numbered ''7'') = Inr found"
    by (simp add: parse_payload_def parser_input_def log_stream_def evm_log_parse_def)
  have "case parse_payload sample_worker_libs (we_now ?S) (parser_input (log_stream ''s2'')) (numbered ''7'') of
      Inr f \<Rightarrow> scoped_simulation_event_id (pf_event_id f) (snd (effective_simulation_metadata (numbered ''7'') (hi_run_id no_hints)))
        = Some ''7'' | Inl _ \<Rightarrow> False" by code_simp
  then have scoped: "scoped_simulation_event_id (pf_event_id found)
      (snd (effective_simulation_metadata (numbered ''7'') (hi_run_id no_hints))) = Some ''7''" by (simp add: found)
  have "list_ex (\<lambda>q. io_event_id q = Some ''7'') (ig_rows ?db)" by code_simp
  then obtain q where q: "q \<in> set (ig_rows ?db)" "io_event_id q = Some ''7''" by (auto simp: list_ex_iff)
  obtain wk db res where run: "process_payload sample_worker_libs ?S (log_stream ''s2'') no_hints (numbered ''7'') worker_start ?db = (wk, db, res)"
    by (rule prod_cases3)
  have "map io_stream_id (ig_rows ?db) = [Some ''s1'']" by code_simp
  with known_event_ids_are_dropped [OF found scoped q run] run show ?thesis by simp
qed

theorem new_rows_reach_every_tenant_witness:
  "let (wk, db, res) = process_payload sample_worker_libs (calm (\<lambda>_. False)) (log_stream ''s1'') no_hints (numbered ''7'')
         worker_start (fl_ingest fleet_start)
   in res = Inr () \<and> reached_all (log_stream ''s1'') (fl_ingest fleet_start) db"
proof -
  obtain wk db res where run: "process_payload sample_worker_libs (calm (\<lambda>_. False)) (log_stream ''s1'') no_hints (numbered ''7'')
      worker_start (fl_ingest fleet_start) = (wk, db, res)" by (rule prod_cases3)
  have "\<not> we_fails (calm (\<lambda>_. False)) f" "\<not> we_raw_required (calm (\<lambda>_. False))" for f by (simp_all add: calm_def)
  from new_rows_reach_every_tenant [OF this run] run show ?thesis by simp
qed

definition ether_quote :: ParsedFeedEvent where
  "ether_quote = quote_event (parser_input (log_stream ''s1'')) JNull 0 None ''ETH/USDT'' (lit 100)
     (quote_fields ''symbol'' ''ETH/USDT'' (lit 100))"

theorem usdt_prices_are_converted_witness:
  "\<exists>nz rate. snd (apply_usdt_normalization (calm (\<lambda>_. False)) (fl_ingest fleet_start) ether_quote JNull None) = Inr nz
     \<and> positive_finite rate = Some rate \<and> pf_price (nz_parsed nz) = Some (lit 100 * rate)"
proof -
  let ?r = "apply_usdt_normalization (calm (\<lambda>_. False)) (fl_ingest fleet_start) ether_quote JNull None"
  have "case snd ?r of Inl _ \<Rightarrow> False | Inr nz \<Rightarrow> nz_should_fanout nz" by code_simp
  then obtain cache' nz where nz: "?r = (cache', Inr nz)" "nz_should_fanout nz"
    by (cases ?r) (auto split: sum.splits)
  have facts: "pf_price ether_quote = Some (lit 100)" by (simp add: ether_quote_def quote_event_def)
  have usdt: "derive_quote_asset ether_quote = Some ''USDT''" by code_simp
  have "cache_positive None" by (simp add: cache_positive_def)
  from usdt_prices_are_converted [OF nz(1) facts usdt this] nz show ?thesis by auto
qed

end
