(* ===== verification/ParserSafety.thy ===== *)
theory ParserSafety
  imports StreamWorker
begin

text \<open>
  What the parsers of feeds promise: every venue's spelling of a pair gives one market key, the words
  of a log are read back as they were written, and as two's complement numbers.
\<close>

section \<open>Plain text\<close>

definition plain_letters :: string where
  "plain_letters = upper_letters @ lower_letters @ ''0123456789''"

lemma no_space_in_plain: "\<forall>w \<in> set ws_seqs. w \<noteq> [] \<and> (\<forall>c \<in> set w. c \<notin> set plain_letters)"
  by code_simp

lemma trim_plain: "set s \<subseteq> set plain_letters \<union> {CHR ''/'', CHR ''-'', CHR ''_''} \<Longrightarrow> trim s = s"
proof (rule trim_idI)
  fix w assume s: "set s \<subseteq> set plain_letters \<union> {CHR ''/'', CHR ''-'', CHR ''_''}" and w: "w \<in> set ws_seqs"
  have "\<forall>w \<in> set ws_seqs. CHR ''/'' \<notin> set w \<and> CHR ''-'' \<notin> set w \<and> CHR ''_'' \<notin> set w" by code_simp
  then have "w \<noteq> []" "set w \<inter> set s = {}" using w no_space_in_plain s by fastforce+
  then show "\<not> prefix w s \<and> \<not> suffix w s"
    by (cases w) (auto dest: set_mono_prefix set_mono_suffix)
qed

section \<open>One market for all spellings\<close>

definition asset_chars :: string where
  "asset_chars = upper_letters @ ''0123456789''"

definition plain_asset :: "string \<Rightarrow> bool" where
  "plain_asset b \<longleftrightarrow> b \<noteq> [] \<and> set b \<subseteq> set asset_chars"

lemma asset_letters:
  "\<forall>c \<in> set asset_chars. upper_char c = c \<and> c \<in> set plain_letters
     \<and> c \<noteq> CHR ''/'' \<and> c \<noteq> CHR ''-'' \<and> c \<noteq> CHR ''_'' \<and> c \<noteq> CHR '':'' \<and> c \<noteq> CHR '' ''"
  by code_simp

lemma asset_upper: "set b \<subseteq> set asset_chars \<Longrightarrow> to_ascii_uppercase b = b"
  using asset_letters by (auto simp: to_ascii_uppercase_def intro!: map_idI)

lemma asset_separators:
  assumes "set b \<subseteq> set asset_chars"
  shows "CHR ''/'' \<notin> set b" "CHR ''-'' \<notin> set b" "CHR ''_'' \<notin> set b" "CHR '':'' \<notin> set b" "CHR '' '' \<notin> set b"
  using assms asset_letters by blast+

lemma usd_quotes_plain: "\<forall>q \<in> set usd_quotes. plain_asset q"
  by code_simp

definition separated :: "string \<Rightarrow> bool" where
  "separated s \<longleftrightarrow> set s \<subseteq> set asset_chars \<union> {CHR ''/'', CHR ''-''}"

lemma separated_keeps: "separated s \<Longrightarrow> filter (\<lambda>c. c \<noteq> CHR '':'' \<and> c \<noteq> CHR '' '') s = s"
  using asset_letters unfolding separated_def by (intro filter_True) blast

lemma separated_cleaned: "separated s \<Longrightarrow> filter (\<lambda>c. c \<noteq> CHR '':'' \<and> c \<noteq> CHR '' '') (to_ascii_uppercase (trim s)) = s"
proof -
  assume s: "separated s"
  then have "set s \<subseteq> set plain_letters \<union> {CHR ''/'', CHR ''-'', CHR ''_''}"
    using asset_letters unfolding separated_def by blast
  then have "trim s = s" by (rule trim_plain)
  moreover have "upper_char (CHR ''/'') = CHR ''/''" "upper_char (CHR ''-'') = CHR ''-''" by code_simp+
  then have "\<forall>c \<in> set s. upper_char c = c" using s asset_letters unfolding separated_def by blast
  then have "to_ascii_uppercase s = s" by (simp add: to_ascii_uppercase_def map_idI)
  ultimately show ?thesis using separated_keeps [OF s] by simp
qed

lemma split_pair:
  assumes "plain_asset b" "plain_asset q" "d = CHR ''/'' \<or> d = CHR ''-''"
  shows "split_symbol_pair (b @ d # q) = Some (b, q)"
proof -
  note sep = asset_separators [of b] asset_separators [of q]
  have b: "d \<notin> set b" "d \<notin> set q" "CHR ''/'' \<notin> set b" "CHR ''/'' \<notin> set q" "b \<noteq> []" "q \<noteq> []"
    using assms sep unfolding plain_asset_def by metis+
  have "separated (b @ d # q)" using assms by (auto simp: separated_def plain_asset_def)
  note clean = separated_cleaned [OF this]
  have "split_on d (b @ d # q) = [b, q]" using b by (simp add: split_on_append split_on_no_sep)
  then show ?thesis using b assms(3) by (auto simp: split_symbol_pair_def clean first_two_def Let_def)
qed

lemma split_joined:
  assumes "plain_asset b" "q \<in> set usd_quotes"
  shows "split_symbol_pair (b @ q) = Some (b, q)"
proof -
  have q: "plain_asset q" using assms(2) usd_quotes_plain by blast
  have "separated (b @ q)" using assms(1) q by (auto simp: separated_def plain_asset_def)
  note clean = separated_cleaned [OF this]
  have no: "CHR ''/'' \<notin> set (b @ q)" "CHR ''-'' \<notin> set (b @ q)" "b \<noteq> []"
    using assms(1) q asset_separators [of b] asset_separators [of q] unfolding plain_asset_def by auto
  have cut: "strip_suffix q (b @ q) = Some b" by (simp add: strip_suffix_def suffix_def)
  have other: "strip_suffix p (b @ q) = None" if "length p = length q \<and> p \<noteq> q \<or> last p \<noteq> last q" "p \<noteq> []" "q \<noteq> []" for p
    using that by (auto simp: strip_suffix_def suffix_def dest: arg_cong [of _ _ last])
  have split: "split_symbol_pair (b @ q) = or_else (strip_quote (b @ q) ''USDT'')
      (or_else (strip_quote (b @ q) ''USDC'') (strip_quote (b @ q) ''USD''))"
    unfolding split_symbol_pair_def Let_def clean using no by simp
  have cut: "strip_quote (b @ q) q = Some (b, q)" using no(3) by (simp add: strip_quote_def cut)
  have other: "last p \<noteq> last q \<Longrightarrow> p \<noteq> [] \<Longrightarrow> q \<noteq> [] \<Longrightarrow> strip_quote (b @ q) p = None" for p
    using other by (simp add: strip_quote_def)
  from assms(2) have "q = ''USD'' \<or> q = ''USDT'' \<or> q = ''USDC''" by (auto simp: usd_quotes_def)
  then show ?thesis using split cut other [of "''USDT''"] other [of "''USDC''"] by auto
qed

text \<open>A symbol is read in any letter case.\<close>

lemma upper_asset_char: "upper_char c \<in> set asset_chars \<Longrightarrow> c \<in> set plain_letters"
proof -
  assume "upper_char c \<in> set asset_chars"
  then have "c \<in> set (filter (\<lambda>c. upper_char c \<in> set asset_chars) Enum.enum)" by (simp add: enum_UNIV)
  moreover have "\<forall>c \<in> set (filter (\<lambda>c. upper_char c \<in> set asset_chars) Enum.enum). c \<in> set plain_letters" by code_simp
  ultimately show ?thesis by blast
qed

lemma plain_upper: "plain_asset (to_ascii_uppercase b) \<Longrightarrow> set b \<subseteq> set plain_letters"
  using upper_asset_char by (auto simp: plain_asset_def to_ascii_uppercase_def)

lemma split_any_case:
  assumes "set s \<subseteq> set plain_letters \<union> {CHR ''/'', CHR ''-''}" "separated (to_ascii_uppercase s)"
  shows "split_symbol_pair s = split_symbol_pair (to_ascii_uppercase s)"
proof -
  have "trim s = s" using assms(1) by (intro trim_plain) blast
  then have "filter (\<lambda>c. c \<noteq> CHR '':'' \<and> c \<noteq> CHR '' '') (to_ascii_uppercase (trim s)) = to_ascii_uppercase s"
    using separated_keeps [OF assms(2)] by simp
  then show ?thesis unfolding split_symbol_pair_def separated_cleaned [OF assms(2)] by simp
qed

text \<open>
  (C34) The key that the parsers' common helper takes from a symbol is the asset in capitals and \<open>/USD\<close>
  for an asset of letters and digits quoted in USD, USDT or USDC, in any letter case, and for each of four
  spellings: joined, with a slash, with a dash, and with an underscore once Gate's parser has normalised it.
  This is the key before a configured market or a field mapping takes its place.
\<close>

theorem venues_agree_on_the_market:
  assumes "plain_asset (to_ascii_uppercase b)" "to_ascii_uppercase q \<in> set usd_quotes"
  shows "feed_market_key (b @ q) = Some (to_ascii_uppercase b @ ''/USD'')
    \<and> feed_market_key (b @ ''/'' @ q) = Some (to_ascii_uppercase b @ ''/USD'')
    \<and> feed_market_key (b @ ''-'' @ q) = Some (to_ascii_uppercase b @ ''/USD'')
    \<and> feed_market_key (normalise_gate_pair (b @ ''_'' @ q)) = Some (to_ascii_uppercase b @ ''/USD'')"
proof -
  let ?b = "to_ascii_uppercase b" and ?q = "to_ascii_uppercase q"
  have q: "plain_asset ?q" using assms(2) usd_quotes_plain by blast
  note plain = plain_upper [OF assms(1)] plain_upper [OF q]
  have up: "to_ascii_uppercase (b @ d @ q) = ?b @ map upper_char d @ ?q" for d by (simp add: to_ascii_uppercase_def)
  have char: "upper_char (CHR ''/'') = CHR ''/''" "upper_char (CHR ''-'') = CHR ''-''" by code_simp+
  have read: "split_symbol_pair (b @ d @ q) = split_symbol_pair (?b @ d @ ?q)" if d: "d \<in> {[], ''/'', ''-''}" for d
  proof -
    have "map upper_char d = d" using d char by auto
    moreover have "separated (?b @ d @ ?q)" "set (b @ d @ q) \<subseteq> set plain_letters \<union> {CHR ''/'', CHR ''-''}"
      using d assms(1) q plain by (auto simp: separated_def plain_asset_def)
    ultimately show ?thesis using split_any_case [of "b @ d @ q"] up [of d] by simp
  qed
  have "CHR ''_'' \<notin> set plain_letters" by code_simp
  then have same: "map (\<lambda>c. if c = CHR ''_'' then CHR ''/'' else c) s = s" if "set s \<subseteq> set plain_letters" for s
    using that by (intro map_idI) auto
  have gate: "normalise_gate_pair (b @ CHR ''_'' # q) = ?b @ CHR ''/'' # ?q"
    using same [OF plain(1)] same [OF plain(2)] char by (simp add: normalise_gate_pair_def to_ascii_uppercase_def)
  show ?thesis
    using read [of "[]"] read [of "''/''"] read [of "''-''"] gate split_pair [OF assms(1) q] split_joined [OF assms] assms(2)
    by (simp add: feed_market_key_def)
qed

theorem venues_agree_on_the_market_witness:
  "feed_market_key ''usdcusd'' = Some ''USDC/USD'' \<and> feed_market_key (normalise_gate_pair ''USDC_USDT'') = Some ''USDC/USD''"
proof -
  have "plain_asset (to_ascii_uppercase ''usdc'')" "to_ascii_uppercase ''usd'' \<in> set usd_quotes"
    "plain_asset (to_ascii_uppercase ''USDC'')" "to_ascii_uppercase ''USDT'' \<in> set usd_quotes"
    "to_ascii_uppercase ''usdc'' = ''USDC''" "to_ascii_uppercase ''USDC'' = ''USDC''" by code_simp+
  then show ?thesis
    using venues_agree_on_the_market [of "''usdc''" "''usd''"] venues_agree_on_the_market [of "''USDC''" "''USDT''"] by simp
qed

section \<open>Words of a log\<close>

definition hex_word :: "string \<Rightarrow> bool" where
  "hex_word w \<longleftrightarrow> length w = 64 \<and> (\<forall>c \<in> set w. hex_value c \<noteq> None)"

definition hex_chars :: string where
  "hex_chars = ''0123456789abcdefABCDEF''"

lemma hex_value_chars: "hex_value c \<noteq> None \<Longrightarrow> c \<in> set hex_chars"
proof -
  assume "hex_value c \<noteq> None"
  then have "c \<in> set (filter (\<lambda>c. hex_value c \<noteq> None) Enum.enum)" by (simp add: enum_UNIV)
  moreover have "filter (\<lambda>c. hex_value c \<noteq> None) Enum.enum = ''0123456789ABCDEFabcdef''" by code_simp
  moreover have "set ''0123456789ABCDEFabcdef'' = set hex_chars" by code_simp
  ultimately show ?thesis by metis
qed

lemma hex_plain: "hex_value c \<noteq> None \<Longrightarrow> c \<in> set plain_letters \<and> byte_of c < 128 \<and> c \<noteq> CHR ''x''"
proof -
  have "\<forall>c \<in> set hex_chars. c \<in> set plain_letters \<and> byte_of c < 128 \<and> c \<noteq> CHR ''x''" by code_simp
  then show "hex_value c \<noteq> None \<Longrightarrow> ?thesis" using hex_value_chars by blast
qed

lemma utf8_valid_ascii: "\<forall>c \<in> set s. byte_of c < 128 \<Longrightarrow> utf8_valid s"
  by (induction s) (simp_all add: Let_def)

lemma chunks64_concat: "\<forall>w \<in> set ws. length w = 64 \<Longrightarrow> chunks64 (concat ws) = ws"
proof (induction ws)
  case (Cons w ws)
  then have "w @ concat ws \<noteq> []" "length w = 64" by auto
  then show ?case using Cons by (subst chunks64.simps) simp
qed (simp add: chunks64.simps)

text \<open>The words of a log's data are read back one by one.\<close>

lemma log_words_read_back:
  assumes "ws \<noteq> []" "\<forall>w \<in> set ws. hex_word w"
  shows "decode_hex_words (''0x'' @ concat ws) = ws"
proof -
  have plain: "\<forall>c \<in> set (concat ws). c \<in> set plain_letters" "\<forall>w \<in> set ws. utf8_valid w" "\<forall>w \<in> set ws. length w = 64"
    using assms(2) hex_plain by (auto simp: hex_word_def intro!: utf8_valid_ascii)
  have "CHR ''x'' \<in> set plain_letters" "CHR ''0'' \<in> set plain_letters" by code_simp+
  then have "trim (''0x'' @ concat ws) = ''0x'' @ concat ws" using plain(1) by (intro trim_plain) auto
  moreover have "\<not> length (concat ws) < 64" using assms(1) plain(3) by (cases ws) auto
  ultimately show ?thesis
    using chunks64_concat [OF plain(3)] plain(2) by (simp add: decode_hex_words_def strip_prefix_def filter_True)
qed

section \<open>Signed words\<close>

lemma hex_value_digit: "hex_value c = Some d \<Longrightarrow> d < 16"
proof -
  assume "hex_value c = Some d"
  then have "d \<in> set [0..<16]" unfolding hex_value_def by (meson map_of_SomeD set_zip_rightD)
  then show ?thesis by simp
qed

lemma hex_digits_bounds:
  "parse_hex_digits acc s = Some n \<Longrightarrow> acc * 16 ^ length s \<le> n \<and> n < (acc + 1) * 16 ^ length s"
proof (induction s arbitrary: acc)
  case (Cons c s)
  define m where "m = (16::nat) ^ length s"
  obtain d where d: "hex_value c = Some d" "parse_hex_digits (16 * acc + d) s = Some n"
    using Cons.prems by (auto split: option.splits)
  have "(16 * acc + d) * m \<le> n" "n < (16 * acc + d + 1) * m"
    using Cons.IH [OF d(2)] unfolding m_def by blast+
  moreover have "16 * acc * m \<le> (16 * acc + d) * m" "(16 * acc + d + 1) * m \<le> 16 * (acc + 1) * m"
    using hex_value_digit [OF d(1)] by (intro mult_le_mono1; simp)+
  moreover have "acc * 16 ^ length (c # s) = 16 * acc * m" "(acc + 1) * 16 ^ length (c # s) = 16 * (acc + 1) * m"
    by (simp_all add: m_def algebra_simps)
  ultimately show ?case by linarith
qed simp

text \<open>What \<^verbatim>\<open>U256::from_str_radix\<close> documents, for the words of a log.\<close>

definition u256_reads_hex :: "'a parser_libs_scheme \<Rightarrow> bool" where
  "u256_reads_hex L \<longleftrightarrow> (\<forall>w n. length w = 64 \<and> parse_hex_nat w = Some n \<and> n < 2 ^ 256 \<longrightarrow> pl_u256_hex L w = Some (word_of_nat n))"

lemma digit_chars: "digit_value c \<noteq> None \<Longrightarrow> c \<in> set ''0123456789''"
  by (auto simp: digit_value_def dest!: map_of_SomeD set_zip_leftD)

lemma decimal_of_nat: "parse_decimal (nat_to_string n) = Some (of_nat n)"
proof -
  have all: "\<forall>c \<in> set (nat_to_string n). is_digit c" using digits_of_nat by (simp add: is_digit_def)
  then have parts: "takeWhile is_digit (nat_to_string n) = nat_to_string n" "dropWhile is_digit (nat_to_string n) = []" by simp_all
  show ?thesis unfolding parse_decimal_def Let_def parts by (simp add: parse_exponent_def parse_digits_nat_to_string)
qed

lemma parse_f64_of_nat: "parse_f64 (nat_to_string n) = Some (of_int_f64 (int n))"
proof -
  obtain c r where s: "nat_to_string n = c # r" by (meson nat_to_string_neq_Nil neq_Nil_conv)
  have "c \<in> set ''0123456789''" using digits_of_nat [of c n] s digit_chars by simp
  moreover have "\<forall>c \<in> set ''0123456789''. c \<noteq> CHR ''-'' \<and> lower_char c \<noteq> CHR ''i'' \<and> lower_char c \<noteq> CHR ''n''" by code_simp
  ultimately have c: "c \<noteq> CHR ''-''" "lower_char c \<noteq> CHR ''i''" "lower_char c \<noteq> CHR ''n''" by blast+
  have "\<not> (of_int (int n) :: rat) < 0" by simp
  then show ?thesis
    using c decimal_of_nat [of n] strip_plus_nat_to_string [of n] s
    by (simp add: parse_f64_def to_ascii_lowercase_def of_int_f64_def lit_def Let_def)
qed

lemma negated_int_f64: "0 < i \<Longrightarrow> - of_int_f64 i = of_int_f64 (- i)"
  by (simp add: of_int_f64_def lit_def uminus_f64_def pack_def Let_def)

text \<open>
  (C35) A full word of a log is read as the two's complement number it stands for, rounded to a float, and
  as the unsigned one by the unsigned reader.
\<close>

theorem words_are_twos_complement:
  assumes "hex_word w" "parse_hex_nat w = Some n" "u256_reads_hex L"
  shows "parse_u256_word_to_f64 L w = Some (of_int_f64 (int n))
    \<and> parse_i256_word_to_f64 L w = Some (of_int_f64 (sint (word_of_nat n :: 256 word)))"
proof -
  obtain c r where w: "w = c # r" "length r = 63" using assms(1) by (cases w) (auto simp: hex_word_def)
  obtain d where d: "hex_value c = Some d" "parse_hex_digits d r = Some n"
    using assms(2) by (auto simp: parse_hex_nat_def w split: option.splits)
  have bounds: "d * 16 ^ 63 \<le> n" "n < (d + 1) * 16 ^ 63" using hex_digits_bounds [OF d(2)] w(2) by simp_all
  have n: "n < 2 ^ 256" using bounds(2) hex_value_digit [OF d(1)] by simp
  have half: "8 \<le> d \<longleftrightarrow> 2 ^ 255 \<le> n"
  proof
    assume "8 \<le> d"
    then have "(8::nat) * 16 ^ 63 \<le> d * 16 ^ 63" by (rule mult_le_mono1)
    then show "2 ^ 255 \<le> n" using bounds(1) by simp
  next
    assume "2 ^ 255 \<le> n"
    then have "(8::nat) * 16 ^ 63 < (d + 1) * 16 ^ 63" using bounds(2) by simp
    then show "8 \<le> d" by simp
  qed
  obtain c' r' where r: "r = c' # r'" using w(2) by (cases r) auto
  have "c' \<noteq> CHR ''x''" using assms(1) hex_plain [of c'] by (auto simp: hex_word_def w r)
  then have trimmed: "trim_0x w = w" unfolding w r by (cases "c # c' # r'" rule: trim_0x.cases) auto
  let ?v = "word_of_nat n :: 256 word"
  have v: "pl_u256_hex L w = Some ?v" using assms n by (simp add: u256_reads_hex_def hex_word_def)
  have un: "unat ?v = n" using n by (simp add: unat_of_nat)
  have pos: "u256_to_f64 ?v = Some (of_int_f64 (int n))" by (simp add: u256_to_f64_def un parse_f64_of_nat)
  have bit: "bit (int n) 255 \<longleftrightarrow> 2 ^ 255 \<le> n"
  proof -
    have "n div 2 ^ 255 = (if 2 ^ 255 \<le> n then 1 else 0)"
      using n by (auto simp: div_nat_eqI)
    then have "bit n 255 \<longleftrightarrow> 2 ^ 255 \<le> n" by (simp add: bit_iff_odd)
    then show ?thesis by (simp add: bit_of_nat_iff)
  qed
  have uint: "uint ?v = int n" using un by (metis uint_nat)
  have sint: "sint ?v = (if 8 \<le> d then int n - 2 ^ 256 else int n)"
    using bit half n by (simp add: sint_uint uint signed_take_bit_eq_take_bit_minus take_bit_int_eq_self)
  have sign: "(case w of [] \<Rightarrow> False | c # _ \<Rightarrow> (case hex_value c of None \<Rightarrow> False | Some d \<Rightarrow> 8 \<le> d)) = (8 \<le> d)"
    by (simp add: w(1) d(1))
  show ?thesis
  proof (cases "8 \<le> d")
    case False
    then show ?thesis using v pos sint
      by (simp add: parse_u256_word_to_f64_def parse_i256_word_to_f64_def trimmed sign Let_def)
  next
    case True
    have "n > 0" "2 ^ 256 - n < 2 ^ 256" using True half n by auto
    have "- ?v = word_of_nat (2 ^ 256 - n)"
      using n by (simp add: of_nat_diff)
    then have "unat (- ?v) = 2 ^ 256 - n" using \<open>n > 0\<close> by (simp add: unat_of_nat)
    then have "u256_to_f64 (not ?v + 1) = Some (of_int_f64 (int (2 ^ 256 - n)))"
      by (simp add: minus_eq_not_plus_1 [symmetric] u256_to_f64_def parse_f64_of_nat)
    moreover have "- of_int_f64 (int (2 ^ 256 - n)) = of_int_f64 (sint ?v)"
      using negated_int_f64 [of "int (2 ^ 256 - n)"] True n sint by (simp add: of_nat_diff)
    ultimately show ?thesis using v pos True
      by (simp add: parse_u256_word_to_f64_def parse_i256_word_to_f64_def trimmed sign Let_def)
  qed
qed

definition hex_libs :: parser_libs where
  "hex_libs =
     \<lparr>timestamp_millis_opt = Some, timestamp_opt = Some, parse_from_rfc3339 = (\<lambda>_. None), json_to_string = (\<lambda>_. []),
      unicode_uppercase = id, powi_f64 = (\<lambda>_ _. NaN), de_field_mappings = (\<lambda>_. None), ser_field_mappings = (\<lambda>_. JNull),
      pl_u256_hex = (\<lambda>w. Option.bind (parse_hex_nat w) (\<lambda>n. if n < 2 ^ 256 then Some (word_of_nat n) else None)),
      pl_rfc3339 = (\<lambda>_. [])\<rparr>"

theorem words_are_twos_complement_witness:
  "parse_i256_word_to_f64 hex_libs (replicate 64 (CHR ''f'')) = Some (of_int_f64 (- 1))"
proof -
  have w: "hex_word (replicate 64 (CHR ''f''))" by code_simp
  have f: "hex_value (CHR ''f'') = Some 15" by code_simp
  have "parse_hex_digits a (replicate k (CHR ''f'')) = Some ((a + 1) * 16 ^ k - 1)" for a k
    by (induction k arbitrary: a) (simp_all add: f algebra_simps)
  from this [of 0 64] have n: "parse_hex_nat (replicate 64 (CHR ''f'')) = Some (2 ^ 256 - 1)" by (simp add: parse_hex_nat_def)
  have "u256_reads_hex hex_libs" by (simp add: u256_reads_hex_def hex_libs_def)
  moreover have "sint (word_of_nat (2 ^ 256 - 1) :: 256 word) = - 1" by (simp add: of_nat_diff)
  ultimately show ?thesis using words_are_twos_complement [OF w n] by metis
qed

section \<open>The configured market\<close>

lemma s_path: "eval_jsonpath payload ''$.s'' = j_get payload ''s''"
proof -
  have "strip_prefix ''$.'' ''$.s'' = Some ''s''" "split_on (CHR ''.'') ''s'' = [''s'']" "split_once (CHR ''['') ''s'' = None" by code_simp+
  then show ?thesis by (simp add: eval_jsonpath_def eval_segment_def split: option.split)
qed

text \<open>
  (C40) Quotes of a Binance stream without field mappings of its own: where the message has a text under
  \<open>s\<close>, the default mapping of the symbol decides the market of the event, and what the parser took from
  the configuration of the stream is lost: it is the market of one of six known symbols, the part after
  the last dot in capitals where that has a slash, and else the text as sent, trimmed, unless that leaves
  nothing. A message without \<open>s\<close>, as the endpoint for the 24 hour ticker answers, keeps
  the parser's market, which is the configured one where there is one.
\<close>

theorem venue_symbol_replaces_configured_market:
  assumes "rc_parser_name config = ''binance_miniticker_v1''" "j_get (rc_filter_config config) ''field_mappings'' = None"
  shows "(case j_get payload ''s'' of
      Some (JString symbol) \<Rightarrow>
        (case symbol_to_market_key L symbol of
           None \<Rightarrow> trim symbol \<noteq> [] \<longrightarrow> pf_market_key (prepare_parsed L config hint payload parsed) = Some (trim symbol)
         | Some k \<Rightarrow> trim k \<noteq> [] \<longrightarrow> pf_market_key (prepare_parsed L config hint payload parsed) = Some (trim k))
    | None \<Rightarrow> pf_market_key (prepare_parsed L config hint payload parsed) = pf_market_key parsed
    | _ \<Rightarrow> True)"
proof -
  let ?mapped = "apply_mappings L mappings_binance_miniticker_v1 payload (Some (rc_filter_config config))"
  have mappings: "resolve_field_mappings L (rc_parser_name config) (Some (rc_filter_config config)) = mappings_binance_miniticker_v1"
    using assms by (simp add: resolve_field_mappings_def default_mappings_for_parser_def)
  have mapped: "mf_market_key ?mapped = map_option (mapped_market_key L SymbolToMarketKey) (j_get payload ''s'')"
    by (simp add: apply_mappings_def mappings_binance_miniticker_v1_def apply_mapping_def field_mapping_def s_path
        MappedFields_default_def split: option.split)
  have "pf_market_key (apply_runtime_field_mapping_overrides L config payload p)
      = (case trimmed (mf_market_key ?mapped) of None \<Rightarrow> pf_market_key p | Some k \<Rightarrow> Some k)" for p
    unfolding apply_runtime_field_mapping_overrides_def Let_def mappings
    by (simp add: mappings_binance_miniticker_v1_def [THEN arg_cong [of _ _ "\<lambda>m. m = []"]] split: option.split)
  moreover have "pf_market_key (apply_inverted_price_override config p) = pf_market_key p" for p
    unfolding apply_inverted_price_override_def Let_def
    by (cases "Option.bind (pf_price p) positive_finite") (simp_all split: option.split)
  moreover have "pf_market_key (apply_accelerated_simulation_timestamp L payload run p) = pf_market_key p" for run p
    by (simp add: apply_accelerated_simulation_timestamp_def split: option.split)
  ultimately have "pf_market_key (prepare_parsed L config hint payload parsed)
      = (case trimmed (mf_market_key ?mapped) of None \<Rightarrow> pf_market_key parsed | Some k \<Rightarrow> Some k)"
    by (simp add: prepare_parsed_def split: option.split)
  then show ?thesis unfolding mapped
    by (auto simp: mapped_market_key_def trimmed_def non_empty_def split: option.split json.split)
qed

definition ether_stream :: RuntimeStreamConfig where
  "ether_stream =
     \<lparr>rc_stream_config_id = ''s1'', rc_source_id = ''binance'', rc_source_type = ''cex_websocket'', rc_source_name = [], rc_source_scope_kind = ''platform'', rc_owner_tenant_id = None,
      rc_connection_config = JNull, rc_operating_mode_profile = ''live'', rc_auth_secret_ref = None, rc_auth_config = JNull,
      rc_connector_mode = ''websocket'', rc_stream_name = [], rc_subscription_key = None,
      rc_event_type = ''quote'', rc_parser_name = ''binance_miniticker_v1'', rc_market_key = Some ''ETH/USD'',
      rc_asset_pair = Some ''ETH/USDT'', rc_filter_config = JNull, rc_payload_ts_path = None, rc_payload_ts_unit = ''ms'',
      rc_poll_interval_ms = None, rc_tenant_targets = [''a'']\<rparr>"

text \<open>The stream of the exchange and the answer of its endpoint for the last 24 hours.\<close>

theorem venue_symbol_replaces_configured_market_witness:
  "rc_market_key ether_stream = Some ''ETH/USD''
   \<and> (\<forall>parsed. pf_market_key (prepare_parsed hex_libs ether_stream \<lparr>hi_chain_id = None, hi_run_id = None\<rparr>
         (JObject [(''s'', JString ''ETHUSDT''), (''c'', JString ''3000'')]) parsed) = Some ''ETHUSDT''
      \<and> pf_market_key (prepare_parsed hex_libs ether_stream \<lparr>hi_chain_id = None, hi_run_id = None\<rparr>
         (JObject [(''symbol'', JString ''ETHUSDT''), (''lastPrice'', JString ''3000'')]) parsed) = pf_market_key parsed)"
proof -
  have s: "j_get (JObject [(''s'', JString ''ETHUSDT''), (''c'', JString ''3000'')]) ''s'' = Some (JString ''ETHUSDT'')"
    "j_get (JObject [(''symbol'', JString ''ETHUSDT''), (''lastPrice'', JString ''3000'')]) ''s'' = None" by simp_all
  have symbol: "trim ''ETHUSDT'' = ''ETHUSDT''" "symbol_to_market_key hex_libs ''ETHUSDT'' = None" by code_simp+
  have "rc_parser_name ether_stream = ''binance_miniticker_v1''" "j_get (rc_filter_config ether_stream) ''field_mappings'' = None"
    by (simp_all add: ether_stream_def)
  note market = venue_symbol_replaces_configured_market [OF this]
  have "rc_market_key ether_stream = Some ''ETH/USD''" by (simp add: ether_stream_def)
  then show ?thesis
    using market [where payload = "JObject [(''s'', JString ''ETHUSDT''), (''c'', JString ''3000'')]" and L = hex_libs]
      market [where payload = "JObject [(''symbol'', JString ''ETHUSDT''), (''lastPrice'', JString ''3000'')]" and L = hex_libs]
    unfolding s by (simp add: symbol)
qed

end
