(* ===== verification/Endpoint.thy ===== *)
theory Endpoint
  imports StreamWorker
begin

text \<open>
  The endpoint of a stream, \<^verbatim>\<open>apps/indexer/src/stream_worker.rs\<close>: placeholders of its template are
  filled in from the stream's credentials and from the environment, and what cannot be is an error. The
  environment is a parameter. The scan for placeholders is written as the loop it is, over an index into
  the template, and is shown to return.
\<close>

section \<open>Placeholders\<close>

definition key_char :: "char \<Rightarrow> bool" where
  "key_char c \<longleftrightarrow> c \<in> set upper_letters \<or> c \<in> set lower_letters \<or> c \<in> set ''0123456789'' \<or> c = CHR ''_'' \<or> c = CHR ''-''"

definition position :: "'a \<Rightarrow> 'a list \<Rightarrow> nat option" where
  "position c s = (if c \<in> set s then Some (length (takeWhile (\<lambda>x. x \<noteq> c) s)) else None)"

text \<open>
  The loop of \<^verbatim>\<open>collect_unresolved_placeholders\<close>, from the index it has reached and the keys found so far.
  The slice between two braces lies between characters, as braces are ASCII.
\<close>

partial_function (option) scan_placeholders :: "string \<Rightarrow> nat \<Rightarrow> string list \<Rightarrow> string list option" where
  "scan_placeholders endpoint index placeholders =
     (if length endpoint \<le> index then Some placeholders
      else if endpoint ! index \<noteq> CHR ''{'' then scan_placeholders endpoint (index + 1) placeholders
      else
        (case position (CHR ''}'') (drop (index + 1) endpoint) of
           None \<Rightarrow> Some placeholders
         | Some end_offset \<Rightarrow>
             (let end_index = index + 1 + end_offset;
                  key = take end_offset (drop (index + 1) endpoint)
              in scan_placeholders endpoint (end_index + 1)
                   (if index + 1 < end_index \<and> list_all key_char key \<and> key \<notin> set placeholders
                    then placeholders @ [key] else placeholders))))"

declare scan_placeholders.simps [code]

text \<open>What the scan computes: the texts between an opening brace and the next closing one, from the left.\<close>

function braced :: "string \<Rightarrow> string list" where
  "braced s =
     (case dropWhile (\<lambda>c. c \<noteq> CHR ''{'') s of
        [] \<Rightarrow> []
      | _ # r \<Rightarrow>
          if CHR ''}'' \<in> set r
          then takeWhile (\<lambda>c. c \<noteq> CHR ''}'') r # braced (tl (dropWhile (\<lambda>c. c \<noteq> CHR ''}'') r))
          else [])"
  by pat_completeness auto
termination
proof (relation "measure length")
  fix s r :: string and c
  assume "dropWhile (\<lambda>c. c \<noteq> CHR ''{'') s = c # r"
  then have "length (c # r) \<le> length s" by (metis length_dropWhile_le)
  moreover have "length (tl (dropWhile (\<lambda>c. c \<noteq> CHR ''}'') r)) \<le> length r"
    by (metis diff_le_self le_trans length_dropWhile_le length_tl)
  ultimately show "(tl (dropWhile (\<lambda>c. c \<noteq> CHR ''}'') r), s) \<in> measure length" by simp
qed simp

declare braced.simps [simp del]

definition is_placeholder :: "string \<Rightarrow> bool" where
  "is_placeholder key \<longleftrightarrow> key \<noteq> [] \<and> list_all key_char key"

definition add_new :: "'a \<Rightarrow> 'a list \<Rightarrow> 'a list" where
  "add_new x xs = (if x \<in> set xs then xs else xs @ [x])"

definition placeholders_of :: "string \<Rightarrow> string list \<Rightarrow> string list" where
  "placeholders_of s found = fold add_new (filter is_placeholder (braced s)) found"

definition placeholder_keys :: "string \<Rightarrow> string list" where
  "placeholder_keys endpoint = placeholders_of endpoint []"

definition collect_unresolved_placeholders :: "string \<Rightarrow> string list" where
  "collect_unresolved_placeholders endpoint = the (scan_placeholders endpoint 0 [])"

lemma braced_Nil [simp]: "braced [] = []"
  by (simp add: braced.simps)

lemma braced_other: "c \<noteq> CHR ''{'' \<Longrightarrow> braced (c # s) = braced s"
  by (simp add: braced.simps [of "c # s"] braced.simps [of s])

lemma braced_open:
  "braced (CHR ''{'' # r) = (case position (CHR ''}'') r of
      None \<Rightarrow> [] | Some n \<Rightarrow> take n r # braced (drop (Suc n) r))"
  by (simp add: braced.simps [of "CHR ''{'' # r"] position_def takeWhile_eq_take [symmetric] dropWhile_eq_drop drop_Suc
      tl_drop [symmetric])

lemma position_less: "position c s = Some n \<Longrightarrow> n < length s"
  proof -
  have "c \<in> set s \<Longrightarrow> length (takeWhile (\<lambda>x. x \<noteq> c) s) < length s" by (induction s) auto
  then show "position c s = Some n \<Longrightarrow> ?thesis" by (auto simp: position_def split: if_splits)
qed

text \<open>The loop at an index does what the specification says of the rest of the template.\<close>

lemma scan_spec: "scan_placeholders endpoint index found = Some (placeholders_of (drop index endpoint) found)"
proof (induction "length endpoint - index" arbitrary: index found rule: less_induct)
  case less
  show ?case
  proof (cases "index < length endpoint")
    case False
    then show ?thesis by (simp add: scan_placeholders.simps placeholders_of_def)
  next
    case True
    then have cut: "drop index endpoint = endpoint ! index # drop (Suc index) endpoint" by (simp add: Cons_nth_drop_Suc)
    show ?thesis
    proof (cases "endpoint ! index = CHR ''{''")
      case False
      then have "scan_placeholders endpoint index found = scan_placeholders endpoint (index + 1) found"
        using True by (simp add: scan_placeholders.simps [of endpoint index])
      also have "\<dots> = Some (placeholders_of (drop (index + 1) endpoint) found)" using True by (intro less.hyps) simp
      finally show ?thesis using False by (simp add: cut placeholders_of_def braced_other)
    next
      case brace: True
      show ?thesis
      proof (cases "position (CHR ''}'') (drop (Suc index) endpoint)")
        case None
        then show ?thesis using True brace
          by (simp add: scan_placeholders.simps [of endpoint index] cut placeholders_of_def braced_open)
      next
        case (Some n)
        let ?key = "take n (drop (Suc index) endpoint)"
        define found' where "found' = (if is_placeholder ?key then add_new ?key found else found)"
        have "?key \<noteq> [] \<longleftrightarrow> 0 < n" using position_less [OF Some] by auto
        then have "scan_placeholders endpoint index found = scan_placeholders endpoint (Suc (Suc (index + n))) found'"
          using True brace Some
          by (simp add: scan_placeholders.simps [of endpoint index] found'_def is_placeholder_def add_new_def)
        also have "\<dots> = Some (placeholders_of (drop (Suc (Suc (index + n))) endpoint) found')"
          using True by (intro less.hyps) simp
        finally show ?thesis
          using brace Some by (simp add: cut placeholders_of_def braced_open found'_def add.commute)
      qed
    qed
  qed
qed

text \<open>
  (C36) The scan for placeholders returns for every template, even one whose braces do not match, with the
  distinct keys between its braces, in the order they first occur.
\<close>

theorem placeholder_scan_terminates:
  "scan_placeholders endpoint 0 [] = Some (placeholder_keys endpoint)"
  by (simp add: scan_spec placeholder_keys_def)

lemma set_add_new: "set (fold add_new xs ys) = set xs \<union> set ys \<and> (distinct ys \<longrightarrow> distinct (fold add_new xs ys))"
  by (induction xs arbitrary: ys) (auto simp: add_new_def)

lemma collected: "collect_unresolved_placeholders endpoint = placeholder_keys endpoint"
  by (simp add: collect_unresolved_placeholders_def scan_spec placeholder_keys_def)

text \<open>Every key is found, once.\<close>

lemma placeholder_keys_complete:
  "distinct (placeholder_keys endpoint) \<and> set (placeholder_keys endpoint) = {k \<in> set (braced endpoint). is_placeholder k}"
  using set_add_new [of "filter is_placeholder (braced endpoint)" "[]"] by (auto simp: placeholder_keys_def placeholders_of_def)

section \<open>Credentials\<close>

text \<open>
  \<^verbatim>\<open>str::replace\<close>, for a pattern that is not empty: those of the program contain braces or letters.
\<close>

function replace_all :: "string \<Rightarrow> string \<Rightarrow> string \<Rightarrow> string" where
  "replace_all p r s =
     (if p = [] \<or> s = [] then s
      else if prefix p s then r @ replace_all p r (drop (length p) s)
      else hd s # replace_all p r (tl s))"
  by pat_completeness auto
termination
  by (relation "measure (\<lambda>(p, r, s). length s)") auto

declare replace_all.simps [simp del]

definition braces :: "string \<Rightarrow> string" where
  "braces key = ''{'' @ key @ ''}''"

definition auth_placeholder_value :: "'a libs_scheme \<Rightarrow> json \<Rightarrow> string option" where
  "auth_placeholder_value L v =
     (case v of
        JString text \<Rightarrow> non_empty (trim text)
      | JNumber n \<Rightarrow> Some (json_to_string L (JNumber n))
      | JBool b \<Rightarrow> Some (if b then ''true'' else ''false'')
      | _ \<Rightarrow> None)"

text \<open>The first key that is absent ends the search, with nothing.\<close>

fun first_key_value :: "'a libs_scheme \<Rightarrow> (string \<times> json) list \<Rightarrow> string list \<Rightarrow> string option" where
  "first_key_value L m [] = None"
| "first_key_value L m (key # ks) =
     (case map_of m key of
        None \<Rightarrow> None
      | Some v \<Rightarrow> (case auth_placeholder_value L v of Some parsed \<Rightarrow> Some parsed | None \<Rightarrow> first_key_value L m ks))"

definition extract_alchemy_key :: "'a libs_scheme \<Rightarrow> json \<Rightarrow> string option" where
  "extract_alchemy_key L auth_config =
     Option.bind (as_object auth_config) (\<lambda>m. first_key_value L m [''alchemy_api_key'', ''api_key'', ''apikey''])"

text \<open>The first of some variables of the environment that is set to more than white space.\<close>

fun first_env :: "(string \<Rightarrow> string option) \<Rightarrow> string list \<Rightarrow> string option" where
  "first_env env [] = None"
| "first_env env (key # ks) =
     (case Option.bind (env key) (\<lambda>v. non_empty (trim v)) of Some v \<Rightarrow> Some v | None \<Rightarrow> first_env env ks)"

definition load_alchemy_key_from_env :: "(string \<Rightarrow> string option) \<Rightarrow> string option" where
  "load_alchemy_key_from_env env = first_env env [''ALCHEMY_API_KEY'', ''INDEXER_ALCHEMY_API_KEY'']"

definition env_char :: "char \<Rightarrow> char" where
  "env_char c =
     (if c \<in> set upper_letters \<or> c \<in> set lower_letters \<or> c \<in> set ''0123456789'' then upper_char c else CHR ''_'')"

definition resolve_placeholder_from_env :: "(string \<Rightarrow> string option) \<Rightarrow> string \<Rightarrow> string option" where
  "resolve_placeholder_from_env env placeholder =
     (let normalized = map env_char placeholder in first_env env [normalized, ''INDEXER_'' @ normalized])"

definition fill_from_auth :: "'a libs_scheme \<Rightarrow> json \<Rightarrow> string \<Rightarrow> string" where
  "fill_from_auth L auth_config endpoint =
     fold (\<lambda>(key, v) e. case auth_placeholder_value L v of None \<Rightarrow> e | Some r \<Rightarrow> replace_all (braces key) r e)
       (unwrap_or (as_object auth_config) []) endpoint"

definition fill_from_env :: "(string \<Rightarrow> string option) \<Rightarrow> string \<Rightarrow> string" where
  "fill_from_env env endpoint =
     fold (\<lambda>key e. if key = ''subscription_key'' then e
                 else (case resolve_placeholder_from_env env key of None \<Rightarrow> e | Some v \<Rightarrow> replace_all (braces key) v e))
       (collect_unresolved_placeholders endpoint) endpoint"

definition resolve_endpoint_template ::
  "'a libs_scheme \<Rightarrow> (string \<Rightarrow> string option) \<Rightarrow> string \<Rightarrow> json \<Rightarrow> string option \<Rightarrow> string res" where
  "resolve_endpoint_template L env endpoint_template auth_config auth_secret_ref =
     (let e1 = fill_from_auth L auth_config (trim endpoint_template) in
      bind_res
        (if contains_str e1 ''YOUR_ALCHEMY_KEY''
         then (case or_else (extract_alchemy_key L auth_config) (load_alchemy_key_from_env env) of
                 Some v \<Rightarrow> Inr (replace_all ''YOUR_ALCHEMY_KEY'' v e1)
               | None \<Rightarrow> Inl (Err ''missing auth_config.alchemy_api_key (or auth_config.api_key) for endpoint template''))
         else Inr e1)
        (\<lambda>e2.
          (let e3 = fill_from_env env e2;
               unresolved = filter (\<lambda>k. k \<noteq> ''subscription_key'') (collect_unresolved_placeholders e3)
           in if unresolved \<noteq> []
              then Inl (Err (''missing auth_config values for endpoint template placeholders: '' @ join '', '' unresolved
                     @ (case auth_secret_ref of None \<Rightarrow> [] | Some r \<Rightarrow> '' (auth_secret_ref='' @ r @ '')'')))
              else Inr e3)))"

fun first_text :: "json \<Rightarrow> string list \<Rightarrow> string option" where
  "first_text config [] = None"
| "first_text config (key # ks) =
     (case trimmed (get_str config key) of Some v \<Rightarrow> Some v | None \<Rightarrow> first_text config ks)"

definition endpoint_from_connection_config :: "json \<Rightarrow> string res" where
  "endpoint_from_connection_config config =
     (case first_text config [''ws_endpoint'', ''rpc_url'', ''ws_url'', ''endpoint'', ''http_url''] of
        None \<Rightarrow> Inl (Err ''missing source endpoint in connection_config'')
      | Some e \<Rightarrow> Inr e)"

definition endpoint_from_runtime_config ::
  "'a libs_scheme \<Rightarrow> (string \<Rightarrow> string option) \<Rightarrow> RuntimeStreamConfig \<Rightarrow> string res" where
  "endpoint_from_runtime_config L env config =
     bind_res (endpoint_from_connection_config (rc_connection_config config)) (\<lambda>template.
     bind_res (resolve_endpoint_template L env template (rc_auth_config config) (rc_auth_secret_ref config)) (\<lambda>endpoint.
       if rc_connector_mode config = ''websocket'' \<or> \<not> contains_str endpoint ''{subscription_key}'' then Inr endpoint
       else
         (case trimmed (rc_subscription_key config) of
            None \<Rightarrow> Inl (Err (''missing subscription_key for endpoint template placeholder in stream_config_id=''
                           @ rc_stream_config_id config))
          | Some key \<Rightarrow> Inr (replace_all ''{subscription_key}'' key endpoint))))"

section \<open>The interval of a poll\<close>

definition MIN_POLL_INTERVAL_MS :: nat where
  "MIN_POLL_INTERVAL_MS = 200"

definition MAX_POLL_INTERVAL_MS :: nat where
  "MAX_POLL_INTERVAL_MS = 60000"

definition TEST_MODE_MOCK_POLL_INTERVAL_MS :: nat where
  "TEST_MODE_MOCK_POLL_INTERVAL_MS = 200"

definition resolve_poll_interval_duration :: "nat option \<Rightarrow> nat \<Rightarrow> nat" where
  "resolve_poll_interval_duration configured_ms default_ms =
     max MIN_POLL_INTERVAL_MS (min MAX_POLL_INTERVAL_MS (unwrap_or configured_ms default_ms))"

definition resolve_runtime_poll_interval_duration :: "RuntimeStreamConfig \<Rightarrow> bool \<Rightarrow> nat \<Rightarrow> nat" where
  "resolve_runtime_poll_interval_duration config is_mock_endpoint default_ms =
     (let mock = (rc_operating_mode_profile config = ''test'' \<and> is_mock_endpoint)
      in resolve_poll_interval_duration
           (if mock then Some (min (unwrap_or (rc_poll_interval_ms config) default_ms) TEST_MODE_MOCK_POLL_INTERVAL_MS)
            else rc_poll_interval_ms config)
           (if mock then min default_ms TEST_MODE_MOCK_POLL_INTERVAL_MS else default_ms))"

lemma poll_interval_bounds:
  "200 \<le> resolve_runtime_poll_interval_duration config mock default_ms \<and> resolve_runtime_poll_interval_duration config mock default_ms \<le> 60000"
  by (simp add: resolve_runtime_poll_interval_duration_def resolve_poll_interval_duration_def
      MIN_POLL_INTERVAL_MS_def MAX_POLL_INTERVAL_MS_def Let_def)

section \<open>What a resolved endpoint is\<close>

text \<open>
  An endpoint that is resolved has no placeholder left that the connector would send as it stands: none
  at all, or the subscription key, which a poll must then have filled in.
\<close>

lemma resolved_endpoint_has_no_credentials_left:
  assumes "resolve_endpoint_template L env template auth_config secret = Inr endpoint"
  shows "set (placeholder_keys endpoint) \<subseteq> {''subscription_key''}"
proof -
  obtain e where "endpoint = fill_from_env env e" "filter (\<lambda>k. k \<noteq> ''subscription_key'') (placeholder_keys endpoint) = []"
    using assms by (auto simp: resolve_endpoint_template_def Let_def bind_res_def collected split: if_splits option.splits sum.splits)
  then show ?thesis by (auto simp: filter_empty_conv)
qed

text \<open>
  A key given as \<^verbatim>\<open>api_key\<close> is not found unless \<^verbatim>\<open>alchemy_api_key\<close> is there too: the search for the three
  names ends at the first that is absent. The error names \<^verbatim>\<open>api_key\<close> as an alternative.
\<close>

lemma alchemy_key_under_other_name_is_ignored:
  assumes "map_of m ''alchemy_api_key'' = None" "load_alchemy_key_from_env env = None"
    and "contains_str (fill_from_auth L (JObject m) (trim template)) ''YOUR_ALCHEMY_KEY''"
  shows "resolve_endpoint_template L env template (JObject m) secret
       = Inl (Err ''missing auth_config.alchemy_api_key (or auth_config.api_key) for endpoint template'')"
  using assms by (simp add: resolve_endpoint_template_def extract_alchemy_key_def bind_res_def Let_def)

section \<open>What the endpoint says of a replay\<close>

text \<open>The parts of a URL that \<^verbatim>\<open>Url::parse\<close> yields, where it does.\<close>

record parsed_url =
  ur_host :: "string option"
  ur_path :: string
  ur_query :: "(string \<times> string) list"

record EndpointLogContext =
  en_host :: "string option"
  en_path :: string
  en_is_mock_endpoint :: bool
  en_tenant_id :: "string option"
  en_stream_name :: "string option"
  en_simulation_run_id :: "string option"

definition query_step :: "string \<times> string \<Rightarrow> EndpointLogContext \<Rightarrow> EndpointLogContext" where
  "query_step = (\<lambda>(key, raw) c.
     (case non_empty (trim raw) of
        None \<Rightarrow> c
      | Some v \<Rightarrow>
          if key = ''tenant_id'' then c\<lparr>en_tenant_id := Some v\<rparr>
          else if key = ''stream_name'' then c\<lparr>en_stream_name := Some v\<rparr>
          else if key = ''simulation_run_id'' then c\<lparr>en_simulation_run_id := Some v\<rparr>
          else c))"

definition endpoint_log_context :: "(string \<Rightarrow> parsed_url option) \<Rightarrow> string \<Rightarrow> EndpointLogContext" where
  "endpoint_log_context parse_url endpoint =
     (let context = (\<lambda>host path. \<lparr>en_host = host, en_path = path,
            en_is_mock_endpoint = contains_str path ''/api/simulation/mock/'', en_tenant_id = None,
            en_stream_name = None, en_simulation_run_id = None\<rparr>)
      in case parse_url endpoint of
           None \<Rightarrow> context None endpoint
         | Some u \<Rightarrow> fold query_step (ur_query u) (context (ur_host u) (ur_path u)))"

end
