(* ===== verification/Supervisor.thy ===== *)
theory Supervisor
  imports Endpoint
begin

text \<open>
  The supervisor of the stream workers, \<^verbatim>\<open>apps/indexer/src/stream_supervisor.rs\<close>: it brings its table
  of workers in line with the stream configurations stored, on start, on a notification and from time to
  time. The queries and the parsing of URLs are parameters. What is started and stopped is logged.
\<close>

section \<open>Configurations\<close>

record EffectiveStreamConfig =
  ec_stream_config_id :: string
  ec_source_id :: string
  ec_source_type :: string
  ec_source_name :: string
  ec_source_scope_kind :: string
  ec_owner_tenant_id :: "string option"
  ec_connection_config :: json
  ec_connector_mode :: string
  ec_operating_mode_profile :: string
  ec_stream_name :: string
  ec_subscription_key :: "string option"
  ec_event_type :: string
  ec_parser_name :: string
  ec_market_key :: "string option"
  ec_asset_pair :: "string option"
  ec_filter_config :: json
  ec_auth_secret_ref :: "string option"
  ec_auth_config :: json
  ec_payload_ts_path :: "string option"
  ec_payload_ts_unit :: string
  ec_poll_interval_ms :: "int option"

definition to_runtime_config :: "EffectiveStreamConfig \<Rightarrow> string list \<Rightarrow> RuntimeStreamConfig" where
  "to_runtime_config cfg tenant_targets =
     \<lparr>rc_stream_config_id = ec_stream_config_id cfg, rc_source_id = ec_source_id cfg,
      rc_source_type = ec_source_type cfg, rc_source_name = ec_source_name cfg,
      rc_source_scope_kind = ec_source_scope_kind cfg, rc_owner_tenant_id = ec_owner_tenant_id cfg,
      rc_connection_config = ec_connection_config cfg, rc_operating_mode_profile = ec_operating_mode_profile cfg,
      rc_auth_secret_ref = ec_auth_secret_ref cfg, rc_auth_config = ec_auth_config cfg,
      rc_connector_mode = ec_connector_mode cfg, rc_stream_name = ec_stream_name cfg,
      rc_subscription_key = ec_subscription_key cfg, rc_event_type = ec_event_type cfg,
      rc_parser_name = ec_parser_name cfg, rc_market_key = ec_market_key cfg, rc_asset_pair = ec_asset_pair cfg,
      rc_filter_config = ec_filter_config cfg, rc_payload_ts_path = ec_payload_ts_path cfg,
      rc_payload_ts_unit = ec_payload_ts_unit cfg,
      rc_poll_interval_ms = Option.bind (ec_poll_interval_ms cfg) (\<lambda>n. if 0 \<le> n then Some (nat n) else None),
      rc_tenant_targets = tenant_targets\<rparr>"

text \<open>All fields are hashed, so that a change of any of them restarts the worker.\<close>

definition runtime_config_json :: "RuntimeStreamConfig \<Rightarrow> json" where
  "runtime_config_json cfg =
     JObject
       [(''stream_config_id'', JString (rc_stream_config_id cfg)), (''source_id'', JString (rc_source_id cfg)),
        (''source_type'', JString (rc_source_type cfg)), (''source_name'', JString (rc_source_name cfg)),
        (''source_scope_kind'', JString (rc_source_scope_kind cfg)),
        (''owner_tenant_id'', j_opt JString (rc_owner_tenant_id cfg)),
        (''connection_config'', rc_connection_config cfg),
        (''operating_mode_profile'', JString (rc_operating_mode_profile cfg)),
        (''auth_secret_ref'', j_opt JString (rc_auth_secret_ref cfg)), (''auth_config'', rc_auth_config cfg),
        (''connector_mode'', JString (rc_connector_mode cfg)), (''stream_name'', JString (rc_stream_name cfg)),
        (''subscription_key'', j_opt JString (rc_subscription_key cfg)),
        (''event_type'', JString (rc_event_type cfg)), (''parser_name'', JString (rc_parser_name cfg)),
        (''market_key'', j_opt JString (rc_market_key cfg)), (''asset_pair'', j_opt JString (rc_asset_pair cfg)),
        (''filter_config'', rc_filter_config cfg), (''payload_ts_path'', j_opt JString (rc_payload_ts_path cfg)),
        (''payload_ts_unit'', JString (rc_payload_ts_unit cfg)),
        (''poll_interval_ms'', j_opt j_nat (rc_poll_interval_ms cfg)),
        (''tenant_targets'', JArray (map JString (rc_tenant_targets cfg)))]"

definition hash_runtime_config :: "'a worker_libs_scheme \<Rightarrow> RuntimeStreamConfig \<Rightarrow> string" where
  "hash_runtime_config L cfg = wl_sha256_hex L (json_to_string L (runtime_config_json cfg))"

section \<open>Streams that are not run\<close>

text \<open>The first endpoint that gives a reason, of the keys in their order.\<close>

fun test_skip_reason :: "(string \<Rightarrow> parsed_url option) \<Rightarrow> json \<Rightarrow> string list \<Rightarrow> string option" where
  "test_skip_reason parse_url config [] = None"
| "test_skip_reason parse_url config (key # ks) =
     (case trimmed (get_str config key) of
        None \<Rightarrow> test_skip_reason parse_url config ks
      | Some endpoint \<Rightarrow>
          if CHR ''{'' \<in> set endpoint \<and> CHR ''}'' \<in> set endpoint then Some ''unresolved endpoint placeholder''
          else
            (case parse_url endpoint of
               None \<Rightarrow> test_skip_reason parse_url config ks
             | Some u \<Rightarrow>
                 (let names = map fst (filter (\<lambda>(k, v). trim v \<noteq> []) (ur_query u)) in
                  if contains_str (ur_path u) ''/api/simulation/mock/''
                     \<and> \<not> (''tenant_id'' \<in> set names \<and> ''stream_name'' \<in> set names)
                  then Some ''deprecated simulation replay endpoint''
                  else test_skip_reason parse_url config ks)))"

definition skipped_test_stream_reason :: "(string \<Rightarrow> parsed_url option) \<Rightarrow> EffectiveStreamConfig \<Rightarrow> string option" where
  "skipped_test_stream_reason parse_url cfg =
     (if ec_operating_mode_profile cfg \<noteq> ''test'' then None
      else test_skip_reason parse_url (ec_connection_config cfg) [''ws_endpoint'', ''rpc_url'', ''http_url'', ''endpoint''])"

definition skipped_stream_reason :: "(string \<Rightarrow> parsed_url option) \<Rightarrow> bool \<Rightarrow> EffectiveStreamConfig \<Rightarrow> string option" where
  "skipped_stream_reason parse_url live_streams_enabled cfg =
     (if ec_operating_mode_profile cfg = ''live'' \<and> \<not> live_streams_enabled
      then Some ''live streams disabled by configuration''
      else skipped_test_stream_reason parse_url cfg)"

text \<open>A tenant's own source serves that tenant, and any other the tenants enabled for the stream.\<close>

definition resolve_runtime_tenant_targets :: "(string \<Rightarrow> string list res) \<Rightarrow> EffectiveStreamConfig \<Rightarrow> string list res" where
  "resolve_runtime_tenant_targets list_targets cfg =
     (if ec_source_scope_kind cfg = ''tenant'' then Inr (case ec_owner_tenant_id cfg of None \<Rightarrow> [] | Some t \<Rightarrow> [t])
      else list_targets (ec_stream_config_id cfg))"

section \<open>Reconciliation\<close>

datatype worker_action = StartWorker RuntimeStreamConfig | StopWorker string

text \<open>A handle keeps the hash of the configuration its worker was started with.\<close>

record supervisor =
  sv_workers :: "(string \<times> string) list"
  sv_actions :: "worker_action list"

definition stop_worker :: "string \<Rightarrow> supervisor \<Rightarrow> supervisor" where
  "stop_worker i sv = \<lparr>sv_workers = AList.delete i (sv_workers sv), sv_actions = sv_actions sv @ [StopWorker i]\<rparr>"

definition start_worker :: "'a worker_libs_scheme \<Rightarrow> RuntimeStreamConfig \<Rightarrow> supervisor \<Rightarrow> supervisor" where
  "start_worker L cfg sv =
     \<lparr>sv_workers = AList.update (rc_stream_config_id cfg) (hash_runtime_config L cfg) (sv_workers sv),
      sv_actions = sv_actions sv @ [StartWorker cfg]\<rparr>"

definition run_config :: "'a worker_libs_scheme \<Rightarrow> RuntimeStreamConfig \<Rightarrow> supervisor \<Rightarrow> supervisor" where
  "run_config L cfg sv =
     (let i = rc_stream_config_id cfg in
      case map_of (sv_workers sv) i of
        None \<Rightarrow> start_worker L cfg sv
      | Some h \<Rightarrow> if h = hash_runtime_config L cfg then sv else start_worker L cfg (stop_worker i sv))"

record catalog =
  ct_effective :: "EffectiveStreamConfig list res"
  ct_targets :: "string \<Rightarrow> string list res"
  ct_parse_url :: "string \<Rightarrow> parsed_url option"
  ct_live_streams_enabled :: bool

text \<open>The configuration to run for a stored one, if it is to run, and if its tenants can be read.\<close>

definition desired_config :: "catalog \<Rightarrow> EffectiveStreamConfig \<Rightarrow> RuntimeStreamConfig option res" where
  "desired_config C cfg =
     (if skipped_stream_reason (ct_parse_url C) (ct_live_streams_enabled C) cfg \<noteq> None then Inr None
      else bind_res (resolve_runtime_tenant_targets (ct_targets C) cfg) (\<lambda>targets.
        if ec_operating_mode_profile cfg = ''live'' \<and> targets = [] then Inr None
        else Inr (Some (to_runtime_config cfg targets))))"

text \<open>The configurations in turn, with the identifiers of those to run; a failed query ends the pass.\<close>

fun reconcile_configs ::
  "'a worker_libs_scheme \<Rightarrow> catalog \<Rightarrow> EffectiveStreamConfig list \<Rightarrow> string list \<Rightarrow> supervisor \<Rightarrow> supervisor \<times> string list res" where
  "reconcile_configs L C [] desired_ids sv = (sv, Inr desired_ids)"
| "reconcile_configs L C (cfg # cfgs) desired_ids sv =
     (case desired_config C cfg of
        Inl e \<Rightarrow> (sv, Inl e)
      | Inr None \<Rightarrow> reconcile_configs L C cfgs desired_ids sv
      | Inr (Some r) \<Rightarrow> reconcile_configs L C cfgs (desired_ids @ [rc_stream_config_id r]) (run_config L r sv))"

definition reconcile :: "'a worker_libs_scheme \<Rightarrow> catalog \<Rightarrow> supervisor \<Rightarrow> supervisor \<times> unit res" where
  "reconcile L C sv =
     (case ct_effective C of
        Inl e \<Rightarrow> (sv, Inl e)
      | Inr effective \<Rightarrow>
          (case reconcile_configs L C effective [] sv of
             (sv1, Inl e) \<Rightarrow> (sv1, Inl e)
           | (sv1, Inr desired_ids) \<Rightarrow>
               (fold stop_worker (filter (\<lambda>i. i \<notin> set desired_ids) (map fst (sv_workers sv1))) sv1, Inr ())))"

section \<open>What a pass brings about\<close>

definition wanted :: "catalog \<Rightarrow> EffectiveStreamConfig list \<Rightarrow> RuntimeStreamConfig list" where
  "wanted C cfgs = List.map_filter (\<lambda>cfg. case desired_config C cfg of Inr r \<Rightarrow> r | Inl _ \<Rightarrow> None) cfgs"

definition hashed :: "'a worker_libs_scheme \<Rightarrow> RuntimeStreamConfig list \<Rightarrow> (string \<times> string) list" where
  "hashed L rs = map (\<lambda>r. (rc_stream_config_id r, hash_runtime_config L r)) rs"

lemma wanted_simps [simp]:
  "wanted C [] = []"
  "desired_config C cfg = Inr None \<Longrightarrow> wanted C (cfg # cfgs) = wanted C cfgs"
  "desired_config C cfg = Inr (Some r) \<Longrightarrow> wanted C (cfg # cfgs) = r # wanted C cfgs"
  by (simp_all add: wanted_def List.map_filter_simps)

lemma desired_id: "desired_config C cfg = Inr (Some r) \<Longrightarrow> rc_stream_config_id r = ec_stream_config_id cfg"
  by (auto simp: desired_config_def bind_res_def to_runtime_config_def split: if_splits sum.splits)

lemma wanted_ids:
  "set (map rc_stream_config_id (wanted C cfgs)) \<subseteq> set (map ec_stream_config_id cfgs)
   \<and> (distinct (map ec_stream_config_id cfgs) \<longrightarrow> distinct (map rc_stream_config_id (wanted C cfgs)))"
proof (induction cfgs)
  case (Cons cfg cfgs)
  have "wanted C (cfg # cfgs) = (case desired_config C cfg of Inr (Some r) \<Rightarrow> [r] | _ \<Rightarrow> []) @ wanted C cfgs"
    by (simp add: wanted_def List.map_filter_simps split: sum.split option.split)
  then show ?case using Cons desired_id [of C cfg] by (auto split: sum.splits option.splits)
qed simp

lemma run_config_workers:
  "map_of (sv_workers (run_config L r sv)) = (map_of (sv_workers sv))(rc_stream_config_id r \<mapsto> hash_runtime_config L r)"
  "distinct (map fst (sv_workers sv)) \<Longrightarrow> distinct (map fst (sv_workers (run_config L r sv)))"
  by (auto simp: run_config_def start_worker_def stop_worker_def Let_def update_conv' delete_conv' distinct_update distinct_delete
      fun_upd_idem split: option.split)

lemma upd_map_add: "(m(k \<mapsto> v)) ++ f = m ++ ([k \<mapsto> v] ++ f)"
  by (rule ext) (simp add: map_add_def split: option.split)

lemma reconcile_configs_workers:
  assumes "reconcile_configs L C cfgs ids sv = (sv', Inr ids')"
  shows "map_of (sv_workers sv') = map_of (sv_workers sv) ++ map_of (rev (hashed L (wanted C cfgs)))
    \<and> ids' = ids @ map rc_stream_config_id (wanted C cfgs) \<and> (distinct (map fst (sv_workers sv)) \<longrightarrow> distinct (map fst (sv_workers sv')))"
  using assms
proof (induction cfgs arbitrary: ids sv)
  case (Cons cfg cfgs)
  from Cons.prems obtain d where d: "desired_config C cfg = Inr d" by (auto split: sum.splits)
  show ?case
  proof (cases d)
    case None
    then show ?thesis using Cons d by simp
  next
    case (Some r)
    then have "reconcile_configs L C cfgs (ids @ [rc_stream_config_id r]) (run_config L r sv) = (sv', Inr ids')"
      using Cons.prems d by simp
    note ih = Cons.IH [OF this]
    have w: "wanted C (cfg # cfgs) = r # wanted C cfgs" using d Some by simp
    have "map_of (sv_workers sv') = (map_of (sv_workers sv))(rc_stream_config_id r \<mapsto> hash_runtime_config L r)
        ++ map_of (rev (hashed L (wanted C cfgs)))"
      using conjunct1 [OF ih] unfolding run_config_workers(1) .
    also have "\<dots> = map_of (sv_workers sv) ++ ([rc_stream_config_id r \<mapsto> hash_runtime_config L r]
        ++ map_of (rev (hashed L (wanted C cfgs))))" by (rule upd_map_add)
    also have "[rc_stream_config_id r \<mapsto> hash_runtime_config L r] ++ map_of (rev (hashed L (wanted C cfgs)))
        = map_of (rev (hashed L (wanted C (cfg # cfgs))))"
      unfolding w by (simp add: hashed_def)
    finally have "map_of (sv_workers sv') = map_of (sv_workers sv) ++ map_of (rev (hashed L (wanted C (cfg # cfgs))))" .
    moreover have "ids' = ids @ map rc_stream_config_id (wanted C (cfg # cfgs))"
      using ih unfolding w by simp
    moreover have "distinct (map fst (sv_workers sv)) \<longrightarrow> distinct (map fst (sv_workers sv'))"
      using ih run_config_workers(2) [of sv L r] by blast
    ultimately show ?thesis by blast
  qed
qed (simp add: hashed_def)

lemma stop_workers:
  "map_of (sv_workers (fold stop_worker ids sv)) = (map_of (sv_workers sv)) |` (- set ids)"
  "distinct (map fst (sv_workers sv)) \<Longrightarrow> distinct (map fst (sv_workers (fold stop_worker ids sv)))"
  by (induction ids arbitrary: sv) (auto simp: stop_worker_def delete_conv' distinct_delete restrict_map_def fun_eq_iff)

lemma reconciled_workers:
  assumes "ct_effective C = Inr cfgs" "distinct (map ec_stream_config_id cfgs)" "distinct (map fst (sv_workers sv))"
    and "reconcile L C sv = (sv', Inr ())"
  shows "distinct (map fst (sv_workers sv')) \<and> map_of (sv_workers sv') = map_of (hashed L (wanted C cfgs))"
proof -
  obtain sv1 ids where sv1: "reconcile_configs L C cfgs [] sv = (sv1, Inr ids)"
    and sv': "sv' = fold stop_worker (filter (\<lambda>i. i \<notin> set ids) (map fst (sv_workers sv1))) sv1"
    using assms(1,4) by (auto simp: reconcile_def split: prod.splits sum.splits)
  from reconcile_configs_workers [OF sv1]
  have w: "map_of (sv_workers sv1) = map_of (sv_workers sv) ++ map_of (rev (hashed L (wanted C cfgs)))"
    "ids = map fst (hashed L (wanted C cfgs))" "distinct (map fst (sv_workers sv1))"
    using assms(3) by (simp_all add: hashed_def o_def)
  have "distinct (map rc_stream_config_id (wanted C cfgs))"
    using wanted_ids [of C cfgs] assms(2) by blast
  then have rev: "map_of (rev (hashed L (wanted C cfgs))) = map_of (hashed L (wanted C cfgs))"
    by (subst map_of_inject_set) (simp_all add: hashed_def o_def rev_map [symmetric])
  have "map_of (sv_workers sv') i = map_of (hashed L (wanted C cfgs)) i" for i
  proof (cases "i \<in> set ids")
    case True
    then have "map_of (hashed L (wanted C cfgs)) i \<noteq> None" by (simp add: w(2) map_of_eq_None_iff)
    then show ?thesis using True by (auto simp: sv' stop_workers w(1) rev restrict_map_def map_add_def split: option.split)
  next
    case False
    then have "map_of (hashed L (wanted C cfgs)) i = None" by (simp add: w(2) map_of_eq_None_iff)
    moreover have "map_of (sv_workers sv') i = None"
      using False by (auto simp: sv' stop_workers restrict_map_def map_of_eq_None_iff)
    ultimately show ?thesis by simp
  qed
  then show ?thesis using stop_workers(2) [OF w(3)] by (auto simp: sv')
qed

lemma set_wanted: "r \<in> set (wanted C cfgs) \<longleftrightarrow> (\<exists>cfg \<in> set cfgs. desired_config C cfg = Inr (Some r))"
proof (induction cfgs)
  case (Cons cfg cfgs)
  have "wanted C (cfg # cfgs) = (case desired_config C cfg of Inr (Some r) \<Rightarrow> [r] | _ \<Rightarrow> []) @ wanted C cfgs"
    by (simp add: wanted_def List.map_filter_simps split: sum.split option.split)
  then show ?case using Cons by (auto split: sum.splits option.splits)
qed simp

lemma desired_config_iff:
  "desired_config C cfg = Inr (Some r) \<longleftrightarrow>
     (\<exists>targets. resolve_runtime_tenant_targets (ct_targets C) cfg = Inr targets \<and> r = to_runtime_config cfg targets
       \<and> (ec_operating_mode_profile cfg = ''live'' \<longrightarrow> ct_live_streams_enabled C \<and> targets \<noteq> [])
       \<and> skipped_test_stream_reason (ct_parse_url C) cfg = None)"
  by (auto simp: desired_config_def skipped_stream_reason_def bind_res_eq_Inr split: if_splits)

lemma mapped_hash:
  assumes "distinct (map ec_stream_config_id cfgs)"
  shows "map_of (hashed L (wanted C cfgs)) i = Some h \<longleftrightarrow>
     (\<exists>r \<in> set (wanted C cfgs). rc_stream_config_id r = i \<and> hash_runtime_config L r = h)"
proof -
  have "distinct (map fst (hashed L (wanted C cfgs)))" using wanted_ids [of C cfgs] assms by (simp add: hashed_def o_def)
  from map_of_eq_Some_iff [OF this] show ?thesis by (auto simp: hashed_def)
qed

text \<open>
  (C32) After a pass that succeeds the table of workers lists a stream exactly if it is among the effective
  configurations and, where its mode is live, live streams are enabled and it has tenants, and where its
  mode is test, no endpoint of it is to be skipped, whether or not it has tenants; and the table has the
  hash of its configuration with its tenants. The effective configurations are those the query returns.
  A worker whose task has ended since it was started stays in the table.
\<close>

theorem reconcile_runs_what_is_stored:
  assumes "ct_effective C = Inr cfgs" "distinct (map ec_stream_config_id cfgs)" "distinct (map fst (sv_workers sv))"
    and "reconcile L C sv = (sv', Inr ())"
  shows "distinct (map fst (sv_workers sv')) \<and>
    (map_of (sv_workers sv') i = Some h \<longleftrightarrow>
      (\<exists>cfg \<in> set cfgs. \<exists>targets. ec_stream_config_id cfg = i
         \<and> resolve_runtime_tenant_targets (ct_targets C) cfg = Inr targets
         \<and> h = hash_runtime_config L (to_runtime_config cfg targets)
         \<and> (ec_operating_mode_profile cfg = ''live'' \<longrightarrow> ct_live_streams_enabled C \<and> targets \<noteq> [])
         \<and> skipped_test_stream_reason (ct_parse_url C) cfg = None))"
proof -
  have id: "rc_stream_config_id (to_runtime_config cfg targets) = ec_stream_config_id cfg" for cfg targets
    by (simp add: to_runtime_config_def)
  have "map_of (sv_workers sv') i = Some h \<longleftrightarrow>
      (\<exists>cfg \<in> set cfgs. \<exists>r. desired_config C cfg = Inr (Some r) \<and> rc_stream_config_id r = i \<and> hash_runtime_config L r = h)"
    using conjunct2 [OF reconciled_workers [OF assms]] mapped_hash [OF assms(2), of L C i h]
    unfolding Bex_def set_wanted by auto
  also have "\<dots> \<longleftrightarrow> (\<exists>cfg \<in> set cfgs. \<exists>targets. ec_stream_config_id cfg = i
         \<and> resolve_runtime_tenant_targets (ct_targets C) cfg = Inr targets
         \<and> h = hash_runtime_config L (to_runtime_config cfg targets)
         \<and> (ec_operating_mode_profile cfg = ''live'' \<longrightarrow> ct_live_streams_enabled C \<and> targets \<noteq> [])
         \<and> skipped_test_stream_reason (ct_parse_url C) cfg = None)"
    unfolding desired_config_iff using id by (intro bex_cong) auto
  finally show ?thesis using reconciled_workers [OF assms] by blast
qed

lemma reconcile_configs_reads_all:
  "reconcile_configs L C cfgs ids sv = (sv', Inr ids') \<Longrightarrow> cfg \<in> set cfgs \<Longrightarrow> \<exists>d. desired_config C cfg = Inr d"
  by (induction cfgs arbitrary: ids sv) (auto split: sum.splits option.splits)

lemma reconcile_configs_keeps:
  assumes "\<And>cfg. cfg \<in> set cfgs \<Longrightarrow> \<exists>d. desired_config C cfg = Inr d"
    and "\<And>r. r \<in> set (wanted C cfgs) \<Longrightarrow> map_of (sv_workers sv) (rc_stream_config_id r) = Some (hash_runtime_config L r)"
  shows "reconcile_configs L C cfgs ids sv = (sv, Inr (ids @ map rc_stream_config_id (wanted C cfgs)))"
  using assms
proof (induction cfgs arbitrary: ids)
  case (Cons cfg cfgs)
  obtain d where d: "desired_config C cfg = Inr d" using Cons.prems(1) by force
  show ?case
  proof (cases d)
    case None
    then show ?thesis using Cons d by simp
  next
    case (Some r)
    then have "run_config L r sv = sv" using Cons.prems(2) [of r] d by (simp add: run_config_def)
    then show ?thesis using Cons d Some by simp
  qed
qed simp

text \<open>
  (C39) A second pass over the same configurations changes nothing: no worker is stopped, started or
  restarted.
\<close>

theorem reconcile_is_idempotent:
  assumes "ct_effective C = Inr cfgs" "distinct (map ec_stream_config_id cfgs)" "distinct (map fst (sv_workers sv))"
    and "reconcile L C sv = (sv', Inr ())"
  shows "reconcile L C sv' = (sv', Inr ())"
proof -
  have map: "map_of (sv_workers sv') = map_of (hashed L (wanted C cfgs))"
    using reconciled_workers [OF assms] by blast
  have "distinct (map fst (hashed L (wanted C cfgs)))" using wanted_ids [of C cfgs] assms(2) by (simp add: hashed_def o_def)
  then have run: "map_of (sv_workers sv') (rc_stream_config_id r) = Some (hash_runtime_config L r)" if "r \<in> set (wanted C cfgs)" for r
    unfolding map using that by (intro map_of_is_SomeI) (auto simp: hashed_def)
  obtain sv1 ids where "reconcile_configs L C cfgs [] sv = (sv1, Inr ids)"
    using assms(1,4) by (auto simp: reconcile_def split: prod.splits sum.splits)
  note read = reconcile_configs_reads_all [OF this]
  have "i \<in> set (map rc_stream_config_id (wanted C cfgs))" if "i \<in> set (map fst (sv_workers sv'))" for i
    using that arg_cong [OF map, of dom] by (auto simp: dom_map_of_conv_image_fst hashed_def)
  then have "filter (\<lambda>i. i \<notin> set (map rc_stream_config_id (wanted C cfgs))) (map fst (sv_workers sv')) = []"
    by (auto simp: filter_empty_conv)
  then show ?thesis using reconcile_configs_keeps [where L = L and ids = "[]", OF read run] assms(1)
    by (simp add: reconcile_def)
qed

section \<open>Samples\<close>

definition two_streams :: catalog where
  "two_streams =
     (let cfg = \<lambda>i mode. \<lparr>ec_stream_config_id = i, ec_source_id = ''s'', ec_source_type = ''evm_chain'', ec_source_name = [],
            ec_source_scope_kind = ''platform'', ec_owner_tenant_id = None, ec_connection_config = JNull,
            ec_connector_mode = ''http_poll'', ec_operating_mode_profile = mode, ec_stream_name = [], ec_subscription_key = None,
            ec_event_type = ''log'', ec_parser_name = ''evm_log_v1'', ec_market_key = None, ec_asset_pair = None,
            ec_filter_config = JNull, ec_auth_secret_ref = None, ec_auth_config = JNull, ec_payload_ts_path = None,
            ec_payload_ts_unit = ''ms'', ec_poll_interval_ms = None\<rparr>
      in \<lparr>ct_effective = Inr [cfg ''a'' ''live'', cfg ''b'' ''live'', cfg ''c'' ''test''],
          ct_targets = (\<lambda>i. Inr (if i = ''b'' then [''t''] else [])), ct_parse_url = (\<lambda>_. None), ct_live_streams_enabled = True\<rparr>)"

definition old_workers :: supervisor where
  "old_workers = \<lparr>sv_workers = [(''z'', ''old''), (''b'', ''old'')], sv_actions = []\<rparr>"

definition id_hash :: worker_libs where
  "id_hash =
     \<lparr>timestamp_millis_opt = Some, timestamp_opt = Some, parse_from_rfc3339 = (\<lambda>_. None), json_to_string = (\<lambda>_. ''new''),
      unicode_uppercase = id, powi_f64 = (\<lambda>_ _. NaN), de_field_mappings = (\<lambda>_. None), ser_field_mappings = (\<lambda>_. JNull),
      pl_u256_hex = (\<lambda>_. None), pl_rfc3339 = (\<lambda>_. []), wl_sha256_hex = id, wl_date = (\<lambda>_. [])\<rparr>"

lemma sample_pass:
  "case ct_effective two_streams of Inl _ \<Rightarrow> False | Inr cfgs \<Rightarrow> distinct (map ec_stream_config_id cfgs) \<and> length (wanted two_streams cfgs) = 2"
  "distinct (map fst (sv_workers old_workers))" "snd (reconcile id_hash two_streams old_workers) = Inr ()"
  by code_simp+

lemma sample_configs:
  "(case ct_effective two_streams of
      Inr cfgs \<Rightarrow> map (\<lambda>cfg. (ec_stream_config_id cfg, ec_operating_mode_profile cfg,
        resolve_runtime_tenant_targets (ct_targets two_streams) cfg, skipped_test_stream_reason (ct_parse_url two_streams) cfg)) cfgs
    | Inl _ \<Rightarrow> [])
   = [(''a'', ''live'', Inr [], None), (''b'', ''live'', Inr [''t''], None), (''c'', ''test'', Inr [], None)]"
  "ct_live_streams_enabled two_streams"
  by code_simp+

lemma sample_hash: "hash_runtime_config id_hash q = ''new''"
  by (simp add: hash_runtime_config_def id_hash_def)

text \<open>The stream without tenants in test mode is listed, the live one is not, and the old worker is gone.\<close>

theorem reconcile_runs_what_is_stored_witness:
  "let sv = fst (reconcile id_hash two_streams old_workers)
   in map_of (sv_workers sv) ''b'' = Some ''new'' \<and> map_of (sv_workers sv) ''c'' = Some ''new''
    \<and> map_of (sv_workers sv) ''a'' = None \<and> map_of (sv_workers sv) ''z'' = None"
proof -
  obtain cfgs where c: "ct_effective two_streams = Inr cfgs" "distinct (map ec_stream_config_id cfgs)"
    using sample_pass(1) by (auto split: sum.splits)
  obtain sv where r: "reconcile id_hash two_streams old_workers = (sv, Inr ())" using sample_pass(3) by (metis prod.collapse)
  obtain x y z where cfgs: "cfgs = [x, y, z]" using sample_configs(1) c(1) by (auto simp: map_eq_Cons_conv)
  note fields = sample_configs(1) [unfolded c(1) cfgs sum.case list.map list.inject prod.inject]
  have "map_of (sv_workers sv) i = Some h \<longleftrightarrow> i \<in> {''b'', ''c''} \<and> h = ''new''" for i h
    using conjunct2 [OF reconcile_runs_what_is_stored [OF c sample_pass(2) r, of i h]] fields sample_configs(2)
    by (auto simp: cfgs sample_hash)
  note listed = this
  have "map_of (sv_workers sv) ''b'' = Some ''new''" "map_of (sv_workers sv) ''c'' = Some ''new''" by (simp_all only: listed) simp_all
  moreover have "map_of (sv_workers sv) i = None" if "i \<notin> {''b'', ''c''}" for i
    using that listed [of i] by (meson not_Some_eq)
  ultimately show ?thesis unfolding r by (simp only: Let_def fst_conv) simp
qed

theorem reconcile_is_idempotent_witness:
  "reconcile id_hash two_streams (fst (reconcile id_hash two_streams old_workers)) = (fst (reconcile id_hash two_streams old_workers), Inr ())"
proof -
  obtain cfgs where c: "ct_effective two_streams = Inr cfgs" "distinct (map ec_stream_config_id cfgs)"
    using sample_pass(1) by (auto split: sum.splits)
  obtain sv where r: "reconcile id_hash two_streams old_workers = (sv, Inr ())" using sample_pass(3) by (metis prod.collapse)
  from reconcile_is_idempotent [OF c sample_pass(2) r] show ?thesis by (simp add: r)
qed

end
