(* ===== verification/Spec2Isabelle.thy ===== *)
theory Spec2Isabelle
  imports CircuitBreaker RiskScorer FieldMapping Pipeline Detector StreamSafety ParserSafety Supervisor
begin

text \<open>
  Verification of raksha-core, a pipeline that watches DeFi markets for attacks and anomalies.

  The pipeline. A supervisor in the indexer runs one worker per configured stream; a worker connects to
  an exchange, an oracle or a chain, parses each payload into a feed event, stores it once and publishes
  it to each of its tenants. The detector gives every published event to five detection patterns, which
  keep state per tenant, rule and subject and emit detections. The finality worker follows the blocks of
  each chain and says when events are confirmed or retracted. The orchestrator turns detections and
  finality updates into alerts with incidents and delivers them through the notifier gateway. Redis
  streams connect the processes, here logs that are only appended to; Postgres stores their state, here
  tables whose statements succeed or fail as a parameter decides.

  Theories and the code they model (paths below \<^verbatim>\<open>src/\<close>). Definitions carry the names of the functions
  they translate; a record has the fields of its struct with a prefix.

  Foundations:
  \<^item> \<open>Prelude\<close>: fallible results, machine-integer ranges, clock values, the string and slice operations
    of Rust's standard library that the sources use, hash maps as association lists, and two locales
    (a machine with an invariant, a machine that refines another) with their induction lemmas.
  \<^item> \<open>F64\<close>: IEEE 754 doubles as exact rationals with one rounding per operation, with parsing and
    evaluation lemmas. Floats are never replaced by reals: every comparison with a threshold is
    the comparison of rounded values the code makes.
  \<^item> \<open>EventSchema\<close>: \<^verbatim>\<open>crates/event-schema/src/lib.rs\<close>, the enums and structs the components exchange, and
    JSON values. \<open>FieldMapping\<close>: \<^verbatim>\<open>crates/event-schema/src/field_mapping.rs\<close>, from raw payload to
    canonical fields, with the correctness of the path evaluator.

  Indexer:
  \<^item> \<open>StreamParser\<close>, \<open>ChainParser\<close>: \<^verbatim>\<open>apps/indexer/src/stream_parser/\<close>, the parsers of exchanges, and those
    of logs, oracles and protocol states. \<open>ParserSafety\<close>: four spellings of a pair have one market key, log
    words are two's complement, and where the symbol of a Binance message replaces a configured market.
  \<^item> \<open>StreamWorker\<close>: \<^verbatim>\<open>apps/indexer/src/stream_worker.rs\<close>, one definition per stage of \<^verbatim>\<open>process_payload\<close> and
    \<open>process_payload\<close> itself, over the tables and the event stream (record \<open>ingest\<close>), and a worker with its
    backoff (\<open>stream_worker_step\<close>). \<open>StreamSafety\<close>: histories of all workers and of the supervisor's purge of
    old quotes and trades (\<open>fleet_step\<close>), with the rows as a log of claimed keys (locale \<open>claimed_log\<close>):
    what is published at most once (quotes and trades only between purges), everything once where
    nothing fails, what a failure loses, and prices in dollars.
  \<^item> \<open>Endpoint\<close>: the address a worker connects to, with the termination of the scan for placeholders.
    \<open>Supervisor\<close>: \<^verbatim>\<open>apps/indexer/src/stream_supervisor.rs\<close>, one reconciliation of its table of workers
    with the stored configurations, its result and its idempotence. A worker whose task has ended stays in
    the table, so the table says what was started and not stopped.

  Detector:
  \<^item> \<open>PatternCommon\<close>: the helpers of \<^verbatim>\<open>apps/detector/src/patterns/mod.rs\<close>, the contract of a pattern with the
    registry as a locale, and the repository of pattern states. \<open>StateCache\<close>: the caches of the patterns.
  \<^item> \<open>DepegPolicy\<close>, \<open>DepegEngine\<close>, \<open>DepegPattern\<close>, \<open>DepegSafety\<close>: \<^verbatim>\<open>apps/detector/src/patterns/depeg.rs\<close>,
    the policy and the weighted median, \<^verbatim>\<open>evaluate_policy\<close> with the incident, the stateful pattern, and what
    holds over histories (life cycle, cooldown, resolution, bounds of the cache, event times).
  \<^item> \<open>TvlPolicy\<close>, \<open>TvlEngine\<close>, \<open>TvlPattern\<close>, \<open>TvlSafety\<close>, \<open>TvlIncidents\<close>: \<^verbatim>\<open>apps/detector/src/patterns/tvl_drop.rs\<close>,
    rules, the window of samples and the severity, the stateful pattern, drops as percentages, the
    language of a rule's announcements, and the justification of alerts.
  \<^item> \<open>UtilEngine\<close>, \<open>UtilPattern\<close>, \<open>UtilSafety\<close>, \<open>UtilIncidents\<close>:
    \<^verbatim>\<open>apps/detector/src/patterns/utilization_high.rs\<close>, rules with hysteresis, the stateful pattern, the
    refinement of an abstract hysteresis machine, and the reach of pauses.
  \<^item> \<open>FlashLoan\<close>, \<open>FlashSafety\<close>: \<^verbatim>\<open>apps/detector/src/patterns/flash_loan.rs\<close> and the cooldown of attackers.
    \<open>GenericRule\<close>, \<open>GenericSafety\<close>: \<^verbatim>\<open>apps/detector/src/patterns/generic_rule.rs\<close>, rules run by a sandbox.
  \<^item> \<open>Registry\<close>: \<^verbatim>\<open>PatternRegistry\<close> with the five patterns side by side; each pattern's contract is interpreted
    there and combined. \<open>Detector\<close>: \<^verbatim>\<open>apps/detector/src/main.rs\<close>, the load of configurations and the loop, with
    the isolation of tenants and of patterns over every history of the process.

  Finality, alerts, and the rest:
  \<^item> \<open>Finality\<close>: \<^verbatim>\<open>crates/state-manager/src/finality.rs\<close> and the handlers of \<^verbatim>\<open>apps/finality/src/main.rs\<close>, with
    the agreement of the engine, fed by the published updates, with the tracker, also where a persisted
    tracker is loaded (argument \<open>load\<close>) and the engine starts empty.
  \<^item> \<open>AlertStore\<close>: the tables of \<^verbatim>\<open>crates/state-manager/src/persistence.rs\<close> the orchestrator uses; \<open>Notifier\<close>:
    \<^verbatim>\<open>crates/notifier/src/lib.rs\<close>, the gateway's client. \<open>Orchestrator\<close>, \<open>OrchestratorSafety\<close>:
    \<^verbatim>\<open>apps/orchestrator/src/main.rs\<close>, its two message loops with all they call, and the quota, the delivery of
    retractions, the transparency of the alert cache and the failures that lose an alert.
  \<^item> \<open>Pipeline\<close>: properties of detector, finality worker and orchestrator together.
  \<^item> \<open>CircuitBreaker\<close>: \<^verbatim>\<open>crates/common/src/circuit_breaker.rs\<close>, its methods as functions and as sequences of single
    accesses by tasks: without overlapping calls a refinement of an abstract three-state machine, and a
    call that overlaps the opening and is let through.
    \<open>RiskScorer\<close>: \<^verbatim>\<open>crates/risk-scorer/src/lib.rs\<close>, range and exactness of the score.

  Bounds and parameters. No definition takes fuel: loops are recursions over the data, and the one scan
  whose end is not structural (\<open>scan_placeholders\<close>) is partial, with a proof that it returns. Limits are the
  constants of the code, such as 2048 markets and 16 quotes per source in the depeg cache and 4096 entries
  in those of the patterns; counters of 32 bits saturate, or are shown not to wrap, as the code has it.
  Clock readings, fresh identifiers, failures of statements and of the gateway, the sandbox's answers and
  the library code the sources call (chrono's parsing and ranges, serde's derived code, SHA-256, the printing
  of floats and Unicode case) are arguments of the definitions. Where a property needs
  one of them to behave, its hypothesis says so and its witness gives an instance. Alerts and detections that
  are stored as \<^verbatim>\<open>jsonb\<close> are read back as they were written (\<open>AlertStore\<close>): their serde code is taken for a
  round trip. The states of the patterns are stored through parameters for their serde code.

  Granularity. A step is one message of a process, so the statements of two processes on the same message
  are not interleaved; messages of several processes and workers are, in every order. Only in the circuit
  breaker are single accesses to shared memory steps.

  Histories. What holds over histories of the detector as a whole is over \<open>detector_step\<close>, with failures,
  reloads and storage. The life cycle, cooldown and resolution of depeg incidents (\<open>depeg_run\<close>) and the
  hysteresis of utilization (\<open>util_machine\<close>) are over sequences of evaluations that hand their state on:
  a state that was not stored, a change of the rules in between, and loading through serde are left out
  there. The quota and the alert cache are over histories whose statements work as far as the properties
  say. In \<open>Pipeline\<close> the worker follows one chain and starts without a persisted tracker.

  Not modelled. The transports of the indexer (\<^verbatim>\<open>apps/indexer/src/stream_connector/\<close> and the loops that read
  them) and the process shells of \<^verbatim>\<open>crates/common\<close> are network and system I/O; the Redis client, stream
  acknowledgements, logging and start-up code likewise. The history worker is an importer over RPC and SQL.
  \<^verbatim>\<open>crates/ingestion\<close> and \<^verbatim>\<open>crates/feature-builder\<close> are used by no application of the workspace, nor are the
  dead letter queue and the correlation engine of \<^verbatim>\<open>crates/state-manager\<close>. Of the repository's statements,
  those of the configuration screens and of the history worker are left out, as are the purges of the raw
  tables and the direct senders of the notifier, which the orchestrator does not use.
\<close>

end
